(* ===== verification/Prelude.thy ===== *)
theory Prelude
  imports Main "HOL-Library.State_Monad" "HOL-Library.Word" "HOL-Library.List_Lexorder" "HOL-Library.Char_ord"
begin

text \<open>
  Shared vocabulary of the development.

  \<^item> Go errors (\<open>goerr\<close>): the sentinel errors, the status errors of the Kubernetes API, and the
    ways the code builds one error from another. \<open>fmt.Errorf\<close> with the verb \<open>%w\<close> keeps the
    cause reachable for \<open>errors.Is\<close> and \<open>errors.As\<close> (\<open>Wrapf\<close>); with the verb \<open>%v\<close> only the
    text of the cause survives (\<open>Opaquef\<close>).
  \<^item> Effects: a handler is a program of the state monad over a \<open>world\<close>, which holds the state
    of everything outside the program (the API server, etcd, the image registry, of an
    arbitrary type \<open>'s\<close>) and the trace of the external calls made so far. \<open>call\<close> is the only
    way to touch the outside.
  \<^item> \<open>wp\<close>: the weakest precondition of such a program, with a simp rule per construct
    (collection \<open>wp_simps\<close>), for claims about one environment; \<open>logs\<close>: what a program returns
    and appends to the trace against every environment (rules in \<open>logs_intros\<close>); \<open>emits\<close>: all
    events a program adds to the trace satisfy a predicate (rules in \<open>emits_intros\<close>).
\<close>

named_theorems wp_simps "unfolding rules of the weakest precondition"
named_theorems logs_intros "symbolic execution of a program against a specification of its trace"
named_theorems emits_intros "introduction rules for the events a program may add"

subsection \<open>Lists\<close>

lemma map_filter_append [simp]: "List.map_filter f (xs @ ys) = List.map_filter f xs @ List.map_filter f ys"
  by (simp add: map_filter_def)

lemma map_filter_Cons [simp]:
  "List.map_filter f (x # xs) = (case f x of None \<Rightarrow> List.map_filter f xs | Some y \<Rightarrow> y # List.map_filter f xs)"
  by (simp add: map_filter_def split: option.splits)

lemma map_filter_Nil [simp]: "List.map_filter f [] = []"
  by (simp add: map_filter_def)

lemma map_filter_None: "\<forall>x \<in> set xs. f x = None \<Longrightarrow> List.map_filter f xs = []"
  by (induction xs) auto

lemma in_map_filter: "y \<in> set (List.map_filter f xs) \<longleftrightarrow> (\<exists>x \<in> set xs. f x = Some y)"
  by (induction xs) (auto split: option.splits)

subsection \<open>Go errors\<close>

datatype api_reason = NotFound | AlreadyExists | Conflict | OtherReason string

datatype goerr =
    ApiStatus api_reason
  | Sentinel string
  | Errorf string
  | Wrapf string goerr
  | Opaquef string goerr
  | Joined "goerr list"
  | Aggregate "goerr list"

type_synonym 'a res = "goerr + 'a"

text \<open>
  \<open>errors.As\<close> for a status error: the first one in a depth-first walk through \<open>%w\<close> wrappers
  and \<open>errors.Join\<close>; an aggregate of apimachinery has no \<open>Unwrap\<close> and hides its members.
\<close>

fun api_status :: "goerr \<Rightarrow> api_reason option"
  and api_status_list :: "goerr list \<Rightarrow> api_reason option" where
  "api_status (ApiStatus r) = Some r"
| "api_status (Wrapf _ e) = api_status e"
| "api_status (Joined es) = api_status_list es"
| "api_status _ = None"
| "api_status_list [] = None"
| "api_status_list (e # es) = (case api_status e of None \<Rightarrow> api_status_list es | Some r \<Rightarrow> Some r)"

definition is_not_found :: "goerr \<Rightarrow> bool" where
  "is_not_found e \<longleftrightarrow> api_status e = Some NotFound"

definition is_already_exists :: "goerr \<Rightarrow> bool" where
  "is_already_exists e \<longleftrightarrow> api_status e = Some AlreadyExists"

definition is_conflict :: "goerr \<Rightarrow> bool" where
  "is_conflict e \<longleftrightarrow> api_status e = Some Conflict"

text \<open>\<open>errors.Is\<close> against a sentinel: it walks wrappers, joins and aggregates, not \<open>%v\<close> text.\<close>

fun err_is :: "string \<Rightarrow> goerr \<Rightarrow> bool" where
  "err_is t (Sentinel s) = (s = t)"
| "err_is t (Wrapf _ e) = err_is t e"
| "err_is t (Joined es) = (\<exists>e \<in> set es. err_is t e)"
| "err_is t (Aggregate es) = (\<exists>e \<in> set es. err_is t e)"
| "err_is t _ = False"

text \<open>\<open>client.IgnoreNotFound\<close> and \<open>kerrors.NewAggregate\<close> on the collected errors.\<close>

definition ignore_not_found :: "goerr \<Rightarrow> goerr option" where
  "ignore_not_found e = (if is_not_found e then None else Some e)"

definition new_aggregate :: "goerr list \<Rightarrow> goerr option" where
  "new_aggregate es = (if es = [] then None else Some (Aggregate es))"

definition errors_join :: "goerr list \<Rightarrow> goerr option" where
  "errors_join es = (if es = [] then None else Some (Joined es))"

lemma is_not_found_simps [simp]:
  "is_not_found (ApiStatus r) \<longleftrightarrow> r = NotFound"
  "is_not_found (Wrapf m e) \<longleftrightarrow> is_not_found e"
  "\<not> is_not_found (Errorf m)" "\<not> is_not_found (Opaquef m e)" "\<not> is_not_found (Sentinel m)"
  by (auto simp: is_not_found_def)

lemma is_already_exists_simps [simp]:
  "is_already_exists (ApiStatus r) \<longleftrightarrow> r = AlreadyExists"
  "is_already_exists (Wrapf m e) \<longleftrightarrow> is_already_exists e"
  "\<not> is_already_exists (Errorf m)"
  by (auto simp: is_already_exists_def)

lemma is_conflict_simps [simp]:
  "is_conflict (ApiStatus r) \<longleftrightarrow> r = Conflict"
  "is_conflict (Wrapf m e) \<longleftrightarrow> is_conflict e"
  "\<not> is_conflict (Errorf m)"
  by (auto simp: is_conflict_def)

lemma new_aggregate_None_iff [simp]: "new_aggregate es = None \<longleftrightarrow> es = []"
  by (simp add: new_aggregate_def)

lemma errors_join_None_iff [simp]: "errors_join es = None \<longleftrightarrow> es = []"
  by (simp add: errors_join_def)

subsection \<open>Reconcile results\<close>

text \<open>\<open>ctrl.Result\<close>; durations are whole seconds.\<close>

record ctrl_result =
  requeue :: bool
  requeueAfter :: nat

definition result_zero :: ctrl_result where
  "result_zero = \<lparr>requeue = False, requeueAfter = 0\<rparr>"

definition requeue_after :: "nat \<Rightarrow> ctrl_result" where
  "requeue_after n = \<lparr>requeue = False, requeueAfter = n\<rparr>"

definition requeue_now_after :: "nat \<Rightarrow> ctrl_result" where
  "requeue_now_after n = \<lparr>requeue = True, requeueAfter = n\<rparr>"

lemma requeue_after_zero_iff [simp]:
  "requeue_after n = result_zero \<longleftrightarrow> n = 0" "result_zero = requeue_after n \<longleftrightarrow> n = 0"
  by (auto simp: requeue_after_def result_zero_def)

lemma requeue_now_after_not_zero [simp]: "requeue_now_after n \<noteq> result_zero"
  by (simp add: requeue_now_after_def result_zero_def)

subsection \<open>Programs over a world with a trace of external calls\<close>

record ('s, 'e) world =
  w_env :: 's
  w_trace :: "'e list"

abbreviation ret :: "'a \<Rightarrow> ('w, 'a) state" where
  "ret \<equiv> State_Monad.return"

definition start :: "'s \<Rightarrow> ('s, 'e) world" where
  "start s = \<lparr>w_env = s, w_trace = []\<rparr>"

text \<open>An external call: the environment computes its answer and its next state; the call is logged.\<close>

definition call :: "('s \<Rightarrow> 'a \<times> 's) \<Rightarrow> ('a \<Rightarrow> 'e) \<Rightarrow> (('s, 'e) world, 'a) state" where
  "call f ev = State (\<lambda>w. case f (w_env w) of (a, s') \<Rightarrow>
     (a, w\<lparr>w_env := s', w_trace := w_trace w @ [ev a]\<rparr>))"

definition emit :: "'e \<Rightarrow> (('s, 'e) world, unit) state" where
  "emit e = State (\<lambda>w. ((), w\<lparr>w_trace := w_trace w @ [e]\<rparr>))"

text \<open>A Go loop that collects one value per element.\<close>

fun for_each :: "('x \<Rightarrow> ('w, 'a) state) \<Rightarrow> 'x list \<Rightarrow> ('w, 'a list) state" where
  "for_each f [] = ret []"
| "for_each f (x # xs) = do { a \<leftarrow> f x; as \<leftarrow> for_each f xs; ret (a # as) }"

text \<open>A Go loop that returns at the first error.\<close>

fun for_each_err :: "('x \<Rightarrow> ('w, goerr option) state) \<Rightarrow> 'x list \<Rightarrow> ('w, goerr option) state" where
  "for_each_err f [] = ret None"
| "for_each_err f (x # xs) = do {
     r \<leftarrow> f x;
     case r of Some e \<Rightarrow> ret (Some e) | None \<Rightarrow> for_each_err f xs }"

definition the_errors :: "goerr option list \<Rightarrow> goerr list" where
  "the_errors rs = List.map_filter id rs"

lemma the_errors_simps [simp]:
  "the_errors [] = []" "the_errors (None # rs) = the_errors rs"
  "the_errors (Some e # rs) = e # the_errors rs"
  by (simp_all add: the_errors_def)

lemma the_errors_Nil_iff: "the_errors rs = [] \<longleftrightarrow> (\<forall>r \<in> set rs. r = None)"
proof (induction rs)
  case (Cons r rs)
  then show ?case by (cases r) auto
qed simp

subsection \<open>Weakest preconditions\<close>

definition wp :: "('w, 'a) state \<Rightarrow> ('a \<Rightarrow> 'w \<Rightarrow> bool) \<Rightarrow> 'w \<Rightarrow> bool" where
  "wp m Q w \<longleftrightarrow> (case run_state m w of (a, w') \<Rightarrow> Q a w')"

lemma wp_return [wp_simps]: "wp (ret a) Q w \<longleftrightarrow> Q a w"
  by (simp add: wp_def)

lemma wp_bind [wp_simps]: "wp (State_Monad.bind m f) Q w \<longleftrightarrow> wp m (\<lambda>a. wp (f a) Q) w"
  by (simp add: wp_def split: prod.splits)

lemma wp_call [wp_simps]:
  "wp (call f ev) Q w \<longleftrightarrow>
    (case f (w_env w) of (a, s') \<Rightarrow> Q a (w\<lparr>w_env := s', w_trace := w_trace w @ [ev a]\<rparr>))"
  by (simp add: wp_def call_def split: prod.splits)

lemma wp_emit [wp_simps]: "wp (emit e) Q w \<longleftrightarrow> Q () (w\<lparr>w_trace := w_trace w @ [e]\<rparr>)"
  by (simp add: wp_def emit_def)

lemma wp_if [wp_simps]: "wp (if b then m else n) Q w \<longleftrightarrow> (if b then wp m Q w else wp n Q w)"
  by simp

lemma wp_case_sum [wp_simps]:
  "wp (case x of Inl a \<Rightarrow> f a | Inr b \<Rightarrow> g b) Q w \<longleftrightarrow>
    (case x of Inl a \<Rightarrow> wp (f a) Q w | Inr b \<Rightarrow> wp (g b) Q w)"
  by (simp split: sum.splits)

lemma wp_case_option [wp_simps]:
  "wp (case x of None \<Rightarrow> m | Some b \<Rightarrow> g b) Q w \<longleftrightarrow>
    (case x of None \<Rightarrow> wp m Q w | Some b \<Rightarrow> wp (g b) Q w)"
  by (simp split: option.splits)

lemma wp_case_prod [wp_simps]:
  "wp (case x of (a, b) \<Rightarrow> f a b) Q w \<longleftrightarrow> (case x of (a, b) \<Rightarrow> wp (f a b) Q w)"
  by (simp split: prod.splits)

lemma wp_case_list [wp_simps]:
  "wp (case x of [] \<Rightarrow> m | a # b \<Rightarrow> f a b) Q w \<longleftrightarrow> (case x of [] \<Rightarrow> wp m Q w | a # b \<Rightarrow> wp (f a b) Q w)"
  by (simp split: list.splits)

lemma wp_let [wp_simps]: "wp (let x = v in f x) Q w \<longleftrightarrow> (let x = v in wp (f x) Q w)"
  by (simp add: Let_def)

lemma wp_mono: "wp m Q' w \<Longrightarrow> (\<And>a w'. Q' a w' \<Longrightarrow> Q a w') \<Longrightarrow> wp m Q w"
  by (auto simp: wp_def split: prod.splits)

lemma wp_conj: "wp m Q w \<Longrightarrow> wp m Q' w \<Longrightarrow> wp m (\<lambda>a w'. Q a w' \<and> Q' a w') w"
  by (auto simp: wp_def split: prod.splits)

lemma wp_run: "wp m Q w \<longleftrightarrow> (\<forall>a w'. run_state m w = (a, w') \<longrightarrow> Q a w')"
  by (auto simp: wp_def split: prod.splits)

lemma wpD: "wp m Q w \<Longrightarrow> run_state m w = (a, w') \<Longrightarrow> Q a w'"
  by (simp add: wp_run)

lemma wp_trivial: "(\<And>a w'. Q a w') \<Longrightarrow> wp m Q w"
  by (simp add: wp_run)

subsection \<open>Trace specifications\<close>

text \<open>
  \<open>logs m Q\<close>: whatever the world answers, a run of \<open>m\<close> that returns \<open>a\<close> appends a list
  \<open>evs\<close> of events to the trace with \<open>Q a evs\<close>. The introduction rules \<open>logs_intros\<close> execute a
  program symbolically, with an arbitrary answer for every external call.
\<close>

definition logs :: "(('s, 'e) world, 'a) state \<Rightarrow> ('a \<Rightarrow> 'e list \<Rightarrow> bool) \<Rightarrow> bool" where
  "logs m Q \<longleftrightarrow> (\<forall>w. \<exists>evs. w_trace (snd (run_state m w)) = w_trace w @ evs \<and> Q (fst (run_state m w)) evs)"

lemma logs_return [logs_intros]: "Q a [] \<Longrightarrow> logs (ret a) Q"
  by (simp add: logs_def)

lemma logs_call [logs_intros]: "(\<And>a. Q a [ev a]) \<Longrightarrow> logs (call f ev) Q"
  by (auto simp: logs_def call_def split: prod.splits)

lemma logs_emit [logs_intros]: "Q () [e] \<Longrightarrow> logs (emit e) Q"
  by (simp add: logs_def emit_def)

lemma logs_bind:
  fixes m :: "(('s, 'e) world, 'a) state"
  assumes "logs m R" and "\<And>a evs. R a evs \<Longrightarrow> logs (f a) (\<lambda>b evs'. Q b (evs @ evs'))"
  shows "logs (State_Monad.bind m f) Q"
  unfolding logs_def
proof
  fix w :: "('s, 'e) world"
  obtain a w' where m: "run_state m w = (a, w')" by force
  obtain evs where 1: "w_trace w' = w_trace w @ evs" "R a evs"
    using assms(1) m unfolding logs_def by (metis fst_conv snd_conv)
  obtain evs' where "w_trace (snd (run_state (f a) w')) = w_trace w' @ evs'"
    "Q (fst (run_state (f a) w')) (evs @ evs')"
    using assms(2) [OF 1(2)] unfolding logs_def by blast
  with 1 m show "\<exists>evs. w_trace (snd (run_state (State_Monad.bind m f) w)) = w_trace w @ evs
      \<and> Q (fst (run_state (State_Monad.bind m f) w)) evs"
    by (intro exI [of _ "evs @ evs'"]) simp
qed

lemma logs_call_bind:
  "(\<And>a. logs (k a) (\<lambda>b evs. Q b (ev a # evs))) \<Longrightarrow> logs (State_Monad.bind (call f ev) k) Q"
  by (rule logs_bind [where R = "\<lambda>a evs. evs = [ev a]"]) (auto intro: logs_intros)

lemma logs_emit_bind:
  "logs (k ()) (\<lambda>b evs. Q b (e # evs)) \<Longrightarrow> logs (State_Monad.bind (emit e) k) Q"
  by (rule logs_bind [where R = "\<lambda>a evs. evs = [e]"]) (auto intro: logs_intros)

lemma return_bind_prog [simp]: "State_Monad.bind (ret a) f = f a"
  by (rule state.expand) (simp add: fun_eq_iff)

lemma bind_assoc_prog [simp]:
  "State_Monad.bind (State_Monad.bind m f) g = State_Monad.bind m (\<lambda>a. State_Monad.bind (f a) g)"
  by (rule state.expand) (auto simp: fun_eq_iff split: prod.splits)

lemmas prog_simps = bind_assoc_prog return_bind_prog

lemma logs_if [logs_intros]: "(b \<Longrightarrow> logs m Q) \<Longrightarrow> (\<not> b \<Longrightarrow> logs n Q) \<Longrightarrow> logs (if b then m else n) Q"
  by simp

lemma logs_case_sum [logs_intros]:
  "(\<And>a. x = Inl a \<Longrightarrow> logs (f a) Q) \<Longrightarrow> (\<And>b. x = Inr b \<Longrightarrow> logs (g b) Q) \<Longrightarrow>
    logs (case x of Inl a \<Rightarrow> f a | Inr b \<Rightarrow> g b) Q"
  by (auto split: sum.splits)

lemma logs_case_option [logs_intros]:
  "(x = None \<Longrightarrow> logs m Q) \<Longrightarrow> (\<And>b. x = Some b \<Longrightarrow> logs (g b) Q) \<Longrightarrow>
    logs (case x of None \<Rightarrow> m | Some b \<Rightarrow> g b) Q"
  by (auto split: option.splits)

lemma logs_case_prod [logs_intros]:
  "(\<And>a b. x = (a, b) \<Longrightarrow> logs (f a b) Q) \<Longrightarrow> logs (case x of (a, b) \<Rightarrow> f a b) Q"
  by (auto split: prod.splits)

lemma logs_case_list [logs_intros]:
  "(x = [] \<Longrightarrow> logs m Q) \<Longrightarrow> (\<And>a b. x = a # b \<Longrightarrow> logs (f a b) Q) \<Longrightarrow>
    logs (case x of [] \<Rightarrow> m | a # b \<Rightarrow> f a b) Q"
  by (auto split: list.splits)

lemma logs_let [logs_intros]: "logs (f v) Q \<Longrightarrow> logs (let x = v in f x) Q"
  by (simp add: Let_def)

lemma logs_mono: "logs m R \<Longrightarrow> (\<And>a evs. R a evs \<Longrightarrow> Q a evs) \<Longrightarrow> logs m Q"
  unfolding logs_def by blast

lemma logs_conj:
  assumes "logs m R" and "logs m Q"
  shows "logs m (\<lambda>a evs. R a evs \<and> Q a evs)"
  unfolding logs_def
proof
  fix w
  obtain evs evs' where "w_trace (snd (run_state m w)) = w_trace w @ evs" "R (fst (run_state m w)) evs"
    "w_trace (snd (run_state m w)) = w_trace w @ evs'" "Q (fst (run_state m w)) evs'"
    using assms unfolding logs_def by blast
  then show "\<exists>evs. w_trace (snd (run_state m w)) = w_trace w @ evs
      \<and> R (fst (run_state m w)) evs \<and> Q (fst (run_state m w)) evs" by auto
qed

lemma logsD:
  assumes "logs m Q" and "run_state m w = (a, w')"
  shows "\<exists>evs. w_trace w' = w_trace w @ evs \<and> Q a evs"
  using assms unfolding logs_def by (metis fst_conv snd_conv)

lemma logs_start:
  assumes "logs m Q" and "run_state m (start s) = (a, w')"
  shows "Q a (w_trace w')"
  using logsD [OF assms] by (auto simp: start_def)

subsection \<open>Event effects\<close>

text \<open>\<open>emits P m\<close>: whatever the world, \<open>m\<close> only appends events satisfying \<open>P\<close> to the trace.\<close>

definition emits :: "('e \<Rightarrow> bool) \<Rightarrow> (('s, 'e) world, 'a) state \<Rightarrow> bool" where
  "emits P m \<longleftrightarrow> logs m (\<lambda>a evs. list_all P evs)"

lemma emits_return [emits_intros]: "emits P (ret a)"
  by (simp add: emits_def logs_intros)

lemma emits_bind [emits_intros]:
  "emits P m \<Longrightarrow> (\<And>a. emits P (f a)) \<Longrightarrow> emits P (State_Monad.bind m f)"
  unfolding emits_def by (rule logs_bind) (auto elim: logs_mono)

lemma emits_call [emits_intros]: "(\<And>a. P (ev a)) \<Longrightarrow> emits P (call f ev)"
  by (simp add: emits_def logs_call)

lemma emits_emit [emits_intros]: "P e \<Longrightarrow> emits P (emit e)"
  by (simp add: emits_def logs_emit)

lemma emits_if [emits_intros]: "(b \<Longrightarrow> emits P m) \<Longrightarrow> (\<not> b \<Longrightarrow> emits P n) \<Longrightarrow> emits P (if b then m else n)"
  by simp

lemma emits_case_sum [emits_intros]:
  "(\<And>a. x = Inl a \<Longrightarrow> emits P (f a)) \<Longrightarrow> (\<And>b. x = Inr b \<Longrightarrow> emits P (g b)) \<Longrightarrow>
    emits P (case x of Inl a \<Rightarrow> f a | Inr b \<Rightarrow> g b)"
  by (auto split: sum.splits)

lemma emits_case_option [emits_intros]:
  "(x = None \<Longrightarrow> emits P m) \<Longrightarrow> (\<And>b. x = Some b \<Longrightarrow> emits P (g b)) \<Longrightarrow>
    emits P (case x of None \<Rightarrow> m | Some b \<Rightarrow> g b)"
  by (auto split: option.splits)

lemma emits_case_prod [emits_intros]:
  "(\<And>a b. x = (a, b) \<Longrightarrow> emits P (f a b)) \<Longrightarrow> emits P (case x of (a, b) \<Rightarrow> f a b)"
  by (auto split: prod.splits)

lemma emits_case_list [emits_intros]:
  "(x = [] \<Longrightarrow> emits P m) \<Longrightarrow> (\<And>a b. x = a # b \<Longrightarrow> emits P (f a b)) \<Longrightarrow>
    emits P (case x of [] \<Rightarrow> m | a # b \<Rightarrow> f a b)"
  by (auto split: list.splits)

lemma emits_let [emits_intros]: "emits P (f v) \<Longrightarrow> emits P (let x = v in f x)"
  by (simp add: Let_def)

lemma emits_for_each [emits_intros]: "(\<And>x. emits P (f x)) \<Longrightarrow> emits P (for_each f xs)"
  by (induction xs) (auto intro!: emits_intros)

lemma emits_for_each_err [emits_intros]: "(\<And>x. emits P (f x)) \<Longrightarrow> emits P (for_each_err f xs)"
  by (induction xs) (auto intro!: emits_intros split: option.splits)

lemma emits_mono: "emits P m \<Longrightarrow> (\<And>e. P e \<Longrightarrow> Q e) \<Longrightarrow> emits Q m"
  unfolding emits_def by (auto elim!: logs_mono simp: list_all_iff)

lemma emits_logs: "emits P m \<Longrightarrow> logs m (\<lambda>a evs. \<forall>e \<in> set evs. P e)"
  by (simp add: emits_def list_all_iff)

lemma emits_logsI: "logs m (\<lambda>a evs. \<forall>e \<in> set evs. P e) \<Longrightarrow> emits P m"
  by (simp add: emits_def list_all_iff)

lemma emits_start:
  assumes "emits P m" and "run_state m (start s) = (a, w')" and "e \<in> set (w_trace w')"
  shows "P e"
  using logs_start [OF emits_logs [OF assms(1)] assms(2)] assms(3) by blast

end
