(* ===== verification/GoLib.thy ===== *)
theory GoLib
  imports Prelude
begin

text \<open>
  The parts of the Go standard library and of apimachinery's \<open>unstructured\<close> helpers that the
  program computes with: the functions of package \<open>strings\<close> on byte strings, decimal printing,
  and JSON-like values with access along a path of field names.
\<close>

subsection \<open>Package strings\<close>

definition has_prefix :: "string \<Rightarrow> string \<Rightarrow> bool" where
  "has_prefix s p \<longleftrightarrow> take (length p) s = p"

definition has_suffix :: "string \<Rightarrow> string \<Rightarrow> bool" where
  "has_suffix s p \<longleftrightarrow> has_prefix (rev s) (rev p)"

definition trim_prefix :: "string \<Rightarrow> string \<Rightarrow> string" where
  "trim_prefix s p = (if has_prefix s p then drop (length p) s else s)"

definition trim_suffix :: "string \<Rightarrow> string \<Rightarrow> string" where
  "trim_suffix s p = (if has_suffix s p then take (length s - length p) s else s)"

fun str_contains :: "string \<Rightarrow> string \<Rightarrow> bool" where
  "str_contains [] sub = (sub = [])"
| "str_contains (c # s) sub = (has_prefix (c # s) sub \<or> str_contains s sub)"

text \<open>\<open>strings.Split\<close> and \<open>strings.SplitN(s, sep, 2)\<close> for a separator of one byte.\<close>

fun str_split :: "char \<Rightarrow> string \<Rightarrow> string list" where
  "str_split c [] = [[]]"
| "str_split c (x # s) =
    (if x = c then [] # str_split c s
     else (case str_split c s of [] \<Rightarrow> [[x]] | p # ps \<Rightarrow> (x # p) # ps))"

fun str_split2 :: "char \<Rightarrow> string \<Rightarrow> string list" where
  "str_split2 c [] = [[]]"
| "str_split2 c (x # s) =
    (if x = c then [[], s]
     else (case str_split2 c s of [] \<Rightarrow> [[x]] | p # ps \<Rightarrow> (x # p) # ps))"

fun str_join :: "string \<Rightarrow> string list \<Rightarrow> string" where
  "str_join sep [] = []"
| "str_join sep [p] = p"
| "str_join sep (p # q # ps) = p @ sep @ str_join sep (q # ps)"

definition last_index :: "string \<Rightarrow> char \<Rightarrow> nat option" where
  "last_index s c = (if c \<in> set s then Some (length s - 1 - length (takeWhile (\<lambda>x. x \<noteq> c) (rev s))) else None)"

definition replace_all :: "char \<Rightarrow> string \<Rightarrow> string \<Rightarrow> string" where
  "replace_all c r s = concat (List.map (\<lambda>x. if x = c then r else [x]) s)"

definition is_space :: "char \<Rightarrow> bool" where
  "is_space c \<longleftrightarrow> c \<in> {CHR '' '', CHR 0x09, CHR 0x0A, CHR 0x0B, CHR 0x0C, CHR 0x0D}"

definition trim_space :: "string \<Rightarrow> string" where
  "trim_space s = rev (dropWhile is_space (rev (dropWhile is_space s)))"

lemma has_prefix_append [simp]: "has_prefix (p @ s) p"
  by (simp add: has_prefix_def)

lemma has_prefix_Nil [simp]: "has_prefix s []"
  by (simp add: has_prefix_def)

lemma has_prefix_Cons [simp]: "has_prefix (c # s) (d # p) \<longleftrightarrow> c = d \<and> has_prefix s p"
  by (auto simp: has_prefix_def)

lemma not_has_prefix_Nil [simp]: "has_prefix [] (d # p) \<longleftrightarrow> False"
  by (simp add: has_prefix_def)

lemma has_prefix_iff: "has_prefix s p \<longleftrightarrow> (\<exists>r. s = p @ r)"
  by (metis append_take_drop_id has_prefix_append has_prefix_def)

lemma has_suffix_append [simp]: "has_suffix (s @ p) p"
  by (simp add: has_suffix_def)

lemma has_suffix_iff: "has_suffix s p \<longleftrightarrow> (\<exists>r. s = r @ p)"
  unfolding has_suffix_def has_prefix_iff by (metis rev_append rev_rev_ident)

lemma trim_prefix_append [simp]: "trim_prefix (p @ s) p = s"
  by (simp add: trim_prefix_def)

lemma trim_suffix_append [simp]: "trim_suffix (s @ p) p = s"
  by (simp add: trim_suffix_def)

lemma str_split_not_Nil [simp]: "str_split c s \<noteq> []"
  by (cases s) (auto split: list.splits)

lemma str_split2_not_Nil [simp]: "str_split2 c s \<noteq> []"
  by (cases s) (auto split: list.splits)

lemma str_join_Cons: "ps \<noteq> [] \<Longrightarrow> str_join sep (p # ps) = p @ sep @ str_join sep ps"
  by (cases ps) auto

lemma str_join_Cons_hd: "str_join sep ((x # p) # ps) = x # str_join sep (p # ps)"
  by (cases ps) auto

lemma str_join_split: "str_join [c] (str_split c s) = s"
proof (induction s)
  case (Cons x s)
  show ?case
  proof (cases "str_split c s")
    case Nil
    then show ?thesis by simp
  next
    case (Cons p ps)
    with Cons.IH show ?thesis
      using str_join_Cons [of "str_split c s" "[c]" "[]"] by (auto simp: str_join_Cons_hd)
  qed
qed simp

lemma str_split_parts: "p \<in> set (str_split c s) \<Longrightarrow> c \<notin> set p"
proof (induction s arbitrary: p)
  case (Cons x s)
  show ?case
  proof (cases "str_split c s")
    case Nil
    then show ?thesis by simp
  next
    case (Cons q qs)
    with Cons.prems Cons.IH [of q] Cons.IH [of p] show ?thesis by (auto split: if_splits)
  qed
qed simp

lemma str_split_no_sep: "c \<notin> set s \<Longrightarrow> str_split c s = [s]"
  by (induction s) auto

lemma str_split_append: "c \<notin> set p \<Longrightarrow> str_split c (p @ c # s) = p # str_split c s"
  by (induction p) auto

lemma str_split2_no_sep: "c \<notin> set s \<Longrightarrow> str_split2 c s = [s]"
  by (induction s) auto

lemma str_split2_append: "c \<notin> set p \<Longrightarrow> str_split2 c (p @ c # s) = [p, s]"
  by (induction p) auto

lemma replace_all_id: "c \<notin> set s \<Longrightarrow> replace_all c r s = s"
  by (induction s) (auto simp: replace_all_def)

lemma last_index_append:
  assumes "c \<notin> set t"
  shows "last_index (s @ c # t) c = Some (length s)"
proof -
  have "takeWhile (\<lambda>x. x \<noteq> c) (rev t @ c # rev s) = rev t"
    using assms by (subst takeWhile_append2) auto
  then show ?thesis by (simp add: last_index_def)
qed

lemma last_index_None [simp]: "last_index s c = None \<longleftrightarrow> c \<notin> set s"
  by (simp add: last_index_def)

text \<open>Decimal printing (verb \<open>%d\<close>) of non-negative and of signed integers.\<close>

definition digit_char :: "nat \<Rightarrow> char" where
  "digit_char d = char_of (48 + d)"

fun dec_nat :: "nat \<Rightarrow> string" where
  "dec_nat n = (if n < 10 then [digit_char n] else dec_nat (n div 10) @ [digit_char (n mod 10)])"

declare dec_nat.simps [simp del]

definition dec_int :: "int \<Rightarrow> string" where
  "dec_int i = (if i < 0 then CHR ''-'' # dec_nat (nat (- i)) else dec_nat (nat i))"

definition is_digit :: "char \<Rightarrow> bool" where
  "is_digit c \<longleftrightarrow> (of_char c :: nat) \<in> {48..57}"

definition digit_val :: "char \<Rightarrow> nat" where
  "digit_val c = (of_char c :: nat) - 48"

definition nat_of_digits :: "string \<Rightarrow> nat" where
  "nat_of_digits = foldl (\<lambda>n c. 10 * n + digit_val c) 0"

lemma digit_char_props [simp]:
  assumes "d < 10"
  shows "is_digit (digit_char d)" "digit_val (digit_char d) = d"
  using assms by (simp_all add: is_digit_def digit_val_def digit_char_def)

lemma digit_chars [simp]:
  "digit_char 0 = CHR ''0''" "digit_char 1 = CHR ''1''" "digit_char (Suc 0) = CHR ''1''" "digit_char 2 = CHR ''2''"
  "digit_char 3 = CHR ''3''" "digit_char 4 = CHR ''4''" "digit_char 5 = CHR ''5''" "digit_char 6 = CHR ''6''"
  "digit_char 7 = CHR ''7''" "digit_char 8 = CHR ''8''" "digit_char 9 = CHR ''9''"
  by (simp_all add: digit_char_def char_of_def bit_Suc_0_iff)

lemma nat_of_digits_dec_nat [simp]: "nat_of_digits (dec_nat n) = n"
proof (induction n rule: dec_nat.induct)
  case (1 n)
  then show ?case
    by (subst dec_nat.simps) (auto simp: nat_of_digits_def)
qed

lemma dec_nat_not_Nil [simp]: "dec_nat n \<noteq> []"
  by (subst dec_nat.simps) simp

lemma dec_nat_digits: "c \<in> set (dec_nat n) \<Longrightarrow> is_digit c"
proof (induction n rule: dec_nat.induct)
  case (1 n)
  then show ?case by (subst (asm) (2) dec_nat.simps) (auto split: if_splits)
qed

lemma dec_nat_inject: "dec_nat m = dec_nat n \<longleftrightarrow> m = n"
  by (metis nat_of_digits_dec_nat)

subsection \<open>Unstructured values\<close>

text \<open>A number that is not an integer of at most 53 bits is kept as its literal.\<close>

datatype json = JNull | JBool bool | JInt int | JNum string | JStr string | JArr "json list"
  | JObj "(string \<times> json) list"

text \<open>A Go map keyed by strings, as an association list: assignment replaces in place or appends.\<close>

fun obj_put :: "string \<Rightarrow> 'v \<Rightarrow> (string \<times> 'v) list \<Rightarrow> (string \<times> 'v) list" where
  "obj_put k v [] = [(k, v)]"
| "obj_put k v ((k', v') # m) = (if k' = k then (k, v) # m else (k', v') # obj_put k v m)"

fun obj_del :: "string \<Rightarrow> (string \<times> 'v) list \<Rightarrow> (string \<times> 'v) list" where
  "obj_del k [] = []"
| "obj_del k ((k', v') # m) = (if k' = k then obj_del k m else (k', v') # obj_del k m)"

lemma map_of_obj_put [simp]: "map_of (obj_put k v m) = (map_of m)(k \<mapsto> v)"
  by (induction m) (auto simp: fun_eq_iff)

lemma map_of_obj_del [simp]: "map_of (obj_del k m) = (map_of m)(k := None)"
  by (induction m) (auto simp: fun_eq_iff)

lemma obj_put_keys: "fst ` set (obj_put k v m) = insert k (fst ` set m)"
  by (induction k v m rule: obj_put.induct) (simp_all add: insert_commute)

lemma distinct_obj_put: "distinct (List.map fst m) \<Longrightarrow> distinct (List.map fst (obj_put k v m))"
proof (induction m)
  case (Cons p m)
  then show ?case using obj_put_keys [of k v m] by (cases p) auto
qed simp

text \<open>
  \<open>unstructured.NestedFieldNoCopy\<close> and its typed variants with the \<open>found\<close> and error results
  dropped, as every caller here drops them: a missing or mistyped field reads as the zero value.
\<close>

fun nested_field :: "string list \<Rightarrow> json \<Rightarrow> json option" where
  "nested_field [] v = Some v"
| "nested_field (k # ks) (JObj m) = (case map_of m k of None \<Rightarrow> None | Some v \<Rightarrow> nested_field ks v)"
| "nested_field (k # ks) _ = None"

definition nested_string :: "string list \<Rightarrow> json \<Rightarrow> string" where
  "nested_string ks v = (case nested_field ks v of Some (JStr s) \<Rightarrow> s | _ \<Rightarrow> [])"

definition nested_bool :: "string list \<Rightarrow> json \<Rightarrow> bool" where
  "nested_bool ks v = (case nested_field ks v of Some (JBool b) \<Rightarrow> b | _ \<Rightarrow> False)"

definition nested_int :: "string list \<Rightarrow> json \<Rightarrow> int" where
  "nested_int ks v = (case nested_field ks v of Some (JInt i) \<Rightarrow> i | _ \<Rightarrow> 0)"

definition nested_slice :: "string list \<Rightarrow> json \<Rightarrow> json list" where
  "nested_slice ks v = (case nested_field ks v of Some (JArr xs) \<Rightarrow> xs | _ \<Rightarrow> [])"

text \<open>\<open>unstructured.SetNestedField\<close>: creates missing objects on the way, fails on a non-object.\<close>

fun set_nested_field :: "json \<Rightarrow> string list \<Rightarrow> json \<Rightarrow> json option" where
  "set_nested_field x [] v = None"
| "set_nested_field x [k] (JObj m) = Some (JObj (obj_put k x m))"
| "set_nested_field x (k # k' # ks) (JObj m) =
    (case set_nested_field x (k' # ks) (case map_of m k of None \<Rightarrow> JObj [] | Some v \<Rightarrow> v) of
       None \<Rightarrow> None | Some v' \<Rightarrow> Some (JObj (obj_put k v' m)))"
| "set_nested_field x (k # ks) _ = None"

text \<open>The same with the error ignored: the value stays as it is.\<close>

definition set_nested_ignore :: "json \<Rightarrow> string list \<Rightarrow> json \<Rightarrow> json" where
  "set_nested_ignore x ks v = (case set_nested_field x ks v of None \<Rightarrow> v | Some v' \<Rightarrow> v')"

lemma nested_field_set_nested:
  "set_nested_field x ks v = Some v' \<Longrightarrow> nested_field ks v' = Some x"
  by (induction x ks v arbitrary: v' rule: set_nested_field.induct) (auto split: option.splits)

end
