(* ===== verification/ApiTypes.thy ===== *)
theory ApiTypes
  imports GoLib
begin

text \<open>
  The API objects of the program. The types of this repository (\<open>controlplane/api/v1alpha3\<close>,
  \<open>bootstrap/api/v1alpha2\<close>) have one record field per struct field. Of the objects of
  Kubernetes, Cluster API, Hive and OpenShift, only the fields the program reads or writes are
  kept. A nilable pointer is an \<open>option\<close>, a Go map a finite map or an association list, and a
  value of a third-party type that the program only copies or compares is \<open>opaque\<close>: its
  serialised form.

  Not kept: timestamps of conditions, resource versions, and managed fields.
\<close>

type_synonym labels = "string \<rightharpoonup> string"
type_synonym opaque = string
type_synonym bytes = string
type_synonym int32 = "32 word"
type_synonym uint64 = "64 word"

subsection \<open>Metadata, references, conditions\<close>

record owner_ref =
  or_apiVersion :: string
  or_kind :: string
  or_name :: string
  or_uid :: string
  or_controller :: "bool option"

record object_meta =
  m_name :: string
  m_namespace :: string
  m_uid :: string
  m_labels :: labels
  m_annotations :: labels
  m_ownerReferences :: "owner_ref list"
  m_finalizers :: "string list"
  m_generation :: int
  m_creationTimestamp :: int
  m_deletionTimestamp :: "int option"

definition empty_meta :: object_meta where
  "empty_meta = \<lparr>m_name = [], m_namespace = [], m_uid = [], m_labels = Map.empty, m_annotations = Map.empty,
     m_ownerReferences = [], m_finalizers = [], m_generation = 0, m_creationTimestamp = 0,
     m_deletionTimestamp = None\<rparr>"

text \<open>The annotation in which Cluster API keeps the older version of a converted object.\<close>

definition DataAnnotation :: string where "DataAnnotation = ''cluster.x-k8s.io/conversion-data''"

text \<open>\<open>ContractVersionedObjectReference\<close> and \<open>corev1.ObjectReference\<close>.\<close>

record contract_ref =
  cr_apiGroup :: string
  cr_kind :: string
  cr_name :: string

definition empty_ref :: contract_ref where
  "empty_ref = \<lparr>cr_apiGroup = [], cr_kind = [], cr_name = []\<rparr>"

datatype cond_status = CTrue | CFalse | CUnknown

record condition =
  c_type :: string
  c_status :: cond_status
  c_reason :: string
  c_message :: string
  c_observedGeneration :: int

definition mk_condition :: "string \<Rightarrow> cond_status \<Rightarrow> string \<Rightarrow> string \<Rightarrow> condition" where
  "mk_condition t s r m = \<lparr>c_type = t, c_status = s, c_reason = r, c_message = m, c_observedGeneration = 0\<rparr>"

text \<open>The conditions of the v1beta1 contract, which also have a severity.\<close>

record v1_condition =
  vc_type :: string
  vc_status :: cond_status
  vc_severity :: string
  vc_reason :: string
  vc_message :: string

subsection \<open>TOML trees\<close>

text \<open>The values of a TOML tree the program looks at; every other value is opaque.\<close>

datatype toml = TomlString string | TomlBool bool | TomlTrees "(string \<times> toml) list list" | TomlOther opaque

subsection \<open>Bootstrap API, v1alpha2\<close>

record node_registration =
  nr_name :: string
  nr_kubeletExtraLabels :: "string list"
  nr_providerID :: string

record oac_spec =
  oac_proxy :: "opaque option"
  oac_pullSecretRef :: "string option"
  oac_additionalNTPSources :: "string list"
  oac_sshAuthorizedKey :: string
  oac_nmStateConfigLabelSelector :: opaque
  oac_cpuArchitecture :: string
  oac_kernelArguments :: "(string \<times> string) list"
  oac_installerArgs :: "string list"
  oac_additionalTrustBundle :: string
  oac_osImageVersion :: string
  oac_preBootstrapCommands :: "string list"
  oac_postBootstrapCommands :: "string list"
  oac_bootstrapCommandSentinelDir :: string
  oac_postBootstrapKubeconfigPath :: string
  oac_nodeRegistration :: node_registration

record oac_status =
  oacs_conditions :: "condition list"
  oacs_dataSecretCreated :: "bool option"
  oacs_dataSecretName :: string
  oacs_observedGeneration :: int
  oacs_v1beta1Conditions :: "v1_condition list"

record oac =
  oac_meta :: object_meta
  oac_spec :: oac_spec
  oac_status :: oac_status

definition empty_node_registration :: node_registration where
  "empty_node_registration = \<lparr>nr_name = [], nr_kubeletExtraLabels = [], nr_providerID = []\<rparr>"

definition empty_oac_spec :: oac_spec where
  "empty_oac_spec = \<lparr>oac_proxy = None, oac_pullSecretRef = None, oac_additionalNTPSources = [],
     oac_sshAuthorizedKey = [], oac_nmStateConfigLabelSelector = [], oac_cpuArchitecture = [],
     oac_kernelArguments = [], oac_installerArgs = [], oac_additionalTrustBundle = [],
     oac_osImageVersion = [], oac_preBootstrapCommands = [], oac_postBootstrapCommands = [],
     oac_bootstrapCommandSentinelDir = [], oac_postBootstrapKubeconfigPath = [],
     oac_nodeRegistration = empty_node_registration\<rparr>"

definition empty_oac_status :: oac_status where
  "empty_oac_status = \<lparr>oacs_conditions = [], oacs_dataSecretCreated = None, oacs_dataSecretName = [],
     oacs_observedGeneration = 0, oacs_v1beta1Conditions = []\<rparr>"

subsection \<open>Control plane API, v1alpha3\<close>

record deletion_spec =
  del_nodeDrainTimeoutSeconds :: "int32 option"
  del_nodeVolumeDetachTimeoutSeconds :: "int32 option"
  del_nodeDeletionTimeoutSeconds :: "int32 option"

definition empty_deletion :: deletion_spec where
  "empty_deletion = \<lparr>del_nodeDrainTimeoutSeconds = None, del_nodeVolumeDetachTimeoutSeconds = None,
     del_nodeDeletionTimeoutSeconds = None\<rparr>"

record machine_template =
  mt_labels :: labels
  mt_annotations :: labels
  mt_infrastructureRef :: contract_ref
  mt_deletion :: deletion_spec

record capabilities =
  cap_baselineCapability :: string
  cap_additionalEnabledCapabilities :: "string list"

datatype upgrade_policy = PolicyUnset | Managed | Unrestricted

record csi_spec =
  csi_enabled :: bool
  csi_infraStorageClass :: string

record ovn_config =
  ovn_mtu :: "int32 option"
  ovn_genevePort :: "int32 option"

record oacp_config =
  cfg_infraClusterRef :: "string option"
  cfg_cloudControllerManager :: "bool option"
  cfg_csiDriver :: "csi_spec option"
  cfg_network :: "ovn_config option option"
  cfg_apiVIPs :: "string list"
  cfg_ingressVIPs :: "string list"
  cfg_manifestsConfigMapRefs :: "string list"
  cfg_diskEncryption :: "opaque option"
  cfg_proxy :: "opaque option"
  cfg_mastersSchedulable :: bool
  cfg_networkType :: string
  cfg_machineNetwork :: "string list"
  cfg_sshAuthorizedKey :: string
  cfg_clusterName :: string
  cfg_baseDomain :: string
  cfg_pullSecretRef :: "string option"
  cfg_imageRegistryRef :: "string option"
  cfg_capabilities :: capabilities

record oacp_spec =
  sp_config :: oacp_config
  sp_machineTemplate :: machine_template
  sp_oacSpec :: oac_spec
  sp_replicas :: int32
  sp_distributionVersion :: string
  sp_upgradePolicy :: upgrade_policy

record oacp_status =
  st_conditions :: "condition list"
  st_controlPlaneInitialized :: "bool option"
  st_selector :: string
  st_replicas :: "int32 option"
  st_readyReplicas :: "int32 option"
  st_availableReplicas :: "int32 option"
  st_upToDateReplicas :: "int32 option"
  st_version :: string
  st_distributionVersion :: string
  st_observedGeneration :: int

record oacp =
  oacp_meta :: object_meta
  oacp_spec :: oacp_spec
  oacp_status :: oacp_status

definition empty_config :: oacp_config where
  "empty_config = \<lparr>cfg_infraClusterRef = None, cfg_cloudControllerManager = None, cfg_csiDriver = None,
     cfg_network = None, cfg_apiVIPs = [], cfg_ingressVIPs = [], cfg_manifestsConfigMapRefs = [],
     cfg_diskEncryption = None, cfg_proxy = None, cfg_mastersSchedulable = False, cfg_networkType = [],
     cfg_machineNetwork = [], cfg_sshAuthorizedKey = [], cfg_clusterName = [], cfg_baseDomain = [],
     cfg_pullSecretRef = None, cfg_imageRegistryRef = None,
     cfg_capabilities = \<lparr>cap_baselineCapability = [], cap_additionalEnabledCapabilities = []\<rparr>\<rparr>"

definition empty_template :: machine_template where
  "empty_template = \<lparr>mt_labels = Map.empty, mt_annotations = Map.empty, mt_infrastructureRef = empty_ref, mt_deletion = empty_deletion\<rparr>"

definition empty_oacp :: oacp where
  "empty_oacp = \<lparr>oacp_meta = empty_meta,
     oacp_spec = \<lparr>sp_config = empty_config, sp_machineTemplate = empty_template, sp_oacSpec = empty_oac_spec,
       sp_replicas = 0, sp_distributionVersion = [], sp_upgradePolicy = PolicyUnset\<rparr>,
     oacp_status = \<lparr>st_conditions = [], st_controlPlaneInitialized = None, st_selector = [], st_replicas = None,
       st_readyReplicas = None, st_availableReplicas = None, st_upToDateReplicas = None, st_version = [],
       st_distributionVersion = [], st_observedGeneration = 0\<rparr>\<rparr>"

subsection \<open>Cluster API objects\<close>

text \<open>\<open>Status.NodeRef\<close> is kept as the name of the node; \<open>IsDefined\<close> is that it is not empty.\<close>

record machine =
  mc_meta :: object_meta
  mc_clusterName :: string
  mc_bootstrapConfigRef :: contract_ref
  mc_dataSecretName :: "string option"
  mc_infrastructureRef :: contract_ref
  mc_failureDomain :: string
  mc_deletion :: deletion_spec
  mc_nodeRef :: string
  mc_conditions :: "condition list"

definition empty_machine :: machine where
  "empty_machine = \<lparr>mc_meta = empty_meta, mc_clusterName = [], mc_bootstrapConfigRef = empty_ref,
     mc_dataSecretName = None, mc_infrastructureRef = empty_ref, mc_failureDomain = [], mc_deletion = empty_deletion,
     mc_nodeRef = [], mc_conditions = []\<rparr>"

record failure_domain =
  fd_name :: string
  fd_controlPlane :: "bool option"

record cluster =
  cl_meta :: object_meta
  cl_paused :: "bool option"
  cl_podCIDRs :: "string list"
  cl_serviceCIDRs :: "string list"
  cl_endpointHost :: string
  cl_endpointPort :: int32
  cl_infrastructureRef :: contract_ref
  cl_controlPlaneRef :: contract_ref
  cl_failureDomains :: "failure_domain list"
  cl_infrastructureProvisioned :: "bool option"
  cl_conditions :: "condition list"

definition empty_cluster :: cluster where
  "empty_cluster = \<lparr>cl_meta = empty_meta, cl_paused = None, cl_podCIDRs = [], cl_serviceCIDRs = [],
     cl_endpointHost = [], cl_endpointPort = 0, cl_infrastructureRef = empty_ref, cl_controlPlaneRef = empty_ref,
     cl_failureDomains = [], cl_infrastructureProvisioned = None, cl_conditions = []\<rparr>"

subsection \<open>Core and OpenShift objects\<close>

record secret =
  se_meta :: object_meta
  se_type :: string
  se_data :: "string \<rightharpoonup> bytes"

record config_map =
  cm_meta :: object_meta
  cm_data :: "string \<rightharpoonup> string"

record pod =
  pod_meta :: object_meta
  pod_phase :: string
  pod_nodeName :: string
  pod_conditions :: "(string \<times> string) list"
  pod_IP :: string
  pod_terminated :: "string option list"

record node =
  nd_meta :: object_meta
  nd_providerID :: string
  nd_addresses :: "(string \<times> string) list"

record service_port =
  svp_name :: string
  svp_port :: int
  svp_targetPort :: int
  svp_protocol :: string

record service =
  sv_meta :: object_meta
  sv_type :: string
  sv_clusterIP :: string
  sv_selector :: labels
  sv_ports :: "service_port list"

record cv_update =
  cvu_version :: string
  cvu_image :: string
  cvu_force :: bool

datatype update_state = CompletedUpdate | PartialUpdate

record cv_history =
  cvh_state :: update_state
  cvh_version :: string
  cvh_completed :: bool

record cluster_version =
  cv_meta :: object_meta
  cv_desiredUpdate :: "cv_update option"
  cv_desiredVersion :: string
  cv_history :: "cv_history list"
  cv_conditions :: "condition list"

text \<open>\<open>hivev1.ClusterDeployment\<close>: the parts of its spec and status the controllers use.\<close>

record cluster_deployment =
  cd_meta :: object_meta
  cd_clusterName :: string
  cd_baseDomain :: string
  cd_installRef :: "(string \<times> string \<times> string \<times> string) option"
  cd_agentBareMetal :: bool
  cd_pullSecretRef :: "string option"

definition empty_cd :: cluster_deployment where
  "empty_cd = \<lparr>cd_meta = empty_meta, cd_clusterName = [], cd_baseDomain = [], cd_installRef = None,
     cd_agentBareMetal = False, cd_pullSecretRef = None\<rparr>"

text \<open>\<open>hivev1.ClusterImageSet\<close> and \<open>MachineDeployment\<close>.\<close>

record image_set =
  is_meta :: object_meta
  is_releaseImage :: string

record machine_deployment =
  md_meta :: object_meta
  md_replicas :: "int32 option"

subsection \<open>Workloads of an infrastructure cluster\<close>

text \<open>
  Deployments, jobs and volume claims, as far as the program fills them in or reads them. A probe has its path (none for a plain
  TCP probe), port, delay and period; quantities are the texts that are parsed.
\<close>

record probe =
  pb_httpPath :: "string option"
  pb_port :: int
  pb_initialDelay :: int
  pb_period :: int

record container =
  ct_name :: string
  ct_image :: string
  ct_command :: "string list"
  ct_args :: "string list"
  ct_env :: "(string \<times> string) list"
  ct_ports :: "(string \<times> int \<times> string) list"
  ct_mounts :: "(string \<times> string \<times> bool) list"
  ct_devices :: "(string \<times> string) list"
  ct_requests :: "(string \<times> string) list"
  ct_limits :: "(string \<times> string) list"
  ct_readiness :: "probe option"
  ct_liveness :: "probe option"

definition empty_container :: container where
  "empty_container = \<lparr>ct_name = [], ct_image = [], ct_command = [], ct_args = [], ct_env = [], ct_ports = [], ct_mounts = [], ct_devices = [],
     ct_requests = [], ct_limits = [], ct_readiness = None, ct_liveness = None\<rparr>"

datatype volume_source = FromConfigMap string | FromSecret string | FromClaim string

record pod_template =
  pt_labels :: labels
  pt_restartPolicy :: string
  pt_antiAffinity :: "(int \<times> labels \<times> string) option"
  pt_containers :: "container list"
  pt_volumes :: "(string \<times> volume_source) list"

record deployment =
  dp_meta :: object_meta
  dp_replicas :: "int32 option"
  dp_selector :: labels
  dp_template :: pod_template

record job =
  jb_meta :: object_meta
  jb_backoffLimit :: "int option"
  jb_ttl :: "int option"
  jb_deadline :: "int option"
  jb_template :: pod_template
  jb_succeeded :: int32
  jb_failed :: int32

record volume_claim =
  pvc_meta :: object_meta
  pvc_accessModes :: "string list"
  pvc_volumeMode :: string
  pvc_storage :: string
  pvc_storageClass :: "string option"

text \<open>\<open>CustomResourceDefinition\<close>: the metadata.\<close>

record crd =
  crd_meta :: object_meta

subsection \<open>Assisted installer objects\<close>

text \<open>\<open>Agent\<close>: the fields the bootstrap provider sets and those of its status the control plane provider reads
  (an interface is the list of its IPv4 addresses); the rest of its spec and status is kept as it is.\<close>

record agent =
  ag_meta :: object_meta
  ag_role :: string
  ag_ignitionConfigOverrides :: string
  ag_approved :: bool
  ag_installerArgs :: string
  ag_clusterDeploymentName :: "string option"
  ag_bootstrap :: bool
  ag_hostname :: string
  ag_interfaces :: "string list list"
  ag_rest :: opaque

record infra_env =
  ie_meta :: object_meta
  ie_additionalNTPSources :: "string list"
  ie_additionalTrustBundle :: string
  ie_clusterRef :: "(string \<times> string) option"
  ie_cpuArchitecture :: string
  ie_nmStateConfigLabelSelector :: opaque
  ie_osImageVersion :: string
  ie_proxy :: "opaque option"
  ie_pullSecretRef :: "string option"
  ie_sshAuthorizedKey :: string
  ie_imageType :: string
  ie_ignitionConfigOverride :: string
  ie_eventsURL :: string

text \<open>
  \<open>AgentClusterInstall\<close>. Of the cluster metadata, the name of the kubeconfig secret and the
  reference to the password secret are kept; \<open>ac_state\<close> is \<open>Status.DebugInfo.State\<close>.
\<close>

record cluster_metadata =
  cmd_adminKubeconfigSecretRef :: string
  cmd_adminPasswordSecretRef :: "string option"

record aci =
  ac_meta :: object_meta
  ac_clusterDeploymentRef :: string
  ac_platformType :: string
  ac_externalPlatformSpec :: "(string \<times> string) option"
  ac_controlPlaneAgents :: int
  ac_workerAgents :: int
  ac_diskEncryption :: "opaque option"
  ac_mastersSchedulable :: bool
  ac_proxy :: "opaque option"
  ac_sshPublicKey :: string
  ac_imageSetRef :: "string option"
  ac_clusterNetwork :: "(string \<times> int) list"
  ac_serviceNetwork :: "string list"
  ac_networkType :: string
  ac_machineNetwork :: "string list"
  ac_manifestsConfigMapRefs :: "string list"
  ac_apiVIPs :: "string list"
  ac_ingressVIPs :: "string list"
  ac_ignitionEndpoint :: "string option"
  ac_clusterMetadata :: "cluster_metadata option"
  ac_state :: string

definition empty_aci :: aci where
  "empty_aci = \<lparr>ac_meta = empty_meta, ac_clusterDeploymentRef = [], ac_platformType = [], ac_externalPlatformSpec = None,
     ac_controlPlaneAgents = 0, ac_workerAgents = 0, ac_diskEncryption = None, ac_mastersSchedulable = False,
     ac_proxy = None, ac_sshPublicKey = [], ac_imageSetRef = None, ac_clusterNetwork = [], ac_serviceNetwork = [],
     ac_networkType = [], ac_machineNetwork = [], ac_manifestsConfigMapRefs = [], ac_apiVIPs = [], ac_ingressVIPs = [],
     ac_ignitionEndpoint = None, ac_clusterMetadata = None, ac_state = []\<rparr>"

end
