(* ===== verification/Environment.thy ===== *)
theory Environment
  imports ApiTypes
begin

text \<open>
  The outside of the program. Everything the repository calls but does not contain - the API
  servers, etcd, the image registry, TLS and port forwarding, random names - is a field of the
  record \<open>env\<close>, which every effectful definition takes as its first argument. A field with a
  state argument is an operation of the outside world on its own state \<open>'s\<close>; the others are
  functions of their arguments alone. No law is assumed of any of them here: what a theorem needs
  is a hypothesis of that theorem.

  Every call is logged as an \<open>event\<close> together with its answer, so that theorems can speak of
  which calls are made, in which order and under which answers.
\<close>

subsection \<open>Objects, kinds, clients\<close>

datatype kobj =
    OSecret secret | OConfigMap config_map | OPod pod | ONode node
  | OMachine machine | OCluster cluster | OOACP oacp | OOAC oac
  | OClusterVersion cluster_version | OClusterDeployment cluster_deployment
  | OService service | OUnstructured json
  | OAgent agent | OInfraEnv infra_env | OACI aci | OImageSet image_set | OMachineDeployment machine_deployment
  | ODeployment deployment | OJob job | OVolumeClaim volume_claim | OCRD crd

datatype kind =
    KSecret | KConfigMap | KPod | KNode | KMachine | KCluster | KOACP | KOAC
  | KClusterVersion | KClusterDeployment | KService
  | KAgent | KInfraEnv | KACI | KImageSet | KMachineDeployment
  | KDeployment | KJob | KVolumeClaim | KCRD
  | KUnstructured string string string

text \<open>
  The client of the management cluster, the client built from a workload kubeconfig, and the
  client of the infrastructure cluster built from its kubeconfig.
\<close>

datatype kclient = Mgmt | Workload bytes | Infra bytes

record list_opts =
  lo_namespace :: string
  lo_labels :: "(string \<times> string) list"

subsection \<open>etcd, registry and transport values\<close>

record etcd_pb_member =
  em_id :: uint64
  em_name :: string
  em_isLearner :: bool

datatype alarm_type = AlarmNone | AlarmNoSpace | AlarmCorrupt

record status_response =
  sr_header :: "uint64 option"
  sr_leader :: uint64

type_synonym etcd_client = nat

datatype forward_outcome = ForwardFailed goerr | ForwardReady | ForwardTimeout | ForwardCancelled goerr

record tar_entry =
  te_name :: string
  te_symlink :: "string option"
  te_content :: "bytes res"

record image_layer =
  ly_open :: "goerr option"
  ly_entries :: "tar_entry list"
  ly_end :: "goerr option"
  ly_close :: "goerr option"

record oci_image =
  im_layers :: "image_layer list res"

text \<open>The input of \<open>external.GenerateTemplate\<close> besides the template.\<close>

record template_input =
  ti_namespace :: string
  ti_name :: string
  ti_clusterName :: string
  ti_owner :: owner_ref
  ti_labels :: labels
  ti_annotations :: labels

text \<open>The answer to an HTTP request: its status, and its body or the error of reading it.\<close>

record http_response =
  hr_status :: nat
  hr_body :: "bytes res"

type_synonym keychain = "string \<rightharpoonup> (string \<times> string)"

subsection \<open>Events\<close>

datatype event =
    EvGet kclient kind string string "kobj res"
  | EvList kclient kind list_opts "kobj list res"
  | EvCreate kclient kobj "kobj res"
  | EvUpdate kclient kobj "kobj res"
  | EvPatch kclient kobj kobj "kobj res"
  | EvStatusPatch kclient kobj kobj "kobj res"
  | EvStatusUpdate kclient kobj "kobj res"
  | EvHelperPatch kobj kobj bool "goerr option"
  | EvDelete kclient kobj "goerr option"
  | EvFreePort "nat res"
  | EvForward string nat forward_outcome
  | EvStopForward nat
  | EvEtcdNew string "etcd_client res"
  | EvEtcdClose etcd_client
  | EvMemberList etcd_client "etcd_pb_member option list option res"
  | EvEtcdStatus etcd_client string "status_response option res"
  | EvAlarmList etcd_client "alarm_type list res"
  | EvMemberRemove etcd_client uint64 "goerr option"
  | EvMoveLeader etcd_client uint64 "goerr option"
  | EvRemoteImage string "oci_image res"
  | EvRemoteGet string "string res"
  | EvGenerateName string string
  | EvGetContract contract_ref string "json res"
  | EvHttpGet string "http_response res"
  | EvClock int
  | EvMergePatch kclient kind string string string "kobj res"

subsection \<open>The environment\<close>

record 's env =
  k_get :: "kclient \<Rightarrow> kind \<Rightarrow> string \<Rightarrow> string \<Rightarrow> 's \<Rightarrow> kobj res \<times> 's"
  k_list :: "kclient \<Rightarrow> kind \<Rightarrow> list_opts \<Rightarrow> 's \<Rightarrow> kobj list res \<times> 's"
  k_create :: "kclient \<Rightarrow> kobj \<Rightarrow> 's \<Rightarrow> kobj res \<times> 's"
  k_update :: "kclient \<Rightarrow> kobj \<Rightarrow> 's \<Rightarrow> kobj res \<times> 's"
  k_patch :: "kclient \<Rightarrow> kobj \<Rightarrow> kobj \<Rightarrow> 's \<Rightarrow> kobj res \<times> 's"
  k_status_patch :: "kclient \<Rightarrow> kobj \<Rightarrow> kobj \<Rightarrow> 's \<Rightarrow> kobj res \<times> 's"
  k_status_update :: "kclient \<Rightarrow> kobj \<Rightarrow> 's \<Rightarrow> kobj res \<times> 's"
  k_helper_patch :: "kobj \<Rightarrow> kobj \<Rightarrow> bool \<Rightarrow> 's \<Rightarrow> goerr option \<times> 's"
  k_delete :: "kclient \<Rightarrow> kobj \<Rightarrow> 's \<Rightarrow> goerr option \<times> 's"
  k_new_helper :: "kobj \<Rightarrow> goerr option"
  x_client_config :: "bytes \<Rightarrow> goerr option"
  x_rest_config :: "bytes \<Rightarrow> goerr option"
  x_new_clientset :: "bytes \<Rightarrow> goerr option"
  x_new_client :: "bytes \<Rightarrow> goerr option"
  x_key_pair :: "bytes \<Rightarrow> bytes \<Rightarrow> goerr option"
  x_append_certs :: "bytes \<Rightarrow> bool"
  x_free_port :: "'s \<Rightarrow> nat res \<times> 's"
  x_round_tripper :: "bytes \<Rightarrow> goerr option"
  x_new_forwarder :: "string \<Rightarrow> nat \<Rightarrow> goerr option"
  x_forward :: "string \<Rightarrow> nat \<Rightarrow> 's \<Rightarrow> forward_outcome \<times> 's"
  x_stop_forward :: "nat \<Rightarrow> 's \<Rightarrow> 's"
  x_etcd_new :: "string \<Rightarrow> 's \<Rightarrow> etcd_client res \<times> 's"
  x_etcd_close :: "etcd_client \<Rightarrow> 's \<Rightarrow> 's"
  x_member_list :: "etcd_client \<Rightarrow> 's \<Rightarrow> etcd_pb_member option list option res \<times> 's"
  x_etcd_status :: "etcd_client \<Rightarrow> string \<Rightarrow> 's \<Rightarrow> status_response option res \<times> 's"
  x_alarm_list :: "etcd_client \<Rightarrow> 's \<Rightarrow> alarm_type list res \<times> 's"
  x_member_remove :: "etcd_client \<Rightarrow> uint64 \<Rightarrow> 's \<Rightarrow> goerr option \<times> 's"
  x_move_leader :: "etcd_client \<Rightarrow> uint64 \<Rightarrow> 's \<Rightarrow> goerr option \<times> 's"
  x_parse_reference :: "string \<Rightarrow> goerr option"
  x_remote_image :: "string \<Rightarrow> keychain \<Rightarrow> 's \<Rightarrow> oci_image res \<times> 's"
  x_remote_get :: "string \<Rightarrow> keychain \<Rightarrow> 's \<Rightarrow> string res \<times> 's"
  x_docker_config :: "string \<Rightarrow> (string \<times> string) list res"
  x_image_stream :: "bytes \<Rightarrow> labels list res"
  x_generate_name :: "string \<Rightarrow> 's \<Rightarrow> string \<times> 's"
  x_format_label :: "string \<Rightarrow> string"
  k_get_contract :: "contract_ref \<Rightarrow> string \<Rightarrow> 's \<Rightarrow> json res \<times> 's"
  x_generate_template :: "json \<Rightarrow> template_input \<Rightarrow> json res"
  x_summary :: "string list \<Rightarrow> condition list \<Rightarrow> condition option"
  x_deep_derivative :: "oac_spec \<Rightarrow> oac_spec \<Rightarrow> bool"
  x_http_get :: "string \<Rightarrow> 's \<Rightarrow> http_response res \<times> 's"
  x_system_cert_pool :: "goerr option"
  x_append_pem :: "bytes \<Rightarrow> bool"
  x_machine_pools :: bool
  x_ign_unmarshal :: "string \<Rightarrow> json res"
  x_ign_parse :: "string \<Rightarrow> json res"
  x_ign_merge :: "json \<Rightarrow> json \<Rightarrow> json"
  x_summary_v1 :: "string list \<Rightarrow> v1_condition list \<Rightarrow> v1_condition option"
  x_load_kubeconfig :: "bytes \<Rightarrow> (string \<times> string) list res"
  x_write_kubeconfig :: "bytes \<Rightarrow> (string \<times> string) list \<Rightarrow> bytes res"
  x_float :: "string \<Rightarrow> string option"
  x_toml :: "string \<Rightarrow> (string \<times> toml) list res"
  x_getenv :: "string \<Rightarrow> string"
  x_now :: "'s \<Rightarrow> int \<times> 's"
  x_image_tags :: "bytes \<Rightarrow> (string \<times> string option) list res"
  x_kubeconfig_contexts :: "bytes \<Rightarrow> (string \<times> (string \<rightharpoonup> string)) res"
  k_merge_patch :: "kclient \<Rightarrow> kind \<Rightarrow> string \<Rightarrow> string \<Rightarrow> string \<Rightarrow> 's \<Rightarrow> kobj res \<times> 's"

type_synonym ('s, 'a) prog = "(('s, event) world, 'a) state"

subsection \<open>Calls\<close>

text \<open>Each call runs the operation of the environment and logs it.\<close>

definition kget :: "'s env \<Rightarrow> kclient \<Rightarrow> kind \<Rightarrow> string \<Rightarrow> string \<Rightarrow> ('s, kobj res) prog" where
  "kget E c k ns n = call (k_get E c k ns n) (EvGet c k ns n)"

definition klist :: "'s env \<Rightarrow> kclient \<Rightarrow> kind \<Rightarrow> list_opts \<Rightarrow> ('s, kobj list res) prog" where
  "klist E c k opts = call (k_list E c k opts) (EvList c k opts)"

definition kcreate :: "'s env \<Rightarrow> kclient \<Rightarrow> kobj \<Rightarrow> ('s, kobj res) prog" where
  "kcreate E c ob = call (k_create E c ob) (EvCreate c ob)"

definition kupdate :: "'s env \<Rightarrow> kclient \<Rightarrow> kobj \<Rightarrow> ('s, kobj res) prog" where
  "kupdate E c ob = call (k_update E c ob) (EvUpdate c ob)"

definition kpatch :: "'s env \<Rightarrow> kclient \<Rightarrow> kobj \<Rightarrow> kobj \<Rightarrow> ('s, kobj res) prog" where
  "kpatch E c old new = call (k_patch E c old new) (EvPatch c old new)"

definition kstatus_patch :: "'s env \<Rightarrow> kclient \<Rightarrow> kobj \<Rightarrow> kobj \<Rightarrow> ('s, kobj res) prog" where
  "kstatus_patch E c old new = call (k_status_patch E c old new) (EvStatusPatch c old new)"

definition kstatus_update :: "'s env \<Rightarrow> kclient \<Rightarrow> kobj \<Rightarrow> ('s, kobj res) prog" where
  "kstatus_update E c ob = call (k_status_update E c ob) (EvStatusUpdate c ob)"

definition khelper_patch :: "'s env \<Rightarrow> kobj \<Rightarrow> kobj \<Rightarrow> bool \<Rightarrow> ('s, goerr option) prog" where
  "khelper_patch E old new og = call (k_helper_patch E old new og) (EvHelperPatch old new og)"

definition kdelete :: "'s env \<Rightarrow> kclient \<Rightarrow> kobj \<Rightarrow> ('s, goerr option) prog" where
  "kdelete E c ob = call (k_delete E c ob) (EvDelete c ob)"

definition generate_name :: "'s env \<Rightarrow> string \<Rightarrow> ('s, string) prog" where
  "generate_name E p = call (x_generate_name E p) (EvGenerateName p)"

definition http_get :: "'s env \<Rightarrow> string \<Rightarrow> ('s, http_response res) prog" where
  "http_get E url = call (x_http_get E url) (EvHttpGet url)"

text \<open>A merge patch sent as it is; the clock, in nanoseconds.\<close>

definition kmerge_patch :: "'s env \<Rightarrow> kclient \<Rightarrow> kind \<Rightarrow> string \<Rightarrow> string \<Rightarrow> string \<Rightarrow> ('s, kobj res) prog" where
  "kmerge_patch E c k ns n p = call (k_merge_patch E c k ns n p) (EvMergePatch c k ns n p)"

definition clock_now :: "'s env \<Rightarrow> ('s, int) prog" where
  "clock_now E = call (x_now E) EvClock"

text \<open>\<open>external.GetObjectFromContractVersionedRef\<close>: the lookup of the API version and the read.\<close>

definition kget_contract :: "'s env \<Rightarrow> contract_ref \<Rightarrow> string \<Rightarrow> ('s, json res) prog" where
  "kget_contract E ref ns = call (k_get_contract E ref ns) (EvGetContract ref ns)"

text \<open>Decoding an answer into the type the caller asked for.\<close>

definition decode :: "('o \<Rightarrow> 'a option) \<Rightarrow> 'o res \<Rightarrow> 'a res" where
  "decode f r = (case r of Inl e \<Rightarrow> Inl e
     | Inr ob \<Rightarrow> (case f ob of None \<Rightarrow> Inl (Errorf ''unexpected object type'') | Some a \<Rightarrow> Inr a))"

definition decode_list :: "('o \<Rightarrow> 'a option) \<Rightarrow> 'o list res \<Rightarrow> 'a list res" where
  "decode_list f r = (case r of Inl e \<Rightarrow> Inl e | Inr obs \<Rightarrow> Inr (List.map_filter f obs))"

fun as_secret :: "kobj \<Rightarrow> secret option" where
  "as_secret (OSecret x) = Some x" | "as_secret _ = None"
fun as_config_map :: "kobj \<Rightarrow> config_map option" where
  "as_config_map (OConfigMap x) = Some x" | "as_config_map _ = None"
fun as_pod :: "kobj \<Rightarrow> pod option" where
  "as_pod (OPod x) = Some x" | "as_pod _ = None"
fun as_node :: "kobj \<Rightarrow> node option" where
  "as_node (ONode x) = Some x" | "as_node _ = None"
fun as_machine :: "kobj \<Rightarrow> machine option" where
  "as_machine (OMachine x) = Some x" | "as_machine _ = None"
fun as_cluster :: "kobj \<Rightarrow> cluster option" where
  "as_cluster (OCluster x) = Some x" | "as_cluster _ = None"
fun as_oacp :: "kobj \<Rightarrow> oacp option" where
  "as_oacp (OOACP x) = Some x" | "as_oacp _ = None"
fun as_oac :: "kobj \<Rightarrow> oac option" where
  "as_oac (OOAC x) = Some x" | "as_oac _ = None"
fun as_cluster_version :: "kobj \<Rightarrow> cluster_version option" where
  "as_cluster_version (OClusterVersion x) = Some x" | "as_cluster_version _ = None"
fun as_cluster_deployment :: "kobj \<Rightarrow> cluster_deployment option" where
  "as_cluster_deployment (OClusterDeployment x) = Some x" | "as_cluster_deployment _ = None"
fun as_service :: "kobj \<Rightarrow> service option" where
  "as_service (OService x) = Some x" | "as_service _ = None"
fun as_agent :: "kobj \<Rightarrow> agent option" where
  "as_agent (OAgent x) = Some x" | "as_agent _ = None"
fun as_infra_env :: "kobj \<Rightarrow> infra_env option" where
  "as_infra_env (OInfraEnv x) = Some x" | "as_infra_env _ = None"
fun as_aci :: "kobj \<Rightarrow> aci option" where
  "as_aci (OACI x) = Some x" | "as_aci _ = None"
fun as_image_set :: "kobj \<Rightarrow> image_set option" where
  "as_image_set (OImageSet x) = Some x" | "as_image_set _ = None"
fun as_machine_deployment :: "kobj \<Rightarrow> machine_deployment option" where
  "as_machine_deployment (OMachineDeployment x) = Some x" | "as_machine_deployment _ = None"
fun as_deployment :: "kobj \<Rightarrow> deployment option" where
  "as_deployment (ODeployment x) = Some x" | "as_deployment _ = None"
fun as_job :: "kobj \<Rightarrow> job option" where
  "as_job (OJob x) = Some x" | "as_job _ = None"
fun as_volume_claim :: "kobj \<Rightarrow> volume_claim option" where
  "as_volume_claim (OVolumeClaim x) = Some x" | "as_volume_claim _ = None"
fun as_crd :: "kobj \<Rightarrow> crd option" where
  "as_crd (OCRD x) = Some x" | "as_crd _ = None"
fun as_unstructured :: "kobj \<Rightarrow> json option" where
  "as_unstructured (OUnstructured (JObj m)) = Some (JObj m)" | "as_unstructured _ = None"

lemma as_Some_iff [simp]:
  "as_secret ob = Some x0 \<longleftrightarrow> ob = OSecret x0"
  "as_config_map ob = Some x1 \<longleftrightarrow> ob = OConfigMap x1"
  "as_pod ob = Some x2 \<longleftrightarrow> ob = OPod x2"
  "as_node ob = Some x3 \<longleftrightarrow> ob = ONode x3"
  "as_machine ob = Some x4 \<longleftrightarrow> ob = OMachine x4"
  "as_cluster ob = Some x5 \<longleftrightarrow> ob = OCluster x5"
  "as_oacp ob = Some x6 \<longleftrightarrow> ob = OOACP x6"
  "as_oac ob = Some x7 \<longleftrightarrow> ob = OOAC x7"
  "as_cluster_version ob = Some x8 \<longleftrightarrow> ob = OClusterVersion x8"
  "as_cluster_deployment ob = Some x9 \<longleftrightarrow> ob = OClusterDeployment x9"
  "as_unstructured ob = Some x10 \<longleftrightarrow> ob = OUnstructured x10 \<and> (\<exists>m. x10 = JObj m)"
  "as_service ob = Some x11 \<longleftrightarrow> ob = OService x11"
  "as_agent ob = Some x12 \<longleftrightarrow> ob = OAgent x12"
  "as_infra_env ob = Some x13 \<longleftrightarrow> ob = OInfraEnv x13"
  "as_aci ob = Some x14 \<longleftrightarrow> ob = OACI x14"
  "as_image_set ob = Some x15 \<longleftrightarrow> ob = OImageSet x15"
  "as_machine_deployment ob = Some x16 \<longleftrightarrow> ob = OMachineDeployment x16"
  "as_deployment ob = Some x17 \<longleftrightarrow> ob = ODeployment x17"
  "as_job ob = Some x18 \<longleftrightarrow> ob = OJob x18"
  "as_volume_claim ob = Some x19 \<longleftrightarrow> ob = OVolumeClaim x19"
  "as_crd ob = Some x20 \<longleftrightarrow> ob = OCRD x20"
  by (cases ob; auto elim: as_unstructured.elims)+

definition get_as :: "'s env \<Rightarrow> (kobj \<Rightarrow> 'a option) \<Rightarrow> kclient \<Rightarrow> kind \<Rightarrow> string \<Rightarrow> string \<Rightarrow> ('s, 'a res) prog" where
  "get_as E f c k ns n = do { r \<leftarrow> kget E c k ns n; ret (decode f r) }"

definition list_as :: "'s env \<Rightarrow> (kobj \<Rightarrow> 'a option) \<Rightarrow> kclient \<Rightarrow> kind \<Rightarrow> list_opts \<Rightarrow> ('s, 'a list res) prog" where
  "list_as E f c k opts = do { r \<leftarrow> klist E c k opts; ret (decode_list f r) }"

text \<open>A call whose returned object is dropped.\<close>

definition err_of :: "'a res \<Rightarrow> goerr option" where
  "err_of r = (case r of Inl e \<Rightarrow> Some e | Inr _ \<Rightarrow> None)"

lemma err_of_simps [simp]: "err_of (Inl e) = Some e" "err_of (Inr x) = None"
  by (simp_all add: err_of_def)

lemma decode_simps [simp]: "decode f (Inl e) = Inl e"
  "decode f (Inr ob) = (case f ob of None \<Rightarrow> Inl (Errorf ''unexpected object type'') | Some a \<Rightarrow> Inr a)"
  by (simp_all add: decode_def)

lemma decode_list_simps [simp]: "decode_list f (Inl e) = Inl e"
  "decode_list f (Inr obs) = Inr (List.map_filter f obs)"
  by (simp_all add: decode_list_def)

subsection \<open>A closed environment\<close>

text \<open>
  An outside where every call fails with NotFound. Concrete scenarios override the fields they
  need; they show that the hypotheses of the theorems can be met.
\<close>

definition absent :: "'s \<Rightarrow> 'a res \<times> 's" where
  "absent s = (Inl (ApiStatus NotFound), s)"

definition nowhere :: "'s env" where
  "nowhere = \<lparr>k_get = (\<lambda>c k ns n. absent), k_list = (\<lambda>c k opts. absent), k_create = (\<lambda>c ob. absent),
     k_update = (\<lambda>c ob. absent), k_patch = (\<lambda>c ob nw. absent), k_status_patch = (\<lambda>c ob nw. absent),
     k_status_update = (\<lambda>c ob. absent), k_helper_patch = (\<lambda>ob nw og s. (None, s)),
     k_delete = (\<lambda>c ob s. (Some (ApiStatus NotFound), s)), k_new_helper = (\<lambda>ob. None),
     x_client_config = (\<lambda>kc. None), x_rest_config = (\<lambda>kc. None), x_new_clientset = (\<lambda>kc. None),
     x_new_client = (\<lambda>kc. None), x_key_pair = (\<lambda>c k. None), x_append_certs = (\<lambda>c. True),
     x_free_port = absent, x_round_tripper = (\<lambda>kc. None), x_new_forwarder = (\<lambda>p n. None),
     x_forward = (\<lambda>p n s. (ForwardTimeout, s)), x_stop_forward = (\<lambda>p s. s), x_etcd_new = (\<lambda>ep. absent),
     x_etcd_close = (\<lambda>c s. s), x_member_list = (\<lambda>c. absent), x_etcd_status = (\<lambda>c ep. absent),
     x_alarm_list = (\<lambda>c. absent), x_member_remove = (\<lambda>c i s. (None, s)), x_move_leader = (\<lambda>c i s. (None, s)),
     x_parse_reference = (\<lambda>r. None), x_remote_image = (\<lambda>r kc. absent), x_remote_get = (\<lambda>r kc. absent),
     x_docker_config = (\<lambda>ps. Inr []), x_image_stream = (\<lambda>v. Inr []),
     x_generate_name = (\<lambda>p s. (p @ ''x7k2p'', s)), x_format_label = (\<lambda>v. v),
     k_get_contract = (\<lambda>r ns. absent), x_generate_template = (\<lambda>t i. Inr t), x_summary = (\<lambda>ts cs. None),
     x_deep_derivative = (\<lambda>a b. a = b),
     x_http_get = (\<lambda>u. absent), x_system_cert_pool = None, x_append_pem = (\<lambda>b. True), x_machine_pools = False,
     x_ign_unmarshal = (\<lambda>t. Inr (JObj [])), x_ign_parse = (\<lambda>t. Inr (JObj [])), x_ign_merge = (\<lambda>a b. b),
     x_summary_v1 = (\<lambda>ts cs. None), x_load_kubeconfig = (\<lambda>b. Inr []), x_write_kubeconfig = (\<lambda>b cs. Inr b),
     x_float = (\<lambda>t. Some t), x_toml = (\<lambda>t. Inr []),
     x_getenv = (\<lambda>n. []), x_now = (\<lambda>s. (0, s)), x_image_tags = (\<lambda>b. Inr []), x_kubeconfig_contexts = (\<lambda>b. Inr ([], Map.empty)),
     k_merge_patch = (\<lambda>c k ns n p. absent)\<rparr>"

subsection \<open>Event predicates\<close>

text \<open>Whether an event may change the outside: writes to an API server or to etcd.\<close>

fun is_write :: "event \<Rightarrow> bool" where
  "is_write (EvCreate _ _ _) = True"
| "is_write (EvUpdate _ _ _) = True"
| "is_write (EvPatch _ _ _ _) = True"
| "is_write (EvStatusPatch _ _ _ _) = True"
| "is_write (EvStatusUpdate _ _ _) = True"
| "is_write (EvHelperPatch _ _ _ _) = True"
| "is_write (EvDelete _ _ _) = True"
| "is_write (EvMergePatch _ _ _ _ _ _) = True"
| "is_write (EvMemberRemove _ _ _) = True"
| "is_write (EvMoveLeader _ _ _) = True"
| "is_write _ = False"

lemmas kcall_defs = kget_def klist_def kcreate_def kupdate_def kpatch_def kstatus_patch_def
  kstatus_update_def khelper_patch_def kdelete_def generate_name_def kget_contract_def http_get_def kmerge_patch_def clock_now_def

lemma emits_kget [emits_intros]: "(\<And>r. P (EvGet c k ns n r)) \<Longrightarrow> emits P (kget E c k ns n)"
  unfolding kcall_defs by (rule emits_call)

lemma emits_klist [emits_intros]: "(\<And>r. P (EvList c k opts r)) \<Longrightarrow> emits P (klist E c k opts)"
  unfolding kcall_defs by (rule emits_call)

lemma emits_kcreate [emits_intros]: "(\<And>r. P (EvCreate c ob r)) \<Longrightarrow> emits P (kcreate E c ob)"
  unfolding kcall_defs by (rule emits_call)

lemma emits_kupdate [emits_intros]: "(\<And>r. P (EvUpdate c ob r)) \<Longrightarrow> emits P (kupdate E c ob)"
  unfolding kcall_defs by (rule emits_call)

lemma emits_kpatch [emits_intros]: "(\<And>r. P (EvPatch c old new r)) \<Longrightarrow> emits P (kpatch E c old new)"
  unfolding kcall_defs by (rule emits_call)

lemma emits_kstatus_patch [emits_intros]:
  "(\<And>r. P (EvStatusPatch c old new r)) \<Longrightarrow> emits P (kstatus_patch E c old new)"
  unfolding kcall_defs by (rule emits_call)

lemma emits_kstatus_update [emits_intros]:
  "(\<And>r. P (EvStatusUpdate c ob r)) \<Longrightarrow> emits P (kstatus_update E c ob)"
  unfolding kcall_defs by (rule emits_call)

lemma emits_khelper_patch [emits_intros]:
  "(\<And>r. P (EvHelperPatch old new og r)) \<Longrightarrow> emits P (khelper_patch E old new og)"
  unfolding kcall_defs by (rule emits_call)

lemma emits_kdelete [emits_intros]: "(\<And>r. P (EvDelete c ob r)) \<Longrightarrow> emits P (kdelete E c ob)"
  unfolding kcall_defs by (rule emits_call)

lemma emits_kmerge_patch [emits_intros]: "(\<And>r. P (EvMergePatch c k ns n p r)) \<Longrightarrow> emits P (kmerge_patch E c k ns n p)"
  unfolding kcall_defs by (rule emits_call)

lemma emits_clock_now [emits_intros]: "(\<And>t. P (EvClock t)) \<Longrightarrow> emits P (clock_now E)"
  unfolding kcall_defs by (rule emits_call)

lemma emits_generate_name [emits_intros]:
  "(\<And>r. P (EvGenerateName p r)) \<Longrightarrow> emits P (generate_name E p)"
  unfolding kcall_defs by (rule emits_call)

lemma emits_kget_contract [emits_intros]:
  "(\<And>r. P (EvGetContract ref ns r)) \<Longrightarrow> emits P (kget_contract E ref ns)"
  unfolding kcall_defs by (rule emits_call)

lemma emits_http_get [emits_intros]:
  "(\<And>r. P (EvHttpGet url r)) \<Longrightarrow> emits P (http_get E url)"
  unfolding kcall_defs by (rule emits_call)

lemma emits_get_as [emits_intros]: "(\<And>r. P (EvGet c k ns n r)) \<Longrightarrow> emits P (get_as E f c k ns n)"
  unfolding get_as_def by (intro emits_intros)

lemma emits_list_as [emits_intros]: "(\<And>r. P (EvList c k opts r)) \<Longrightarrow> emits P (list_as E f c k opts)"
  unfolding list_as_def by (intro emits_intros)

end
