(* ===== verification/Encoding.thy ===== *)
theory Encoding
  imports GoLib
begin

text \<open>
  The encodings of the Go standard library that the program uses: base64 (\<open>StdEncoding\<close>), the
  JSON text that \<open>json.Marshal\<close> writes, and the FNV-1a hash; and the data URLs of package
  \<open>pkg/ignition\<close> built on them. A byte is a \<open>char\<close>.
\<close>

unbundle bit_operations_syntax

subsection \<open>Base64\<close>

definition b64_alphabet :: string where
  "b64_alphabet = ''ABCDEFGHIJKLMNOPQRSTUVWXYZabcdefghijklmnopqrstuvwxyz0123456789+/''"

definition b64_char :: "nat \<Rightarrow> char" where
  "b64_char n = b64_alphabet ! n"

definition b64_val :: "char \<Rightarrow> nat option" where
  "b64_val c = (let i = length (takeWhile (\<lambda>x. x \<noteq> c) b64_alphabet) in if i < 64 then Some i else None)"

definition byte :: "char \<Rightarrow> nat" where "byte c = of_char c"

fun b64_encode :: "string \<Rightarrow> string" where
  "b64_encode [] = []"
| "b64_encode [a] = [b64_char (byte a div 4), b64_char (byte a mod 4 * 16), CHR ''='', CHR ''='']"
| "b64_encode [a, b] = [b64_char (byte a div 4), b64_char (byte a mod 4 * 16 + byte b div 16),
     b64_char (byte b mod 16 * 4), CHR ''='']"
| "b64_encode (a # b # c # rest) = b64_char (byte a div 4) # b64_char (byte a mod 4 * 16 + byte b div 16) #
     b64_char (byte b mod 16 * 4 + byte c div 64) # b64_char (byte c mod 64) # b64_encode rest"

definition b64_bytes3 :: "nat \<Rightarrow> nat \<Rightarrow> nat \<Rightarrow> nat \<Rightarrow> string" where
  "b64_bytes3 w x y z = [char_of (w * 4 + x div 16), char_of (x mod 16 * 16 + y div 4), char_of (y mod 4 * 64 + z)]"

fun b64_quads :: "string \<Rightarrow> string option" where
  "b64_quads [] = Some []"
| "b64_quads (a # b # c # d # rest) =
    (case (b64_val a, b64_val b) of
       (Some w, Some x) \<Rightarrow>
         if d = CHR ''='' then
           (if rest \<noteq> [] then None
            else if c = CHR ''='' then Some (take 1 (b64_bytes3 w x 0 0))
            else (case b64_val c of Some y \<Rightarrow> Some (take 2 (b64_bytes3 w x y 0)) | None \<Rightarrow> None))
         else (case (b64_val c, b64_val d, b64_quads rest) of
             (Some y, Some z, Some bs) \<Rightarrow> Some (b64_bytes3 w x y z @ bs)
           | _ \<Rightarrow> None)
     | _ \<Rightarrow> None)"
| "b64_quads _ = None"

text \<open>\<open>DecodeString\<close> skips line breaks.\<close>

definition b64_decode :: "string \<Rightarrow> string res" where
  "b64_decode s = (case b64_quads (filter (\<lambda>c. c \<noteq> CHR 0x0A \<and> c \<noteq> CHR 0x0D) s) of
     Some bs \<Rightarrow> Inr bs | None \<Rightarrow> Inl (Errorf ''illegal base64 data''))"

lemma takeWhile_nth_distinct: "distinct xs \<Longrightarrow> n < length xs \<Longrightarrow> length (takeWhile (\<lambda>x. x \<noteq> xs ! n) xs) = n"
proof (induction xs arbitrary: n)
  case (Cons x xs)
  then show ?case by (cases n) auto
qed simp

lemma b64_alphabet_props: "distinct b64_alphabet" "length b64_alphabet = 64"
  "CHR ''='' \<notin> set b64_alphabet" "CHR 0x0A \<notin> set b64_alphabet" "CHR 0x0D \<notin> set b64_alphabet"
  by (simp_all add: b64_alphabet_def)

lemma b64_val_char [simp]: "n < 64 \<Longrightarrow> b64_val (b64_char n) = Some n"
  using takeWhile_nth_distinct [OF b64_alphabet_props(1), of n]
  by (simp add: b64_val_def b64_char_def b64_alphabet_props(2) Let_def)

lemma b64_char_neq [simp]:
  assumes "n < 64"
  shows "b64_char n \<noteq> CHR ''=''" "b64_char n \<noteq> CHR 0x0A" "b64_char n \<noteq> CHR 0x0D"
proof -
  have "b64_char n \<in> set b64_alphabet" using assms by (simp add: b64_char_def b64_alphabet_props(2))
  then show "b64_char n \<noteq> CHR ''=''" "b64_char n \<noteq> CHR 0x0A" "b64_char n \<noteq> CHR 0x0D"
    using b64_alphabet_props by auto
qed

lemma byte_props [simp]: "byte c < 256" "char_of (byte c) = c"
  by (simp_all add: byte_def)

lemma sextets [simp]: "byte c div 4 < 64" "byte a mod 4 * 16 + byte b div 16 < 64" "byte b mod 16 * 4 + byte c div 64 < 64"
  "byte c mod 64 < 64" "byte a mod 4 * 16 < 64" "byte b mod 16 * 4 < 64"
proof -
  have "byte a < 256" "byte b < 256" "byte c < 256" by simp_all
  then show "byte c div 4 < 64" "byte a mod 4 * 16 + byte b div 16 < 64" "byte b mod 16 * 4 + byte c div 64 < 64"
    "byte c mod 64 < 64" "byte a mod 4 * 16 < 64" "byte b mod 16 * 4 < 64" by linarith+
qed

lemma pack: "q < n \<Longrightarrow> (m * n + q) div n = m" "q < n \<Longrightarrow> (m * n + q) mod n = (q :: nat)"
  by (cases "n = 0", simp_all)+

lemma b64_regroup:
  assumes "a < 256" "b < 256" "c < (256 :: nat)"
  shows "a div 4 * 4 + (a mod 4 * 16 + b div 16) div 16 = a"
    "(a mod 4 * 16 + b div 16) mod 16 * 16 + (b mod 16 * 4 + c div 64) div 4 = b"
    "(b mod 16 * 4 + c div 64) mod 4 * 64 + c mod 64 = c"
proof -
  have "b div 16 < 16" "c div 64 < 4" using assms by linarith+
  then show "a div 4 * 4 + (a mod 4 * 16 + b div 16) div 16 = a"
    "(a mod 4 * 16 + b div 16) mod 16 * 16 + (b mod 16 * 4 + c div 64) div 4 = b"
    "(b mod 16 * 4 + c div 64) mod 4 * 64 + c mod 64 = c"
    by (simp_all only: pack div_mult_mod_eq)
qed

lemma byte_zero [simp]: "byte (CHR 0x00) = 0"
  by (simp add: byte_def)

lemma b64_bytes3_encode:
  "b64_bytes3 (byte a div 4) (byte a mod 4 * 16 + byte b div 16) (byte b mod 16 * 4 + byte c div 64) (byte c mod 64) = [a, b, c]"
  using b64_regroup [OF byte_props(1) [of a] byte_props(1) [of b] byte_props(1) [of c]] by (simp add: b64_bytes3_def)

lemma b64_quads_encode: "b64_quads (b64_encode s) = Some s"
proof (induction s rule: b64_encode.induct)
  case (2 a)
  show ?case using b64_bytes3_encode [of a "CHR 0x00" "CHR 0x00"] by (simp add: b64_bytes3_def)
next
  case (3 a b)
  show ?case using b64_bytes3_encode [of a b "CHR 0x00"] by (simp add: b64_bytes3_def)
qed (simp_all add: b64_bytes3_encode)

lemma b64_encode_no_breaks: "filter (\<lambda>c. c \<noteq> CHR 0x0A \<and> c \<noteq> CHR 0x0D) (b64_encode s) = b64_encode s"
  by (induction s rule: b64_encode.induct) simp_all

lemma b64_decode_encode [simp]: "b64_decode (b64_encode s) = Inr s"
  by (simp add: b64_decode_def b64_encode_no_breaks b64_quads_encode)

lemma b64_encode_inject: "b64_encode s = b64_encode t \<longleftrightarrow> s = t"
  using b64_decode_encode by (metis sum.inject(2))

subsection \<open>Data URLs\<close>

text \<open>A text given by its lines, each ended by a line break.\<close>

definition text_lines :: "string list \<Rightarrow> string" where
  "text_lines ls = concat (List.map (\<lambda>l. l @ [CHR 0x0A]) ls)"

definition DataURL :: "string \<Rightarrow> string" where
  "DataURL content = ''data:text/plain;base64,'' @ b64_encode content"

definition DataURLCharset :: "string \<Rightarrow> string" where
  "DataURLCharset content = ''data:text/plain;charset=utf-8;base64,'' @ b64_encode content"

subsection \<open>JSON text\<close>

definition hex_digit :: "nat \<Rightarrow> char" where
  "hex_digit n = ''0123456789abcdef'' ! n"

text \<open>String escapes of \<open>encoding/json\<close>, which also escapes the characters special in HTML.\<close>

definition json_char :: "char \<Rightarrow> string" where
  "json_char c = (if c = CHR 0x22 then [CHR 0x5C, CHR 0x22]
     else if c = CHR 0x5C then [CHR 0x5C, CHR 0x5C]
     else if c = CHR 0x0A then [CHR 0x5C, CHR ''n'']
     else if c = CHR 0x0D then [CHR 0x5C, CHR ''r'']
     else if c = CHR 0x09 then [CHR 0x5C, CHR ''t'']
     else if c = CHR 0x08 then [CHR 0x5C, CHR ''b'']
     else if c = CHR 0x0C then [CHR 0x5C, CHR ''f'']
     else if byte c < 32 \<or> c \<in> {CHR ''<'', CHR ''>'', CHR ''&''} then
       CHR 0x5C # ''u00'' @ [hex_digit (byte c div 16), hex_digit (byte c mod 16)]
     else [c])"

definition json_string :: "string \<Rightarrow> string" where
  "json_string s = CHR 0x22 # concat (List.map json_char s) @ [CHR 0x22]"

fun json_text :: "json \<Rightarrow> string" where
  "json_text JNull = ''null''"
| "json_text (JBool b) = (if b then ''true'' else ''false'')"
| "json_text (JInt i) = dec_int i"
| "json_text (JNum s) = s"
| "json_text (JStr s) = json_string s"
| "json_text (JArr xs) = ''['' @ str_join '','' (List.map json_text xs) @ '']''"
| "json_text (JObj m) = ''{'' @ str_join '','' (List.map (\<lambda>(k, v). json_string k @ '':'' @ json_text v) m) @ ''}''"

subsection \<open>FNV-1a\<close>

definition fnv_step :: "32 word \<Rightarrow> char \<Rightarrow> 32 word" where
  "fnv_step h c = (h XOR of_nat (byte c)) * 16777619"

definition fnv32a :: "string \<Rightarrow> 32 word" where
  "fnv32a s = foldl fnv_step 2166136261 s"

end
