(* ===== verification/Images.thy ===== *)
theory Images
  imports Environment Encoding
begin

text \<open>
  Package \<open>pkg/containers\<close>: credentials from a pull secret, fetching an image and its digest,
  and extracting one file out of the layers of an image, following symbolic links.

  JSON decoding, image references and the registry are parameters. The entries of
  \<open>auths\<close> arrive in the iteration order of a Go map, which is arbitrary.
\<close>

subsection \<open>Credentials\<close>

fun add_credentials :: "(string \<times> string) list \<Rightarrow> keychain \<Rightarrow> keychain res" where
  "add_credentials [] creds = Inr creds"
| "add_credentials ((registry, auth) # rest) creds = (case b64_decode auth of
     Inl e \<Rightarrow> Inl (Wrapf ''failed to decode auth'' e)
   | Inr decoded \<Rightarrow> (case str_split2 CHR '':'' decoded of
       [user, password] \<Rightarrow> add_credentials rest (creds(registry \<mapsto> (user, password)))
     | _ \<Rightarrow> Inl (Errorf ''invalid auth format'')))"

definition PullSecretKeyChainFromString :: "'s env \<Rightarrow> string \<Rightarrow> keychain res" where
  "PullSecretKeyChainFromString E pullSecret = (case x_docker_config E pullSecret of
     Inl e \<Rightarrow> Inl (Wrapf ''failed to parse pullsecret'' e)
   | Inr auths \<Rightarrow> add_credentials auths Map.empty)"

text \<open>\<open>Resolve\<close>: no entry means anonymous access.\<close>

definition Resolve :: "keychain \<Rightarrow> string \<Rightarrow> (string \<times> string) option" where
  "Resolve kc registry = kc registry"

subsection \<open>The registry\<close>

definition ErrImageNotFound :: string where "ErrImageNotFound = ''image not found''"

definition remote_image :: "'s env \<Rightarrow> string \<Rightarrow> keychain \<Rightarrow> ('s, oci_image res) prog" where
  "remote_image E ref kc = call (x_remote_image E ref kc) (EvRemoteImage ref)"

definition remote_get :: "'s env \<Rightarrow> string \<Rightarrow> keychain \<Rightarrow> ('s, string res) prog" where
  "remote_get E ref kc = call (x_remote_get E ref kc) (EvRemoteGet ref)"

definition GetImage :: "'s env \<Rightarrow> string \<Rightarrow> keychain \<Rightarrow> ('s, oci_image res) prog" where
  "GetImage E imageRef kc = (case x_parse_reference E imageRef of
     Some _ \<Rightarrow> ret (Inl (Wrapf ''failed to parse Image reference'' (Sentinel ErrImageNotFound)))
   | None \<Rightarrow> do {
       r \<leftarrow> remote_image E imageRef kc;
       ret (case r of
         Inl e \<Rightarrow> Inl (Joined [Sentinel ErrImageNotFound, e])
       | Inr img \<Rightarrow> Inr img) })"

definition GetDigest :: "'s env \<Rightarrow> string \<Rightarrow> keychain \<Rightarrow> ('s, string res) prog" where
  "GetDigest E imageRef kc = (case x_parse_reference E imageRef of
     Some e \<Rightarrow> ret (Inl (Wrapf ''failed to parse image reference'' e))
   | None \<Rightarrow> do {
       r \<leftarrow> remote_get E imageRef kc;
       ret (case r of
         Inl e \<Rightarrow> Inl (Wrapf ''failed to get remote image descriptor'' e)
       | Inr digest \<Rightarrow> Inr digest) })"

subsection \<open>Paths\<close>

text \<open>\<open>filepath.Clean\<close>, \<open>Dir\<close> and \<open>Join\<close> of slash-separated paths.\<close>

fun clean_parts :: "bool \<Rightarrow> string list \<Rightarrow> string list \<Rightarrow> string list" where
  "clean_parts rooted acc [] = acc"
| "clean_parts rooted acc (p # ps) =
    (if p = [] \<or> p = ''.'' then clean_parts rooted acc ps
     else if p = ''..'' then
       (if acc \<noteq> [] \<and> last acc \<noteq> ''..'' then clean_parts rooted (butlast acc) ps
        else if rooted then clean_parts rooted acc ps
        else clean_parts rooted (acc @ [p]) ps)
     else clean_parts rooted (acc @ [p]) ps)"

definition path_clean :: "string \<Rightarrow> string" where
  "path_clean s = (let rooted = has_prefix s ''/'';
        out = str_join ''/'' (clean_parts rooted [] (str_split CHR ''/'' s))
    in if rooted then CHR ''/'' # out else if out = [] then ''.'' else out)"

definition path_dir :: "string \<Rightarrow> string" where
  "path_dir s = (case last_index s CHR ''/'' of None \<Rightarrow> ''.'' | Some i \<Rightarrow> path_clean (take (Suc i) s))"

definition path_join :: "string \<Rightarrow> string \<Rightarrow> string" where
  "path_join a b = (let ps = filter (\<lambda>p. p \<noteq> []) [a, b] in if ps = [] then [] else path_clean (str_join ''/'' ps))"

subsection \<open>Extracting a file\<close>

definition maxSymlinkDepth :: nat where "maxSymlinkDepth = 5"

text \<open>What a scan found: a symbolic link to follow, or the final answer.\<close>

datatype scan = Follow string | Answer "bytes res"

fun scan_entries :: "string \<Rightarrow> tar_entry list \<Rightarrow> scan option" where
  "scan_entries path [] = None"
| "scan_entries path (h # hs) =
    (if CHR ''/'' # te_name h = path then
       (case te_symlink h of
          Some link \<Rightarrow> Some (Follow (if has_prefix link ''/'' then link else path_join (path_dir path) link))
        | None \<Rightarrow> Some (Answer (case te_content h of
            Inl e \<Rightarrow> Inl (Wrapf ''failed to read file content'' e) | Inr b \<Rightarrow> Inr b)))
     else scan_entries path hs)"

fun scan_layers :: "string \<Rightarrow> image_layer list \<Rightarrow> scan option" where
  "scan_layers path [] = None"
| "scan_layers path (l # ls) = (case ly_open l of
     Some e \<Rightarrow> Some (Answer (Inl (Wrapf ''failed to get layer data'' e)))
   | None \<Rightarrow> (case scan_entries path (ly_entries l) of
       Some r \<Rightarrow> Some r
     | None \<Rightarrow> (case ly_end l of
         Some e \<Rightarrow> Some (Answer (Inl (Wrapf ''error reading tar'' e)))
       | None \<Rightarrow> (case ly_close l of
           Some e \<Rightarrow> Some (Answer (Inl (Wrapf ''failed to close tar'' e)))
         | None \<Rightarrow> scan_layers path ls))))"

function extractFileFromImageInternal :: "oci_image \<Rightarrow> string \<Rightarrow> nat \<Rightarrow> bytes res" where
  "extractFileFromImageInternal img path depth =
    (if maxSymlinkDepth < depth then Inl (Errorf ''too many symlink resolutions, possible loop'')
     else (case im_layers img of
       Inl e \<Rightarrow> Inl (Wrapf ''failed to get Image layers'' e)
     | Inr layers \<Rightarrow> (case scan_layers path (rev layers) of
         None \<Rightarrow> Inl (Errorf ''file not found in Image'')
       | Some (Answer r) \<Rightarrow> r
       | Some (Follow target) \<Rightarrow> extractFileFromImageInternal img target (Suc depth))))"
  by pat_completeness auto
termination by (relation "measure (\<lambda>(_, _, depth). Suc maxSymlinkDepth - depth)") auto

declare extractFileFromImageInternal.simps [simp del]

definition ExtractFileFromImage :: "oci_image option \<Rightarrow> string \<Rightarrow> bytes res" where
  "ExtractFileFromImage img path = (case img of
     None \<Rightarrow> Inl (Errorf ''image not defined'')
   | Some im \<Rightarrow> extractFileFromImageInternal im path 0)"

subsection \<open>Facts\<close>

lemma add_credentials_other:
  "add_credentials auths creds = Inr kc \<Longrightarrow> registry \<notin> fst ` set auths \<Longrightarrow> kc registry = creds registry"
  by (induction auths creds rule: add_credentials.induct) (auto split: sum.splits list.splits)

lemma add_credentials_entry:
  "add_credentials auths creds = Inr kc \<Longrightarrow> distinct (List.map fst auths) \<Longrightarrow> (registry, auth) \<in> set auths \<Longrightarrow>
    \<exists>d user password. b64_decode auth = Inr d \<and> str_split2 CHR '':'' d = [user, password] \<and>
      kc registry = Some (user, password)"
proof (induction auths creds rule: add_credentials.induct)
  case (2 r a rest creds)
  then obtain d user password where d: "b64_decode a = Inr d" "str_split2 CHR '':'' d = [user, password]"
    and ok: "add_credentials rest (creds(r \<mapsto> (user, password))) = Inr kc"
    by (auto split: sum.splits list.splits)
  show ?case
  proof (cases "registry = r")
    case True
    with "2.prems" have "auth = a" "r \<notin> fst ` set rest" by (auto simp: image_iff)
    with True d add_credentials_other [OF ok, of r] show ?thesis by simp
  next
    case False
    with "2.prems" "2.IH" [OF d(1) d(2) refl refl ok] show ?thesis by auto
  qed
qed simp

text \<open>
  The newest layer that holds a regular file at a path decides its content, whatever older
  layers hold, provided the newer layers can be read.
\<close>

lemma scan_layers_skip:
  "\<forall>l \<in> set newer. ly_open l = None \<and> ly_end l = None \<and> ly_close l = None \<and> scan_entries path (ly_entries l) = None \<Longrightarrow>
    scan_layers path (newer @ ls) = scan_layers path ls"
  by (induction newer) auto

lemma extract_regular_file:
  assumes "im_layers img = Inr (older @ l # newer)"
    and "\<forall>k \<in> set newer. ly_open k = None \<and> ly_end k = None \<and> ly_close k = None \<and> scan_entries path (ly_entries k) = None"
    and "ly_open l = None" and "scan_entries path (ly_entries l) = Some (Answer r)"
    and "d \<le> maxSymlinkDepth"
  shows "extractFileFromImageInternal img path d = r"
proof -
  have "scan_layers path (rev newer @ l # rev older) = Some (Answer r)"
    using assms(2-4) by (subst scan_layers_skip) auto
  with assms(1,5) show ?thesis by (subst extractFileFromImageInternal.simps) simp
qed

end
