(* ===== verification/Semver.thy ===== *)
theory Semver
  imports GoLib "HOL-Library.Product_Lexorder"
begin

text \<open>
  Semantic versions (\<open>github.com/blang/semver/v4\<close>, vendored): \<open>ParseTolerant\<close>, \<open>Parse\<close> and
  \<open>Compare\<close>, which the control plane uses for its minimum version, for drift detection and to
  decide when an upgrade is pushed. Version numbers are Go \<open>uint64\<close>: a number that does not fit
  is a parse error, as in \<open>strconv.ParseUint\<close>. White space is the ASCII white space.
\<close>

record pr_version =
  pr_str :: string
  pr_num :: nat
  pr_isNum :: bool

record version =
  v_major :: nat
  v_minor :: nat
  v_patch :: nat
  v_pre :: "pr_version list"
  v_build :: "string list"

definition is_alphanum :: "char \<Rightarrow> bool" where
  "is_alphanum c \<longleftrightarrow> is_digit c \<or> (of_char c :: nat) \<in> {65..90} \<or> (of_char c :: nat) \<in> {97..122} \<or> c = CHR ''-''"

definition hasLeadingZeroes :: "string \<Rightarrow> bool" where
  "hasLeadingZeroes s \<longleftrightarrow> 1 < length s \<and> hd s = CHR ''0''"

definition parse_uint :: "string \<Rightarrow> nat option" where
  "parse_uint s = (if s \<noteq> [] \<and> list_all is_digit s \<and> nat_of_digits s < 2 ^ 64 then Some (nat_of_digits s) else None)"

definition parse_number :: "string \<Rightarrow> nat option" where
  "parse_number s = (if \<not> list_all is_digit s then None else if hasLeadingZeroes s then None else parse_uint s)"

definition str_splitN3 :: "char \<Rightarrow> string \<Rightarrow> string list" where
  "str_splitN3 c s = (case str_split2 c s of [a, b] \<Rightarrow> a # str_split2 c b | ps \<Rightarrow> ps)"

definition NewPRVersion :: "string \<Rightarrow> pr_version option" where
  "NewPRVersion s = (if s = [] then None
     else if list_all is_digit s then
       (case parse_number s of None \<Rightarrow> None | Some n \<Rightarrow> Some \<lparr>pr_str = [], pr_num = n, pr_isNum = True\<rparr>)
     else if list_all is_alphanum s then Some \<lparr>pr_str = s, pr_num = 0, pr_isNum = False\<rparr>
     else None)"

fun traverse :: "('x \<Rightarrow> 'y option) \<Rightarrow> 'x list \<Rightarrow> 'y list option" where
  "traverse f [] = Some []"
| "traverse f (x # xs) = (case f x of None \<Rightarrow> None
     | Some y \<Rightarrow> (case traverse f xs of None \<Rightarrow> None | Some ys \<Rightarrow> Some (y # ys)))"

definition valid_build :: "string \<Rightarrow> string option" where
  "valid_build s = (if s = [] \<or> \<not> list_all is_alphanum s then None else Some s)"

text \<open>The patch part: \<open>patch[-pre][+build]\<close>.\<close>

definition split_patch :: "string \<Rightarrow> string \<times> string list \<times> string list" where
  "split_patch s = (let (rest, build) = (case str_split2 CHR ''+'' s of [r, b] \<Rightarrow> (r, str_split CHR ''.'' b) | _ \<Rightarrow> (s, []));
        (patch, pre) = (case str_split2 CHR ''-'' rest of [p, q] \<Rightarrow> (p, str_split CHR ''.'' q) | _ \<Rightarrow> (rest, []))
    in (patch, pre, build))"

definition Parse :: "string \<Rightarrow> version option" where
  "Parse s = (if s = [] then None else (case str_splitN3 CHR ''.'' s of
     [ma, mi, rest] \<Rightarrow>
       (case (parse_number ma, parse_number mi) of
          (Some major, Some minor) \<Rightarrow> (case split_patch rest of (patchStr, prerelease, build) \<Rightarrow>
            (case parse_number patchStr of
               None \<Rightarrow> None
             | Some patch \<Rightarrow> (case (traverse NewPRVersion prerelease, traverse valid_build build) of
                 (Some pre, Some bs) \<Rightarrow>
                   Some \<lparr>v_major = major, v_minor = minor, v_patch = patch, v_pre = pre, v_build = bs\<rparr>
               | _ \<Rightarrow> None)))
        | _ \<Rightarrow> None)
   | _ \<Rightarrow> None))"

definition strip_zeros :: "string \<Rightarrow> string" where
  "strip_zeros p = (if 1 < length p then
     (let q = dropWhile (\<lambda>c. c = CHR ''0'') p in
      if q = [] \<or> \<not> is_digit (hd q) then CHR ''0'' # q else q)
     else p)"

definition ParseTolerant :: "string \<Rightarrow> version option" where
  "ParseTolerant s = (let t = trim_prefix (trim_space s) ''v'';
        parts = List.map strip_zeros (str_splitN3 CHR ''.'' t)
    in if length parts < 3 then
         (if CHR ''+'' \<in> set (last parts) \<or> CHR ''-'' \<in> set (last parts) then None
          else Parse (str_join ''.'' (parts @ replicate (3 - length parts) ''0'')))
       else Parse (str_join ''.'' parts))"

definition cmp :: "'a::linorder \<Rightarrow> 'a \<Rightarrow> int" where
  "cmp a b = (if a = b then 0 else if a > b then 1 else -1)"

definition pr_compare :: "pr_version \<Rightarrow> pr_version \<Rightarrow> int" where
  "pr_compare v w =
    (if pr_isNum v \<and> \<not> pr_isNum w then -1
     else if \<not> pr_isNum v \<and> pr_isNum w then 1
     else if pr_isNum v \<and> pr_isNum w then cmp (pr_num v) (pr_num w)
     else cmp (pr_str v) (pr_str w))"

fun pre_compare :: "pr_version list \<Rightarrow> pr_version list \<Rightarrow> int" where
  "pre_compare [] [] = 0"
| "pre_compare [] (_ # _) = -1"
| "pre_compare (_ # _) [] = 1"
| "pre_compare (v # vs) (w # ws) = (if pr_compare v w = 0 then pre_compare vs ws else pr_compare v w)"

definition v_compare :: "version \<Rightarrow> version \<Rightarrow> int" where
  "v_compare v w =
    (if v_major v \<noteq> v_major w then cmp (v_major v) (v_major w)
     else if v_minor v \<noteq> v_minor w then cmp (v_minor v) (v_minor w)
     else if v_patch v \<noteq> v_patch w then cmp (v_patch v) (v_patch w)
     else if v_pre v = [] \<and> v_pre w = [] then 0
     else if v_pre v = [] then 1
     else if v_pre w = [] then -1
     else pre_compare (v_pre v) (v_pre w))"

definition v_gt :: "version \<Rightarrow> version \<Rightarrow> bool" where "v_gt v w \<longleftrightarrow> v_compare v w = 1"
definition v_lt :: "version \<Rightarrow> version \<Rightarrow> bool" where "v_lt v w \<longleftrightarrow> v_compare v w = -1"
definition v_eq :: "version \<Rightarrow> version \<Rightarrow> bool" where "v_eq v w \<longleftrightarrow> v_compare v w = 0"

subsection \<open>Comparison is that of a key in a linear order\<close>

definition pr_key :: "pr_version \<Rightarrow> bool \<times> nat \<times> string" where
  "pr_key v = (if pr_isNum v then (False, pr_num v, []) else (True, 0, pr_str v))"

definition v_key :: "version \<Rightarrow> nat \<times> nat \<times> nat \<times> bool \<times> (bool \<times> nat \<times> string) list" where
  "v_key v = (v_major v, v_minor v, v_patch v, v_pre v = [], List.map pr_key (v_pre v))"

lemma cmp_simps [simp]: "cmp a b = 0 \<longleftrightarrow> a = b" "cmp a b = 1 \<longleftrightarrow> b < a" "cmp a b = -1 \<longleftrightarrow> a < b"
  by (auto simp: cmp_def)

lemma pr_compare_key: "pr_compare v w = cmp (pr_key v) (pr_key w)"
  by (auto simp: pr_compare_def pr_key_def cmp_def)

lemma pre_compare_key: "pre_compare vs ws = cmp (List.map pr_key vs) (List.map pr_key ws)"
  by (induction vs ws rule: pre_compare.induct) (auto simp: pr_compare_key cmp_def)

lemma v_compare_key: "v_compare v w = cmp (v_key v) (v_key w)"
  by (auto simp: v_compare_def v_key_def pre_compare_key cmp_def)

lemma v_gt_key: "v_gt v w \<longleftrightarrow> v_key w < v_key v"
  and v_lt_key: "v_lt v w \<longleftrightarrow> v_key v < v_key w"
  and v_eq_key: "v_eq v w \<longleftrightarrow> v_key v = v_key w"
  by (simp_all add: v_gt_def v_lt_def v_eq_def v_compare_key)

lemma v_trichotomy: "v_gt v w \<or> v_eq v w \<or> v_lt v w"
  by (auto simp: v_gt_key v_lt_key v_eq_key)

lemma v_gt_trans: "v_gt u v \<Longrightarrow> v_gt v w \<Longrightarrow> v_gt u w"
  by (auto simp: v_gt_key)

lemma v_gt_irrefl [simp]: "\<not> v_gt v v"
  by (simp add: v_gt_key)

lemma v_gt_asym: "v_gt v w \<Longrightarrow> \<not> v_gt w v"
  by (auto simp: v_gt_key)

lemma v_lt_gt: "v_lt v w \<longleftrightarrow> v_gt w v"
  by (simp add: v_gt_key v_lt_key)

subsection \<open>Parsing printed versions\<close>

definition version_string :: "nat \<Rightarrow> nat \<Rightarrow> nat \<Rightarrow> string" where
  "version_string a b c = dec_nat a @ CHR ''.'' # dec_nat b @ CHR ''.'' # dec_nat c"

definition plain_version :: "nat \<Rightarrow> nat \<Rightarrow> nat \<Rightarrow> version" where
  "plain_version a b c = \<lparr>v_major = a, v_minor = b, v_patch = c, v_pre = [], v_build = []\<rparr>"


lemma digit_char_zero: "d < 10 \<Longrightarrow> digit_char d = CHR ''0'' \<Longrightarrow> d = 0"
  using digit_char_props(2) [of d] by (simp add: digit_val_def)

lemma not_digit [simp]:
  "\<not> is_digit CHR ''.''" "\<not> is_digit CHR ''v''" "\<not> is_digit CHR ''+''" "\<not> is_digit CHR ''-''" "\<not> is_digit CHR '':''"
  by (simp_all add: is_digit_def)

lemma digit_not_space: "is_digit c \<Longrightarrow> \<not> is_space c"
  by (auto simp: is_digit_def is_space_def)

lemma dec_nat_list_all [simp]: "list_all is_digit (dec_nat n)"
  by (auto simp: list_all_iff dec_nat_digits)

lemma dec_nat_free: "\<not> is_digit c \<Longrightarrow> c \<notin> set (dec_nat n)"
  using dec_nat_digits by blast

lemma dec_nat_leading: "hd (dec_nat n) = CHR ''0'' \<Longrightarrow> n = 0"
proof (induction n rule: dec_nat.induct)
  case (1 n)
  show ?case
  proof (cases "n < 10")
    case True
    with "1.prems" show ?thesis by (subst (asm) dec_nat.simps) (auto dest: digit_char_zero)
  next
    case False
    then have "dec_nat n = dec_nat (n div 10) @ [digit_char (n mod 10)]" by (subst dec_nat.simps) simp
    with "1.prems" "1.IH" False show ?thesis by (simp add: hd_append)
  qed
qed

lemma dec_nat_zero [simp]: "dec_nat 0 = ''0''"
  by (subst dec_nat.simps) simp

lemma no_leading_zeroes [simp]: "\<not> hasLeadingZeroes (dec_nat n)"
  using dec_nat_leading [of n] by (auto simp: hasLeadingZeroes_def)

lemma strip_zeros_dec_nat [simp]: "strip_zeros (dec_nat n) = dec_nat n"
proof (cases "1 < length (dec_nat n)")
  case True
  then have "hd (dec_nat n) \<noteq> CHR ''0''" using no_leading_zeroes [of n] by (simp add: hasLeadingZeroes_def)
  moreover obtain c cs where "dec_nat n = c # cs" by (cases "dec_nat n") auto
  moreover have "is_digit c" using dec_nat_digits [of c n] calculation(2) by simp
  ultimately show ?thesis by (simp add: strip_zeros_def)
qed (simp add: strip_zeros_def)

lemma parse_number_dec_nat [simp]: "n < 2 ^ 64 \<Longrightarrow> parse_number (dec_nat n) = Some n"
  by (simp add: parse_number_def parse_uint_def)

lemma splitN3_version: "str_splitN3 CHR ''.'' (version_string a b c) = [dec_nat a, dec_nat b, dec_nat c]"
  by (simp add: version_string_def str_splitN3_def str_split2_append dec_nat_free str_split2_no_sep)

lemma split_patch_plain: "split_patch (dec_nat c) = (dec_nat c, [], [])"
  by (simp add: split_patch_def str_split2_no_sep dec_nat_free)

lemma Parse_version_string:
  assumes "a < 2 ^ 64" "b < 2 ^ 64" "c < 2 ^ 64"
  shows "Parse (version_string a b c) = Some (plain_version a b c)"
proof -
  have "version_string a b c \<noteq> []" by (simp add: version_string_def)
  then show ?thesis using assms
    by (simp add: Parse_def splitN3_version split_patch_plain plain_version_def)
qed

lemma trim_space_digits:
  assumes "s \<noteq> []" "is_digit (hd s)" "is_digit (last s)"
  shows "trim_space s = s"
proof -
  have "dropWhile is_space s = s" using assms by (cases s) (auto dest: digit_not_space)
  moreover have "dropWhile is_space (rev s) = rev s"
    using assms by (cases "rev s") (auto simp: digit_not_space last_rev hd_rev dest: digit_not_space)
  ultimately show ?thesis by (simp add: trim_space_def)
qed

lemma ParseTolerant_version_string:
  assumes "a < 2 ^ 64" "b < 2 ^ 64" "c < 2 ^ 64"
  shows "ParseTolerant (version_string a b c) = Some (plain_version a b c)"
proof -
  obtain x xs where d: "dec_nat a = x # xs" by (cases "dec_nat a") auto
  have x: "is_digit x" using dec_nat_digits [of x a] d by simp
  have l: "is_digit (last (dec_nat c))" using dec_nat_digits [of "last (dec_nat c)" c] by simp
  have t: "trim_space (version_string a b c) = version_string a b c"
    using x l by (intro trim_space_digits) (simp_all add: version_string_def d)
  moreover have "trim_prefix (version_string a b c) ''v'' = version_string a b c"
    using x by (auto simp: trim_prefix_def version_string_def d)
  moreover have "str_join ''.'' [dec_nat a, dec_nat b, dec_nat c] = version_string a b c"
    by (simp add: version_string_def)
  ultimately show ?thesis
    by (simp add: ParseTolerant_def splitN3_version Parse_version_string [OF assms] del: str_join.simps)
qed

text \<open>Concrete versions, for scenarios.\<close>

lemma parse_4_18 [simp]:
  "ParseTolerant ''4.18.1'' = Some (plain_version 4 18 1)" "ParseTolerant ''4.18.10'' = Some (plain_version 4 18 10)"
  "ParseTolerant ''4.18.0'' = Some (plain_version 4 18 0)" "ParseTolerant ''4.17.0'' = Some (plain_version 4 17 0)"
  "ParseTolerant ''4.13.9'' = Some (plain_version 4 13 9)"
  using ParseTolerant_version_string [of 4 18 1] ParseTolerant_version_string [of 4 18 10]
    ParseTolerant_version_string [of 4 18 0] ParseTolerant_version_string [of 4 17 0] ParseTolerant_version_string [of 4 13 9]
  by (simp_all add: version_string_def dec_nat.simps)

lemma v_compare_plain: "v_compare (plain_version a b c) (plain_version a' b' c') = cmp (a, b, c) (a', b', c')"
  by (auto simp: v_compare_def plain_version_def cmp_def)

lemma v_gt_plain [simp]: "v_gt (plain_version a b c) (plain_version a' b' c') \<longleftrightarrow> (a', b', c') < (a, b, c)"
  and v_eq_plain [simp]: "v_eq (plain_version a b c) (plain_version a' b' c') \<longleftrightarrow> (a', b', c') = (a, b, c)"
  by (auto simp: v_gt_def v_eq_def v_compare_plain)

end
