(* ===== verification/Release.thy ===== *)
theory Release
  imports Images Semver
begin

text \<open>
  Release images (\<open>controlplane/internal/release\<close>) and the Kubernetes version of a release
  (\<open>controlplane/internal/version\<close>).
\<close>

definition OCPRepository :: string where "OCPRepository = ''quay.io/openshift-release-dev/ocp-release''"
definition OKDRepository :: string where "OKDRepository = ''quay.io/okd/scos-release''"
definition OKDPreStr :: string where "OKDPreStr = ''okd-scos''"
definition ReleaseImageRepositoryOverrideAnnotation :: string where
  "ReleaseImageRepositoryOverrideAnnotation = ''cluster.x-k8s.io/release-image-repository-override''"

definition IsOKD :: "string \<Rightarrow> bool" where
  "IsOKD v = (case ParseTolerant v of None \<Rightarrow> False
     | Some d \<Rightarrow> list_ex (\<lambda>pre. has_prefix (pr_str pre) OKDPreStr) (v_pre d))"

definition IsOKDGA :: "string \<Rightarrow> bool" where
  "IsOKDGA v = (if \<not> IsOKD v then False else (case ParseTolerant v of None \<Rightarrow> False
     | Some d \<Rightarrow> (case v_pre d of [p0, p1] \<Rightarrow> pr_str p0 = OKDPreStr \<and> pr_isNum p1 | _ \<Rightarrow> False)))"

definition IsGA :: "string \<Rightarrow> bool" where
  "IsGA v = (case ParseTolerant v of None \<Rightarrow> False
     | Some d \<Rightarrow> if v_build d = [] \<and> v_pre d = [] then True else IsOKDGA v)"

definition GetReleaseImage :: "string \<Rightarrow> string \<Rightarrow> string \<Rightarrow> string" where
  "GetReleaseImage desiredVersion repositoryOverride architecture =
    (if repositoryOverride \<noteq> [] then repositoryOverride @ '':'' @ desiredVersion @ ''-'' @ architecture
     else if IsOKD desiredVersion then OKDRepository @ '':'' @ desiredVersion
     else OCPRepository @ '':'' @ desiredVersion @ ''-'' @ architecture)"

definition GetRepoImage :: "string \<Rightarrow> string res" where
  "GetRepoImage img = (case last_index img CHR '':'' of
     None \<Rightarrow> Inl (Errorf ''could not parse image'')
   | Some i \<Rightarrow> Inr (take i img))"

text \<open>The interface \<open>containers.RemoteImage\<close>.\<close>

record 's remoteImage =
  ri_GetImage :: "string \<Rightarrow> keychain \<Rightarrow> ('s, oci_image res) prog"
  ri_GetDigest :: "string \<Rightarrow> keychain \<Rightarrow> ('s, string res) prog"

definition NewRemoteImageRepository :: "'s env \<Rightarrow> 's remoteImage" where
  "NewRemoteImageRepository E = \<lparr>ri_GetImage = GetImage E, ri_GetDigest = GetDigest E\<rparr>"

definition GetReleaseImageWithDigest :: "'s env \<Rightarrow> string \<Rightarrow> bytes \<Rightarrow> 's remoteImage \<Rightarrow> ('s, string res) prog" where
  "GetReleaseImageWithDigest E img pullSecret remote =
    (if str_contains img ''@sha'' then ret (Inr img)
     else (case PullSecretKeyChainFromString E pullSecret of
       Inl e \<Rightarrow> ret (Inl e)
     | Inr keychain \<Rightarrow> do {
         r \<leftarrow> ri_GetDigest remote img keychain;
         ret (case r of
           Inl e \<Rightarrow> Inl e
         | Inr digest \<Rightarrow> (case GetRepoImage img of
             Inl e \<Rightarrow> Inl e
           | Inr repoImage \<Rightarrow> Inr (repoImage @ ''@'' @ digest))) }))"

subsection \<open>Kubernetes version\<close>

definition imageReferencesPath :: string where "imageReferencesPath = ''/release-manifests/image-references''"
definition annotationBuildVersions :: string where "annotationBuildVersions = ''io.openshift.build.versions''"

text \<open>The argument is the list of the annotations of the image stream's tags.\<close>

fun getK8sVersionFromImageStream :: "labels list \<Rightarrow> string res" where
  "getK8sVersionFromImageStream [] = Inl (Errorf ''unable to find kubernetes version'')"
| "getK8sVersionFromImageStream (annotations # tags) = (case annotations annotationBuildVersions of
     None \<Rightarrow> getK8sVersionFromImageStream tags
   | Some versions \<Rightarrow> (case str_split CHR ''='' versions of
       [k, v] \<Rightarrow> if k = ''kubernetes'' then Inr v else getK8sVersionFromImageStream tags
     | _ \<Rightarrow> getK8sVersionFromImageStream tags))"

definition GetKubernetesVersion :: "'s env \<Rightarrow> 's remoteImage \<Rightarrow> string \<Rightarrow> string \<Rightarrow> ('s, string res) prog" where
  "GetKubernetesVersion E remote imageRef pullsecret = (case PullSecretKeyChainFromString E pullsecret of
     Inl e \<Rightarrow> ret (Inl (Opaquef ''unable to load auth from pull-secret'' e))
   | Inr auth \<Rightarrow> do {
       r \<leftarrow> ri_GetImage remote imageRef auth;
       ret (case r of
         Inl e \<Rightarrow> Inl (Opaquef ''unable to get image'' e)
       | Inr img \<Rightarrow> (case ExtractFileFromImage (Some img) imageReferencesPath of
           Inl e \<Rightarrow> Inl (Opaquef ''unable to extract file from imageRef'' e)
         | Inr content \<Rightarrow> (case x_image_stream E content of
             Inl e \<Rightarrow> Inl (Opaquef ''unable to load release image-references'' e)
           | Inr tags \<Rightarrow> (case getK8sVersionFromImageStream tags of
               Inl e \<Rightarrow> Inl (Opaquef ''unable to extract k8s from release image-references'' e)
             | Inr k8sVersion \<Rightarrow> Inr k8sVersion)))) })"

subsection \<open>Facts\<close>

lemma GetRepoImage_tag: "CHR '':'' \<notin> set tag \<Longrightarrow> GetRepoImage (repo @ '':'' @ tag) = Inr repo"
  by (simp add: GetRepoImage_def last_index_append)

lemma GetReleaseImage_tagged:
  "\<exists>tag. GetReleaseImage v ov arch = (if ov \<noteq> [] then ov else if IsOKD v then OKDRepository else OCPRepository) @ '':'' @ tag \<and>
     set tag \<subseteq> set v \<union> set arch \<union> {CHR ''-''}"
  by (auto simp: GetReleaseImage_def)

lemma GetKubernetesVersion_opaque:
  "logs (GetKubernetesVersion E remote ref ps) (\<lambda>r evs. \<forall>e. r = Inl e \<longrightarrow> (\<exists>m e'. e = Opaquef m e'))"
  if "\<And>kc. logs (ri_GetImage remote ref kc) (\<lambda>_ _. True)"
  unfolding GetKubernetesVersion_def
  by (intro logs_intros logs_bind [OF that]) (auto split: sum.splits)

lemma GetImage_logs: "logs (GetImage E ref kc) (\<lambda>r evs. (\<forall>e. r = Inl e \<longrightarrow> err_is ErrImageNotFound e) \<and> (\<forall>e \<in> set evs. \<not> is_write e))"
  unfolding GetImage_def remote_image_def
  by (intro logs_intros logs_call_bind) (auto split: sum.splits)

lemma GetDigest_logs: "logs (GetDigest E ref kc) (\<lambda>r evs. (\<forall>e \<in> set evs. \<not> is_write e))"
  unfolding GetDigest_def remote_get_def
  by (intro logs_intros logs_call_bind) auto

subsection \<open>The RemoteImage interface\<close>

text \<open>
  What the upgrade and version components rely on: neither operation writes anything, and a
  failure to get an image is recognisable as \<open>ErrImageNotFound\<close>.
\<close>

locale remote_image_repo =
  fixes R :: "'s remoteImage"
  assumes image_logs: "logs (ri_GetImage R ref kc) (\<lambda>r evs. (\<forall>e. r = Inl e \<longrightarrow> err_is ErrImageNotFound e) \<and> (\<forall>e \<in> set evs. \<not> is_write e))"
    and digest_logs: "logs (ri_GetDigest R ref kc) (\<lambda>r evs. \<forall>e \<in> set evs. \<not> is_write e)"
begin

lemma digest_image_logs:
  "logs (GetReleaseImageWithDigest E img ps R) (\<lambda>r evs. (\<forall>e \<in> set evs. \<not> is_write e) \<and>
     (\<forall>x. r = Inr x \<longrightarrow> x = img \<or> (\<exists>repo d. GetRepoImage img = Inr repo \<and> x = repo @ ''@'' @ d)))"
  unfolding GetReleaseImageWithDigest_def
  by (intro logs_intros logs_bind [OF digest_logs]) (auto split: sum.splits)

lemma k8s_version_hides_not_found:
  "logs (GetKubernetesVersion E R ref ps) (\<lambda>r evs. \<forall>e. r = Inl e \<longrightarrow> \<not> err_is t e)"
  by (rule logs_mono [OF GetKubernetesVersion_opaque [OF logs_mono [OF image_logs]]]) auto

end

interpretation registry: remote_image_repo "NewRemoteImageRepository E" for E
  by unfold_locales (simp_all add: NewRemoteImageRepository_def GetImage_logs GetDigest_logs)

subsection \<open>Properties\<close>

text \<open>
  The repository of a release image is recovered by \<open>GetRepoImage\<close>, also when the
  repository override carries a registry port: for a version and an architecture without a
  colon, it is the override if given and otherwise the OKD or OCP repository.
\<close>

theorem GetRepoImage_GetReleaseImage:
  assumes "CHR '':'' \<notin> set v" and "CHR '':'' \<notin> set arch"
  shows "GetRepoImage (GetReleaseImage v ov arch) =
    Inr (if ov \<noteq> [] then ov else if IsOKD v then OKDRepository else OCPRepository)"
proof -
  obtain tag where tag: "GetReleaseImage v ov arch =
      (if ov \<noteq> [] then ov else if IsOKD v then OKDRepository else OCPRepository) @ '':'' @ tag"
    "set tag \<subseteq> set v \<union> set arch \<union> {CHR ''-''}"
    using GetReleaseImage_tagged [of v ov arch] by blast
  have "CHR '':'' \<notin> set tag" using tag(2) assms by auto
  then show ?thesis unfolding tag(1) by (rule GetRepoImage_tag)
qed

theorem GetRepoImage_GetReleaseImage_witness:
  "GetRepoImage (GetReleaseImage ''4.18.1'' ''reg.local:5000/ocp'' ''multi'') = Inr ''reg.local:5000/ocp''"
  using GetRepoImage_GetReleaseImage [of "''4.18.1''" "''multi''" "''reg.local:5000/ocp''"] by simp

text \<open>
  With the real image repository, an error of \<open>GetKubernetesVersion\<close> is never
  recognised as \<open>ErrImageNotFound\<close> by \<open>errors.Is\<close>, because every cause is formatted with the
  verb \<open>%v\<close>, although the failure of \<open>GetImage\<close> it reports always is.
\<close>

theorem GetKubernetesVersion_hides_ErrImageNotFound:
  assumes "run_state (GetKubernetesVersion E (NewRemoteImageRepository E) ref ps) (start s) = (Inl e, w)"
  shows "\<not> err_is ErrImageNotFound e"
  using logs_start [OF registry.k8s_version_hides_not_found assms] by blast

theorem GetKubernetesVersion_hides_ErrImageNotFound_witness:
  "fst (run_state (GetKubernetesVersion nowhere (NewRemoteImageRepository nowhere) ''quay.io/x:1'' ''{}'') (start ())) =
     Inl (Opaquef ''unable to get image'' (Joined [Sentinel ErrImageNotFound, ApiStatus NotFound])) \<and>
   \<not> err_is ErrImageNotFound (Opaquef ''unable to get image'' (Joined [Sentinel ErrImageNotFound, ApiStatus NotFound]))"
proof -
  let ?m = "GetKubernetesVersion nowhere (NewRemoteImageRepository nowhere) ''quay.io/x:1'' ''{}''"
  let ?e = "Opaquef ''unable to get image'' (Joined [Sentinel ErrImageNotFound, ApiStatus NotFound])"
  obtain r w where run: "run_state ?m (start ()) = (r, w)" by force
  have "fst (run_state ?m (start ())) = Inl ?e"
    by (simp add: GetKubernetesVersion_def PullSecretKeyChainFromString_def NewRemoteImageRepository_def GetImage_def
        remote_image_def call_def nowhere_def absent_def start_def)
  with run have "run_state ?m (start ()) = (Inl ?e, w)" by simp
  from GetKubernetesVersion_hides_ErrImageNotFound [OF this] this show ?thesis by simp
qed

text \<open>
  A version is a general-availability release exactly when it parses and either has
  neither pre-release nor build part, or its pre-release is \<open>okd-scos\<close> followed by one number.
\<close>

theorem IsGA_iff:
  "IsGA v \<longleftrightarrow> (\<exists>d. ParseTolerant v = Some d \<and>
     (v_build d = [] \<and> v_pre d = [] \<or> (\<exists>p0 p1. v_pre d = [p0, p1] \<and> pr_str p0 = OKDPreStr \<and> pr_isNum p1)))"
proof -
  have pre: "has_prefix OKDPreStr OKDPreStr" using has_prefix_append [of OKDPreStr "[]"] by simp
  show ?thesis
    by (auto simp: IsGA_def IsOKDGA_def IsOKD_def pre split: option.splits list.splits if_splits)
qed

end
