(* ===== verification/Etcd.thy ===== *)
theory Etcd
  imports Environment
begin

text \<open>
  The etcd side of the workload client (\<open>controlplane/internal/workloadclient/etcd.go\<close>): choosing
  an etcd pod, opening a connection through a port-forward, listing members, removing a member by
  name or id, and moving leadership away from a member before it is removed.

  A connection is a record whose flag \<open>conn_closed\<close> is the state of Go's \<open>sync.Once\<close>: closing
  returns the updated connection and a second close does nothing. Deadlines of contexts are not
  modelled: an expired deadline is an error answer of the call it interrupts.
\<close>

subsection \<open>Calls of the etcd client and of the transport\<close>

definition member_list :: "'s env \<Rightarrow> etcd_client \<Rightarrow> ('s, etcd_pb_member option list option res) prog" where
  "member_list E c = call (x_member_list E c) (EvMemberList c)"

definition etcd_status :: "'s env \<Rightarrow> etcd_client \<Rightarrow> string \<Rightarrow> ('s, status_response option res) prog" where
  "etcd_status E c ep = call (x_etcd_status E c ep) (EvEtcdStatus c ep)"

definition alarm_list :: "'s env \<Rightarrow> etcd_client \<Rightarrow> ('s, alarm_type list res) prog" where
  "alarm_list E c = call (x_alarm_list E c) (EvAlarmList c)"

definition member_remove :: "'s env \<Rightarrow> etcd_client \<Rightarrow> uint64 \<Rightarrow> ('s, goerr option) prog" where
  "member_remove E c i = call (x_member_remove E c i) (EvMemberRemove c i)"

definition move_leader :: "'s env \<Rightarrow> etcd_client \<Rightarrow> uint64 \<Rightarrow> ('s, goerr option) prog" where
  "move_leader E c i = call (x_move_leader E c i) (EvMoveLeader c i)"

definition stop_forward :: "'s env \<Rightarrow> nat \<Rightarrow> ('s, unit) prog" where
  "stop_forward E p = call (\<lambda>s. ((), x_stop_forward E p s)) (\<lambda>_. EvStopForward p)"

definition etcd_close :: "'s env \<Rightarrow> etcd_client \<Rightarrow> ('s, unit) prog" where
  "etcd_close E c = call (\<lambda>s. ((), x_etcd_close E c s)) (\<lambda>_. EvEtcdClose c)"

definition etcd_new :: "'s env \<Rightarrow> string \<Rightarrow> ('s, etcd_client res) prog" where
  "etcd_new E ep = call (x_etcd_new E ep) (EvEtcdNew ep)"

definition forward :: "'s env \<Rightarrow> string \<Rightarrow> nat \<Rightarrow> ('s, forward_outcome) prog" where
  "forward E pod p = call (x_forward E pod p) (EvForward pod p)"

definition getFreePort :: "'s env \<Rightarrow> ('s, nat res) prog" where
  "getFreePort E = call (x_free_port E) EvFreePort"

lemmas etcd_calls = member_list_def etcd_status_def alarm_list_def member_remove_def move_leader_def
  stop_forward_def etcd_close_def etcd_new_def forward_def getFreePort_def

subsection \<open>Connections\<close>

record 's etcdConnection =
  conn_client :: etcd_client
  conn_stopChn :: "nat option"
  conn_endpoint :: string
  conn_podName :: string
  conn_nodeName :: string
  conn_closeFunc :: "('s, unit) prog option"
  conn_closed :: bool

definition close_conn :: "'s env \<Rightarrow> 's etcdConnection \<Rightarrow> ('s, 's etcdConnection) prog" where
  "close_conn E c = (if conn_closed c then ret c else
     (case conn_closeFunc c of
        Some f \<Rightarrow> do { f; ret (c\<lparr>conn_closed := True\<rparr>) }
      | None \<Rightarrow> do {
          etcd_close E (conn_client c);
          (case conn_stopChn c of
             None \<Rightarrow> ret (c\<lparr>conn_closed := True\<rparr>)
           | Some p \<Rightarrow> do { stop_forward E p; ret (c\<lparr>conn_closed := True\<rparr>) }) }))"

text \<open>A pod is ready when its first condition of type Ready is True.\<close>

fun isPodReady :: "(string \<times> string) list \<Rightarrow> bool" where
  "isPodReady [] = False"
| "isPodReady ((t, s) # cs) = (if t = ''Ready'' then s = ''True'' else isPodReady cs)"

definition etcdPodNamespace :: string where "etcdPodNamespace = ''openshift-etcd''"
definition etcdTLSSecretNamespace :: string where "etcdTLSSecretNamespace = ''openshift-config''"
definition etcdClientSecretName :: string where "etcdClientSecretName = ''etcd-client''"
definition etcdCAConfigMapName :: string where "etcdCAConfigMapName = ''etcd-ca-bundle''"

text \<open>The scan of \<open>selectRunningEtcdPod\<close>: the last argument is the variable \<open>fallback\<close>.\<close>

fun scan_pods :: "string \<Rightarrow> string \<Rightarrow> pod list \<Rightarrow> pod option \<Rightarrow> pod option" where
  "scan_pods excludeNode target [] fallback = fallback"
| "scan_pods excludeNode target (pod # pods) fallback =
    (if pod_phase pod \<noteq> ''Running'' \<or> m_deletionTimestamp (pod_meta pod) \<noteq> None
     then scan_pods excludeNode target pods fallback
     else if \<not> isPodReady (pod_conditions pod) then scan_pods excludeNode target pods fallback
     else if target \<noteq> [] then
       (if pod_nodeName pod = target then Some pod else scan_pods excludeNode target pods fallback)
     else if pod_nodeName pod = excludeNode then scan_pods excludeNode target pods (Some pod)
     else Some pod)"

definition selectRunningEtcdPod :: "'s env \<Rightarrow> kclient \<Rightarrow> string \<Rightarrow> string \<Rightarrow> ('s, pod res) prog" where
  "selectRunningEtcdPod E c excludeNode target = do {
     r \<leftarrow> list_as E as_pod c KPod \<lparr>lo_namespace = etcdPodNamespace, lo_labels = [(''app'', ''etcd'')]\<rparr>;
     ret (case r of
       Inl e \<Rightarrow> Inl (Wrapf ''failed to list etcd pods'' e)
     | Inr pods \<Rightarrow> (case scan_pods excludeNode target pods None of
         Some pod \<Rightarrow> Inr pod
       | None \<Rightarrow> if target \<noteq> [] then Inl (Errorf ''no running etcd pod found on node'')
                 else Inl (Errorf ''no running etcd pod found in namespace''))) }"

definition findRunningEtcdPod :: "'s env \<Rightarrow> kclient \<Rightarrow> string \<Rightarrow> ('s, string res) prog" where
  "findRunningEtcdPod E c excludeNode = do {
     r \<leftarrow> selectRunningEtcdPod E c excludeNode [];
     ret (case r of Inl e \<Rightarrow> Inl e | Inr pod \<Rightarrow> Inr (m_name (pod_meta pod))) }"

definition findRunningEtcdPodOnNode :: "'s env \<Rightarrow> kclient \<Rightarrow> string \<Rightarrow> ('s, string res) prog" where
  "findRunningEtcdPodOnNode E c nodeName = do {
     r \<leftarrow> selectRunningEtcdPod E c [] nodeName;
     ret (case r of Inl e \<Rightarrow> Inl e | Inr pod \<Rightarrow> Inr (m_name (pod_meta pod))) }"

text \<open>A missing key of a Go map reads as the zero value.\<close>

definition data_or_zero :: "(string \<rightharpoonup> string) \<Rightarrow> string \<Rightarrow> string" where
  "data_or_zero m k = (case m k of None \<Rightarrow> [] | Some v \<Rightarrow> v)"

definition buildEtcdTLSConfig :: "'s env \<Rightarrow> kclient \<Rightarrow> ('s, (bytes \<times> bytes \<times> bytes) res) prog" where
  "buildEtcdTLSConfig E c = do {
     r \<leftarrow> get_as E as_secret c KSecret etcdTLSSecretNamespace etcdClientSecretName;
     case r of
       Inl e \<Rightarrow> ret (Inl (Wrapf ''failed to get etcd client secret'' e))
     | Inr sec \<Rightarrow>
       let certData = data_or_zero (se_data sec) ''tls.crt''; keyData = data_or_zero (se_data sec) ''tls.key'' in
       (case x_key_pair E certData keyData of
          Some e \<Rightarrow> ret (Inl (Wrapf ''failed to parse etcd client cert'' e))
        | None \<Rightarrow> do {
            r2 \<leftarrow> get_as E as_config_map c KConfigMap etcdTLSSecretNamespace etcdCAConfigMapName;
            case r2 of
              Inl e \<Rightarrow> ret (Inl (Wrapf ''failed to get etcd CA bundle'' e))
            | Inr cm \<Rightarrow>
              let ca = data_or_zero (cm_data cm) ''ca-bundle.crt'' in
              if x_append_certs E ca then ret (Inr (certData, keyData, ca))
              else ret (Inl (Errorf ''failed to parse etcd CA bundle'')) }) }"

text \<open>
  The four outcomes of the \<open>select\<close> statement are the answer of \<open>forward\<close>; the stop channel of a
  forward is identified by its local port.
\<close>

definition startPortForward :: "'s env \<Rightarrow> bytes \<Rightarrow> string \<Rightarrow> ('s, nat res) prog" where
  "startPortForward E kubeconfig podName = do {
     r \<leftarrow> getFreePort E;
     case r of
       Inl e \<Rightarrow> ret (Inl (Wrapf ''failed to get free port'' e))
     | Inr localPort \<Rightarrow> (case x_round_tripper E kubeconfig of
         Some e \<Rightarrow> ret (Inl (Wrapf ''failed to create round tripper'' e))
       | None \<Rightarrow> (case x_new_forwarder E podName localPort of
           Some e \<Rightarrow> ret (Inl (Wrapf ''failed to create port forwarder'' e))
         | None \<Rightarrow> do {
             oc \<leftarrow> forward E podName localPort;
             case oc of
               ForwardFailed e \<Rightarrow> ret (Inl (Wrapf ''port-forward failed'' e))
             | ForwardReady \<Rightarrow> ret (Inr localPort)
             | ForwardTimeout \<Rightarrow> do {
                 stop_forward E localPort;
                 ret (Inl (Errorf ''port-forward did not become ready'')) }
             | ForwardCancelled e \<Rightarrow> do {
                 stop_forward E localPort;
                 ret (Inl (Wrapf ''port-forward cancelled'' e)) } })) }"

definition localEndpoint :: "nat \<Rightarrow> string" where
  "localEndpoint p = ''https://localhost:'' @ dec_nat p"

definition connectToEtcdWithSelector ::
  "'s env \<Rightarrow> bytes \<Rightarrow> (kclient \<Rightarrow> ('s, pod res) prog) \<Rightarrow> ('s, 's etcdConnection res) prog" where
  "connectToEtcdWithSelector E kubeconfig selectPod = (case x_client_config E kubeconfig of
     Some e \<Rightarrow> ret (Inl (Wrapf ''failed to parse kubeconfig'' e))
   | None \<Rightarrow> (case x_rest_config E kubeconfig of
     Some e \<Rightarrow> ret (Inl (Wrapf ''failed to get rest config'' e))
   | None \<Rightarrow> (case x_new_clientset E kubeconfig of
     Some e \<Rightarrow> ret (Inl (Wrapf ''failed to create kubernetes clientset'' e))
   | None \<Rightarrow> do {
       tls \<leftarrow> buildEtcdTLSConfig E (Workload kubeconfig);
       case tls of
         Inl e \<Rightarrow> ret (Inl (Wrapf ''failed to build etcd TLS config'' e))
       | Inr _ \<Rightarrow> do {
         p \<leftarrow> selectPod (Workload kubeconfig);
         case p of
           Inl e \<Rightarrow> ret (Inl (Wrapf ''failed to find running etcd pod'' e))
         | Inr pod \<Rightarrow> do {
           fw \<leftarrow> startPortForward E kubeconfig (m_name (pod_meta pod));
           case fw of
             Inl e \<Rightarrow> ret (Inl (Wrapf ''failed to start port-forward to etcd'' e))
           | Inr localPort \<Rightarrow> do {
             c \<leftarrow> etcd_new E (localEndpoint localPort);
             case c of
               Inl e \<Rightarrow> do {
                 stop_forward E localPort;
                 ret (Inl (Wrapf ''failed to create etcd client'' e)) }
             | Inr client \<Rightarrow> ret (Inr \<lparr>conn_client = client, conn_stopChn = Some localPort,
                 conn_endpoint = localEndpoint localPort,
                 conn_podName = m_name (pod_meta pod), conn_nodeName = pod_nodeName pod,
                 conn_closeFunc = None, conn_closed = False\<rparr>) } } } })))"

definition connectToEtcd_excluding :: "'s env \<Rightarrow> bytes \<Rightarrow> string \<Rightarrow> ('s, 's etcdConnection res) prog" where
  "connectToEtcd_excluding E kubeconfig excludeNode =
     connectToEtcdWithSelector E kubeconfig (\<lambda>c. selectRunningEtcdPod E c excludeNode [])"

definition connectToEtcdOnNode :: "'s env \<Rightarrow> bytes \<Rightarrow> string \<Rightarrow> ('s, 's etcdConnection res) prog" where
  "connectToEtcdOnNode E kubeconfig nodeName =
     connectToEtcdWithSelector E kubeconfig (\<lambda>c. selectRunningEtcdPod E c [] nodeName)"

definition defaultEtcdConnectionFactory ::
  "'s env \<Rightarrow> bytes \<Rightarrow> string \<Rightarrow> string \<Rightarrow> ('s, 's etcdConnection res) prog" where
  "defaultEtcdConnectionFactory E kubeconfig excludeNode target =
     (if target \<noteq> [] then connectToEtcdOnNode E kubeconfig target
      else connectToEtcd_excluding E kubeconfig excludeNode)"

record 's workloadGenerator =
  etcdConnectionFactory :: "(bytes \<Rightarrow> string \<Rightarrow> string \<Rightarrow> ('s, 's etcdConnection res) prog) option"

definition NewWorkloadClusterClientGenerator :: "'s env \<Rightarrow> 's workloadGenerator" where
  "NewWorkloadClusterClientGenerator E = \<lparr>etcdConnectionFactory = Some (defaultEtcdConnectionFactory E)\<rparr>"

definition connectToEtcd ::
  "'s env \<Rightarrow> 's workloadGenerator \<Rightarrow> bytes \<Rightarrow> string \<Rightarrow> string \<Rightarrow> ('s, 's etcdConnection res) prog" where
  "connectToEtcd E G kubeconfig excludeNode target =
     (case etcdConnectionFactory G of
        None \<Rightarrow> defaultEtcdConnectionFactory E kubeconfig excludeNode target
      | Some factory \<Rightarrow> factory kubeconfig excludeNode target)"

subsection \<open>Members\<close>

fun findEtcdMember :: "etcd_pb_member option list \<Rightarrow> string \<Rightarrow> etcd_pb_member option" where
  "findEtcdMember [] name = None"
| "findEtcdMember (None # ms) name = findEtcdMember ms name"
| "findEtcdMember (Some m # ms) name = (if em_name m = name then Some m else findEtcdMember ms name)"

record EtcdMember =
  etm_id :: uint64
  etm_name :: string

definition listMembers :: "'s env \<Rightarrow> etcd_client \<Rightarrow> ('s, EtcdMember list res) prog" where
  "listMembers E c = do {
     r \<leftarrow> member_list E c;
     ret (case r of
       Inl e \<Rightarrow> Inl (Wrapf ''failed to list etcd members'' e)
     | Inr None \<Rightarrow> Inl (Errorf ''failed to list etcd members: empty response'')
     | Inr (Some ms) \<Rightarrow> Inr (List.map (\<lambda>m. \<lparr>etm_id = em_id m, etm_name = em_name m\<rparr>) (List.map_filter id ms))) }"

text \<open>The common tail of both removals: alarms, then the removal itself.\<close>

definition checked_remove :: "'s env \<Rightarrow> etcd_client \<Rightarrow> uint64 \<Rightarrow> ('s, goerr option) prog" where
  "checked_remove E c i = do {
     a \<leftarrow> alarm_list E c;
     case a of
       Inl e \<Rightarrow> ret (Some (Wrapf ''failed to check etcd alarms'' e))
     | Inr alarms \<Rightarrow>
       if AlarmCorrupt \<in> set alarms
       then ret (Some (Errorf ''etcd cluster has CORRUPT alarm, unsafe to remove member''))
       else do {
         r \<leftarrow> member_remove E c i;
         ret (case r of Some e \<Rightarrow> Some (Wrapf ''failed to remove etcd member'' e) | None \<Rightarrow> None) } }"

definition removeMemberByID :: "'s env \<Rightarrow> etcd_client \<Rightarrow> uint64 \<Rightarrow> ('s, goerr option) prog" where
  "removeMemberByID E c memberID = do {
     r \<leftarrow> member_list E c;
     case r of
       Inl e \<Rightarrow> ret (Some (Wrapf ''failed to list etcd members'' e))
     | Inr None \<Rightarrow> ret (Some (Errorf ''failed to list etcd members: empty response''))
     | Inr (Some ms) \<Rightarrow>
       if length ms = 1 then ret (Some (Errorf ''refusing to remove the last etcd member''))
       else checked_remove E c memberID }"

definition removeMemberByName :: "'s env \<Rightarrow> etcd_client \<Rightarrow> string \<Rightarrow> ('s, goerr option) prog" where
  "removeMemberByName E c memberName = do {
     r \<leftarrow> member_list E c;
     case r of
       Inl e \<Rightarrow> ret (Some (Wrapf ''failed to list etcd members'' e))
     | Inr None \<Rightarrow> ret (Some (Errorf ''failed to list etcd members: empty response''))
     | Inr (Some ms) \<Rightarrow> (case findEtcdMember ms memberName of
         None \<Rightarrow> ret None
       | Some m \<Rightarrow>
         if length ms = 1 then ret (Some (Errorf ''refusing to remove the last etcd member''))
         else checked_remove E c (em_id m)) }"

subsection \<open>Leadership\<close>

definition ErrNotLeader :: string where "ErrNotLeader = ''etcdserver: not leader''"

text \<open>\<open>MoveLeader\<close> and, when the member was no longer the leader, one look at who is.\<close>

definition transfer_leadership ::
  "'s env \<Rightarrow> 's etcdConnection \<Rightarrow> uint64 \<Rightarrow> uint64 \<Rightarrow> ('s, goerr option) prog" where
  "transfer_leadership E sourceConn sourceID targetID = do {
     r \<leftarrow> move_leader E (conn_client sourceConn) targetID;
     case r of
       None \<Rightarrow> ret None
     | Some e \<Rightarrow>
       if \<not> err_is ErrNotLeader e then ret (Some (Wrapf ''failed to move etcd leadership'' e))
       else do {
         s \<leftarrow> etcd_status E (conn_client sourceConn) (conn_endpoint sourceConn);
         ret (case s of
           Inl se \<Rightarrow> Some (Wrapf ''failed to refresh etcd status after moving leadership'' se)
         | Inr None \<Rightarrow> Some (Errorf ''failed to refresh etcd status after moving leadership: empty response'')
         | Inr (Some st) \<Rightarrow>
             if sr_leader st \<noteq> 0 \<and> sr_leader st \<noteq> sourceID then None
             else Some (Wrapf ''failed to move etcd leadership'' e)) } }"

text \<open>The checks made through the source member's own connection.\<close>

definition protect_from_source ::
  "'s env \<Rightarrow> 's etcdConnection \<Rightarrow> string \<Rightarrow> string \<Rightarrow> ('s, goerr option) prog" where
  "protect_from_source E sourceConn fromMember toMember = do {
     r \<leftarrow> member_list E (conn_client sourceConn);
     case r of
       Inl e \<Rightarrow> ret (Some (Wrapf ''failed to refresh etcd members through source member'' e))
     | Inr None \<Rightarrow> ret (Some (Errorf ''failed to refresh etcd members through source member: empty response''))
     | Inr (Some ms) \<Rightarrow> (case findEtcdMember ms fromMember of
         None \<Rightarrow> ret None
       | Some src \<Rightarrow> do {
           s \<leftarrow> etcd_status E (conn_client sourceConn) (conn_endpoint sourceConn);
           case s of
             Inl e \<Rightarrow> ret (Some (Wrapf ''failed to get etcd source member status'' e))
           | Inr None \<Rightarrow> ret (Some (Errorf ''failed to get etcd source member status: empty response''))
           | Inr (Some st) \<Rightarrow>
             if em_id src = 0 \<or> sr_header st = None \<or> sr_header st = Some 0 \<or> sr_header st \<noteq> Some (em_id src)
             then ret (Some (Errorf ''etcd status member ID does not match source member''))
             else if sr_leader st = 0 then ret (Some (Errorf ''etcd has no elected leader while protecting leadership''))
             else if sr_leader st \<noteq> em_id src then ret None
             else (case findEtcdMember ms toMember of
                 None \<Rightarrow> ret (Some (Errorf ''target member not found in etcd cluster''))
               | Some tgt \<Rightarrow>
                 if em_id tgt = 0 then ret (Some (Errorf ''target member has invalid ID 0''))
                 else if em_id tgt = em_id src then ret (Some (Errorf ''target member is the source member''))
                 else if em_isLearner tgt then ret (Some (Errorf ''target member is a learner and cannot receive leadership''))
                 else transfer_leadership E sourceConn (em_id src) (em_id tgt)) }) }"

definition protectEtcdLeadership ::
  "'s env \<Rightarrow> 's etcdConnection \<Rightarrow> (string \<Rightarrow> ('s, 's etcdConnection res) prog) \<Rightarrow> string \<Rightarrow> string
    \<Rightarrow> ('s, 's etcdConnection \<times> goerr option) prog" where
  "protectEtcdLeadership E discoveryConn connectSource fromMember toMember = do {
     r \<leftarrow> member_list E (conn_client discoveryConn);
     case r of
       Inl e \<Rightarrow> ret (discoveryConn, Some (Wrapf ''failed to list etcd members'' e))
     | Inr None \<Rightarrow> ret (discoveryConn, Some (Errorf ''failed to list etcd members: empty response''))
     | Inr (Some ms) \<Rightarrow> (case findEtcdMember ms fromMember of
         None \<Rightarrow> ret (discoveryConn, None)
       | Some fm \<Rightarrow> do {
           s \<leftarrow> etcd_status E (conn_client discoveryConn) (conn_endpoint discoveryConn);
           case s of
             Inl e \<Rightarrow> ret (discoveryConn, Some (Wrapf ''failed to get etcd status'' e))
           | Inr None \<Rightarrow> ret (discoveryConn, Some (Errorf ''failed to get etcd status: empty response''))
           | Inr (Some st) \<Rightarrow>
             if sr_leader st = 0
             then ret (discoveryConn, Some (Errorf ''etcd has no elected leader while protecting leadership''))
             else if sr_leader st \<noteq> em_id fm then ret (discoveryConn, None)
             else do {
               closedConn \<leftarrow> close_conn E discoveryConn;
               sc \<leftarrow> connectSource fromMember;
               case sc of
                 Inl e \<Rightarrow> ret (closedConn, Some (Wrapf ''failed to connect to etcd source member'' e))
               | Inr sourceConn \<Rightarrow> do {
                   err \<leftarrow> protect_from_source E sourceConn fromMember toMember;
                   close_conn E sourceConn;
                   ret (closedConn, err) } } }) }"

subsection \<open>The client generator's operations\<close>

definition RemoveEtcdMember :: "'s env \<Rightarrow> 's workloadGenerator \<Rightarrow> bytes \<Rightarrow> string \<Rightarrow> ('s, goerr option) prog" where
  "RemoveEtcdMember E G kubeconfig memberName = do {
     c \<leftarrow> connectToEtcd E G kubeconfig memberName [];
     case c of
       Inl e \<Rightarrow> ret (Some e)
     | Inr conn \<Rightarrow> do {
         err \<leftarrow> removeMemberByName E (conn_client conn) memberName;
         close_conn E conn;
         ret err } }"

definition ListEtcdMembers :: "'s env \<Rightarrow> 's workloadGenerator \<Rightarrow> bytes \<Rightarrow> ('s, EtcdMember list res) prog" where
  "ListEtcdMembers E G kubeconfig = do {
     c \<leftarrow> connectToEtcd E G kubeconfig [] [];
     case c of
       Inl e \<Rightarrow> ret (Inl e)
     | Inr conn \<Rightarrow> do {
         r \<leftarrow> listMembers E (conn_client conn);
         close_conn E conn;
         ret r } }"

definition RemoveEtcdMemberByID :: "'s env \<Rightarrow> 's workloadGenerator \<Rightarrow> bytes \<Rightarrow> uint64 \<Rightarrow> ('s, goerr option) prog" where
  "RemoveEtcdMemberByID E G kubeconfig memberID = do {
     c \<leftarrow> connectToEtcd E G kubeconfig [] [];
     case c of
       Inl e \<Rightarrow> ret (Some e)
     | Inr conn \<Rightarrow> do {
         err \<leftarrow> removeMemberByID E (conn_client conn) memberID;
         close_conn E conn;
         ret err } }"

definition ProtectEtcdLeadership ::
  "'s env \<Rightarrow> 's workloadGenerator \<Rightarrow> bytes \<Rightarrow> string \<Rightarrow> string \<Rightarrow> ('s, goerr option) prog" where
  "ProtectEtcdLeadership E G kubeconfig fromMember toMember = do {
     c \<leftarrow> connectToEtcd E G kubeconfig [] [];
     case c of
       Inl e \<Rightarrow> ret (Some e)
     | Inr conn \<Rightarrow> do {
         res \<leftarrow> protectEtcdLeadership E conn (\<lambda>nodeName. connectToEtcd E G kubeconfig [] nodeName) fromMember toMember;
         close_conn E (fst res);
         ret (snd res) } }"

subsection \<open>What a trace says about connections\<close>

fun opened_client :: "event \<Rightarrow> etcd_client option" where
  "opened_client (EvEtcdNew _ (Inr c)) = Some c"
| "opened_client _ = None"

fun closed_client :: "event \<Rightarrow> etcd_client option" where
  "closed_client (EvEtcdClose c) = Some c"
| "closed_client _ = None"

fun started_forward :: "event \<Rightarrow> nat option" where
  "started_forward (EvForward _ p ForwardReady) = Some p"
| "started_forward (EvForward _ p ForwardTimeout) = Some p"
| "started_forward (EvForward _ p (ForwardCancelled _)) = Some p"
| "started_forward _ = None"

fun stopped_forward :: "event \<Rightarrow> nat option" where
  "stopped_forward (EvStopForward p) = Some p"
| "stopped_forward _ = None"

text \<open>
  No leak: the clients closed are the clients opened, in the same order, and the port-forwards
  stopped are those started.
\<close>

definition balanced :: "event list \<Rightarrow> bool" where
  "balanced evs \<longleftrightarrow> List.map_filter opened_client evs = List.map_filter closed_client evs
     \<and> List.map_filter started_forward evs = List.map_filter stopped_forward evs"

text \<open>The events of opening a connection.\<close>

fun is_conn_event :: "event \<Rightarrow> bool" where
  "is_conn_event (EvGet _ _ _ _ _) = True"
| "is_conn_event (EvList _ _ _ _) = True"
| "is_conn_event (EvFreePort _) = True"
| "is_conn_event (EvForward _ _ _) = True"
| "is_conn_event (EvStopForward _) = True"
| "is_conn_event (EvEtcdNew _ _) = True"
| "is_conn_event (EvEtcdClose _) = True"
| "is_conn_event _ = False"

text \<open>\<open>evs\<close> opens \<open>conn\<close> and nothing else, and leaves it open.\<close>

definition opens_conn :: "event list \<Rightarrow> 's etcdConnection \<Rightarrow> bool" where
  "opens_conn evs conn \<longleftrightarrow> conn_closeFunc conn = None \<and> \<not> conn_closed conn
     \<and> List.map_filter opened_client evs = [conn_client conn] \<and> List.map_filter closed_client evs = []
     \<and> List.map_filter stopped_forward evs = []
     \<and> (\<exists>p. conn_stopChn conn = Some p \<and> List.map_filter started_forward evs = [p])"

lemma balanced_Nil [simp]: "balanced []"
  by (simp add: balanced_def)

lemma balanced_append [intro]: "balanced xs \<Longrightarrow> balanced ys \<Longrightarrow> balanced (xs @ ys)"
  by (simp add: balanced_def)

subsection \<open>Choosing a pod\<close>

definition usable_pod :: "pod \<Rightarrow> bool" where
  "usable_pod p \<longleftrightarrow> pod_phase p = ''Running'' \<and> m_deletionTimestamp (pod_meta p) = None \<and> isPodReady (pod_conditions p)"

lemma scan_pods_Cons:
  "scan_pods ex tg (p # ps) fb =
    (if \<not> usable_pod p then scan_pods ex tg ps fb
     else if tg \<noteq> [] then (if pod_nodeName p = tg then Some p else scan_pods ex tg ps fb)
     else if pod_nodeName p = ex then scan_pods ex tg ps (Some p) else Some p)"
  by (auto simp: usable_pod_def)

declare scan_pods.simps(2) [simp del]

lemma scan_pods_target:
  "target \<noteq> [] \<Longrightarrow> scan_pods ex target pods fb =
    (case List.find (\<lambda>p. usable_pod p \<and> pod_nodeName p = target) pods of None \<Rightarrow> fb | Some p \<Rightarrow> Some p)"
  by (induction pods) (simp_all add: scan_pods_Cons)

lemma find_snoc: "List.find P (xs @ [x]) =
    (case List.find P xs of Some y \<Rightarrow> Some y | None \<Rightarrow> if P x then Some x else None)"
  by (induction xs) auto

lemma scan_pods_any:
  "scan_pods ex [] pods fb =
    (case List.find (\<lambda>p. usable_pod p \<and> pod_nodeName p \<noteq> ex) pods of
       Some p \<Rightarrow> Some p
     | None \<Rightarrow> (case List.find usable_pod (rev pods) of Some p \<Rightarrow> Some p | None \<Rightarrow> fb))"
  by (induction pods arbitrary: fb) (simp_all add: scan_pods_Cons find_snoc split: option.split)

lemma scan_pods_usable:
  "scan_pods ex target pods fb = Some p \<Longrightarrow>
    fb = Some p \<or> p \<in> set pods \<and> usable_pod p \<and> (target \<noteq> [] \<longrightarrow> pod_nodeName p = target)"
  by (induction pods arbitrary: fb) (auto simp: scan_pods_Cons split: if_splits)

subsection \<open>Traces of the connection layer\<close>

lemma logs_case_forward [logs_intros]:
  "(\<And>e. x = ForwardFailed e \<Longrightarrow> logs (f e) Q) \<Longrightarrow> (x = ForwardReady \<Longrightarrow> logs m Q) \<Longrightarrow>
   (x = ForwardTimeout \<Longrightarrow> logs n Q) \<Longrightarrow> (\<And>e. x = ForwardCancelled e \<Longrightarrow> logs (g e) Q) \<Longrightarrow>
    logs (case x of ForwardFailed e \<Rightarrow> f e | ForwardReady \<Rightarrow> m | ForwardTimeout \<Rightarrow> n | ForwardCancelled e \<Rightarrow> g e) Q"
  by (auto split: forward_outcome.splits)

text \<open>The neutral events of a connection attempt: they open and close nothing.\<close>

fun is_read :: "event \<Rightarrow> bool" where
  "is_read (EvGet _ _ _ _ _) = True"
| "is_read (EvList _ _ _ _) = True"
| "is_read _ = False"

lemma is_read_neutral:
  assumes "is_read e"
  shows "opened_client e = None" "closed_client e = None" "started_forward e = None"
    "stopped_forward e = None" "is_conn_event e"
  using assms by (cases e; simp)+

lemma reads_neutral:
  assumes "\<forall>e \<in> set evs. is_read e"
  shows "List.map_filter opened_client evs = []" "List.map_filter closed_client evs = []"
    "List.map_filter started_forward evs = []" "List.map_filter stopped_forward evs = []"
    "\<forall>e \<in> set evs. is_conn_event e"
  using assms by (simp_all add: map_filter_None is_read_neutral)

lemma buildEtcdTLSConfig_reads: "logs (buildEtcdTLSConfig E c) (\<lambda>r evs. \<forall>e \<in> set evs. is_read e)"
  unfolding buildEtcdTLSConfig_def by (rule emits_logs) (intro emits_intros, simp_all)

text \<open>\<open>pod\<close> is a usable pod that the API server listed, on node \<open>node\<close> unless that is empty.\<close>

definition listed_pod :: "string \<Rightarrow> event list \<Rightarrow> pod \<Rightarrow> bool" where
  "listed_pod node evs pod \<longleftrightarrow> usable_pod pod \<and> (node \<noteq> [] \<longrightarrow> pod_nodeName pod = node) \<and>
     (\<exists>c opts obs. EvList c KPod opts (Inr obs) \<in> set evs \<and> OPod pod \<in> set obs)"

lemma listed_podI:
  assumes "scan_pods ex tg (List.map_filter as_pod obs) None = Some pod"
  shows "listed_pod tg [EvList c KPod opts (Inr obs)] pod"
  using scan_pods_usable [OF assms] unfolding listed_pod_def by (auto simp: in_map_filter)

lemma selectRunningEtcdPod_reads:
  "logs (selectRunningEtcdPod E c ex tg) (\<lambda>r evs. (\<forall>e \<in> set evs. is_read e) \<and>
     (\<forall>pod. r = Inr pod \<longrightarrow> listed_pod tg evs pod))"
  unfolding selectRunningEtcdPod_def list_as_def kcall_defs
  apply (simp only: bind_assoc_prog return_bind_prog, intro logs_call_bind logs_intros)
  subgoal for r
    by (cases r) (simp_all add: listed_podI split: option.split)
  done

text \<open>Client \<open>c\<close> was dialled through a port-forward to such a pod.\<close>

definition dialled :: "string \<Rightarrow> event list \<Rightarrow> etcd_client \<Rightarrow> bool" where
  "dialled node evs c \<longleftrightarrow> (\<exists>pod p. listed_pod node evs pod \<and>
     EvForward (m_name (pod_meta pod)) p ForwardReady \<in> set evs \<and> EvEtcdNew (localEndpoint p) (Inr c) \<in> set evs)"

lemma listed_pod_append: "listed_pod n as pod \<or> listed_pod n bs pod \<Longrightarrow> listed_pod n (as @ bs) pod"
  unfolding listed_pod_def by auto

lemma dialled_append: "dialled n as c \<or> dialled n bs c \<Longrightarrow> dialled n (as @ bs) c"
  unfolding dialled_def using listed_pod_append by fastforce

lemma dialledI:
  "listed_pod node evs pod \<Longrightarrow> EvForward (m_name (pod_meta pod)) p ForwardReady \<in> set evs' \<Longrightarrow>
    dialled node (as @ evs @ evs' @ [EvEtcdNew (localEndpoint p) (Inr c)]) c"
  unfolding dialled_def listed_pod_def by auto

definition connected :: "string \<Rightarrow> 's etcdConnection res \<Rightarrow> event list \<Rightarrow> bool" where
  "connected node r evs \<longleftrightarrow> (\<forall>e \<in> set evs. is_conn_event e) \<and>
     (case r of Inl _ \<Rightarrow> balanced evs | Inr conn \<Rightarrow> opens_conn evs conn \<and> dialled node evs (conn_client conn))"

lemma startPortForward_logs:
  "logs (startPortForward E kc pod) (\<lambda>r evs. (\<forall>e \<in> set evs. is_conn_event e)
     \<and> List.map_filter opened_client evs = [] \<and> List.map_filter closed_client evs = []
     \<and> (case r of Inl _ \<Rightarrow> List.map_filter started_forward evs = List.map_filter stopped_forward evs
        | Inr p \<Rightarrow> List.map_filter started_forward evs = [p] \<and> List.map_filter stopped_forward evs = []
            \<and> EvForward pod p ForwardReady \<in> set evs))"
  unfolding startPortForward_def etcd_calls
  by (intro logs_call_bind logs_intros) simp_all

lemma connectToEtcdWithSelector_logs:
  assumes sel: "\<And>c. logs (selectPod c) (\<lambda>r evs. (\<forall>e \<in> set evs. is_read e) \<and>
     (\<forall>pod. r = Inr pod \<longrightarrow> listed_pod tg evs pod))"
  shows "logs (connectToEtcdWithSelector E kc selectPod) (connected tg)"
  unfolding connectToEtcdWithSelector_def etcd_new_def stop_forward_def
  apply (intro logs_intros logs_bind [OF buildEtcdTLSConfig_reads] logs_bind [OF sel]
      logs_bind [OF startPortForward_logs] logs_call_bind)
         apply (simp_all add: connected_def balanced_def opens_conn_def reads_neutral ball_Un)
    apply (auto simp: is_read_neutral intro: dialledI)
  done

lemma defaultEtcdConnectionFactory_logs: "logs (defaultEtcdConnectionFactory E kc ex tg) (connected tg)"
  unfolding defaultEtcdConnectionFactory_def connectToEtcdOnNode_def connectToEtcd_excluding_def
  by (cases "tg = []") (simp_all, (rule connectToEtcdWithSelector_logs selectRunningEtcdPod_reads)+)

lemma connectToEtcd_logs:
  "logs (connectToEtcd E (NewWorkloadClusterClientGenerator E) kc ex tg) (connected tg)"
  by (simp add: connectToEtcd_def NewWorkloadClusterClientGenerator_def defaultEtcdConnectionFactory_logs)

lemma close_conn_logs:
  "opens_conn evs conn \<Longrightarrow> logs (close_conn E conn) (\<lambda>c evs'. c = conn\<lparr>conn_closed := True\<rparr>
     \<and> balanced (evs @ evs') \<and> (\<forall>e \<in> set evs'. is_conn_event e))"
  unfolding close_conn_def etcd_calls opens_conn_def
  by (auto intro!: logs_call_bind logs_intros simp: balanced_def)

lemma close_closed_logs [simp]: "conn_closed c \<Longrightarrow> close_conn E c = ret c"
  by (simp add: close_conn_def)

subsection \<open>Removing members\<close>

fun is_member_event :: "event \<Rightarrow> bool" where
  "is_member_event (EvMemberList _ _) = True"
| "is_member_event (EvEtcdStatus _ _ _) = True"
| "is_member_event (EvAlarmList _ _) = True"
| "is_member_event (EvMemberRemove _ _ _) = True"
| "is_member_event (EvMoveLeader _ _ _) = True"
| "is_member_event _ = False"

lemma is_member_event_neutral:
  assumes "is_member_event e"
  shows "opened_client e = None" "closed_client e = None" "started_forward e = None" "stopped_forward e = None"
  using assms by (cases e; simp)+

lemma member_events_neutral:
  assumes "\<forall>e \<in> set evs. is_member_event e"
  shows "List.map_filter opened_client evs = []" "List.map_filter closed_client evs = []"
    "List.map_filter started_forward evs = []" "List.map_filter stopped_forward evs = []"
  using assms by (simp_all add: map_filter_None is_member_event_neutral)

definition no_corrupt_alarm :: "etcd_client \<Rightarrow> event list \<Rightarrow> bool" where
  "no_corrupt_alarm c evs \<longleftrightarrow> (\<exists>al. EvAlarmList c (Inr al) \<in> set evs \<and> AlarmCorrupt \<notin> set al)"

definition listed :: "etcd_client \<Rightarrow> (etcd_pb_member option list \<Rightarrow> bool) \<Rightarrow> event list \<Rightarrow> bool" where
  "listed c P evs \<longleftrightarrow> (\<exists>ms. EvMemberList c (Inr (Some ms)) \<in> set evs \<and> P ms)"

text \<open>What a removal answered with: nothing to do, or a removal that etcd accepted.\<close>

definition removal_done :: "string \<Rightarrow> event list \<Rightarrow> bool" where
  "removal_done name evs \<longleftrightarrow> (\<exists>c. listed c (\<lambda>ms. findEtcdMember ms name = None) evs \<or>
     (\<exists>m. listed c (\<lambda>ms. findEtcdMember ms name = Some m) evs \<and> EvMemberRemove c (em_id m) None \<in> set evs))"

lemma no_corrupt_alarm_append [simp]:
  "no_corrupt_alarm c (as @ bs) \<longleftrightarrow> no_corrupt_alarm c as \<or> no_corrupt_alarm c bs"
  unfolding no_corrupt_alarm_def by auto

lemma listed_append [simp]: "listed c P (as @ bs) \<longleftrightarrow> listed c P as \<or> listed c P bs"
  unfolding listed_def by auto

lemma no_corrupt_alarm_Cons [simp]:
  "no_corrupt_alarm c (e # evs) \<longleftrightarrow>
    (case e of EvAlarmList c' (Inr al) \<Rightarrow> c' = c \<and> AlarmCorrupt \<notin> set al | _ \<Rightarrow> False) \<or> no_corrupt_alarm c evs"
  unfolding no_corrupt_alarm_def by (auto split: event.splits sum.splits)

lemma listed_Cons [simp]:
  "listed c P (e # evs) \<longleftrightarrow>
    (case e of EvMemberList c' (Inr (Some ms)) \<Rightarrow> c' = c \<and> P ms | _ \<Rightarrow> False) \<or> listed c P evs"
  unfolding listed_def by (auto split: event.splits sum.splits option.splits)

lemma listed_Nil [simp]: "\<not> listed c P []" "\<not> no_corrupt_alarm c []"
  by (simp_all add: listed_def no_corrupt_alarm_def)

lemma removal_done_append: "removal_done n evs \<Longrightarrow> removal_done n (as @ evs @ bs)"
  unfolding removal_done_def by auto

lemma checked_remove_logs:
  "logs (checked_remove E c i) (\<lambda>r evs. (\<forall>e \<in> set evs. is_member_event e) \<and>
     (\<forall>c' i' x. EvMemberRemove c' i' x \<in> set evs \<longrightarrow> c' = c \<and> i' = i \<and> no_corrupt_alarm c evs) \<and>
     (r = None \<longrightarrow> EvMemberRemove c i None \<in> set evs))"
  unfolding checked_remove_def etcd_calls
  by (intro logs_call_bind logs_intros) (auto split: option.splits)

lemma removeMemberByName_logs:
  "logs (removeMemberByName E c name) (\<lambda>r evs. (\<forall>e \<in> set evs. is_member_event e) \<and>
     (\<forall>c' i x. EvMemberRemove c' i x \<in> set evs \<longrightarrow> no_corrupt_alarm c' evs \<and>
        listed c' (\<lambda>ms. length ms \<noteq> 1 \<and> (\<exists>m. findEtcdMember ms name = Some m \<and> em_id m = i)) evs) \<and>
     (r = None \<longrightarrow> removal_done name evs))"
  unfolding removeMemberByName_def member_list_def
  apply (intro logs_call_bind logs_intros logs_mono [OF checked_remove_logs])
      apply (simp_all add: removal_done_def)
   apply blast+
  done

lemma removeMemberByID_logs:
  "logs (removeMemberByID E c i) (\<lambda>r evs. (\<forall>e \<in> set evs. is_member_event e) \<and>
     (\<forall>c' i' x. EvMemberRemove c' i' x \<in> set evs \<longrightarrow> i' = i \<and> no_corrupt_alarm c' evs \<and>
        listed c' (\<lambda>ms. length ms \<noteq> 1) evs) \<and>
     (r = None \<longrightarrow> EvMemberRemove c i None \<in> set evs))"
  unfolding removeMemberByID_def member_list_def
  apply (intro logs_call_bind logs_intros logs_mono [OF checked_remove_logs])
     apply simp_all
  apply blast
  done

lemma conn_event_not_member: "\<forall>e \<in> set evs. is_conn_event e \<Longrightarrow> is_member_event e \<Longrightarrow> e \<notin> set evs"
  by (cases e) auto

text \<open>
  The shape of every generator operation: connect, run \<open>body\<close> on the connection's client, close,
  return. A property \<open>Q\<close> of the body that survives adding connection events is a property of the
  whole, and nothing is leaked.
\<close>

lemma with_connection_logs:
  assumes body: "\<And>conn. logs (body conn) (\<lambda>r evs. (\<forall>e \<in> set evs. is_member_event e) \<and> Q r evs)"
    and mono: "\<And>r as evs bs. Q r evs \<Longrightarrow> \<forall>e \<in> set as. is_conn_event e \<Longrightarrow> \<forall>e \<in> set bs. is_conn_event e
        \<Longrightarrow> Q r (as @ evs @ bs)"
    and err: "\<And>e evs. \<forall>e \<in> set evs. is_conn_event e \<Longrightarrow> Q (fail e) evs"
  shows "logs (do {
     c \<leftarrow> connectToEtcd E (NewWorkloadClusterClientGenerator E) kc ex tg;
     case c of
       Inl e \<Rightarrow> ret (fail e)
     | Inr conn \<Rightarrow> do { r \<leftarrow> body conn; close_conn E conn; ret r } }) (\<lambda>r evs. balanced evs \<and> Q r evs)"
proof (rule logs_bind [OF connectToEtcd_logs], intro logs_intros)
  fix c :: "'a etcdConnection res" and evs e
  assume "connected tg c evs" "c = Inl e"
  then show "balanced (evs @ []) \<and> Q (fail e) (evs @ [])" by (simp add: connected_def err)
next
  fix c :: "'a etcdConnection res" and evs conn
  assume c: "connected tg c evs" "c = Inr conn"
  show "logs (do { r \<leftarrow> body conn; close_conn E conn; ret r }) (\<lambda>b evs'. balanced (evs @ evs') \<and> Q b (evs @ evs'))"
  proof (rule logs_bind [OF body])
    fix r evs'
    assume b: "(\<forall>e \<in> set evs'. is_member_event e) \<and> Q r evs'"
    with c have "opens_conn (evs @ evs') conn"
      by (simp add: connected_def opens_conn_def member_events_neutral)
    then show "logs (do { close_conn E conn; ret r }) (\<lambda>b evs''. balanced (evs @ evs' @ evs'') \<and> Q b (evs @ evs' @ evs''))"
      using b c mono [of r evs' evs]
      by (intro logs_bind [OF close_conn_logs] logs_return) (auto simp: connected_def)
  qed
qed

lemma RemoveEtcdMember_logs:
  "logs (RemoveEtcdMember E (NewWorkloadClusterClientGenerator E) kc name) (\<lambda>r evs. balanced evs \<and>
     (\<forall>c i x. EvMemberRemove c i x \<in> set evs \<longrightarrow> no_corrupt_alarm c evs \<and>
        listed c (\<lambda>ms. length ms \<noteq> 1 \<and> (\<exists>m. findEtcdMember ms name = Some m \<and> em_id m = i)) evs) \<and>
     (r = None \<longrightarrow> removal_done name evs))"
  unfolding RemoveEtcdMember_def
proof (rule with_connection_logs [OF removeMemberByName_logs], goal_cases)
  case (1 r as evs bs)
  then show ?case
    using conn_event_not_member [of as "EvMemberRemove _ _ _"] conn_event_not_member [of bs "EvMemberRemove _ _ _"]
      removal_done_append [of name evs as bs] by simp
next
  case (2 e evs)
  then show ?case using conn_event_not_member [of evs "EvMemberRemove _ _ _"] by simp
qed

lemma RemoveEtcdMemberByID_logs:
  "logs (RemoveEtcdMemberByID E (NewWorkloadClusterClientGenerator E) kc i) (\<lambda>r evs. balanced evs \<and>
     (\<forall>c i' x. EvMemberRemove c i' x \<in> set evs \<longrightarrow> i' = i \<and> no_corrupt_alarm c evs \<and> listed c (\<lambda>ms. length ms \<noteq> 1) evs) \<and>
     (r = None \<longrightarrow> (\<exists>c. EvMemberRemove c i None \<in> set evs)))"
  unfolding RemoveEtcdMemberByID_def
proof (rule with_connection_logs [OF logs_mono [OF removeMemberByID_logs]], goal_cases)
  case (1 conn r evs)
  then show ?case by blast
next
  case (2 r as evs bs)
  then show ?case
    using conn_event_not_member [of as "EvMemberRemove _ _ _"] conn_event_not_member [of bs "EvMemberRemove _ _ _"]
    by simp
next
  case (3 e evs)
  then show ?case using conn_event_not_member [of evs "EvMemberRemove _ _ _"] by simp
qed

lemma ListEtcdMembers_logs:
  "logs (ListEtcdMembers E (NewWorkloadClusterClientGenerator E) kc) (\<lambda>r evs. balanced evs \<and>
     (\<forall>e \<in> set evs. \<not> is_write e) \<and>
     (\<forall>ms. r = Inr ms \<longrightarrow> (\<exists>c. listed c (\<lambda>ps. ms = List.map (\<lambda>m. \<lparr>etm_id = em_id m, etm_name = em_name m\<rparr>) (List.map_filter id ps)) evs)))"
  unfolding ListEtcdMembers_def
proof (rule with_connection_logs, goal_cases)
  case (1 conn)
  show ?case unfolding listMembers_def member_list_def
    by (intro logs_call_bind logs_intros) (auto split: sum.splits option.splits)
next
  case (2 r as evs bs)
  have "is_conn_event e \<Longrightarrow> \<not> is_write e" for e by (cases e) auto
  with 2 show ?case by auto
next
  case (3 e evs)
  have "is_conn_event e \<Longrightarrow> \<not> is_write e" for e by (cases e) auto
  with 3 show ?case by auto
qed

subsection \<open>Leadership\<close>

text \<open>Every transfer is asked of the confirmed leader, and its target may take over.\<close>

definition justified_move :: "string \<Rightarrow> string \<Rightarrow> event list \<Rightarrow> etcd_client \<Rightarrow> uint64 \<Rightarrow> bool" where
  "justified_move from to evs c i \<longleftrightarrow> (\<exists>src tgt. listed c (\<lambda>ms. findEtcdMember ms from = Some src \<and> findEtcdMember ms to = Some tgt) evs
     \<and> (\<exists>ep st. EvEtcdStatus c ep (Inr (Some st)) \<in> set evs \<and> sr_header st = Some (em_id src) \<and> sr_leader st = em_id src)
     \<and> em_id tgt = i \<and> i \<noteq> 0 \<and> i \<noteq> em_id src \<and> \<not> em_isLearner tgt)"

text \<open>
  Why leadership is safe: the source is no member any more, another member leads, or the
  transfer was accepted.
\<close>

definition leadership_safe :: "string \<Rightarrow> event list \<Rightarrow> bool" where
  "leadership_safe from evs \<longleftrightarrow> (\<exists>c. listed c (\<lambda>ms. findEtcdMember ms from = None) evs
     \<or> (\<exists>src ep st. listed c (\<lambda>ms. findEtcdMember ms from = Some src) evs \<and> EvEtcdStatus c ep (Inr (Some st)) \<in> set evs
         \<and> sr_leader st \<noteq> 0 \<and> sr_leader st \<noteq> em_id src)
     \<or> (\<exists>i. EvMoveLeader c i None \<in> set evs))"

lemma leadership_safe_append:
  "leadership_safe from as \<or> leadership_safe from bs \<Longrightarrow> leadership_safe from (as @ bs)"
  unfolding leadership_safe_def by (auto; blast)

lemma justified_move_append:
  "justified_move f t as c i \<or> justified_move f t bs c i \<Longrightarrow> justified_move f t (as @ bs) c i"
  unfolding justified_move_def by (auto; blast)

lemma protect_from_source_logs:
  "logs (protect_from_source E sc from to) (\<lambda>r evs. (\<forall>e \<in> set evs. is_member_event e) \<and>
     (\<forall>c i x. EvMoveLeader c i x \<in> set evs \<longrightarrow> c = conn_client sc \<and> justified_move from to evs c i) \<and>
     (\<forall>c i x. EvMemberRemove c i x \<notin> set evs) \<and>
     (r = None \<longrightarrow> leadership_safe from evs))"
  unfolding protect_from_source_def transfer_leadership_def etcd_calls
  apply (intro logs_call_bind logs_intros)
                 apply (simp_all add: leadership_safe_def justified_move_def)
  apply (auto split: sum.splits option.splits if_splits)
  done

text \<open>What every leadership operation keeps of a trace: moves justified, no member removed.\<close>

definition moves_justified :: "string \<Rightarrow> string \<Rightarrow> event list \<Rightarrow> bool" where
  "moves_justified from to evs \<longleftrightarrow> (\<forall>c i x. EvMemberRemove c i x \<notin> set evs) \<and>
     (\<forall>c i x. EvMoveLeader c i x \<in> set evs \<longrightarrow> justified_move from to evs c i \<and> dialled from evs c)"

lemma moves_justified_append:
  "moves_justified f t as \<Longrightarrow> moves_justified f t bs \<Longrightarrow> moves_justified f t (as @ bs)"
  unfolding moves_justified_def using justified_move_append dialled_append by fastforce

lemma moves_justified_conn: "\<forall>e \<in> set evs. is_conn_event e \<Longrightarrow> moves_justified f t evs"
  using conn_event_not_member [of evs "EvMemberRemove _ _ _"] conn_event_not_member [of evs "EvMoveLeader _ _ _"]
  by (simp add: moves_justified_def)

lemma moves_justified_extend:
  assumes conn: "\<forall>e \<in> set as. is_conn_event e" "dialled f as c0"
    and mv: "\<And>c i x. EvMoveLeader c i x \<in> set bs \<Longrightarrow> c = c0 \<and> justified_move f t bs c i"
    and rm: "\<And>c i x. EvMemberRemove c i x \<notin> set bs"
  shows "moves_justified f t (as @ bs)"
  unfolding moves_justified_def
proof (intro conjI allI impI)
  fix c i x
  show "EvMemberRemove c i x \<notin> set (as @ bs)" using rm conn_event_not_member [OF conn(1)] by simp
  assume "EvMoveLeader c i x \<in> set (as @ bs)"
  then have "EvMoveLeader c i x \<in> set bs" using conn_event_not_member [OF conn(1)] by simp
  with mv conn(2) show "justified_move f t (as @ bs) c i" "dialled f (as @ bs) c"
    by (auto intro!: justified_move_append dialled_append)
qed

lemma source_phase_logs:
  "logs (do {
     sc \<leftarrow> connectToEtcd E (NewWorkloadClusterClientGenerator E) kc [] from;
     case sc of
       Inl e \<Rightarrow> ret (d, Some (Wrapf msg e))
     | Inr sourceConn \<Rightarrow> do {
         err \<leftarrow> protect_from_source E sourceConn from to;
         close_conn E sourceConn;
         ret (d, err) } })
   (\<lambda>r evs. balanced evs \<and> fst r = d \<and> moves_justified from to evs \<and> (snd r = None \<longrightarrow> leadership_safe from evs))"
proof (rule logs_bind [OF connectToEtcd_logs], intro logs_intros)
  fix c :: "'a etcdConnection res" and evs e
  assume "connected from c evs" "c = Inl e"
  then show "balanced (evs @ []) \<and> fst (d, Some (Wrapf msg e)) = d \<and> moves_justified from to (evs @ []) \<and>
      (snd (d, Some (Wrapf msg e)) = None \<longrightarrow> leadership_safe from (evs @ []))"
    by (simp add: connected_def moves_justified_conn)
next
  fix c :: "'a etcdConnection res" and evs sc
  assume c: "connected from c evs" "c = Inr sc"
  show "logs (do { err \<leftarrow> protect_from_source E sc from to; close_conn E sc; ret (d, err) })
     (\<lambda>r evs'. balanced (evs @ evs') \<and> fst r = d \<and> moves_justified from to (evs @ evs') \<and>
        (snd r = None \<longrightarrow> leadership_safe from (evs @ evs')))"
  proof (rule logs_bind [OF protect_from_source_logs])
    fix r evs'
    assume b: "(\<forall>e \<in> set evs'. is_member_event e) \<and>
     (\<forall>c i x. EvMoveLeader c i x \<in> set evs' \<longrightarrow> c = conn_client sc \<and> justified_move from to evs' c i) \<and>
     (\<forall>c i x. EvMemberRemove c i x \<notin> set evs') \<and> (r = None \<longrightarrow> leadership_safe from evs')"
    with c have "opens_conn (evs @ evs') sc"
      by (simp add: connected_def opens_conn_def member_events_neutral)
    moreover have "moves_justified from to (evs @ evs')"
    proof (rule moves_justified_extend)
      show "\<forall>e \<in> set evs. is_conn_event e" "dialled from evs (conn_client sc)"
        using c by (simp_all add: connected_def)
    qed (use b in blast)+
    ultimately show "logs (do { close_conn E sc; ret (d, r) })
      (\<lambda>r evs''. balanced (evs @ evs' @ evs'') \<and> fst r = d \<and> moves_justified from to (evs @ evs' @ evs'') \<and>
        (snd r = None \<longrightarrow> leadership_safe from (evs @ evs' @ evs'')))"
      using b
      by (intro logs_bind [OF close_conn_logs] logs_return)
        (auto dest: moves_justified_append [OF _ moves_justified_conn] intro: leadership_safe_append)
  qed
qed

lemma moves_justified_Cons:
  "moves_justified f t evs \<Longrightarrow> moves_justified f t (EvMemberList c r # evs)"
  "moves_justified f t evs \<Longrightarrow> moves_justified f t (EvEtcdStatus c ep st # evs)"
  using moves_justified_append [of f t "[EvMemberList c r]" evs] moves_justified_append [of f t "[EvEtcdStatus c ep st]" evs]
  by (simp_all add: moves_justified_def)

lemma leadership_safe_Cons: "leadership_safe f evs \<Longrightarrow> leadership_safe f (e # evs)"
  using leadership_safe_append [of f "[e]" evs] by simp

lemma protectEtcdLeadership_logs:
  assumes "opens_conn evs0 conn"
  shows "logs (protectEtcdLeadership E conn (\<lambda>n. connectToEtcd E (NewWorkloadClusterClientGenerator E) kc [] n) from to)
    (\<lambda>r evs. (fst r = conn \<and> (\<forall>e \<in> set evs. is_member_event e) \<or> conn_closed (fst r) \<and> balanced (evs0 @ evs)) \<and>
       moves_justified from to evs \<and> (snd r = None \<longrightarrow> leadership_safe from evs))"
  unfolding protectEtcdLeadership_def member_list_def etcd_status_def
  apply (intro logs_call_bind logs_intros logs_bind [OF close_conn_logs [OF assms]]
      logs_mono [OF source_phase_logs])
  prefer 8
  subgoal for a ao ms fm st so stt c evs r evs'
    by (auto simp: balanced_def intro!: moves_justified_Cons leadership_safe_Cons moves_justified_append leadership_safe_append
        dest: moves_justified_conn)
         apply (simp_all add: moves_justified_def leadership_safe_def)
  done

lemma ProtectEtcdLeadership_logs:
  "logs (ProtectEtcdLeadership E (NewWorkloadClusterClientGenerator E) kc from to)
    (\<lambda>r evs. balanced evs \<and> moves_justified from to evs \<and> (r = None \<longrightarrow> leadership_safe from evs))"
  unfolding ProtectEtcdLeadership_def
proof (rule logs_bind [OF connectToEtcd_logs], intro logs_intros)
  fix c :: "'a etcdConnection res" and evs e
  assume "connected [] c evs" "c = Inl e"
  then show "balanced (evs @ []) \<and> moves_justified from to (evs @ []) \<and> (Some e = None \<longrightarrow> leadership_safe from (evs @ []))"
    by (simp add: connected_def moves_justified_conn)
next
  fix c :: "'a etcdConnection res" and evs conn
  assume "connected [] c evs" "c = Inr conn"
  then have o: "opens_conn evs conn" and cv: "moves_justified from to evs"
    by (simp_all add: connected_def moves_justified_conn)
  show "logs (do { res \<leftarrow> protectEtcdLeadership E conn (\<lambda>n. connectToEtcd E (NewWorkloadClusterClientGenerator E) kc [] n) from to;
       close_conn E (fst res); ret (snd res) })
     (\<lambda>r evs'. balanced (evs @ evs') \<and> moves_justified from to (evs @ evs') \<and> (r = None \<longrightarrow> leadership_safe from (evs @ evs')))"
  proof (rule logs_bind [OF protectEtcdLeadership_logs [OF o]])
    fix r :: "'a etcdConnection \<times> goerr option" and evs'
    assume b: "(fst r = conn \<and> (\<forall>e \<in> set evs'. is_member_event e) \<or> conn_closed (fst r) \<and> balanced (evs @ evs')) \<and>
       moves_justified from to evs' \<and> (snd r = None \<longrightarrow> leadership_safe from evs')"
    have "logs (close_conn E (fst r)) (\<lambda>_ evs''. balanced (evs @ evs' @ evs'') \<and> (\<forall>e \<in> set evs''. is_conn_event e))"
    proof (cases "conn_closed (fst r)")
      case True
      with b o show ?thesis by (auto intro!: logs_return simp: opens_conn_def)
    next
      case False
      with b o have "opens_conn (evs @ evs') (fst r)"
        by (simp add: opens_conn_def member_events_neutral)
      from logs_mono [OF close_conn_logs [OF this]] show ?thesis by simp
    qed
    then show "logs (do { close_conn E (fst r); ret (snd r) })
     (\<lambda>a evs''. balanced (evs @ evs' @ evs'') \<and> moves_justified from to (evs @ evs' @ evs'')
        \<and> (a = None \<longrightarrow> leadership_safe from (evs @ evs' @ evs'')))"
      using b cv by (elim logs_bind, intro logs_return)
        (auto intro!: moves_justified_append leadership_safe_append dest: moves_justified_conn)
  qed
qed

subsection \<open>A three-member cluster\<close>

text \<open>
  A workload cluster with one usable etcd pod on node \<open>a\<close> and the members \<open>a\<close> (the leader),
  \<open>b\<close> and \<open>c\<close>: the concrete scenario for the theorems of this theory.
\<close>

definition demo_pod :: pod where
  "demo_pod = \<lparr>pod_meta = empty_meta\<lparr>m_name := ''etcd-a''\<rparr>, pod_phase = ''Running'', pod_nodeName = ''a'',
     pod_conditions = [(''Ready'', ''True'')], pod_IP = [], pod_terminated = []\<rparr>"

definition demo_member :: "uint64 \<Rightarrow> string \<Rightarrow> etcd_pb_member option" where
  "demo_member i n = Some \<lparr>em_id = i, em_name = n, em_isLearner = False\<rparr>"

definition demo_etcd :: "unit env" where
  "demo_etcd = nowhere\<lparr>
     k_get := (\<lambda>c k ns n s. (case k of
         KSecret \<Rightarrow> Inr (OSecret \<lparr>se_meta = empty_meta, se_type = [], se_data = Map.empty\<rparr>)
       | KConfigMap \<Rightarrow> Inr (OConfigMap \<lparr>cm_meta = empty_meta, cm_data = Map.empty\<rparr>)
       | _ \<Rightarrow> Inl (ApiStatus NotFound), s)),
     k_list := (\<lambda>c k opts s. (Inr [OPod demo_pod], s)),
     x_free_port := (\<lambda>s. (Inr 4000, s)),
     x_forward := (\<lambda>p n s. (ForwardReady, s)),
     x_etcd_new := (\<lambda>ep s. (Inr 7, s)),
     x_member_list := (\<lambda>c s. (Inr (Some [demo_member 1 ''a'', demo_member 2 ''b'', demo_member 3 ''c'']), s)),
     x_etcd_status := (\<lambda>c ep s. (Inr (Some \<lparr>sr_header = Some 1, sr_leader = 1\<rparr>), s)),
     x_alarm_list := (\<lambda>c s. (Inr [AlarmNoSpace], s))\<rparr>"

lemmas demo_etcd_run = RemoveEtcdMember_def ProtectEtcdLeadership_def RemoveEtcdMemberByID_def connectToEtcd_def
  NewWorkloadClusterClientGenerator_def defaultEtcdConnectionFactory_def connectToEtcd_excluding_def connectToEtcdOnNode_def
  connectToEtcdWithSelector_def buildEtcdTLSConfig_def selectRunningEtcdPod_def startPortForward_def etcd_calls
  close_conn_def removeMemberByName_def removeMemberByID_def checked_remove_def protectEtcdLeadership_def protect_from_source_def
  transfer_leadership_def get_as_def list_as_def kcall_defs call_def start_def demo_etcd_def nowhere_def
  demo_pod_def demo_member_def empty_meta_def

subsection \<open>Properties\<close>

text \<open>
  Claim C3. Removing a member by name, with the real connection factory and whatever etcd and the
  API server answer: every removal issued is of the first listed member of that name, out of a list
  of at least two, after an alarm list without CORRUPT; success means that the name was not listed
  or that etcd accepted the removal; and every etcd client opened is closed and every port-forward
  started is stopped.
\<close>

theorem RemoveEtcdMember_safe:
  assumes "run_state (RemoveEtcdMember E (NewWorkloadClusterClientGenerator E) kc name) (start s) = (r, w)"
  shows "balanced (w_trace w) \<and>
     (\<forall>c i x. EvMemberRemove c i x \<in> set (w_trace w) \<longrightarrow> no_corrupt_alarm c (w_trace w) \<and>
        listed c (\<lambda>ms. 2 \<le> length ms \<and> (\<exists>m. findEtcdMember ms name = Some m \<and> em_id m = i)) (w_trace w)) \<and>
     (r = None \<longrightarrow> removal_done name (w_trace w))"
proof -
  have two: "length ms \<noteq> 1 \<and> (\<exists>m. findEtcdMember ms name = Some m \<and> em_id m = i) \<longleftrightarrow>
      2 \<le> length ms \<and> (\<exists>m. findEtcdMember ms name = Some m \<and> em_id m = i)" for ms i
    by (cases ms) (auto simp: Suc_le_eq)
  from logs_start [OF RemoveEtcdMember_logs assms] show ?thesis unfolding two by blast
qed

theorem RemoveEtcdMember_safe_witness:
  "EvMemberRemove 7 2 None \<in> set (w_trace (snd (run_state
      (RemoveEtcdMember demo_etcd (NewWorkloadClusterClientGenerator demo_etcd) ''kc'' ''b'') (start ())))) \<and>
   no_corrupt_alarm 7 (w_trace (snd (run_state
      (RemoveEtcdMember demo_etcd (NewWorkloadClusterClientGenerator demo_etcd) ''kc'' ''b'') (start ()))))"
proof -
  let ?m = "RemoveEtcdMember demo_etcd (NewWorkloadClusterClientGenerator demo_etcd) ''kc'' ''b''"
  obtain r w where run: "run_state ?m (start ()) = (r, w)" by force
  have "EvMemberRemove 7 2 None \<in> set (w_trace (snd (run_state ?m (start ()))))"
    by (simp add: demo_etcd_run scan_pods.simps(2))
  with run have ev: "EvMemberRemove 7 2 None \<in> set (w_trace w)" by simp
  from RemoveEtcdMember_safe [OF run] ev have "no_corrupt_alarm 7 (w_trace w)" by blast
  with ev run show ?thesis by simp
qed

text \<open>
  Removing a member by id: the only removal ever issued is of that id, after a member
  list whose length is not one and an alarm list without CORRUPT; success means that etcd accepted
  the removal; nothing opened is left open.
\<close>

theorem RemoveEtcdMemberByID_safe:
  assumes "run_state (RemoveEtcdMemberByID E (NewWorkloadClusterClientGenerator E) kc i) (start s) = (r, w)"
  shows "balanced (w_trace w) \<and>
     (\<forall>c j x. EvMemberRemove c j x \<in> set (w_trace w) \<longrightarrow> j = i \<and> no_corrupt_alarm c (w_trace w) \<and>
        listed c (\<lambda>ms. length ms \<noteq> 1) (w_trace w)) \<and>
     (r = None \<longrightarrow> (\<exists>c. EvMemberRemove c i None \<in> set (w_trace w)))"
  using logs_start [OF RemoveEtcdMemberByID_logs assms] by blast

theorem RemoveEtcdMemberByID_safe_witness:
  "\<exists>c. EvMemberRemove c 3 None \<in> set (w_trace (snd (run_state
      (RemoveEtcdMemberByID demo_etcd (NewWorkloadClusterClientGenerator demo_etcd) ''kc'' 3) (start ()))))"
proof -
  let ?m = "RemoveEtcdMemberByID demo_etcd (NewWorkloadClusterClientGenerator demo_etcd) ''kc'' 3"
  obtain r w where run: "run_state ?m (start ()) = (r, w)" by force
  have "fst (run_state ?m (start ())) = None"
    by (simp add: demo_etcd_run scan_pods.simps(2))
  with run have ev: "r = None" by simp
  from RemoveEtcdMemberByID_safe [OF run] ev have "\<exists>c. EvMemberRemove c 3 None \<in> set (w_trace w)" by blast
  with ev run show ?thesis by simp
qed

text \<open>
  Claim C16. Protecting leadership before a removal: a transfer is requested only through a client
  dialled to a usable etcd pod on the source's own node, which lists both members and reports
  itself as the leader, and only towards a listed voting member with a non-zero id other than the
  source's; no member is removed; success means that the source is not listed, that another member
  leads, or that the transfer was accepted; nothing opened is left open.
\<close>

theorem ProtectEtcdLeadership_safe:
  assumes "run_state (ProtectEtcdLeadership E (NewWorkloadClusterClientGenerator E) kc src tgt) (start s) = (r, w)"
  shows "balanced (w_trace w) \<and> (\<forall>c i x. EvMemberRemove c i x \<notin> set (w_trace w)) \<and>
     (\<forall>c i x. EvMoveLeader c i x \<in> set (w_trace w) \<longrightarrow>
        justified_move src tgt (w_trace w) c i \<and> dialled src (w_trace w) c) \<and>
     (r = None \<longrightarrow> leadership_safe src (w_trace w))"
  using logs_start [OF ProtectEtcdLeadership_logs assms] unfolding moves_justified_def by blast

theorem ProtectEtcdLeadership_safe_witness:
  "EvMoveLeader 7 2 None \<in> set (w_trace (snd (run_state
      (ProtectEtcdLeadership demo_etcd (NewWorkloadClusterClientGenerator demo_etcd) ''kc'' ''a'' ''b'') (start ())))) \<and>
   dialled ''a'' (w_trace (snd (run_state
      (ProtectEtcdLeadership demo_etcd (NewWorkloadClusterClientGenerator demo_etcd) ''kc'' ''a'' ''b'') (start ())))) 7"
proof -
  let ?m = "ProtectEtcdLeadership demo_etcd (NewWorkloadClusterClientGenerator demo_etcd) ''kc'' ''a'' ''b''"
  obtain r w where run: "run_state ?m (start ()) = (r, w)" by force
  have "EvMoveLeader 7 2 None \<in> set (w_trace (snd (run_state ?m (start ()))))"
    by (simp add: demo_etcd_run scan_pods.simps(2))
  with run have ev: "EvMoveLeader 7 2 None \<in> set (w_trace w)" by simp
  from ProtectEtcdLeadership_safe [OF run] ev have "dialled ''a'' (w_trace w) 7" by blast
  with ev run show ?thesis by simp
qed

text \<open>
  The pod chosen for a connection: with a target node, the first usable pod on that node
  and nothing else; without one, the first usable pod off the excluded node, and only when there is
  none the last usable pod on it; an error exactly when no usable pod qualifies or the list fails.
\<close>

theorem selectRunningEtcdPod_choice:
  "fst (run_state (selectRunningEtcdPod E c ex tg) w) =
    (case fst (k_list E c KPod \<lparr>lo_namespace = etcdPodNamespace, lo_labels = [(''app'', ''etcd'')]\<rparr> (w_env w)) of
       Inl e \<Rightarrow> Inl (Wrapf ''failed to list etcd pods'' e)
     | Inr obs \<Rightarrow>
       let pods = filter usable_pod (List.map_filter as_pod obs) in
       (case (if tg \<noteq> [] then List.find (\<lambda>p. pod_nodeName p = tg) pods
              else (case List.find (\<lambda>p. pod_nodeName p \<noteq> ex) pods of
                      Some p \<Rightarrow> Some p | None \<Rightarrow> if pods = [] then None else Some (last pods))) of
          Some p \<Rightarrow> Inr p
        | None \<Rightarrow> Inl (Errorf (if tg \<noteq> [] then ''no running etcd pod found on node''
                                else ''no running etcd pod found in namespace''))))"
proof -
  have find_filter: "List.find P (filter Q xs) = List.find (\<lambda>x. Q x \<and> P x) xs" for P Q and xs :: "pod list"
    by (induction xs) auto
  have find_last: "List.find P (rev xs) = (if filter P xs = [] then None else Some (last (filter P xs)))"
    for P and xs :: "pod list" by (induction xs) (auto simp: find_snoc)
  show ?thesis
    by (auto simp: selectRunningEtcdPod_def list_as_def klist_def call_def scan_pods_target scan_pods_any
        find_filter find_last Let_def split: sum.splits option.splits prod.splits)
qed

end
