(* ===== verification/Conditions.thy ===== *)
theory Conditions
  imports Environment "HOL-Library.Product_Lexorder"
begin

text \<open>
  Status conditions: \<open>conditions.Get\<close>, \<open>IsTrue\<close>, \<open>IsFalse\<close> and \<open>Set\<close> of Cluster API's util
  package, as the controllers use them, and the helpers \<open>setConditionTrue\<close> and
  \<open>setConditionFalse\<close> of the control plane controller. Transition times are not kept.

  The locale \<open>conditions_object\<close> is the Getter/Setter interface; it is interpreted on the control
  plane, the bootstrap config and the machine.
\<close>

definition condition_order :: "string list" where
  "condition_order = [''Available'', ''Ready'', ''UpToDate'', ''RemoteConnectionProbe'', ''BootstrapConfigReady'',
     ''InfrastructureReady'', ''ControlPlaneInitialized'', ''ControlPlaneAvailable'', ''WorkersAvailable'',
     ''CertificatesAvailable'', ''Initialized'', ''EtcdClusterHealthy'', ''ControlPlaneComponentsHealthy'',
     ''NodeHealthy'', ''NodeReady'', ''EtcdPodHealthy'', ''EtcdMemberHealthy'', ''APIServerPodHealthy'',
     ''ControllerManagerPodHealthy'', ''SchedulerPodHealthy'', ''HealthCheckSucceeded'', ''OwnerRemediated'',
     ''TopologyReconciled'', ''Updating'', ''RollingOut'', ''Remediating'', ''ScalingDown'', ''ScalingUp'',
     ''MachinesReady'', ''ControlPlaneMachinesReady'', ''WorkerMachinesReady'', ''MachinesUpToDate'',
     ''ControlPlaneMachinesUpToDate'', ''WorkerMachinesUpToDate'', [], ''Paused'', ''Deleting'']"

fun position :: "string \<Rightarrow> string list \<Rightarrow> nat option" where
  "position t [] = None"
| "position t (x # xs) = (if x = t then Some 0 else map_option Suc (position t xs))"

definition condition_rank :: "string \<Rightarrow> nat" where
  "condition_rank t = (case position t condition_order of Some i \<Rightarrow> i | None \<Rightarrow> the (position [] condition_order))"

definition condition_key :: "condition \<Rightarrow> nat \<times> string" where
  "condition_key c = (condition_rank (c_type c), c_type c)"

definition FindStatusCondition :: "condition list \<Rightarrow> string \<Rightarrow> condition option" where
  "FindStatusCondition cs t = List.find (\<lambda>c. c_type c = t) cs"

fun replace_condition :: "condition \<Rightarrow> condition list \<Rightarrow> condition list" where
  "replace_condition c [] = []"
| "replace_condition c (x # xs) = (if c_type x = c_type c then c # xs else x # replace_condition c xs)"

text \<open>\<open>meta.SetStatusCondition\<close>: the new list and whether anything changed.\<close>

definition SetStatusCondition :: "condition list \<Rightarrow> condition \<Rightarrow> condition list \<times> bool" where
  "SetStatusCondition cs c = (case FindStatusCondition cs (c_type c) of
     None \<Rightarrow> (cs @ [c], True)
   | Some old \<Rightarrow> (replace_condition c cs, old \<noteq> c))"

definition set_condition :: "int \<Rightarrow> condition \<Rightarrow> condition list \<Rightarrow> condition list" where
  "set_condition gen c cs = (case SetStatusCondition cs (c\<lparr>c_observedGeneration := gen\<rparr>) of
     (cs', changed) \<Rightarrow> if changed then sort_key condition_key cs' else cs)"

definition is_true_in :: "condition list \<Rightarrow> string \<Rightarrow> bool" where
  "is_true_in cs t = (case FindStatusCondition cs t of None \<Rightarrow> False | Some c \<Rightarrow> c_status c = CTrue)"

definition is_false_in :: "condition list \<Rightarrow> string \<Rightarrow> bool" where
  "is_false_in cs t = (case FindStatusCondition cs t of None \<Rightarrow> False | Some c \<Rightarrow> c_status c = CFalse)"

subsection \<open>Objects with conditions\<close>

definition oacp_conditions :: "oacp \<Rightarrow> condition list" where
  "oacp_conditions ob = st_conditions (oacp_status ob)"

definition oacp_put_conditions :: "oacp \<Rightarrow> condition list \<Rightarrow> oacp" where
  "oacp_put_conditions ob cs = ob\<lparr>oacp_status := (oacp_status ob)\<lparr>st_conditions := cs\<rparr>\<rparr>"

definition oacp_set :: "condition \<Rightarrow> oacp \<Rightarrow> oacp" where
  "oacp_set c ob = oacp_put_conditions ob (set_condition (m_generation (oacp_meta ob)) c (oacp_conditions ob))"

definition oac_set :: "condition \<Rightarrow> oac \<Rightarrow> oac" where
  "oac_set c ob = ob\<lparr>oac_status := (oac_status ob)\<lparr>oacs_conditions :=
     set_condition (m_generation (oac_meta ob)) c (oacs_conditions (oac_status ob))\<rparr>\<rparr>"

definition machine_set :: "condition \<Rightarrow> machine \<Rightarrow> machine" where
  "machine_set c ob = ob\<lparr>mc_conditions := set_condition (m_generation (mc_meta ob)) c (mc_conditions ob)\<rparr>"

definition oacp_is_true :: "oacp \<Rightarrow> string \<Rightarrow> bool" where
  "oacp_is_true ob t = is_true_in (oacp_conditions ob) t"

definition oacp_is_false :: "oacp \<Rightarrow> string \<Rightarrow> bool" where
  "oacp_is_false ob t = is_false_in (oacp_conditions ob) t"

definition setConditionTrue :: "string \<Rightarrow> oacp \<Rightarrow> oacp" where
  "setConditionTrue t = oacp_set (mk_condition t CTrue t [])"

definition setConditionFalse :: "string \<Rightarrow> string \<Rightarrow> string \<Rightarrow> oacp \<Rightarrow> oacp" where
  "setConditionFalse t reason msg = oacp_set (mk_condition t CFalse reason msg)"

subsection \<open>Laws\<close>

lemma find_filter_hd: "List.find P xs = (case filter P xs of [] \<Rightarrow> None | x # _ \<Rightarrow> Some x)"
  by (induction xs) auto

lemma FindStatusCondition_sort [simp]:
  "FindStatusCondition (sort_key condition_key cs) t = FindStatusCondition cs t"
proof -
  have "(\<lambda>c. c_type c = t) = (\<lambda>c. condition_key c = (condition_rank t, t))"
    by (auto simp: condition_key_def)
  then show ?thesis
    by (simp add: FindStatusCondition_def find_filter_hd sort_key_stable)
qed

lemma FindStatusCondition_replace:
  "FindStatusCondition cs (c_type c) \<noteq> None \<Longrightarrow>
    FindStatusCondition (replace_condition c cs) t = (if t = c_type c then Some c else FindStatusCondition cs t)"
  by (induction cs) (auto simp: FindStatusCondition_def)

lemma FindStatusCondition_append:
  "FindStatusCondition (cs @ [c]) t = (case FindStatusCondition cs t of Some x \<Rightarrow> Some x
     | None \<Rightarrow> if c_type c = t then Some c else None)"
  by (induction cs) (auto simp: FindStatusCondition_def)

lemma FindStatusCondition_type: "FindStatusCondition cs t = Some c \<Longrightarrow> c_type c = t"
  by (auto simp: FindStatusCondition_def find_Some_iff)

lemma FindStatusCondition_set:
  "FindStatusCondition (set_condition gen c cs) t =
    (if t = c_type c then Some (c\<lparr>c_observedGeneration := gen\<rparr>) else FindStatusCondition cs t)"
proof (cases "FindStatusCondition cs (c_type c)")
  case None
  then show ?thesis
    by (auto simp: set_condition_def SetStatusCondition_def FindStatusCondition_append split: option.splits)
next
  case (Some old)
  then show ?thesis
    by (auto simp: set_condition_def SetStatusCondition_def FindStatusCondition_replace)
qed

lemma replace_condition_types: "List.map c_type (replace_condition c cs) = List.map c_type cs"
  by (induction cs) auto

lemma FindStatusCondition_None: "FindStatusCondition cs t = None \<longleftrightarrow> t \<notin> c_type ` set cs"
  by (auto simp: FindStatusCondition_def find_None_iff)

lemma distinct_set_condition:
  assumes "distinct (List.map c_type cs)"
  shows "distinct (List.map c_type (set_condition gen c cs))"
proof -
  have perm: "distinct (List.map c_type (sort_key condition_key xs)) \<longleftrightarrow> distinct (List.map c_type xs)" for xs
    by (metis distinct_map distinct_sort set_sort)
  show ?thesis using assms
    by (auto simp: set_condition_def SetStatusCondition_def perm replace_condition_types FindStatusCondition_None
        split: option.splits)
qed

text \<open>The Getter/Setter interface of an object with conditions.\<close>

locale conditions_object =
  fixes get_conditions :: "'o \<Rightarrow> condition list"
    and set_one :: "condition \<Rightarrow> 'o \<Rightarrow> 'o"
    and generation :: "'o \<Rightarrow> int"
  assumes get_set_one: "get_conditions (set_one c ob) = set_condition (generation ob) c (get_conditions ob)"
begin

lemma find_after_set:
  "FindStatusCondition (get_conditions (set_one c ob)) t =
    (if t = c_type c then Some (c\<lparr>c_observedGeneration := generation ob\<rparr>) else FindStatusCondition (get_conditions ob) t)"
  by (simp add: get_set_one FindStatusCondition_set)

lemma is_true_after_set:
  "is_true_in (get_conditions (set_one c ob)) t =
    (if t = c_type c then c_status c = CTrue else is_true_in (get_conditions ob) t)"
  by (simp add: is_true_in_def find_after_set)

lemma is_false_after_set:
  "is_false_in (get_conditions (set_one c ob)) t =
    (if t = c_type c then c_status c = CFalse else is_false_in (get_conditions ob) t)"
  by (simp add: is_false_in_def find_after_set)

lemma types_distinct_after_set:
  "distinct (List.map c_type (get_conditions ob)) \<Longrightarrow> distinct (List.map c_type (get_conditions (set_one c ob)))"
  by (simp add: get_set_one distinct_set_condition)

end

interpretation oacp_cond: conditions_object oacp_conditions oacp_set "\<lambda>ob. m_generation (oacp_meta ob)"
  by unfold_locales (simp add: oacp_set_def oacp_put_conditions_def oacp_conditions_def)

interpretation oac_cond: conditions_object "\<lambda>ob. oacs_conditions (oac_status ob)" oac_set "\<lambda>ob. m_generation (oac_meta ob)"
  by unfold_locales (simp add: oac_set_def)

interpretation machine_cond: conditions_object mc_conditions machine_set "\<lambda>ob. m_generation (mc_meta ob)"
  by unfold_locales (simp add: machine_set_def)

text \<open>Setting a condition touches nothing but the conditions.\<close>

lemma oacp_set_other [simp]:
  "oacp_meta (oacp_set c ob) = oacp_meta ob" "oacp_spec (oacp_set c ob) = oacp_spec ob"
  "st_distributionVersion (oacp_status (oacp_set c ob)) = st_distributionVersion (oacp_status ob)"
  "st_controlPlaneInitialized (oacp_status (oacp_set c ob)) = st_controlPlaneInitialized (oacp_status ob)"
  "st_version (oacp_status (oacp_set c ob)) = st_version (oacp_status ob)"
  "st_replicas (oacp_status (oacp_set c ob)) = st_replicas (oacp_status ob)"
  "st_readyReplicas (oacp_status (oacp_set c ob)) = st_readyReplicas (oacp_status ob)"
  "st_availableReplicas (oacp_status (oacp_set c ob)) = st_availableReplicas (oacp_status ob)"
  "st_upToDateReplicas (oacp_status (oacp_set c ob)) = st_upToDateReplicas (oacp_status ob)"
  by (simp_all add: oacp_set_def oacp_put_conditions_def)

lemma setCondition_other [simp]:
  "oacp_meta (setConditionTrue t ob) = oacp_meta ob" "oacp_spec (setConditionTrue t ob) = oacp_spec ob"
  "oacp_meta (setConditionFalse t r m ob) = oacp_meta ob" "oacp_spec (setConditionFalse t r m ob) = oacp_spec ob"
  "st_distributionVersion (oacp_status (setConditionTrue t ob)) = st_distributionVersion (oacp_status ob)"
  "st_distributionVersion (oacp_status (setConditionFalse t r m ob)) = st_distributionVersion (oacp_status ob)"
  by (simp_all add: setConditionTrue_def setConditionFalse_def)

lemma mk_condition_simps [simp]:
  "c_type (mk_condition t s r m) = t" "c_status (mk_condition t s r m) = s"
  "c_reason (mk_condition t s r m) = r" "c_message (mk_condition t s r m) = m"
  by (simp_all add: mk_condition_def)

lemma oacp_is_true_set [simp]:
  "oacp_is_true (setConditionTrue t ob) t' \<longleftrightarrow> t' = t \<or> oacp_is_true ob t'"
  "oacp_is_true (setConditionFalse t r m ob) t' \<longleftrightarrow> t' \<noteq> t \<and> oacp_is_true ob t'"
  "oacp_is_false (setConditionTrue t ob) t' \<longleftrightarrow> t' \<noteq> t \<and> oacp_is_false ob t'"
  "oacp_is_false (setConditionFalse t r m ob) t' \<longleftrightarrow> t' = t \<or> oacp_is_false ob t'"
  by (simp_all add: oacp_is_true_def oacp_is_false_def setConditionTrue_def setConditionFalse_def
      oacp_cond.is_true_after_set oacp_cond.is_false_after_set)

end
