(* ===== verification/Util.thy ===== *)
theory Util
  imports Conditions
begin

text \<open>
  Helpers shared by the controllers: package \<open>util\<close>, the pull secret helpers of packages
  \<open>auth\<close> and \<open>assistedinstaller\<close>, and the library functions on owner references, finalizers
  and paused objects that the controllers call.
\<close>

subsection \<open>Owner references\<close>

definition ParseGroupVersion :: "string \<Rightarrow> (string \<times> string) option" where
  "ParseGroupVersion gv = (if gv = [] \<or> gv = ''/'' then Some ([], []) else (case str_split CHR ''/'' gv of
     [v] \<Rightarrow> Some ([], v) | [g, v] \<Rightarrow> Some (g, v) | _ \<Rightarrow> None))"

text \<open>The group of an API version whose parse error is ignored.\<close>

definition group_of :: "string \<Rightarrow> string" where
  "group_of gv = (case ParseGroupVersion gv of Some (g, _) \<Rightarrow> g | None \<Rightarrow> [])"

definition refer_same :: "owner_ref \<Rightarrow> owner_ref \<Rightarrow> bool" where
  "refer_same a b \<longleftrightarrow> ParseGroupVersion (or_apiVersion a) \<noteq> None \<and> ParseGroupVersion (or_apiVersion b) \<noteq> None \<and>
     group_of (or_apiVersion a) = group_of (or_apiVersion b) \<and> or_kind a = or_kind b \<and> or_name a = or_name b"

text \<open>\<open>controllerutil.SetOwnerReference\<close>: replace the reference to the same owner or append.\<close>

fun upsert_owner :: "owner_ref \<Rightarrow> owner_ref list \<Rightarrow> owner_ref list" where
  "upsert_owner r [] = [r]"
| "upsert_owner r (x # xs) = (if refer_same x r then r # xs else x # upsert_owner r xs)"

definition controlplaneGroup :: string where "controlplaneGroup = ''controlplane.cluster.x-k8s.io''"
definition openshiftAssistedControlPlaneKind :: string where
  "openshiftAssistedControlPlaneKind = ''OpenshiftAssistedControlPlane''"

definition oacp_owner_ref :: "bool option \<Rightarrow> oacp \<Rightarrow> owner_ref" where
  "oacp_owner_ref ctl ob = \<lparr>or_apiVersion = controlplaneGroup @ ''/v1alpha3'', or_kind = openshiftAssistedControlPlaneKind,
     or_name = m_name (oacp_meta ob), or_uid = m_uid (oacp_meta ob), or_controller = ctl\<rparr>"

definition add_owner :: "owner_ref \<Rightarrow> object_meta \<Rightarrow> object_meta" where
  "add_owner r m = m\<lparr>m_ownerReferences := upsert_owner r (m_ownerReferences m)\<rparr>"

text \<open>\<open>controllerutil.SetOwnerReference\<close> refuses an owner of another namespace.\<close>

definition owner_allowed :: "object_meta \<Rightarrow> object_meta \<Rightarrow> bool" where
  "owner_allowed owner m \<longleftrightarrow> m_namespace owner = [] \<or> m_namespace owner = m_namespace m"

text \<open>The same with the error only logged.\<close>

definition try_owner :: "object_meta \<Rightarrow> owner_ref \<Rightarrow> object_meta \<Rightarrow> object_meta" where
  "try_owner owner r m = (if owner_allowed owner m then add_owner r m else m)"

definition IsOwnedByObject :: "object_meta \<Rightarrow> oacp \<Rightarrow> bool" where
  "IsOwnedByObject m ob = list_ex (\<lambda>r. ParseGroupVersion (or_apiVersion r) \<noteq> None \<and>
     group_of (or_apiVersion r) = controlplaneGroup \<and> or_kind r = openshiftAssistedControlPlaneKind \<and>
     or_name r = m_name (oacp_meta ob)) (m_ownerReferences m)"

text \<open>\<open>metav1.IsControlledBy\<close>: the first controller reference, compared by UID.\<close>

definition IsControlledBy :: "object_meta \<Rightarrow> object_meta \<Rightarrow> bool" where
  "IsControlledBy m owner = (case List.find (\<lambda>r. or_controller r = Some True) (m_ownerReferences m) of
     None \<Rightarrow> False | Some r \<Rightarrow> or_uid r = m_uid owner)"

fun GetTypedOwner_refs :: "'s env \<Rightarrow> (kobj \<Rightarrow> 'a option) \<Rightarrow> kind \<Rightarrow> string \<Rightarrow> string \<Rightarrow> string \<Rightarrow> owner_ref list \<Rightarrow> ('s, 'a res) prog" where
  "GetTypedOwner_refs E f k grp knd ns [] = ret (Inl (Errorf ''couldn't find owner''))"
| "GetTypedOwner_refs E f k grp knd ns (r # rs) =
    (if group_of (or_apiVersion r) \<noteq> grp \<or> or_kind r \<noteq> knd then GetTypedOwner_refs E f k grp knd ns rs
     else do {
       x \<leftarrow> get_as E f Mgmt k ns (or_name r);
       case x of Inl _ \<Rightarrow> GetTypedOwner_refs E f k grp knd ns rs | Inr owner \<Rightarrow> ret (Inr owner) })"

definition GetTypedOwner :: "'s env \<Rightarrow> (kobj \<Rightarrow> 'a option) \<Rightarrow> kind \<Rightarrow> string \<Rightarrow> string \<Rightarrow> object_meta \<Rightarrow> ('s, 'a res) prog" where
  "GetTypedOwner E f k grp knd m = GetTypedOwner_refs E f k grp knd (m_namespace m) (m_ownerReferences m)"

text \<open>\<open>capiutil.GetOwnerCluster\<close>: no matching reference is not an error.\<close>

fun GetOwnerCluster_refs :: "'s env \<Rightarrow> string \<Rightarrow> owner_ref list \<Rightarrow> ('s, cluster option res) prog" where
  "GetOwnerCluster_refs E ns [] = ret (Inr None)"
| "GetOwnerCluster_refs E ns (r # rs) =
    (if or_kind r \<noteq> ''Cluster'' then GetOwnerCluster_refs E ns rs
     else (case ParseGroupVersion (or_apiVersion r) of
       None \<Rightarrow> ret (Inl (Errorf ''unexpected GroupVersion string''))
     | Some (g, _) \<Rightarrow>
       if g = ''cluster.x-k8s.io'' then do {
         x \<leftarrow> get_as E as_cluster Mgmt KCluster ns (or_name r);
         ret (case x of Inl e \<Rightarrow> Inl (Wrapf ''failed to get Cluster'' e) | Inr cl \<Rightarrow> Inr (Some cl)) }
       else GetOwnerCluster_refs E ns rs))"

definition GetOwnerCluster :: "'s env \<Rightarrow> object_meta \<Rightarrow> ('s, cluster option res) prog" where
  "GetOwnerCluster E m = GetOwnerCluster_refs E (m_namespace m) (m_ownerReferences m)"

subsection \<open>Finalizers, labels, pausing\<close>

definition ContainsFinalizer :: "object_meta \<Rightarrow> string \<Rightarrow> bool" where
  "ContainsFinalizer m f \<longleftrightarrow> f \<in> set (m_finalizers m)"

definition AddFinalizer :: "string \<Rightarrow> object_meta \<Rightarrow> object_meta" where
  "AddFinalizer f m = (if f \<in> set (m_finalizers m) then m else m\<lparr>m_finalizers := m_finalizers m @ [f]\<rparr>)"

definition RemoveFinalizer :: "string \<Rightarrow> object_meta \<Rightarrow> object_meta" where
  "RemoveFinalizer f m = m\<lparr>m_finalizers := filter (\<lambda>x. x \<noteq> f) (m_finalizers m)\<rparr>"

definition IsPaused :: "cluster \<Rightarrow> object_meta \<Rightarrow> bool" where
  "IsPaused cl m \<longleftrightarrow> cl_paused cl = Some True \<or> ''cluster.x-k8s.io/paused'' \<in> dom (m_annotations m)"

definition ClusterNameLabel :: string where "ClusterNameLabel = ''cluster.x-k8s.io/cluster-name''"
definition MachineControlPlaneLabel :: string where "MachineControlPlaneLabel = ''cluster.x-k8s.io/control-plane''"
definition MachineControlPlaneNameLabel :: string where
  "MachineControlPlaneNameLabel = ''cluster.x-k8s.io/control-plane-name''"

text \<open>Reading a label: a missing one is the empty string.\<close>

definition label_of :: "object_meta \<Rightarrow> string \<Rightarrow> string" where
  "label_of m k = (case m_labels m k of Some v \<Rightarrow> v | None \<Rightarrow> [])"

definition ControlPlaneMachineLabelsForCluster :: "'s env \<Rightarrow> oacp \<Rightarrow> string \<Rightarrow> labels" where
  "ControlPlaneMachineLabelsForCluster E acp clusterName =
     (mt_labels (sp_machineTemplate (oacp_spec acp)))
       (ClusterNameLabel \<mapsto> clusterName, MachineControlPlaneLabel \<mapsto> [],
        MachineControlPlaneNameLabel \<mapsto> x_format_label E (m_name (oacp_meta acp)))"

subsection \<open>Kubeconfigs and pull secrets\<close>

definition GetClusterKubeconfigSecret :: "'s env \<Rightarrow> string \<Rightarrow> string \<Rightarrow> ('s, secret res) prog" where
  "GetClusterKubeconfigSecret E clusterName ns = get_as E as_secret Mgmt KSecret ns (clusterName @ ''-kubeconfig'')"

definition ExtractKubeconfigFromSecret :: "secret \<Rightarrow> string \<Rightarrow> bytes res" where
  "ExtractKubeconfigFromSecret sec key = (case se_data sec key of
     None \<Rightarrow> Inl (Errorf ''kubeconfig not found in secret'') | Some kc \<Rightarrow> Inr kc)"

definition GetWorkloadKubeconfig :: "'s env \<Rightarrow> string \<Rightarrow> string \<Rightarrow> ('s, bytes res) prog" where
  "GetWorkloadKubeconfig E clusterName ns = do {
     r \<leftarrow> GetClusterKubeconfigSecret E clusterName ns;
     ret (case r of
       Inl e \<Rightarrow> Inl (Joined [e, Errorf ''failed to get cluster kubeconfig secret''])
     | Inr sec \<Rightarrow> (case ExtractKubeconfigFromSecret sec ''value'' of
         Inl e \<Rightarrow> Inl (Joined [e, Errorf ''failed to extract kubeconfig from secret''])
       | Inr kc \<Rightarrow> Inr kc)) }"

definition IsKubeVirtPlatform :: "cluster option \<Rightarrow> bool" where
  "IsKubeVirtPlatform cl = (case cl of None \<Rightarrow> False | Some c \<Rightarrow> cr_kind (cl_infrastructureRef c) = ''KubevirtCluster'')"

definition PullsecretDataKey :: string where "PullsecretDataKey = ''.dockerconfigjson''"

definition GenerateFakePullSecret :: "string \<Rightarrow> string \<Rightarrow> secret" where
  "GenerateFakePullSecret name ns = \<lparr>
     se_meta = empty_meta\<lparr>m_name := (if name = [] then ''placeholder-pull-secret'' else name), m_namespace := ns\<rparr>,
     se_type = [],
     se_data = [PullsecretDataKey \<mapsto> ''{\"auths\":{\"fake-pull-secret\":{\"auth\":\"cGxhY2Vob2xkZXI6c2VjcmV0Cg==\"}}}'']\<rparr>"

definition GetPullSecret :: "'s env \<Rightarrow> oacp \<Rightarrow> ('s, bytes res) prog" where
  "GetPullSecret E ob = (case cfg_pullSecretRef (sp_config (oacp_spec ob)) of
     None \<Rightarrow> ret (Inl (Errorf ''pull secret reference is not set in OpenshiftAssistedControlPlane''))
   | Some ref \<Rightarrow> do {
       r \<leftarrow> get_as E as_secret Mgmt KSecret (m_namespace (oacp_meta ob)) ref;
       ret (case r of
         Inl e \<Rightarrow> Inl e
       | Inr sec \<Rightarrow> (case se_data sec PullsecretDataKey of
           None \<Rightarrow> Inl (Errorf ''pullsecret secret does not have key .dockerconfigjson'')
         | Some ps \<Rightarrow> Inr ps)) })"

subsection \<open>Facts\<close>

fun is_mgmt_read :: "event \<Rightarrow> bool" where
  "is_mgmt_read (EvGet Mgmt _ _ _ _) = True"
| "is_mgmt_read (EvList Mgmt _ _ _) = True"
| "is_mgmt_read _ = False"

lemma is_mgmt_read_not_write: "is_mgmt_read e \<Longrightarrow> \<not> is_write e"
  by (cases e) auto

lemma emits_GetTypedOwner [emits_intros]:
  assumes "\<And>k ns n r. P (EvGet Mgmt k ns n r)"
  shows "emits P (GetTypedOwner E f k grp knd m)"
proof -
  have "emits P (GetTypedOwner_refs E f k grp knd ns rs)" for ns rs
    by (induction rs) (auto intro!: emits_intros assms)
  then show ?thesis by (simp add: GetTypedOwner_def)
qed

lemma emits_GetOwnerCluster [emits_intros]:
  assumes "\<And>k ns n r. P (EvGet Mgmt k ns n r)"
  shows "emits P (GetOwnerCluster E m)"
proof -
  have "emits P (GetOwnerCluster_refs E ns rs)" for ns rs
    by (induction rs) (auto intro!: emits_intros assms split: option.splits prod.splits)
  then show ?thesis by (simp add: GetOwnerCluster_def)
qed

definition cluster_seen :: "cluster \<Rightarrow> event list \<Rightarrow> bool" where
  "cluster_seen cl evs \<longleftrightarrow> (\<exists>ns n. EvGet Mgmt KCluster ns n (Inr (OCluster cl)) \<in> set evs)"

lemma cluster_seen_append: "cluster_seen cl evs \<Longrightarrow> cluster_seen cl (evs @ evs')" "cluster_seen cl evs' \<Longrightarrow> cluster_seen cl (evs @ evs')"
  by (auto simp: cluster_seen_def)

text \<open>\<open>GetOwnerCluster\<close> only reads clusters, and the one it returns it has read.\<close>

lemma logs_GetOwnerCluster:
  "logs (GetOwnerCluster E m) (\<lambda>r evs. (\<forall>e \<in> set evs. \<exists>ns n a. e = EvGet Mgmt KCluster ns n a) \<and> (\<forall>cl. r = Inr (Some cl) \<longrightarrow> cluster_seen cl evs))"
proof -
  have "logs (GetOwnerCluster_refs E ns rs) (\<lambda>r evs. (\<forall>e \<in> set evs. \<exists>ns n a. e = EvGet Mgmt KCluster ns n a) \<and> (\<forall>cl. r = Inr (Some cl) \<longrightarrow> cluster_seen cl evs))" for ns rs
  proof (induction rs)
    case (Cons r rs)
    show ?case
      unfolding GetOwnerCluster_refs.simps get_as_def kcall_defs
      apply (rule logs_if, rule Cons.IH)
      apply (rule logs_case_option, rule logs_return, simp)
      apply (rule logs_case_prod, rule logs_if)
       apply (simp only: prog_simps, rule logs_call_bind, rule logs_return)
       apply (auto simp: cluster_seen_def decode_def split: sum.splits option.splits)[1]
      apply (rule Cons.IH)
      done
  qed (simp add: logs_return)
  then show ?thesis by (simp add: GetOwnerCluster_def)
qed

lemma emits_GetWorkloadKubeconfig [emits_intros]:
  "(\<And>k ns n r. P (EvGet Mgmt k ns n r)) \<Longrightarrow> emits P (GetWorkloadKubeconfig E cn ns)"
  unfolding GetWorkloadKubeconfig_def GetClusterKubeconfigSecret_def by (intro emits_intros)

lemma emits_GetPullSecret [emits_intros]:
  "(\<And>k ns n r. P (EvGet Mgmt k ns n r)) \<Longrightarrow> emits P (GetPullSecret E ob)"
  unfolding GetPullSecret_def by (intro emits_intros)

lemma labels_forced:
  "ControlPlaneMachineLabelsForCluster E acp cn ClusterNameLabel = Some cn"
  "ControlPlaneMachineLabelsForCluster E acp cn MachineControlPlaneLabel = Some []"
  "ControlPlaneMachineLabelsForCluster E acp cn MachineControlPlaneNameLabel = Some (x_format_label E (m_name (oacp_meta acp)))"
  by (simp_all add: ControlPlaneMachineLabelsForCluster_def ClusterNameLabel_def MachineControlPlaneLabel_def
      MachineControlPlaneNameLabel_def)

lemma RemoveFinalizer_not_contains [simp]: "\<not> ContainsFinalizer (RemoveFinalizer f m) f"
  by (simp add: ContainsFinalizer_def RemoveFinalizer_def)

lemma upsert_owner_refers: "\<exists>r' \<in> set (upsert_owner r rs). r' = r"
  by (induction rs) auto

lemma IsOwnedByObject_add_owner: "IsOwnedByObject (add_owner (oacp_owner_ref c ob) m) ob"
proof -
  have gv: "ParseGroupVersion (controlplaneGroup @ ''/v1alpha3'') = Some (controlplaneGroup, ''v1alpha3'')"
    by (simp add: ParseGroupVersion_def controlplaneGroup_def)
  have "oacp_owner_ref c ob \<in> set (upsert_owner (oacp_owner_ref c ob) (m_ownerReferences m))"
    using upsert_owner_refers by blast
  then show ?thesis
    unfolding IsOwnedByObject_def list_ex_iff add_owner_def
    by (intro bexI [of _ "oacp_owner_ref c ob"]) (simp_all add: oacp_owner_ref_def group_of_def gv)
qed

end
