(* ===== verification/WorkloadClient.thy ===== *)
theory WorkloadClient
  imports Etcd Util
begin

text \<open>
  The interface \<open>workloadclient.ClientGenerator\<close>: its operations as a record, the real generator,
  and the laws its users rely on as the locale \<open>client_generator\<close>, interpreted on the real one.
\<close>

record 's clientGenerator =
  cg_GetWorkloadClusterClient :: "bytes \<Rightarrow> kclient res"
  cg_RemoveEtcdMember :: "bytes \<Rightarrow> string \<Rightarrow> ('s, goerr option) prog"
  cg_ListEtcdMembers :: "bytes \<Rightarrow> ('s, EtcdMember list res) prog"
  cg_RemoveEtcdMemberByID :: "bytes \<Rightarrow> uint64 \<Rightarrow> ('s, goerr option) prog"
  cg_ProtectEtcdLeadership :: "bytes \<Rightarrow> string \<Rightarrow> string \<Rightarrow> ('s, goerr option) prog"

definition GetWorkloadClusterClient :: "'s env \<Rightarrow> bytes \<Rightarrow> kclient res" where
  "GetWorkloadClusterClient E kubeconfig = (case x_client_config E kubeconfig of
     Some e \<Rightarrow> Inl (Joined [e, Errorf ''failed to get clientconfig from kubeconfig data''])
   | None \<Rightarrow> (case x_rest_config E kubeconfig of
     Some e \<Rightarrow> Inl (Joined [e, Errorf ''failed to get restconfig for kube client''])
   | None \<Rightarrow> (case x_new_client E kubeconfig of
     Some e \<Rightarrow> Inl e
   | None \<Rightarrow> Inr (Workload kubeconfig))))"

definition workload_generator :: "'s env \<Rightarrow> 's clientGenerator" where
  "workload_generator E = (let G = NewWorkloadClusterClientGenerator E in
     \<lparr>cg_GetWorkloadClusterClient = GetWorkloadClusterClient E,
      cg_RemoveEtcdMember = RemoveEtcdMember E G,
      cg_ListEtcdMembers = ListEtcdMembers E G,
      cg_RemoveEtcdMemberByID = RemoveEtcdMemberByID E G,
      cg_ProtectEtcdLeadership = ProtectEtcdLeadership E G\<rparr>)"

definition GetWorkloadClientFromClusterName :: "'s env \<Rightarrow> 's clientGenerator \<Rightarrow> string \<Rightarrow> string \<Rightarrow> ('s, kclient res) prog" where
  "GetWorkloadClientFromClusterName E CG clusterName ns = do {
     r \<leftarrow> GetWorkloadKubeconfig E clusterName ns;
     ret (case r of
       Inl e \<Rightarrow> Inl e
     | Inr kubeconfig \<Rightarrow> (case cg_GetWorkloadClusterClient CG kubeconfig of
         Inl e \<Rightarrow> Inl (Joined [e, Errorf ''failed to establish client for workload cluster from kubeconfig''])
       | Inr c \<Rightarrow> Inr c)) }"

subsection \<open>The contract\<close>

text \<open>The events an operation on etcd may cause: no write to any API server.\<close>

fun is_api_write :: "event \<Rightarrow> bool" where
  "is_api_write (EvMemberRemove _ _ _) = False"
| "is_api_write (EvMoveLeader _ _ _) = False"
| "is_api_write e = is_write e"

text \<open>A removal by name and a removal by id that etcd was ready for.\<close>

definition named_removals :: "string \<Rightarrow> event list \<Rightarrow> bool" where
  "named_removals name evs \<longleftrightarrow> (\<forall>c i x. EvMemberRemove c i x \<in> set evs \<longrightarrow> no_corrupt_alarm c evs \<and>
     listed c (\<lambda>ms. length ms \<noteq> 1 \<and> (\<exists>m. findEtcdMember ms name = Some m \<and> em_id m = i)) evs)"

definition id_removals :: "uint64 \<Rightarrow> event list \<Rightarrow> bool" where
  "id_removals i evs \<longleftrightarrow> (\<forall>c j x. EvMemberRemove c j x \<in> set evs \<longrightarrow> j = i \<and> no_corrupt_alarm c evs \<and>
     listed c (\<lambda>ms. length ms \<noteq> 1) evs)"

definition api_quiet :: "event list \<Rightarrow> bool" where
  "api_quiet evs \<longleftrightarrow> (\<forall>e \<in> set evs. \<not> is_api_write e)"

text \<open>The non-nil members of an etcd answer.\<close>

definition member_entries :: "etcd_pb_member option list \<Rightarrow> EtcdMember list" where
  "member_entries ps = List.map (\<lambda>m. \<lparr>etm_id = em_id m, etm_name = em_name m\<rparr>) (List.map_filter id ps)"

locale client_generator =
  fixes CG :: "'s clientGenerator"
  assumes remove_member: "logs (cg_RemoveEtcdMember CG kc name) (\<lambda>r evs. api_quiet evs \<and> named_removals name evs \<and>
        (r = None \<longrightarrow> removal_done name evs))"
    and list_members: "logs (cg_ListEtcdMembers CG kc) (\<lambda>r evs. (\<forall>e \<in> set evs. \<not> is_write e) \<and>
        (\<forall>ms. r = Inr ms \<longrightarrow> (\<exists>c. listed c (\<lambda>ps. ms = member_entries ps) evs)))"
    and remove_by_id: "logs (cg_RemoveEtcdMemberByID CG kc i) (\<lambda>r evs. api_quiet evs \<and> id_removals i evs \<and>
        (r = None \<longrightarrow> (\<exists>c. EvMemberRemove c i None \<in> set evs)))"
    and protect: "logs (cg_ProtectEtcdLeadership CG kc src tgt) (\<lambda>r evs. api_quiet evs \<and>
        moves_justified src tgt evs \<and> (r = None \<longrightarrow> leadership_safe src evs))"

text \<open>Every event of an etcd operation belongs to the connection or to the members.\<close>

definition etcd_events :: "event list \<Rightarrow> bool" where
  "etcd_events evs \<longleftrightarrow> (\<forall>e \<in> set evs. is_conn_event e \<or> is_member_event e)"

lemma etcd_events_quiet: "etcd_events evs \<Longrightarrow> api_quiet evs"
proof -
  have "is_conn_event e \<or> is_member_event e \<Longrightarrow> \<not> is_api_write e" for e by (cases e) auto
  then show "etcd_events evs \<Longrightarrow> api_quiet evs" by (auto simp: etcd_events_def api_quiet_def)
qed

lemma etcd_events_append [simp]: "etcd_events (as @ bs) \<longleftrightarrow> etcd_events as \<and> etcd_events bs"
  by (auto simp: etcd_events_def)

lemma etcd_events_simps [simp]:
  "etcd_events []" "etcd_events (e # evs) \<longleftrightarrow> (is_conn_event e \<or> is_member_event e) \<and> etcd_events evs"
  by (auto simp: etcd_events_def)

lemma connected_events:
  "logs (connectToEtcd E (NewWorkloadClusterClientGenerator E) kc ex tg)
     (\<lambda>r evs. etcd_events evs \<and> (\<forall>conn. r = Inr conn \<longrightarrow> conn_closeFunc conn = None))"
  by (rule logs_mono [OF connectToEtcd_logs]) (auto simp: connected_def opens_conn_def etcd_events_def)

lemma close_conn_events:
  "conn_closeFunc c = None \<Longrightarrow> logs (close_conn E c) (\<lambda>c' evs. etcd_events evs \<and> conn_closeFunc c' = None)"
  unfolding close_conn_def etcd_calls by (auto intro!: logs_call_bind logs_intros)

lemma member_ops_events:
  "logs (removeMemberByName E c n) (\<lambda>r evs. etcd_events evs)"
  "logs (removeMemberByID E c i) (\<lambda>r evs. etcd_events evs)"
  "logs (protect_from_source E sc src tgt) (\<lambda>r evs. etcd_events evs)"
  by (rule logs_mono [OF removeMemberByName_logs] logs_mono [OF removeMemberByID_logs]
      logs_mono [OF protect_from_source_logs], auto simp: etcd_events_def)+

lemma protectEtcdLeadership_events:
  "conn_closeFunc conn = None \<Longrightarrow>
   logs (protectEtcdLeadership E conn (\<lambda>n. connectToEtcd E (NewWorkloadClusterClientGenerator E) kc [] n) src tgt)
     (\<lambda>r evs. etcd_events evs \<and> conn_closeFunc (fst r) = None)"
  unfolding protectEtcdLeadership_def member_list_def etcd_status_def
  by (intro logs_call_bind logs_intros logs_bind [OF close_conn_events] logs_bind [OF connected_events]
      logs_bind [OF member_ops_events(3)]) auto

lemma api_quiet_default:
  "logs (RemoveEtcdMember E (NewWorkloadClusterClientGenerator E) kc n) (\<lambda>r evs. api_quiet evs)"
  "logs (RemoveEtcdMemberByID E (NewWorkloadClusterClientGenerator E) kc i) (\<lambda>r evs. api_quiet evs)"
  "logs (ProtectEtcdLeadership E (NewWorkloadClusterClientGenerator E) kc src tgt) (\<lambda>r evs. api_quiet evs)"
  unfolding RemoveEtcdMember_def RemoveEtcdMemberByID_def ProtectEtcdLeadership_def
  by (intro logs_mono [OF _ etcd_events_quiet] logs_bind [OF connected_events] logs_intros
      logs_bind [OF member_ops_events(1)] logs_bind [OF member_ops_events(2)]
      logs_bind [OF protectEtcdLeadership_events] logs_bind [OF close_conn_events]; auto)+

interpretation wlc: client_generator "workload_generator E" for E
proof unfold_locales
  fix kc name src tgt and i :: uint64
  show "logs (cg_RemoveEtcdMember (workload_generator E) kc name)
      (\<lambda>r evs. api_quiet evs \<and> named_removals name evs \<and> (r = None \<longrightarrow> removal_done name evs))"
    unfolding workload_generator_def Let_def named_removals_def clientGenerator.simps
    by (rule logs_mono [OF logs_conj [OF api_quiet_default(1) RemoveEtcdMember_logs]]) blast
  show "logs (cg_ListEtcdMembers (workload_generator E) kc) (\<lambda>r evs. (\<forall>e \<in> set evs. \<not> is_write e) \<and>
      (\<forall>ms. r = Inr ms \<longrightarrow> (\<exists>c. listed c (\<lambda>ps. ms = member_entries ps) evs)))"
    unfolding workload_generator_def Let_def member_entries_def clientGenerator.simps by (rule logs_mono [OF ListEtcdMembers_logs]) blast
  show "logs (cg_RemoveEtcdMemberByID (workload_generator E) kc i)
      (\<lambda>r evs. api_quiet evs \<and> id_removals i evs \<and> (r = None \<longrightarrow> (\<exists>c. EvMemberRemove c i None \<in> set evs)))"
    unfolding workload_generator_def Let_def id_removals_def clientGenerator.simps
    by (rule logs_mono [OF logs_conj [OF api_quiet_default(2) RemoveEtcdMemberByID_logs]]) blast
  show "logs (cg_ProtectEtcdLeadership (workload_generator E) kc src tgt)
      (\<lambda>r evs. api_quiet evs \<and> moves_justified src tgt evs \<and> (r = None \<longrightarrow> leadership_safe src evs))"
    unfolding workload_generator_def Let_def clientGenerator.simps
    by (rule logs_mono [OF logs_conj [OF api_quiet_default(3) ProtectEtcdLeadership_logs]]) blast
qed

end
