(* ===== verification/Upgrade.thy ===== *)
theory Upgrade
  imports Release WorkloadClient
begin

text \<open>
  The workload cluster's ClusterVersion (\<open>controlplane/internal/upgrade/upgrade.go\<close>): observing an
  upgrade, requesting one and cancelling one. The interface \<open>ClusterUpgrade\<close> is a record of
  operations, its contract the locale \<open>cluster_upgrade\<close>, interpreted on \<open>OpenshiftUpgrader\<close>.
\<close>

definition ReleaseImageRepositoryOverrideOption :: string where
  "ReleaseImageRepositoryOverrideOption = ''ReleaseImageRepositoryOverride''"
definition ReleaseImagePullSecretOption :: string where
  "ReleaseImagePullSecretOption = ''ReleaseImagePullSecret''"

record 's clusterUpgrade =
  cu_IsUpgradeInProgress :: "('s, bool res) prog"
  cu_GetCurrentVersion :: "('s, string res) prog"
  cu_IsDesiredVersionUpdated :: "string \<Rightarrow> ('s, bool res) prog"
  cu_GetUpgradeStatus :: "('s, string res) prog"
  cu_UpdateClusterVersionDesiredUpdate :: "string \<Rightarrow> string \<Rightarrow> (string \<times> string) list \<Rightarrow> ('s, goerr option) prog"
  cu_ClearDesiredUpdate :: "('s, goerr option) prog"

definition getClusterVersion :: "'s env \<Rightarrow> kclient \<Rightarrow> ('s, cluster_version res) prog" where
  "getClusterVersion E c = get_as E as_cluster_version c KClusterVersion [] ''version''"

definition isUpdateInProgress :: "cluster_version \<Rightarrow> bool" where
  "isUpdateInProgress cv \<longleftrightarrow> list_ex (\<lambda>h. cvh_state h = PartialUpdate \<and> \<not> cvh_completed h) (cv_history cv) \<or>
     list_ex (\<lambda>c. c_type c = ''Progressing'' \<and> c_status c = CTrue) (cv_conditions cv)"

definition IsUpgradeInProgress :: "'s env \<Rightarrow> kclient \<Rightarrow> ('s, bool res) prog" where
  "IsUpgradeInProgress E c = do {
     r \<leftarrow> getClusterVersion E c;
     ret (case r of Inl e \<Rightarrow> Inl e | Inr cv \<Rightarrow> Inr (isUpdateInProgress cv)) }"

text \<open>The version of the newest completed entry of the history.\<close>

fun completed_version :: "cv_history list \<Rightarrow> string res" where
  "completed_version [] = Inl (Errorf ''no completed update found in ClusterVersion history'')"
| "completed_version (h # hs) = (if cvh_state h = CompletedUpdate then Inr (cvh_version h) else completed_version hs)"

definition GetCurrentVersion :: "'s env \<Rightarrow> kclient \<Rightarrow> ('s, string res) prog" where
  "GetCurrentVersion E c = do {
     r \<leftarrow> getClusterVersion E c;
     ret (case r of Inl e \<Rightarrow> Inl e | Inr cv \<Rightarrow> completed_version (cv_history cv)) }"

fun true_message :: "condition list \<Rightarrow> string" where
  "true_message [] = []"
| "true_message (c # cs) = (if c_status c = CTrue then c_message c else true_message cs)"

definition GetUpgradeStatus :: "'s env \<Rightarrow> kclient \<Rightarrow> ('s, string res) prog" where
  "GetUpgradeStatus E c = do {
     r \<leftarrow> getClusterVersion E c;
     ret (case r of Inl e \<Rightarrow> Inl e | Inr cv \<Rightarrow> Inr (true_message (cv_conditions cv))) }"

definition IsDesiredVersionUpdated :: "'s env \<Rightarrow> kclient \<Rightarrow> string \<Rightarrow> ('s, bool res) prog" where
  "IsDesiredVersionUpdated E c desiredVersion = do {
     r \<leftarrow> getClusterVersion E c;
     ret (case r of Inl e \<Rightarrow> Inl e | Inr cv \<Rightarrow> Inr (has_prefix desiredVersion (cv_desiredVersion cv))) }"

fun getOption :: "string \<Rightarrow> (string \<times> string) list \<Rightarrow> string" where
  "getOption n [] = []"
| "getOption n ((k, v) # opts) = (if k = n then v else getOption n opts)"

definition isGARelease :: "string \<Rightarrow> string \<Rightarrow> bool" where
  "isGARelease desiredVersion repositoryOverride =
    (if repositoryOverride \<noteq> [] \<and> repositoryOverride \<notin> {OCPRepository, OKDRepository} then False
     else IsGA desiredVersion)"

definition update_cv :: "'s env \<Rightarrow> kclient \<Rightarrow> cluster_version \<Rightarrow> ('s, goerr option) prog" where
  "update_cv E c cv = do { r \<leftarrow> kupdate E c (OClusterVersion cv); ret (err_of r) }"

definition UpdateClusterVersionDesiredUpdate ::
  "'s env \<Rightarrow> 's remoteImage \<Rightarrow> kclient \<Rightarrow> string \<Rightarrow> string \<Rightarrow> (string \<times> string) list \<Rightarrow> ('s, goerr option) prog" where
  "UpdateClusterVersionDesiredUpdate E remote c desiredVersion architecture options = (
     let repositoryOverride = getOption ReleaseImageRepositoryOverrideOption options in do {
     r \<leftarrow> getClusterVersion E c;
     case r of
       Inl e \<Rightarrow> ret (Some e)
     | Inr cv \<Rightarrow>
       if isGARelease desiredVersion repositoryOverride then
         (if cv_desiredUpdate cv = None \<or> cvu_version (the (cv_desiredUpdate cv)) \<noteq> desiredVersion
          then update_cv E c (cv\<lparr>cv_desiredUpdate := Some \<lparr>cvu_version = desiredVersion, cvu_image = [], cvu_force = False\<rparr>\<rparr>)
          else ret None)
       else do {
         d \<leftarrow> GetReleaseImageWithDigest E (GetReleaseImage desiredVersion repositoryOverride architecture)
                (getOption ReleaseImagePullSecretOption options) remote;
         case d of
           Inl e \<Rightarrow> ret (Some e)
         | Inr img \<Rightarrow>
           if cv_desiredUpdate cv = None \<or> cvu_image (the (cv_desiredUpdate cv)) \<noteq> img
           then update_cv E c (cv\<lparr>cv_desiredUpdate := Some \<lparr>cvu_version = [], cvu_image = img, cvu_force = True\<rparr>\<rparr>)
           else ret None } })"

definition ClearDesiredUpdate :: "'s env \<Rightarrow> kclient \<Rightarrow> ('s, goerr option) prog" where
  "ClearDesiredUpdate E c = do {
     r \<leftarrow> getClusterVersion E c;
     case r of
       Inl e \<Rightarrow> ret (Some e)
     | Inr cv \<Rightarrow>
       if cv_desiredUpdate cv = None then ret None
       else update_cv E c (cv\<lparr>cv_desiredUpdate := None\<rparr>) }"

definition NewOpenshiftUpgrader :: "'s env \<Rightarrow> 's remoteImage \<Rightarrow> kclient \<Rightarrow> 's clusterUpgrade" where
  "NewOpenshiftUpgrader E remote c = \<lparr>
     cu_IsUpgradeInProgress = IsUpgradeInProgress E c,
     cu_GetCurrentVersion = GetCurrentVersion E c,
     cu_IsDesiredVersionUpdated = IsDesiredVersionUpdated E c,
     cu_GetUpgradeStatus = GetUpgradeStatus E c,
     cu_UpdateClusterVersionDesiredUpdate = UpdateClusterVersionDesiredUpdate E remote c,
     cu_ClearDesiredUpdate = ClearDesiredUpdate E c\<rparr>"

type_synonym 's upgradeFactory = "bytes \<Rightarrow> 's clusterUpgrade res"

definition NewUpgrader :: "'s env \<Rightarrow> 's clientGenerator \<Rightarrow> 's remoteImage \<Rightarrow> 's upgradeFactory" where
  "NewUpgrader E CG remote kubeConfig = (case cg_GetWorkloadClusterClient CG kubeConfig of
     Inl e \<Rightarrow> Inl e | Inr c \<Rightarrow> Inr (NewOpenshiftUpgrader E remote c))"

subsection \<open>The same decision in package version\<close>

definition version_isGARelease :: "oacp \<Rightarrow> bool" where
  "version_isGARelease ob = (case m_annotations (oacp_meta ob) ReleaseImageRepositoryOverrideAnnotation of
     Some override \<Rightarrow> if override \<notin> {OCPRepository, OKDRepository} then False
                      else IsGA (sp_distributionVersion (oacp_spec ob))
   | None \<Rightarrow> IsGA (sp_distributionVersion (oacp_spec ob)))"

definition version_UpdateClusterVersionDesiredUpdate ::
  "'s env \<Rightarrow> kclient \<Rightarrow> oacp \<Rightarrow> cluster_version \<Rightarrow> string \<Rightarrow> ('s, goerr option) prog" where
  "version_UpdateClusterVersionDesiredUpdate E c ob cv releaseImageWithDigest =
    (let v = sp_distributionVersion (oacp_spec ob) in
     if version_isGARelease ob then
       (if cv_desiredUpdate cv = None \<or> cvu_version (the (cv_desiredUpdate cv)) \<noteq> v
        then update_cv E c (cv\<lparr>cv_desiredUpdate := Some \<lparr>cvu_version = v, cvu_image = [], cvu_force = False\<rparr>\<rparr>)
        else ret None)
     else if cv_desiredUpdate cv = None \<or> cvu_image (the (cv_desiredUpdate cv)) \<noteq> releaseImageWithDigest
     then update_cv E c (cv\<lparr>cv_desiredUpdate := Some \<lparr>cvu_version = [], cvu_image = releaseImageWithDigest, cvu_force = True\<rparr>\<rparr>)
     else ret None)"

subsection \<open>The contract\<close>

definition saw_cv :: "(cluster_version \<Rightarrow> bool) \<Rightarrow> event list \<Rightarrow> bool" where
  "saw_cv P evs \<longleftrightarrow> (\<exists>c cv. EvGet c KClusterVersion [] ''version'' (Inr (OClusterVersion cv)) \<in> set evs \<and> P cv)"

text \<open>
  A request for version \<open>v\<close>: by version number for a GA release, by a forced image of that
  version's release otherwise.
\<close>

definition requests :: "string \<Rightarrow> string \<Rightarrow> string \<Rightarrow> cv_update \<Rightarrow> bool" where
  "requests v ov arch u \<longleftrightarrow>
    (if isGARelease v ov then u = \<lparr>cvu_version = v, cvu_image = [], cvu_force = False\<rparr>
     else cvu_version u = [] \<and> cvu_force u \<and>
       (cvu_image u = GetReleaseImage v ov arch \<or>
        (\<exists>repo d. GetRepoImage (GetReleaseImage v ov arch) = Inr repo \<and> cvu_image u = repo @ ''@'' @ d)))"

fun is_push :: "string \<Rightarrow> string \<Rightarrow> string \<Rightarrow> event \<Rightarrow> bool" where
  "is_push v ov arch (EvUpdate (Workload _) (OClusterVersion cv) _) = (\<exists>u. cv_desiredUpdate cv = Some u \<and> requests v ov arch u)"
| "is_push v ov arch _ = False"

fun is_clear :: "event \<Rightarrow> bool" where
  "is_clear (EvUpdate (Workload _) (OClusterVersion cv) _) = (cv_desiredUpdate cv = None)"
| "is_clear _ = False"

definition only_writes :: "(event \<Rightarrow> bool) \<Rightarrow> event list \<Rightarrow> bool" where
  "only_writes P evs \<longleftrightarrow> (\<forall>e \<in> set evs. is_write e \<longrightarrow> P e)"

definition no_writes :: "event list \<Rightarrow> bool" where
  "no_writes evs \<longleftrightarrow> (\<forall>e \<in> set evs. \<not> is_write e)"

locale cluster_upgrade =
  fixes U :: "'s clusterUpgrade"
  assumes in_progress: "logs (cu_IsUpgradeInProgress U) (\<lambda>r evs. no_writes evs \<and>
        (\<forall>b. r = Inr b \<longrightarrow> saw_cv (\<lambda>cv. isUpdateInProgress cv = b) evs))"
    and current: "logs (cu_GetCurrentVersion U) (\<lambda>r evs. no_writes evs \<and>
        (\<forall>v. r = Inr v \<longrightarrow> saw_cv (\<lambda>cv. completed_version (cv_history cv) = Inr v) evs))"
    and desired: "logs (cu_IsDesiredVersionUpdated U d) (\<lambda>r evs. no_writes evs \<and>
        (\<forall>b. r = Inr b \<longrightarrow> saw_cv (\<lambda>cv. has_prefix d (cv_desiredVersion cv) = b) evs))"
    and status: "logs (cu_GetUpgradeStatus U) (\<lambda>r evs. no_writes evs)"
    and update: "logs (cu_UpdateClusterVersionDesiredUpdate U v arch opts) (\<lambda>r evs.
        only_writes (is_push v (getOption ReleaseImageRepositoryOverrideOption opts) arch) evs)"
    and clear: "logs (cu_ClearDesiredUpdate U) (\<lambda>r evs. only_writes is_clear evs)"

lemma no_writes_simps [simp]:
  "no_writes []" "no_writes (e # evs) \<longleftrightarrow> \<not> is_write e \<and> no_writes evs" "no_writes (as @ bs) \<longleftrightarrow> no_writes as \<and> no_writes bs"
  by (auto simp: no_writes_def)

lemma only_writes_simps [simp]:
  "only_writes P []" "only_writes P (e # evs) \<longleftrightarrow> (is_write e \<longrightarrow> P e) \<and> only_writes P evs"
  "only_writes P (as @ bs) \<longleftrightarrow> only_writes P as \<and> only_writes P bs"
  by (auto simp: only_writes_def)

lemma no_writes_only: "no_writes evs \<Longrightarrow> only_writes P evs"
  by (simp add: no_writes_def only_writes_def)

lemma saw_cv_append [simp]: "saw_cv P (as @ bs) \<longleftrightarrow> saw_cv P as \<or> saw_cv P bs"
  by (auto simp: saw_cv_def)

lemma saw_cv_single [simp]:
  "saw_cv P [EvGet c KClusterVersion [] ''version'' r] \<longleftrightarrow> (\<exists>cv. r = Inr (OClusterVersion cv) \<and> P cv)"
  by (auto simp: saw_cv_def)

lemma getClusterVersion_logs:
  "logs (getClusterVersion E c) (\<lambda>r evs. no_writes evs \<and> (\<forall>cv. r = Inr cv \<longrightarrow> saw_cv (\<lambda>x. x = cv) evs))"
  unfolding getClusterVersion_def get_as_def kcall_defs
  by (intro logs_call_bind logs_intros) (auto split: option.splits simp: decode_def split: sum.splits)

lemma saw_cv_mono: "saw_cv P evs \<Longrightarrow> (\<And>cv. P cv \<Longrightarrow> Q cv) \<Longrightarrow> saw_cv Q evs"
  by (auto simp: saw_cv_def)

lemma update_cv_logs: "logs (update_cv E c cv) (\<lambda>r evs. \<exists>x. evs = [EvUpdate c (OClusterVersion cv) x])"
  unfolding update_cv_def kcall_defs by (intro logs_call_bind logs_intros) auto

lemma observation_logs:
  assumes "\<And>cv. P (g cv) cv"
  shows "logs (do { r \<leftarrow> getClusterVersion E c; ret (case r of Inl e \<Rightarrow> Inl e | Inr cv \<Rightarrow> f cv) })
    (\<lambda>r evs. no_writes evs \<and> (\<forall>b. r = Inr b \<longrightarrow> saw_cv (\<lambda>cv. f cv = Inr b) evs))"
  by (intro logs_bind [OF getClusterVersion_logs] logs_intros) (auto split: sum.splits elim: saw_cv_mono)

lemma UpdateClusterVersionDesiredUpdate_logs:
  "logs (UpdateClusterVersionDesiredUpdate E (NewRemoteImageRepository E') (Workload kc) v arch opts)
    (\<lambda>r evs. only_writes (is_push v (getOption ReleaseImageRepositoryOverrideOption opts) arch) evs)"
  unfolding UpdateClusterVersionDesiredUpdate_def
  by (intro logs_intros logs_bind [OF getClusterVersion_logs] logs_mono [OF update_cv_logs]
      logs_bind [OF registry.digest_image_logs])
    (auto simp: no_writes_only requests_def, auto simp: only_writes_def no_writes_def)

lemma ClearDesiredUpdate_logs: "logs (ClearDesiredUpdate E (Workload kc)) (\<lambda>r evs. only_writes is_clear evs)"
  unfolding ClearDesiredUpdate_def
  by (intro logs_intros logs_bind [OF getClusterVersion_logs] logs_mono [OF update_cv_logs])
    (auto simp: no_writes_only)

interpretation osu: cluster_upgrade "NewOpenshiftUpgrader E (NewRemoteImageRepository E') (Workload kc)" for E E' kc
proof unfold_locales
  fix d v arch :: string and opts
  show "logs (cu_IsUpgradeInProgress (NewOpenshiftUpgrader E (NewRemoteImageRepository E') (Workload kc)))
     (\<lambda>r evs. no_writes evs \<and> (\<forall>b. r = Inr b \<longrightarrow> saw_cv (\<lambda>cv. isUpdateInProgress cv = b) evs))"
    unfolding NewOpenshiftUpgrader_def clusterUpgrade.simps IsUpgradeInProgress_def
    by (rule logs_mono [OF observation_logs]) simp_all
  show "logs (cu_GetCurrentVersion (NewOpenshiftUpgrader E (NewRemoteImageRepository E') (Workload kc)))
     (\<lambda>r evs. no_writes evs \<and> (\<forall>b. r = Inr b \<longrightarrow> saw_cv (\<lambda>cv. completed_version (cv_history cv) = Inr b) evs))"
    unfolding NewOpenshiftUpgrader_def clusterUpgrade.simps GetCurrentVersion_def
    by (rule observation_logs) simp_all
  show "logs (cu_IsDesiredVersionUpdated (NewOpenshiftUpgrader E (NewRemoteImageRepository E') (Workload kc)) d)
     (\<lambda>r evs. no_writes evs \<and> (\<forall>b. r = Inr b \<longrightarrow> saw_cv (\<lambda>cv. has_prefix d (cv_desiredVersion cv) = b) evs))"
    unfolding NewOpenshiftUpgrader_def clusterUpgrade.simps IsDesiredVersionUpdated_def
    by (rule logs_mono [OF observation_logs]) simp_all
  show "logs (cu_GetUpgradeStatus (NewOpenshiftUpgrader E (NewRemoteImageRepository E') (Workload kc))) (\<lambda>r evs. no_writes evs)"
    unfolding NewOpenshiftUpgrader_def clusterUpgrade.simps GetUpgradeStatus_def
    by (intro logs_bind [OF getClusterVersion_logs] logs_intros) simp
  show "logs (cu_UpdateClusterVersionDesiredUpdate (NewOpenshiftUpgrader E (NewRemoteImageRepository E') (Workload kc)) v arch opts)
     (\<lambda>r evs. only_writes (is_push v (getOption ReleaseImageRepositoryOverrideOption opts) arch) evs)"
    unfolding NewOpenshiftUpgrader_def clusterUpgrade.simps by (rule UpdateClusterVersionDesiredUpdate_logs)
  show "logs (cu_ClearDesiredUpdate (NewOpenshiftUpgrader E (NewRemoteImageRepository E') (Workload kc))) (\<lambda>r evs. only_writes is_clear evs)"
    unfolding NewOpenshiftUpgrader_def clusterUpgrade.simps by (rule ClearDesiredUpdate_logs)
qed

subsection \<open>Properties\<close>

text \<open>
  Requesting a GA version is effective and idempotent: against a server that answers a
  read with the ClusterVersion last written, one request leaves that version as the desired
  update, and repeating the request writes nothing.
\<close>

theorem UpdateClusterVersionDesiredUpdate_idempotent:
  assumes ga: "isGARelease v (getOption ReleaseImageRepositoryOverrideOption opts)"
    and get: "\<And>s. k_get E c KClusterVersion [] ''version'' s = (Inr (OClusterVersion (look s)), s)"
    and upd: "\<And>cv s. k_update E c (OClusterVersion cv) s = (Inr (OClusterVersion cv), store cv s)"
    and law: "\<And>cv s. look (store cv s) = cv"
    and run1: "run_state (UpdateClusterVersionDesiredUpdate E remote c v arch opts) (start s) = (r1, w1)"
    and run2: "run_state (UpdateClusterVersionDesiredUpdate E remote c v arch opts) (start (w_env w1)) = (r2, w2)"
  shows "r1 = None \<and> map_option cvu_version (cv_desiredUpdate (look (w_env w1))) = Some v \<and>
    r2 = None \<and> no_writes (w_trace w2)"
proof -
  have step: "run_state (UpdateClusterVersionDesiredUpdate E remote c v arch opts) (start s) =
      (None, if map_option cvu_version (cv_desiredUpdate (look s)) = Some v
        then \<lparr>w_env = s, w_trace = [EvGet c KClusterVersion [] ''version'' (Inr (OClusterVersion (look s)))]\<rparr>
        else (let cv = (look s)\<lparr>cv_desiredUpdate := Some \<lparr>cvu_version = v, cvu_image = [], cvu_force = False\<rparr>\<rparr> in
          \<lparr>w_env = store cv s, w_trace = [EvGet c KClusterVersion [] ''version'' (Inr (OClusterVersion (look s))),
             EvUpdate c (OClusterVersion cv) (Inr (OClusterVersion cv))]\<rparr>))" for s
    using ga by (auto simp: UpdateClusterVersionDesiredUpdate_def getClusterVersion_def get_as_def kget_def call_def
        start_def Let_def get update_cv_def kupdate_def upd)
  from run1 have w1: "r1 = None" "map_option cvu_version (cv_desiredUpdate (look (w_env w1))) = Some v"
    unfolding step by (auto simp: Let_def law split: if_splits)
  with run2 show ?thesis unfolding step by auto
qed

theorem UpdateClusterVersionDesiredUpdate_idempotent_witness:
  "\<exists>E :: cluster_version env. \<exists>s r1 w1. isGARelease ''4.18.1'' [] \<and>
    run_state (UpdateClusterVersionDesiredUpdate E (NewRemoteImageRepository E) (Workload ''kc'') ''4.18.1'' ''multi'' []) (start s) = (r1, w1) \<and>
    map_option cvu_version (cv_desiredUpdate (w_env w1)) = Some ''4.18.1''"
proof -
  define E :: "cluster_version env" where "E = nowhere\<lparr>
     k_get := (\<lambda>c k ns n s. (Inr (OClusterVersion s), s)),
     k_update := (\<lambda>c ob s. (Inr ob, case ob of OClusterVersion cv \<Rightarrow> cv | _ \<Rightarrow> s))\<rparr>"
  define s where "s = \<lparr>cv_meta = empty_meta, cv_desiredUpdate = None, cv_desiredVersion = ''4.17.0'', cv_history = [], cv_conditions = []\<rparr>"
  have ga: "isGARelease ''4.18.1'' (getOption ReleaseImageRepositoryOverrideOption [])"
    by (simp add: isGARelease_def IsGA_def plain_version_def)
  obtain r1 w1 where run1: "run_state (UpdateClusterVersionDesiredUpdate E (NewRemoteImageRepository E) (Workload ''kc'') ''4.18.1'' ''multi'' []) (start s) = (r1, w1)"
    by force
  obtain r2 w2 where run2: "run_state (UpdateClusterVersionDesiredUpdate E (NewRemoteImageRepository E) (Workload ''kc'') ''4.18.1'' ''multi'' []) (start (w_env w1)) = (r2, w2)"
    by force
  have "map_option cvu_version (cv_desiredUpdate (w_env w1)) = Some ''4.18.1''"
    using UpdateClusterVersionDesiredUpdate_idempotent [OF ga _ _ _ run1 run2, of "\<lambda>s. s" "\<lambda>cv s. cv"]
    by (simp add: E_def)
  with ga run1 show ?thesis by (intro exI [of _ E] exI [of _ s] exI [of _ r1] exI [of _ w1]) simp
qed

definition cv_server :: "string \<Rightarrow> unit env" where
  "cv_server desired = nowhere\<lparr>k_get := (\<lambda>c k ns n s. (Inr (OClusterVersion \<lparr>cv_meta = empty_meta, cv_desiredUpdate = None,
     cv_desiredVersion = desired, cv_history = [], cv_conditions = []\<rparr>), s))\<rparr>"

text \<open>
  \<open>IsDesiredVersionUpdated\<close> answers true for every tenant version that is a prefix of
  the wanted one: a cluster whose desired version is 4.18.1 counts as already updated to 4.18.10,
  although 4.18.10 is the newer version, and so does one that reports no desired version at all.
\<close>

theorem IsDesiredVersionUpdated_prefix:
  "fst (run_state (IsDesiredVersionUpdated (cv_server (take n v)) c v) (start ())) = Inr True \<and>
   fst (run_state (IsDesiredVersionUpdated (cv_server ''4.18.1'') c ''4.18.10'') (start ())) = Inr True \<and>
   v_gt (the (ParseTolerant ''4.18.10'')) (the (ParseTolerant ''4.18.1''))"
proof -
  have run: "fst (run_state (IsDesiredVersionUpdated (cv_server d) c v) (start ())) = Inr (has_prefix v d)" for d v
    by (simp add: IsDesiredVersionUpdated_def getClusterVersion_def get_as_def kget_def call_def start_def cv_server_def nowhere_def)
  have "has_prefix v (take n v)" using has_prefix_append [of "take n v" "drop n v"] by simp
  then show ?thesis by (simp add: run)
qed

end
