(* ===== verification/Machines.thy ===== *)
theory Machines
  imports Util
begin

text \<open>
  Collections of Machines (Cluster API's \<open>util/collections\<close>) and the failure domains they are
  spread over (\<open>util/failuredomains\<close> of this repository and of Cluster API).

  A \<open>collections.Machines\<close> is a Go map keyed by name; it is the list of its values in the order
  the map is iterated, which is as arbitrary as the order the API server lists them in.
\<close>

definition GetFilteredMachinesForCluster ::
  "'s env \<Rightarrow> cluster \<Rightarrow> (machine \<Rightarrow> bool) list \<Rightarrow> ('s, machine list res) prog" where
  "GetFilteredMachinesForCluster E cl filters = do {
     r \<leftarrow> list_as E as_machine Mgmt KMachine
            \<lparr>lo_namespace = m_namespace (cl_meta cl), lo_labels = [(ClusterNameLabel, m_name (cl_meta cl))]\<rparr>;
     ret (case r of
       Inl e \<Rightarrow> Inl (Wrapf ''failed to list machines'' e)
     | Inr ms \<Rightarrow> Inr (filter (\<lambda>m. list_all (\<lambda>f. f m) filters) ms)) }"

definition OwnedMachines :: "oacp \<Rightarrow> machine \<Rightarrow> bool" where
  "OwnedMachines ob m = IsOwnedByObject (mc_meta m) ob"

definition ActiveMachines :: "machine \<Rightarrow> bool" where
  "ActiveMachines m \<longleftrightarrow> m_deletionTimestamp (mc_meta m) = None"

definition HasDeletionTimestamp :: "machine \<Rightarrow> bool" where
  "HasDeletionTimestamp m \<longleftrightarrow> m_deletionTimestamp (mc_meta m) \<noteq> None"

definition HasAnnotationKey :: "string \<Rightarrow> machine \<Rightarrow> bool" where
  "HasAnnotationKey k m \<longleftrightarrow> k \<in> dom (m_annotations (mc_meta m))"

definition HasNode :: "machine \<Rightarrow> bool" where
  "HasNode m \<longleftrightarrow> mc_nodeRef m \<noteq> []"

definition InFailureDomain :: "string \<Rightarrow> machine \<Rightarrow> bool" where
  "InFailureDomain fd m \<longleftrightarrow> mc_failureDomain m = fd"

text \<open>The orders by creation and by deletion time, ties broken by name.\<close>

definition creation_key :: "machine \<Rightarrow> int \<times> string" where
  "creation_key m = (m_creationTimestamp (mc_meta m), m_name (mc_meta m))"

definition deletion_key :: "machine \<Rightarrow> int \<times> string" where
  "deletion_key m = (case m_deletionTimestamp (mc_meta m) of None \<Rightarrow> 0 | Some t \<Rightarrow> t, m_name (mc_meta m))"

definition Oldest :: "machine list \<Rightarrow> machine option" where
  "Oldest ms = (if ms = [] then None else Some (hd (sort_key creation_key ms)))"

definition Newest :: "machine list \<Rightarrow> machine option" where
  "Newest ms = (if ms = [] then None else Some (last (sort_key creation_key ms)))"

definition OldestDeletionTimestamp :: "machine list \<Rightarrow> machine option" where
  "OldestDeletionTimestamp ms = (if ms = [] then None else Some (hd (sort_key deletion_key ms)))"

subsection \<open>Failure domains\<close>

definition filterControlPlaneFailureDomains :: "failure_domain list \<Rightarrow> failure_domain list" where
  "filterControlPlaneFailureDomains fds = filter (\<lambda>fd. fd_controlPlane fd = Some True) fds"

definition FailureDomains :: "cluster option \<Rightarrow> failure_domain list" where
  "FailureDomains cl = (case cl of None \<Rightarrow> [] | Some c \<Rightarrow> cl_failureDomains c)"

definition in_domain :: "string \<Rightarrow> machine list \<Rightarrow> nat" where
  "in_domain fd ms = length (filter (\<lambda>m. mc_failureDomain m \<noteq> [] \<and> mc_failureDomain m = fd) ms)"

text \<open>
  \<open>countByFailureDomain\<close>: per known domain, the number of priority machines and of all machines.
  The parameter \<open>order\<close> is the iteration order of the Go map of counters: what decides between
  domains with the same counts.
\<close>

definition countByFailureDomain ::
  "(string list \<Rightarrow> string list) \<Rightarrow> failure_domain list \<Rightarrow> machine list \<Rightarrow> machine list \<Rightarrow> (string \<times> nat \<times> nat) list" where
  "countByFailureDomain order fds allMachines priorityMachines =
     List.map (\<lambda>fd. (fd, in_domain fd priorityMachines, in_domain fd allMachines)) (order (remdups (List.map fd_name fds)))"

definition PickFewest ::
  "(string list \<Rightarrow> string list) \<Rightarrow> failure_domain list \<Rightarrow> machine list \<Rightarrow> machine list \<Rightarrow> string" where
  "PickFewest order fds allMachines upToDateMachines =
    (case sort_key snd (countByFailureDomain order fds allMachines upToDateMachines) of
       [] \<Rightarrow> [] | (fd, _) # _ \<Rightarrow> fd)"

definition PickMost ::
  "(string list \<Rightarrow> string list) \<Rightarrow> failure_domain list \<Rightarrow> machine list \<Rightarrow> machine list \<Rightarrow> string" where
  "PickMost order fds allMachines eligibleMachines =
    (case rev (sort_key snd (countByFailureDomain order fds allMachines eligibleMachines)) of
       [] \<Rightarrow> [] | (fd, p, _) # _ \<Rightarrow> if 0 < p then fd else [])"

definition machine_is_true :: "machine \<Rightarrow> string \<Rightarrow> bool" where
  "machine_is_true m t = is_true_in (mc_conditions m) t"

definition NextFailureDomainForScaleUp :: "(string list \<Rightarrow> string list) \<Rightarrow> cluster option \<Rightarrow> machine list \<Rightarrow> string" where
  "NextFailureDomainForScaleUp order cl machines = (
     let fds = filterControlPlaneFailureDomains (FailureDomains cl) in
     if fds = [] then [] else PickFewest order fds machines (filter (\<lambda>m. machine_is_true m ''UpToDate'') machines))"

definition DeleteMachineAnnotation :: string where "DeleteMachineAnnotation = ''cluster.x-k8s.io/delete-machine''"

definition NextFailureDomainForScaleDown :: "(string list \<Rightarrow> string list) \<Rightarrow> cluster option \<Rightarrow> machine list \<Rightarrow> string" where
  "NextFailureDomainForScaleDown order cl machines = (
     let fds = filterControlPlaneFailureDomains (FailureDomains cl);
         annotated = filter (HasAnnotationKey DeleteMachineAnnotation) machines;
         eligible = (if annotated = [] then machines else annotated)
     in if fds = [] then [] else PickMost order fds machines eligible)"

text \<open>\<open>selectMachineForScaleDown\<close>: the oldest machine of the failure domain.\<close>

definition selectMachineForScaleDown :: "machine list \<Rightarrow> string \<Rightarrow> machine res" where
  "selectMachineForScaleDown eligibleMachines fd = (case Oldest (filter (InFailureDomain fd) eligibleMachines) of
     None \<Rightarrow> Inl (Errorf ''failed to pick control plane Machine to scale down'')
   | Some m \<Rightarrow> Inr m)"

subsection \<open>Facts\<close>

lemma hd_sort_key_min: "xs \<noteq> [] \<Longrightarrow> hd (sort_key f xs) \<in> set xs \<and> (\<forall>x \<in> set xs. f (hd (sort_key f xs)) \<le> f x)"
proof -
  assume ne: "xs \<noteq> []"
  obtain y ys where s: "sort_key f xs = y # ys" using ne by (cases "sort_key f xs") (auto dest: arg_cong [of _ _ length])
  have "sorted (List.map f (y # ys))" using sorted_sort_key [of f xs] s by simp
  moreover have "set (y # ys) = set xs" using s set_sort [of f xs] by metis
  ultimately show ?thesis using s by auto
qed

lemma last_sort_key_max: "xs \<noteq> [] \<Longrightarrow> last (sort_key f xs) \<in> set xs \<and> (\<forall>x \<in> set xs. f x \<le> f (last (sort_key f xs)))"
proof -
  assume ne: "xs \<noteq> []"
  then have "sort_key f xs \<noteq> []" by (auto dest: arg_cong [of _ _ length])
  then obtain ys y where s: "sort_key f xs = ys @ [y]" by (metis rev_exhaust)
  have "sorted (List.map f (ys @ [y]))" using sorted_sort_key [of f xs] s by simp
  moreover have "set (ys @ [y]) = set xs" using s set_sort [of f xs] by metis
  ultimately show ?thesis using s by (auto simp: sorted_append)
qed

lemma Oldest_Some: "Oldest ms = Some m \<Longrightarrow> m \<in> set ms \<and> (\<forall>x \<in> set ms. creation_key m \<le> creation_key x)"
  using hd_sort_key_min [of ms creation_key] by (auto simp: Oldest_def split: if_splits)

lemma Newest_Some: "Newest ms = Some m \<Longrightarrow> m \<in> set ms \<and> (\<forall>x \<in> set ms. creation_key x \<le> creation_key m)"
  using last_sort_key_max [of ms creation_key] by (auto simp: Newest_def split: if_splits)

lemma OldestDeletionTimestamp_Some: "OldestDeletionTimestamp ms = Some m \<Longrightarrow> m \<in> set ms \<and> (\<forall>x \<in> set ms. deletion_key m \<le> deletion_key x)"
  using hd_sort_key_min [of ms deletion_key] by (auto simp: OldestDeletionTimestamp_def split: if_splits)

lemma OldestDeletionTimestamp_None: "OldestDeletionTimestamp ms = None \<longleftrightarrow> ms = []"
  by (simp add: OldestDeletionTimestamp_def)

lemma emits_GetFilteredMachines [emits_intros]:
  "(\<And>k opts r. P (EvList Mgmt k opts r)) \<Longrightarrow> emits P (GetFilteredMachinesForCluster E cl fs)"
  unfolding GetFilteredMachinesForCluster_def by (intro emits_intros)

lemma GetFilteredMachines_logs:
  "logs (GetFilteredMachinesForCluster E cl fs) (\<lambda>r evs. (\<forall>e \<in> set evs. is_mgmt_read e) \<and>
     (\<forall>ms m. r = Inr ms \<longrightarrow> m \<in> set ms \<longrightarrow> (\<forall>f \<in> set fs. f m)))"
  unfolding GetFilteredMachinesForCluster_def list_as_def kcall_defs
  by (simp only: prog_simps, intro logs_call_bind logs_intros) (auto split: sum.splits simp: list_all_iff)

lemma in_domain_pos: "0 < in_domain fd ms \<longleftrightarrow> fd \<noteq> [] \<and> (\<exists>m \<in> set ms. mc_failureDomain m = fd)"
  by (auto simp: in_domain_def filter_empty_conv)

lemma countBy_mem:
  assumes "\<And>xs. set (order xs) = set xs"
  shows "set (countByFailureDomain order fds as ps) = (\<lambda>fd. (fd, in_domain fd ps, in_domain fd as)) ` fd_name ` set fds"
  using assms by (simp add: countByFailureDomain_def)

lemma countBy_Nil:
  assumes "\<And>xs. set (order xs) = set xs"
  shows "countByFailureDomain order fds as ps = [] \<longleftrightarrow> fds = []"
proof -
  have "order (remdups (List.map fd_name fds)) = [] \<longleftrightarrow> set (order (remdups (List.map fd_name fds))) = {}" by simp
  then show ?thesis using assms by (simp add: countByFailureDomain_def)
qed

lemma PickFewest_min:
  assumes ord: "\<And>xs. set (order xs) = set xs" and "fds \<noteq> []"
  shows "PickFewest order fds as ps \<in> fd_name ` set fds \<and>
    (\<forall>fd \<in> fd_name ` set fds. (in_domain (PickFewest order fds as ps) ps, in_domain (PickFewest order fds as ps) as)
       \<le> (in_domain fd ps, in_domain fd as))"
proof -
  let ?cs = "countByFailureDomain order fds as ps"
  have ne: "?cs \<noteq> []" using assms countBy_Nil [OF ord] by blast
  have "PickFewest order fds as ps = fst (hd (sort_key snd ?cs))"
    using ne by (auto simp: PickFewest_def split: list.splits dest: arg_cong [of _ _ length])
  then show ?thesis
    using hd_sort_key_min [OF ne, of snd] unfolding countBy_mem [OF ord] by auto
qed

lemma PickMost_max:
  assumes ord: "\<And>xs. set (order xs) = set xs" and ex: "fd0 \<in> fd_name ` set fds" "0 < in_domain fd0 ps"
  shows "PickMost order fds as ps \<in> fd_name ` set fds \<and> 0 < in_domain (PickMost order fds as ps) ps \<and>
    (\<forall>fd \<in> fd_name ` set fds. (in_domain fd ps, in_domain fd as) \<le>
       (in_domain (PickMost order fds as ps) ps, in_domain (PickMost order fds as ps) as))"
proof -
  let ?cs = "countByFailureDomain order fds as ps"
  have ne: "?cs \<noteq> []" using ex(1) countBy_Nil [OF ord] by auto
  then have "sort_key snd ?cs \<noteq> []" by (auto dest: arg_cong [of _ _ length])
  then obtain rest fd p a where s: "rev (sort_key snd ?cs) = (fd, p, a) # rest"
    by (metis prod_cases3 neq_Nil_conv rev_is_Nil_conv)
  have l: "last (sort_key snd ?cs) = (fd, p, a)" using s by (metis hd_rev list.sel(1) rev_rev_ident)
  have m: "fd \<in> fd_name ` set fds" "p = in_domain fd ps" "a = in_domain fd as"
    and mx: "\<forall>x \<in> fd_name ` set fds. (in_domain x ps, in_domain x as) \<le> (p, a)"
    using last_sort_key_max [OF ne, of snd] l unfolding countBy_mem [OF ord] by auto
  have "0 < p" using mx ex by fastforce
  then show ?thesis using s m mx by (simp add: PickMost_def)
qed

subsection \<open>Properties\<close>

text \<open>
  Scaling up: whatever the iteration order of Go maps, the failure domain chosen for a
  new machine is one of the domains that may host control planes, and no such domain has fewer
  up-to-date machines, nor as many up-to-date ones and fewer machines overall.
\<close>

theorem NextFailureDomainForScaleUp_fewest:
  fixes machines :: "machine list"
  assumes order: "\<And>xs. set (order xs) = set xs"
    and fds: "filterControlPlaneFailureDomains (FailureDomains cl) \<noteq> []"
  defines "fd \<equiv> NextFailureDomainForScaleUp order cl machines"
    and "utd \<equiv> filter (\<lambda>m. machine_is_true m ''UpToDate'') machines"
  shows "(\<exists>d \<in> set (FailureDomains cl). fd_name d = fd \<and> fd_controlPlane d = Some True) \<and>
    (\<forall>d \<in> set (FailureDomains cl). fd_controlPlane d = Some True \<longrightarrow>
       (in_domain fd utd, in_domain fd machines) \<le> (in_domain (fd_name d) utd, in_domain (fd_name d) machines))"
  using PickFewest_min [OF order fds, of machines utd] fds
  by (auto simp: fd_def NextFailureDomainForScaleUp_def Let_def utd_def filterControlPlaneFailureDomains_def)

text \<open>Three machines over two domains, the second of which has fewer.\<close>

definition demo_machine :: "string \<Rightarrow> string \<Rightarrow> int \<Rightarrow> machine" where
  "demo_machine name fd created = empty_machine\<lparr>mc_meta := empty_meta\<lparr>m_name := name, m_creationTimestamp := created\<rparr>,
     mc_failureDomain := fd\<rparr>"

definition demo_cluster :: cluster where
  "demo_cluster = empty_cluster\<lparr>cl_failureDomains := [\<lparr>fd_name = ''z1'', fd_controlPlane = Some True\<rparr>,
     \<lparr>fd_name = ''z2'', fd_controlPlane = Some True\<rparr>, \<lparr>fd_name = ''z3'', fd_controlPlane = None\<rparr>]\<rparr>"

definition demo_machines :: "machine list" where
  "demo_machines = [demo_machine ''m1'' ''z1'' 3, demo_machine ''m2'' ''z1'' 1, demo_machine ''m3'' ''z2'' 2]"

lemmas demo_machines_defs = demo_machines_def demo_machine_def demo_cluster_def empty_machine_def empty_meta_def empty_cluster_def

theorem NextFailureDomainForScaleUp_fewest_witness:
  "in_domain (NextFailureDomainForScaleUp id (Some demo_cluster) demo_machines) demo_machines \<le> in_domain ''z2'' demo_machines"
proof -
  have ne: "filterControlPlaneFailureDomains (FailureDomains (Some demo_cluster)) \<noteq> []"
    by (simp add: filterControlPlaneFailureDomains_def FailureDomains_def demo_machines_defs)
  have utd: "filter (\<lambda>m. machine_is_true m ''UpToDate'') demo_machines = []"
    by (simp add: demo_machines_defs machine_is_true_def is_true_in_def FindStatusCondition_def)
  from NextFailureDomainForScaleUp_fewest [of id "Some demo_cluster" demo_machines, OF _ ne]
  show ?thesis unfolding utd by (simp add: FailureDomains_def demo_machines_defs in_domain_def)
qed

text \<open>
  Claim C39. Scaling down: if every machine sits in a failure domain of the cluster that may host
  control planes, a machine is found; it is the oldest of its domain, marked for deletion or not, and no
  such domain has more machines marked for deletion (more machines, when none is marked). So the
  annotation steers the choice of the domain only: some machine of the chosen domain is marked when any
  is, but the machine deleted need not be, against the comment of \<open>selectMachineForScaleDown\<close>; the
  witness deletes an unmarked machine although the other one of its domain is marked.
\<close>

theorem scale_down_selects:
  assumes order: "\<And>xs. set (order xs) = set xs"
    and ne: "machines \<noteq> []"
    and placed: "\<forall>m \<in> set machines. \<exists>d \<in> set (FailureDomains cl). fd_controlPlane d = Some True \<and>
        fd_name d = mc_failureDomain m \<and> mc_failureDomain m \<noteq> []"
  defines "marked \<equiv> filter (HasAnnotationKey DeleteMachineAnnotation) machines"
  defines "eligible \<equiv> (if marked = [] then machines else marked)"
  shows "\<exists>m. selectMachineForScaleDown machines (NextFailureDomainForScaleDown order cl machines) = Inr m \<and> m \<in> set machines \<and>
    (\<forall>x \<in> set machines. mc_failureDomain x = mc_failureDomain m \<longrightarrow> creation_key m \<le> creation_key x) \<and>
    (\<forall>x \<in> set machines. in_domain (mc_failureDomain x) eligible \<le> in_domain (mc_failureDomain m) eligible) \<and>
    (if marked = [] then True else \<exists>x \<in> set marked. mc_failureDomain x = mc_failureDomain m)"
proof -
  let ?fds = "filterControlPlaneFailureDomains (FailureDomains cl)"
  let ?fd = "PickMost order ?fds machines eligible"
  have names: "mc_failureDomain m \<in> fd_name ` set ?fds \<and> mc_failureDomain m \<noteq> []" if "m \<in> set machines" for m
    using placed that by (force simp: filterControlPlaneFailureDomains_def)
  have sub: "set eligible \<subseteq> set machines" "eligible \<noteq> []"
    using ne by (auto simp: eligible_def marked_def)
  then obtain m0 where m0: "m0 \<in> set eligible" "m0 \<in> set machines" by (meson last_in_set subsetD)
  have pick: "?fd \<in> fd_name ` set ?fds" "0 < in_domain ?fd eligible"
    and mx: "\<forall>d \<in> fd_name ` set ?fds. (in_domain d eligible, in_domain d machines) \<le> (in_domain ?fd eligible, in_domain ?fd machines)"
    using PickMost_max [OF order, of "mc_failureDomain m0" ?fds eligible machines] names [OF m0(2)] m0(1)
    by (auto simp: in_domain_pos)
  have "?fds \<noteq> []" using pick(1) by auto
  then have fd: "NextFailureDomainForScaleDown order cl machines = ?fd"
    by (simp add: NextFailureDomainForScaleDown_def Let_def eligible_def marked_def)
  obtain m1 where m1: "m1 \<in> set machines" "mc_failureDomain m1 = ?fd"
    using pick(2) sub by (auto simp: in_domain_pos)
  have inz: "filter (InFailureDomain ?fd) machines \<noteq> []"
    using m1 by (auto simp: InFailureDomain_def filter_empty_conv)
  then obtain m where m: "Oldest (filter (InFailureDomain ?fd) machines) = Some m" by (simp add: Oldest_def)
  show ?thesis
  proof (intro exI conjI ballI impI)
    show "selectMachineForScaleDown machines (NextFailureDomainForScaleDown order cl machines) = Inr m"
      by (simp add: selectMachineForScaleDown_def fd m)
    show "m \<in> set machines" using Oldest_Some [OF m] by simp
    fix x assume x: "x \<in> set machines"
    have mfd: "mc_failureDomain m = ?fd" using Oldest_Some [OF m] by (simp add: InFailureDomain_def)
    show "in_domain (mc_failureDomain x) eligible \<le> in_domain (mc_failureDomain m) eligible"
      using mx names [OF x] mfd by fastforce
    assume "mc_failureDomain x = mc_failureDomain m"
    with x mfd Oldest_Some [OF m] show "creation_key m \<le> creation_key x" by (simp add: InFailureDomain_def)
  next
    have "mc_failureDomain m = ?fd" using Oldest_Some [OF m] by (simp add: InFailureDomain_def)
    then show "if marked = [] then True else \<exists>x \<in> set marked. mc_failureDomain x = mc_failureDomain m"
      using pick(2) by (auto simp: in_domain_pos eligible_def)
  qed
qed

definition marked_machines :: "machine list" where
  "marked_machines = [demo_machine ''old'' ''z1'' 1, (demo_machine ''new'' ''z1'' 2)\<lparr>mc_meta := empty_meta\<lparr>m_name := ''new'', m_creationTimestamp := 2,
     m_annotations := [DeleteMachineAnnotation \<mapsto> []]\<rparr>\<rparr>]"

theorem scale_down_selects_witness:
  "\<exists>m. selectMachineForScaleDown marked_machines (NextFailureDomainForScaleDown id (Some demo_cluster) marked_machines) = Inr m
     \<and> \<not> HasAnnotationKey DeleteMachineAnnotation m \<and> (\<exists>x \<in> set marked_machines. HasAnnotationKey DeleteMachineAnnotation x)"
proof -
  have "\<exists>m. selectMachineForScaleDown marked_machines (NextFailureDomainForScaleDown id (Some demo_cluster) marked_machines) = Inr m \<and>
      m \<in> set marked_machines \<and> (\<forall>x \<in> set marked_machines. mc_failureDomain x = mc_failureDomain m \<longrightarrow> creation_key m \<le> creation_key x)"
    using scale_down_selects [of id marked_machines "Some demo_cluster"]
    by (auto simp: FailureDomains_def marked_machines_def demo_machines_defs)
  then obtain m where m: "selectMachineForScaleDown marked_machines (NextFailureDomainForScaleDown id (Some demo_cluster) marked_machines) = Inr m"
    "m \<in> set marked_machines" "\<forall>x \<in> set marked_machines. mc_failureDomain x = mc_failureDomain m \<longrightarrow> creation_key m \<le> creation_key x" by blast
  then have "\<not> HasAnnotationKey DeleteMachineAnnotation m"
    by (auto simp: marked_machines_def HasAnnotationKey_def creation_key_def demo_machines_defs)
  moreover have "\<exists>x \<in> set marked_machines. HasAnnotationKey DeleteMachineAnnotation x"
    by (simp add: marked_machines_def HasAnnotationKey_def)
  ultimately show ?thesis using m(1) by blast
qed

text \<open>
  Scaling down gets stuck on unknown failure domains: when no control-plane failure
  domain of the cluster holds an eligible machine and every machine names a failure domain, no
  machine is ever selected, although there are machines to delete. The comment of
  \<open>selectMachineForScaleDown\<close> promises priority to machines with the delete annotation; that
  annotation plays no part in its choice.
\<close>

theorem scale_down_stuck:
  assumes order: "\<And>xs. set (order xs) = set xs"
    and placed: "\<forall>m \<in> set machines. mc_failureDomain m \<noteq> [] \<and>
       mc_failureDomain m \<notin> fd_name ` {d \<in> set (FailureDomains cl). fd_controlPlane d = Some True}"
  shows "selectMachineForScaleDown machines (NextFailureDomainForScaleDown order cl machines) =
    Inl (Errorf ''failed to pick control plane Machine to scale down'')"
proof -
  let ?fds = "filterControlPlaneFailureDomains (FailureDomains cl)"
  have zero: "in_domain fd ms = 0" if "fd \<in> fd_name ` set ?fds" "set ms \<subseteq> set machines" for fd ms
    using that placed by (auto simp: in_domain_def filter_empty_conv filterControlPlaneFailureDomains_def)
  have "PickMost order ?fds machines ps = []" if ps: "set ps \<subseteq> set machines" for ps
  proof (cases "rev (sort_key snd (countByFailureDomain order ?fds machines ps))")
    case (Cons x rest)
    obtain fd p a where x: "x = (fd, p, a)" by (cases x) auto
    have "x \<in> set (rev (sort_key snd (countByFailureDomain order ?fds machines ps)))" by (simp only: Cons) simp
    then have "x \<in> set (countByFailureDomain order ?fds machines ps)" by simp
    then have "fd \<in> fd_name ` set ?fds \<and> p = in_domain fd ps" unfolding countBy_mem [OF order] x by auto
    then show ?thesis using zero [of fd ps] ps by (simp add: PickMost_def Cons x)
  qed (simp add: PickMost_def)
  then have "NextFailureDomainForScaleDown order cl machines = []"
    by (simp add: NextFailureDomainForScaleDown_def Let_def)
  moreover have "filter (InFailureDomain []) machines = []"
    using placed by (auto simp: InFailureDomain_def filter_empty_conv)
  ultimately show ?thesis by (simp add: selectMachineForScaleDown_def Oldest_def)
qed

theorem scale_down_stuck_witness:
  "selectMachineForScaleDown demo_machines (NextFailureDomainForScaleDown id (Some empty_cluster) demo_machines) =
    Inl (Errorf ''failed to pick control plane Machine to scale down'')"
  by (rule scale_down_stuck) (simp_all add: FailureDomains_def demo_machines_defs)

end
