(* ===== verification/UpgradePolicy.thy ===== *)
theory UpgradePolicy
  imports Upgrade Machines
begin

text \<open>
  How the control plane controller drives upgrades of the workload cluster
  (\<open>upgradeWorkloadCluster\<close> and its helpers in \<open>openshiftassistedcontrolplane_controller.go\<close>).

  The controller mutates the control plane object it was given; here the updated object is part
  of the result. The deferred function that sets the UpgradeCompleted condition runs at every
  return: \<open>finish\<close> is a return with that function, \<open>finish_handled\<close> one where the condition was
  set explicitly.
\<close>

definition KubeconfigAvailableCondition :: string where "KubeconfigAvailableCondition = ''KubeconfigAvailable''"
definition UpgradeCompletedCondition :: string where "UpgradeCompletedCondition = ''UpgradeCompleted''"

definition specVersion :: "oacp \<Rightarrow> string" where "specVersion ob = sp_distributionVersion (oacp_spec ob)"
definition statusVersion :: "oacp \<Rightarrow> string" where "statusVersion ob = st_distributionVersion (oacp_status ob)"

definition isWorkloadClusterRunningDesiredVersion :: "oacp \<Rightarrow> bool" where
  "isWorkloadClusterRunningDesiredVersion ob =
    (case (ParseTolerant (specVersion ob), ParseTolerant (statusVersion ob)) of
       (Some specV, Some statusV) \<Rightarrow> v_eq specV statusV
     | _ \<Rightarrow> specVersion ob = statusVersion ob)"

definition setUpgradeStatus :: "bool \<Rightarrow> string \<Rightarrow> oacp \<Rightarrow> oacp" where
  "setUpgradeStatus upgradeInProgress conditionMessage ob =
    (if upgradeInProgress
     then setConditionFalse UpgradeCompletedCondition ''UpgradeInProgress''
       (''upgrade to version '' @ specVersion ob @ '' in progress'' @ [CHR 0x0A] @ conditionMessage) ob
     else setConditionFalse UpgradeCompletedCondition ''UpgradeFailed''
       (''upgrade to version '' @ specVersion ob @ '' has failed'' @ [CHR 0x0A] @ conditionMessage) ob)"

definition getUpgradeOptions :: "oacp \<Rightarrow> bytes \<Rightarrow> (string \<times> string) list" where
  "getUpgradeOptions ob pullSecret = (ReleaseImagePullSecretOption, pullSecret) #
    (case m_annotations (oacp_meta ob) ReleaseImageRepositoryOverrideAnnotation of
       Some repo \<Rightarrow> [(ReleaseImageRepositoryOverrideOption, repo)] | None \<Rightarrow> [])"

definition upgrade_epilogue :: "bool \<Rightarrow> string \<Rightarrow> oacp \<Rightarrow> oacp" where
  "upgrade_epilogue inProgress msg ob =
    (if inProgress \<or> \<not> isWorkloadClusterRunningDesiredVersion ob then setUpgradeStatus inProgress msg ob
     else if oacp_is_false ob UpgradeCompletedCondition then setConditionTrue UpgradeCompletedCondition ob
     else ob)"

definition finish :: "oacp \<Rightarrow> bool \<Rightarrow> string \<Rightarrow> ctrl_result \<Rightarrow> goerr option \<Rightarrow> ('s, oacp \<times> ctrl_result \<times> goerr option) prog" where
  "finish ob inProgress msg res err = ret (upgrade_epilogue inProgress msg ob, res, err)"

definition finish_handled :: "oacp \<Rightarrow> ctrl_result \<Rightarrow> goerr option \<Rightarrow> ('s, oacp \<times> ctrl_result \<times> goerr option) prog" where
  "finish_handled ob res err = ret (ob, res, err)"

definition spec_newer :: "oacp \<Rightarrow> bool" where
  "spec_newer ob = (case (ParseTolerant (specVersion ob), ParseTolerant (statusVersion ob)) of
     (Some specV, Some statusV) \<Rightarrow> v_gt specV statusV | _ \<Rightarrow> False)"

definition status_newer :: "oacp \<Rightarrow> bool" where
  "status_newer ob = (case (ParseTolerant (specVersion ob), ParseTolerant (statusVersion ob)) of
     (Some specV, Some statusV) \<Rightarrow> v_gt statusV specV | _ \<Rightarrow> False)"

definition both_parse :: "oacp \<Rightarrow> bool" where
  "both_parse ob \<longleftrightarrow> ParseTolerant (specVersion ob) \<noteq> None \<and> ParseTolerant (statusVersion ob) \<noteq> None"

text \<open>The decision once the running version is in the status.\<close>

definition upgrade_decide ::
  "'s clusterUpgrade \<Rightarrow> oacp \<Rightarrow> bool \<Rightarrow> string \<Rightarrow> string \<Rightarrow> bytes \<Rightarrow> ('s, oacp \<times> ctrl_result \<times> goerr option) prog" where
  "upgrade_decide U ob inProgress msg architecture pullSecret =
    (if status_newer ob then
       finish_handled (setConditionFalse UpgradeCompletedCondition ''VersionDriftDetected''
         (''tenant cluster version '' @ statusVersion ob @ '' is ahead of spec.distributionVersion '' @ specVersion ob @
          ''; update spec to acknowledge'') ob) result_zero None
     else do {
       d \<leftarrow> cu_IsDesiredVersionUpdated U (specVersion ob);
       case d of
         Inl e \<Rightarrow> finish ob inProgress msg result_zero (Some e)
       | Inr isDesiredVersionUpdated \<Rightarrow>
         if inProgress \<and> \<not> isDesiredVersionUpdated \<and> \<not> spec_newer ob \<and>
            (sp_upgradePolicy (oacp_spec ob) = PolicyUnset \<or> sp_upgradePolicy (oacp_spec ob) = Managed)
         then do {
           c \<leftarrow> cu_ClearDesiredUpdate U;
           case c of
             Some _ \<Rightarrow> finish ob inProgress msg (requeue_now_after 30) None
           | None \<Rightarrow> finish_handled (setConditionFalse UpgradeCompletedCondition ''ExternalUpgradeBlocked''
               ''an external upgrade attempt was reverted; upgrades must be driven via spec.distributionVersion'' ob)
               (requeue_now_after 30) None }
         else if inProgress then finish ob inProgress msg (requeue_after 60) None
         else if isWorkloadClusterRunningDesiredVersion ob then finish ob inProgress msg result_zero None
         else if both_parse ob \<and> \<not> spec_newer ob then finish ob inProgress msg result_zero None
         else do {
           err \<leftarrow> cu_UpdateClusterVersionDesiredUpdate U (specVersion ob) architecture (getUpgradeOptions ob pullSecret);
           finish ob inProgress msg (requeue_after 60) err } })"

definition set_status_version :: "string \<Rightarrow> oacp \<Rightarrow> oacp" where
  "set_status_version v ob = ob\<lparr>oacp_status := (oacp_status ob)\<lparr>st_distributionVersion := v\<rparr>\<rparr>"

definition upgradeWorkloadCluster ::
  "'s env \<Rightarrow> 's upgradeFactory \<Rightarrow> cluster \<Rightarrow> oacp \<Rightarrow> string \<Rightarrow> bytes \<Rightarrow> ('s, oacp \<times> ctrl_result \<times> goerr option) prog" where
  "upgradeWorkloadCluster E UF cl ob architecture pullSecret = do {
     k \<leftarrow> GetWorkloadKubeconfig E (m_name (cl_meta cl)) (m_namespace (cl_meta cl));
     case k of
       Inl e \<Rightarrow> finish ob False [] result_zero (Some e)
     | Inr kubeConfig \<Rightarrow> (case UF kubeConfig of
         Inl e \<Rightarrow> finish ob False [] result_zero (Some e)
       | Inr U \<Rightarrow> do {
           p \<leftarrow> cu_IsUpgradeInProgress U;
           case p of
             Inl e \<Rightarrow> finish ob False [] result_zero (Some e)
           | Inr inProgress \<Rightarrow> do {
             m \<leftarrow> cu_GetUpgradeStatus U;
             case m of
               Inl e \<Rightarrow> finish ob inProgress [] result_zero (Some e)
             | Inr msg \<Rightarrow> do {
               v \<leftarrow> cu_GetCurrentVersion U;
               case v of
                 Inl _ \<Rightarrow> finish ob inProgress msg (requeue_after 30) None
               | Inr currentVersion \<Rightarrow>
                 upgrade_decide U (set_status_version currentVersion ob) inProgress msg architecture pullSecret } } }) }"

subsection \<open>The Kubernetes version and the architecture\<close>

definition markKubernetesVersionCondition :: "goerr option \<Rightarrow> oacp \<Rightarrow> oacp" where
  "markKubernetesVersionCondition err ob = (case err of
     Some e \<Rightarrow> setConditionFalse ''KubernetesVersionAvailable'' ''KubernetesVersionUnavailable''
       ''failed to get k8s version from release image'' ob
   | None \<Rightarrow> setConditionTrue ''KubernetesVersionAvailable'' ob)"

definition getArchitecture :: "string list \<Rightarrow> string \<Rightarrow> string" where
  "getArchitecture architectures defaultArchitecture = (case architectures of
     [] \<Rightarrow> defaultArchitecture
   | [a] \<Rightarrow> a
   | firstArch # _ \<Rightarrow>
       if list_ex (\<lambda>a. a \<noteq> firstArch) architectures then defaultArchitecture
       else if firstArch = [] then defaultArchitecture else firstArch)"

definition getArchitectureFromBootstrapConfigs :: "'s env \<Rightarrow> oacp \<Rightarrow> ('s, string res) prog" where
  "getArchitectureFromBootstrapConfigs E ob = (case m_labels (oacp_meta ob) ClusterNameLabel of
     None \<Rightarrow> ret (Inr ''multi'')
   | Some clusterName \<Rightarrow> do {
       r \<leftarrow> list_as E as_oac Mgmt KOAC \<lparr>lo_namespace = m_namespace (oacp_meta ob), lo_labels = [(ClusterNameLabel, clusterName)]\<rparr>;
       ret (case r of
         Inl e \<Rightarrow> Inl e
       | Inr configs \<Rightarrow> Inr (getArchitecture (List.map (\<lambda>c. oac_cpuArchitecture (oac_spec c)) configs) ''multi'')) })"

definition getReleaseImage :: "oacp \<Rightarrow> string \<Rightarrow> string" where
  "getReleaseImage ob architecture =
     GetReleaseImage (specVersion ob)
       (case m_annotations (oacp_meta ob) ReleaseImageRepositoryOverrideAnnotation of None \<Rightarrow> [] | Some repo \<Rightarrow> repo) architecture"

subsection \<open>What the decision writes\<close>

lemma epilogue_other [simp]:
  "oacp_spec (upgrade_epilogue p m ob) = oacp_spec ob" "oacp_meta (upgrade_epilogue p m ob) = oacp_meta ob"
  "statusVersion (upgrade_epilogue p m ob) = statusVersion ob"
  by (simp_all add: upgrade_epilogue_def setUpgradeStatus_def statusVersion_def)

definition override_of :: "oacp \<Rightarrow> string" where
  "override_of ob = (case m_annotations (oacp_meta ob) ReleaseImageRepositoryOverrideAnnotation of None \<Rightarrow> [] | Some r \<Rightarrow> r)"

lemma getOption_override [simp]: "getOption ReleaseImageRepositoryOverrideOption (getUpgradeOptions ob ps) = override_of ob"
  by (simp add: getUpgradeOptions_def override_of_def ReleaseImageRepositoryOverrideOption_def ReleaseImagePullSecretOption_def
      split: option.splits)

text \<open>When a desired update may be pushed, and when one may be cleared.\<close>

definition push_allowed :: "oacp \<Rightarrow> bool \<Rightarrow> bool" where
  "push_allowed ob inProgress \<longleftrightarrow> \<not> inProgress \<and> \<not> isWorkloadClusterRunningDesiredVersion ob \<and> (both_parse ob \<longrightarrow> spec_newer ob)"

definition clear_allowed :: "oacp \<Rightarrow> bool \<Rightarrow> event list \<Rightarrow> bool" where
  "clear_allowed ob inProgress evs \<longleftrightarrow> inProgress \<and> \<not> spec_newer ob \<and> \<not> status_newer ob \<and>
     sp_upgradePolicy (oacp_spec ob) \<noteq> Unrestricted \<and> saw_cv (\<lambda>cv. \<not> has_prefix (specVersion ob) (cv_desiredVersion cv)) evs"

lemma only_writes_mono: "only_writes P evs \<Longrightarrow> (\<And>e. P e \<Longrightarrow> Q e) \<Longrightarrow> only_writes Q evs"
  by (auto simp: only_writes_def)

lemma versions_setCondition [simp]:
  "statusVersion (setConditionFalse t r m ob) = statusVersion ob" "statusVersion (setConditionTrue t ob) = statusVersion ob"
  "specVersion (setConditionFalse t r m ob) = specVersion ob" "specVersion (setConditionTrue t ob) = specVersion ob"
  by (simp_all add: statusVersion_def specVersion_def)

lemma reason_setConditionFalse [simp]:
  "FindStatusCondition (oacp_conditions (setConditionFalse t r m ob)) t =
     Some ((mk_condition t CFalse r m)\<lparr>c_observedGeneration := m_generation (oacp_meta ob)\<rparr>)"
  by (simp add: setConditionFalse_def oacp_cond.find_after_set)

lemma status_newer_facts: "status_newer ob \<Longrightarrow> \<not> spec_newer ob \<and> both_parse ob"
  by (auto simp: status_newer_def spec_newer_def both_parse_def split: option.splits dest: v_gt_asym)

context cluster_upgrade
begin

lemma upgrade_decide_logs:
  "logs (upgrade_decide U ob p msg arch ps) (\<lambda>r evs.
     only_writes (\<lambda>e. is_push (specVersion ob) (override_of ob) arch e \<and> push_allowed ob p
        \<or> is_clear e \<and> clear_allowed ob p evs) evs \<and>
     oacp_spec (fst r) = oacp_spec ob \<and> statusVersion (fst r) = statusVersion ob \<and>
     (status_newer ob \<longrightarrow> evs = [] \<and> snd r = (result_zero, None) \<and>
        map_option c_reason (FindStatusCondition (oacp_conditions (fst r)) UpgradeCompletedCondition) = Some ''VersionDriftDetected''))"
  unfolding upgrade_decide_def finish_def finish_handled_def
  apply (intro logs_intros logs_bind [OF desired] logs_bind [OF clear] logs_bind [OF update])
         apply (auto simp: no_writes_only push_allowed_def clear_allowed_def elim!: only_writes_mono)
  done

end

lemma upgrader_client:
  "NewUpgrader E (workload_generator E) (NewRemoteImageRepository E) kc = Inr U \<Longrightarrow>
    U = NewOpenshiftUpgrader E (NewRemoteImageRepository E) (Workload kc)"
  by (auto simp: NewUpgrader_def workload_generator_def GetWorkloadClusterClient_def Let_def split: sum.splits option.splits)

lemma GetWorkloadKubeconfig_reads: "logs (GetWorkloadKubeconfig E cn ns) (\<lambda>r evs. no_writes evs)"
  unfolding no_writes_def by (intro emits_logs emits_intros) simp

text \<open>What justifies the writes of a run, in terms of what the run read.\<close>

definition upgrade_writes_ok :: "oacp \<Rightarrow> string \<Rightarrow> event list \<Rightarrow> bool" where
  "upgrade_writes_ok ob arch evs \<longleftrightarrow> only_writes (\<lambda>e. \<exists>v. saw_cv (\<lambda>cv. completed_version (cv_history cv) = Inr v) evs \<and>
     (is_push (specVersion ob) (override_of ob) arch e \<and> push_allowed (set_status_version v ob) False \<and>
        saw_cv (\<lambda>cv. \<not> isUpdateInProgress cv) evs \<or>
      is_clear e \<and> clear_allowed (set_status_version v ob) True evs \<and> saw_cv isUpdateInProgress evs)) evs"

lemma set_status_version_simps [simp]:
  "specVersion (set_status_version v ob) = specVersion ob" "override_of (set_status_version v ob) = override_of ob"
  "oacp_spec (set_status_version v ob) = oacp_spec ob" "statusVersion (set_status_version v ob) = v"
  by (simp_all add: set_status_version_def specVersion_def override_of_def statusVersion_def)

lemma no_writes_upgrade_ok: "no_writes evs \<Longrightarrow> upgrade_writes_ok ob arch evs"
  unfolding upgrade_writes_ok_def by (rule no_writes_only)

lemma clear_allowed_append: "clear_allowed ob p bs \<Longrightarrow> clear_allowed ob p (as @ bs)"
  by (auto simp: clear_allowed_def)

lemma upgrade_writes_okI:
  assumes pre: "no_writes pre" "saw_cv (\<lambda>cv. isUpdateInProgress cv = p) pre"
      "saw_cv (\<lambda>cv. completed_version (cv_history cv) = Inr v) pre"
    and ow: "only_writes (\<lambda>e. is_push (specVersion (set_status_version v ob)) (override_of (set_status_version v ob)) arch e \<and>
        push_allowed (set_status_version v ob) p \<or> is_clear e \<and> clear_allowed (set_status_version v ob) p evs) evs"
  shows "upgrade_writes_ok ob arch (pre @ evs)"
proof -
  have p: "push_allowed (set_status_version v ob) p \<Longrightarrow> \<not> p" "clear_allowed (set_status_version v ob) p evs \<Longrightarrow> p"
    by (simp_all add: push_allowed_def clear_allowed_def)
  have "only_writes (\<lambda>e. \<exists>v. saw_cv (\<lambda>cv. completed_version (cv_history cv) = Inr v) (pre @ evs) \<and>
     (is_push (specVersion ob) (override_of ob) arch e \<and> push_allowed (set_status_version v ob) False \<and>
        saw_cv (\<lambda>cv. \<not> isUpdateInProgress cv) (pre @ evs) \<or>
      is_clear e \<and> clear_allowed (set_status_version v ob) True (pre @ evs) \<and> saw_cv isUpdateInProgress (pre @ evs))) evs"
    by (rule only_writes_mono [OF ow], rule exI [of _ v])
      (use pre p clear_allowed_append [of "set_status_version v ob" p evs pre] in auto)
  then show ?thesis using pre(1) by (simp add: upgrade_writes_ok_def no_writes_only)
qed

lemma status_newer_cong:
  "oacp_spec a = oacp_spec b \<Longrightarrow> statusVersion a = statusVersion b \<Longrightarrow> status_newer a = status_newer b"
  by (simp add: status_newer_def specVersion_def)

context cluster_upgrade
begin

lemma observe_and_decide_logs:
  assumes quiet: "no_writes evs"
  shows "logs (do {
     p \<leftarrow> cu_IsUpgradeInProgress U;
     case p of
       Inl e \<Rightarrow> finish ob False [] result_zero (Some e)
     | Inr inProgress \<Rightarrow> do {
       m \<leftarrow> cu_GetUpgradeStatus U;
       case m of
         Inl e \<Rightarrow> finish ob inProgress [] result_zero (Some e)
       | Inr msg \<Rightarrow> do {
         v \<leftarrow> cu_GetCurrentVersion U;
         case v of
           Inl _ \<Rightarrow> finish ob inProgress msg (requeue_after 30) None
         | Inr currentVersion \<Rightarrow> upgrade_decide U (set_status_version currentVersion ob) inProgress msg arch ps } } })
    (\<lambda>r evs'. upgrade_writes_ok ob arch (evs @ evs') \<and> oacp_spec (fst r) = oacp_spec ob \<and>
       (status_newer (fst r) \<longrightarrow> no_writes (evs @ evs')))"
  unfolding finish_def
proof (intro logs_intros logs_bind [OF in_progress] logs_bind [OF status] logs_bind [OF current] logs_mono [OF upgrade_decide_logs])
  fix pr evs1 p m evs2 msg vr evs3 v r evs4
  assume 1: "no_writes evs1 \<and> (\<forall>b. pr = Inr b \<longrightarrow> saw_cv (\<lambda>cv. isUpdateInProgress cv = b) evs1)" "pr = Inr p"
    "no_writes evs2" "m = Inr msg"
    "no_writes evs3 \<and> (\<forall>v. vr = Inr v \<longrightarrow> saw_cv (\<lambda>cv. completed_version (cv_history cv) = Inr v) evs3)" "vr = Inr v"
  let ?ob = "set_status_version v ob"
  assume 2: "only_writes (\<lambda>e. is_push (specVersion ?ob) (override_of ?ob) arch e \<and> push_allowed ?ob p \<or>
       is_clear e \<and> clear_allowed ?ob p evs4) evs4 \<and> oacp_spec (fst r) = oacp_spec ?ob \<and> statusVersion (fst r) = statusVersion ?ob \<and>
     (status_newer ?ob \<longrightarrow> evs4 = [] \<and> snd r = (result_zero, None) \<and>
        map_option c_reason (FindStatusCondition (oacp_conditions (fst r)) UpgradeCompletedCondition) = Some ''VersionDriftDetected'')"
  have "upgrade_writes_ok ob arch ((evs @ evs1 @ evs2 @ evs3) @ evs4)"
    using 1 2 quiet by (intro upgrade_writes_okI [of _ p v]) auto
  moreover have "status_newer (fst r) \<Longrightarrow> evs4 = []" using 2 status_newer_cong [of "fst r" ?ob] by simp
  ultimately show "upgrade_writes_ok ob arch (evs @ evs1 @ evs2 @ evs3 @ evs4) \<and> oacp_spec (fst r) = oacp_spec ob \<and>
       (status_newer (fst r) \<longrightarrow> no_writes (evs @ evs1 @ evs2 @ evs3 @ evs4))"
    using 1 2 quiet by auto
qed (use quiet in \<open>auto intro!: no_writes_upgrade_ok\<close>)

end

lemma upgradeWorkloadCluster_logs:
  "logs (upgradeWorkloadCluster E (NewUpgrader E (workload_generator E) (NewRemoteImageRepository E)) cl ob arch ps)
    (\<lambda>r evs. upgrade_writes_ok ob arch evs \<and> oacp_spec (fst r) = oacp_spec ob \<and> (status_newer (fst r) \<longrightarrow> no_writes evs))"
  unfolding upgradeWorkloadCluster_def
  apply (intro logs_intros logs_bind [OF GetWorkloadKubeconfig_reads])
    apply (auto simp: finish_def intro!: logs_return no_writes_upgrade_ok) [2]
  apply (drule upgrader_client)
  apply (simp only:)
  apply (rule osu.observe_and_decide_logs, assumption)
  done

subsection \<open>Properties\<close>

text \<open>
  Claim C22. Upgrades are controller-driven, with the real upgrader and whatever the API server
  answers. Every write of \<open>upgradeWorkloadCluster\<close> goes to the workload's ClusterVersion and is one
  of two: a request for the version of the spec, made only after a read that showed no update in
  progress and a read of the running version, when the cluster does not run the wanted version
  and, if both versions parse, the wanted one is strictly newer; or the removal of a desired
  update, made only under a policy other than Unrestricted, after reads that showed an update in
  progress towards a version not asked for, when the spec is not newer than the running version.
  The spec itself is never changed.
\<close>

theorem upgradeWorkloadCluster_writes:
  assumes "run_state (upgradeWorkloadCluster E (NewUpgrader E (workload_generator E) (NewRemoteImageRepository E)) cl ob arch ps) (start s)
     = ((ob', res, err), w)"
  shows "oacp_spec ob' = oacp_spec ob \<and> (\<forall>e \<in> set (w_trace w). is_write e \<longrightarrow>
    (\<exists>v. saw_cv (\<lambda>cv. completed_version (cv_history cv) = Inr v) (w_trace w) \<and>
      (let ob1 = set_status_version v ob in
        is_push (specVersion ob) (override_of ob) arch e \<and> \<not> isWorkloadClusterRunningDesiredVersion ob1 \<and>
          (both_parse ob1 \<longrightarrow> spec_newer ob1) \<and> saw_cv (\<lambda>cv. \<not> isUpdateInProgress cv) (w_trace w)
        \<or> is_clear e \<and> sp_upgradePolicy (oacp_spec ob) \<noteq> Unrestricted \<and> \<not> spec_newer ob1 \<and> \<not> status_newer ob1 \<and>
          saw_cv isUpdateInProgress (w_trace w) \<and>
          saw_cv (\<lambda>cv. \<not> has_prefix (specVersion ob) (cv_desiredVersion cv)) (w_trace w))))"
  using logs_start [OF upgradeWorkloadCluster_logs assms]
  by (simp add: upgrade_writes_ok_def only_writes_def push_allowed_def clear_allowed_def Let_def) blast

text \<open>A workload cluster that runs 4.17.0, at rest, and a control plane that wants another version.\<close>

definition demo_cv :: cluster_version where
  "demo_cv = \<lparr>cv_meta = empty_meta, cv_desiredUpdate = None, cv_desiredVersion = ''4.17.0'',
     cv_history = [\<lparr>cvh_state = CompletedUpdate, cvh_version = ''4.17.0'', cvh_completed = True\<rparr>], cv_conditions = []\<rparr>"

definition demo_upgrade :: "unit env" where
  "demo_upgrade = nowhere\<lparr>
     k_get := (\<lambda>c k ns n s. (case k of
         KSecret \<Rightarrow> Inr (OSecret \<lparr>se_meta = empty_meta, se_type = [], se_data = [''value'' \<mapsto> ''kc'']\<rparr>)
       | KClusterVersion \<Rightarrow> Inr (OClusterVersion demo_cv)
       | _ \<Rightarrow> Inl (ApiStatus NotFound), s)),
     k_update := (\<lambda>c ob s. (Inr ob, s))\<rparr>"

definition demo_oacp :: "string \<Rightarrow> oacp" where
  "demo_oacp v = empty_oacp\<lparr>oacp_spec := (oacp_spec empty_oacp)\<lparr>sp_distributionVersion := v\<rparr>\<rparr>"

lemmas demo_upgrade_run = upgradeWorkloadCluster_def upgrade_decide_def finish_def finish_handled_def
  GetWorkloadKubeconfig_def GetClusterKubeconfigSecret_def ExtractKubeconfigFromSecret_def NewUpgrader_def workload_generator_def
  GetWorkloadClusterClient_def NewOpenshiftUpgrader_def IsUpgradeInProgress_def isUpdateInProgress_def GetCurrentVersion_def
  GetUpgradeStatus_def IsDesiredVersionUpdated_def UpdateClusterVersionDesiredUpdate_def getClusterVersion_def update_cv_def
  get_as_def kcall_defs call_def start_def demo_upgrade_def demo_cv_def demo_oacp_def nowhere_def
  isGARelease_def IsGA_def override_of_def empty_oacp_def empty_meta_def empty_cluster_def
  specVersion_def statusVersion_def set_status_version_def status_newer_def spec_newer_def both_parse_def
  isWorkloadClusterRunningDesiredVersion_def

theorem upgradeWorkloadCluster_writes_witness:
  "\<exists>e \<in> set (w_trace (snd (run_state (upgradeWorkloadCluster demo_upgrade
      (NewUpgrader demo_upgrade (workload_generator demo_upgrade) (NewRemoteImageRepository demo_upgrade))
      empty_cluster (demo_oacp ''4.18.1'') ''multi'' []) (start ())))). is_push ''4.18.1'' [] ''multi'' e"
proof -
  let ?m = "upgradeWorkloadCluster demo_upgrade
      (NewUpgrader demo_upgrade (workload_generator demo_upgrade) (NewRemoteImageRepository demo_upgrade))
      empty_cluster (demo_oacp ''4.18.1'') ''multi'' []"
  let ?cv = "demo_cv\<lparr>cv_desiredUpdate := Some \<lparr>cvu_version = ''4.18.1'', cvu_image = [], cvu_force = False\<rparr>\<rparr>"
  obtain ob' res err w where run: "run_state ?m (start ()) = ((ob', res, err), w)" by (metis prod_cases3 surj_pair)
  have "EvUpdate (Workload ''kc'') (OClusterVersion ?cv) (Inr (OClusterVersion ?cv)) \<in> set (w_trace (snd (run_state ?m (start ()))))"
    by (simp add: demo_upgrade_run Let_def plain_version_def [symmetric]) (simp add: demo_upgrade_run plain_version_def)
  then have mem: "EvUpdate (Workload ''kc'') (OClusterVersion ?cv) (Inr (OClusterVersion ?cv)) \<in> set (w_trace w)" using run by simp
  have "is_write (EvUpdate (Workload ''kc'') (OClusterVersion ?cv) (Inr (OClusterVersion ?cv)))"
    "\<not> is_clear (EvUpdate (Workload ''kc'') (OClusterVersion ?cv) (Inr (OClusterVersion ?cv)))" by simp_all
  with upgradeWorkloadCluster_writes [OF run] mem
  have "is_push (specVersion (demo_oacp ''4.18.1'')) (override_of (demo_oacp ''4.18.1'')) ''multi''
    (EvUpdate (Workload ''kc'') (OClusterVersion ?cv) (Inr (OClusterVersion ?cv)))" unfolding Let_def by blast
  then have "is_push ''4.18.1'' [] ''multi'' (EvUpdate (Workload ''kc'') (OClusterVersion ?cv) (Inr (OClusterVersion ?cv)))"
    by (simp add: specVersion_def override_of_def demo_oacp_def empty_oacp_def empty_meta_def)
  with mem run show ?thesis by fastforce
qed

text \<open>
  Drift is only reported: when the status the run leaves shows a version newer than the
  spec's, nothing was written to any cluster.
\<close>

theorem version_drift_no_writes:
  assumes "run_state (upgradeWorkloadCluster E (NewUpgrader E (workload_generator E) (NewRemoteImageRepository E)) cl ob arch ps) (start s)
     = ((ob', res, err), w)"
    and "status_newer ob'"
  shows "\<forall>e \<in> set (w_trace w). \<not> is_write e"
  using logs_start [OF upgradeWorkloadCluster_logs assms(1)] assms(2) by (simp add: no_writes_def)

theorem version_drift_no_writes_witness:
  "filter is_write (w_trace (snd (run_state (upgradeWorkloadCluster demo_upgrade
      (NewUpgrader demo_upgrade (workload_generator demo_upgrade) (NewRemoteImageRepository demo_upgrade))
      empty_cluster (demo_oacp ''4.13.9'') ''multi'' []) (start ())))) = []"
proof -
  let ?m = "upgradeWorkloadCluster demo_upgrade
      (NewUpgrader demo_upgrade (workload_generator demo_upgrade) (NewRemoteImageRepository demo_upgrade))
      empty_cluster (demo_oacp ''4.13.9'') ''multi'' []"
  obtain ob' res err w where run: "run_state ?m (start ()) = ((ob', res, err), w)" by (metis prod_cases3 surj_pair)
  have "specVersion (fst (fst (run_state ?m (start ())))) = ''4.13.9''" "statusVersion (fst (fst (run_state ?m (start ())))) = ''4.17.0''"
    by (simp_all add: demo_upgrade_run Let_def setConditionFalse_def)
  then have "status_newer ob'" using run by (simp add: status_newer_def)
  from version_drift_no_writes [OF run this] run show ?thesis by (simp add: filter_empty_conv)
qed

end
