(* ===== verification/EtcdLifecycle.thy ===== *)
theory EtcdLifecycle
  imports UpgradePolicy
begin

text \<open>
  The part of the control plane controller that keeps etcd membership in step with the machines
  (\<open>ensurePreTerminateHooks\<close>, \<open>reconcilePreTerminateHook\<close>, \<open>reconcileEtcdMembers\<close>,
  \<open>reconcileMachineLifecycle\<close>, \<open>clearPreTerminateHooks\<close>). A control plane machine carries a
  pre-terminate hook, an annotation that holds up its deletion until the controller has moved
  etcd leadership away from its node and removed its etcd member.
\<close>

definition preTerminateHookAnnotation :: string where
  "preTerminateHookAnnotation = ''pre-terminate.delete.hook.machine.cluster.x-k8s.io/oacp-etcd-cleanup''"

definition with_hook :: "machine \<Rightarrow> machine" where
  "with_hook m = m\<lparr>mc_meta := (mc_meta m)\<lparr>m_annotations := (m_annotations (mc_meta m))(preTerminateHookAnnotation \<mapsto> [])\<rparr>\<rparr>"

definition without_hook :: "machine \<Rightarrow> machine" where
  "without_hook m = m\<lparr>mc_meta := (mc_meta m)\<lparr>m_annotations := (m_annotations (mc_meta m))(preTerminateHookAnnotation := None)\<rparr>\<rparr>"

abbreviation HasHook :: "machine \<Rightarrow> bool" where
  "HasHook \<equiv> HasAnnotationKey preTerminateHookAnnotation"

text \<open>\<open>patch.NewHelper\<close> on the object before the change, then \<open>Patch\<close> with the object after it.\<close>

definition patch_with_helper :: "'s env \<Rightarrow> kobj \<Rightarrow> kobj \<Rightarrow> ('s, goerr option) prog" where
  "patch_with_helper E old new = (case k_new_helper E old of
     Some e \<Rightarrow> ret (Some e) | None \<Rightarrow> khelper_patch E old new False)"

definition ensurePreTerminateHooks :: "'s env \<Rightarrow> oacp \<Rightarrow> cluster \<Rightarrow> ('s, goerr option) prog" where
  "ensurePreTerminateHooks E ob cl = do {
     r \<leftarrow> GetFilteredMachinesForCluster E cl [OwnedMachines ob, ActiveMachines];
     case r of
       Inl e \<Rightarrow> ret (Some e)
     | Inr machines \<Rightarrow> do {
         errs \<leftarrow> for_each (\<lambda>m. if HasHook m then ret None
                              else patch_with_helper E (OMachine m) (OMachine (with_hook m))) machines;
         ret (new_aggregate (the_errors errs)) } }"

definition clearPreTerminateHooks :: "'s env \<Rightarrow> oacp \<Rightarrow> ('s, goerr option) prog" where
  "clearPreTerminateHooks E ob = do {
     r \<leftarrow> list_as E as_machine Mgmt KMachine \<lparr>lo_namespace = m_namespace (oacp_meta ob), lo_labels = []\<rparr>;
     case r of
       Inl e \<Rightarrow> ret (Some (Wrapf ''failed to list machines'' e))
     | Inr machines \<Rightarrow> do {
         errs \<leftarrow> for_each (\<lambda>m. if \<not> IsControlledBy (mc_meta m) (oacp_meta ob) then ret None
                              else if \<not> HasHook m then ret None
                              else patch_with_helper E (OMachine m) (OMachine (without_hook m))) machines;
         ret (new_aggregate (the_errors errs)) } }"

text \<open>
  What must succeed before the hook of machine \<open>m\<close> is dropped; an error keeps the hook. Without a
  node, a kubeconfig or the list of active machines the check is skipped.
\<close>

definition replacement_candidate :: "machine list \<Rightarrow> machine option" where
  "replacement_candidate active = Newest (filter (\<lambda>x. HasNode x \<and> \<not> HasDeletionTimestamp x) active)"

definition remove_member_of :: "'s clientGenerator \<Rightarrow> bytes \<Rightarrow> machine \<Rightarrow> machine list \<Rightarrow> ('s, goerr option) prog" where
  "remove_member_of CG kubeconfig m active = do {
     perr \<leftarrow> (case replacement_candidate active of
         Some c \<Rightarrow> if m_name (mc_meta c) \<noteq> m_name (mc_meta m)
                   then cg_ProtectEtcdLeadership CG kubeconfig (mc_nodeRef m) (mc_nodeRef c) else ret None
       | None \<Rightarrow> ret None);
     case perr of
       Some e \<Rightarrow> ret (Some (Wrapf ''failed to ensure a safe etcd leadership state before member removal'' e))
     | None \<Rightarrow> do {
         rerr \<leftarrow> cg_RemoveEtcdMember CG kubeconfig (mc_nodeRef m);
         ret (case rerr of Some e \<Rightarrow> Some (Wrapf ''failed to remove etcd member for node'' e) | None \<Rightarrow> None) } }"

definition before_hook_removal :: "'s env \<Rightarrow> 's clientGenerator \<Rightarrow> oacp \<Rightarrow> cluster \<Rightarrow> machine \<Rightarrow> ('s, goerr option) prog" where
  "before_hook_removal E CG ob cl m =
    (if HasNode m then
       (if \<not> oacp_is_true ob KubeconfigAvailableCondition then ret None
        else do {
          k \<leftarrow> GetWorkloadKubeconfig E (m_name (cl_meta cl)) (m_namespace (cl_meta cl));
          case k of
            Inl _ \<Rightarrow> ret None
          | Inr kubeconfig \<Rightarrow> do {
              a \<leftarrow> GetFilteredMachinesForCluster E cl [OwnedMachines ob, ActiveMachines];
              case a of
                Inl _ \<Rightarrow> ret None
              | Inr active \<Rightarrow> remove_member_of CG kubeconfig m active } })
     else ret None)"

definition reconcilePreTerminateHook ::
  "'s env \<Rightarrow> 's clientGenerator \<Rightarrow> oacp \<Rightarrow> cluster \<Rightarrow> ('s, ctrl_result \<times> goerr option) prog" where
  "reconcilePreTerminateHook E CG ob cl = do {
     r \<leftarrow> GetFilteredMachinesForCluster E cl [OwnedMachines ob];
     case r of
       Inl e \<Rightarrow> ret (result_zero, Some e)
     | Inr allMachines \<Rightarrow> (case OldestDeletionTimestamp (filter HasHook (filter HasDeletionTimestamp allMachines)) of
         None \<Rightarrow> ret (result_zero, None)
       | Some m \<Rightarrow> do {
           pre \<leftarrow> before_hook_removal E CG ob cl m;
           case pre of
             Some e \<Rightarrow> ret (result_zero, Some e)
           | None \<Rightarrow> (case k_new_helper E (OMachine m) of
               Some e \<Rightarrow> ret (result_zero, Some (Wrapf ''failed to create patch helper'' e))
             | None \<Rightarrow> do {
                 p \<leftarrow> khelper_patch E (OMachine m) (OMachine (without_hook m)) False;
                 ret (case p of
                   Some e \<Rightarrow> (result_zero, Some (Wrapf ''failed to remove pre-terminate hook annotation'' e))
                 | None \<Rightarrow> (requeue_after 10, None)) }) }) }"

definition formatEtcdMemberNames :: "EtcdMember list \<Rightarrow> string list" where
  "formatEtcdMemberNames ms = List.map (\<lambda>m. if etm_name m = [] then ''(unnamed)'' else etm_name m) ms"

text \<open>The verb \<open>%v\<close> on a slice of strings.\<close>

definition go_slice :: "string list \<Rightarrow> string" where
  "go_slice xs = ''['' @ str_join '' '' xs @ '']''"

definition reconcileEtcdMembers ::
  "'s env \<Rightarrow> 's clientGenerator \<Rightarrow> oacp \<Rightarrow> cluster \<Rightarrow> ('s, oacp \<times> ctrl_result \<times> goerr option) prog" where
  "reconcileEtcdMembers E CG ob cl = do {
     r \<leftarrow> GetFilteredMachinesForCluster E cl [OwnedMachines ob];
     case r of
       Inl e \<Rightarrow> ret (ob, result_zero, Some e)
     | Inr allMachines \<Rightarrow>
       let provisioningMachines = List.map (\<lambda>m. m_name (mc_meta m)) (filter (\<lambda>m. \<not> HasNode m) allMachines);
           expectedMembers = List.map mc_nodeRef (filter HasNode allMachines) in
       if allMachines = [] then ret (ob, result_zero, None)
       else if expectedMembers = [] then ret (ob, result_zero, None)
       else do {
         k \<leftarrow> GetWorkloadKubeconfig E (m_name (cl_meta cl)) (m_namespace (cl_meta cl));
         case k of
           Inl e \<Rightarrow> ret (ob, result_zero, Some (Wrapf ''failed to get workload kubeconfig'' e))
         | Inr kubeconfig \<Rightarrow> do {
           l \<leftarrow> cg_ListEtcdMembers CG kubeconfig;
           case l of
             Inl _ \<Rightarrow> ret (ob, result_zero, None)
           | Inr etcdMembers \<Rightarrow>
             let unexpectedMembers = filter (\<lambda>m. etm_name m \<notin> set expectedMembers) etcdMembers in
             if etcdMembers = [] then ret (ob, result_zero, None)
             else if provisioningMachines \<noteq> [] \<and> unexpectedMembers \<noteq> [] then
               ret (setConditionFalse ''EtcdClusterHealthy'' ''EtcdOrphanMembersDetected''
                 (''orphaned etcd members '' @ go_slice (formatEtcdMemberNames unexpectedMembers) @
                  '' detected but removal deferred while machines '' @ go_slice provisioningMachines @ '' are provisioning'') ob,
                 result_zero, None)
             else (case unexpectedMembers of
               [] \<Rightarrow> ret (setConditionTrue ''EtcdClusterHealthy'' ob, result_zero, None)
             | orphan # _ \<Rightarrow> do {
                 err \<leftarrow> cg_RemoveEtcdMemberByID CG kubeconfig (etm_id orphan);
                 ret (case err of
                   Some e \<Rightarrow> (ob, result_zero, Some (Wrapf ''failed to remove orphaned etcd member'' e))
                 | None \<Rightarrow> (ob, requeue_after 1, None)) }) } } }"

definition reconcileMachineLifecycle ::
  "'s env \<Rightarrow> 's clientGenerator \<Rightarrow> oacp \<Rightarrow> cluster \<Rightarrow> ('s, oacp \<times> ctrl_result \<times> goerr option) prog" where
  "reconcileMachineLifecycle E CG ob cl = do {
     e1 \<leftarrow> ensurePreTerminateHooks E ob cl;
     case e1 of
       Some e \<Rightarrow> ret (ob, result_zero, Some e)
     | None \<Rightarrow> do {
         h \<leftarrow> reconcilePreTerminateHook E CG ob cl;
         if snd h \<noteq> None \<or> fst h \<noteq> result_zero then ret (ob, fst h, snd h)
         else if oacp_is_true ob KubeconfigAvailableCondition then reconcileEtcdMembers E CG ob cl
         else ret (ob, result_zero, None) } }"

subsection \<open>Hooks\<close>

lemma hook_simps [simp]: "HasHook (with_hook m)" "\<not> HasHook (without_hook m)"
  by (simp_all add: HasAnnotationKey_def with_hook_def without_hook_def)

lemma without_hook_other:
  "mc_nodeRef (without_hook m) = mc_nodeRef m" "m_name (mc_meta (without_hook m)) = m_name (mc_meta m)"
  "k \<noteq> preTerminateHookAnnotation \<Longrightarrow> m_annotations (mc_meta (without_hook m)) k = m_annotations (mc_meta m) k"
  by (simp_all add: without_hook_def)

text \<open>The trace shows why the etcd steps were skipped.\<close>

fun kubeconfig_missed :: "event \<Rightarrow> bool" where
  "kubeconfig_missed (EvGet Mgmt KSecret ns n x) = (case x of Inr (OSecret sec) \<Rightarrow> se_data sec ''value'' = None | _ \<Rightarrow> True)"
| "kubeconfig_missed _ = False"

definition kubeconfig_unreadable :: "event list \<Rightarrow> bool" where
  "kubeconfig_unreadable evs \<longleftrightarrow> (\<exists>e \<in> set evs. kubeconfig_missed e)"

definition machines_unlisted :: "event list \<Rightarrow> bool" where
  "machines_unlisted evs \<longleftrightarrow> (\<exists>opts e. EvList Mgmt KMachine opts (Inl e) \<in> set evs)"

definition saw_machines :: "(machine list \<Rightarrow> bool) \<Rightarrow> event list \<Rightarrow> bool" where
  "saw_machines P evs \<longleftrightarrow> (\<exists>opts obs. EvList Mgmt KMachine opts (Inr obs) \<in> set evs \<and> P (List.map_filter as_machine obs))"

text \<open>The etcd member of \<open>m\<close>'s node is gone and, given another machine to lead, leadership is safe.\<close>

definition member_retired :: "oacp \<Rightarrow> machine \<Rightarrow> event list \<Rightarrow> bool" where
  "member_retired ob m evs \<longleftrightarrow> removal_done (mc_nodeRef m) evs \<and>
     (leadership_safe (mc_nodeRef m) evs \<or>
      saw_machines (\<lambda>ms. case replacement_candidate (filter (\<lambda>x. OwnedMachines ob x \<and> ActiveMachines x) ms) of
         None \<Rightarrow> True | Some c \<Rightarrow> m_name (mc_meta c) = m_name (mc_meta m)) evs)"

definition hook_may_go :: "oacp \<Rightarrow> machine \<Rightarrow> event list \<Rightarrow> bool" where
  "hook_may_go ob m evs \<longleftrightarrow> \<not> HasNode m \<or> \<not> oacp_is_true ob KubeconfigAvailableCondition \<or>
     kubeconfig_unreadable evs \<or> machines_unlisted evs \<or> member_retired ob m evs"

lemma GetWorkloadKubeconfig_logs:
  "logs (GetWorkloadKubeconfig E cn ns) (\<lambda>r evs. (\<forall>e \<in> set evs. is_mgmt_read e) \<and> (\<forall>e. r = Inl e \<longrightarrow> kubeconfig_unreadable evs))"
  unfolding GetWorkloadKubeconfig_def GetClusterKubeconfigSecret_def get_as_def kcall_defs
  apply (simp only: prog_simps, intro logs_call_bind logs_intros)
  apply (auto simp: kubeconfig_unreadable_def decode_def ExtractKubeconfigFromSecret_def split: sum.splits option.splits kobj.splits)
  done

lemma GetFilteredMachines_seen:
  "logs (GetFilteredMachinesForCluster E cl fs) (\<lambda>r evs. (\<forall>e \<in> set evs. is_mgmt_read e) \<and>
     (case r of Inl _ \<Rightarrow> machines_unlisted evs
      | Inr ms \<Rightarrow> saw_machines (\<lambda>xs. ms = filter (\<lambda>m. list_all (\<lambda>f. f m) fs) xs) evs))"
  unfolding GetFilteredMachinesForCluster_def list_as_def kcall_defs
  by (simp only: prog_simps, intro logs_call_bind logs_intros)
    (auto simp: machines_unlisted_def saw_machines_def decode_list_def split: sum.splits)

lemma saw_machines_append [simp]: "saw_machines P (as @ bs) \<longleftrightarrow> saw_machines P as \<or> saw_machines P bs"
  by (auto simp: saw_machines_def)

lemma unlisted_append [simp]: "machines_unlisted (as @ bs) \<longleftrightarrow> machines_unlisted as \<or> machines_unlisted bs"
  "kubeconfig_unreadable (as @ bs) \<longleftrightarrow> kubeconfig_unreadable as \<or> kubeconfig_unreadable bs"
  by (auto simp: machines_unlisted_def kubeconfig_unreadable_def)

lemma api_quiet_simps [simp]: "api_quiet []" "api_quiet (as @ bs) \<longleftrightarrow> api_quiet as \<and> api_quiet bs"
  "api_quiet (e # evs) \<longleftrightarrow> \<not> is_api_write e \<and> api_quiet evs"
  by (auto simp: api_quiet_def)

lemma mgmt_reads_quiet: "\<forall>e \<in> set evs. is_mgmt_read e \<Longrightarrow> api_quiet evs"
proof -
  have "is_mgmt_read e \<Longrightarrow> \<not> is_api_write e" for e by (cases e) auto
  then show "\<forall>e \<in> set evs. is_mgmt_read e \<Longrightarrow> api_quiet evs" by (auto simp: api_quiet_def)
qed

lemma leadership_safe_extend: "leadership_safe n evs \<Longrightarrow> leadership_safe n (as @ evs @ bs)"
  unfolding leadership_safe_def listed_def by auto

text \<open>The two ways leadership may be settled before a removal.\<close>

definition leadership_settled :: "machine \<Rightarrow> machine list \<Rightarrow> event list \<Rightarrow> bool" where
  "leadership_settled m active evs \<longleftrightarrow> leadership_safe (mc_nodeRef m) evs \<or>
     (case replacement_candidate active of None \<Rightarrow> True | Some c \<Rightarrow> m_name (mc_meta c) = m_name (mc_meta m))"

definition no_removal :: "event list \<Rightarrow> bool" where
  "no_removal evs \<longleftrightarrow> (\<forall>c i x. EvMemberRemove c i x \<notin> set evs)"

lemma no_removal_append [simp]: "no_removal (as @ bs) \<longleftrightarrow> no_removal as \<and> no_removal bs" "no_removal []"
  by (auto simp: no_removal_def)

lemma no_writes_no_removal: "\<forall>e \<in> set evs. \<not> is_write e \<Longrightarrow> no_removal evs"
  by (force simp: no_removal_def)

lemma no_writes_quiet: "\<forall>e \<in> set evs. \<not> is_write e \<Longrightarrow> api_quiet evs"
proof -
  have "is_api_write e \<Longrightarrow> is_write e" for e by (cases e) auto
  then show "\<forall>e \<in> set evs. \<not> is_write e \<Longrightarrow> api_quiet evs" by (auto simp: api_quiet_def)
qed

lemma mgmt_reads_no_removal: "\<forall>e \<in> set evs. is_mgmt_read e \<Longrightarrow> no_removal evs"
  by (force simp: no_removal_def)

lemma hook_may_go_mono: "hook_may_go ob m evs \<Longrightarrow> hook_may_go ob m (as @ evs)"
  using removal_done_append [of "mc_nodeRef m" evs as "[]"] leadership_safe_extend [of "mc_nodeRef m" evs as "[]"]
  by (auto simp: hook_may_go_def member_retired_def)

definition hook_release :: "oacp \<Rightarrow> ctrl_result \<times> goerr option \<Rightarrow> event list \<Rightarrow> bool" where
  "hook_release ob r evs \<longleftrightarrow> api_quiet evs \<and> fst r = result_zero \<and> (snd r = None \<longrightarrow> no_removal evs) \<or>
     (\<exists>m as x. evs = as @ [EvHelperPatch (OMachine m) (OMachine (without_hook m)) False x] \<and> api_quiet as \<and>
        OwnedMachines ob m \<and> HasDeletionTimestamp m \<and> HasHook m \<and> hook_may_go ob m as \<and>
        (x = None \<longrightarrow> r = (requeue_after 10, None)) \<and> (x \<noteq> None \<longrightarrow> snd r \<noteq> None))"

text \<open>Members and machines as one pass of \<open>reconcileEtcdMembers\<close> sees them.\<close>

definition saw_owned :: "oacp \<Rightarrow> (machine list \<Rightarrow> bool) \<Rightarrow> event list \<Rightarrow> bool" where
  "saw_owned ob P = saw_machines (\<lambda>ms. P (filter (OwnedMachines ob) ms))"

definition saw_members :: "(EtcdMember list \<Rightarrow> bool) \<Rightarrow> event list \<Rightarrow> bool" where
  "saw_members P evs \<longleftrightarrow> (\<exists>c. listed c (\<lambda>ps. P (member_entries ps)) evs)"

lemma saw_append [simp]:
  "saw_owned ob P (as @ bs) \<longleftrightarrow> saw_owned ob P as \<or> saw_owned ob P bs"
  "saw_members Q (as @ bs) \<longleftrightarrow> saw_members Q as \<or> saw_members Q bs"
  by (auto simp: saw_owned_def saw_members_def listed_def)

lemma saw_owned_mono: "saw_owned ob P evs \<Longrightarrow> (\<And>xs. P xs \<Longrightarrow> Q xs) \<Longrightarrow> saw_owned ob Q evs"
  unfolding saw_owned_def saw_machines_def by blast

lemma saw_members_mono: "saw_members P evs \<Longrightarrow> (\<And>xs. P xs \<Longrightarrow> Q xs) \<Longrightarrow> saw_members Q evs"
  unfolding saw_members_def listed_def by blast

lemma id_removals_extend: "no_removal as \<Longrightarrow> id_removals i bs \<Longrightarrow> id_removals i (as @ bs)"
  unfolding id_removals_def no_removal_def by (metis Un_iff listed_append no_corrupt_alarm_append set_append)

text \<open>A listed member whose name is the node of no owned machine, every owned machine having a node.\<close>

definition is_orphan :: "oacp \<Rightarrow> uint64 \<Rightarrow> event list \<Rightarrow> bool" where
  "is_orphan ob i evs \<longleftrightarrow> (\<exists>orphan. etm_id orphan = i \<and> saw_members (\<lambda>ms. orphan \<in> set ms) evs \<and>
     saw_owned ob (\<lambda>ms. ms \<noteq> [] \<and> (\<forall>m \<in> set ms. HasNode m \<and> mc_nodeRef m \<noteq> etm_name orphan)) evs)"

definition members_reconciled :: "oacp \<Rightarrow> oacp \<times> ctrl_result \<times> goerr option \<Rightarrow> event list \<Rightarrow> bool" where
  "members_reconciled ob r evs \<longleftrightarrow> api_quiet evs \<and> (case r of (ob', res, err) \<Rightarrow>
     (ob' = ob \<and> res = result_zero \<and> no_removal evs)
   \<or> (\<exists>i. ob' = ob \<and> is_orphan ob i evs \<and> id_removals i evs \<and> (err = None \<longrightarrow> res = requeue_after 1 \<and> (\<exists>c. EvMemberRemove c i None \<in> set evs)))
   \<or> (ob' = setConditionTrue ''EtcdClusterHealthy'' ob \<and> err = None \<and> no_removal evs \<and>
        (\<exists>nodes. saw_members (\<lambda>ms. ms \<noteq> [] \<and> etm_name ` set ms \<subseteq> nodes) evs \<and>
           saw_owned ob (\<lambda>ms. nodes = mc_nodeRef ` set (filter HasNode ms)) evs))
   \<or> ((\<exists>msg. ob' = setConditionFalse ''EtcdClusterHealthy'' ''EtcdOrphanMembersDetected'' msg ob) \<and> err = None \<and> no_removal evs \<and>
        saw_owned ob (\<lambda>ms. \<exists>m \<in> set ms. \<not> HasNode m) evs))"

context client_generator
begin

lemma remove_member_of_spec:
  "logs (remove_member_of CG kc m active) (\<lambda>r evs. api_quiet evs \<and>
     (r = None \<longrightarrow> removal_done (mc_nodeRef m) evs \<and> leadership_settled m active evs))"
proof -
  have settle: "logs (case replacement_candidate active of
         Some c \<Rightarrow> if m_name (mc_meta c) \<noteq> m_name (mc_meta m)
                   then cg_ProtectEtcdLeadership CG kc (mc_nodeRef m) (mc_nodeRef c) else ret None
       | None \<Rightarrow> ret None) (\<lambda>r evs. api_quiet evs \<and> (r = None \<longrightarrow> leadership_settled m active evs))"
    by (intro logs_intros logs_mono [OF protect]) (simp_all add: leadership_settled_def)
  show ?thesis unfolding remove_member_of_def
  proof (rule logs_bind [OF settle], intro logs_intros logs_bind [OF remove_member], goal_cases)
    case (1 a as r evs)
    then show ?case using removal_done_append [of _ evs as "[]"] leadership_safe_extend [of _ as "[]" evs]
      by (auto simp: leadership_settled_def split: option.splits)
  qed simp
qed

lemma before_hook_removal_spec:
  "logs (before_hook_removal E CG ob cl m) (\<lambda>r evs. api_quiet evs \<and> (r = None \<longrightarrow> hook_may_go ob m evs))"
  unfolding before_hook_removal_def
proof (intro logs_intros, goal_cases)
  case 2
  show ?case
  proof (rule logs_bind [OF GetWorkloadKubeconfig_logs], rule logs_case_sum)
    fix kc evs kubeconfig
    assume kc: "(\<forall>e\<in>set evs. is_mgmt_read e) \<and> (\<forall>e. kc = Inl e \<longrightarrow> kubeconfig_unreadable evs)"
    show "logs (do { a \<leftarrow> GetFilteredMachinesForCluster E cl [OwnedMachines ob, ActiveMachines];
              case a of Inl _ \<Rightarrow> ret None | Inr active \<Rightarrow> remove_member_of CG kubeconfig m active })
        (\<lambda>b evs'. api_quiet (evs @ evs') \<and> (b = None \<longrightarrow> hook_may_go ob m (evs @ evs')))"
    proof (rule logs_bind [OF GetFilteredMachines_seen], intro logs_intros logs_mono [OF remove_member_of_spec], goal_cases)
      case (1 a evs2 e)
      with kc show ?case by (simp add: hook_may_go_def mgmt_reads_quiet)
    next
      case (2 a evs2 active r evs3)
      with kc have q: "api_quiet (evs @ evs2 @ evs3)" by (simp add: mgmt_reads_quiet)
      have "member_retired ob m (evs @ evs2 @ evs3)"
        if "removal_done (mc_nodeRef m) evs3" "leadership_settled m active evs3"
        using that 2 removal_done_append [of _ evs3 "evs @ evs2" "[]"] leadership_safe_extend [of _ evs3 "evs @ evs2" "[]"]
        by (auto simp: member_retired_def leadership_settled_def saw_machines_def)
      with q 2 show ?case by (simp add: hook_may_go_def)
    qed
  qed (auto intro!: logs_intros simp: hook_may_go_def mgmt_reads_quiet)
qed (simp_all add: hook_may_go_def)

text \<open>
  Either nothing is written, or the last event drops the hook of one owned, deleting machine, and
  all that must precede it has happened.
\<close>

lemma reconcilePreTerminateHook_spec:
  "logs (reconcilePreTerminateHook E CG ob cl) (\<lambda>r evs. hook_release ob r evs)"
  unfolding reconcilePreTerminateHook_def khelper_patch_def
proof (rule logs_bind [OF GetFilteredMachines_seen], intro logs_intros logs_call_bind logs_bind [OF before_hook_removal_spec], goal_cases)
  case (3 r evs ms m pre evs2 x)
  then have "OwnedMachines ob m \<and> HasDeletionTimestamp m \<and> HasHook m"
    by (auto simp: saw_machines_def dest!: OldestDeletionTimestamp_Some)
  with 3 show ?case
    unfolding hook_release_def
    by (intro disjI2 exI [of _ m] exI [of _ "evs @ evs2"] exI [of _ x]) (auto simp: mgmt_reads_quiet hook_may_go_mono split: option.splits)
qed (auto simp: hook_release_def mgmt_reads_quiet mgmt_reads_no_removal)

lemma reconcileEtcdMembers_spec:
  "logs (reconcileEtcdMembers E CG ob cl) (\<lambda>r evs. members_reconciled ob r evs)"
  unfolding reconcileEtcdMembers_def Let_def
proof (rule logs_bind [OF GetFilteredMachines_seen], rule logs_case_sum, goal_cases)
  case (1 r evs e)
  then show ?case by (auto intro!: logs_intros simp: members_reconciled_def mgmt_reads_quiet mgmt_reads_no_removal)
next
  case (2 r evs ms)
  then have ms: "saw_owned ob (\<lambda>xs. ms = xs) evs" "api_quiet evs" "no_removal evs"
    by (auto simp: saw_owned_def mgmt_reads_quiet mgmt_reads_no_removal)
  show ?case
  proof (intro logs_intros, goal_cases)
    case 3
    show ?case
    proof (rule logs_bind [OF GetWorkloadKubeconfig_logs], rule logs_case_sum, goal_cases)
      case (1 k evs2 e)
      with ms show ?case by (auto intro!: logs_intros simp: members_reconciled_def mgmt_reads_quiet mgmt_reads_no_removal)
    next
      case (2 k evs2 kc)
      then have k: "api_quiet evs2" "no_removal evs2" by (auto simp: mgmt_reads_quiet mgmt_reads_no_removal)
      show ?case
      proof (rule logs_bind [OF list_members], rule logs_case_sum, goal_cases)
        case (1 l evs3 e)
        with ms k show ?case by (auto intro!: logs_intros simp: members_reconciled_def no_writes_quiet no_writes_no_removal)
      next
        case (2 l evs3 mems)
        then have mems: "saw_members (\<lambda>xs. mems = xs) evs3" "api_quiet evs3" "no_removal evs3"
          by (auto simp: saw_members_def no_writes_quiet no_writes_no_removal)
        show ?case
        proof (intro logs_intros logs_bind [OF remove_by_id], goal_cases)
          case 1
          with ms k mems show ?case by (auto simp: members_reconciled_def)
        next
          case 2
          then obtain m where "m \<in> set ms" "\<not> HasNode m" by (auto simp: filter_empty_conv)
          then have "saw_owned ob (\<lambda>ms. \<exists>m \<in> set ms. \<not> HasNode m) evs" using ms(1) by (auto elim: saw_owned_mono)
          with ms k mems show ?case by (auto simp: members_reconciled_def)
        next
          case 3
          then have "saw_members (\<lambda>xs. xs \<noteq> [] \<and> etm_name ` set xs \<subseteq> mc_nodeRef ` set (filter HasNode ms)) evs3"
            using mems(1) by (auto elim!: saw_members_mono simp: filter_empty_conv)
          moreover have "saw_owned ob (\<lambda>xs. mc_nodeRef ` set (filter HasNode ms) = mc_nodeRef ` set (filter HasNode xs)) evs"
            using ms(1) by (auto elim: saw_owned_mono)
          ultimately show ?case using ms k mems by (simp add: members_reconciled_def) blast
        next
          case (4 orphan rest err evs4)
          then have "orphan \<in> set (filter (\<lambda>m. etm_name m \<notin> set (List.map mc_nodeRef (filter HasNode ms))) mems)" by simp
          then have o: "orphan \<in> set mems" "etm_name orphan \<notin> mc_nodeRef ` set (filter HasNode ms)" by simp_all
          moreover have nodes: "\<forall>m \<in> set ms. HasNode m" using 4 by (auto simp: filter_empty_conv)
          ultimately have "\<forall>m \<in> set ms. mc_nodeRef m \<noteq> etm_name orphan" by (metis filter_True image_eqI)
          with o(1) nodes have "is_orphan ob (etm_id orphan) (evs @ evs2 @ evs3 @ evs4)"
            unfolding is_orphan_def using mems(1) ms(1) \<open>ms \<noteq> []\<close>
            by (intro exI [of _ orphan]) (auto elim!: saw_owned_mono saw_members_mono)
          with ms k mems 4(4) id_removals_extend [of "evs @ evs2 @ evs3"] show ?case
            by (cases err) (simp_all add: members_reconciled_def, blast+)
        qed
      qed
    qed
  qed (use ms in \<open>auto simp: members_reconciled_def\<close>)
qed

end

subsection \<open>A concrete cluster\<close>

text \<open>Three etcd members \<open>a\<close>, \<open>b\<close>, \<open>c\<close>, machines for the nodes \<open>a\<close> and \<open>b\<close>.\<close>

definition demo_cp :: oacp where
  "demo_cp = setConditionTrue KubeconfigAvailableCondition (empty_oacp\<lparr>oacp_meta := empty_meta\<lparr>m_name := ''cp''\<rparr>\<rparr>)"

definition demo_machine :: "string \<Rightarrow> int option \<Rightarrow> machine" where
  "demo_machine n del = empty_machine\<lparr>mc_meta := empty_meta\<lparr>m_name := n, m_deletionTimestamp := del,
     m_annotations := [preTerminateHookAnnotation \<mapsto> []], m_ownerReferences := [oacp_owner_ref (Some True) demo_cp]\<rparr>,
     mc_nodeRef := n\<rparr>"

definition demo_members :: "int option \<Rightarrow> unit env" where
  "demo_members del = demo_etcd\<lparr>
     k_get := (\<lambda>c k ns n s. (case k of
         KSecret \<Rightarrow> Inr (OSecret \<lparr>se_meta = empty_meta, se_type = [], se_data = [''value'' \<mapsto> ''kc'']\<rparr>)
       | KConfigMap \<Rightarrow> Inr (OConfigMap \<lparr>cm_meta = empty_meta, cm_data = Map.empty\<rparr>)
       | _ \<Rightarrow> Inl (ApiStatus NotFound), s)),
     k_list := (\<lambda>c k opts s. (Inr (case k of KMachine \<Rightarrow> [OMachine (demo_machine ''a'' None), OMachine (demo_machine ''b'' del)]
       | _ \<Rightarrow> [OPod demo_pod]), s))\<rparr>"

lemma demo_owned [simp]: "OwnedMachines demo_cp (demo_machine n del)"
proof -
  have "demo_machine n del = empty_machine\<lparr>mc_meta := add_owner (oacp_owner_ref (Some True) demo_cp) (empty_meta\<lparr>m_name := n, m_deletionTimestamp := del,
     m_annotations := [preTerminateHookAnnotation \<mapsto> []]\<rparr>), mc_nodeRef := n\<rparr>"
    by (simp add: demo_machine_def add_owner_def empty_meta_def)
  then show ?thesis by (simp add: OwnedMachines_def IsOwnedByObject_add_owner)
qed

lemma demo_machine_fields [simp]:
  "HasNode (demo_machine n del) \<longleftrightarrow> n \<noteq> []" "mc_nodeRef (demo_machine n del) = n"
  "HasHook (demo_machine n del)" "m_deletionTimestamp (mc_meta (demo_machine n del)) = del"
  "m_name (mc_meta (demo_machine n del)) = n"
  by (simp_all add: demo_machine_def HasNode_def HasAnnotationKey_def empty_meta_def empty_machine_def)

lemmas demo_members_run = Let_def workload_generator_def ListEtcdMembers_def listMembers_def demo_etcd_run demo_members_def GetFilteredMachinesForCluster_def
  GetWorkloadKubeconfig_def GetClusterKubeconfigSecret_def ExtractKubeconfigFromSecret_def ActiveMachines_def
  HasDeletionTimestamp_def OldestDeletionTimestamp_def Newest_def replacement_candidate_def scan_pods.simps(2)

subsection \<open>Properties of the lifecycle\<close>



text \<open>
  Claim C18. Removal of orphaned etcd members. A pass of \<open>reconcileEtcdMembers\<close> writes to no API
  server; it removes a member by id only when that member was listed, its name is the node of no
  owned machine and every owned machine has a node, and then etcd reported no corruption and had
  more members than this one; all removals of the pass are of that one member, and a success asks
  for another pass after one second. The health condition becomes true only when members were
  listed and each is the node of an owned machine; it becomes false only while an owned machine
  has no node yet, and nothing is removed then.
\<close>

theorem reconcileEtcdMembers_orphans_only:
  assumes "run_state (reconcileEtcdMembers E (workload_generator E) ob cl) (start s) = (r, w)"
  shows "members_reconciled ob r (w_trace w)"
  by (rule logs_start [OF wlc.reconcileEtcdMembers_spec assms])

theorem reconcileEtcdMembers_orphans_only_witness:
  "is_orphan demo_cp 3 (w_trace (snd (run_state (reconcileEtcdMembers (demo_members None) (workload_generator (demo_members None)) demo_cp empty_cluster)
      (start ()))))"
proof -
  let ?m = "reconcileEtcdMembers (demo_members None) (workload_generator (demo_members None)) demo_cp empty_cluster"
  obtain ob res err w where run: "run_state ?m (start ()) = ((ob, res, err), w)" by (metis prod_cases3 surj_pair)
  have "EvMemberRemove 7 3 None \<in> set (w_trace (snd (run_state ?m (start ()))))"
    by (simp add: reconcileEtcdMembers_def demo_members_run)
  with run have rm: "EvMemberRemove 7 3 None \<in> set (w_trace w)" by simp
  then have "\<not> no_removal (w_trace w)" by (auto simp: no_removal_def)
  with reconcileEtcdMembers_orphans_only [OF run] obtain i where "is_orphan demo_cp i (w_trace w)" "id_removals i (w_trace w)"
    by (auto simp: members_reconciled_def)
  moreover from this(2) rm have "i = 3" unfolding id_removals_def by blast
  ultimately show ?thesis using run by simp
qed

end
