(* ===== verification/KubeVirt.thy ===== *)
theory KubeVirt
  imports Util Encoding
begin

text \<open>
  Package \<open>controlplane/internal/kubevirt\<close>: the networking that machines on KubeVirt must have,
  the services and the DNS forwarding rule of a tenant cluster on the infrastructure cluster, and
  the ignition overrides for its machines.

  Unstructured objects are \<open>json\<close> values. A type assertion that fails is a mismatched pattern.
\<close>

subsection \<open>Networking requirements of a machine\<close>

definition LiveMigrationAnnotation :: string where
  "LiveMigrationAnnotation = ''kubevirt.io/allow-pod-bridge-network-live-migration''"

definition EvictionStrategyLiveMigrateIfPossible :: string where
  "EvictionStrategyLiveMigrateIfPossible = ''LiveMigrateIfPossible''"

type_synonym jobj = "(string \<times> json) list"

definition obj_field :: "string \<Rightarrow> jobj \<Rightarrow> jobj option" where
  "obj_field k m = (case map_of m k of Some (JObj x) \<Rightarrow> Some x | _ \<Rightarrow> None)"

definition arr_field :: "string \<Rightarrow> jobj \<Rightarrow> json list" where
  "arr_field k m = (case map_of m k of Some (JArr xs) \<Rightarrow> xs | _ \<Rightarrow> [])"

fun has_bridge :: "json \<Rightarrow> bool" where
  "has_bridge (JObj m) = (map_of m ''bridge'' \<noteq> None)" | "has_bridge _ = False"

definition validateBridgeInterface :: "jobj \<Rightarrow> goerr option" where
  "validateBridgeInterface vmiSpec = (case obj_field ''domain'' vmiSpec of
     None \<Rightarrow> Some (Errorf ''domain not found in VMI spec'')
   | Some domain \<Rightarrow> (case obj_field ''devices'' domain of
       None \<Rightarrow> Some (Errorf ''devices not found in domain'')
     | Some devices \<Rightarrow>
         let interfaces = arr_field ''interfaces'' devices in
         if interfaces = [] then Some (Errorf ''KubevirtMachineTemplate has no network interfaces configured'')
         else if list_ex has_bridge interfaces then None
         else Some (Errorf ''KubevirtMachineTemplate uses masquerade or other non-bridge binding'')))"

text \<open>\<open>NestedMap\<close>, and \<open>NestedStringMap\<close> with its error ignored.\<close>

definition nested_map :: "string list \<Rightarrow> json \<Rightarrow> jobj option" where
  "nested_map ks v = (case nested_field ks v of Some (JObj m) \<Rightarrow> Some m | _ \<Rightarrow> None)"

fun is_jstr :: "json \<Rightarrow> bool" where "is_jstr (JStr _) = True" | "is_jstr _ = False"

definition nested_string_map :: "string list \<Rightarrow> json \<Rightarrow> jobj" where
  "nested_string_map ks v = (case nested_map ks v of
     Some m \<Rightarrow> if list_all (\<lambda>(_, x). is_jstr x) m then m else [] | None \<Rightarrow> [])"

definition vmi_path :: "string list" where
  "vmi_path = [''spec'', ''virtualMachineTemplate'', ''spec'', ''template'']"

definition ValidateNetworkingRequirements :: "json \<Rightarrow> goerr option" where
  "ValidateNetworkingRequirements template = (case nested_map ([''spec'', ''template''] @ vmi_path @ [''spec'']) template of
     None \<Rightarrow> Some (Errorf ''failed to find VMI spec in KubevirtMachineTemplate'')
   | Some vmiSpec \<Rightarrow> (case validateBridgeInterface vmiSpec of
       Some e \<Rightarrow> Some e
     | None \<Rightarrow>
         if map_of (nested_string_map ([''spec'', ''template''] @ vmi_path @ [''metadata'', ''annotations'']) template) LiveMigrationAnnotation = None
         then Some (Errorf ''KubevirtMachineTemplate is missing the required VMI annotation'')
         else None))"

fun bridge_iface :: "json \<Rightarrow> json" where
  "bridge_iface (JObj m) = JObj (obj_put ''bridge'' (JObj []) (obj_del ''binding'' (obj_del ''masquerade'' m)))"
| "bridge_iface v = v"

definition bridged :: "json list \<Rightarrow> json list" where
  "bridged interfaces = (if interfaces = [] then [JObj [(''name'', JStr ''default''), (''bridge'', JObj [])]]
     else List.map bridge_iface interfaces)"

definition enforceBridgeInterface :: "jobj \<Rightarrow> jobj res" where
  "enforceBridgeInterface vmiSpec = (case obj_field ''domain'' vmiSpec of
     None \<Rightarrow> Inl (Errorf ''domain not found in VMI spec'')
   | Some domain \<Rightarrow> (case obj_field ''devices'' domain of
       None \<Rightarrow> Inl (Errorf ''devices not found in domain'')
     | Some devices \<Rightarrow>
         let devices' = obj_put ''interfaces'' (JArr (bridged (arr_field ''interfaces'' devices))) devices;
             spec' = obj_put ''domain'' (JObj (obj_put ''devices'' (JObj devices') domain)) vmiSpec in
         Inr (if arr_field ''networks'' spec' = []
           then obj_put ''networks'' (JArr [JObj [(''name'', JStr ''default''), (''pod'', JObj [])]]) spec' else spec')))"

definition EnforceNetworkingRequirements :: "json \<Rightarrow> json res" where
  "EnforceNetworkingRequirements infraMachine = (case nested_map (vmi_path @ [''spec'']) infraMachine of
     None \<Rightarrow> Inl (Errorf ''failed to find VMI spec in infrastructure machine'')
   | Some vmiSpec \<Rightarrow> (case enforceBridgeInterface vmiSpec of
       Inl e \<Rightarrow> Inl (Wrapf ''failed to enforce bridge interface'' e)
     | Inr spec' \<Rightarrow>
       (case set_nested_field (JObj (obj_put ''evictionStrategy'' (JStr EvictionStrategyLiveMigrateIfPossible) spec'))
           (vmi_path @ [''spec'']) infraMachine of
         None \<Rightarrow> Inl (Errorf ''failed to set VMI spec'')
       | Some m1 \<Rightarrow>
         (case set_nested_field (JObj (obj_put LiveMigrationAnnotation (JStr [])
               (nested_string_map (vmi_path @ [''metadata'', ''annotations'']) m1)))
             (vmi_path @ [''metadata'', ''annotations'']) m1 of
           None \<Rightarrow> Inl (Errorf ''failed to set VMI template annotations'')
         | Some m2 \<Rightarrow> Inr m2))))"

subsection \<open>Networking mode and services\<close>

definition IsPodNetworking :: "string list \<Rightarrow> string list \<Rightarrow> bool" where
  "IsPodNetworking apiVIPs ingressVIPs \<longleftrightarrow> apiVIPs = [] \<or> ingressVIPs = []"

definition IsBridgeNetworking :: "string list \<Rightarrow> string list \<Rightarrow> bool" where
  "IsBridgeNetworking apiVIPs ingressVIPs \<longleftrightarrow> apiVIPs \<noteq> [] \<and> ingressVIPs \<noteq> []"

definition GetServiceClusterIP :: "'s env \<Rightarrow> kclient \<Rightarrow> string \<Rightarrow> string \<Rightarrow> ('s, string) prog" where
  "GetServiceClusterIP E c name ns = do {
     r \<leftarrow> get_as E as_service c KService ns name;
     ret (case r of Inl _ \<Rightarrow> [] | Inr svc \<Rightarrow> sv_clusterIP svc) }"

definition GetAPIServiceClusterIP :: "'s env \<Rightarrow> kclient \<Rightarrow> string \<Rightarrow> string \<Rightarrow> ('s, string) prog" where
  "GetAPIServiceClusterIP E c clusterName ns = GetServiceClusterIP E c (clusterName @ ''-api'') ns"

definition GetDNSProxyClusterIP :: "'s env \<Rightarrow> kclient \<Rightarrow> string \<Rightarrow> ('s, string) prog" where
  "GetDNSProxyClusterIP E c ns = GetServiceClusterIP E c ''tenant-dns'' ns"

definition defaultInfraCoreDNSIP :: string where "defaultInfraCoreDNSIP = ''172.30.0.10''"

definition GetInfraCoreDNSIP :: "'s env \<Rightarrow> kclient \<Rightarrow> ('s, string) prog" where
  "GetInfraCoreDNSIP E c = do {
     r \<leftarrow> get_as E as_service c KService ''openshift-dns'' ''dns-default'';
     ret (case r of
       Inl _ \<Rightarrow> defaultInfraCoreDNSIP
     | Inr svc \<Rightarrow> if sv_clusterIP svc = [] \<or> sv_clusterIP svc = ''None'' then defaultInfraCoreDNSIP else sv_clusterIP svc) }"

text \<open>\<open>controllerutil.CreateOrUpdate\<close> on an object of one kind.\<close>

definition CreateOrUpdate ::
  "'s env \<Rightarrow> kclient \<Rightarrow> kind \<Rightarrow> (kobj \<Rightarrow> 'a option) \<Rightarrow> ('a \<Rightarrow> kobj) \<Rightarrow> string \<Rightarrow> string \<Rightarrow> 'a \<Rightarrow> ('a \<Rightarrow> 'a) \<Rightarrow> ('s, 'a res) prog" where
  "CreateOrUpdate E c k as_a OA ns n fresh mutate = do {
     r \<leftarrow> get_as E as_a c k ns n;
     case r of
       Inl e \<Rightarrow> if is_not_found e then do {
           x \<leftarrow> kcreate E c (OA (mutate fresh));
           ret (decode as_a x) }
         else ret (Inl e)
     | Inr a \<Rightarrow> if OA (mutate a) = OA a then ret (Inr a) else do {
           x \<leftarrow> kupdate E c (OA (mutate a));
           ret (decode as_a x) } }"

definition fresh_service :: "string \<Rightarrow> string \<Rightarrow> service" where
  "fresh_service ns n = \<lparr>sv_meta = empty_meta\<lparr>m_name := n, m_namespace := ns\<rparr>, sv_type = [], sv_clusterIP = [],
     sv_selector = Map.empty, sv_ports = []\<rparr>"

definition tcp_port :: "string \<Rightarrow> int \<Rightarrow> int \<Rightarrow> service_port" where
  "tcp_port n p t = \<lparr>svp_name = n, svp_port = p, svp_targetPort = t, svp_protocol = ''TCP''\<rparr>"

definition MCSNodePort :: int where "MCSNodePort = 30624"

definition access_service :: "oacp \<Rightarrow> string \<Rightarrow> string \<Rightarrow> service_port list \<Rightarrow> service \<Rightarrow> service" where
  "access_service ob clusterName app ports svc =
    (let meta = (sv_meta svc)\<lparr>m_labels := [''app'' \<mapsto> app, ClusterNameLabel \<mapsto> clusterName]\<rparr>;
         meta' = if m_namespace meta = m_namespace (oacp_meta ob) then add_owner (oacp_owner_ref None ob) meta else meta in
     svc\<lparr>sv_meta := meta', sv_type := ''ClusterIP'',
       sv_selector := [ClusterNameLabel \<mapsto> clusterName, ''cluster.x-k8s.io/role'' \<mapsto> ''control-plane''], sv_ports := ports\<rparr>)"

definition EnsureExternalAccessServices ::
  "'s env \<Rightarrow> kclient \<Rightarrow> oacp \<Rightarrow> string \<Rightarrow> string \<Rightarrow> ('s, (string \<times> string) res) prog" where
  "EnsureExternalAccessServices E c ob clusterName ns = do {
     a \<leftarrow> CreateOrUpdate E c KService as_service OService ns (clusterName @ ''-api'') (fresh_service ns (clusterName @ ''-api''))
       (access_service ob clusterName (clusterName @ ''-api'')
         [tcp_port ''api'' 6443 6443, tcp_port ''mcs'' 22623 22623, tcp_port ''api-route'' 443 6443,
          tcp_port ''mcs-nodeport'' MCSNodePort MCSNodePort]);
     case a of
       Inl e \<Rightarrow> ret (Inl (Wrapf ''failed to ensure API service'' e))
     | Inr apiSvc \<Rightarrow> do {
         i \<leftarrow> CreateOrUpdate E c KService as_service OService ns (clusterName @ ''-ingress'') (fresh_service ns (clusterName @ ''-ingress''))
           (access_service ob clusterName (clusterName @ ''-ingress'') [tcp_port ''https'' 443 443, tcp_port ''http'' 80 80]);
         ret (case i of
           Inl e \<Rightarrow> Inl (Wrapf ''failed to ensure Ingress service'' e)
         | Inr ingressSvc \<Rightarrow> Inr (sv_clusterIP apiSvc, sv_clusterIP ingressSvc)) } }"

subsection \<open>The DNS forwarding rule\<close>

definition DNSRuleCreatedAnnotation :: string where
  "DNSRuleCreatedAnnotation = ''controlplane.cluster.x-k8s.io/dns-rule-created''"

text \<open>One attempt, then up to \<open>maxRetries\<close> more as long as the API server reports a conflict.\<close>

fun retryOnConflict :: "nat \<Rightarrow> ('s, goerr option) prog \<Rightarrow> ('s, goerr option) prog" where
  "retryOnConflict maxRetries fn = do {
     err \<leftarrow> fn;
     case err of
       None \<Rightarrow> ret None
     | Some e \<Rightarrow> if \<not> is_conflict e then ret (Some e)
                else (case maxRetries of 0 \<Rightarrow> ret (Some e) | Suc n \<Rightarrow> retryOnConflict n fn) }"

declare retryOnConflict.simps [simp del]

definition ruleName :: "string \<Rightarrow> string \<Rightarrow> string" where
  "ruleName ns clusterName = ns @ ''-'' @ clusterName @ ''-dns''"

definition JoinHostPort :: "string \<Rightarrow> string \<Rightarrow> string" where
  "JoinHostPort host port = (if CHR '':'' \<in> set host then ''['' @ host @ '']:'' @ port else host @ '':'' @ port)"

fun named :: "string \<Rightarrow> json \<Rightarrow> bool" where
  "named n (JObj m) = (map_of m ''name'' = Some (JStr n))" | "named n _ = False"

definition desired_server :: "string \<Rightarrow> string \<Rightarrow> string \<Rightarrow> json" where
  "desired_server name fqdn upstream = JObj [(''name'', JStr name), (''zones'', JArr [JStr fqdn]),
     (''forwardPlugin'', JObj [(''upstreams'', JArr [JStr upstream]), (''policy'', JStr ''Random'')])]"

fun replace_server :: "string \<Rightarrow> json \<Rightarrow> json list \<Rightarrow> json list" where
  "replace_server n d [] = [d]"
| "replace_server n d (s # ss) = (if named n s then d # ss else s # replace_server n d ss)"

definition dns_kind :: kind where "dns_kind = KUnstructured ''operator.openshift.io'' ''v1'' ''DNS''"

definition spec_of :: "json \<Rightarrow> jobj option" where
  "spec_of ob = (case ob of JObj m \<Rightarrow> obj_field ''spec'' m | _ \<Rightarrow> None)"

definition with_servers :: "json list \<Rightarrow> json \<Rightarrow> json" where
  "with_servers ss ob = (case ob of
     JObj m \<Rightarrow> JObj (obj_put ''spec'' (JObj (obj_put ''servers'' (JArr ss) (case spec_of ob of Some sp \<Rightarrow> sp | None \<Rightarrow> []))) m)
   | v \<Rightarrow> v)"

definition servers_of :: "json \<Rightarrow> json list" where
  "servers_of ob = (case spec_of ob of Some sp \<Rightarrow> arr_field ''servers'' sp | None \<Rightarrow> [])"

definition EnsureDNSForwardingRule ::
  "'s env \<Rightarrow> kclient \<Rightarrow> string \<Rightarrow> string \<Rightarrow> string \<Rightarrow> string \<Rightarrow> ('s, goerr option) prog" where
  "EnsureDNSForwardingRule E c clusterName baseDomain dnsProxyClusterIP ns =
    (if dnsProxyClusterIP = [] then ret None
     else retryOnConflict 3 (do {
       r \<leftarrow> get_as E as_unstructured c dns_kind [] ''default'';
       case r of
         Inl e \<Rightarrow> ret (Some (Wrapf ''failed to get dns.operator.openshift.io/default'' e))
       | Inr ob \<Rightarrow> do {
           x \<leftarrow> kupdate E c (OUnstructured (with_servers
             (replace_server (ruleName ns clusterName)
               (desired_server (ruleName ns clusterName) (clusterName @ ''.'' @ baseDomain) (JoinHostPort dnsProxyClusterIP ''5353''))
               (servers_of ob)) ob));
           ret (err_of x) } }))"

definition RemoveDNSForwardingRule :: "'s env \<Rightarrow> kclient \<Rightarrow> string \<Rightarrow> string \<Rightarrow> ('s, goerr option) prog" where
  "RemoveDNSForwardingRule E c clusterName ns = retryOnConflict 3 (do {
     r \<leftarrow> get_as E as_unstructured c dns_kind [] ''default'';
     case r of
       Inl e \<Rightarrow> ret (if is_not_found e then None else Some e)
     | Inr ob \<Rightarrow>
         let servers = servers_of ob; filtered = filter (\<lambda>s. \<not> named (ruleName ns clusterName) s) servers in
         if length filtered = length servers then ret None
         else do {
           x \<leftarrow> kupdate E c (OUnstructured (with_servers filtered ob));
           ret (err_of x) } })"

text \<open>The serial of the zone file of the wildcard domain: FNV-1a over the addresses.\<close>

definition zoneSerial :: "string list \<Rightarrow> 32 word" where
  "zoneSerial ips = (let s = foldl (foldl fnv_step) 2166136261 ips in if s = 0 then 1 else s)"

subsection \<open>Ignition overrides\<close>

definition ign_version :: "string \<times> json" where
  "ign_version = (''ignition'', JObj [(''version'', JStr ''3.1.0'')])"

definition ign_passwd :: "string \<Rightarrow> jobj" where
  "ign_passwd sshKey = (if sshKey = [] then [] else [(''passwd'', JObj [(''users'', JArr [JObj
     [(''name'', JStr ''core''), (''sshAuthorizedKeys'', JArr [JStr sshKey])]])])])"

text \<open>A file; \<open>overwrite\<close> is left out of the text when false.\<close>

definition ign_file :: "string \<Rightarrow> int \<Rightarrow> bool \<Rightarrow> string \<Rightarrow> json" where
  "ign_file path md ow content = JObj ([(''path'', JStr path), (''mode'', JInt md)] @
     (if ow then [(''overwrite'', JBool True)] else []) @ [(''contents'', JObj [(''source'', JStr (DataURL content))])])"

definition dns_fix_script :: "string \<Rightarrow> string \<Rightarrow> string \<Rightarrow> string" where
  "dns_fix_script apiIntHostname hostsEntry infraDNSIP = text_lines [
     ''#!/bin/bash'',
     ''# Write API service ClusterIP to /etc/hosts for api-int resolution.'',
     ''# This ensures bootkube can reach the tenant API regardless of DNS state.'',
     ''sed -i '' @ [CHR 0x27] @ ''/'' @ apiIntHostname @ ''/d'' @ [CHR 0x27] @ '' /etc/hosts'',
     ''echo '' @ [CHR 0x27] @ hostsEntry @ [CHR 0x27] @ '' >> /etc/hosts'',
     ''echo '' @ [CHR 0x27] @ ''nameserver '' @ infraDNSIP @ [CHR 0x27] @ '' > /etc/resolv.conf'',
     ''echo '' @ [CHR 0x27] @ ''search cluster.local svc.cluster.local'' @ [CHR 0x27] @ '' >> /etc/resolv.conf'',
     ''echo '' @ [CHR 0x27] @ ''options ndots:5'' @ [CHR 0x27] @ '' >> /etc/resolv.conf'',
     ''echo \"DNS and hosts configuration applied: '' @ hostsEntry @ ''\"'']"

definition dns_resolve_unit :: string where
  "dns_resolve_unit = text_lines [
     ''[Unit]'',
     ''Description=Configure api-int hosts entry for KubeVirt pod-networking'',
     ''Before=kubelet.service crio.service bootkube.service'',
     ''After=NetworkManager-wait-online.service'',
     ''ConditionPathExists=!/var/run/capoa-dns-configured'',
     [],
     ''[Service]'',
     ''Type=oneshot'',
     ''RemainAfterExit=yes'',
     ''ExecStart=/usr/local/bin/capoa-dns-resolve'',
     ''ExecStartPost=/usr/bin/touch /var/run/capoa-dns-configured'',
     [],
     ''[Install]'',
     ''WantedBy=multi-user.target'']"

definition discovery_config :: "string \<Rightarrow> string \<Rightarrow> string \<Rightarrow> string \<Rightarrow> string \<Rightarrow> jobj" where
  "discovery_config sshKey apiServiceIP clusterName baseDomain infraDNSIP =
    (let dns = (if infraDNSIP = [] then ''172.30.0.10'' else infraDNSIP);
         apiInt = ''api-int.'' @ clusterName @ ''.'' @ baseDomain;
         hostsEntry = apiServiceIP @ '' '' @ apiInt @ '' api.'' @ clusterName @ ''.'' @ baseDomain in
     ign_passwd sshKey @
     (if apiServiceIP \<noteq> [] \<and> clusterName \<noteq> [] \<and> baseDomain \<noteq> [] then
       [(''storage'', JObj [(''files'', JArr [
           ign_file ''/etc/NetworkManager/conf.d/99-capoa-dns.conf'' 420 True (text_lines [''[main]'', ''dns=none'']),
           ign_file ''/usr/local/bin/capoa-dns-resolve'' 493 False (dns_fix_script apiInt hostsEntry dns)])]),
        (''systemd'', JObj [(''units'', JArr [JObj [(''name'', JStr ''capoa-dns-resolve.service''), (''enabled'', JBool True),
           (''contents'', JStr dns_resolve_unit)]])])]
      else []))"

definition KubeVirtDiscoveryIgnitionOverride :: "string \<Rightarrow> string \<Rightarrow> string \<Rightarrow> string \<Rightarrow> string \<Rightarrow> string" where
  "KubeVirtDiscoveryIgnitionOverride sshKey apiServiceIP clusterName baseDomain infraDNSIP =
    (let parts = discovery_config sshKey apiServiceIP clusterName baseDomain infraDNSIP in
     if parts = [] then [] else json_text (JObj (ign_version # parts)))"

definition placeholderManifest :: string where
  "placeholderManifest = text_lines [''apiVersion: v1'', ''kind: ConfigMap'', ''metadata:'', ''  name: placeholder-fix'', ''  namespace: default'']"

definition KubeVirtInstallIgnitionOverride :: "string \<Rightarrow> string" where
  "KubeVirtInstallIgnitionOverride sshKey = json_text (JObj (ign_version # ign_passwd sshKey @
     [(''storage'', JObj [(''files'', JArr [
        ign_file ''/opt/openshift/manifests/placeholder.yaml'' 420 True placeholderManifest,
        ign_file ''/opt/openshift/openshift/placeholder.yaml'' 420 True placeholderManifest])])]))"

subsection \<open>Enforced networking\<close>

lemma nested_field_append: "nested_field (ks @ ls) v = (case nested_field ks v of None \<Rightarrow> None | Some x \<Rightarrow> nested_field ls x)"
  by (induction ks v rule: nested_field.induct) (auto split: option.splits)

lemma set_nested_parent:
  "set_nested_field x (ks @ [k]) v = Some v' \<Longrightarrow>
     \<exists>m. nested_field ks v' = Some (JObj (obj_put k x m)) \<and> (\<forall>m'. nested_field ks v = Some (JObj m') \<longrightarrow> m = m')"
proof (induction ks arbitrary: v v')
  case Nil
  then show ?case by (cases v) auto
next
  case (Cons a ks)
  then obtain m where v: "v = JObj m" by (cases v) (auto simp: neq_Nil_conv append_eq_Cons_conv)
  let ?in = "case map_of m a of None \<Rightarrow> JObj [] | Some u \<Rightarrow> u"
  have "\<exists>u. set_nested_field x (ks @ [k]) ?in = Some u \<and> v' = JObj (obj_put a u m)"
    using Cons.prems v by (cases ks) (auto split: option.splits)
  then obtain u where u: "set_nested_field x (ks @ [k]) ?in = Some u" "v' = JObj (obj_put a u m)" by blast
  from Cons.IH [OF u(1)] show ?case using v u(2) by (auto split: option.splits)
qed

text \<open>Setting one path keeps what is at a path that leaves it.\<close>

lemma set_nested_other:
  "set_nested_field x (ks @ k # ks') v = Some v' \<Longrightarrow> k \<noteq> l \<Longrightarrow> nested_field (ks @ l # ls) v \<noteq> None \<Longrightarrow>
     nested_field (ks @ l # ls) v' = nested_field (ks @ l # ls) v"
proof (induction ks arbitrary: v v')
  case Nil
  then obtain m where "v = JObj m" by (cases v) (auto elim: set_nested_field.elims)
  with Nil show ?case by (cases ks') (auto split: option.splits)
next
  case (Cons a ks)
  then obtain m where v: "v = JObj m" by (cases v) (auto simp: neq_Nil_conv append_eq_Cons_conv)
  with Cons.prems(3) obtain y where y: "map_of m a = Some y" "nested_field (ks @ l # ls) y \<noteq> None"
    by (auto split: option.splits)
  have "\<exists>u. set_nested_field x (ks @ k # ks') y = Some u \<and> v' = JObj (obj_put a u m)"
    using Cons.prems(1) v y by (cases "ks @ k # ks'") (auto split: option.splits)
  with Cons.IH [of y] Cons.prems(2) y v show ?case by auto
qed

lemma bridge_iface_props:
  "bridge_iface i = JObj m \<Longrightarrow> map_of m ''bridge'' = Some (JObj []) \<and> map_of m ''masquerade'' = None \<and> map_of m ''binding'' = None"
  by (cases i) auto

lemma bridged_props:
  "JObj m \<in> set (bridged ifs) \<Longrightarrow> map_of m ''bridge'' = Some (JObj []) \<and> map_of m ''masquerade'' = None \<and> map_of m ''binding'' = None"
  "bridged ifs \<noteq> []" "bridged (bridged ifs) = bridged ifs"
proof -
  show "JObj m \<in> set (bridged ifs) \<Longrightarrow> map_of m ''bridge'' = Some (JObj []) \<and> map_of m ''masquerade'' = None \<and> map_of m ''binding'' = None"
    by (auto simp: bridged_def split: if_splits dest!: sym [of "JObj m"] dest: bridge_iface_props)
  show "bridged ifs \<noteq> []" by (simp add: bridged_def)
  have put: "map_of a k = Some b \<Longrightarrow> obj_put k b a = a" for a :: jobj and k b by (induction a) auto
  have del: "map_of a k = None \<Longrightarrow> obj_del k a = a" for a :: jobj and k by (induction a) (auto split: if_splits)
  have "bridge_iface (bridge_iface i) = bridge_iface i" for i
    by (cases i) (simp_all add: put del)
  then show "bridged (bridged ifs) = bridged ifs" by (simp add: bridged_def)
qed

definition vmi_interfaces :: "json \<Rightarrow> json list" where
  "vmi_interfaces m = (case nested_field (vmi_path @ [''spec'', ''domain'', ''devices'']) m of
     Some (JObj d) \<Rightarrow> arr_field ''interfaces'' d | _ \<Rightarrow> [])"

text \<open>What an enforced machine looks like, in terms of the machine before.\<close>

lemma enforced_spec:
  assumes "EnforceNetworkingRequirements m = Inr m'"
  shows "\<exists>vmi domain devices ann. nested_field (vmi_path @ [''spec'']) m' = Some (JObj vmi) \<and>
    map_of vmi ''domain'' = Some (JObj domain) \<and> map_of domain ''devices'' = Some (JObj devices) \<and>
    map_of devices ''interfaces'' = Some (JArr (bridged (vmi_interfaces m))) \<and> arr_field ''networks'' vmi \<noteq> [] \<and>
    map_of vmi ''evictionStrategy'' = Some (JStr EvictionStrategyLiveMigrateIfPossible) \<and>
    nested_map (vmi_path @ [''metadata'', ''annotations'']) m' = Some ann \<and> list_all (\<lambda>(_, x). is_jstr x) ann \<and>
    map_of ann LiveMigrationAnnotation = Some (JStr [])"
proof -
  let ?ev = "\<lambda>sp. JObj (obj_put ''evictionStrategy'' (JStr EvictionStrategyLiveMigrateIfPossible) sp)"
  let ?ann = "\<lambda>m1. obj_put LiveMigrationAnnotation (JStr []) (nested_string_map (vmi_path @ [''metadata'', ''annotations'']) m1)"
  from assms obtain vmi sp m1 where 1: "nested_map (vmi_path @ [''spec'']) m = Some vmi" "enforceBridgeInterface vmi = Inr sp"
    "set_nested_field (?ev sp) (vmi_path @ [''spec'']) m = Some m1"
    "set_nested_field (JObj (?ann m1)) (vmi_path @ ''metadata'' # [''annotations'']) m1 = Some m'"
    by (auto simp: EnforceNetworkingRequirements_def split: option.splits sum.splits)
  from 1(2) obtain domain devices where 2: "map_of vmi ''domain'' = Some (JObj domain)" "map_of domain ''devices'' = Some (JObj devices)"
    by (auto simp: enforceBridgeInterface_def obj_field_def split: option.splits json.splits)
  have vmi: "nested_field (vmi_path @ [''spec'']) m = Some (JObj vmi)" using 1(1) by (auto simp: nested_map_def split: option.splits json.splits)
  have ifs: "vmi_interfaces m = arr_field ''interfaces'' devices"
    using nested_field_append [of "vmi_path @ [''spec'']" "[''domain'', ''devices'']" m] vmi 2 by (simp add: vmi_interfaces_def)
  have spec: "nested_field (vmi_path @ [''spec'']) m' = Some (?ev sp)"
    using set_nested_other [OF 1(4), of "''spec''" "[]"] nested_field_set_nested [OF 1(3)] by simp
  have ann: "nested_field (vmi_path @ [''metadata'', ''annotations'']) m' = Some (JObj (?ann m1))"
    using nested_field_set_nested [OF 1(4)] by simp
  have put: "list_all (\<lambda>(_, x). is_jstr x) a \<Longrightarrow> list_all (\<lambda>(_, x). is_jstr x) (obj_put k (JStr v) a)" for a :: jobj and k v
    by (induction a) auto
  have strs: "list_all (\<lambda>(_, x). is_jstr x) (?ann m1)"
    by (rule put) (auto simp: nested_string_map_def split: option.splits)
  have sp: "map_of sp ''domain'' = Some (JObj (obj_put ''devices'' (JObj (obj_put ''interfaces'' (JArr (bridged (vmi_interfaces m))) devices)) domain))"
    "arr_field ''networks'' sp \<noteq> []"
    using 1(2) 2 ifs by (auto simp: enforceBridgeInterface_def obj_field_def arr_field_def Let_def split: if_splits)
  show ?thesis
    using spec ann strs sp unfolding nested_map_def
    by (intro exI [of _ "obj_put ''evictionStrategy'' (JStr EvictionStrategyLiveMigrateIfPossible) sp"]
        exI [of _ "obj_put ''devices'' (JObj (obj_put ''interfaces'' (JArr (bridged (vmi_interfaces m))) devices)) domain"]
        exI [of _ "obj_put ''interfaces'' (JArr (bridged (vmi_interfaces m))) devices"] exI [of _ "?ann m1"])
      (auto simp: arr_field_def)
qed

text \<open>Writing what is there already changes nothing.\<close>

lemma obj_put_same: "map_of m k = Some v \<Longrightarrow> obj_put k v m = m"
  by (induction m) auto

lemma set_nested_same: "nested_field ks v = Some x \<Longrightarrow> ks \<noteq> [] \<Longrightarrow> set_nested_field x ks v = Some v"
  by (induction x ks v rule: set_nested_field.induct) (auto simp: obj_put_same split: option.splits)

lemma enforced_fixed:
  assumes "nested_field (vmi_path @ [''spec'']) m = Some (JObj vmi)" "map_of vmi ''domain'' = Some (JObj domain)"
    "map_of domain ''devices'' = Some (JObj devices)" "map_of devices ''interfaces'' = Some (JArr (bridged ifs))" "arr_field ''networks'' vmi \<noteq> []"
    "map_of vmi ''evictionStrategy'' = Some (JStr EvictionStrategyLiveMigrateIfPossible)"
    "nested_map (vmi_path @ [''metadata'', ''annotations'']) m = Some ann" "list_all (\<lambda>(_, x). is_jstr x) ann"
    "map_of ann LiveMigrationAnnotation = Some (JStr [])"
  shows "EnforceNetworkingRequirements m = Inr m"
proof -
  have bridge: "enforceBridgeInterface vmi = Inr vmi"
    using assms(2-5) bridged_props(3) [of ifs]
    by (simp add: enforceBridgeInterface_def obj_field_def arr_field_def obj_put_same Let_def)
  have "nested_field (vmi_path @ [''metadata'', ''annotations'']) m = Some (JObj ann)"
    using assms(7) by (auto simp: nested_map_def split: option.splits json.splits)
  then have "set_nested_field (JObj ann) (vmi_path @ [''metadata'', ''annotations'']) m = Some m"
    "set_nested_field (JObj vmi) (vmi_path @ [''spec'']) m = Some m"
    using assms(1) by (simp_all add: set_nested_same)
  then show ?thesis
    using assms(1,6-9) bridge by (simp add: EnforceNetworkingRequirements_def nested_map_def nested_string_map_def obj_put_same)
qed

text \<open>
  Claim C36. Enforced networking. A machine that \<open>EnforceNetworkingRequirements\<close> accepts has, afterwards,
  the eviction strategy and the live migration annotation, at least one network, and at least one
  interface; every interface that is an object binds by bridge and has neither masquerade nor
  another binding. A template around it passes \<open>ValidateNetworkingRequirements\<close> exactly when some
  interface is an object, and enforcing the result again returns it unchanged.
\<close>

theorem EnforceNetworkingRequirements_valid:
  assumes "EnforceNetworkingRequirements m = Inr m'"
  shows "nested_field (vmi_path @ [''spec'', ''evictionStrategy'']) m' = Some (JStr EvictionStrategyLiveMigrateIfPossible) \<and>
    nested_field (vmi_path @ [''metadata'', ''annotations'', LiveMigrationAnnotation]) m' = Some (JStr []) \<and>
    nested_slice (vmi_path @ [''spec'', ''networks'']) m' \<noteq> [] \<and> vmi_interfaces m' \<noteq> [] \<and>
    (\<forall>i. JObj i \<in> set (vmi_interfaces m') \<longrightarrow> map_of i ''bridge'' = Some (JObj []) \<and> map_of i ''masquerade'' = None \<and> map_of i ''binding'' = None) \<and>
    (ValidateNetworkingRequirements (JObj [(''spec'', JObj [(''template'', m')])]) = None \<longleftrightarrow> (\<exists>i. JObj i \<in> set (vmi_interfaces m'))) \<and>
    EnforceNetworkingRequirements m' = Inr m'"
proof -
  obtain vmi domain devices ann where vmi: "nested_field (vmi_path @ [''spec'']) m' = Some (JObj vmi)"
    and dev: "map_of vmi ''domain'' = Some (JObj domain)" "map_of domain ''devices'' = Some (JObj devices)"
      "map_of devices ''interfaces'' = Some (JArr (bridged (vmi_interfaces m)))" "arr_field ''networks'' vmi \<noteq> []"
      "map_of vmi ''evictionStrategy'' = Some (JStr EvictionStrategyLiveMigrateIfPossible)"
    and ann: "nested_map (vmi_path @ [''metadata'', ''annotations'']) m' = Some ann" "list_all (\<lambda>(_, x). is_jstr x) ann"
      "map_of ann LiveMigrationAnnotation = Some (JStr [])"
    using enforced_spec [OF assms] by blast
  have below: "nested_field (vmi_path @ ''spec'' # ks) m' = nested_field ks (JObj vmi)" for ks
    using nested_field_append [of "vmi_path @ [''spec'']" ks m'] vmi by simp
  have ann': "nested_field (vmi_path @ [''metadata'', ''annotations'']) m' = Some (JObj ann)"
    using ann(1) by (auto simp: nested_map_def split: option.splits json.splits)
  have ifs: "vmi_interfaces m' = bridged (vmi_interfaces m)"
    using dev by (simp add: vmi_interfaces_def below arr_field_def)
  have "has_bridge x \<longleftrightarrow> (\<exists>i. x = JObj i \<and> map_of i ''bridge'' \<noteq> None)" for x by (cases x) auto
  then have "has_bridge x \<longleftrightarrow> (\<exists>i. x = JObj i)" if "x \<in> set (bridged (vmi_interfaces m))" for x
    using that bridged_props(1) [of _ "vmi_interfaces m"] by auto
  then have some: "list_ex has_bridge (bridged (vmi_interfaces m)) \<longleftrightarrow> (\<exists>i. JObj i \<in> set (bridged (vmi_interfaces m)))"
    by (auto simp: list_ex_iff)
  have valid: "ValidateNetworkingRequirements (JObj [(''spec'', JObj [(''template'', m')])]) = None \<longleftrightarrow> (\<exists>i. JObj i \<in> set (vmi_interfaces m'))"
    using dev vmi ann some ifs
    by (simp add: ValidateNetworkingRequirements_def nested_map_def nested_string_map_def ann' validateBridgeInterface_def obj_field_def
        arr_field_def bridged_props(2))
  have fixed: "EnforceNetworkingRequirements m' = Inr m'"
    by (rule enforced_fixed [OF vmi dev(1-5) ann])
  have mig: "nested_field (vmi_path @ [''metadata'', ''annotations'', LiveMigrationAnnotation]) m' = Some (JStr [])"
    using nested_field_append [of "vmi_path @ [''metadata'', ''annotations'']" "[LiveMigrationAnnotation]" m'] ann' ann(3) by simp
  have nets: "nested_slice (vmi_path @ [''spec'', ''networks'']) m' \<noteq> []"
    using dev(4) by (auto simp: nested_slice_def below arr_field_def split: option.splits)
  show ?thesis using dev(5) mig nets valid fixed ifs bridged_props(1,2) by (simp add: below)
qed

definition demo_vm :: json where
  "demo_vm = JObj [(''spec'', JObj [(''virtualMachineTemplate'', JObj [(''spec'', JObj [(''template'', JObj [
     (''spec'', JObj [(''domain'', JObj [(''devices'', JObj [(''interfaces'', JArr [JObj [(''masquerade'', JObj [])]])])])])])])])])]"

theorem EnforceNetworkingRequirements_valid_witness:
  "\<exists>m'. EnforceNetworkingRequirements demo_vm = Inr m' \<and>
     ValidateNetworkingRequirements (JObj [(''spec'', JObj [(''template'', m')])]) = None \<and> EnforceNetworkingRequirements m' = Inr m'"
proof -
  have "\<exists>m' i. EnforceNetworkingRequirements demo_vm = Inr m' \<and> JObj i \<in> set (vmi_interfaces m')"
    by (simp add: demo_vm_def EnforceNetworkingRequirements_def enforceBridgeInterface_def nested_map_def nested_string_map_def
        vmi_path_def obj_field_def arr_field_def bridged_def vmi_interfaces_def)
  then show ?thesis using EnforceNetworkingRequirements_valid by blast
qed

subsection \<open>Retries and forwarding rules\<close>

lemma retryOnConflict_runs:
  assumes "logs fn R"
  shows "logs (retryOnConflict n fn) (\<lambda>r evs. \<exists>before as. evs = concat (List.map snd before) @ as \<and> length before \<le> n \<and> R r as \<and>
     (\<forall>(e, bs) \<in> set before. is_conflict e \<and> R (Some e) bs))"
proof (induction n)
  case 0
  show ?case
    by (subst retryOnConflict.simps, rule logs_bind [OF assms]) (auto intro!: logs_intros split: option.splits)
next
  case (Suc n)
  show ?case
  proof (subst retryOnConflict.simps, rule logs_bind [OF assms], rule logs_case_option, goal_cases)
    case (2 err evs e)
    then show ?case
    proof (intro logs_intros, goal_cases)
      case 1
      then show ?case by (intro exI [of _ "[]"] exI [of _ evs]) auto
    next
      case 2
      have "logs (retryOnConflict n fn) (\<lambda>r as. \<exists>before as'. evs @ as = concat (List.map snd before) @ as' \<and> length before \<le> Suc n \<and>
          R r as' \<and> (\<forall>(e, bs) \<in> set before. is_conflict e \<and> R (Some e) bs))"
      proof (rule logs_mono [OF Suc.IH], elim exE conjE)
        fix r as before as'
        assume "as = concat (List.map snd before) @ as'" "length before \<le> n" "R r as'"
          "\<forall>(e, bs) \<in> set before. is_conflict e \<and> R (Some e) bs"
        with 2 show "\<exists>before as'. evs @ as = concat (List.map snd before) @ as' \<and> length before \<le> Suc n \<and>
            R r as' \<and> (\<forall>(e, bs) \<in> set before. is_conflict e \<and> R (Some e) bs)"
          by (intro exI [of _ "(e, evs) # before"] exI [of _ as']) auto
      qed
      then show ?case by simp
    qed
  next
    case (1 err evs)
    then show ?case by (intro logs_intros exI [of _ "[]"] exI [of _ evs]) auto
  qed
qed

lemma servers_with_servers [simp]: "servers_of (with_servers ss (JObj m)) = ss"
  by (simp add: servers_of_def with_servers_def spec_of_def obj_field_def arr_field_def split: option.splits json.splits)

lemma replace_server_others:
  "named n d \<Longrightarrow> filter (\<lambda>s. \<not> named n s) (replace_server n d ss) = filter (\<lambda>s. \<not> named n s) ss"
  "d \<in> set (replace_server n d ss)"
  by (induction ss) auto

lemma named_desired [simp]: "named n (desired_server n f u)"
  by (simp add: desired_server_def)

text \<open>One attempt: a read, and an update of what was read.\<close>

definition dns_attempt :: "kclient \<Rightarrow> (json \<Rightarrow> json list option) \<Rightarrow> goerr option \<Rightarrow> event list \<Rightarrow> bool" where
  "dns_attempt c f r evs \<longleftrightarrow> (\<exists>x. evs = [EvGet c dns_kind [] ''default'' x] \<and>
       (r = None \<longrightarrow> x = Inl (ApiStatus NotFound) \<or> (\<exists>e. x = Inl e \<and> is_not_found e) \<or> (\<exists>m. x = Inr (OUnstructured (JObj m)) \<and> f (JObj m) = None)))
   \<or> (\<exists>m ss x. evs = [EvGet c dns_kind [] ''default'' (Inr (OUnstructured (JObj m))), EvUpdate c (OUnstructured (with_servers ss (JObj m))) x] \<and>
       f (JObj m) = Some ss \<and> r = err_of x)"

definition ensured :: "string \<Rightarrow> string \<Rightarrow> string \<Rightarrow> json \<Rightarrow> json list option" where
  "ensured n fqdn upstream ob = Some (replace_server n (desired_server n fqdn upstream) (servers_of ob))"

definition removed :: "string \<Rightarrow> json \<Rightarrow> json list option" where
  "removed n ob = (if list_ex (named n) (servers_of ob) then Some (filter (\<lambda>s. \<not> named n s) (servers_of ob)) else None)"

lemma filter_length_eq: "length (filter P xs) = length xs \<longleftrightarrow> list_all P xs"
  by (metis filter_id_conv length_filter_less less_irrefl list_all_iff)

lemma RemoveDNSForwardingRule_runs:
  "logs (RemoveDNSForwardingRule E c cn ns) (\<lambda>r evs. \<exists>before as. evs = concat (List.map snd before) @ as \<and> length before \<le> 3 \<and>
     dns_attempt c (removed (ruleName ns cn)) r as \<and>
     (\<forall>(e, bs) \<in> set before. is_conflict e \<and> dns_attempt c (removed (ruleName ns cn)) (Some e) bs))"
  unfolding RemoveDNSForwardingRule_def
proof (rule retryOnConflict_runs)
  have all: "\<not> list_ex P xs \<longleftrightarrow> list_all (\<lambda>x. \<not> P x) xs" for P :: "json \<Rightarrow> bool" and xs by (induction xs) auto
  show "logs (do { r \<leftarrow> get_as E as_unstructured c dns_kind [] ''default'';
     case r of
       Inl e \<Rightarrow> ret (if is_not_found e then None else Some e)
     | Inr ob \<Rightarrow>
         let servers = servers_of ob; filtered = filter (\<lambda>s. \<not> named (ruleName ns cn) s) servers in
         if length filtered = length servers then ret None
         else do {
           x \<leftarrow> kupdate E c (OUnstructured (with_servers filtered ob));
           ret (err_of x) } }) (dns_attempt c (removed (ruleName ns cn)))"
    unfolding get_as_def kcall_defs Let_def filter_length_eq
    by (simp only: prog_simps, intro logs_call_bind logs_intros)
      (auto simp: dns_attempt_def removed_def decode_def all [symmetric] split: sum.splits option.splits)
qed

lemma err_of_None_iff: "None = err_of x \<longleftrightarrow> (\<exists>y. x = Inr y)"
  by (cases x) auto

definition ensured_run :: "kclient \<Rightarrow> (json \<Rightarrow> json list option) \<Rightarrow> goerr option \<Rightarrow> event list \<Rightarrow> bool" where
  "ensured_run c f r as \<longleftrightarrow> dns_attempt c f r as \<and> (r = None \<longrightarrow> length as = 2)"

lemma EnsureDNSForwardingRule_runs:
  fixes c cn bd ip ns
  assumes "ip \<noteq> []"
  defines "f \<equiv> ensured (ruleName ns cn) (cn @ ''.'' @ bd) (JoinHostPort ip ''5353'')"
  shows "logs (EnsureDNSForwardingRule E c cn bd ip ns) (\<lambda>r evs. \<exists>before as. evs = concat (List.map snd before) @ as \<and> length before \<le> 3 \<and>
     ensured_run c f r as \<and> (\<forall>(e, bs) \<in> set before. is_conflict e \<and> ensured_run c f (Some e) bs))"
  unfolding EnsureDNSForwardingRule_def if_not_P [OF assms(1)]
  apply (rule retryOnConflict_runs)
  unfolding get_as_def kcall_defs
  apply (simp only: prog_simps, intro logs_call_bind logs_intros)
   apply (auto simp: ensured_run_def dns_attempt_def f_def ensured_def decode_def split: sum.splits option.splits)
  done

text \<open>
  Every update of a sequence of attempts rewrites an object that was read, and a success ends
  with an accepted update or with nothing to do.
\<close>

lemma attempts_updates:
  assumes "evs = concat (List.map snd before) @ as" "dns_attempt c f r as" "\<forall>(e, bs) \<in> set before. dns_attempt c f (Some e) bs"
    and "EvUpdate c' ob x \<in> set evs"
  shows "\<exists>m ss. c' = c \<and> EvGet c dns_kind [] ''default'' (Inr (OUnstructured (JObj m))) \<in> set evs \<and>
     f (JObj m) = Some ss \<and> ob = OUnstructured (with_servers ss (JObj m))"
proof -
  obtain r' bs where bs: "dns_attempt c f r' bs" "EvUpdate c' ob x \<in> set bs" "set bs \<subseteq> set evs"
    using assms by fastforce
  then show ?thesis unfolding dns_attempt_def by auto
qed

lemma attempts_count:
  assumes "evs = concat (List.map snd before) @ as" "dns_attempt c f r as" "\<forall>(e, bs) \<in> set before. dns_attempt c f (Some e) bs"
  shows "length (filter is_write evs) \<le> Suc (length before)"
proof -
  have one: "dns_attempt c f r' bs \<Longrightarrow> length (filter is_write bs) \<le> 1" for r' bs
    by (auto simp: dns_attempt_def)
  have "length (filter is_write (concat (List.map snd before))) \<le> length before"
    using assms(3) by (induction before) (auto dest!: one)
  with one [OF assms(2)] assms(1) show ?thesis by simp
qed

text \<open>
  Claim C37. The DNS forwarding rule of a tenant. With the address of its DNS proxy known, ensuring the
  rule of cluster \<open>cn\<close> in namespace \<open>ns\<close> makes at most four updates, all of the DNS operator's
  object just read: the servers of other names stay as they are and in order, and the wanted server
  is among them; success means that the last call is an accepted update.
\<close>

theorem EnsureDNSForwardingRule_updates:
  assumes "run_state (EnsureDNSForwardingRule E c cn bd ip ns) (start s) = (r, w)" and "ip \<noteq> []"
  shows "length (filter is_write (w_trace w)) \<le> 4 \<and>
    (\<forall>c' ob x. EvUpdate c' ob x \<in> set (w_trace w) \<longrightarrow> (\<exists>m m'. c' = c \<and> ob = OUnstructured (JObj m') \<and>
       EvGet c dns_kind [] ''default'' (Inr (OUnstructured (JObj m))) \<in> set (w_trace w) \<and>
       desired_server (ruleName ns cn) (cn @ ''.'' @ bd) (JoinHostPort ip ''5353'') \<in> set (servers_of (JObj m')) \<and>
       filter (\<lambda>s. \<not> named (ruleName ns cn) s) (servers_of (JObj m')) = filter (\<lambda>s. \<not> named (ruleName ns cn) s) (servers_of (JObj m)))) \<and>
    (r = None \<longrightarrow> (\<exists>ob y. last (w_trace w) = EvUpdate c ob (Inr y)))"
proof -
  let ?f = "ensured (ruleName ns cn) (cn @ ''.'' @ bd) (JoinHostPort ip ''5353'')"
  obtain before as where evs: "w_trace w = concat (List.map snd before) @ as" "length before \<le> 3" "ensured_run c ?f r as"
      "\<forall>(e, bs) \<in> set before. is_conflict e \<and> ensured_run c ?f (Some e) bs"
    using logs_start [OF EnsureDNSForwardingRule_runs [OF assms(2)] assms(1)] by blast
  then have att: "dns_attempt c ?f r as" "\<forall>(e, bs) \<in> set before. dns_attempt c ?f (Some e) bs"
    by (auto simp: ensured_run_def)
  have "length (filter is_write (w_trace w)) \<le> 4"
    using attempts_count [OF evs(1) att] evs(2) by linarith
  moreover have "\<exists>m m'. c' = c \<and> ob = OUnstructured (JObj m') \<and>
       EvGet c dns_kind [] ''default'' (Inr (OUnstructured (JObj m))) \<in> set (w_trace w) \<and>
       desired_server (ruleName ns cn) (cn @ ''.'' @ bd) (JoinHostPort ip ''5353'') \<in> set (servers_of (JObj m')) \<and>
       filter (\<lambda>s. \<not> named (ruleName ns cn) s) (servers_of (JObj m')) = filter (\<lambda>s. \<not> named (ruleName ns cn) s) (servers_of (JObj m))"
    if up: "EvUpdate c' ob x \<in> set (w_trace w)" for c' ob x
  proof -
    obtain m ss where m: "c' = c" "EvGet c dns_kind [] ''default'' (Inr (OUnstructured (JObj m))) \<in> set (w_trace w)"
      "?f (JObj m) = Some ss" "ob = OUnstructured (with_servers ss (JObj m))"
      using attempts_updates [OF evs(1) att up] by blast
    obtain m' where m': "with_servers ss (JObj m) = JObj m'" by (simp add: with_servers_def)
    then have "servers_of (JObj m') = replace_server (ruleName ns cn) (desired_server (ruleName ns cn) (cn @ ''.'' @ bd) (JoinHostPort ip ''5353'')) (servers_of (JObj m))"
      using servers_with_servers [of ss m] m(3) by (simp add: ensured_def)
    with m m' show ?thesis by (intro exI [of _ m] exI [of _ m']) (simp add: replace_server_others)
  qed
  moreover have "\<exists>ob y. last (w_trace w) = EvUpdate c ob (Inr y)" if "r = None"
    using evs(1,3) that by (auto simp: ensured_run_def dns_attempt_def err_of_None_iff)
  ultimately show ?thesis by blast
qed

text \<open>A DNS operator object with a rule of another tenant, and a server that stores updates.\<close>

definition demo_dns :: "json list \<Rightarrow> unit env" where
  "demo_dns ss = nowhere\<lparr>k_get := (\<lambda>c k ns n s. (Inr (OUnstructured (JObj [(''spec'', JObj [(''servers'', JArr ss)])])), s)),
     k_update := (\<lambda>c ob s. (Inr ob, s))\<rparr>"

lemmas demo_dns_run = demo_dns_def EnsureDNSForwardingRule_def RemoveDNSForwardingRule_def retryOnConflict.simps get_as_def kcall_defs
  call_def start_def nowhere_def servers_of_def spec_of_def obj_field_def arr_field_def Let_def

theorem EnsureDNSForwardingRule_updates_witness:
  "\<exists>m'. EvUpdate Mgmt (OUnstructured (JObj m')) (Inr (OUnstructured (JObj m'))) \<in>
     set (w_trace (snd (run_state (EnsureDNSForwardingRule (demo_dns []) Mgmt ''c'' ''d'' ''10.0.0.1'' ''a'') (start ())))) \<and>
     desired_server ''a-c-dns'' ''c.d'' ''10.0.0.1:5353'' \<in> set (servers_of (JObj m'))"
proof -
  let ?m = "EnsureDNSForwardingRule (demo_dns []) Mgmt ''c'' ''d'' ''10.0.0.1'' ''a''"
  obtain r w where run: "run_state ?m (start ()) = (r, w)" by (meson surj_pair)
  have "\<exists>ob. EvUpdate Mgmt (OUnstructured ob) (Inr (OUnstructured ob)) \<in> set (w_trace (snd (run_state ?m (start ()))))"
    by (simp add: demo_dns_run)
  then obtain ob where ob: "EvUpdate Mgmt (OUnstructured ob) (Inr (OUnstructured ob)) \<in> set (w_trace w)" using run by auto
  from EnsureDNSForwardingRule_updates [OF run] ob obtain m' where "ob = JObj m'"
    "desired_server (ruleName ''a'' ''c'') (''c'' @ ''.'' @ ''d'') (JoinHostPort ''10.0.0.1'' ''5353'') \<in> set (servers_of (JObj m'))" by blast
  with ob run show ?thesis by (auto simp: ruleName_def JoinHostPort_def)
qed

text \<open>
  Removing the rule of a tenant removes every server with the rule's name from the object
  just read and keeps all others in order; at most four updates are made; and success means that
  there was nothing to remove or that the last call is an accepted update without that name.
\<close>

theorem RemoveDNSForwardingRule_updates:
  assumes "run_state (RemoveDNSForwardingRule E c cn ns) (start s) = (r, w)"
  shows "length (filter is_write (w_trace w)) \<le> 4 \<and>
    (\<forall>c' ob x. EvUpdate c' ob x \<in> set (w_trace w) \<longrightarrow> (\<exists>m m'. c' = c \<and> ob = OUnstructured (JObj m') \<and>
       EvGet c dns_kind [] ''default'' (Inr (OUnstructured (JObj m))) \<in> set (w_trace w) \<and>
       servers_of (JObj m') = filter (\<lambda>s. \<not> named (ruleName ns cn) s) (servers_of (JObj m)))) \<and>
    (r = None \<longrightarrow> (\<exists>ob y. last (w_trace w) = EvUpdate c ob (Inr y)) \<or>
       (\<exists>e. last (w_trace w) = EvGet c dns_kind [] ''default'' (Inl e) \<and> is_not_found e) \<or>
       (\<exists>m. last (w_trace w) = EvGet c dns_kind [] ''default'' (Inr (OUnstructured (JObj m))) \<and> \<not> list_ex (named (ruleName ns cn)) (servers_of (JObj m))))"
proof -
  let ?f = "removed (ruleName ns cn)"
  obtain before as where evs: "w_trace w = concat (List.map snd before) @ as" "length before \<le> 3" "dns_attempt c ?f r as"
      "\<forall>(e, bs) \<in> set before. is_conflict e \<and> dns_attempt c ?f (Some e) bs"
    using logs_start [OF RemoveDNSForwardingRule_runs assms] by blast
  then have att: "\<forall>(e, bs) \<in> set before. dns_attempt c ?f (Some e) bs" by auto
  have "length (filter is_write (w_trace w)) \<le> 4"
    using attempts_count [OF evs(1,3) att] evs(2) by linarith
  moreover have "\<exists>m m'. c' = c \<and> ob = OUnstructured (JObj m') \<and>
       EvGet c dns_kind [] ''default'' (Inr (OUnstructured (JObj m))) \<in> set (w_trace w) \<and>
       servers_of (JObj m') = filter (\<lambda>s. \<not> named (ruleName ns cn) s) (servers_of (JObj m))"
    if up: "EvUpdate c' ob x \<in> set (w_trace w)" for c' ob x
  proof -
    obtain m ss where m: "c' = c" "EvGet c dns_kind [] ''default'' (Inr (OUnstructured (JObj m))) \<in> set (w_trace w)"
      "?f (JObj m) = Some ss" "ob = OUnstructured (with_servers ss (JObj m))"
      using attempts_updates [OF evs(1,3) att up] by blast
    obtain m' where m': "with_servers ss (JObj m) = JObj m'" by (simp add: with_servers_def)
    then have "servers_of (JObj m') = filter (\<lambda>s. \<not> named (ruleName ns cn) s) (servers_of (JObj m))"
      using servers_with_servers [of ss m] m(3) by (simp add: removed_def split: if_splits)
    with m m' show ?thesis by (intro exI [of _ m] exI [of _ m']) simp
  qed
  moreover have "(\<exists>ob y. last (w_trace w) = EvUpdate c ob (Inr y)) \<or>
       (\<exists>e. last (w_trace w) = EvGet c dns_kind [] ''default'' (Inl e) \<and> is_not_found e) \<or>
       (\<exists>m. last (w_trace w) = EvGet c dns_kind [] ''default'' (Inr (OUnstructured (JObj m))) \<and> \<not> list_ex (named (ruleName ns cn)) (servers_of (JObj m)))"
    if "r = None"
    using evs(1,3) that by (auto simp: dns_attempt_def removed_def err_of_None_iff split: if_splits)
  ultimately show ?thesis by blast
qed

theorem RemoveDNSForwardingRule_updates_witness:
  "\<exists>m'. EvUpdate Mgmt (OUnstructured (JObj m')) (Inr (OUnstructured (JObj m'))) \<in>
     set (w_trace (snd (run_state (RemoveDNSForwardingRule (demo_dns [desired_server ''a-c-dns'' ''c.d'' ''10.0.0.1:5353'', JNull]) Mgmt ''c'' ''a'') (start ())))) \<and>
     servers_of (JObj m') = [JNull]"
proof -
  let ?ss = "[desired_server ''a-c-dns'' ''c.d'' ''10.0.0.1:5353'', JNull]"
  let ?m = "RemoveDNSForwardingRule (demo_dns ?ss) Mgmt ''c'' ''a''"
  obtain r w where run: "run_state ?m (start ()) = (r, w)" by (meson surj_pair)
  have "\<exists>ob. EvUpdate Mgmt (OUnstructured ob) (Inr (OUnstructured ob)) \<in> set (w_trace (snd (run_state ?m (start ())))) \<and>
      (\<forall>m. EvGet Mgmt dns_kind [] ''default'' (Inr (OUnstructured (JObj m))) \<in> set (w_trace (snd (run_state ?m (start ())))) \<longrightarrow> servers_of (JObj m) = ?ss)"
    by (simp add: demo_dns_run ruleName_def desired_server_def)
  then obtain ob where ob: "EvUpdate Mgmt (OUnstructured ob) (Inr (OUnstructured ob)) \<in> set (w_trace w)"
    and get: "\<And>m. EvGet Mgmt dns_kind [] ''default'' (Inr (OUnstructured (JObj m))) \<in> set (w_trace w) \<Longrightarrow> servers_of (JObj m) = ?ss"
    using run by auto
  from RemoveDNSForwardingRule_updates [OF run] ob obtain m m' where "ob = JObj m'"
    "EvGet Mgmt dns_kind [] ''default'' (Inr (OUnstructured (JObj m))) \<in> set (w_trace w)"
    "servers_of (JObj m') = filter (\<lambda>s. \<not> named (ruleName ''a'' ''c'') s) (servers_of (JObj m))" by blast
  with ob run get show ?thesis by (auto simp: ruleName_def desired_server_def)
qed

text \<open>
  The name of a rule does not determine its tenant: the rule of cluster \<open>b-c\<close> in namespace
  \<open>a\<close> has the name of the rule of cluster \<open>c\<close> in namespace \<open>a-b\<close>, so removing the first one removes the
  second one's rule.
\<close>

theorem dns_rule_name_collision:
  "EvUpdate Mgmt (OUnstructured (JObj [(''spec'', JObj [(''servers'', JArr [])])])) (Inr (OUnstructured (JObj [(''spec'', JObj [(''servers'', JArr [])])]))) \<in>
     set (w_trace (snd (run_state (RemoveDNSForwardingRule (demo_dns [desired_server (ruleName ''a-b'' ''c'') ''c.d'' ''10.0.0.1:5353'']) Mgmt ''b-c'' ''a'')
       (start ()))))"
  by (simp add: demo_dns_run ruleName_def desired_server_def with_servers_def)

text \<open>
  The serial of the wildcard zone depends on the addresses only through their concatenation, so two
  lists of addresses that concatenate to the same text have the same serial.
\<close>

theorem zoneSerial_concat:
  assumes "concat ips = concat ips'"
  shows "zoneSerial ips = zoneSerial ips'"
proof -
  have "foldl (foldl fnv_step) h xs = foldl fnv_step h (concat xs)" for h xs by (induction xs arbitrary: h) auto
  then show ?thesis using assms by (simp add: zoneSerial_def)
qed

theorem zoneSerial_concat_witness:
  "[''10.0.0.1'', ''10.0.0.2''] \<noteq> [''10.0.0.11'', ''0.0.0.2''] \<and> zoneSerial [''10.0.0.1'', ''10.0.0.2''] = zoneSerial [''10.0.0.11'', ''0.0.0.2'']"
  using zoneSerial_concat [of "[''10.0.0.1'', ''10.0.0.2'']" "[''10.0.0.11'', ''0.0.0.2'']"] by simp

end
