(* ===== verification/Scaling.thy ===== *)
theory Scaling
  imports EtcdLifecycle KubeVirt
begin

text \<open>
  Replicas of the control plane (\<open>reconcileReplicas\<close> and what it calls in
  \<open>openshiftassistedcontrolplane_controller.go\<close>): building the machine, its infrastructure machine
  and its bootstrap config, creating them with cleanup on failure, deleting one machine on scale
  down, and the replica status.

  The infrastructure template is fetched and cloned by Cluster API functions, which are
  parameters. A loop over a machine collection runs in the order of the list the API server
  returned; the order of a Go map is arbitrary.
\<close>

definition MachinesCreatedCondition :: string where "MachinesCreatedCondition = ''MachinesCreated''"

definition isKubeVirtInfra :: "cluster \<Rightarrow> bool" where
  "isKubeVirtInfra cl \<longleftrightarrow> cr_kind (cl_infrastructureRef cl) = ''KubevirtCluster''"

subsection \<open>Desired objects\<close>

definition WatchLabel :: string where "WatchLabel = ''cluster.x-k8s.io/watch-filter''"

definition computeDesiredMachine :: "'s env \<Rightarrow> oacp \<Rightarrow> string \<Rightarrow> cluster \<Rightarrow> string \<Rightarrow> machine" where
  "computeDesiredMachine E ob name cl failureDomain =
    (let annotations = (if isKubeVirtInfra cl then Map.empty
           else [''bmac.agent-install.openshift.io/role'' \<mapsto> ''master'', preTerminateHookAnnotation \<mapsto> []]);
         labels = ControlPlaneMachineLabelsForCluster E ob (m_name (cl_meta cl));
         labels' = (case m_labels (cl_meta cl) WatchLabel of Some watch \<Rightarrow> labels(WatchLabel \<mapsto> watch) | None \<Rightarrow> labels) in
     empty_machine\<lparr>mc_meta := add_owner (oacp_owner_ref (Some True) ob) (empty_meta\<lparr>m_name := name,
         m_namespace := m_namespace (oacp_meta ob), m_labels := labels',
         m_annotations := mt_annotations (sp_machineTemplate (oacp_spec ob)) ++ annotations\<rparr>),
       mc_clusterName := m_name (cl_meta cl), mc_deletion := mt_deletion (sp_machineTemplate (oacp_spec ob)),
       mc_failureDomain := failureDomain\<rparr>)"

definition inheritKubeVirtConfigDefaults :: "oacp \<Rightarrow> oac_spec \<Rightarrow> oac_spec" where
  "inheritKubeVirtConfigDefaults ob spec =
    (let cfg = sp_config (oacp_spec ob);
         spec' = (if oac_pullSecretRef spec = None \<and> cfg_pullSecretRef cfg \<noteq> None
                  then spec\<lparr>oac_pullSecretRef := cfg_pullSecretRef cfg\<rparr> else spec) in
     if oac_sshAuthorizedKey spec' = [] \<and> cfg_sshAuthorizedKey cfg \<noteq> []
     then spec'\<lparr>oac_sshAuthorizedKey := cfg_sshAuthorizedKey cfg\<rparr> else spec')"

definition DiscoveryIgnitionOverrideAnnotation :: string where
  "DiscoveryIgnitionOverrideAnnotation = ''openshiftassistedconfig.cluster.x-k8s.io/discovery-ignition-override''"
definition IgnitionOverrideAnnotation :: string where
  "IgnitionOverrideAnnotation = ''openshiftassistedconfig.cluster.x-k8s.io/ignition-override''"

text \<open>Set an annotation that is not there yet to a non-empty value.\<close>

definition default_annotation :: "string \<Rightarrow> string \<Rightarrow> labels \<Rightarrow> labels" where
  "default_annotation k v m = (if m k = None \<and> v \<noteq> [] then m(k \<mapsto> v) else m)"

definition kubevirt_annotations :: "oacp \<Rightarrow> string \<Rightarrow> string \<Rightarrow> labels \<Rightarrow> labels" where
  "kubevirt_annotations ob apiServiceIP infraCoreDNSIP annotations =
    (let cfg = sp_config (oacp_spec ob);
         sshKey = cfg_sshAuthorizedKey cfg;
         tenant = (if cfg_clusterName cfg = [] then m_name (oacp_meta ob) else cfg_clusterName cfg);
         bridge = IsBridgeNetworking (cfg_apiVIPs cfg) (cfg_ingressVIPs cfg);
         api = (if bridge then [] else apiServiceIP);
         dns = (if bridge then [] else if infraCoreDNSIP = [] then ''172.30.0.10'' else infraCoreDNSIP) in
     default_annotation IgnitionOverrideAnnotation (KubeVirtInstallIgnitionOverride sshKey)
       (default_annotation DiscoveryIgnitionOverrideAnnotation
         (KubeVirtDiscoveryIgnitionOverride sshKey api tenant (cfg_baseDomain cfg) dns) annotations))"

definition generateOpenshiftAssistedConfig :: "'s env \<Rightarrow> oacp \<Rightarrow> string \<Rightarrow> string \<Rightarrow> string \<Rightarrow> string \<Rightarrow> cluster \<Rightarrow> oac" where
  "generateOpenshiftAssistedConfig E ob clusterName name apiServiceIP infraCoreDNSIP cl =
    (let labels = m_labels (oacp_meta ob) ++ ControlPlaneMachineLabelsForCluster E ob clusterName;
         annotations = (m_annotations (oacp_meta ob))(DataAnnotation := None) ++ mt_annotations (sp_machineTemplate (oacp_spec ob));
         annotations' = (if isKubeVirtInfra cl then kubevirt_annotations ob apiServiceIP infraCoreDNSIP annotations else annotations);
         spec = sp_oacSpec (oacp_spec ob) in
     \<lparr>oac_meta = add_owner (oacp_owner_ref None ob) (empty_meta\<lparr>m_name := name, m_namespace := m_namespace (oacp_meta ob),
        m_labels := labels, m_annotations := annotations'\<rparr>),
      oac_spec = (if isKubeVirtInfra cl then inheritKubeVirtConfigDefaults ob spec else spec), oac_status = empty_oac_status\<rparr>)"

subsection \<open>Creating a machine\<close>

definition ref_of :: "json \<Rightarrow> contract_ref" where
  "ref_of ob = \<lparr>cr_apiGroup = group_of (nested_string [''apiVersion''] ob), cr_kind = nested_string [''kind''] ob,
     cr_name = nested_string [''metadata'', ''name''] ob\<rparr>"

definition infra_failed :: "string \<Rightarrow> oacp \<Rightarrow> oacp" where
  "infra_failed msg = setConditionFalse MachinesCreatedCondition ''InfrastructureTemplateCloningFailed'' msg"

definition createInfraMachine ::
  "'s env \<Rightarrow> oacp \<Rightarrow> string \<Rightarrow> string \<Rightarrow> cluster \<Rightarrow> ('s, oacp \<times> (json \<times> contract_ref) res) prog" where
  "createInfraMachine E ob machineName clusterName cl = do {
     t \<leftarrow> kget_contract E (mt_infrastructureRef (sp_machineTemplate (oacp_spec ob))) (m_namespace (oacp_meta ob));
     case t of
       Inl e \<Rightarrow> ret (infra_failed ''error fetching infrastructure template'' ob, Inl e)
     | Inr template \<Rightarrow>
       (case x_generate_template E template \<lparr>ti_namespace = m_namespace (oacp_meta ob), ti_name = machineName,
            ti_clusterName = clusterName, ti_owner = oacp_owner_ref None ob,
            ti_labels = ControlPlaneMachineLabelsForCluster E ob clusterName,
            ti_annotations = mt_annotations (sp_machineTemplate (oacp_spec ob))\<rparr> of
         Inl e \<Rightarrow> ret (infra_failed ''error generating infrastructure clone'' ob, Inl e)
       | Inr clone \<Rightarrow> (case (if isKubeVirtInfra cl then EnforceNetworkingRequirements clone else Inr clone) of
           Inl e \<Rightarrow> ret (infra_failed ''error enforcing networking requirements'' ob, Inl e)
         | Inr infraMachine \<Rightarrow> do {
             c \<leftarrow> kcreate E Mgmt (OUnstructured infraMachine);
             ret (case decode as_unstructured c of
               Inl e \<Rightarrow> (infra_failed ''error creating infrastructure clone'' ob, Inl e)
             | Inr created \<Rightarrow> (ob, Inr (created, ref_of created))) })) }"

definition generateMachine ::
  "'s env \<Rightarrow> oacp \<Rightarrow> string \<Rightarrow> cluster \<Rightarrow> string \<Rightarrow> ('s, oacp \<times> (machine \<times> json) res) prog" where
  "generateMachine E ob name cl failureDomain = do {
     i \<leftarrow> createInfraMachine E ob name (m_name (cl_meta cl)) cl;
     ret (fst i, case snd i of
       Inl e \<Rightarrow> Inl e
     | Inr (infraObj, infraRef) \<Rightarrow>
         Inr ((computeDesiredMachine E ob name cl failureDomain)\<lparr>mc_infrastructureRef := infraRef\<rparr>, infraObj)) }"

text \<open>\<open>errors.Join\<close> of an error with the error of a cleanup.\<close>

definition join_cleanup :: "goerr \<Rightarrow> goerr option \<Rightarrow> goerr" where
  "join_cleanup e c = (case c of None \<Rightarrow> e | Some e' \<Rightarrow> Joined [e, e'])"

definition create_for_machine ::
  "'s env \<Rightarrow> oacp \<Rightarrow> machine \<Rightarrow> json \<Rightarrow> oac \<Rightarrow> ('s, oacp \<times> machine res) prog" where
  "create_for_machine E ob machine infraObj bootstrapConfig = do {
     b \<leftarrow> kcreate E Mgmt (OOAC bootstrapConfig);
     case decode as_oac b of
       Inl e \<Rightarrow> do {
         d \<leftarrow> kdelete E Mgmt (OUnstructured infraObj);
         ret (setConditionFalse MachinesCreatedCondition ''BootstrapTemplateCloningFailed'' ''error creating bootstrap config'' ob,
              Inl (join_cleanup e d)) }
     | Inr config \<Rightarrow> do {
         c \<leftarrow> kcreate E Mgmt (OMachine (machine\<lparr>mc_bootstrapConfigRef :=
           \<lparr>cr_apiGroup = ''bootstrap.cluster.x-k8s.io'', cr_kind = ''OpenshiftAssistedConfig'', cr_name = m_name (oac_meta config)\<rparr>\<rparr>));
         case decode as_machine c of
           Inl e \<Rightarrow> do {
             d1 \<leftarrow> kdelete E Mgmt (OOAC config);
             d2 \<leftarrow> kdelete E Mgmt (OUnstructured infraObj);
             ret (setConditionFalse MachinesCreatedCondition ''MachineGenerationFailed'' ''error creating machine'' ob,
                  Inl (join_cleanup (join_cleanup e d1) d2)) }
         | Inr created \<Rightarrow> ret (ob, Inr created) } }"

definition scaleUpControlPlane :: "'s env \<Rightarrow> oacp \<Rightarrow> cluster \<Rightarrow> string \<Rightarrow> ('s, oacp \<times> machine res) prog" where
  "scaleUpControlPlane E ob cl failureDomain = do {
     apiServiceIP \<leftarrow> (if isKubeVirtInfra cl then GetAPIServiceClusterIP E Mgmt (m_name (oacp_meta ob)) (m_namespace (oacp_meta ob)) else ret []);
     if isKubeVirtInfra cl \<and> apiServiceIP = [] then
       ret (ob, Inl (Errorf ''API service not yet available for KubeVirt cluster, will retry''))
     else do {
       name \<leftarrow> generate_name E (m_name (oacp_meta ob) @ ''-'');
       g \<leftarrow> generateMachine E ob name cl failureDomain;
       case snd g of
         Inl e \<Rightarrow> ret (fst g, Inl e)
       | Inr (machine, infraObj) \<Rightarrow> do {
           infraCoreDNSIP \<leftarrow> (if isKubeVirtInfra cl then GetInfraCoreDNSIP E Mgmt else ret []);
           create_for_machine E (fst g) machine infraObj
             (generateOpenshiftAssistedConfig E ob (m_name (cl_meta cl)) name apiServiceIP infraCoreDNSIP cl) } } }"

definition scaleDownControlPlane :: "'s env \<Rightarrow> machine list \<Rightarrow> string \<Rightarrow> ('s, machine res) prog" where
  "scaleDownControlPlane E eligibleMachines failureDomain = (case selectMachineForScaleDown eligibleMachines failureDomain of
     Inl e \<Rightarrow> ret (Inl (Opaquef ''failed to select machine for scale down'' e))
   | Inr machineToDelete \<Rightarrow> do {
       d \<leftarrow> kdelete E Mgmt (OMachine machineToDelete);
       ret (case d of
         Some e \<Rightarrow> if is_not_found e then Inr machineToDelete else Inl e
       | None \<Rightarrow> Inr machineToDelete) })"

subsection \<open>Replica status\<close>

definition isMachineUpToDate :: "'s env \<Rightarrow> machine \<Rightarrow> oacp \<Rightarrow> ('s, bool) prog" where
  "isMachineUpToDate E machine ob =
    (if mc_deletion machine \<noteq> mt_deletion (sp_machineTemplate (oacp_spec ob)) then ret False
     else if cr_name (mc_bootstrapConfigRef machine) = [] then ret False
     else do {
       b \<leftarrow> get_as E as_oac Mgmt KOAC (m_namespace (mc_meta machine)) (cr_name (mc_bootstrapConfigRef machine));
       ret (case b of Inl _ \<Rightarrow> False | Inr config \<Rightarrow> x_deep_derivative E (sp_oacSpec (oacp_spec ob)) (oac_spec config)) })"

definition setMachineUpToDateCondition :: "'s env \<Rightarrow> machine \<Rightarrow> bool \<Rightarrow> ('s, goerr option) prog" where
  "setMachineUpToDateCondition E machine isUpToDate =
    (let status = (if isUpToDate then CTrue else CFalse);
         reason = (if isUpToDate then ''UpToDate'' else ''NotUpToDate'') in
     case FindStatusCondition (mc_conditions machine) ''UpToDate'' of
       Some c \<Rightarrow> if c_status c = status \<and> c_reason c = reason then ret None
                 else patch_with_helper E (OMachine machine) (OMachine (machine_set (mk_condition ''UpToDate'' status reason []) machine))
     | None \<Rightarrow> patch_with_helper E (OMachine machine) (OMachine (machine_set (mk_condition ''UpToDate'' status reason []) machine)))"

definition machine_status :: "'s env \<Rightarrow> oacp \<Rightarrow> machine \<Rightarrow> ('s, bool) prog" where
  "machine_status E ob machine = do {
     up \<leftarrow> isMachineUpToDate E machine ob;
     _ \<leftarrow> setMachineUpToDateCondition E machine up;
     ret up }"

definition count32 :: "('a \<Rightarrow> bool) \<Rightarrow> 'a list \<Rightarrow> int32" where
  "count32 P xs = of_nat (length (filter P xs))"

definition set_replica_status :: "int32 \<Rightarrow> int32 \<Rightarrow> int32 \<Rightarrow> int32 \<Rightarrow> oacp \<Rightarrow> oacp" where
  "set_replica_status upToDate replicas available ready ob = ob\<lparr>oacp_status := (oacp_status ob)\<lparr>
     st_upToDateReplicas := Some upToDate, st_replicas := Some replicas, st_availableReplicas := Some available,
     st_readyReplicas := Some ready\<rparr>\<rparr>"

definition dec32 :: "int32 \<Rightarrow> string" where "dec32 n = dec_int (sint n)"

definition replica_conditions :: "int32 \<Rightarrow> oacp \<Rightarrow> oacp" where
  "replica_conditions ready ob =
    (let desired = sp_replicas (oacp_spec ob);
         ob' = (if ready = desired then setConditionTrue MachinesCreatedCondition ob else ob) in
     if ready = desired \<and> 0 <s desired then oacp_set (mk_condition ''MachinesReady'' CTrue ''MachinesReady'' []) ob'
     else if 0 <s desired then oacp_set (mk_condition ''MachinesReady'' CFalse ''MachinesNotReady''
       (dec32 ready @ '' of '' @ dec32 desired @ '' machines are ready'')) ob'
     else ob')"

definition updateReplicaStatus :: "'s env \<Rightarrow> oacp \<Rightarrow> machine list \<Rightarrow> ('s, oacp) prog" where
  "updateReplicaStatus E ob machines = do {
     ups \<leftarrow> for_each (machine_status E ob) machines;
     let ready = count32 (\<lambda>m. machine_is_true m ''Ready'') machines in
     ret (replica_conditions ready (set_replica_status (count32 id ups) (of_nat (length machines))
       (count32 (\<lambda>m. machine_is_true m ''Available'') machines) ready ob)) }"

definition mark_initialized :: "oacp \<Rightarrow> oacp" where
  "mark_initialized ob = (if st_controlPlaneInitialized (oacp_status ob) = Some True then ob
     else ob\<lparr>oacp_status := (oacp_status ob)\<lparr>st_controlPlaneInitialized := Some True\<rparr>\<rparr>)"

definition reconcileReplicas ::
  "'s env \<Rightarrow> (string list \<Rightarrow> string list) \<Rightarrow> oacp \<Rightarrow> cluster \<Rightarrow> ('s, oacp \<times> goerr option) prog" where
  "reconcileReplicas E order ob cl = do {
     r \<leftarrow> GetFilteredMachinesForCluster E cl [OwnedMachines ob, ActiveMachines];
     case r of
       Inl e \<Rightarrow> ret (ob, Some e)
     | Inr machines \<Rightarrow>
       let machinesToCreate = sint (sp_replicas (oacp_spec ob)) - int (length machines);
           ob1 = (if machinesToCreate \<le> 0 then mark_initialized ob else ob) in
       if 0 < machinesToCreate then
         (if isKubeVirtInfra cl \<and> list_ex (\<lambda>m. mc_dataSecretName m = None) machines then ret (ob1, None)
          else do {
            s \<leftarrow> scaleUpControlPlane E ob1 cl (NextFailureDomainForScaleUp order (Some cl) machines);
            case snd s of
              Inl e \<Rightarrow> ret (fst s, Some (Opaquef ''failed to scale up control plane'' e))
            | Inr _ \<Rightarrow> do { ob2 \<leftarrow> updateReplicaStatus E (fst s) machines; ret (ob2, None) } })
       else if machinesToCreate < 0 then do {
         s \<leftarrow> scaleDownControlPlane E machines (NextFailureDomainForScaleDown order (Some cl) machines);
         case s of
           Inl e \<Rightarrow> ret (ob1, Some (Opaquef ''failed to scale down control plane'' e))
         | Inr _ \<Rightarrow> do { ob2 \<leftarrow> updateReplicaStatus E ob1 machines; ret (ob2, None) } }
       else do { ob2 \<leftarrow> updateReplicaStatus E ob1 machines; ret (ob2, None) } }"

subsection \<open>The pull secret\<close>

definition ensurePullSecret :: "'s env \<Rightarrow> oacp \<Rightarrow> ('s, oacp \<times> goerr option) prog" where
  "ensurePullSecret E ob = (case cfg_pullSecretRef (sp_config (oacp_spec ob)) of
     Some _ \<Rightarrow> ret (ob, None)
   | None \<Rightarrow>
     let fake = GenerateFakePullSecret [] (m_namespace (oacp_meta ob));
         secret = fake\<lparr>se_meta := add_owner (oacp_owner_ref None ob) (se_meta fake)\<rparr> in do {
       c \<leftarrow> kcreate E Mgmt (OSecret secret);
       ret (case decode as_secret c of
         Inl e \<Rightarrow> (ob, Some e)
       | Inr created \<Rightarrow> (ob\<lparr>oacp_spec := (oacp_spec ob)\<lparr>sp_config := (sp_config (oacp_spec ob))\<lparr>cfg_pullSecretRef := Some (m_name (se_meta created))\<rparr>\<rparr>\<rparr>, None)) })"

subsection \<open>Properties of the desired objects\<close>

lemma upsert_empty [simp]: "m_ownerReferences m = [] \<Longrightarrow> m_ownerReferences (add_owner r m) = [r]"
  by (simp add: add_owner_def)

lemma add_owner_other [simp]:
  "m_name (add_owner r m) = m_name m" "m_namespace (add_owner r m) = m_namespace m" "m_labels (add_owner r m) = m_labels m"
  "m_annotations (add_owner r m) = m_annotations m" "m_deletionTimestamp (add_owner r m) = m_deletionTimestamp m"
  by (simp_all add: add_owner_def)

text \<open>
  A machine built for the control plane is one the controller will find again: the control
  plane owns and controls it, it is active, and it carries the labels that select the machines of the
  cluster, whatever the labels of the machine template. It carries the pre-terminate hook exactly
  when the infrastructure is not KubeVirt or the template asks for it.
\<close>

theorem computeDesiredMachine_found:
  "let m = computeDesiredMachine E ob name cl fd in
   OwnedMachines ob m \<and> IsControlledBy (mc_meta m) (oacp_meta ob) \<and> ActiveMachines m \<and>
   m_labels (mc_meta m) ClusterNameLabel = Some (m_name (cl_meta cl)) \<and> m_labels (mc_meta m) MachineControlPlaneLabel = Some [] \<and>
   m_namespace (mc_meta m) = m_namespace (oacp_meta ob) \<and> mc_failureDomain m = fd \<and>
   (HasHook m \<longleftrightarrow> (if isKubeVirtInfra cl then preTerminateHookAnnotation \<in> dom (mt_annotations (sp_machineTemplate (oacp_spec ob))) else True))"
proof -
  let ?m = "computeDesiredMachine E ob name cl fd"
  have owned: "OwnedMachines ob ?m"
    by (simp add: OwnedMachines_def computeDesiredMachine_def Let_def IsOwnedByObject_add_owner)
  have ctl: "IsControlledBy (mc_meta ?m) (oacp_meta ob)"
    by (simp add: IsControlledBy_def computeDesiredMachine_def Let_def oacp_owner_ref_def empty_meta_def)
  have lab: "m_labels (mc_meta ?m) ClusterNameLabel = Some (m_name (cl_meta cl))" "m_labels (mc_meta ?m) MachineControlPlaneLabel = Some []"
    using labels_forced [of E ob "m_name (cl_meta cl)"]
    by (simp_all add: computeDesiredMachine_def Let_def WatchLabel_def ClusterNameLabel_def MachineControlPlaneLabel_def split: option.splits)
  have hook: "HasHook ?m \<longleftrightarrow> \<not> isKubeVirtInfra cl \<or> preTerminateHookAnnotation \<in> dom (mt_annotations (sp_machineTemplate (oacp_spec ob)))"
    by (auto simp: HasAnnotationKey_def computeDesiredMachine_def Let_def)
  show ?thesis using owned ctl lab hook
    by (simp add: Let_def) (simp add: ActiveMachines_def computeDesiredMachine_def Let_def empty_meta_def)
qed

text \<open>
  Annotations of a generated bootstrap config: those of the machine template, then those of the
  control plane, except the conversion data; the generated ignition overrides never replace one
  that is already there, and are added on KubeVirt only.
\<close>

theorem generateOpenshiftAssistedConfig_annotations:
  "let c = m_annotations (oac_meta (generateOpenshiftAssistedConfig E ob cn name api dns cl));
       template = mt_annotations (sp_machineTemplate (oacp_spec ob)); own = m_annotations (oacp_meta ob) in
   (template k \<noteq> None \<longrightarrow> c k = template k) \<and>
   (template k = None \<and> k \<noteq> DataAnnotation \<and> own k \<noteq> None \<longrightarrow> c k = own k) \<and>
   (template DataAnnotation = None \<longrightarrow> c DataAnnotation = None) \<and>
   (c k \<noteq> None \<and> template k = None \<and> own k = None \<longrightarrow>
      isKubeVirtInfra cl \<and> k \<in> {DiscoveryIgnitionOverrideAnnotation, IgnitionOverrideAnnotation})"
proof -
  have neq: "DataAnnotation \<noteq> DiscoveryIgnitionOverrideAnnotation" "DataAnnotation \<noteq> IgnitionOverrideAnnotation"
    by (simp_all add: DataAnnotation_def DiscoveryIgnitionOverrideAnnotation_def IgnitionOverrideAnnotation_def)
  have keep: "m k \<noteq> None \<Longrightarrow> default_annotation k' v m k = m k" "k \<noteq> k' \<Longrightarrow> default_annotation k' v m k = m k" for m k k' v
    by (auto simp: default_annotation_def)
  let ?base = "(m_annotations (oacp_meta ob))(DataAnnotation := None) ++ mt_annotations (sp_machineTemplate (oacp_spec ob))"
  have kv: "?base k \<noteq> None \<Longrightarrow> kubevirt_annotations ob api dns ?base k = ?base k"
    "k \<in> {DiscoveryIgnitionOverrideAnnotation, IgnitionOverrideAnnotation} \<or> kubevirt_annotations ob api dns ?base k = ?base k" for k
    unfolding kubevirt_annotations_def Let_def by (simp add: keep(1)) (cases "k \<in> {DiscoveryIgnitionOverrideAnnotation, IgnitionOverrideAnnotation}", simp_all add: keep(2))
  have c: "m_annotations (oac_meta (generateOpenshiftAssistedConfig E ob cn name api dns cl)) =
      (if isKubeVirtInfra cl then kubevirt_annotations ob api dns ?base else ?base)"
    by (simp add: generateOpenshiftAssistedConfig_def Let_def)
  have base: "mt_annotations (sp_machineTemplate (oacp_spec ob)) k \<noteq> None \<Longrightarrow> ?base k = mt_annotations (sp_machineTemplate (oacp_spec ob)) k"
    "mt_annotations (sp_machineTemplate (oacp_spec ob)) k = None \<Longrightarrow> k \<noteq> DataAnnotation \<Longrightarrow> ?base k = m_annotations (oacp_meta ob) k"
    "mt_annotations (sp_machineTemplate (oacp_spec ob)) DataAnnotation = None \<Longrightarrow> ?base DataAnnotation = None"
    "mt_annotations (sp_machineTemplate (oacp_spec ob)) k = None \<Longrightarrow> m_annotations (oacp_meta ob) k = None \<Longrightarrow> ?base k = None" for k
    by (auto simp: map_add_def split: option.splits)
  show ?thesis unfolding Let_def c
    using kv [of k] kv [of DataAnnotation] base(1,2,4) [of k] base(3) neq by (cases "isKubeVirtInfra cl") (auto simp del: map_add_None)
qed

theorem generateOpenshiftAssistedConfig_annotations_witness:
  "let ob = empty_oacp\<lparr>oacp_meta := empty_meta\<lparr>m_annotations := [''a'' \<mapsto> ''own'']\<rparr>,
         oacp_spec := (oacp_spec empty_oacp)\<lparr>sp_machineTemplate := (sp_machineTemplate (oacp_spec empty_oacp))\<lparr>mt_annotations := [''a'' \<mapsto> ''template'']\<rparr>\<rparr>\<rparr>;
       c = m_annotations (oac_meta (generateOpenshiftAssistedConfig (nowhere :: unit env) ob ''cl'' ''m'' [] [] empty_cluster)) in
   c ''a'' = Some ''template'' \<and> c DataAnnotation = None"
  using generateOpenshiftAssistedConfig_annotations [of "nowhere :: unit env"
      "empty_oacp\<lparr>oacp_meta := empty_meta\<lparr>m_annotations := [''a'' \<mapsto> ''own'']\<rparr>,
         oacp_spec := (oacp_spec empty_oacp)\<lparr>sp_machineTemplate := (sp_machineTemplate (oacp_spec empty_oacp))\<lparr>mt_annotations := [''a'' \<mapsto> ''template'']\<rparr>\<rparr>\<rparr>"
      "''cl''" "''m''" "[]" "[]" empty_cluster "''a''"]
  by (simp add: Let_def DataAnnotation_def)

subsection \<open>Writes of a scale up\<close>

lemma decode_Inr_iff: "decode f x = Inr a \<longleftrightarrow> (\<exists>ob. x = Inr ob \<and> f ob = Some a)"
  by (auto simp: decode_def split: sum.splits option.splits)

definition with_bootstrap :: "oac \<Rightarrow> machine \<Rightarrow> machine" where
  "with_bootstrap config m = m\<lparr>mc_bootstrapConfigRef :=
     \<lparr>cr_apiGroup = ''bootstrap.cluster.x-k8s.io'', cr_kind = ''OpenshiftAssistedConfig'', cr_name = m_name (oac_meta config)\<rparr>\<rparr>"

text \<open>The writes of a scale up that got as far as an infrastructure machine \<open>infra\<close>.\<close>

definition machine_outcome :: "machine \<Rightarrow> json \<Rightarrow> oac \<Rightarrow> machine res \<Rightarrow> event list \<Rightarrow> bool" where
  "machine_outcome m infra b r evs \<longleftrightarrow>
     (\<exists>y d e. evs = [EvCreate Mgmt (OOAC b) y, EvDelete Mgmt (OUnstructured infra) d] \<and> decode as_oac y = Inl e \<and> isl r)
   \<or> (\<exists>config z d1 d2 e. evs = [EvCreate Mgmt (OOAC b) (Inr (OOAC config)), EvCreate Mgmt (OMachine (with_bootstrap config m)) z,
        EvDelete Mgmt (OOAC config) d1, EvDelete Mgmt (OUnstructured infra) d2] \<and> decode as_machine z = Inl e \<and> isl r)
   \<or> (\<exists>config mc. evs = [EvCreate Mgmt (OOAC b) (Inr (OOAC config)), EvCreate Mgmt (OMachine (with_bootstrap config m)) (Inr (OMachine mc))] \<and> r = Inr mc)"

lemma create_for_machine_logs:
  "logs (create_for_machine E ob m infra b) (\<lambda>r evs. machine_outcome m infra b (snd r) evs)"
  unfolding create_for_machine_def kcall_defs with_bootstrap_def [symmetric]
proof (intro logs_call_bind logs_intros, goal_cases)
  case (1 y e d)
  then show ?case unfolding machine_outcome_def by auto
next
  case (2 y config z e d1 d2)
  then show ?case unfolding machine_outcome_def by (auto simp: decode_Inr_iff)
next
  case (3 y config z mc)
  then show ?case unfolding machine_outcome_def by (auto simp: decode_Inr_iff)
qed

text \<open>A scale up: no write, a failed creation of the infrastructure machine, or one that succeeded.\<close>

definition scale_up_writes :: "oacp \<Rightarrow> cluster \<Rightarrow> string \<Rightarrow> machine res \<Rightarrow> event list \<Rightarrow> bool" where
  "scale_up_writes ob cl fd r ws \<longleftrightarrow>
     (ws = [] \<and> isl r)
   \<or> (\<exists>i x e. ws = [EvCreate Mgmt (OUnstructured i) x] \<and> decode as_unstructured x = Inl e \<and> isl r)
   \<or> (\<exists>i infra b m ws'. ws = EvCreate Mgmt (OUnstructured i) (Inr (OUnstructured infra)) # ws' \<and> machine_outcome m infra b r ws' \<and>
        OwnedMachines ob m \<and> mc_infrastructureRef m = ref_of infra \<and> mc_failureDomain m = fd \<and> IsOwnedByObject (oac_meta b) ob)"

lemma createInfraMachine_logs:
  "logs (createInfraMachine E ob n cn cl) (\<lambda>r evs. let ws = filter is_write evs in
     (ws = [] \<and> isl (snd r)) \<or> (\<exists>i x e. ws = [EvCreate Mgmt (OUnstructured i) x] \<and> decode as_unstructured x = Inl e \<and> isl (snd r)) \<or>
     (\<exists>i infra. ws = [EvCreate Mgmt (OUnstructured i) (Inr (OUnstructured infra))] \<and> snd r = Inr (infra, ref_of infra)))"
  unfolding createInfraMachine_def kcall_defs
  by (intro logs_call_bind logs_intros) (auto simp: Let_def decode_Inr_iff split: sum.splits)

lemma ip_reads:
  "logs (GetAPIServiceClusterIP E c n ns) (\<lambda>r evs. filter is_write evs = [])"
  "logs (GetInfraCoreDNSIP E c) (\<lambda>r evs. filter is_write evs = [])"
  "logs (generate_name E p) (\<lambda>r evs. filter is_write evs = [])"
  unfolding GetAPIServiceClusterIP_def GetServiceClusterIP_def GetInfraCoreDNSIP_def get_as_def kcall_defs
  by (simp_all only: prog_simps, (intro logs_call_bind logs_intros, simp)+)

lemma optional_read: "logs m (\<lambda>r evs. filter is_write evs = []) \<Longrightarrow> logs (if b then m else ret a) (\<lambda>r evs. filter is_write evs = [])"
  by (auto intro: logs_intros)

lemma desired_facts:
  "OwnedMachines ob ((computeDesiredMachine E ob n cl fd)\<lparr>mc_infrastructureRef := x\<rparr>)"
  "mc_failureDomain (computeDesiredMachine E ob n cl fd) = fd"
  "IsOwnedByObject (oac_meta (generateOpenshiftAssistedConfig E ob cn n api dns cl)) ob"
  by (simp_all add: OwnedMachines_def computeDesiredMachine_def generateOpenshiftAssistedConfig_def Let_def IsOwnedByObject_add_owner)

lemma scaleUpControlPlane_logs:
  "logs (scaleUpControlPlane E ob cl fd) (\<lambda>r evs. scale_up_writes ob cl fd (snd r) (filter is_write evs))"
  unfolding scaleUpControlPlane_def generateMachine_def prog_simps
proof (rule logs_bind [OF optional_read [OF ip_reads(1)]], rule logs_if, goal_cases)
  case (1 api evs)
  then show ?case by (auto intro!: logs_intros simp: scale_up_writes_def)
next
  case (2 api evs1)
  note none = 2(1)
  show ?case
  proof (rule logs_bind [OF ip_reads(3)], rule logs_bind [OF createInfraMachine_logs], rule logs_case_sum, goal_cases)
    case (1 name evs2 i evs3 e)
    with 2 show ?case by (auto intro!: logs_intros simp: Let_def scale_up_writes_def split: sum.splits)
  next
    case (2 name evs2 i evs3 mi)
    then obtain infra where i: "snd i = Inr (infra, ref_of infra)" and
      mi: "mi = ((computeDesiredMachine E ob name cl fd)\<lparr>mc_infrastructureRef := ref_of infra\<rparr>, infra)"
      and ws: "\<exists>j. filter is_write evs3 = [EvCreate Mgmt (OUnstructured j) (Inr (OUnstructured infra))]"
      by (auto simp: Let_def split: sum.splits)
    have mo: "machine_outcome m inf b r evs \<Longrightarrow> filter is_write evs = evs" for m inf b r evs
      by (auto simp: machine_outcome_def)
    show ?case unfolding mi prod.case
    proof (rule logs_bind [OF optional_read [OF ip_reads(2)]], rule logs_mono [OF create_for_machine_logs], goal_cases)
      case (1 dns evs4 r evs5)
      obtain j where j: "filter is_write evs3 = [EvCreate Mgmt (OUnstructured j) (Inr (OUnstructured infra))]" using ws by blast
      show ?case unfolding scale_up_writes_def filter_append none(1) \<open>filter is_write evs2 = []\<close> 1(1) mo [OF 1(2)] j append_Nil append_Cons
        using 1(2)
        by (intro disjI2 exI [of _ j] exI [of _ infra] exI [of _ "generateOpenshiftAssistedConfig E ob (m_name (cl_meta cl)) name api dns cl"]
            exI [of _ "(computeDesiredMachine E ob name cl fd)\<lparr>mc_infrastructureRef := ref_of infra\<rparr>"] exI [of _ evs5])
          (simp add: desired_facts)
    qed
  qed
qed

definition cleaned_up :: "event list \<Rightarrow> bool" where
  "cleaned_up ws \<longleftrightarrow> (\<forall>m mc. EvCreate Mgmt (OMachine m) (Inr (OMachine mc)) \<notin> set ws) \<and>
     (\<forall>i j. EvCreate Mgmt (OUnstructured i) (Inr (OUnstructured (JObj j))) \<in> set ws \<longrightarrow> (\<exists>d. EvDelete Mgmt (OUnstructured (JObj j)) d \<in> set ws)) \<and>
     (\<forall>b c. EvCreate Mgmt (OOAC b) (Inr (OOAC c)) \<in> set ws \<longrightarrow> (\<exists>d. EvDelete Mgmt (OOAC c) d \<in> set ws))"

lemma machine_outcome_cleaned:
  assumes "machine_outcome m infra b r ws'" "isl r"
  shows "cleaned_up (EvCreate Mgmt (OUnstructured i) (Inr (OUnstructured infra)) # ws')"
proof -
  from assms consider (config) y d e where "ws' = [EvCreate Mgmt (OOAC b) y, EvDelete Mgmt (OUnstructured infra) d]" "decode as_oac y = Inl e"
    | (machine) config z d1 d2 e where "ws' = [EvCreate Mgmt (OOAC b) (Inr (OOAC config)), EvCreate Mgmt (OMachine (with_bootstrap config m)) z,
        EvDelete Mgmt (OOAC config) d1, EvDelete Mgmt (OUnstructured infra) d2]" "decode as_machine z = Inl e"
    unfolding machine_outcome_def by auto
  then show ?thesis
  proof cases
    case config
    then show ?thesis unfolding cleaned_up_def by auto
  next
    case machine
    then show ?thesis unfolding cleaned_up_def by auto
  qed
qed

lemma scale_up_cleaned: "scale_up_writes ob cl fd r ws \<Longrightarrow> isl r \<Longrightarrow> cleaned_up ws"
  unfolding scale_up_writes_def
  by (elim disjE exE conjE, simp add: cleaned_up_def, force simp: cleaned_up_def, simp add: machine_outcome_cleaned)

text \<open>
  Claim C20. Scaling up is all or nothing. When \<open>scaleUpControlPlane\<close> returns a machine, its writes are
  the creations of an infrastructure machine, a bootstrap config and a machine, in this order; the
  machine is owned by the control plane, in the chosen failure domain, and refers to the two
  objects the API server returned. When it returns an error, no machine was created, and every
  infrastructure machine and every bootstrap config that was created is deleted again.
\<close>

theorem scaleUpControlPlane_atomic:
  assumes "run_state (scaleUpControlPlane E ob cl fd) (start s) = ((ob', r), w)"
  shows "(\<forall>mc. r = Inr mc \<longrightarrow> (\<exists>i infra b config m. filter is_write (w_trace w) =
       [EvCreate Mgmt (OUnstructured i) (Inr (OUnstructured infra)), EvCreate Mgmt (OOAC b) (Inr (OOAC config)),
        EvCreate Mgmt (OMachine m) (Inr (OMachine mc))] \<and>
       OwnedMachines ob m \<and> mc_failureDomain m = fd \<and> mc_infrastructureRef m = ref_of infra \<and>
       cr_name (mc_bootstrapConfigRef m) = m_name (oac_meta config))) \<and>
    (isl r \<longrightarrow> (\<forall>m mc. EvCreate Mgmt (OMachine m) (Inr (OMachine mc)) \<notin> set (w_trace w)) \<and>
       (\<forall>i j. EvCreate Mgmt (OUnstructured i) (Inr (OUnstructured (JObj j))) \<in> set (w_trace w) \<longrightarrow>
          (\<exists>d. EvDelete Mgmt (OUnstructured (JObj j)) d \<in> set (w_trace w))) \<and>
       (\<forall>b c. EvCreate Mgmt (OOAC b) (Inr (OOAC c)) \<in> set (w_trace w) \<longrightarrow> (\<exists>d. EvDelete Mgmt (OOAC c) d \<in> set (w_trace w))))"
proof -
  let ?ws = "filter is_write (w_trace w)"
  have ws: "scale_up_writes ob cl fd r ?ws" using logs_start [OF scaleUpControlPlane_logs assms] by simp
  have in_ws: "EvCreate c ob x \<in> set (w_trace w) \<longleftrightarrow> EvCreate c ob x \<in> set ?ws"
    "EvDelete c ob d \<in> set (w_trace w) \<longleftrightarrow> EvDelete c ob d \<in> set ?ws" for c ob x d by simp_all
  have ok: "\<exists>i infra b config m. ?ws = [EvCreate Mgmt (OUnstructured i) (Inr (OUnstructured infra)),
        EvCreate Mgmt (OOAC b) (Inr (OOAC config)), EvCreate Mgmt (OMachine m) (Inr (OMachine mc))] \<and>
       OwnedMachines ob m \<and> mc_failureDomain m = fd \<and> mc_infrastructureRef m = ref_of infra \<and>
       cr_name (mc_bootstrapConfigRef m) = m_name (oac_meta config)" if r: "r = Inr mc" for mc
  proof -
    from ws r obtain i infra b m ws' where w': "?ws = EvCreate Mgmt (OUnstructured i) (Inr (OUnstructured infra)) # ws'"
      "machine_outcome m infra b r ws'" "OwnedMachines ob m" "mc_infrastructureRef m = ref_of infra" "mc_failureDomain m = fd"
      by (auto simp: scale_up_writes_def)
    from w'(2) r obtain config where "ws' = [EvCreate Mgmt (OOAC b) (Inr (OOAC config)), EvCreate Mgmt (OMachine (with_bootstrap config m)) (Inr (OMachine mc))]"
      by (auto simp: machine_outcome_def)
    with w' show ?thesis
      by (intro exI [of _ i] exI [of _ infra] exI [of _ b] exI [of _ config] exI [of _ "with_bootstrap config m"])
        (simp add: with_bootstrap_def OwnedMachines_def)
  qed
  show ?thesis unfolding in_ws using ok scale_up_cleaned [OF ws] unfolding cleaned_up_def by blast
qed

subsection \<open>Replica status and the whole pass\<close>

definition is_status_patch :: "machine list \<Rightarrow> event \<Rightarrow> bool" where
  "is_status_patch ms e \<longleftrightarrow> (\<exists>m st rs x. m \<in> set ms \<and>
     e = EvHelperPatch (OMachine m) (OMachine (machine_set (mk_condition ''UpToDate'' st rs []) m)) False x)"

lemma for_each_logs:
  assumes "\<And>x. x \<in> set xs \<Longrightarrow> logs (f x) (\<lambda>r evs. \<forall>e \<in> set evs. P e)"
  shows "logs (for_each f xs) (\<lambda>rs evs. length rs = length xs \<and> (\<forall>e \<in> set evs. P e))"
  using assms
proof (induction xs)
  case (Cons x xs)
  then have x: "logs (f x) (\<lambda>r evs. \<forall>e \<in> set evs. P e)" and xs: "logs (for_each f xs) (\<lambda>rs evs. length rs = length xs \<and> (\<forall>e \<in> set evs. P e))"
    by simp_all
  show ?case unfolding for_each.simps
    by (rule logs_bind [OF x], rule logs_bind [OF xs], rule logs_return) auto
qed (simp add: logs_return)

lemma machine_status_logs:
  assumes "m \<in> set ms"
  shows "logs (machine_status E ob m) (\<lambda>r evs. \<forall>e \<in> set evs. is_write e \<longrightarrow> is_status_patch ms e)"
proof -
  have up: "logs (isMachineUpToDate E m ob) (\<lambda>r evs. filter is_write evs = [])"
    unfolding isMachineUpToDate_def get_as_def kcall_defs by (simp only: prog_simps, intro logs_intros logs_call_bind) auto
  have set: "logs (setMachineUpToDateCondition E m up) (\<lambda>r evs. \<forall>e \<in> set evs. is_write e \<longrightarrow> is_status_patch ms e)" for up
    unfolding setMachineUpToDateCondition_def Let_def patch_with_helper_def kcall_defs
    by (intro logs_intros) (use assms in \<open>auto simp: is_status_patch_def\<close>)
  show ?thesis unfolding machine_status_def
    by (rule logs_bind [OF up], rule logs_bind [OF set], rule logs_return) (auto simp: filter_empty_conv)
qed

text \<open>What the status says after a pass over \<open>ms\<close>.\<close>

definition replica_status_of :: "oacp \<Rightarrow> machine list \<Rightarrow> oacp \<Rightarrow> bool" where
  "replica_status_of ob ms ob' \<longleftrightarrow>
     st_replicas (oacp_status ob') = Some (of_nat (length ms)) \<and>
     st_readyReplicas (oacp_status ob') = Some (count32 (\<lambda>m. machine_is_true m ''Ready'') ms) \<and>
     st_availableReplicas (oacp_status ob') = Some (count32 (\<lambda>m. machine_is_true m ''Available'') ms) \<and>
     (\<exists>n \<le> length ms. st_upToDateReplicas (oacp_status ob') = Some (of_nat n)) \<and>
     (0 <s sp_replicas (oacp_spec ob) \<longrightarrow>
        (oacp_is_true ob' ''MachinesReady'' \<longleftrightarrow> count32 (\<lambda>m. machine_is_true m ''Ready'') ms = sp_replicas (oacp_spec ob)))"

lemma oacp_set_status [simp]:
  "st_replicas (oacp_status (oacp_set c ob)) = st_replicas (oacp_status ob)"
  "st_readyReplicas (oacp_status (oacp_set c ob)) = st_readyReplicas (oacp_status ob)"
  "st_availableReplicas (oacp_status (oacp_set c ob)) = st_availableReplicas (oacp_status ob)"
  "st_upToDateReplicas (oacp_status (oacp_set c ob)) = st_upToDateReplicas (oacp_status ob)"
  by (simp_all add: oacp_set_def oacp_put_conditions_def)

lemma is_true_oacp_set: "oacp_is_true (oacp_set (mk_condition t st rs m) ob) t \<longleftrightarrow> st = CTrue"
  by (simp add: oacp_is_true_def is_true_in_def oacp_cond.find_after_set mk_condition_def)

lemma replica_conditions_facts:
  "st_replicas (oacp_status (replica_conditions n ob)) = st_replicas (oacp_status ob)"
  "st_readyReplicas (oacp_status (replica_conditions n ob)) = st_readyReplicas (oacp_status ob)"
  "st_availableReplicas (oacp_status (replica_conditions n ob)) = st_availableReplicas (oacp_status ob)"
  "st_upToDateReplicas (oacp_status (replica_conditions n ob)) = st_upToDateReplicas (oacp_status ob)"
  "0 <s sp_replicas (oacp_spec ob) \<Longrightarrow> oacp_is_true (replica_conditions n ob) ''MachinesReady'' \<longleftrightarrow> n = sp_replicas (oacp_spec ob)"
  by (simp_all add: replica_conditions_def setConditionTrue_def Let_def is_true_oacp_set)

lemma updateReplicaStatus_logs:
  "logs (updateReplicaStatus E ob ms) (\<lambda>ob' evs. (\<forall>e \<in> set evs. is_write e \<longrightarrow> is_status_patch ms e) \<and> replica_status_of ob ms ob')"
  unfolding updateReplicaStatus_def Let_def
proof (rule logs_bind [OF for_each_logs [OF machine_status_logs]], assumption, rule logs_return, goal_cases)
  case (1 ups evs)
  have "\<exists>n \<le> length ms. count32 id ups = of_nat n"
    unfolding count32_def using 1 length_filter_le [of id ups] by (intro exI [of _ "length (filter id ups)"]) simp
  with 1 show ?case by (auto simp: replica_status_of_def replica_conditions_facts set_replica_status_def)
qed

text \<open>The creations and deletions of machines in a trace.\<close>

fun is_scaling :: "event \<Rightarrow> bool" where
  "is_scaling (EvCreate _ (OMachine _) _) = True"
| "is_scaling (EvDelete _ (OMachine _) _) = True"
| "is_scaling _ = False"

lemma is_scaling_write: "is_scaling e \<Longrightarrow> is_write e"
  by (cases e) auto

lemma filter_scaling: "filter is_scaling evs = filter is_scaling (filter is_write evs)"
  by (auto intro: filter_cong simp: is_scaling_write)

lemma no_scaling: "\<forall>e \<in> set evs. is_write e \<longrightarrow> is_status_patch ms e \<Longrightarrow> filter is_scaling evs = []"
  by (auto simp: filter_empty_conv is_status_patch_def dest: is_scaling_write)

lemma scale_up_scaling:
  assumes "scale_up_writes ob cl fd r (filter is_write evs)"
  shows "\<exists>m x. filter is_scaling evs \<in> {[], [EvCreate Mgmt (OMachine m) x]}"
  using assms unfolding filter_scaling [of evs] scale_up_writes_def machine_outcome_def by (elim disjE exE conjE) auto

lemma scaleDownControlPlane_logs:
  "logs (scaleDownControlPlane E ms fd) (\<lambda>r evs. evs = [] \<and> isl r \<or>
     (\<exists>m d. evs = [EvDelete Mgmt (OMachine m) d] \<and> m \<in> set ms \<and> mc_failureDomain m = fd \<and> (isl r \<longleftrightarrow> (\<exists>e. d = Some e \<and> \<not> is_not_found e))))"
proof -
  have sel: "selectMachineForScaleDown ms fd = Inr m \<Longrightarrow> m \<in> set ms \<and> mc_failureDomain m = fd" for m
    using hd_sort_key_min [of "filter (InFailureDomain fd) ms" creation_key]
    by (auto simp: selectMachineForScaleDown_def Oldest_def InFailureDomain_def split: option.splits if_splits)
  show ?thesis unfolding scaleDownControlPlane_def kcall_defs
    by (intro logs_intros logs_call_bind) (use sel in \<open>auto split: option.splits\<close>)
qed

definition owned_active :: "oacp \<Rightarrow> machine list \<Rightarrow> machine list" where
  "owned_active ob ms = filter (\<lambda>m. OwnedMachines ob m \<and> ActiveMachines m) ms"

text \<open>The machine created or deleted by a pass, and why.\<close>

definition scaling_ok :: "oacp \<Rightarrow> cluster \<Rightarrow> event list \<Rightarrow> bool" where
  "scaling_ok ob cl evs \<longleftrightarrow> filter is_scaling evs = []
   \<or> (\<exists>m x. filter is_scaling evs = [EvCreate Mgmt (OMachine m) x] \<and>
        saw_machines (\<lambda>ms. int (length (owned_active ob ms)) < sint (sp_replicas (oacp_spec ob)) \<and>
          (isKubeVirtInfra cl \<longrightarrow> (\<forall>m \<in> set (owned_active ob ms). mc_dataSecretName m \<noteq> None))) evs)
   \<or> (\<exists>m d. filter is_scaling evs = [EvDelete Mgmt (OMachine m) d] \<and>
        saw_machines (\<lambda>ms. sint (sp_replicas (oacp_spec ob)) < int (length (owned_active ob ms)) \<and> m \<in> set (owned_active ob ms)) evs)"

lemma mark_initialized_simps [simp]: "oacp_spec (mark_initialized ob) = oacp_spec ob" "oacp_meta (mark_initialized ob) = oacp_meta ob"
  by (simp_all add: mark_initialized_def)

lemma saw_machines_mono: "saw_machines P evs \<Longrightarrow> (\<And>xs. P xs \<Longrightarrow> Q xs) \<Longrightarrow> saw_machines Q evs"
  unfolding saw_machines_def by blast

lemma owned_active_filter: "filter (\<lambda>m. list_all (\<lambda>f. f m) [OwnedMachines ob, ActiveMachines]) xs = owned_active ob xs"
  by (simp add: owned_active_def)

lemma reads_no_scaling: "\<forall>e \<in> set evs. is_mgmt_read e \<Longrightarrow> filter is_scaling evs = []"
  by (auto simp: filter_empty_conv dest!: is_scaling_write is_mgmt_read_not_write)

lemma reconcileReplicas_logs:
  "logs (reconcileReplicas E order ob cl) (\<lambda>r evs. scaling_ok ob cl evs)"
  unfolding reconcileReplicas_def Let_def
proof (rule logs_bind [OF GetFilteredMachines_seen], rule logs_case_sum, goal_cases)
  case (1 r evs e)
  then show ?case by (auto intro!: logs_return simp: scaling_ok_def reads_no_scaling)
next
  case (2 r evs ms)
  then have none: "filter is_scaling evs = []" and seen: "saw_machines (\<lambda>xs. ms = owned_active ob xs) evs"
    by (auto simp: reads_no_scaling owned_active_def)
  show ?case
  proof (intro logs_intros, goal_cases)
    case 1
    then show ?case by (simp add: scaling_ok_def none)
  next
    case 2
    then have why: "saw_machines (\<lambda>xs. int (length (owned_active ob xs)) < sint (sp_replicas (oacp_spec ob)) \<and>
          (isKubeVirtInfra cl \<longrightarrow> (\<forall>m \<in> set (owned_active ob xs). mc_dataSecretName m \<noteq> None))) evs"
      by (intro saw_machines_mono [OF seen]) (auto simp: list_ex_iff)
    show ?case
      by (rule logs_bind [OF scaleUpControlPlane_logs], intro logs_intros logs_bind [OF updateReplicaStatus_logs])
        (use none why in \<open>auto simp: scaling_ok_def no_scaling dest!: scale_up_scaling\<close>)
  next
    case 3
    show ?case
    proof (rule logs_bind [OF scaleDownControlPlane_logs], intro logs_intros logs_bind [OF updateReplicaStatus_logs], goal_cases)
      case (1 s evs2 e)
      have "m \<in> set ms \<Longrightarrow> saw_machines (\<lambda>xs. sint (sp_replicas (oacp_spec ob)) < int (length (owned_active ob xs)) \<and> m \<in> set (owned_active ob xs)) evs" for m
        using 3 by (intro saw_machines_mono [OF seen]) auto
      with 1 none show ?case by (auto simp: scaling_ok_def)
    next
      case (2 s evs2 m' ob2 evs3)
      have "m \<in> set ms \<Longrightarrow> saw_machines (\<lambda>xs. sint (sp_replicas (oacp_spec ob)) < int (length (owned_active ob xs)) \<and> m \<in> set (owned_active ob xs)) evs" for m
        using 3 by (intro saw_machines_mono [OF seen]) auto
      with 2 none show ?case by (auto simp: scaling_ok_def no_scaling)
    qed
  next
    case 4
    show ?case
      by (rule logs_bind [OF updateReplicaStatus_logs], rule logs_return) (auto simp: scaling_ok_def no_scaling none)
  qed
qed

subsection \<open>Properties of a pass\<close>

text \<open>
  Claim C21. One step at a time. A pass of \<open>reconcileReplicas\<close> creates or deletes at most one machine. It tries to
  create one only when it saw fewer owned, active machines than replicas (and, on KubeVirt, only
  when each of them has its bootstrap data); it deletes one only when it saw more, and then one of those.
\<close>

theorem reconcileReplicas_one_step:
  assumes "run_state (reconcileReplicas E order ob cl) (start s) = (r, w)"
  shows "scaling_ok ob cl (w_trace w)"
  by (rule logs_start [OF reconcileReplicas_logs assms])

definition demo_scale :: "unit env" where
  "demo_scale = nowhere\<lparr>k_get_contract := (\<lambda>r ns s. (Inr (JObj []), s)), k_create := (\<lambda>c ob s. (Inr ob, s)), k_list := (\<lambda>c k opts s. (Inr [], s))\<rparr>"

definition demo_one :: oacp where
  "demo_one = empty_oacp\<lparr>oacp_spec := (oacp_spec empty_oacp)\<lparr>sp_replicas := 1\<rparr>\<rparr>"

lemmas demo_scale_run = demo_scale_def nowhere_def reconcileReplicas_def scaleUpControlPlane_def generateMachine_def createInfraMachine_def
  create_for_machine_def GetFilteredMachinesForCluster_def list_as_def get_as_def kcall_defs call_def start_def Let_def
  isKubeVirtInfra_def empty_cluster_def empty_ref_def updateReplicaStatus_def decode_def

theorem reconcileReplicas_one_step_witness:
  "\<exists>m x. EvCreate Mgmt (OMachine m) x \<in> set (w_trace (snd (run_state (reconcileReplicas demo_scale id demo_one empty_cluster) (start ())))) \<and>
     scaling_ok demo_one empty_cluster (w_trace (snd (run_state (reconcileReplicas demo_scale id demo_one empty_cluster) (start ()))))"
proof -
  let ?m = "reconcileReplicas demo_scale id demo_one empty_cluster"
  obtain r w where run: "run_state ?m (start ()) = (r, w)" by (meson surj_pair)
  have rep: "sp_replicas (oacp_spec demo_one) = 1" by (simp add: demo_one_def)
  have "\<exists>m x. EvCreate Mgmt (OMachine m) x \<in> set (w_trace (snd (run_state ?m (start ()))))"
    by (simp add: demo_scale_run rep)
  with reconcileReplicas_one_step [OF run] run show ?thesis by simp
qed

theorem scaleUpControlPlane_atomic_witness:
  "\<exists>i infra b config m mc. filter is_write (w_trace (snd (run_state (scaleUpControlPlane demo_scale demo_one empty_cluster ''az1'') (start ())))) =
       [EvCreate Mgmt (OUnstructured i) (Inr (OUnstructured infra)), EvCreate Mgmt (OOAC b) (Inr (OOAC config)),
        EvCreate Mgmt (OMachine m) (Inr (OMachine mc))] \<and> mc_failureDomain m = ''az1''"
proof -
  let ?m = "scaleUpControlPlane demo_scale demo_one empty_cluster ''az1''"
  obtain ob' r w where run: "run_state ?m (start ()) = ((ob', r), w)" by (metis surj_pair)
  have "\<exists>mc. snd (fst (run_state ?m (start ()))) = Inr mc"
    by (simp add: demo_scale_run)
  then obtain mc where "r = Inr mc" using run by auto
  with scaleUpControlPlane_atomic [OF run] run show ?thesis by (metis (no_types, lifting) snd_conv)
qed

text \<open>
  The replica status after a pass over the machines: the number of machines, of ready and of
  available ones, and at most as many up to date ones; with a positive number of replicas,
  MachinesReady is true exactly when that many machines are ready. The only writes are patches that
  set the UpToDate condition of one of these machines.
\<close>

theorem updateReplicaStatus_counts:
  assumes "run_state (updateReplicaStatus E ob ms) (start s) = (ob', w)"
  shows "replica_status_of ob ms ob' \<and> (\<forall>e \<in> set (w_trace w). is_write e \<longrightarrow> is_status_patch ms e)"
  using logs_start [OF updateReplicaStatus_logs assms] by blast

theorem updateReplicaStatus_counts_witness:
  "st_replicas (oacp_status (fst (run_state (updateReplicaStatus demo_scale demo_one [empty_machine, empty_machine]) (start ())))) = Some 2"
proof -
  obtain ob' w where run: "run_state (updateReplicaStatus demo_scale demo_one [empty_machine, empty_machine]) (start ()) = (ob', w)" by (meson surj_pair)
  from updateReplicaStatus_counts [OF run] run show ?thesis by (simp add: replica_status_of_def)
qed

text \<open>
  The placeholder pull secret cannot be shared: when a secret of that name already exists in the
  namespace (another control plane without a pull secret created it), \<open>ensurePullSecret\<close> fails and
  leaves the control plane without a reference, so every later pass fails the same way.
\<close>

theorem ensurePullSecret_stuck:
  assumes "\<And>c ob s. k_create E c ob s = (Inl (ApiStatus AlreadyExists), s)"
    and "cfg_pullSecretRef (sp_config (oacp_spec ob)) = None"
  shows "fst (run_state (ensurePullSecret E ob) w) = (ob, Some (ApiStatus AlreadyExists)) \<and>
    (\<exists>sec. w_trace (snd (run_state (ensurePullSecret E ob) w)) = w_trace w @ [EvCreate Mgmt (OSecret sec) (Inl (ApiStatus AlreadyExists))] \<and>
       m_name (se_meta sec) = ''placeholder-pull-secret'' \<and> m_namespace (se_meta sec) = m_namespace (oacp_meta ob))"
  using assms by (simp add: ensurePullSecret_def kcall_defs call_def Let_def GenerateFakePullSecret_def)

theorem ensurePullSecret_stuck_witness:
  "fst (run_state (ensurePullSecret (nowhere\<lparr>k_create := (\<lambda>c ob s. (Inl (ApiStatus AlreadyExists), s))\<rparr>) empty_oacp) (start ())) =
     (empty_oacp, Some (ApiStatus AlreadyExists))"
  using ensurePullSecret_stuck [of "nowhere\<lparr>k_create := (\<lambda>c ob s. (Inl (ApiStatus AlreadyExists), s))\<rparr>" empty_oacp "start ()"]
  by (simp add: empty_oacp_def empty_config_def)

end
