(* ===== verification/ControlPlane.thy ===== *)
theory ControlPlane
  imports Scaling
begin

text \<open>
  The control plane controller: \<open>Reconcile\<close>, deletion, and the steps around infrastructure and
  ClusterDeployment in \<open>openshiftassistedcontrolplane_controller.go\<close>.

  A handler that mutates the objects it was given returns them. \<open>Reconcile\<close> can also panic: its
  outcome is \<open>Returned\<close> with a result and an error, or \<open>Panicked\<close>; the deferred patch runs in
  both cases.
\<close>

subsection \<open>Infrastructure\<close>

definition resolveInfraVersion :: "contract_ref \<Rightarrow> string" where
  "resolveInfraVersion ref = (case map_of [
      ((''infrastructure.cluster.x-k8s.io'', ''KubevirtCluster''), ''v1alpha1''),
      ((''infrastructure.cluster.x-k8s.io'', ''KubevirtMachine''), ''v1alpha1''),
      ((''infrastructure.cluster.x-k8s.io'', ''KubevirtMachineTemplate''), ''v1alpha1''),
      ((''infrastructure.cluster.x-k8s.io'', ''Metal3Cluster''), ''v1beta1''),
      ((''infrastructure.cluster.x-k8s.io'', ''Metal3Machine''), ''v1beta1''),
      ((''infrastructure.cluster.x-k8s.io'', ''Metal3MachineTemplate''), ''v1beta1''),
      ((''bootstrap.cluster.x-k8s.io'', ''OpenshiftAssistedConfig''), ''v1alpha2''),
      ((''controlplane.cluster.x-k8s.io'', ''OpenshiftAssistedControlPlane''), ''v1alpha3'')] (cr_apiGroup ref, cr_kind ref) of
     Some v \<Rightarrow> v | None \<Rightarrow> ''v1beta1'')"

definition infra_kind :: "contract_ref \<Rightarrow> kind" where
  "infra_kind ref = KUnstructured (cr_apiGroup ref) (resolveInfraVersion ref) (cr_kind ref)"

definition isInfrastructureProvisioned :: "cluster \<Rightarrow> bool" where
  "isInfrastructureProvisioned cl = (case cl_infrastructureProvisioned cl of
     Some b \<Rightarrow> b
   | None \<Rightarrow> (case List.find (\<lambda>c. c_type c = ''InfrastructureReady'') (cl_conditions cl) of
       None \<Rightarrow> False | Some c \<Rightarrow> c_status c = CTrue))"

text \<open>The cluster in memory is changed before the patch, and stays so when the patch fails.\<close>

definition ensureInfrastructureProvisioned :: "'s env \<Rightarrow> cluster \<Rightarrow> ('s, cluster \<times> goerr option) prog" where
  "ensureInfrastructureProvisioned E cl =
    (let infraRef = cl_infrastructureRef cl in
     if cr_kind infraRef = [] \<or> cr_name infraRef = [] then ret (cl, Some (Errorf ''infrastructure ref not set''))
     else do {
       r \<leftarrow> get_as E as_unstructured Mgmt (infra_kind infraRef) (m_namespace (cl_meta cl)) (cr_name infraRef);
       case r of
         Inl e \<Rightarrow> ret (cl, Some e)
       | Inr infraObj \<Rightarrow>
         if \<not> nested_bool [''status'', ''ready''] infraObj then ret (cl, Some (Errorf ''infrastructure not ready''))
         else let cl' = cl\<lparr>cl_infrastructureProvisioned := Some True\<rparr> in do {
           p \<leftarrow> kstatus_patch E Mgmt (OCluster cl) (OCluster cl');
           ret (case decode as_cluster p of Inl e \<Rightarrow> (cl', Some e) | Inr updated \<Rightarrow> (updated, None)) } })"

definition endpoint_valid :: "cluster \<Rightarrow> bool" where
  "endpoint_valid cl \<longleftrightarrow> cl_endpointHost cl \<noteq> [] \<and> cl_endpointPort cl \<noteq> 0"

text \<open>The port of the infrastructure object is truncated to 32 bits.\<close>

definition propagateControlPlaneEndpoint :: "'s env \<Rightarrow> cluster \<Rightarrow> ('s, goerr option) prog" where
  "propagateControlPlaneEndpoint E cl =
    (let infraRef = cl_infrastructureRef cl in
     if cr_kind infraRef = [] \<or> cr_name infraRef = [] then ret (Some (Errorf ''infrastructure ref not set on cluster''))
     else do {
       r \<leftarrow> get_as E as_unstructured Mgmt (infra_kind infraRef) (m_namespace (cl_meta cl)) (cr_name infraRef);
       case r of
         Inl e \<Rightarrow> ret (Some (Wrapf ''failed to get infrastructure object'' e))
       | Inr infraObj \<Rightarrow>
         let host = nested_string [''spec'', ''controlPlaneEndpoint'', ''host''] infraObj;
             port = nested_int [''spec'', ''controlPlaneEndpoint'', ''port''] infraObj in
         if host = [] \<or> port = 0 then ret (Some (Errorf ''infrastructure object has no controlPlaneEndpoint set''))
         else do {
           u \<leftarrow> kupdate E Mgmt (OCluster (cl\<lparr>cl_endpointHost := host, cl_endpointPort := of_int port\<rparr>));
           ret (case u of Inl e \<Rightarrow> Some (Wrapf ''failed to update cluster controlPlaneEndpoint'' e) | Inr _ \<Rightarrow> None) } })"

subsection \<open>Infrastructure machines of KubeVirt\<close>

definition internal_ip :: "json \<Rightarrow> string option" where
  "internal_ip a = (case a of
     JObj m \<Rightarrow> (case map_of m ''address'' of
       Some (JStr s) \<Rightarrow> if map_of m ''type'' = Some (JStr ''InternalIP'') then Some s else None
     | _ \<Rightarrow> None)
   | _ \<Rightarrow> None)"

fun matchInternalIPFromUnstructured :: "json list \<Rightarrow> (string \<rightharpoonup> string) \<Rightarrow> string" where
  "matchInternalIPFromUnstructured [] ipMap = []"
| "matchInternalIPFromUnstructured (a # as) ipMap = (case internal_ip a of
     None \<Rightarrow> matchInternalIPFromUnstructured as ipMap
   | Some s \<Rightarrow> if s = [] then matchInternalIPFromUnstructured as ipMap
       else (case ipMap s of Some name \<Rightarrow> name | None \<Rightarrow> matchInternalIPFromUnstructured as ipMap))"

definition kv_addresses :: "json \<Rightarrow> json list" where
  "kv_addresses kvm = nested_slice [''status'', ''addresses''] kvm"

definition kv_name :: "json \<Rightarrow> string" where "kv_name kvm = nested_string [''metadata'', ''name''] kvm"

definition node_ips :: "node \<Rightarrow> string list" where
  "node_ips nd = List.map snd (filter (\<lambda>(t, _). t = ''InternalIP'') (nd_addresses nd))"

definition shares_ip :: "node \<Rightarrow> json \<Rightarrow> bool" where
  "shares_ip nd kvm = list_ex (\<lambda>ip. list_ex (\<lambda>a. internal_ip a = Some ip) (kv_addresses kvm)) (node_ips nd)"

definition findKVMachineByNodeIP :: "node \<Rightarrow> json list \<Rightarrow> string" where
  "findKVMachineByNodeIP nd kvMachines = (case List.find (shares_ip nd) kvMachines of None \<Rightarrow> [] | Some kvm \<Rightarrow> kv_name kvm)"

definition nodes_by_ip :: "node list \<Rightarrow> (string \<rightharpoonup> string)" where
  "nodes_by_ip nodes = map_of (rev (concat (List.map (\<lambda>nd. List.map (\<lambda>ip. (ip, m_name (nd_meta nd))) (node_ips nd)) nodes)))"

definition kv_kind :: kind where "kv_kind = KUnstructured ''infrastructure.cluster.x-k8s.io'' ''v1alpha1'' ''KubevirtMachine''"
definition kv_list_kind :: kind where "kv_list_kind = KUnstructured ''infrastructure.cluster.x-k8s.io'' ''v1alpha1'' ''KubevirtMachineList''"

text \<open>One KubevirtMachine: the machine as it is in memory afterwards and the error, if any.\<close>

definition sync_kv_machine :: "'s env \<Rightarrow> (string \<rightharpoonup> string) \<Rightarrow> json \<Rightarrow> ('s, json \<times> goerr option) prog" where
  "sync_kv_machine E nodeByIP kvm =
    (if nested_string [''spec'', ''providerID''] kvm \<noteq> [] \<and> nested_bool [''status'', ''initialization'', ''provisioned''] kvm then ret (kvm, None)
     else if matchInternalIPFromUnstructured (kv_addresses kvm) nodeByIP = [] then ret (kvm, None)
     else let k1 = set_nested_ignore (JStr (''kubevirt://'' @ kv_name kvm)) [''spec'', ''providerID''] kvm in do {
       p \<leftarrow> kpatch E Mgmt (OUnstructured kvm) (OUnstructured k1);
       case decode as_unstructured p of
         Inl e \<Rightarrow> ret (k1, Some e)
       | Inr k2 \<Rightarrow> do {
         g \<leftarrow> get_as E as_unstructured Mgmt kv_kind (nested_string [''metadata'', ''namespace''] k2) (kv_name k2);
         case g of
           Inl e \<Rightarrow> ret (k2, Some e)
         | Inr k3 \<Rightarrow> let k4 = set_nested_ignore (JBool True) [''status'', ''initialization'', ''provisioned''] k3 in do {
             q \<leftarrow> kstatus_patch E Mgmt (OUnstructured k3) (OUnstructured k4);
             ret (case decode as_unstructured q of Inl e \<Rightarrow> (k4, Some e) | Inr k5 \<Rightarrow> (k5, None)) } } })"

definition sync_node :: "'s env \<Rightarrow> kclient \<Rightarrow> json list \<Rightarrow> node \<Rightarrow> ('s, goerr option) prog" where
  "sync_node E tenant kvMachines nd =
    (if nd_providerID nd \<noteq> [] then ret None
     else let matchedVM = findKVMachineByNodeIP nd kvMachines in
     if matchedVM = [] then ret None
     else do {
       p \<leftarrow> kpatch E tenant (ONode nd) (ONode (nd\<lparr>nd_providerID := ''kubevirt://'' @ matchedVM\<rparr>));
       ret (err_of p) })"

definition reconcileInfraMachineStatus :: "'s env \<Rightarrow> oacp \<Rightarrow> cluster \<Rightarrow> ('s, goerr option) prog" where
  "reconcileInfraMachineStatus E ob cl = do {
     r \<leftarrow> get_as E as_secret Mgmt KSecret (m_namespace (cl_meta cl)) (m_name (cl_meta cl) @ ''-kubeconfig'');
     case r of
       Inl e \<Rightarrow> ret (Some e)
     | Inr sec \<Rightarrow> (case se_data sec ''value'' of
         None \<Rightarrow> ret (Some (Errorf ''kubeconfig secret missing 'value' key''))
       | Some kc \<Rightarrow> (case x_rest_config E kc of
           Some e \<Rightarrow> ret (Some (Wrapf ''failed to parse tenant kubeconfig'' e))
         | None \<Rightarrow> (case x_new_client E kc of
             Some e \<Rightarrow> ret (Some (Wrapf ''failed to create tenant client'' e))
           | None \<Rightarrow> do {
               ns \<leftarrow> list_as E as_node (Workload kc) KNode \<lparr>lo_namespace = [], lo_labels = []\<rparr>;
               case ns of
                 Inl e \<Rightarrow> ret (Some (Wrapf ''failed to list tenant nodes'' e))
               | Inr nodes \<Rightarrow> do {
                   l \<leftarrow> list_as E as_unstructured Mgmt kv_list_kind \<lparr>lo_namespace = m_namespace (oacp_meta ob),
                     lo_labels = [(ClusterNameLabel, case m_labels (oacp_meta ob) ClusterNameLabel of None \<Rightarrow> [] | Some n \<Rightarrow> n)]\<rparr>;
                   case l of
                     Inl e \<Rightarrow> ret (Some (Wrapf ''failed to list KubevirtMachines'' e))
                   | Inr kvMachines \<Rightarrow> do {
                       s1 \<leftarrow> for_each (sync_kv_machine E (nodes_by_ip nodes)) kvMachines;
                       s2 \<leftarrow> for_each (sync_node E (Workload kc) (List.map fst s1)) nodes;
                       ret (errors_join (the_errors (List.map snd s1 @ s2))) } } }))) }"

subsection \<open>ClusterDeployment and deletion\<close>

definition desired_cd :: "'s env \<Rightarrow> oacp \<Rightarrow> string \<Rightarrow> cluster_deployment \<Rightarrow> cluster_deployment" where
  "desired_cd E ob clusterName cd =
    (let cfg = sp_config (oacp_spec ob) in
     cd\<lparr>cd_meta := (add_owner (oacp_owner_ref None ob) (cd_meta cd))\<lparr>m_labels := ControlPlaneMachineLabelsForCluster E ob clusterName\<rparr>,
       cd_clusterName := clusterName,
       cd_installRef := Some (''extensions.hive.openshift.io'', ''v1beta1'', ''AgentClusterInstall'', m_name (oacp_meta ob)),
       cd_baseDomain := cfg_baseDomain cfg, cd_agentBareMetal := True, cd_pullSecretRef := cfg_pullSecretRef cfg\<rparr>)"

text \<open>The object is read, and \<open>CreateOrPatch\<close> reads it again before it creates or patches it.\<close>

definition ensureClusterDeployment :: "'s env \<Rightarrow> oacp \<Rightarrow> string \<Rightarrow> ('s, goerr option) prog" where
  "ensureClusterDeployment E ob clusterName = do {
     r \<leftarrow> get_as E as_cluster_deployment Mgmt KClusterDeployment (m_namespace (oacp_meta ob)) (m_name (oacp_meta ob));
     case r of
       Inr _ \<Rightarrow> ret None
     | Inl e \<Rightarrow>
       if \<not> is_not_found e then ret (Some e)
       else let cn = (if cfg_clusterName (sp_config (oacp_spec ob)) \<noteq> [] then cfg_clusterName (sp_config (oacp_spec ob)) else clusterName);
                fresh = empty_cd\<lparr>cd_meta := empty_meta\<lparr>m_name := m_name (oacp_meta ob), m_namespace := m_namespace (oacp_meta ob)\<rparr>\<rparr> in do {
         again \<leftarrow> get_as E as_cluster_deployment Mgmt KClusterDeployment (m_namespace (oacp_meta ob)) (m_name (oacp_meta ob));
         case again of
           Inl e2 \<Rightarrow> if is_not_found e2 then do {
               c \<leftarrow> kcreate E Mgmt (OClusterDeployment (desired_cd E ob cn fresh));
               ret (err_of c) }
             else ret (Some e2)
         | Inr cd \<Rightarrow> if desired_cd E ob cn cd = cd then ret None else do {
             p \<leftarrow> kpatch E Mgmt (OClusterDeployment cd) (OClusterDeployment (desired_cd E ob cn cd));
             ret (err_of p) } } }"

definition oacpFinalizer :: string where
  "oacpFinalizer = ''openshiftassistedcontrolplane.'' @ controlplaneGroup @ ''/deprovision''"

definition cleanupDNSForwardingRule :: "'s env \<Rightarrow> oacp \<Rightarrow> ('s, goerr option) prog" where
  "cleanupDNSForwardingRule E ob = (case m_annotations (oacp_meta ob) DNSRuleCreatedAnnotation of
     None \<Rightarrow> ret None
   | Some ruleIdentity \<Rightarrow>
     if ruleIdentity = [] then ret None
     else (case str_split2 CHR ''/'' ruleIdentity of
       [ns, clusterName] \<Rightarrow> do {
         e \<leftarrow> RemoveDNSForwardingRule E Mgmt clusterName ns;
         ret (case e of None \<Rightarrow> None | Some x \<Rightarrow> Some (Wrapf ''could not remove DNS forwarding rule'' x)) }
     | _ \<Rightarrow> ret None))"

definition handleDeletion :: "'s env \<Rightarrow> oacp \<Rightarrow> ('s, oacp \<times> goerr option) prog" where
  "handleDeletion E ob =
    (if \<not> ContainsFinalizer (oacp_meta ob) oacpFinalizer then ret (ob, None)
     else do {
       e1 \<leftarrow> clearPreTerminateHooks E ob;
       case e1 of
         Some e \<Rightarrow> ret (ob, Some e)
       | None \<Rightarrow> do {
         e2 \<leftarrow> cleanupDNSForwardingRule E ob;
         case e2 of
           Some e \<Rightarrow> ret (ob, Some e)
         | None \<Rightarrow> do {
             d \<leftarrow> kdelete E Mgmt (OClusterDeployment (empty_cd\<lparr>cd_meta := empty_meta\<lparr>m_name := m_name (oacp_meta ob), m_namespace := m_namespace (oacp_meta ob)\<rparr>\<rparr>));
             let removed = ob\<lparr>oacp_meta := RemoveFinalizer oacpFinalizer (oacp_meta ob)\<rparr> in
             ret (case d of
               None \<Rightarrow> (removed, None)
             | Some e \<Rightarrow> if is_not_found e then (removed, None) else (ob, Some e)) } } })"

subsection \<open>Reconcile\<close>

datatype outcome = Returned ctrl_result "goerr option" | Panicked

definition minVersion :: version where "minVersion = plain_version 4 14 0"

text \<open>
  Detecting the Kubernetes version: the object, and an outcome when the pass ends here. A nil version
  is dereferenced unless the error is recognised as \<open>ErrImageNotFound\<close>.
\<close>

definition detect_version :: "'s env \<Rightarrow> 's remoteImage \<Rightarrow> oacp \<Rightarrow> string \<Rightarrow> bytes \<Rightarrow> ('s, oacp \<times> outcome option) prog" where
  "detect_version E R ob architecture pullsecret = do {
     k \<leftarrow> GetKubernetesVersion E R (getReleaseImage ob architecture) pullsecret;
     ret (case k of
       Inl e \<Rightarrow>
         let ob' = markKubernetesVersionCondition (Some e) ob in
         if err_is ErrImageNotFound e then
           (setConditionFalse ''UpgradeAvailable'' ''UpgradeImageUnavailable'' ''upgrade unavailable'' ob', Some (Returned result_zero (Some e)))
         else (ob', Some Panicked)
     | Inr k8sVersion \<Rightarrow>
         let ob' = markKubernetesVersionCondition None ob in
         (ob'\<lparr>oacp_status := (oacp_status ob')\<lparr>st_version := k8sVersion\<rparr>\<rparr>, None)) }"

definition reconcile_upgrade ::
  "'s env \<Rightarrow> 's upgradeFactory \<Rightarrow> oacp \<Rightarrow> cluster \<Rightarrow> string \<Rightarrow> bytes \<Rightarrow> ('s, oacp \<times> ctrl_result \<times> goerr option) prog" where
  "reconcile_upgrade E UF ob cl architecture pullsecret =
    (if \<not> oacp_is_true ob KubeconfigAvailableCondition then ret (ob, result_zero, None)
     else do {
       u \<leftarrow> upgradeWorkloadCluster E UF cl ob architecture pullsecret;
       case u of (ob', result, err) \<Rightarrow>
         if err \<noteq> None then ret (ob', result, err)
         else if \<not> isKubeVirtInfra cl then ret (ob', result, None)
         else do {
           syncErr \<leftarrow> reconcileInfraMachineStatus E ob' cl;
           ret (ob', if syncErr = None then result else result\<lparr>requeueAfter := 30\<rparr>, None) } })"

definition reconcile_machines ::
  "'s env \<Rightarrow> 's clientGenerator \<Rightarrow> (string list \<Rightarrow> string list) \<Rightarrow> ctrl_result \<Rightarrow> oacp \<Rightarrow> cluster \<Rightarrow> ('s, oacp \<times> outcome) prog" where
  "reconcile_machines E CG order result ob cl = do {
     l \<leftarrow> reconcileMachineLifecycle E CG ob cl;
     case l of (ob', machineResult, machineErr) \<Rightarrow>
       if machineErr \<noteq> None \<or> machineResult \<noteq> result_zero then ret (ob', Returned machineResult machineErr)
       else do {
         p \<leftarrow> reconcileReplicas E order ob' cl;
         ret (fst p, Returned result (snd p)) } }"

text \<open>The part after the infrastructure is provisioned.\<close>

definition reconcile_provisioned ::
  "'s env \<Rightarrow> 's remoteImage \<Rightarrow> 's clientGenerator \<Rightarrow> 's upgradeFactory \<Rightarrow> (string list \<Rightarrow> string list) \<Rightarrow> oacp \<Rightarrow> cluster \<Rightarrow> ('s, oacp \<times> outcome) prog" where
  "reconcile_provisioned E R CG UF order ob cl = do {
     s \<leftarrow> ensurePullSecret E ob;
     case s of (ob1, e1) \<Rightarrow>
     if e1 \<noteq> None then ret (ob1, Returned result_zero e1)
     else do {
       e2 \<leftarrow> ensureClusterDeployment E ob1 (m_name (cl_meta cl));
       if e2 \<noteq> None then ret (ob1, Returned result_zero e2)
       else do {
         ps \<leftarrow> GetPullSecret E ob1;
         case ps of
           Inl e \<Rightarrow> ret (ob1, Returned result_zero (Some e))
         | Inr pullsecret \<Rightarrow> do {
           a \<leftarrow> getArchitectureFromBootstrapConfigs E ob1;
           case a of
             Inl e \<Rightarrow> ret (ob1, Returned result_zero (Some e))
           | Inr architecture \<Rightarrow> do {
             v \<leftarrow> detect_version E R ob1 architecture pullsecret;
             case v of
               (ob2, Some out) \<Rightarrow> ret (ob2, out)
             | (ob2, None) \<Rightarrow> do {
                 u \<leftarrow> reconcile_upgrade E UF ob2 cl architecture pullsecret;
                 case u of (ob3, result, err) \<Rightarrow>
                   if err \<noteq> None then ret (ob3, Returned result err)
                   else reconcile_machines E CG order result ob3 cl } } } } } }"

definition reconcile_cluster ::
  "'s env \<Rightarrow> 's remoteImage \<Rightarrow> 's clientGenerator \<Rightarrow> 's upgradeFactory \<Rightarrow> (string list \<Rightarrow> string list) \<Rightarrow> oacp \<Rightarrow> cluster \<Rightarrow> ('s, oacp \<times> outcome) prog" where
  "reconcile_cluster E R CG UF order ob cl =
    (if IsPaused cl (oacp_meta ob) then ret (ob, Returned result_zero None)
     else if \<not> endpoint_valid cl then do {
       _ \<leftarrow> propagateControlPlaneEndpoint E cl;
       ret (ob, Returned (requeue_after 10) None) }
     else if cl_infrastructureProvisioned cl \<noteq> Some True then do {
       i \<leftarrow> ensureInfrastructureProvisioned E cl;
       case i of (cl', err) \<Rightarrow>
         if err = None then ret (ob, Returned (requeue_after 1) None)
         else if \<not> isInfrastructureProvisioned cl' then ret (ob, Returned (requeue_after 5) None)
         else reconcile_provisioned E R CG UF order ob cl' }
     else reconcile_provisioned E R CG UF order ob cl)"

definition unsupported :: "oacp \<Rightarrow> bool" where
  "unsupported ob = (case ParseTolerant (specVersion ob) of None \<Rightarrow> False | Some v \<Rightarrow> v_lt v minVersion)"

definition reconcile_body ::
  "'s env \<Rightarrow> 's remoteImage \<Rightarrow> 's clientGenerator \<Rightarrow> 's upgradeFactory \<Rightarrow> (string list \<Rightarrow> string list) \<Rightarrow> oacp \<Rightarrow> ('s, oacp \<times> outcome) prog" where
  "reconcile_body E R CG UF order ob0 =
    (if m_deletionTimestamp (oacp_meta ob0) \<noteq> None then do {
       d \<leftarrow> handleDeletion E ob0;
       ret (fst d, Returned result_zero (snd d)) }
     else let ob = ob0\<lparr>oacp_meta := AddFinalizer oacpFinalizer (oacp_meta ob0)\<rparr> in
     if unsupported ob then
       ret (setConditionFalse MachinesCreatedCondition ''MachineGenerationFailed''
         (''version '' @ specVersion ob @ '' is not supported, the minimum supported version is 4.14.0'') ob, Returned result_zero None)
     else do {
       c \<leftarrow> GetOwnerCluster E (oacp_meta ob);
       case c of
         Inl e \<Rightarrow> ret (ob, Returned result_zero (Some e))
       | Inr None \<Rightarrow> ret (ob, Returned (requeue_now_after 10) None)
       | Inr (Some cl) \<Rightarrow> reconcile_cluster E R CG UF order ob cl })"

text \<open>The deferred function: the summary condition, and the patch of the object.\<close>

definition with_summary :: "'s env \<Rightarrow> oacp \<Rightarrow> oacp" where
  "with_summary E ob = (case x_summary E [''MachinesReady'', ''KubeconfigAvailable'', ''Available'', ''MachinesCreated''] (oacp_conditions ob) of
     None \<Rightarrow> ob | Some c \<Rightarrow> oacp_set (c\<lparr>c_type := ''Ready''\<rparr>) ob)"

fun no_error :: "outcome \<Rightarrow> bool" where
  "no_error (Returned _ err) = (err = None)" | "no_error Panicked = True"

definition after_patch :: "outcome \<Rightarrow> goerr option \<Rightarrow> outcome" where
  "after_patch out perr = (case (out, perr) of
     (Returned res err, Some e) \<Rightarrow> Returned res (Some (Aggregate (the_errors [err] @ [e]))) | _ \<Rightarrow> out)"

definition Reconcile ::
  "'s env \<Rightarrow> 's remoteImage \<Rightarrow> 's clientGenerator \<Rightarrow> 's upgradeFactory \<Rightarrow> (string list \<Rightarrow> string list) \<Rightarrow> string \<Rightarrow> string \<Rightarrow> ('s, outcome) prog" where
  "Reconcile E R CG UF order ns name = do {
     r \<leftarrow> get_as E as_oacp Mgmt KOACP ns name;
     case r of
       Inl e \<Rightarrow> ret (Returned result_zero (ignore_not_found e))
     | Inr ob \<Rightarrow> (case k_new_helper E (OOACP ob) of
         Some e \<Rightarrow> ret (Returned result_zero (Some e))
       | None \<Rightarrow> do {
           b \<leftarrow> reconcile_body E R CG UF order ob;
           p \<leftarrow> khelper_patch E (OOACP ob) (OOACP (with_summary E (fst b))) (no_error (snd b));
           ret (after_patch (snd b) p) }) }"

subsection \<open>Deletion\<close>




















subsection \<open>Properties of Reconcile\<close>

lemma is_true_set_version [simp]: "oacp_is_true (ob\<lparr>oacp_status := (oacp_status ob)\<lparr>st_version := v\<rparr>\<rparr>) t = oacp_is_true ob t"
  by (simp add: oacp_is_true_def oacp_conditions_def)

text \<open>
  Unsupported versions. For a control plane that is not being deleted and whose version parses below
  4.14.0, a pass makes two calls only: it reads the object and patches it with the finalizer added and
  MachinesCreated false; nothing else is read or written.
\<close>

theorem Reconcile_unsupported:
  assumes "k_get E Mgmt KOACP ns name s = (Inr (OOACP ob), s')" and "k_new_helper E (OOACP ob) = None"
    and "m_deletionTimestamp (oacp_meta ob) = None" and "unsupported ob"
  shows "\<exists>new x. w_trace (snd (run_state (Reconcile E R CG UF order ns name) (start s))) =
      [EvGet Mgmt KOACP ns name (Inr (OOACP ob)), EvHelperPatch (OOACP ob) (OOACP (with_summary E new)) True x] \<and>
    oacp_spec new = oacp_spec ob \<and> ContainsFinalizer (oacp_meta new) oacpFinalizer \<and> oacp_is_false new MachinesCreatedCondition"
proof -
  let ?ob = "ob\<lparr>oacp_meta := AddFinalizer oacpFinalizer (oacp_meta ob)\<rparr>"
  let ?new = "setConditionFalse MachinesCreatedCondition ''MachineGenerationFailed''
         (''version '' @ specVersion ?ob @ '' is not supported, the minimum supported version is 4.14.0'') ?ob"
  have un: "unsupported ?ob" using assms(4) by (simp add: unsupported_def specVersion_def)
  have body: "reconcile_body E R CG UF order ob = ret (?new, Returned result_zero None)"
    using assms(3) un by (simp add: reconcile_body_def Let_def)
  obtain x s'' where p: "k_helper_patch E (OOACP ob) (OOACP (with_summary E ?new)) True s' = (x, s'')" by (meson surj_pair)
  have "w_trace (snd (run_state (Reconcile E R CG UF order ns name) (start s))) =
      [EvGet Mgmt KOACP ns name (Inr (OOACP ob)), EvHelperPatch (OOACP ob) (OOACP (with_summary E ?new)) True x]"
    using assms(1,2) p by (simp add: Reconcile_def get_as_def kcall_defs call_def start_def body)
  moreover have "ContainsFinalizer (oacp_meta ?new) oacpFinalizer" by (simp add: ContainsFinalizer_def AddFinalizer_def)
  ultimately show ?thesis
    by (intro exI [of _ ?new] exI [of _ x]) simp
qed

definition old_cp :: oacp where
  "old_cp = empty_oacp\<lparr>oacp_spec := (oacp_spec empty_oacp)\<lparr>sp_distributionVersion := ''4.13.9''\<rparr>\<rparr>"

theorem Reconcile_unsupported_witness:
  "length (w_trace (snd (run_state (Reconcile (nowhere\<lparr>k_get := (\<lambda>c k ns n s. (Inr (OOACP old_cp), s))\<rparr>)
     (NewRemoteImageRepository nowhere) (workload_generator nowhere) (\<lambda>kc. Inl (Errorf [])) id ''ns'' ''cp'') (start ())))) = 2"
proof -
  have un: "unsupported old_cp"
    by (simp add: unsupported_def specVersion_def old_cp_def empty_oacp_def minVersion_def v_lt_def v_compare_plain cmp_def)
  show ?thesis
    using Reconcile_unsupported [of "nowhere\<lparr>k_get := (\<lambda>c k ns n s. (Inr (OOACP old_cp), s))\<rparr>" "''ns''" "''cp''" "()" old_cp "()"
      "NewRemoteImageRepository nowhere" "workload_generator nowhere" "\<lambda>kc. Inl (Errorf [])" id] un
    by (fastforce simp: nowhere_def old_cp_def empty_oacp_def empty_meta_def)
qed

end
