(* ===== verification/Passes.thy ===== *)
theory Passes
  imports ControlPlane
begin

text \<open>
  What a whole pass of the control plane controller may do at once. A pass scales (creates or deletes
  a machine), or retires a member (removes an etcd member or releases the pre-terminate hook of a
  machine), or neither; never both, and it scales by at most one machine.
\<close>

fun is_retire :: "event \<Rightarrow> bool" where
  "is_retire (EvMemberRemove _ _ _) = True"
| "is_retire (EvHelperPatch (OMachine m) (OMachine m') _ _) = (HasHook m \<and> \<not> HasHook m')"
| "is_retire _ = False"

definition neutral :: "event \<Rightarrow> bool" where
  "neutral e \<longleftrightarrow> \<not> is_scaling e \<and> \<not> is_retire e"

definition one_change :: "event list \<Rightarrow> bool" where
  "one_change evs \<longleftrightarrow> length (filter is_scaling evs) \<le> 1 \<and> (filter is_scaling evs = [] \<or> filter is_retire evs = [])"

definition inert :: "event list \<Rightarrow> bool" where
  "inert evs \<longleftrightarrow> filter is_scaling evs = [] \<and> filter is_retire evs = []"

lemma inert_one_change [simp]: "inert as \<Longrightarrow> one_change (as @ bs) \<longleftrightarrow> one_change bs" "inert as \<Longrightarrow> one_change as"
  by (simp_all add: inert_def one_change_def)

lemma inert_append [simp]: "inert (as @ bs) \<longleftrightarrow> inert as \<and> inert bs" "inert []"
  by (auto simp: inert_def)

lemma neutral_inert: "\<forall>e \<in> set evs. neutral e \<Longrightarrow> inert evs"
  by (auto simp: inert_def neutral_def filter_empty_conv)

lemma emits_inert: "emits neutral m \<Longrightarrow> logs m (\<lambda>r evs. inert evs)"
  by (rule logs_mono [OF emits_logs]) (auto intro: neutral_inert)

lemma neutral_simps [simp]:
  "neutral (EvGet c k ns n x)" "neutral (EvList c k opts y)" "neutral (EvUpdate c ob z)" "neutral (EvPatch c ob ob' z)"
  "neutral (EvStatusPatch c ob ob' z)" "neutral (EvCreate c (OSecret sec) z)" "neutral (EvCreate c (OClusterDeployment cd) z)"
  "neutral (EvCreate c (OUnstructured u) z)" "neutral (EvCreate c (OOAC b) z)" "neutral (EvRemoteImage r im)" "neutral (EvRemoteGet r dg)"
  "neutral (EvDelete c (OClusterDeployment cd) d)" "neutral (EvHelperPatch (OOACP o1) (OOACP o2) og d)"
  by (simp_all add: neutral_def)

subsection \<open>The steps before the machines\<close>

lemma emits_patch_with_helper [emits_intros]:
  "(\<And>r. P (EvHelperPatch old new False r)) \<Longrightarrow> emits P (patch_with_helper E old new)"
  unfolding patch_with_helper_def by (intro emits_intros)

lemma neutral_steps:
  "emits neutral (GetOwnerCluster E m)" "emits neutral (propagateControlPlaneEndpoint E cl)"
  "emits neutral (ensureInfrastructureProvisioned E cl)" "emits neutral (ensurePullSecret E ob)"
  "emits neutral (ensureClusterDeployment E ob cn)" "emits neutral (GetPullSecret E ob)"
  "emits neutral (getArchitectureFromBootstrapConfigs E ob)"
  unfolding propagateControlPlaneEndpoint_def ensureInfrastructureProvisioned_def ensurePullSecret_def ensureClusterDeployment_def
    getArchitectureFromBootstrapConfigs_def Let_def
  by (intro emits_intros; simp)+

lemma neutral_sync: "emits neutral (reconcileInfraMachineStatus E ob cl)"
  unfolding reconcileInfraMachineStatus_def sync_kv_machine_def sync_node_def Let_def
  by (intro emits_intros; simp)

lemma neutral_detect: "emits neutral (detect_version E (NewRemoteImageRepository E) ob arch ps)"
  unfolding detect_version_def GetKubernetesVersion_def NewRemoteImageRepository_def GetImage_def remote_image_def remoteImage.simps
  by (intro emits_intros; simp)

lemma inert_upgrade:
  "logs (upgradeWorkloadCluster E (NewUpgrader E (workload_generator E) (NewRemoteImageRepository E)) cl ob arch ps) (\<lambda>r evs. inert evs)"
proof (rule logs_mono [OF upgradeWorkloadCluster_logs], rule neutral_inert, rule ballI)
  fix r evs e
  assume "upgrade_writes_ok ob arch evs \<and> oacp_spec (fst r) = oacp_spec ob \<and> (status_newer (fst r) \<longrightarrow> no_writes evs)" "e \<in> set evs"
  then have "\<not> is_write e \<or> is_push (specVersion ob) (override_of ob) arch e \<or> is_clear e"
    by (auto simp: upgrade_writes_ok_def only_writes_def)
  then show "neutral e" by (cases e) (auto simp: neutral_def)
qed

lemma inert_reconcile_upgrade:
  "logs (reconcile_upgrade E (NewUpgrader E (workload_generator E) (NewRemoteImageRepository E)) ob cl arch ps) (\<lambda>r evs. inert evs)"
  unfolding reconcile_upgrade_def
  by (intro logs_intros logs_bind [OF inert_upgrade] logs_bind [OF emits_inert [OF neutral_sync]]) auto

subsection \<open>The machines\<close>

lemma inert_hooks: "logs (ensurePreTerminateHooks E ob cl) (\<lambda>r evs. inert evs)"
  unfolding ensurePreTerminateHooks_def by (intro emits_inert emits_intros) (auto simp: neutral_def)

lemma quiet_no_scaling: "api_quiet evs \<Longrightarrow> filter is_scaling evs = []"
proof -
  have "is_scaling e \<Longrightarrow> is_api_write e" for e by (cases e) auto
  then show "api_quiet evs \<Longrightarrow> filter is_scaling evs = []" by (auto simp: api_quiet_def filter_empty_conv)
qed

lemma quiet_no_retire: "api_quiet evs \<Longrightarrow> no_removal evs \<Longrightarrow> inert evs"
proof -
  have "is_retire e \<Longrightarrow> is_api_write e \<or> (\<exists>c i x. e = EvMemberRemove c i x)" for e by (cases e) auto
  then show "api_quiet evs \<Longrightarrow> no_removal evs \<Longrightarrow> inert evs"
    by (fastforce simp: api_quiet_def no_removal_def inert_def filter_empty_conv quiet_no_scaling)
qed

text \<open>The lifecycle step never scales, and retires nothing when it lets the pass go on.\<close>

lemma hook_release_changes:
  "hook_release ob r evs \<Longrightarrow> filter is_scaling evs = [] \<and> (r = (result_zero, None) \<longrightarrow> inert evs)"
  by (cases r) (auto simp: hook_release_def quiet_no_scaling quiet_no_retire)

lemma members_reconciled_changes:
  "members_reconciled ob (ob', res, err) evs \<Longrightarrow> filter is_scaling evs = [] \<and> (res = result_zero \<and> err = None \<longrightarrow> inert evs)"
  unfolding members_reconciled_def by (auto simp: quiet_no_scaling quiet_no_retire)

lemma lifecycle_changes:
  "logs (reconcileMachineLifecycle E (workload_generator E) ob cl)
     (\<lambda>r evs. filter is_scaling evs = [] \<and> (fst (snd r) = result_zero \<and> snd (snd r) = None \<longrightarrow> inert evs))"
  unfolding reconcileMachineLifecycle_def
proof (rule logs_bind [OF inert_hooks], rule logs_case_option, goal_cases)
  case (1 e evs1)
  show ?case
  proof (rule logs_bind [OF wlc.reconcilePreTerminateHook_spec], intro logs_if, goal_cases)
    case (1 h evs2)
    with \<open>inert evs1\<close> hook_release_changes [OF 1(1)] show ?case by (cases h) (auto intro!: logs_return simp: inert_def)
  next
    case (2 h evs2)
    with \<open>inert evs1\<close> have "inert (evs1 @ evs2)" using hook_release_changes [OF 2(1)] by (cases h) auto
    then show ?case
      by (intro logs_mono [OF wlc.reconcileEtcdMembers_spec]) (auto dest!: members_reconciled_changes [rotated 0] simp: inert_def)
  next
    case (3 h evs2)
    with \<open>inert evs1\<close> show ?case using hook_release_changes [OF 3(1)] by (cases h) (auto intro!: logs_return simp: inert_def)
  qed
qed (auto intro!: logs_intros simp: inert_def)

lemma no_retire_replicas: "logs (reconcileReplicas E order ob cl) (\<lambda>r evs. filter is_retire evs = [])"
proof -
  have set: "HasHook (machine_set c m) \<longleftrightarrow> HasHook m" for m c
    by (simp add: HasAnnotationKey_def machine_set_def)
  have "emits (\<lambda>e. \<not> is_retire e) (reconcileReplicas E order ob cl)"
    unfolding reconcileReplicas_def scaleUpControlPlane_def scaleDownControlPlane_def generateMachine_def createInfraMachine_def create_for_machine_def
      GetFilteredMachinesForCluster_def GetAPIServiceClusterIP_def GetServiceClusterIP_def GetInfraCoreDNSIP_def
      updateReplicaStatus_def machine_status_def isMachineUpToDate_def setMachineUpToDateCondition_def Let_def
    by (intro emits_intros; simp add: set)
  then show ?thesis by (rule logs_mono [OF emits_logs]) (auto simp: filter_empty_conv)
qed

lemma scaling_ok_length: "scaling_ok ob cl evs \<Longrightarrow> length (filter is_scaling evs) \<le> 1"
  by (auto simp: scaling_ok_def)

lemma one_change_machines:
  "logs (reconcile_machines E (workload_generator E) order result ob cl) (\<lambda>r evs. one_change evs)"
  unfolding reconcile_machines_def
proof (rule logs_bind [OF lifecycle_changes], rule logs_case_prod, rule logs_case_prod, rule logs_if, goal_cases)
  case (1 l evs ob' rest res err)
  then show ?case by (auto intro!: logs_return simp: one_change_def)
next
  case (2 l evs ob' rest res err)
  then have "inert evs" by auto
  then show ?case
    by (intro logs_bind [OF logs_conj [OF reconcileReplicas_logs no_retire_replicas]] logs_return)
      (auto simp: one_change_def inert_def dest: scaling_ok_length)
qed

subsection \<open>The whole pass\<close>

lemma one_change_provisioned:
  "logs (reconcile_provisioned E (NewRemoteImageRepository E) (workload_generator E)
      (NewUpgrader E (workload_generator E) (NewRemoteImageRepository E)) order ob cl) (\<lambda>r evs. one_change evs)"
  unfolding reconcile_provisioned_def
  by (intro logs_intros neutral_steps [THEN emits_inert, THEN logs_bind] logs_bind [OF emits_inert [OF neutral_detect]]
      logs_bind [OF inert_reconcile_upgrade] logs_mono [OF one_change_machines]) auto

lemma one_change_cluster:
  "logs (reconcile_cluster E (NewRemoteImageRepository E) (workload_generator E)
      (NewUpgrader E (workload_generator E) (NewRemoteImageRepository E)) order ob cl) (\<lambda>r evs. one_change evs)"
  unfolding reconcile_cluster_def
  by (intro logs_intros neutral_steps [THEN emits_inert, THEN logs_bind] logs_mono [OF one_change_provisioned]) auto

lemma no_scaling_deletion: "logs (handleDeletion E ob) (\<lambda>r evs. one_change evs)"
proof -
  have retry: "emits P fn \<Longrightarrow> emits P (retryOnConflict n fn)" for P n and fn :: "('a, goerr option) prog"
    by (induction n) (subst retryOnConflict.simps, auto intro!: emits_intros split: option.splits)+
  have "emits (\<lambda>e. \<not> is_scaling e) (handleDeletion E ob)"
    unfolding handleDeletion_def clearPreTerminateHooks_def cleanupDNSForwardingRule_def RemoveDNSForwardingRule_def Let_def
    by (intro emits_intros retry; simp)
  then show ?thesis by (rule logs_mono [OF emits_logs]) (simp add: one_change_def filter_empty_conv)
qed

lemma one_change_body:
  "logs (reconcile_body E (NewRemoteImageRepository E) (workload_generator E)
      (NewUpgrader E (workload_generator E) (NewRemoteImageRepository E)) order ob) (\<lambda>r evs. one_change evs)"
  unfolding reconcile_body_def Let_def
  by (intro logs_intros neutral_steps [THEN emits_inert, THEN logs_bind] logs_bind [OF no_scaling_deletion] logs_mono [OF one_change_cluster]) auto

lemma one_change_Reconcile:
  "logs (Reconcile E (NewRemoteImageRepository E) (workload_generator E)
      (NewUpgrader E (workload_generator E) (NewRemoteImageRepository E)) order ns name) (\<lambda>r evs. one_change evs)"
  unfolding Reconcile_def get_as_def kcall_defs
  by (simp only: prog_simps, intro logs_call_bind logs_intros logs_bind [OF one_change_body])
    (auto simp: one_change_def)

text \<open>The deferred patch is the last call of every pass that read the object.\<close>

lemma Reconcile_last_patch:
  "logs (Reconcile E (NewRemoteImageRepository E) (workload_generator E)
      (NewUpgrader E (workload_generator E) (NewRemoteImageRepository E)) order ns name)
    (\<lambda>r evs. \<exists>x. hd evs = EvGet Mgmt KOACP ns name x \<and> (\<forall>ob. x = Inr (OOACP ob) \<and> k_new_helper E (OOACP ob) = None \<longrightarrow>
       (\<exists>ob' og y. last evs = EvHelperPatch (OOACP ob) (OOACP ob') og y \<and>
          (\<forall>res err. r = Returned res err \<longrightarrow> (y = None \<longrightarrow> (og \<longleftrightarrow> err = None)) \<and> (y \<noteq> None \<longrightarrow> err \<noteq> None)) \<and> (r = Panicked \<longrightarrow> og))))"
  unfolding Reconcile_def get_as_def kcall_defs
proof (simp only: prog_simps, intro logs_call_bind logs_intros logs_bind [OF one_change_body], goal_cases)
  case (2 x ob b evs y)
  then show ?case by (cases "snd b") (auto simp: after_patch_def decode_Inr_iff split: option.splits)
qed (auto simp: decode_def split: sum.splits option.splits)

subsection \<open>A concrete pass\<close>

text \<open>A control plane of one replica with no machine yet, its cluster provisioned, and a release image.\<close>

definition demo_image :: oci_image where
  "demo_image = \<lparr>im_layers = Inr [\<lparr>ly_open = None, ly_entries = [\<lparr>te_name = ''release-manifests/image-references'',
     te_symlink = None, te_content = Inr ''{}''\<rparr>], ly_end = None, ly_close = None\<rparr>]\<rparr>"

definition pass_cp :: oacp where
  "pass_cp = empty_oacp\<lparr>oacp_meta := empty_meta\<lparr>m_name := ''cp'', m_ownerReferences := [\<lparr>or_apiVersion = ''cluster.x-k8s.io/v1beta2'',
       or_kind = ''Cluster'', or_name = ''cl'', or_uid = [], or_controller = Some True\<rparr>]\<rparr>,
     oacp_spec := (oacp_spec empty_oacp)\<lparr>sp_replicas := 1, sp_distributionVersion := ''4.18.1'',
       sp_config := empty_config\<lparr>cfg_pullSecretRef := Some ''ps''\<rparr>\<rparr>\<rparr>"

definition pass_cluster :: cluster where
  "pass_cluster = empty_cluster\<lparr>cl_endpointHost := ''h'', cl_endpointPort := 6443, cl_infrastructureProvisioned := Some True\<rparr>"

definition demo_pass :: "unit env" where
  "demo_pass = demo_scale\<lparr>
     k_get := (\<lambda>c k ns n s. (case k of
         KOACP \<Rightarrow> Inr (OOACP pass_cp) | KCluster \<Rightarrow> Inr (OCluster pass_cluster)
       | KSecret \<Rightarrow> Inr (OSecret \<lparr>se_meta = empty_meta, se_type = [], se_data = [PullsecretDataKey \<mapsto> ''{}'']\<rparr>)
       | KClusterDeployment \<Rightarrow> Inr (OClusterDeployment empty_cd) | _ \<Rightarrow> Inl (ApiStatus NotFound), s)),
     x_remote_image := (\<lambda>r kc s. (Inr demo_image, s)),
     x_image_stream := (\<lambda>c. Inr [[annotationBuildVersions \<mapsto> ''kubernetes=1.31.0'']])\<rparr>"

abbreviation pass_run :: "(outcome \<times> (unit, event) world)" where
  "pass_run \<equiv> run_state (Reconcile demo_pass (NewRemoteImageRepository demo_pass) (workload_generator demo_pass)
     (NewUpgrader demo_pass (workload_generator demo_pass) (NewRemoteImageRepository demo_pass)) id ''ns'' ''cp'') (start ())"

lemma demo_version: "ExtractFileFromImage (Some demo_image) imageReferencesPath = Inr ''{}''"
  by (simp add: ExtractFileFromImage_def demo_image_def extractFileFromImageInternal.simps imageReferencesPath_def maxSymlinkDepth_def)

lemma demo_split: "str_split CHR ''='' ''kubernetes=1.31.0'' = [''kubernetes'', ''1.31.0'']"
  by simp

lemma pass_cp_facts:
  "m_deletionTimestamp (oacp_meta pass_cp) = None" "\<not> unsupported (pass_cp\<lparr>oacp_meta := m\<rparr>)"
  "\<not> IsPaused pass_cluster (AddFinalizer f (oacp_meta pass_cp))" "endpoint_valid pass_cluster" "cl_infrastructureProvisioned pass_cluster = Some True"
  "GetOwnerCluster demo_pass (AddFinalizer f (oacp_meta pass_cp)) =
     do { x \<leftarrow> get_as demo_pass as_cluster Mgmt KCluster [] ''cl'';
          ret (case x of Inl e \<Rightarrow> Inl (Wrapf ''failed to get Cluster'' e) | Inr cl \<Rightarrow> Inr (Some cl)) }"
  by (simp_all add: pass_cp_def pass_cluster_def empty_meta_def empty_cluster_def unsupported_def specVersion_def minVersion_def v_lt_def v_compare_plain cmp_def
      IsPaused_def AddFinalizer_def endpoint_valid_def GetOwnerCluster_def ParseGroupVersion_def)

lemma demo_pass_fields:
  "k_get demo_pass c KOACP ns n u = (Inr (OOACP pass_cp), u)" "k_get demo_pass c KCluster ns n u = (Inr (OCluster pass_cluster), u)"
  "k_get demo_pass c KSecret ns n u = (Inr (OSecret \<lparr>se_meta = empty_meta, se_type = [], se_data = [PullsecretDataKey \<mapsto> ''{}'']\<rparr>), u)"
  "k_get demo_pass c KClusterDeployment ns n u = (Inr (OClusterDeployment empty_cd), u)"
  "k_list demo_pass c k opts u = (Inr [], u)" "k_create demo_pass c ob u = (Inr ob, u)" "k_helper_patch demo_pass old nw og u = (None, u)"
  "k_new_helper demo_pass ob = None" "x_parse_reference demo_pass r = None" "x_remote_image demo_pass r kc u = (Inr demo_image, u)"
  "x_docker_config demo_pass t = Inr []" "x_image_stream demo_pass t = Inr [[annotationBuildVersions \<mapsto> ''kubernetes=1.31.0'']]"
  "x_generate_name demo_pass t u = (t @ ''x7k2p'', u)" "k_get_contract demo_pass ref ns u = (Inr (JObj []), u)"
  "x_generate_template demo_pass j ti = Inr j" "x_summary demo_pass ts cs = None"
  by (simp_all add: demo_pass_def demo_scale_def nowhere_def)

lemma pass_cp_spec:
  "cfg_pullSecretRef (sp_config (oacp_spec pass_cp)) = Some ''ps''" "sp_replicas (oacp_spec pass_cp) = 1" "\<not> isKubeVirtInfra pass_cluster"
  "m_labels (AddFinalizer f (oacp_meta pass_cp)) ClusterNameLabel = None"
  by (simp_all add: pass_cp_def AddFinalizer_def empty_meta_def pass_cluster_def isKubeVirtInfra_def empty_cluster_def empty_ref_def)

lemma pass_not_ready:
  "KubeconfigAvailableCondition \<noteq> ''KubernetesVersionAvailable''" "\<not> oacp_is_true (pass_cp\<lparr>oacp_meta := m\<rparr>) KubeconfigAvailableCondition"
  by (simp_all add: oacp_is_true_def oacp_conditions_def pass_cp_def empty_oacp_def is_true_in_def FindStatusCondition_def KubeconfigAvailableCondition_def)

lemmas demo_pass_run = demo_pass_fields pass_cp_spec pass_cp_facts demo_version pass_not_ready
  reconcileReplicas_def scaleUpControlPlane_def generateMachine_def createInfraMachine_def
  create_for_machine_def GetFilteredMachinesForCluster_def list_as_def get_as_def kcall_defs call_def start_def Let_def
  Reconcile_def reconcile_body_def reconcile_cluster_def reconcile_provisioned_def
  ensurePullSecret_def ensureClusterDeployment_def GetPullSecret_def getArchitectureFromBootstrapConfigs_def detect_version_def
  GetKubernetesVersion_def NewRemoteImageRepository_def GetImage_def remote_image_def PullSecretKeyChainFromString_def
  markKubernetesVersionCondition_def reconcile_upgrade_def reconcile_machines_def reconcileMachineLifecycle_def ensurePreTerminateHooks_def
  reconcilePreTerminateHook_def OldestDeletionTimestamp_def new_aggregate_def updateReplicaStatus_def

lemma pass_creates: "\<exists>m x. EvCreate Mgmt (OMachine m) x \<in> set (w_trace (snd pass_run))"
  by (simp add: demo_pass_run)

subsection \<open>Properties\<close>

text \<open>
  Claim C1. One change per pass. Whatever the API servers, etcd and the registry answer, a pass of \<open>Reconcile\<close> with the real
  clients creates or deletes at most one machine, and a pass that does so neither removes an etcd
  member nor releases a pre-terminate hook.
\<close>

theorem Reconcile_one_change:
  assumes "run_state (Reconcile E (NewRemoteImageRepository E) (workload_generator E)
      (NewUpgrader E (workload_generator E) (NewRemoteImageRepository E)) order ns name) (start s) = (out, w)"
  shows "length (filter is_scaling (w_trace w)) \<le> 1 \<and>
    (filter is_scaling (w_trace w) = [] \<or> filter is_retire (w_trace w) = [])"
  using logs_start [OF one_change_Reconcile assms] by (simp add: one_change_def)

theorem Reconcile_one_change_witness:
  "length (filter is_scaling (w_trace (snd pass_run))) = 1 \<and> filter is_retire (w_trace (snd pass_run)) = []"
proof -
  obtain out w where run: "pass_run = (out, w)" by (meson surj_pair)
  obtain m x where "EvCreate Mgmt (OMachine m) x \<in> set (w_trace w)" using pass_creates run by auto
  then have "filter is_scaling (w_trace w) \<noteq> []" unfolding filter_empty_conv by (metis is_scaling.simps(1))
  with Reconcile_one_change [OF run] run show ?thesis by (cases "filter is_scaling (w_trace w)") auto
qed

text \<open>
  The status is always persisted. A pass of \<open>Reconcile\<close> that read the control plane and could build a patch helper
  for it ends with the patch of that object, whichever way the pass went, also when it panics. The
  observed generation is part of the patch exactly when the pass has no error (or panics), and an
  error of the patch is an error of the pass.
\<close>

theorem Reconcile_patches_last:
  assumes "run_state (Reconcile E (NewRemoteImageRepository E) (workload_generator E)
      (NewUpgrader E (workload_generator E) (NewRemoteImageRepository E)) order ns name) (start s) = (out, w)"
    and "hd (w_trace w) = EvGet Mgmt KOACP ns name (Inr (OOACP ob))" and "k_new_helper E (OOACP ob) = None"
  shows "\<exists>ob' og y. last (w_trace w) = EvHelperPatch (OOACP ob) (OOACP ob') og y \<and>
    (\<forall>res err. out = Returned res err \<longrightarrow> (y = None \<longrightarrow> (og \<longleftrightarrow> err = None)) \<and> (y \<noteq> None \<longrightarrow> err \<noteq> None)) \<and> (out = Panicked \<longrightarrow> og)"
  using logs_start [OF Reconcile_last_patch assms(1)] assms(2,3) by auto

theorem Reconcile_patches_last_witness:
  "\<exists>ob' og. last (w_trace (snd pass_run)) = EvHelperPatch (OOACP pass_cp) (OOACP ob') og None"
proof -
  obtain out w where run: "pass_run = (out, w)" by (meson surj_pair)
  have "hd (w_trace (snd pass_run)) = EvGet Mgmt KOACP ''ns'' ''cp'' (Inr (OOACP pass_cp)) \<and>
      (\<forall>old nw og y. last (w_trace (snd pass_run)) = EvHelperPatch old nw og y \<longrightarrow> y = None)"
    by (simp add: demo_pass_run)
  with Reconcile_patches_last [OF run, of pass_cp] run show ?thesis by (auto simp: demo_pass_fields)
qed

subsection \<open>An image without a version\<close>

text \<open>What the answer of the registry says about the Kubernetes version of a release image.\<close>

definition k8s_version_of :: "'s env \<Rightarrow> oci_image res \<Rightarrow> string option" where
  "k8s_version_of E ans = (case ans of Inl _ \<Rightarrow> None | Inr img \<Rightarrow> (case ExtractFileFromImage (Some img) imageReferencesPath of
     Inl _ \<Rightarrow> None
   | Inr content \<Rightarrow> (case x_image_stream E content of Inl _ \<Rightarrow> None | Inr tags \<Rightarrow> (case getK8sVersionFromImageStream tags of
       Inl _ \<Rightarrow> None | Inr v \<Rightarrow> Some v))))"

fun reads_image :: "event \<Rightarrow> bool" where
  "reads_image (EvRemoteImage _ _) = True" | "reads_image _ = False"

definition before_image :: "event \<Rightarrow> bool" where
  "before_image e \<longleftrightarrow> \<not> reads_image e \<and> \<not> is_scaling e"

definition imageless :: "event list \<Rightarrow> bool" where
  "imageless evs \<longleftrightarrow> filter reads_image evs = [] \<and> filter is_scaling evs = []"

lemma imageless_append [simp]: "imageless (as @ bs) \<longleftrightarrow> imageless as \<and> imageless bs" "imageless []"
  by (auto simp: imageless_def)

lemma emits_imageless: "emits before_image m \<Longrightarrow> logs m (\<lambda>r evs. imageless evs)"
  by (rule logs_mono [OF emits_logs]) (auto simp: imageless_def before_image_def filter_empty_conv)

text \<open>The first image that a pass reads decides whether it panics.\<close>

definition verdict :: "'s env \<Rightarrow> oacp \<times> outcome \<Rightarrow> event list \<Rightarrow> bool" where
  "verdict E r evs \<longleftrightarrow> (\<forall>ref ans rest. filter reads_image evs = EvRemoteImage ref ans # rest \<longrightarrow>
     (snd r = Panicked \<longleftrightarrow> k8s_version_of E ans = None) \<and>
     (snd r = Panicked \<longrightarrow> rest = [] \<and> filter is_scaling evs = [] \<and> oacp_is_false (fst r) ''KubernetesVersionAvailable''))"

lemma imageless_verdict [simp]: "imageless evs \<Longrightarrow> verdict E r (evs @ evs') = verdict E r evs'"
  by (simp add: verdict_def imageless_def)

lemma verdict_imageless: "imageless evs \<Longrightarrow> verdict E r evs"
  by (simp add: verdict_def imageless_def)

lemma version_false [simp]: "oacp_is_false (markKubernetesVersionCondition (Some e) ob) ''KubernetesVersionAvailable''"
  by (simp add: markKubernetesVersionCondition_def)

definition detected :: "'s env \<Rightarrow> oacp \<times> outcome option \<Rightarrow> event list \<Rightarrow> bool" where
  "detected E r evs \<longleftrightarrow> (case snd r of
     Some out \<Rightarrow> verdict E (fst r, out) evs
   | None \<Rightarrow> \<exists>ref ans. filter reads_image evs = [EvRemoteImage ref ans] \<and> k8s_version_of E ans \<noteq> None \<and> filter is_scaling evs = [])"

lemma GetImage_reads:
  "logs (GetImage E ref kc) (\<lambda>r evs. filter is_scaling evs = [] \<and> (filter reads_image evs = [] \<and> (\<exists>e. r = Inl e) \<or>
     (\<exists>ans. filter reads_image evs = [EvRemoteImage ref ans] \<and> (case r of Inl _ \<Rightarrow> \<exists>e. ans = Inl e | Inr img \<Rightarrow> ans = Inr img))))"
  unfolding GetImage_def remote_image_def
  by (intro logs_intros logs_call_bind) (auto split: sum.splits)

lemma GetKubernetesVersion_of:
  "logs (GetKubernetesVersion E (NewRemoteImageRepository E) ref ps) (\<lambda>r evs. filter is_scaling evs = [] \<and> (\<forall>e. r = Inl e \<longrightarrow> \<not> err_is ErrImageNotFound e)
     \<and> (filter reads_image evs = [] \<and> (\<exists>e. r = Inl e) \<or> (\<exists>ans. filter reads_image evs = [EvRemoteImage ref ans] \<and>
          k8s_version_of E ans = (case r of Inl _ \<Rightarrow> None | Inr v \<Rightarrow> Some v))))"
  unfolding GetKubernetesVersion_def NewRemoteImageRepository_def remoteImage.simps
  apply (rule logs_case_sum, rule logs_return, simp)
  apply (rule logs_bind [OF GetImage_reads], rule logs_return)
  apply (auto simp: k8s_version_of_def split: sum.splits)
  done

lemma logs_detected: "logs (detect_version E (NewRemoteImageRepository E) ob arch ps) (detected E)"
  unfolding detect_version_def
  by (rule logs_bind [OF GetKubernetesVersion_of], rule logs_return)
    (auto simp: detected_def verdict_def Let_def split: sum.splits)

lemma machines_return:
  "logs (reconcile_machines E (workload_generator E) order result ob cl) (\<lambda>r evs. snd r \<noteq> Panicked)"
  unfolding reconcile_machines_def
  by (intro logs_bind [OF lifecycle_changes] logs_case_prod logs_if logs_return logs_bind [OF reconcileReplicas_logs]) auto

lemma rest_returns:
  assumes "detected E (ob', None) evs" "snd r \<noteq> Panicked"
  shows "verdict E r (evs @ evs')"
  using assms by (auto simp: detected_def verdict_def)

lemma imageless_steps:
  "emits before_image (GetOwnerCluster E m)" "emits before_image (propagateControlPlaneEndpoint E cl)"
  "emits before_image (ensureInfrastructureProvisioned E cl)" "emits before_image (ensurePullSecret E ob)"
  "emits before_image (ensureClusterDeployment E ob cn)" "emits before_image (GetPullSecret E ob)"
  "emits before_image (getArchitectureFromBootstrapConfigs E ob)"
  unfolding propagateControlPlaneEndpoint_def ensureInfrastructureProvisioned_def ensurePullSecret_def ensureClusterDeployment_def
    getArchitectureFromBootstrapConfigs_def Let_def
  by (intro emits_intros; simp add: before_image_def)+

lemma upgrade_then_machines:
  "logs (do { u \<leftarrow> reconcile_upgrade E (NewUpgrader E (workload_generator E) (NewRemoteImageRepository E)) ob cl arch ps;
      case u of (ob3, result, err) \<Rightarrow> if err \<noteq> None then ret (ob3, Returned result err)
        else reconcile_machines E (workload_generator E) order result ob3 cl }) (\<lambda>r evs. snd r \<noteq> Panicked)"
  by (intro logs_bind [OF inert_reconcile_upgrade] logs_case_prod logs_if logs_return logs_mono [OF machines_return]) auto

lemma verdict_provisioned:
  "logs (reconcile_provisioned E (NewRemoteImageRepository E) (workload_generator E)
      (NewUpgrader E (workload_generator E) (NewRemoteImageRepository E)) order ob cl) (verdict E)"
  unfolding reconcile_provisioned_def
  apply (rule logs_bind [OF emits_imageless [OF imageless_steps(4)]], rule logs_case_prod, rule logs_if, rule logs_return, simp add: verdict_imageless)
  apply (rule logs_bind [OF emits_imageless [OF imageless_steps(5)]], rule logs_if, rule logs_return, simp add: verdict_imageless)
  apply (rule logs_bind [OF emits_imageless [OF imageless_steps(6)]], rule logs_case_sum, rule logs_return, simp add: verdict_imageless)
  apply (rule logs_bind [OF emits_imageless [OF imageless_steps(7)]], rule logs_case_sum, rule logs_return, simp add: verdict_imageless)
  apply (rule logs_bind [OF logs_detected], rule logs_case_prod, rule logs_case_option)
   apply (rule logs_mono [OF upgrade_then_machines])
   apply (simp add: rest_returns)
  apply (rule logs_return)
  apply (simp add: detected_def)
  done

lemma verdict_cluster:
  "logs (reconcile_cluster E (NewRemoteImageRepository E) (workload_generator E)
      (NewUpgrader E (workload_generator E) (NewRemoteImageRepository E)) order ob cl) (verdict E)"
  unfolding reconcile_cluster_def
  by (intro logs_intros imageless_steps [THEN emits_imageless, THEN logs_bind] logs_mono [OF verdict_provisioned]) (auto simp: verdict_imageless)

lemma deletion_reads_no_image: "logs (handleDeletion E ob) (\<lambda>r evs. imageless evs)"
proof -
  have retry: "emits P fn \<Longrightarrow> emits P (retryOnConflict n fn)" for P n and fn :: "('a, goerr option) prog"
    by (induction n) (subst retryOnConflict.simps, auto intro!: emits_intros split: option.splits)+
  have "emits before_image (handleDeletion E ob)"
    unfolding handleDeletion_def clearPreTerminateHooks_def cleanupDNSForwardingRule_def RemoveDNSForwardingRule_def Let_def
    by (intro emits_intros retry; simp add: before_image_def)
  then show ?thesis by (rule emits_imageless)
qed

lemma verdict_body:
  "logs (reconcile_body E (NewRemoteImageRepository E) (workload_generator E)
      (NewUpgrader E (workload_generator E) (NewRemoteImageRepository E)) order ob) (verdict E)"
  unfolding reconcile_body_def Let_def
  by (intro logs_intros imageless_steps [THEN emits_imageless, THEN logs_bind] logs_bind [OF deletion_reads_no_image] logs_mono [OF verdict_cluster])
    (auto simp: verdict_imageless)

lemma summary_keeps_version [simp]: "oacp_is_false (with_summary E ob) ''KubernetesVersionAvailable'' = oacp_is_false ob ''KubernetesVersionAvailable''"
  by (simp add: with_summary_def oacp_is_false_def oacp_cond.is_false_after_set split: option.split)

lemma verdict_Reconcile:
  "logs (Reconcile E (NewRemoteImageRepository E) (workload_generator E)
      (NewUpgrader E (workload_generator E) (NewRemoteImageRepository E)) order ns name)
    (\<lambda>out evs. \<forall>ref ans rest. filter reads_image evs = EvRemoteImage ref ans # rest \<longrightarrow> (out = Panicked \<longleftrightarrow> k8s_version_of E ans = None) \<and>
       (out = Panicked \<longrightarrow> rest = [] \<and> filter is_scaling evs = [] \<and>
          (\<exists>ob ob' y. last evs = EvHelperPatch (OOACP ob) (OOACP ob') True y \<and> oacp_is_false ob' ''KubernetesVersionAvailable'')))"
  unfolding Reconcile_def get_as_def kcall_defs
proof (simp only: prog_simps, intro logs_call_bind logs_intros logs_bind [OF verdict_body], goal_cases)
  case (2 x ob b evs y)
  then show ?case by (cases b; cases "snd b") (auto simp: after_patch_def verdict_def split: option.splits)
qed auto

text \<open>
  Claim C40. A release image that cannot be read. With the real clients, a pass of \<open>Reconcile\<close> in which the first
  image asked for is answered by an error, or by an image whose \<open>image-references\<close> give no Kubernetes version,
  panics (the nil version is dereferenced); it reads no further image, creates and deletes no machine, and
  its last call is the patch with the condition KubernetesVersionAvailable false and, as for a pass without
  an error, the observed generation. When that first image gives a version, the pass does not panic.
\<close>

theorem Reconcile_panics_without_version:
  assumes "run_state (Reconcile E (NewRemoteImageRepository E) (workload_generator E)
      (NewUpgrader E (workload_generator E) (NewRemoteImageRepository E)) order ns name) (start s) = (out, w)"
    and "filter reads_image (w_trace w) = EvRemoteImage ref ans # rest"
  shows "if k8s_version_of E ans = None
    then out = Panicked \<and> rest = [] \<and> filter is_scaling (w_trace w) = [] \<and>
      (\<exists>ob ob' y. last (w_trace w) = EvHelperPatch (OOACP ob) (OOACP ob') True y \<and> oacp_is_false ob' ''KubernetesVersionAvailable'')
    else out \<noteq> Panicked"
  using logs_start [OF verdict_Reconcile assms(1)] assms(2) by auto

definition dark_pass :: "unit env" where
  "dark_pass = demo_pass\<lparr>x_remote_image := (\<lambda>r kc s. (Inl (ApiStatus NotFound), s))\<rparr>"

lemma dark_pass_fields:
  "k_get dark_pass = k_get demo_pass" "k_list dark_pass = k_list demo_pass" "k_create dark_pass = k_create demo_pass"
  "k_helper_patch dark_pass = k_helper_patch demo_pass" "k_new_helper dark_pass = k_new_helper demo_pass"
  "x_parse_reference dark_pass = x_parse_reference demo_pass" "x_docker_config dark_pass = x_docker_config demo_pass"
  "x_remote_image dark_pass r kc u = (Inl (ApiStatus NotFound), u)" "x_summary dark_pass = x_summary demo_pass"
  by (simp_all add: dark_pass_def)

lemma dark_pass_owner: "GetOwnerCluster dark_pass m = GetOwnerCluster demo_pass m"
proof -
  have "GetOwnerCluster_refs dark_pass ns rs = GetOwnerCluster_refs demo_pass ns rs" for ns rs
    by (induction rs) (simp_all add: get_as_def kcall_defs dark_pass_fields split: option.split)
  then show ?thesis by (simp add: GetOwnerCluster_def)
qed

theorem Reconcile_panics_without_version_witness:
  "fst (run_state (Reconcile dark_pass (NewRemoteImageRepository dark_pass) (workload_generator dark_pass)
     (NewUpgrader dark_pass (workload_generator dark_pass) (NewRemoteImageRepository dark_pass)) id ''ns'' ''cp'') (start ())) = Panicked"
proof -
  let ?r = "run_state (Reconcile dark_pass (NewRemoteImageRepository dark_pass) (workload_generator dark_pass)
     (NewUpgrader dark_pass (workload_generator dark_pass) (NewRemoteImageRepository dark_pass)) id ''ns'' ''cp'') (start ())"
  obtain out w where run: "?r = (out, w)" by (meson surj_pair)
  have "\<exists>ref rest. filter reads_image (w_trace (snd ?r)) = EvRemoteImage ref (Inl (ApiStatus NotFound)) # rest"
    by (simp add: demo_pass_run dark_pass_fields dark_pass_owner)
  then obtain ref rest where "filter reads_image (w_trace w) = EvRemoteImage ref (Inl (ApiStatus NotFound)) # rest" using run by auto
  from Reconcile_panics_without_version [OF run this] run show ?thesis by (simp add: k8s_version_of_def)
qed

end
