(* ===== verification/Json.thy ===== *)
theory Json
  imports Encoding
begin

text \<open>
  Reading JSON text: \<open>json.Unmarshal\<close> into an interface value and \<open>json.Valid\<close> of Go's
  \<open>encoding/json\<close>.

  A number that is not an integer of at most 53 bits goes through a float in Go; the text of that
  float is given by the parameter \<open>fl\<close>, which fails when the literal is out of range. Text outside
  ASCII is taken to be well-formed UTF-8. The parser recurses on fuel; \<open>p_value_enough\<close>
  shows that the fuel \<open>parse_json\<close> gives never runs out.
\<close>

definition is_ws :: "char \<Rightarrow> bool" where
  "is_ws c \<longleftrightarrow> c \<in> {CHR '' '', CHR 0x09, CHR 0x0A, CHR 0x0D}"

definition skip_ws :: "string \<Rightarrow> string" where "skip_ws = dropWhile is_ws"

subsection \<open>Strings\<close>

definition hex_val :: "char \<Rightarrow> nat option" where
  "hex_val c = (if is_digit c then Some (digit_val c)
     else if byte c \<in> {97..102} then Some (byte c - 87)
     else if byte c \<in> {65..70} then Some (byte c - 55) else None)"

definition hex4 :: "char \<Rightarrow> char \<Rightarrow> char \<Rightarrow> char \<Rightarrow> nat option" where
  "hex4 a b c d = (case (hex_val a, hex_val b, hex_val c, hex_val d) of
     (Some w, Some x, Some y, Some z) \<Rightarrow> Some (((w * 16 + x) * 16 + y) * 16 + z) | _ \<Rightarrow> None)"

text \<open>UTF-8 of a code point; an unpaired surrogate becomes the replacement character.\<close>

definition utf8 :: "nat \<Rightarrow> string" where
  "utf8 n = (if n < 128 then [char_of n]
     else if n < 2048 then [char_of (192 + n div 64), char_of (128 + n mod 64)]
     else if n < 65536 then [char_of (224 + n div 4096), char_of (128 + n div 64 mod 64), char_of (128 + n mod 64)]
     else [char_of (240 + n div 262144), char_of (128 + n div 4096 mod 64), char_of (128 + n div 64 mod 64), char_of (128 + n mod 64)])"

definition unpaired :: "nat \<Rightarrow> string" where
  "unpaired n = utf8 (if 55296 \<le> n \<and> n < 57344 then 65533 else n)"

definition escape_char :: "char \<Rightarrow> char option" where
  "escape_char c = map_of [(CHR 0x22, CHR 0x22), (CHR 0x5C, CHR 0x5C), (CHR ''/'', CHR ''/''), (CHR ''b'', CHR 0x08),
     (CHR ''f'', CHR 0x0C), (CHR ''n'', CHR 0x0A), (CHR ''r'', CHR 0x0D), (CHR ''t'', CHR 0x09)] c"

definition prepend :: "string \<Rightarrow> (string \<times> string) option \<Rightarrow> (string \<times> string) option" where
  "prepend p r = map_option (\<lambda>(s, rest). (p @ s, rest)) r"

fun hex_unit :: "string \<Rightarrow> nat option" where
  "hex_unit (a # b # c # d # _) = hex4 a b c d" | "hex_unit _ = None"

text \<open>What stands after the letter u of an escape: the text it means and the number of characters read.\<close>

definition unicode_escape :: "string \<Rightarrow> (string \<times> nat) option" where
  "unicode_escape t = (case hex_unit t of None \<Rightarrow> None
     | Some hi \<Rightarrow> (case drop 4 t of
         x # y # t' \<Rightarrow> (case hex_unit t' of
           Some lo \<Rightarrow> if x = CHR 0x5C \<and> y = CHR ''u'' \<and> 55296 \<le> hi \<and> hi < 56320 \<and> 56320 \<le> lo \<and> lo < 57344
             then Some (utf8 (65536 + (hi - 55296) * 1024 + (lo - 56320)), 10) else Some (unpaired hi, 4)
         | None \<Rightarrow> Some (unpaired hi, 4))
       | _ \<Rightarrow> Some (unpaired hi, 4)))"

text \<open>The rest of a string literal after its opening quote.\<close>

fun p_chars :: "string \<Rightarrow> (string \<times> string) option" where
  "p_chars [] = None"
| "p_chars (c # s) = (if c = CHR 0x22 then Some ([], s)
     else if byte c < 32 then None
     else if c \<noteq> CHR 0x5C then prepend [c] (p_chars s)
     else (case s of [] \<Rightarrow> None
       | e # t \<Rightarrow> if e = CHR ''u'' then (case unicode_escape t of None \<Rightarrow> None | Some (x, k) \<Rightarrow> prepend x (p_chars (drop k t)))
           else (case escape_char e of None \<Rightarrow> None | Some x \<Rightarrow> prepend [x] (p_chars t))))"

declare p_chars.simps [simp del]

subsection \<open>Numbers\<close>

definition number_char :: "char \<Rightarrow> bool" where
  "number_char c \<longleftrightarrow> is_digit c \<or> c \<in> {CHR ''-'', CHR ''+'', CHR ''.'', CHR ''e'', CHR ''E''}"

definition all_digits :: "string \<Rightarrow> bool" where
  "all_digits s \<longleftrightarrow> s \<noteq> [] \<and> list_all is_digit s"

definition exponent_ok :: "string \<Rightarrow> bool" where
  "exponent_ok s = (case s of [] \<Rightarrow> True
     | c # t \<Rightarrow> c \<in> {CHR ''e'', CHR ''E''} \<and> all_digits (case t of [] \<Rightarrow> [] | d # u \<Rightarrow> if d \<in> {CHR ''+'', CHR ''-''} then u else t))"

text \<open>After the integer digits: a fraction and an exponent.\<close>

definition tail_ok :: "string \<Rightarrow> bool" where
  "tail_ok s = (case s of
     c # t \<Rightarrow> if c = CHR ''.'' then takeWhile is_digit t \<noteq> [] \<and> exponent_ok (dropWhile is_digit t) else exponent_ok s
   | [] \<Rightarrow> True)"

definition unsigned_ok :: "string \<Rightarrow> bool" where
  "unsigned_ok s = (let ds = takeWhile is_digit s in
     ds \<noteq> [] \<and> (hd ds = CHR ''0'' \<longrightarrow> length ds = 1) \<and> tail_ok (dropWhile is_digit s))"

definition strip_minus :: "string \<Rightarrow> string" where
  "strip_minus s = (case s of c # t \<Rightarrow> if c = CHR ''-'' then t else s | [] \<Rightarrow> [])"

definition signed_val :: "string \<Rightarrow> int" where
  "signed_val s = (if strip_minus s = s then int (nat_of_digits s) else - int (nat_of_digits (strip_minus s)))"

definition number_value :: "(string \<Rightarrow> string option) \<Rightarrow> string \<Rightarrow> json option" where
  "number_value fl s = (if \<not> unsigned_ok (strip_minus s) then None
     else if list_all is_digit (strip_minus s) \<and> \<bar>signed_val s\<bar> \<le> 2 ^ 53 \<and> s \<noteq> ''-0'' then Some (JInt (signed_val s))
     else map_option JNum (fl s))"

definition p_number :: "(string \<Rightarrow> string option) \<Rightarrow> string \<Rightarrow> (json \<times> string) option" where
  "p_number fl s = map_option (\<lambda>v. (v, dropWhile number_char s)) (number_value fl (takeWhile number_char s))"

subsection \<open>Values\<close>

text \<open>A member that occurs twice keeps its last value.\<close>

definition mk_obj :: "(string \<times> json) list \<Rightarrow> json" where
  "mk_obj kvs = JObj (foldl (\<lambda>m (k, v). obj_put k v m) [] kvs)"

definition p_literal :: "string \<Rightarrow> json \<Rightarrow> string \<Rightarrow> (json \<times> string) option" where
  "p_literal w v s = (if has_prefix s w then Some (v, drop (length w) s) else None)"

fun p_value :: "(string \<Rightarrow> string option) \<Rightarrow> nat \<Rightarrow> string \<Rightarrow> (json \<times> string) option"
  and p_elems :: "(string \<Rightarrow> string option) \<Rightarrow> nat \<Rightarrow> string \<Rightarrow> (json list \<times> string) option"
  and p_members :: "(string \<Rightarrow> string option) \<Rightarrow> nat \<Rightarrow> string \<Rightarrow> ((string \<times> json) list \<times> string) option" where
  "p_value fl 0 s = None"
| "p_value fl (Suc n) s = (case skip_ws s of
     [] \<Rightarrow> None
   | c # t \<Rightarrow>
       if c = CHR 0x22 then map_option (\<lambda>(x, r). (JStr x, r)) (p_chars t)
       else if c = CHR ''['' then (case skip_ws t of
           [] \<Rightarrow> None
         | d # r \<Rightarrow> if d = CHR '']'' then Some (JArr [], r) else map_option (\<lambda>(xs, r). (JArr xs, r)) (p_elems fl n t))
       else if c = CHR ''{'' then (case skip_ws t of
           [] \<Rightarrow> None
         | d # r \<Rightarrow> if d = CHR ''}'' then Some (JObj [], r) else map_option (\<lambda>(xs, r). (mk_obj xs, r)) (p_members fl n t))
       else if c = CHR ''t'' then p_literal ''true'' (JBool True) (c # t)
       else if c = CHR ''f'' then p_literal ''false'' (JBool False) (c # t)
       else if c = CHR ''n'' then p_literal ''null'' JNull (c # t)
       else p_number fl (c # t))"
| "p_elems fl 0 s = None"
| "p_elems fl (Suc n) s = (case p_value fl n s of None \<Rightarrow> None
   | Some (v, r) \<Rightarrow> (case skip_ws r of
       [] \<Rightarrow> None
     | c # r' \<Rightarrow> if c = CHR '']'' then Some ([v], r')
         else if c = CHR '','' then map_option (\<lambda>(vs, q). (v # vs, q)) (p_elems fl n r') else None))"
| "p_members fl 0 s = None"
| "p_members fl (Suc n) s = (case skip_ws s of
     [] \<Rightarrow> None
   | c # t \<Rightarrow> if c \<noteq> CHR 0x22 then None
       else (case p_chars t of None \<Rightarrow> None
         | Some (k, r) \<Rightarrow> (case skip_ws r of
             [] \<Rightarrow> None
           | d # r1 \<Rightarrow> if d \<noteq> CHR '':'' then None
               else (case p_value fl n r1 of None \<Rightarrow> None
                 | Some (v, r2) \<Rightarrow> (case skip_ws r2 of
                     [] \<Rightarrow> None
                   | e # r3 \<Rightarrow> if e = CHR ''}'' then Some ([(k, v)], r3)
                       else if e = CHR '','' then map_option (\<lambda>(vs, q). ((k, v) # vs, q)) (p_members fl n r3) else None)))))"

definition parse_json :: "(string \<Rightarrow> string option) \<Rightarrow> string \<Rightarrow> json option" where
  "parse_json fl s = (case p_value fl (2 * length s + 1) s of
     Some (v, r) \<Rightarrow> if skip_ws r = [] then Some v else None | None \<Rightarrow> None)"

definition json_valid :: "string \<Rightarrow> bool" where
  "json_valid s \<longleftrightarrow> parse_json Some s \<noteq> None"

subsection \<open>The fuel is enough\<close>

lemma length_skip_ws: "length (skip_ws s) \<le> length s"
  by (simp add: skip_ws_def length_dropWhile_le)

lemma skip_ws_ConsD: "skip_ws s = c # t \<Longrightarrow> length t < length s"
  using length_skip_ws [of s] by simp

lemma p_chars_length: "p_chars s = Some (x, r) \<Longrightarrow> length r < length s"
proof (induction s arbitrary: x r rule: p_chars.induct)
  case (2 c s)
  show ?case
  proof (cases "c = CHR 0x22 \<or> byte c < 32 \<or> c \<noteq> CHR 0x5C")
    case True
    then show ?thesis using "2.prems" "2.IH"(1) by (auto simp: p_chars.simps(2) prepend_def split: if_splits)
  next
    case False
    then obtain e t where s: "s = e # t"
      using "2.prems" by (cases s) (auto simp: p_chars.simps(2) split: if_splits)
    show ?thesis
    proof (cases "e = CHR ''u''")
      case True
      then have e: "(case unicode_escape t of None \<Rightarrow> None | Some (y, k) \<Rightarrow> prepend y (p_chars (drop k t))) = Some (x, r)"
        using "2.prems" False s by (simp add: p_chars.simps(2) [of c] byte_def)
      then obtain y k where y: "unicode_escape t = Some (y, k)" by (cases "unicode_escape t") auto
      with e obtain z where "p_chars (drop k t) = Some (z, r)" by (auto simp: prepend_def)
      with y have "length r < length (drop k t)" using True False s "2.IH"(2) by blast
      then show ?thesis using s by simp
    next
      case u: False
      have e: "(case escape_char e of None \<Rightarrow> None | Some y \<Rightarrow> prepend [y] (p_chars t)) = Some (x, r)"
        using "2.prems" False s u by (simp add: p_chars.simps(2) [of c] byte_def)
      then obtain y where y: "escape_char e = Some y" by (cases "escape_char e") auto
      with e obtain z where "p_chars t = Some (z, r)" by (auto simp: prepend_def)
      with y have "length r < length t" using u False s "2.IH"(3) by blast
      then show ?thesis using s by simp
    qed
  qed
qed (simp add: p_chars.simps)

lemma p_number_length:
  assumes "p_number fl s = Some (v, r)"
  shows "length r < length s"
proof -
  let ?p = "takeWhile number_char s"
  have "unsigned_ok (strip_minus ?p)" "r = dropWhile number_char s"
    using assms by (auto simp: p_number_def number_value_def split: if_splits)
  then have "?p \<noteq> []" by (auto simp: unsigned_ok_def strip_minus_def)
  then have "0 < length ?p" by simp
  moreover have "length s = length ?p + length r"
    using \<open>r = _\<close> by (metis length_append takeWhile_dropWhile_id)
  ultimately show ?thesis by linarith
qed

lemma p_literal_length: "p_literal w v s = Some (x, r) \<Longrightarrow> w \<noteq> [] \<Longrightarrow> length r < length s"
  by (cases s; cases w) (auto simp: p_literal_def has_prefix_def split: if_splits)

lemma p_value_length:
  "p_value fl n s = Some (v, r) \<Longrightarrow> length r < length s"
  "p_elems fl n s = Some (vs, r) \<Longrightarrow> length r < length s"
  "p_members fl n s = Some (kvs, r) \<Longrightarrow> length r < length s"
proof (induction fl n s and fl n s and fl n s arbitrary: v r and vs r and kvs r rule: p_value_p_elems_p_members.induct)
  case (2 fl n s)
  obtain c t where ct: "skip_ws s = c # t" using "2.prems" by (cases "skip_ws s") auto
  have len: "length (c # t) \<le> length s" using length_skip_ws [of s] ct by simp
  show ?case using "2.prems" ct len "2.IH"
    by (auto simp: Let_def split: if_splits list.splits
        dest!: p_chars_length p_number_length p_literal_length skip_ws_ConsD dest: less_le_trans)
      (fastforce dest: skip_ws_ConsD)+
next
  case (4 fl n s)
  then show ?case by (fastforce split: if_splits list.splits option.splits dest: skip_ws_ConsD)
next
  case (6 fl n s)
  then show ?case
    by (fastforce split: if_splits list.splits option.splits dest: skip_ws_ConsD p_chars_length)
qed simp_all

text \<open>Two runs with enough fuel each agree.\<close>

lemma p_value_fuel:
  "2 * length s + 1 \<le> n \<Longrightarrow> 2 * length s + 1 \<le> m \<Longrightarrow> p_value fl n s = p_value fl m s"
  "2 * length s + 2 \<le> n \<Longrightarrow> 2 * length s + 2 \<le> m \<Longrightarrow> p_elems fl n s = p_elems fl m s"
  "2 * length s + 1 \<le> n \<Longrightarrow> 2 * length s + 1 \<le> m \<Longrightarrow> p_members fl n s = p_members fl m s"
proof (induction fl n s and fl n s and fl n s arbitrary: m and m and m rule: p_value_p_elems_p_members.induct)
  case (2 fl n s)
  obtain m' where m: "m = Suc m'" using "2.prems" by (cases m) auto
  show ?case
  proof (cases "skip_ws s")
    case (Cons c t)
    then have "length t < length s" by (rule skip_ws_ConsD)
    then have fuel: "2 * length t + 2 \<le> n" "2 * length t + 2 \<le> m'" "2 * length t + 1 \<le> n" "2 * length t + 1 \<le> m'"
      using "2.prems" m by simp_all
    have arr: "p_elems fl n t = p_elems fl m' t" if "c = CHR ''[''" "skip_ws t = d # r" "d \<noteq> CHR '']''" for d r
      using that fuel Cons by (intro "2.IH"(1)) auto
    have obj: "p_members fl n t = p_members fl m' t" if "c = CHR ''{''" "skip_ws t = d # r" "d \<noteq> CHR ''}''" for d r
      using that fuel Cons by (intro "2.IH"(2)) auto
    consider "c = CHR ''[''" | "c = CHR ''{''" | "c \<noteq> CHR ''[''" "c \<noteq> CHR ''{''" by blast
    then show ?thesis
    proof cases
      case 1
      then show ?thesis using arr [OF 1] unfolding m p_value.simps Cons list.case
        by (cases "skip_ws t") simp_all
    next
      case 2
      then show ?thesis using obj [OF 2] unfolding m p_value.simps Cons list.case
        by (cases "skip_ws t") simp_all
    next
      case 3
      then show ?thesis unfolding m p_value.simps Cons list.case by (simp only: if_False simp_thms)
    qed
  qed (simp add: m)
next
  case (4 fl n s)
  obtain m' where m: "m = Suc m'" using "4.prems" by (cases m) auto
  have fuel: "2 * length s + 1 \<le> n" "2 * length s + 1 \<le> m'" using "4.prems" m by simp_all
  have v: "p_value fl n s = p_value fl m' s" by (rule "4.IH"(1) [OF fuel])
  show ?case
  proof (cases "p_value fl m' s")
    case (Some p)
    obtain v r where p: "p = (v, r)" by force
    have r: "length r < length s" using Some p p_value_length(1) by blast
    have tail: "p_elems fl n t = p_elems fl m' t" if "skip_ws r = CHR '','' # t" for t
    proof (rule "4.IH"(2) [of "(v, r)" v r "CHR '',''" t])
      show "2 * length t + 2 \<le> n" "2 * length t + 2 \<le> m'" using skip_ws_ConsD [OF that] r fuel by simp_all
    qed (use v Some p that in simp_all)
    show ?thesis by (simp add: m v Some p tail split: list.split)
  qed (simp add: m v)
next
  case (6 fl n s)
  obtain m' where m: "m = Suc m'" using "6.prems" by (cases m) auto
  have head: "p_value fl n r1 = p_value fl m' r1"
    and tail: "p_value fl n r1 = Some (v, r2) \<Longrightarrow> skip_ws r2 = CHR '','' # r3 \<Longrightarrow> p_members fl n r3 = p_members fl m' r3"
    if "skip_ws s = CHR 0x22 # t" "p_chars t = Some (k, r)" "skip_ws r = CHR '':'' # r1" for t k r r1 v r2 r3
  proof -
    have "length r1 + 2 < length s"
      using skip_ws_ConsD [OF that(1)] p_chars_length [OF that(2)] skip_ws_ConsD [OF that(3)] by simp
    then have f: "2 * length r1 + 1 \<le> n" "2 * length r1 + 1 \<le> m'" using "6.prems" m by simp_all
    show h: "p_value fl n r1 = p_value fl m' r1" using that f by (intro "6.IH"(1)) auto
    assume v: "p_value fl n r1 = Some (v, r2)" "skip_ws r2 = CHR '','' # r3"
    have "length r3 < length r1" using p_value_length(1) [OF v(1)] skip_ws_ConsD [OF v(2)] by simp
    then show "p_members fl n r3 = p_members fl m' r3" using that v f by (intro "6.IH"(2)) auto
  qed
  show ?case using head tail by (auto simp: m split: list.split option.split)
qed simp_all

lemma p_value_enough: "2 * length s + 1 \<le> n \<Longrightarrow> p_value fl n s = p_value fl (2 * length s + 1) s"
  by (rule p_value_fuel(1)) simp_all

subsection \<open>Printing and reading back\<close>

text \<open>Values the printer writes exactly: integers a float holds, no raw numbers, no repeated member.\<close>

fun plain :: "json \<Rightarrow> bool" where
  "plain (JInt i) \<longleftrightarrow> \<bar>i\<bar> \<le> 2 ^ 53"
| "plain (JNum s) \<longleftrightarrow> False"
| "plain (JArr xs) \<longleftrightarrow> (\<forall>x \<in> set xs. plain x)"
| "plain (JObj m) \<longleftrightarrow> distinct (List.map fst m) \<and> (\<forall>(k, v) \<in> set m. plain v)"
| "plain _ \<longleftrightarrow> True"

lemma byte_le_255: "byte c \<le> 255"
  using byte_props(1) [of c] by linarith

lemma hex_digits: "n < 16 \<Longrightarrow> hex_val (hex_digit n) = Some n"
proof -
  have "\<forall>n \<in> {0..<16}. hex_val (hex_digit n) = Some n"
    by (simp add: atLeastLessThan_def lessThan_def) code_simp
  then show "n < 16 \<Longrightarrow> hex_val (hex_digit n) = Some n" by simp
qed

lemma p_chars_plain: "c \<noteq> CHR 0x22 \<Longrightarrow> \<not> byte c < 32 \<Longrightarrow> c \<noteq> CHR 0x5C \<Longrightarrow> p_chars (c # s) = prepend [c] (p_chars s)"
  by (simp add: p_chars.simps)

lemma p_chars_escape: "e \<noteq> CHR ''u'' \<Longrightarrow> escape_char e = Some x \<Longrightarrow> p_chars (CHR 0x5C # e # s) = prepend [x] (p_chars s)"
  by (simp add: p_chars.simps byte_def)

lemma unicode_escape_byte:
  assumes "byte c < 128"
  shows "unicode_escape (''00'' @ hex_digit (byte c div 16) # hex_digit (byte c mod 16) # t) = Some ([c], 4)"
proof -
  have z: "hex_val (CHR ''0'') = Some 0" using hex_digits [of 0] by (simp add: hex_digit_def)
  have "byte c div 16 < 16" using assms by linarith
  then have h: "hex_unit (''00'' @ hex_digit (byte c div 16) # hex_digit (byte c mod 16) # t) = Some (byte c)"
    by (simp add: hex4_def hex_digits z)
  have u: "unpaired (byte c) = [c]" using assms by (simp add: unpaired_def utf8_def)
  show ?thesis using assms unfolding unicode_escape_def h by (simp add: u split: list.split option.split)
qed

lemma p_chars_json_char: "p_chars (json_char c @ s) = prepend [c] (p_chars s)"
proof -
  have u: "p_chars (CHR 0x5C # ''u00'' @ hex_digit (byte c div 16) # hex_digit (byte c mod 16) # s) = prepend [c] (p_chars s)"
    if "byte c < 128"
    using unicode_escape_byte [OF that, of s] by (simp add: p_chars.simps(2) [of "CHR 0x5C"] byte_def)
  have "byte c < 128" if "c = CHR ''<'' \<or> c = CHR ''>'' \<or> c = CHR ''&''" using that by (auto simp: byte_def)
  then show ?thesis using u
    by (auto simp: json_char_def p_chars_escape p_chars_plain escape_char_def)
qed

lemma p_chars_json_string: "p_chars (concat (List.map json_char s) @ CHR 0x22 # r) = Some (s, r)"
proof (induction s)
  case (Cons c s)
  then show ?case by (simp add: p_chars_json_char prepend_def)
qed (simp add: p_chars.simps)

lemma digit_chars_are_number_chars: "is_digit c \<Longrightarrow> number_char c"
  by (simp add: number_char_def)

lemma dec_int_number_chars: "c \<in> set (dec_int i) \<Longrightarrow> number_char c"
  by (auto simp: dec_int_def number_char_def dest: dec_nat_digits split: if_splits)

lemma dec_nat_no_leading_zero: "hd (dec_nat n) = CHR ''0'' \<Longrightarrow> n = 0"
proof (induction n rule: dec_nat.induct)
  case (1 n)
  show ?case
  proof (cases "n < 10")
    case True
    then have "digit_char n = CHR ''0''" using "1.prems" by (simp add: dec_nat.simps)
    then show ?thesis using digit_char_props(2) [OF True] by (simp add: digit_val_def)
  next
    case False
    then have "hd (dec_nat n) = hd (dec_nat (n div 10))" by (subst dec_nat.simps) simp
    then have "n div 10 = 0" using 1 False by simp
    then show ?thesis using False by simp
  qed
qed

lemma dec_nat_unsigned: "unsigned_ok (dec_nat n)" "list_all is_digit (dec_nat n)"
proof -
  have all: "\<forall>c \<in> set (dec_nat n). is_digit c" by (auto dest: dec_nat_digits)
  then show "list_all is_digit (dec_nat n)" by (simp add: list_all_iff)
  have "length (dec_nat n) = 1" if "hd (dec_nat n) = CHR ''0''"
    using dec_nat_no_leading_zero [OF that] by (simp add: dec_nat.simps)
  moreover have tw: "takeWhile is_digit (dec_nat n) = dec_nat n" "dropWhile is_digit (dec_nat n) = []"
    using all by (simp_all add: takeWhile_eq_all_conv [THEN iffD2])
  ultimately show "unsigned_ok (dec_nat n)" unfolding unsigned_ok_def Let_def tw by (simp add: tail_ok_def)
qed

lemma dec_nat_not_minus: "strip_minus (dec_nat n) = dec_nat n"
proof (cases "dec_nat n")
  case (Cons c s)
  then have "is_digit c" using dec_nat_digits [of c n] by simp
  then have "c \<noteq> CHR ''-''" by (auto simp: is_digit_def)
  then show ?thesis by (simp add: Cons strip_minus_def)
qed (simp add: strip_minus_def)

lemma number_value_dec_int: "\<bar>i\<bar> \<le> 2 ^ 53 \<Longrightarrow> number_value fl (dec_int i) = Some (JInt i)"
proof -
  assume i: "\<bar>i\<bar> \<le> 2 ^ 53"
  show ?thesis
  proof (cases "i < 0")
    case True
    have "dec_nat (nat (- i)) \<noteq> ''0''"
    proof
      assume "dec_nat (nat (- i)) = ''0''"
      then have "nat (- i) = 0" by (intro dec_nat_no_leading_zero) simp
      then show False using True by simp
    qed
    then show ?thesis using i True dec_nat_unsigned
      by (simp add: number_value_def dec_int_def strip_minus_def signed_val_def)
  next
    case False
    then show ?thesis using i dec_nat_unsigned [of "nat i"] dec_nat_digits [of "CHR ''-''" "nat i"]
      by (auto simp: number_value_def dec_int_def dec_nat_not_minus signed_val_def is_digit_def)
  qed
qed

definition ends_number :: "string \<Rightarrow> bool" where
  "ends_number r \<longleftrightarrow> (case r of [] \<Rightarrow> True | c # _ \<Rightarrow> \<not> number_char c)"

lemma p_number_dec_int:
  assumes "\<bar>i\<bar> \<le> 2 ^ 53" "ends_number r"
  shows "p_number fl (dec_int i @ r) = Some (JInt i, r)"
proof -
  have "takeWhile number_char (dec_int i @ r) = dec_int i" "dropWhile number_char (dec_int i @ r) = r"
    using assms(2) dec_int_number_chars [of _ i]
    by (simp_all add: takeWhile_append2 dropWhile_append2 ends_number_def split: list.splits)
  then show ?thesis using assms(1) by (simp add: p_number_def number_value_dec_int)
qed

lemma json_text_Cons:
  assumes "plain v"
  obtains c t where "json_text v = c # t" "\<not> is_ws c" "c \<noteq> CHR '']''" "c \<noteq> CHR ''}''"
proof (cases v)
  case (JInt i)
  obtain c t where ct: "dec_int i = c # t" by (cases "dec_int i") (auto simp: dec_int_def split: if_splits)
  then have "number_char c" using dec_int_number_chars [of c i] by simp
  then have "\<not> is_ws c \<and> c \<noteq> CHR '']'' \<and> c \<noteq> CHR ''}''" by (auto simp: number_char_def is_digit_def is_ws_def)
  then show ?thesis using that JInt ct by simp
next
  case (JBool b)
  then show ?thesis using that by (cases b) (simp_all add: is_ws_def)
qed (use assms that in \<open>simp_all add: is_ws_def json_string_def\<close>)

lemma skip_ws_Cons [simp]: "\<not> is_ws c \<Longrightarrow> skip_ws (c # s) = c # s"
  by (simp add: skip_ws_def)

lemma ends_number_Cons [simp]: "ends_number (c # r) \<longleftrightarrow> \<not> number_char c"
  by (simp add: ends_number_def)

lemma structural_chars [simp]: "\<not> number_char (CHR '','')" "\<not> number_char (CHR '']'')" "\<not> number_char (CHR ''}'')"
  "\<not> is_ws (CHR '','')" "\<not> is_ws (CHR '']'')" "\<not> is_ws (CHR ''}'')" "\<not> is_ws (CHR '':'')" "\<not> is_ws (CHR ''['')"
  "\<not> is_ws (CHR ''{'')" "\<not> is_ws (CHR 0x22)"
  by (simp_all add: number_char_def is_ws_def is_digit_def)

definition reads :: "(string \<Rightarrow> string option) \<Rightarrow> json \<Rightarrow> bool" where
  "reads fl v \<longleftrightarrow> (\<forall>n r. ends_number r \<longrightarrow> 2 * length (json_text v) + 1 \<le> n \<longrightarrow> p_value fl n (json_text v @ r) = Some (v, r))"

lemma readsD: "reads fl v \<Longrightarrow> ends_number r \<Longrightarrow> 2 * length (json_text v) + 1 \<le> n \<Longrightarrow> p_value fl n (json_text v @ r) = Some (v, r)"
  by (simp add: reads_def)

lemma p_elems_json_text:
  "\<forall>x \<in> set xs. reads fl x \<Longrightarrow> xs \<noteq> [] \<Longrightarrow> 2 * length (str_join '','' (List.map json_text xs)) + 2 \<le> n \<Longrightarrow>
    p_elems fl n (str_join '','' (List.map json_text xs) @ CHR '']'' # r) = Some (xs, r)"
proof (induction xs arbitrary: n)
  case (Cons x xs)
  obtain m where n: "n = Suc m" using Cons.prems(3) by (cases n) auto
  show ?case
  proof (cases xs)
    case Nil
    then show ?thesis using Cons.prems n readsD [of fl x "CHR '']'' # r" m] by simp
  next
    case (Cons y ys)
    let ?rest = "str_join '','' (List.map json_text xs)"
    have "p_elems fl m (?rest @ CHR '']'' # r) = Some (xs, r)"
      using Cons.IH [of m] Cons.prems n Cons by simp
    moreover have "p_value fl m (json_text x @ CHR '','' # ?rest @ CHR '']'' # r) = Some (x, CHR '','' # ?rest @ CHR '']'' # r)"
      using Cons.prems n Cons by (intro readsD) auto
    ultimately show ?thesis by (simp add: n Cons)
  qed
qed simp

abbreviation member_text :: "string \<times> json \<Rightarrow> string" where
  "member_text \<equiv> \<lambda>(k, v). json_string k @ '':'' @ json_text v"

lemma p_members_json_text:
  "\<forall>(k, v) \<in> set m. reads fl v \<Longrightarrow> m \<noteq> [] \<Longrightarrow> 2 * length (str_join '','' (List.map member_text m)) + 2 \<le> n \<Longrightarrow>
    p_members fl n (str_join '','' (List.map member_text m) @ CHR ''}'' # r) = Some (m, r)"
proof (induction m arbitrary: n)
  case (Cons p m)
  obtain k v where p: "p = (k, v)" by force
  obtain n' where n: "n = Suc n'" using Cons.prems(3) by (cases n) auto
  have step: "p_members fl n (member_text p @ d # q) = (if d = CHR ''}'' then Some ([p], q)
      else map_option (\<lambda>(vs, q). (p # vs, q)) (p_members fl n' q))" if "d = CHR ''}'' \<or> d = CHR '',''" for d q
  proof -
    have "2 * length (json_text v) + 1 \<le> n'" using Cons.prems(3) n p by (cases m) auto
    then have "p_value fl n' (json_text v @ d # q) = Some (v, d # q)"
      using Cons.prems(1) p that by (intro readsD) auto
    moreover have "skip_ws (d # q) = d # q" using that by auto
    ultimately show ?thesis using that p_chars_json_string [of k "CHR '':'' # json_text v @ d # q"]
      by (auto simp: n p json_string_def)
  qed
  show ?case
  proof (cases m)
    case Nil
    then show ?thesis using step [of "CHR ''}''" r] by simp
  next
    case (Cons y ys)
    let ?rest = "str_join '','' (List.map member_text m)"
    have "p_members fl n' (?rest @ CHR ''}'' # r) = Some (m, r)"
      using Cons.IH [of n'] Cons.prems n p Cons by simp
    then show ?thesis using step [of "CHR '',''" "?rest @ CHR ''}'' # r"] Cons by simp
  qed
qed simp

lemma obj_put_fresh: "k \<notin> fst ` set m \<Longrightarrow> obj_put k v m = m @ [(k, v)]"
  by (induction k v m rule: obj_put.induct) auto

lemma mk_obj_distinct: "distinct (List.map fst m) \<Longrightarrow> mk_obj m = JObj m"
proof -
  have "foldl (\<lambda>m (k, v). obj_put k v m) acc m = acc @ m" if "distinct (List.map fst (acc @ m))" for acc
    using that
  proof (induction m arbitrary: acc)
    case (Cons p m)
    then show ?case by (cases p) (auto simp: obj_put_fresh)
  qed simp
  then show "distinct (List.map fst m) \<Longrightarrow> mk_obj m = JObj m" by (simp add: mk_obj_def)
qed

lemma json_text_reads: "plain v \<Longrightarrow> reads fl v"
proof (induction v rule: json_text.induct)
  case (2 b)
  show ?case unfolding reads_def
  proof (intro allI impI)
    fix n r assume "2 * length (json_text (JBool b)) + 1 \<le> n"
    then obtain m where "n = Suc m" by (cases n) auto
    then show "p_value fl n (json_text (JBool b) @ r) = Some (JBool b, r)"
      by (cases b) (simp_all add: is_ws_def p_literal_def)
  qed
next
  case (3 i)
  show ?case unfolding reads_def
  proof (intro allI impI)
    fix n r assume r: "ends_number r" and "2 * length (json_text (JInt i)) + 1 \<le> n"
    then obtain m where n: "n = Suc m" by (cases n) auto
    obtain c t where ct: "dec_int i = c # t" "\<not> is_ws c" using json_text_Cons [OF "3.prems"] by (metis json_text.simps(3))
    then have "number_char c" using dec_int_number_chars [of c i] by simp
    then have "c \<noteq> CHR 0x22" "c \<noteq> CHR ''[''" "c \<noteq> CHR ''{''" "c \<noteq> CHR ''t''" "c \<noteq> CHR ''f''" "c \<noteq> CHR ''n''"
      by (auto simp: number_char_def is_digit_def)
    then show "p_value fl n (json_text (JInt i) @ r) = Some (JInt i, r)"
      using p_number_dec_int [of i r fl] "3.prems" r ct by (simp add: n)
  qed
next
  case (5 s)
  show ?case unfolding reads_def
  proof (intro allI impI)
    fix n r assume "2 * length (json_text (JStr s)) + 1 \<le> n"
    then obtain m where "n = Suc m" by (cases n) auto
    then show "p_value fl n (json_text (JStr s) @ r) = Some (JStr s, r)"
      by (simp add: json_string_def p_chars_json_string)
  qed
next
  case (6 xs)
  show ?case unfolding reads_def
  proof (intro allI impI)
    fix n r assume n: "2 * length (json_text (JArr xs)) + 1 \<le> n"
    then obtain m where m: "n = Suc m" by (cases n) auto
    show "p_value fl n (json_text (JArr xs) @ r) = Some (JArr xs, r)"
    proof (cases xs)
      case (Cons x ys)
      then have "plain x" using "6.prems" by simp
      then obtain c t where ct: "json_text x = c # t" "\<not> is_ws c" "c \<noteq> CHR '']''"
        by (rule json_text_Cons)
      let ?s = "str_join '','' (List.map json_text xs) @ CHR '']'' # r"
      obtain t' where "?s = c # t'" using ct Cons by (cases ys) auto
      moreover have "p_elems fl m ?s = Some (xs, r)"
        using "6.IH" "6.prems" Cons n m by (intro p_elems_json_text) auto
      ultimately show ?thesis using ct by (simp add: m)
    qed (simp add: m)
  qed
next
  case (7 kvs)
  show ?case unfolding reads_def
  proof (intro allI impI)
    fix n r assume n: "2 * length (json_text (JObj kvs)) + 1 \<le> n"
    then obtain m where m: "n = Suc m" by (cases n) auto
    show "p_value fl n (json_text (JObj kvs) @ r) = Some (JObj kvs, r)"
    proof (cases kvs)
      case (Cons p ys)
      let ?s = "str_join '','' (List.map member_text kvs) @ CHR ''}'' # r"
      obtain t' where "?s = CHR 0x22 # t'" using Cons by (cases p; cases ys) (auto simp: json_string_def)
      moreover have "\<forall>(k, v) \<in> set kvs. reads fl v" using "7.IH" "7.prems" by fastforce
      then have "p_members fl m ?s = Some (kvs, r)"
        using Cons n m by (intro p_members_json_text) simp_all
      ultimately show ?thesis using "7.prems" by (simp add: m mk_obj_distinct)
    qed (simp add: m)
  qed
next
  case 1
  show ?case unfolding reads_def
  proof (intro allI impI)
    fix n r assume "2 * length (json_text JNull) + 1 \<le> n"
    then obtain m where "n = Suc m" by (cases n) auto
    then show "p_value fl n (json_text JNull @ r) = Some (JNull, r)" by (simp add: is_ws_def p_literal_def)
  qed
qed simp

lemma parse_json_text: "plain v \<Longrightarrow> parse_json fl (json_text v) = Some v"
  using readsD [OF json_text_reads, of v "[]" "2 * length (json_text v) + 1" fl]
  by (simp add: parse_json_def ends_number_def skip_ws_def)

lemma json_text_valid: "plain v \<Longrightarrow> json_valid (json_text v)"
  by (simp add: json_valid_def parse_json_text)

end
