(* ===== verification/Ignition.thy ===== *)
theory Ignition
  imports Json Environment
begin

text \<open>
  The ignition of the installed node: \<open>CreateFile\<close> and \<open>CreateUnit\<close> of \<open>pkg/ignition\<close> and all of
  \<open>bootstrap/internal/ignition\<close>. A file or unit is the record of the fields the program sets; a
  whole configuration is the JSON value that Go prints for the struct of version 3.1 (members in
  the order of the struct, empty slices and nil pointers left out, empty structs kept). The
  scripts and units are the texts of the source, line by line. Parsing and merging of ignition
  (\<open>github.com/coreos/ignition\<close>) are fields of the environment.

  The lemmas: the printed configuration reads back as the configuration, every unit runs a script
  that the same configuration installs as executable, the bootstrap commands are installed
  verbatim, and the marker that stops a second run is the file the script touches.
\<close>

subsection \<open>Files and units\<close>

record ignition_file =
  if_path :: string
  if_user :: string
  if_source :: string
  if_mode :: int
  if_overwrite :: bool

record ignition_unit =
  iu_contents :: string
  iu_enabled :: bool
  iu_name :: string

definition CreateFile :: "string \<Rightarrow> string \<Rightarrow> string \<Rightarrow> int \<Rightarrow> bool \<Rightarrow> ignition_file" where
  "CreateFile path user content md overwrite =
     \<lparr>if_path = path, if_user = user, if_source = content, if_mode = md, if_overwrite = overwrite\<rparr>"

definition CreateUnit :: "string \<Rightarrow> string \<Rightarrow> ignition_unit" where
  "CreateUnit name contents = \<lparr>iu_contents = contents, iu_enabled = True, iu_name = name\<rparr>"

definition CreateIgnitionFile :: "string \<Rightarrow> string \<Rightarrow> string \<Rightarrow> int \<Rightarrow> bool \<Rightarrow> ignition_file" where
  "CreateIgnitionFile path user content md overwrite = CreateFile path user content md overwrite"

definition file_json :: "ignition_file \<Rightarrow> json" where
  "file_json f = JObj [(''group'', JObj []), (''overwrite'', JBool (if_overwrite f)), (''path'', JStr (if_path f)),
     (''user'', JObj [(''name'', JStr (if_user f))]),
     (''contents'', JObj [(''source'', JStr (if_source f)), (''verification'', JObj [])]), (''mode'', JInt (if_mode f))]"

definition unit_json :: "ignition_unit \<Rightarrow> json" where
  "unit_json u = JObj [(''contents'', JStr (iu_contents u)), (''enabled'', JBool (iu_enabled u)), (''name'', JStr (iu_name u))]"

definition config_json :: "string \<Rightarrow> ignition_file list \<Rightarrow> ignition_unit list \<Rightarrow> json" where
  "config_json version files units = JObj [
     (''ignition'', JObj ([(''config'', JObj [(''replace'', JObj [(''verification'', JObj [])])]), (''proxy'', JObj []),
        (''security'', JObj [(''tls'', JObj [])]), (''timeouts'', JObj [])] @
        (if version = [] then [] else [(''version'', JStr version)]))),
     (''passwd'', JObj []),
     (''storage'', JObj (if files = [] then [] else [(''files'', JArr (List.map file_json files))])),
     (''systemd'', JObj (if units = [] then [] else [(''units'', JArr (List.map unit_json units))]))]"

subsection \<open>Config drive metadata and kubelet labels\<close>

definition configdriveMetadataScript :: string where
  "configdriveMetadataScript = text_lines [
     ''#!/bin/bash'',
     [],
     ''env_file=/etc/metadata_env'',
     ''config_dir=$(mktemp -d)'',
     ''sudo mount -L config-2 $config_dir'',
     ''cat $config_dir/openstack/latest/meta_data.json | jq -r '. | keys[]' | while read key; do value=$(jq -r \".['' @ [CHR 0x5C] @ ''\"$key'' @ [CHR 0x5C] @ ''\"]\" $config_dir/openstack/latest/meta_data.json); echo \"METADATA_$(echo ${key} | tr a-z A-Z | tr - _)=${value}\"; done | sort | uniq | sudo tee $env_file'']"

definition getConfigdriveMetadataFile :: ignition_file where
  "getConfigdriveMetadataFile = CreateFile ''/usr/local/bin/configdrive_metadata'' ''root'' (DataURLCharset configdriveMetadataScript) 493 True"

definition getConfigdriveMetadataSystemdUnit :: ignition_unit where
  "getConfigdriveMetadataSystemdUnit = CreateUnit ''configdrive-metadata.service'' (text_lines [
     ''[Unit]'',
     ''Description=Configdrive Metadata'',
     ''Before=kubelet-customlabels.service'',
     ''After=ostree-finalize-staged.service'',
     [],
     ''[Service]'',
     ''Type=oneshot'',
     [],
     ''ExecStart=/usr/local/bin/configdrive_metadata'',
     ''[Install]'',
     ''WantedBy=multi-user.target''])"

definition getKubeletCustomLabelsSystemdUnit :: ignition_unit where
  "getKubeletCustomLabelsSystemdUnit = CreateUnit ''kubelet-customlabels.service'' (text_lines [
     ''[Unit]'',
     ''Description=Kubelet Custom Labels'',
     ''Before=kubelet.service'',
     ''After=ostree-finalize-staged.service'',
     [],
     ''[Service]'',
     ''Type=oneshot'',
     ''EnvironmentFile=/etc/metadata_env'',
     [],
     ''ExecStart=/usr/local/bin/kubelet_custom_labels'',
     ''[Install]'',
     ''WantedBy=multi-user.target''])"

subsection \<open>Bootstrap commands\<close>

record IgnitionOptions =
  NodeNameEnvVar :: string
  PreBootstrapCommands :: "string list"
  PostBootstrapCommands :: "string list"
  SentinelDirectory :: string
  KubeconfigPath :: string
  ProviderID :: string
  KubeletCustomLabelsFile :: "ignition_file option"

text \<open>\<open>strings.TrimRight\<close> of slashes, \<open>filepath.Clean\<close> and \<open>filepath.Dir\<close> on Unix.\<close>

definition trim_right :: "char \<Rightarrow> string \<Rightarrow> string" where
  "trim_right c s = rev (dropWhile (\<lambda>x. x = c) (rev s))"

definition clean_step :: "bool \<Rightarrow> string list \<Rightarrow> string \<Rightarrow> string list" where
  "clean_step rooted st p = (if p = [] \<or> p = ''.'' then st
     else if p = ''..'' then (case st of
         [] \<Rightarrow> if rooted then [] else [p]
       | q # st' \<Rightarrow> if q = ''..'' then p # st else st')
     else p # st)"

definition path_clean :: "string \<Rightarrow> string" where
  "path_clean p = (let rooted = has_prefix p ''/'';
       body = str_join ''/'' (rev (foldl (clean_step rooted) [] (str_split CHR ''/'' p))) in
     if rooted then ''/'' @ body else if body = [] then ''.'' else body)"

definition path_dir :: "string \<Rightarrow> string" where
  "path_dir p = path_clean (rev (dropWhile (\<lambda>c. c \<noteq> CHR ''/'') (rev p)))"

definition defaultSentinelDirectory :: string where
  "defaultSentinelDirectory = ''/var/lib/capoa''"

definition sentinelDirectory :: "string \<Rightarrow> string" where
  "sentinelDirectory dir = (if dir = [] then defaultSentinelDirectory else trim_right CHR ''/'' dir)"

definition kubeconfigPath :: "string \<Rightarrow> string" where
  "kubeconfigPath path = (if path = [] then ''/var/lib/kubelet/kubeconfig'' else path)"

text \<open>The commands as lines of a script, and the lines that leave the marker behind.\<close>

definition touch_lines :: "string \<Rightarrow> string" where
  "touch_lines sentinelPath = text_lines [''mkdir -p '' @ path_dir sentinelPath, ''touch '' @ sentinelPath]"

definition bootstrap_unit_text :: "string \<Rightarrow> string list \<Rightarrow> string \<Rightarrow> string \<Rightarrow> string" where
  "bootstrap_unit_text name orderLines sentinelPath scriptPath = text_lines ([
     ''[Unit]'',
     ''Description=CAPOA '' @ name] @ orderLines @ [
     ''ConditionPathExists=!'' @ sentinelPath,
     [],
     ''[Service]'',
     ''Type=oneshot'',
     ''ExecStart='' @ scriptPath,
     [],
     ''[Install]'',
     ''WantedBy=multi-user.target''])"

definition getBootstrapCommandUnit :: "string \<Rightarrow> string \<Rightarrow> string \<Rightarrow> string list \<Rightarrow> string list \<Rightarrow> ignition_unit \<times> ignition_file" where
  "getBootstrapCommandUnit name scriptPath sentinelPath orderLines commands =
    (CreateUnit (name @ ''.service'') (bootstrap_unit_text name orderLines sentinelPath scriptPath),
     CreateFile scriptPath ''root'' (DataURLCharset
       (text_lines [''#!/bin/bash'', ''set -euo pipefail''] @ text_lines commands @ touch_lines sentinelPath)) 448 True)"

definition preSentinel :: "string \<Rightarrow> string" where "preSentinel dir = sentinelDirectory dir @ ''/pre-bootstrap.done''"
definition postSentinel :: "string \<Rightarrow> string" where "postSentinel dir = sentinelDirectory dir @ ''/post-bootstrap.done''"

definition getPreBootstrapUnit :: "string list \<Rightarrow> string \<Rightarrow> ignition_unit \<times> ignition_file" where
  "getPreBootstrapUnit commands dir = getBootstrapCommandUnit ''capoa-pre-bootstrap'' ''/usr/local/bin/capoa-pre-bootstrap.sh''
     (preSentinel dir)
     [''After=network.target ostree-finalize-staged.service configdrive-metadata.service kubelet-customlabels.service set-hostname.service'',
      ''Before=kubelet.service''] commands"

definition waitScript :: "string \<Rightarrow> string" where
  "waitScript kubeconfig = text_lines [
     ''# Wait for kube API to be accessible (max 10 minutes)'',
     ''# This polling validates both API availability and certificate validity.'',
     ''# If the kubelet client certificate is missing or invalid, kubectl commands will fail.'',
     ''KUBECONFIG_PATH=\"'' @ kubeconfig @ ''\"'',
     ''MAX_WAIT=600'',
     ''INTERVAL=10'',
     ''ELAPSED=0'',
     [],
     ''echo \"Waiting for kube API accessibility via ${KUBECONFIG_PATH}...\"'',
     ''while ! kubectl --kubeconfig=\"${KUBECONFIG_PATH}\" get --raw /readyz >/dev/null 2>&1; do'',
     ''    if [ ${ELAPSED} -ge ${MAX_WAIT} ]; then'',
     ''        echo \"ERROR: Timeout waiting for kube API after ${MAX_WAIT}s\"'',
     ''        exit 1'',
     ''    fi'',
     ''    echo \"Still waiting for kube API to be accessible... (${ELAPSED}s elapsed)\"'',
     ''    sleep ${INTERVAL}'',
     ''    ELAPSED=$((ELAPSED + INTERVAL))'',
     ''done'',
     ''echo \"Kube API accessible after ${ELAPSED}s\"'',
     [],
     ''# Wait for node to join cluster (shares same timeout budget)'',
     ''echo \"Waiting for node $(hostname) to join cluster...\"'',
     ''while ! kubectl --kubeconfig=\"${KUBECONFIG_PATH}\" get node \"$(hostname)\" >/dev/null 2>&1; do'',
     ''    if [ ${ELAPSED} -ge ${MAX_WAIT} ]; then'',
     ''        echo \"ERROR: Timeout waiting for node $(hostname) to join cluster after ${MAX_WAIT}s\"'',
     ''        exit 1'',
     ''    fi'',
     ''    echo \"Still waiting for node to be registered in cluster... (${ELAPSED}s elapsed)\"'',
     ''    sleep ${INTERVAL}'',
     ''    ELAPSED=$((ELAPSED + INTERVAL))'',
     ''done'',
     ''echo \"Node registered in cluster after ${ELAPSED}s\"'',
     []]"

definition postScript :: "string list \<Rightarrow> string \<Rightarrow> string \<Rightarrow> string" where
  "postScript commands sentinelPath kubeconfig = text_lines [''#!/bin/bash'', ''set -euo pipefail'', []] @ waitScript kubeconfig @
     text_lines [''# Execute user-provided post-bootstrap commands''] @ text_lines commands @ touch_lines sentinelPath"

definition getPostBootstrapUnit :: "string list \<Rightarrow> string \<Rightarrow> string \<Rightarrow> ignition_unit \<times> ignition_file" where
  "getPostBootstrapUnit commands dir kubeconfPath =
    (CreateUnit ''capoa-post-bootstrap.service'' (bootstrap_unit_text ''capoa-post-bootstrap''
       [''Requires=kubelet.service'', ''After=kubelet.service''] (postSentinel dir) ''/usr/local/bin/capoa-post-bootstrap.sh''),
     CreateFile ''/usr/local/bin/capoa-post-bootstrap.sh'' ''root''
       (DataURLCharset (postScript commands (postSentinel dir) (kubeconfigPath kubeconfPath))) 448 True)"

subsection \<open>Host name and provider id\<close>

text \<open>The name in a reference \<open>$VAR\<close> or \<open>${VAR}\<close>.\<close>


definition strip_reference :: "string \<Rightarrow> string" where
  "strip_reference v = trim_suffix (trim_prefix (trim_prefix v ''$'') ''{'') ''}''"

definition setHostnameScript :: "string \<Rightarrow> string" where
  "setHostnameScript varName = text_lines [
     ''#!/bin/bash'',
     ''# Safely resolve node name from metadata environment'',
     ''ENV_VAR_NAME=\"'' @ varName @ ''\"'',
     ''if [ -f /etc/metadata_env ]; then'',
     ''    # Use grep to find the line, cut to extract value - no shell expansion'',
     ''    NODE_NAME=$(/usr/bin/grep \"^${ENV_VAR_NAME}=\" /etc/metadata_env | /usr/bin/cut -d'=' -f2-)'',
     ''fi'',
     ''if [ -n \"$NODE_NAME\" ]; then'',
     ''    # Use hostnamectl to set both transient and static hostname'',
     ''    /usr/bin/hostnamectl set-hostname \"$NODE_NAME\"'',
     ''fi'']"

definition getSetHostnameUnit :: "string \<Rightarrow> ignition_unit \<times> ignition_file" where
  "getSetHostnameUnit envVarRef =
    (CreateUnit ''set-hostname.service'' (text_lines [
     ''[Unit]'',
     ''Description=Set Hostname from Metadata'',
     ''Before=kubelet.service'',
     ''After=configdrive-metadata.service'',
     ''Wants=configdrive-metadata.service'',
     [],
     ''[Service]'',
     ''Type=oneshot'',
     ''RemainAfterExit=true'',
     ''ExecStart=/bin/bash /usr/local/bin/set_hostname'',
     [],
     ''[Install]'',
     ''WantedBy=multi-user.target'']),
     CreateFile ''/usr/local/bin/set_hostname'' ''root'' (DataURLCharset (setHostnameScript (strip_reference envVarRef))) 493 True)"

definition injectProviderIDScript :: string where
  "injectProviderIDScript = text_lines [
     ''#!/bin/bash'',
     ''set -euo pipefail'',
     [],
     ''PROVIDER_ID_FILE=/run/kubelet-provider-id'',
     ''DROPIN_DIR=/etc/systemd/system/kubelet.service.d'',
     ''DROPIN_FILE=\"${DROPIN_DIR}/20-provider-id.conf\"'',
     ''METADATA_ENV_FILE=/etc/metadata_env'',
     [],
     ''PROVIDER_ID=$(cat \"$PROVIDER_ID_FILE\" 2>/dev/null) || true'',
     ''if [ -z \"$PROVIDER_ID\" ]; then'',
     ''    echo \"inject-provider-id: no provider-id found, skipping\"'',
     ''    exit 0'',
     ''fi'',
     [],
     ''# Expand environment variables in the provider ID'',
     ''# Source metadata_env if it exists to resolve variables like $METADATA_UUID'',
     ''if [ -f \"$METADATA_ENV_FILE\" ]; then'',
     ''    # Source the metadata env file to make variables available'',
     ''    set -a'',
     ''    source \"$METADATA_ENV_FILE\"'',
     ''    set +a'',
     ''    # Use eval to expand variables in the provider ID string'',
     ''    PROVIDER_ID=$(eval echo \"$PROVIDER_ID\")'',
     ''fi'',
     [],
     ''# Extract the full ExecStart command from kubelet.service, joining'',
     ''# continuation lines (backslash-newline). Filters out ExecStartPre'',
     ''# and ExecStart= (clearing) lines, keeping only the actual command.'',
     ''EXEC_START=$(systemctl cat kubelet.service | awk '' @ [CHR 0x27],
     ''    /^ExecStart=/ && !/^ExecStartPre=/ && !/^ExecStart=$/ {'',
     ''        sub(/^ExecStart=/, \"\")'',
     ''        cmd = $0'',
     ''        while (cmd ~ /'' @ [CHR 0x5C] @ [CHR 0x5C] @ ''$/) {'',
     ''            sub(/'' @ [CHR 0x5C] @ [CHR 0x5C] @ ''$/, \"\", cmd)'',
     ''            if (getline > 0) cmd = cmd $0'',
     ''        }'',
     ''        print cmd'',
     ''    }'',
     [CHR 0x27] @ '' | tail -1)'',
     [],
     ''if [ -z \"$EXEC_START\" ]; then'',
     ''    echo \"inject-provider-id: WARNING: could not determine kubelet ExecStart\"'',
     ''    exit 1'',
     ''fi'',
     [],
     ''# If --provider-id is already present, skip'',
     ''if echo \"$EXEC_START\" | grep -q -- \"--provider-id\"; then'',
     ''    echo \"inject-provider-id: --provider-id already set in kubelet ExecStart, skipping\"'',
     ''    exit 0'',
     ''fi'',
     [],
     ''# Create drop-in that overrides ExecStart with --provider-id appended'',
     ''mkdir -p \"$DROPIN_DIR\"'',
     ''cat > \"$DROPIN_FILE\" <<EOF'',
     ''[Service]'',
     ''ExecStart='',
     ''ExecStart=${EXEC_START} --provider-id=\"${PROVIDER_ID}\"'',
     ''EOF'',
     [],
     ''systemctl daemon-reload'',
     ''echo \"inject-provider-id: injected --provider-id=${PROVIDER_ID}\"'']"

definition getProviderIDInjectorUnit :: "ignition_unit \<times> ignition_file" where
  "getProviderIDInjectorUnit =
    (CreateUnit ''capoa-inject-provider-id.service'' (text_lines [
     ''[Unit]'',
     ''Description=Inject provider-id into kubelet'',
     ''Before=kubelet.service'',
     ''After=kubelet-customlabels.service'',
     ''Wants=kubelet-customlabels.service'',
     [],
     ''[Service]'',
     ''Type=oneshot'',
     ''RemainAfterExit=true'',
     ''ExecStart=/usr/local/bin/inject-provider-id'',
     [],
     ''[Install]'',
     ''WantedBy=multi-user.target'']),
     CreateFile ''/usr/local/bin/inject-provider-id'' ''root'' (DataURLCharset injectProviderIDScript) 493 True)"

subsection \<open>The configuration of the installed node\<close>

text \<open>The parts in the order the code appends them, each a unit and its file.\<close>

definition node_parts :: "IgnitionOptions \<Rightarrow> (ignition_unit \<times> ignition_file) list" where
  "node_parts opts =
    (if NodeNameEnvVar opts \<noteq> [] \<or> KubeletCustomLabelsFile opts \<noteq> None
       then [(getConfigdriveMetadataSystemdUnit, getConfigdriveMetadataFile)] else []) @
    (case KubeletCustomLabelsFile opts of None \<Rightarrow> [] | Some f \<Rightarrow> [(getKubeletCustomLabelsSystemdUnit, f)]) @
    (if NodeNameEnvVar opts \<noteq> [] then [getSetHostnameUnit (NodeNameEnvVar opts)] else []) @
    (if PreBootstrapCommands opts \<noteq> [] then [getPreBootstrapUnit (PreBootstrapCommands opts) (SentinelDirectory opts)] else []) @
    (if PostBootstrapCommands opts \<noteq> []
       then [getPostBootstrapUnit (PostBootstrapCommands opts) (SentinelDirectory opts) (KubeconfigPath opts)] else []) @
    (if ProviderID opts \<noteq> [] then [getProviderIDInjectorUnit] else [])"

definition installedNodeComponents :: "IgnitionOptions \<Rightarrow> ignition_unit list \<times> ignition_file list" where
  "installedNodeComponents opts = (List.map fst (node_parts opts), List.map snd (node_parts opts))"

definition GetIgnitionConfigOverrides :: "IgnitionOptions \<Rightarrow> ignition_file list \<Rightarrow> string" where
  "GetIgnitionConfigOverrides opts extraFiles = (case installedNodeComponents opts of (units, files) \<Rightarrow>
     json_text (config_json ''3.1.0'' (files @ extraFiles) units))"

subsection \<open>Merging\<close>

text \<open>
  \<open>append\<close> to a slice of the configuration: the member keeps its place in the struct and stays
  left out when it is empty.
\<close>

definition append_member :: "string list \<Rightarrow> string \<Rightarrow> json list \<Rightarrow> (string \<times> json) list \<Rightarrow> (string \<times> json) list" where
  "append_member before k xs m = (let new = nested_slice [k] (JObj m) @ xs in
     filter (\<lambda>(k', v). k' \<in> set before) m @ (if new = [] then [] else [(k, JArr new)]) @
     filter (\<lambda>(k', v). k' \<notin> set before \<and> k' \<noteq> k) m)"

definition in_section :: "string \<Rightarrow> ((string \<times> json) list \<Rightarrow> (string \<times> json) list) \<Rightarrow> json \<Rightarrow> json" where
  "in_section s f c = (case c of
     JObj m \<Rightarrow> JObj (List.map (\<lambda>(k, v). (k, if k = s then (case v of JObj n \<Rightarrow> JObj (f n) | _ \<Rightarrow> v) else v)) m)
   | _ \<Rightarrow> c)"

definition append_units :: "ignition_unit list \<Rightarrow> json \<Rightarrow> json" where
  "append_units us = in_section ''systemd'' (append_member [] ''units'' (List.map unit_json us))"

definition append_files :: "ignition_file list \<Rightarrow> json \<Rightarrow> json" where
  "append_files fs = in_section ''storage'' (append_member [''directories'', ''disks''] ''files'' (List.map file_json fs))"

definition MergeIgnitionConfig :: "'s env \<Rightarrow> bytes \<Rightarrow> IgnitionOptions \<Rightarrow> bytes res" where
  "MergeIgnitionConfig E baseIgnition opts = (case installedNodeComponents opts of (units, files) \<Rightarrow>
     if units = [] \<and> files = [] then Inr baseIgnition
     else (case x_ign_unmarshal E baseIgnition of
         Inl e \<Rightarrow> Inl e
       | Inr config \<Rightarrow> Inr (json_text (append_files files (append_units units config)))))"

definition MergeIgnitionConfigStrings :: "'s env \<Rightarrow> string \<Rightarrow> string \<Rightarrow> string res" where
  "MergeIgnitionConfigStrings E baseIgnition overrideIgnition =
    (if overrideIgnition = [] then Inr baseIgnition
     else (case x_ign_parse E baseIgnition of
         Inl e \<Rightarrow> Inl e
       | Inr baseConfig \<Rightarrow> (case x_ign_parse E overrideIgnition of
           Inl e \<Rightarrow> Inl e
         | Inr overrideConfig \<Rightarrow> Inr (json_text (x_ign_merge E baseConfig overrideConfig)))))"

definition getEnsureAgentUnit :: ignition_unit where
  "getEnsureAgentUnit = CreateUnit ''ensure-agent.service'' (text_lines [
     ''[Unit]'',
     ''Description=Ensure assisted-installer agent is running'',
     ''After=network-online.target'',
     ''Wants=network-online.target'',
     [],
     ''[Service]'',
     ''Type=oneshot'',
     ''ExecStartPre=/bin/bash -c 'sleep 30'' @ [CHR 0x27],
     ''ExecStart=/bin/bash -c 'systemctl is-active agent.service >/dev/null 2>&1 && exit 0; systemctl enable agent.service 2>/dev/null || true; systemctl start agent.service'' @ [CHR 0x27],
     ''RemainAfterExit=true'',
     [],
     ''[Install]'',
     ''WantedBy=multi-user.target''])"

definition MergeDiscoveryIgnitionConfig :: "'s env \<Rightarrow> bytes \<Rightarrow> bytes res" where
  "MergeDiscoveryIgnitionConfig E baseIgnition = (case x_ign_parse E baseIgnition of
     Inl e \<Rightarrow> Inl (Wrapf ''failed to parse ignition config'' e)
   | Inr config \<Rightarrow> Inr (json_text (x_ign_merge E config
       (config_json (nested_string [''ignition'', ''version''] config) [] [getEnsureAgentUnit]))))"

subsection \<open>Reading back\<close>

definition small_mode :: "ignition_file \<Rightarrow> bool" where
  "small_mode f \<longleftrightarrow> \<bar>if_mode f\<bar> \<le> 2 ^ 53"

lemma plain_file_json [simp]: "plain (file_json f) \<longleftrightarrow> small_mode f"
  by (simp add: file_json_def small_mode_def)

lemma plain_unit_json [simp]: "plain (unit_json u)"
  by (simp add: unit_json_def)

lemma plain_config_json: "plain (config_json v fs us) \<longleftrightarrow> (\<forall>f \<in> set fs. small_mode f)"
  by (auto simp: config_json_def)

lemma node_parts_small:
  assumes "list_all small_mode (case KubeletCustomLabelsFile opts of None \<Rightarrow> [] | Some f \<Rightarrow> [f])"
  shows "\<forall>(u, f) \<in> set (node_parts opts). small_mode f"
  using assms unfolding node_parts_def
  by (auto simp: small_mode_def getConfigdriveMetadataFile_def getSetHostnameUnit_def getPreBootstrapUnit_def
      getPostBootstrapUnit_def getBootstrapCommandUnit_def getProviderIDInjectorUnit_def CreateFile_def split: option.splits)

text \<open>
  Claim C27. The ignition configuration that the provider prints is valid JSON that reads back as
  exactly the configuration: version 3.1.0, the files and the units of the node in order.
\<close>
theorem GetIgnitionConfigOverrides_reads_back:
  assumes "list_all small_mode (extra @ (case KubeletCustomLabelsFile opts of None \<Rightarrow> [] | Some f \<Rightarrow> [f]))"
  shows "parse_json fl (GetIgnitionConfigOverrides opts extra) =
    Some (config_json ''3.1.0'' (snd (installedNodeComponents opts) @ extra) (fst (installedNodeComponents opts)))"
proof -
  have "\<forall>f \<in> set (snd (installedNodeComponents opts) @ extra). small_mode f"
    using assms node_parts_small [of opts] by (auto simp: installedNodeComponents_def list_all_iff)
  then have "plain (config_json ''3.1.0'' (snd (installedNodeComponents opts) @ extra) (fst (installedNodeComponents opts)))"
    by (simp only: plain_config_json)
  from parse_json_text [OF this] show ?thesis
    by (simp add: GetIgnitionConfigOverrides_def case_prod_beta)
qed

definition demo_options :: IgnitionOptions where
  "demo_options = \<lparr>NodeNameEnvVar = ''$METADATA_NAME'', PreBootstrapCommands = [''echo hi''], PostBootstrapCommands = [],
     SentinelDirectory = [], KubeconfigPath = [], ProviderID = [], KubeletCustomLabelsFile = None\<rparr>"

theorem GetIgnitionConfigOverrides_reads_back_witness:
  "parse_json Some (GetIgnitionConfigOverrides demo_options []) =
     Some (config_json ''3.1.0'' (snd (installedNodeComponents demo_options)) (fst (installedNodeComponents demo_options)))
   \<and> length (snd (installedNodeComponents demo_options)) = 3"
  using GetIgnitionConfigOverrides_reads_back [of "[]" demo_options Some]
  by (simp add: demo_options_def installedNodeComponents_def node_parts_def)

subsection \<open>Units and the scripts they run\<close>

definition has_line :: "string \<Rightarrow> string \<Rightarrow> bool" where
  "has_line l t \<longleftrightarrow> (\<exists>ls. t = text_lines ls \<and> l \<in> set ls)"

lemma has_line_text_lines: "l \<in> set ls \<Longrightarrow> has_line l (text_lines ls)"
  by (auto simp: has_line_def)

definition file_content :: "ignition_file \<Rightarrow> string res" where
  "file_content f = b64_decode (trim_prefix (if_source f) ''data:text/plain;charset=utf-8;base64,'')"

lemma file_content_CreateFile [simp]: "file_content (CreateFile p u (DataURLCharset t) m ow) = Inr t"
  by (simp add: file_content_def CreateFile_def DataURLCharset_def trim_prefix_def)

text \<open>The unit starts the script at the path of the file, which is executable for root.\<close>

definition starts :: "ignition_unit \<Rightarrow> ignition_file \<Rightarrow> bool" where
  "starts u f \<longleftrightarrow> (has_line (''ExecStart='' @ if_path f) (iu_contents u) \<or>
     has_line (''ExecStart=/bin/bash '' @ if_path f) (iu_contents u)) \<and> if_mode f \<in> {448, 493} \<and> if_overwrite f"

lemmas part_defs = getConfigdriveMetadataSystemdUnit_def getConfigdriveMetadataFile_def getKubeletCustomLabelsSystemdUnit_def
  getSetHostnameUnit_def getProviderIDInjectorUnit_def getPreBootstrapUnit_def getPostBootstrapUnit_def
  getBootstrapCommandUnit_def bootstrap_unit_text_def

lemma startsI:
  "''ExecStart='' @ p \<in> set ls \<Longrightarrow> m \<in> {448, 493} \<Longrightarrow> starts (CreateUnit n (text_lines ls)) (CreateFile p u c m True)"
  "''ExecStart=/bin/bash '' @ p \<in> set ls \<Longrightarrow> m \<in> {448, 493} \<Longrightarrow> starts (CreateUnit n (text_lines ls)) (CreateFile p u c m True)"
  by (auto simp: starts_def CreateUnit_def CreateFile_def intro: has_line_text_lines)

lemma parts_start:
  "starts getConfigdriveMetadataSystemdUnit getConfigdriveMetadataFile"
  "starts (fst (getSetHostnameUnit v)) (snd (getSetHostnameUnit v))"
  "starts (fst (getPreBootstrapUnit cs d)) (snd (getPreBootstrapUnit cs d))"
  "starts (fst (getPostBootstrapUnit cs d k)) (snd (getPostBootstrapUnit cs d k))"
  "starts (fst getProviderIDInjectorUnit) (snd getProviderIDInjectorUnit)"
  unfolding part_defs fst_conv snd_conv by (rule startsI(1) startsI(2); simp)+

text \<open>
  Every unit of the installed node has its script in the same configuration, at the path
  its \<open>ExecStart\<close> names, executable and overwriting what is there; for the unit of the kubelet
  labels this needs the labels file to be the one the agent controller builds.
\<close>
theorem installedNodeComponents_units_start:
  assumes "KubeletCustomLabelsFile opts \<in> {None, Some (CreateFile ''/usr/local/bin/kubelet_custom_labels'' ''root'' c 493 True)}"
  shows "list_all2 starts (fst (installedNodeComponents opts)) (snd (installedNodeComponents opts))"
proof -
  have "starts getKubeletCustomLabelsSystemdUnit (CreateFile ''/usr/local/bin/kubelet_custom_labels'' ''root'' c 493 True)"
    unfolding part_defs by (rule startsI(1)) simp_all
  then have "\<forall>p \<in> set (node_parts opts). starts (fst p) (snd p)"
    using assms parts_start(1) parts_start(2) [of "NodeNameEnvVar opts"]
      parts_start(3) [of "PreBootstrapCommands opts" "SentinelDirectory opts"]
      parts_start(4) [of "PostBootstrapCommands opts" "SentinelDirectory opts" "KubeconfigPath opts"] parts_start(5)
    unfolding node_parts_def by (auto split: option.split)
  then show ?thesis
    by (auto simp: installedNodeComponents_def list_all2_map1 list_all2_map2 list.rel_refl_strong)
qed

theorem installedNodeComponents_units_start_witness:
  "list_all2 starts (fst (installedNodeComponents demo_options)) (snd (installedNodeComponents demo_options))"
  using installedNodeComponents_units_start [of demo_options] by (simp add: demo_options_def)

text \<open>
  Run once: the bootstrap scripts contain the commands of the user verbatim and in order,
  touch as their last step exactly the file whose absence the unit has as its start condition,
  and the markers of the two phases are different files.
\<close>
theorem bootstrap_commands_run_once:
  "has_line (''ConditionPathExists=!'' @ preSentinel dir) (iu_contents (fst (getPreBootstrapUnit cmds dir)))
   \<and> (\<exists>h. file_content (snd (getPreBootstrapUnit cmds dir)) = Inr (h @ text_lines cmds @ touch_lines (preSentinel dir)))
   \<and> has_line (''ConditionPathExists=!'' @ postSentinel dir) (iu_contents (fst (getPostBootstrapUnit cmds dir kc)))
   \<and> (\<exists>h. file_content (snd (getPostBootstrapUnit cmds dir kc)) = Inr (h @ text_lines cmds @ touch_lines (postSentinel dir)))
   \<and> preSentinel dir \<noteq> postSentinel dir"
proof -
  have "has_line (''ConditionPathExists=!'' @ preSentinel dir) (iu_contents (fst (getPreBootstrapUnit cmds dir)))"
    "has_line (''ConditionPathExists=!'' @ postSentinel dir) (iu_contents (fst (getPostBootstrapUnit cmds dir kc)))"
    unfolding part_defs fst_conv CreateUnit_def ignition_unit.simps by (rule has_line_text_lines, simp)+
  moreover have "\<exists>h. file_content (snd (getPreBootstrapUnit cmds dir)) = Inr (h @ text_lines cmds @ touch_lines (preSentinel dir))"
    unfolding part_defs by simp
  moreover have "\<exists>h. file_content (snd (getPostBootstrapUnit cmds dir kc)) = Inr (h @ text_lines cmds @ touch_lines (postSentinel dir))"
    unfolding part_defs snd_conv file_content_CreateFile postScript_def sum.inject by (metis append.assoc)
  ultimately show ?thesis by (simp add: preSentinel_def postSentinel_def)
qed

subsection \<open>Merging keeps what is there\<close>

lemma map_of_filter_key: "map_of (filter (\<lambda>(k', v). P k') m) k = (if P k then map_of m k else None)"
  by (induction m) auto

lemma append_member_slice:
  "k \<notin> set before \<Longrightarrow> nested_slice [k] (JObj (append_member before k xs m)) = nested_slice [k] (JObj m) @ xs"
  by (simp add: append_member_def nested_slice_def Let_def map_add_def map_of_filter_key split: option.splits)

lemma append_member_others: "k' \<noteq> k \<Longrightarrow> map_of (append_member before k xs m) k' = map_of m k'"
  by (auto simp: append_member_def Let_def map_add_def map_of_filter_key split: option.splits)

lemma in_section_other: "k \<noteq> s \<Longrightarrow> nested_field (k # ks) (in_section s f c) = nested_field (k # ks) c"
proof (cases c)
  case (JObj m)
  assume k: "k \<noteq> s"
  have "map_of (List.map (\<lambda>(k, v). (k, if k = s then (case v of JObj n \<Rightarrow> JObj (f n) | _ \<Rightarrow> v) else v)) m) k = map_of m k"
    using k by (induction m) auto
  then show ?thesis using JObj by (simp add: in_section_def)
qed (simp_all add: in_section_def)

lemma in_section_hit:
  assumes "nested_field [s] c = Some (JObj n)"
  shows "nested_field (s # ks) (in_section s f c) = nested_field ks (JObj (f n))"
proof (cases c)
  case (JObj m)
  have "map_of m s = Some (JObj n) \<Longrightarrow>
    map_of (List.map (\<lambda>(k, v). (k, if k = s then (case v of JObj n \<Rightarrow> JObj (f n) | _ \<Rightarrow> v) else v)) m) s = Some (JObj (f n))"
    by (induction m) auto
  then show ?thesis using assms JObj by (simp add: in_section_def split: option.splits)
qed (use assms in simp_all)

lemma nested_field_in: "nested_field [s] c = Some v \<Longrightarrow> nested_field (s # ks) c = nested_field ks v"
  by (cases c) (auto split: option.splits)

text \<open>
  Merging into a parsed ignition configuration appends: its own units and files come
  first and unchanged, the units and files of the node follow in order, every other section and
  every other member of the two sections is as it was.
\<close>
theorem MergeIgnitionConfig_appends:
  assumes "x_ign_unmarshal E base = Inr c" "installedNodeComponents opts = (units, files)" "units \<noteq> []"
    "nested_field [''systemd''] c = Some (JObj sys)" "nested_field [''storage''] c = Some (JObj sto)"
  shows "\<exists>v. MergeIgnitionConfig E base opts = Inr (json_text v)
    \<and> nested_slice [''systemd'', ''units''] v = nested_slice [''systemd'', ''units''] c @ List.map unit_json units
    \<and> nested_slice [''storage'', ''files''] v = nested_slice [''storage'', ''files''] c @ List.map file_json files
    \<and> nested_field [''ignition''] v = nested_field [''ignition''] c \<and> nested_field [''passwd''] v = nested_field [''passwd''] c
    \<and> List.map (\<lambda>k. nested_field [''storage'', k] v) [''directories'', ''disks'', ''filesystems'', ''links'', ''raid'']
      = List.map (\<lambda>k. nested_field [''storage'', k] c) [''directories'', ''disks'', ''filesystems'', ''links'', ''raid'']"
proof -
  let ?u = "append_member [] ''units'' (List.map unit_json units)"
  let ?f = "append_member [''directories'', ''disks''] ''files'' (List.map file_json files)"
  let ?v = "append_files files (append_units units c)"
  have sto: "nested_field [''storage''] (append_units units c) = Some (JObj sto)"
    using assms(5) by (simp add: append_units_def in_section_other)
  have v: "nested_field (''systemd'' # ks) ?v = nested_field ks (JObj (?u sys))"
    "nested_field (''storage'' # ks) ?v = nested_field ks (JObj (?f sto))" for ks
    using in_section_hit [OF assms(4)] in_section_hit [OF sto]
    by (simp_all add: append_files_def append_units_def in_section_other)
  have c: "nested_field (''systemd'' # ks) c = nested_field ks (JObj sys)" "nested_field (''storage'' # ks) c = nested_field ks (JObj sto)" for ks
    using assms(4,5) by (auto intro: nested_field_in)
  have slices: "nested_slice [''systemd'', ''units''] ?v = nested_slice [''systemd'', ''units''] c @ List.map unit_json units"
    "nested_slice [''storage'', ''files''] ?v = nested_slice [''storage'', ''files''] c @ List.map file_json files"
    using append_member_slice [of "''units''" "[]" "List.map unit_json units" sys]
      append_member_slice [of "''files''" "[''directories'', ''disks'']" "List.map file_json files" sto]
    by (simp_all only: nested_slice_def v c) simp_all
  have "MergeIgnitionConfig E base opts = Inr (json_text ?v)"
    using assms(1-3) by (simp add: MergeIgnitionConfig_def)
  moreover have "nested_field [''ignition''] ?v = nested_field [''ignition''] c" "nested_field [''passwd''] ?v = nested_field [''passwd''] c"
    by (simp_all add: append_files_def append_units_def in_section_other)
  ultimately show ?thesis using slices by (intro exI [of _ ?v]) (simp add: v c append_member_others)
qed

definition demo_ign_env :: "unit env" where
  "demo_ign_env = nowhere\<lparr>x_ign_unmarshal := (\<lambda>_. Inr (config_json ''3.1.0'' [] []))\<rparr>"

theorem MergeIgnitionConfig_appends_witness:
  "\<exists>v. MergeIgnitionConfig demo_ign_env ''{}'' demo_options = Inr (json_text v)
    \<and> length (nested_slice [''systemd'', ''units''] v) = 3 \<and> length (nested_slice [''storage'', ''files''] v) = 3"
  using MergeIgnitionConfig_appends [of demo_ign_env "''{}''" "config_json ''3.1.0'' [] []" demo_options
      "fst (installedNodeComponents demo_options)" "snd (installedNodeComponents demo_options)" "[]" "[]"]
  by (auto simp: demo_ign_env_def config_json_def demo_options_def installedNodeComponents_def node_parts_def nested_slice_def)

end
