(* ===== verification/AgentController.thy ===== *)
theory AgentController
  imports Ignition Scaling "HOL-Library.Multiset"
begin

text \<open>
  The agent controller of the bootstrap provider
  (\<open>bootstrap/internal/controller/agent_controller.go\<close>): it finds the machine and the bootstrap
  config of an agent, gives the agent its role, ignition and installer arguments, and approves it
  unless another agent of the same InfraEnv is approved.

  Go does not fix the order in which a map is ranged over. The order of each of the three loops
  over maps in \<open>CreateKubeletCustomLabelsFile\<close> is a parameter \<open>it\<close>: \<open>it i ks\<close> is the order of the
  keys \<open>ks\<close> in loop \<open>i\<close>.
\<close>

definition InfraEnvNameLabel :: string where
  "InfraEnvNameLabel = ''infraenvs.agent-install.openshift.io''"

definition ref_IsDefined :: "contract_ref \<Rightarrow> bool" where
  "ref_IsDefined r \<longleftrightarrow> cr_kind r \<noteq> [] \<or> cr_name r \<noteq> [] \<or> cr_apiGroup r \<noteq> []"

subsection \<open>References to variables, labels\<close>

definition is_letter :: "char \<Rightarrow> bool" where
  "is_letter c \<longleftrightarrow> byte c \<in> {65..90} \<union> {97..122} \<or> c = CHR ''_''"

definition validVarName :: "string \<Rightarrow> bool" where
  "validVarName v = (case v of [] \<Rightarrow> False | c # s \<Rightarrow> is_letter c \<and> list_all (\<lambda>d. is_letter d \<or> is_digit d) s)"

text \<open>The variable named and the static value; at most one of them is not empty.\<close>

definition parseEnvVarRef :: "string \<Rightarrow> (string \<times> string) res" where
  "parseEnvVarRef v = (if v = [] then Inr ([], [])
     else if \<not> has_prefix v ''$'' then Inr ([], v)
     else if \<not> validVarName (strip_reference v) then Inl (Errorf ''invalid variable name'')
     else Inr (strip_reference v, []))"

definition shellEscapeSingleQuote :: "string \<Rightarrow> string" where
  "shellEscapeSingleQuote s = replace_all (CHR 0x27) [CHR 0x27, CHR 0x22, CHR 0x27, CHR 0x22, CHR 0x27] s"

fun parse_labels_from :: "(string \<times> string) list \<Rightarrow> (string \<times> string) list \<Rightarrow> string list \<Rightarrow>
    ((string \<times> string) list \<times> (string \<times> string) list) res" where
  "parse_labels_from dynamic static [] = Inr (dynamic, static)"
| "parse_labels_from dynamic static (l # ls) = (case str_split2 CHR ''='' l of
     [k, v] \<Rightarrow> (case parseEnvVarRef v of
         Inl e \<Rightarrow> Inl (Wrapf ''in label'' e)
       | Inr (varName, staticValue) \<Rightarrow>
           if varName \<noteq> [] then parse_labels_from (obj_put k varName dynamic) static ls
           else parse_labels_from dynamic (obj_put k staticValue static) ls)
   | _ \<Rightarrow> parse_labels_from dynamic static ls)"

definition parseLabels :: "string list \<Rightarrow> ((string \<times> string) list \<times> (string \<times> string) list) res" where
  "parseLabels labels = parse_labels_from [] [] labels"

subsection \<open>The kubelet labels script\<close>

text \<open>Ranging over a map in the order of \<open>it\<close>.\<close>

definition ranged :: "(string list \<Rightarrow> string list) \<Rightarrow> (string \<times> string) list \<Rightarrow> (string \<times> string) list" where
  "ranged it m = List.map (\<lambda>k. (k, case map_of m k of Some v \<Rightarrow> v | None \<Rightarrow> [])) (it (List.map fst m))"

definition resolve_lines :: "string \<Rightarrow> string list" where
  "resolve_lines v = [
     v @ ''=\"\"'',
     ''if [ -f /etc/metadata_env ]; then'',
     ''    '' @ v @ ''=$(/usr/bin/grep \"^'' @ v @ ''=\" /etc/metadata_env | /usr/bin/cut -d'=' -f2-)'',
     ''fi'']"

definition env_line :: "string \<Rightarrow> string \<Rightarrow> string" where
  "env_line name v = ''echo \"'' @ name @ ''='' @ v @ ''\" | tee -a /etc/kubernetes/kubelet-env >/dev/null''"

definition provider_lines :: "string \<Rightarrow> string \<Rightarrow> string list" where
  "provider_lines varName static =
    (if varName = [] \<and> static = [] then []
     else if varName \<noteq> [] then
       [env_line ''KUBELET_PROVIDERID'' (''${'' @ varName @ ''}''),
        ''echo \"${'' @ varName @ ''}\" > /run/kubelet-provider-id'']
     else
       [env_line ''KUBELET_PROVIDERID'' (shellEscapeSingleQuote static),
        ''echo '' @ [CHR 0x27] @ shellEscapeSingleQuote static @ [CHR 0x27] @ '' > /run/kubelet-provider-id''])"

definition label_parts :: "(nat \<Rightarrow> string list \<Rightarrow> string list) \<Rightarrow> (string \<times> string) list \<Rightarrow> (string \<times> string) list \<Rightarrow> string list" where
  "label_parts it dynamic static =
     List.map (\<lambda>(k, v). k @ ''='' @ v) (ranged (it 1) static) @
     List.map (\<lambda>(k, v). k @ ''=${'' @ v @ ''}'') (ranged (it 2) dynamic)"

definition labels_script :: "(nat \<Rightarrow> string list \<Rightarrow> string list) \<Rightarrow> (string \<times> string) list \<Rightarrow> (string \<times> string) list \<Rightarrow>
    string \<Rightarrow> string \<Rightarrow> string" where
  "labels_script it dynamic static varName pidStatic = text_lines (
     [''#!/bin/bash''] @
     concat (List.map resolve_lines (it 0 (remdups (List.map snd dynamic @ (if varName = [] then [] else [varName]))))) @
     [env_line ''CUSTOM_KUBELET_LABELS'' (str_join '','' (label_parts it dynamic static))] @
     provider_lines varName pidStatic)"

definition CreateKubeletCustomLabelsFile :: "(nat \<Rightarrow> string list \<Rightarrow> string list) \<Rightarrow> string list \<Rightarrow> string \<Rightarrow> ignition_file option res" where
  "CreateKubeletCustomLabelsFile it kubeletExtraLabels providerID = (case parseLabels kubeletExtraLabels of
     Inl e \<Rightarrow> Inl (Wrapf ''invalid kubelet extra labels'' e)
   | Inr (dynamic, static) \<Rightarrow> (case parseEnvVarRef providerID of
       Inl e \<Rightarrow> Inl (Wrapf ''invalid providerID'' e)
     | Inr (varName, pidStatic0) \<Rightarrow>
         let pidStatic = trim_space pidStatic0 in
         if dynamic = [] \<and> static = [] \<and> varName = [] \<and> pidStatic = [] then Inr None
         else Inr (Some (CreateIgnitionFile ''/usr/local/bin/kubelet_custom_labels'' ''root''
           (DataURLCharset (labels_script it dynamic static varName pidStatic)) 493 True))))"

subsection \<open>The fields of an agent\<close>

definition getIgnitionConfig :: "'s env \<Rightarrow> (nat \<Rightarrow> string list \<Rightarrow> string list) \<Rightarrow> oac \<Rightarrow> string res" where
  "getIgnitionConfig E it config =
    (let spec = oac_spec config; reg = oac_nodeRegistration spec in
     case CreateKubeletCustomLabelsFile it (nr_kubeletExtraLabels reg) (nr_providerID reg) of
       Inl e \<Rightarrow> Inl e
     | Inr labelsFile \<Rightarrow>
         let baseIgnition = GetIgnitionConfigOverrides
           \<lparr>NodeNameEnvVar = nr_name reg, PreBootstrapCommands = oac_preBootstrapCommands spec,
            PostBootstrapCommands = oac_postBootstrapCommands spec, SentinelDirectory = oac_bootstrapCommandSentinelDir spec,
            KubeconfigPath = [], ProviderID = nr_providerID reg, KubeletCustomLabelsFile = labelsFile\<rparr> [] in
         (case m_annotations (oac_meta config) IgnitionOverrideAnnotation of
            None \<Rightarrow> Inr baseIgnition
          | Some override \<Rightarrow>
              if override = [] \<or> \<not> json_valid override then Inr baseIgnition
              else (case MergeIgnitionConfigStrings E baseIgnition override of
                  Inl e \<Rightarrow> Inl (Wrapf ''invalid ignition-override annotation'' e)
                | Inr merged \<Rightarrow> Inr merged)))"

definition getInstallerArgs :: "oac \<Rightarrow> string" where
  "getInstallerArgs config = json_text (JArr (List.map JStr (
     concat (List.map (\<lambda>(operation, v). [''--'' @ operation @ ''-karg'', v]) (oac_kernelArguments (oac_spec config))) @
     oac_installerArgs (oac_spec config))))"

definition canApproveAgent :: "'s env \<Rightarrow> agent \<Rightarrow> ('s, bool res) prog" where
  "canApproveAgent E a = do {
     r \<leftarrow> list_as E as_agent Mgmt KAgent
       \<lparr>lo_namespace = [], lo_labels = [(InfraEnvNameLabel, label_of (ag_meta a) InfraEnvNameLabel)]\<rparr>;
     ret (case r of Inl e \<Rightarrow> Inl e
       | Inr agents \<Rightarrow> Inr (\<not> list_ex (\<lambda>b. m_name (ag_meta b) \<noteq> m_name (ag_meta a) \<and> ag_approved b) agents)) }"

definition agent_role :: "machine \<Rightarrow> string" where
  "agent_role m = (if MachineControlPlaneLabel \<in> dom (m_labels (mc_meta m)) then ''master'' else ''worker'')"

definition setAgentFields :: "'s env \<Rightarrow> (nat \<Rightarrow> string list \<Rightarrow> string list) \<Rightarrow> agent \<Rightarrow> machine \<Rightarrow> oac \<Rightarrow> ('s, goerr option) prog" where
  "setAgentFields E it a m config = (case getIgnitionConfig E it config of
     Inl e \<Rightarrow> ret (Some e)
   | Inr overrides \<Rightarrow> do {
       approvable \<leftarrow> canApproveAgent E a;
       case approvable of
         Inl e \<Rightarrow> ret (Some e)
       | Inr ok \<Rightarrow>
           let new = a\<lparr>ag_role := agent_role m, ag_ignitionConfigOverrides := overrides, ag_approved := ok,
             ag_installerArgs := getInstallerArgs config\<rparr> in
           if ag_role a = agent_role m \<and> ag_ignitionConfigOverrides a = overrides \<and> ag_approved a = ok
             \<and> ag_installerArgs a = getInstallerArgs config then ret None
           else do { r \<leftarrow> kupdate E Mgmt (OAgent new); ret (err_of r) } })"

definition getMachineFromAgent :: "'s env \<Rightarrow> agent \<Rightarrow> ('s, machine res) prog" where
  "getMachineFromAgent E a = (case m_labels (ag_meta a) InfraEnvNameLabel of
     None \<Rightarrow> ret (Inl (Errorf ''no infraenvs.agent-install.openshift.io label on Agent''))
   | Some infraEnvName \<Rightarrow> do {
       r \<leftarrow> get_as E as_infra_env Mgmt KInfraEnv (m_namespace (ag_meta a)) infraEnvName;
       case r of
         Inl e \<Rightarrow> ret (Inl e)
       | Inr infraEnv \<Rightarrow> GetTypedOwner E as_machine KMachine ''cluster.x-k8s.io'' ''Machine'' (ie_meta infraEnv) })"

definition AgentReconcile :: "'s env \<Rightarrow> (nat \<Rightarrow> string list \<Rightarrow> string list) \<Rightarrow> string \<Rightarrow> string \<Rightarrow> ('s, ctrl_result \<times> goerr option) prog" where
  "AgentReconcile E it ns name = do {
     r \<leftarrow> get_as E as_agent Mgmt KAgent ns name;
     case r of
       Inl e \<Rightarrow> ret (result_zero, ignore_not_found e)
     | Inr a \<Rightarrow> do {
         mr \<leftarrow> getMachineFromAgent E a;
         case mr of
           Inl e \<Rightarrow> ret (result_zero, Some e)
         | Inr m \<Rightarrow>
             if \<not> ref_IsDefined (mc_bootstrapConfigRef m) then ret (result_zero, None)
             else do {
               cr \<leftarrow> get_as E as_oac Mgmt KOAC (m_namespace (mc_meta m)) (cr_name (mc_bootstrapConfigRef m));
               case cr of
                 Inl e \<Rightarrow> ret (result_zero, Some e)
               | Inr config \<Rightarrow> do { err \<leftarrow> setAgentFields E it a m config; ret (result_zero, err) } } } }"

subsection \<open>Variables of the labels script\<close>

lemma parseEnvVarRef_var: "parseEnvVarRef v = Inr (n, t) \<Longrightarrow> n \<noteq> [] \<Longrightarrow> validVarName n"
  by (auto simp: parseEnvVarRef_def split: if_splits)

lemma obj_put_values: "\<forall>w \<in> snd ` set m. P w \<Longrightarrow> P v \<Longrightarrow> \<forall>w \<in> snd ` set (obj_put k v m). P w"
  by (induction k v m rule: obj_put.induct) auto

lemma parse_labels_step:
  assumes "parse_labels_from d0 s0 (l # ls) = Inr r"
  shows "\<exists>d1 s1. parse_labels_from d1 s1 ls = Inr r \<and> (d1 = d0 \<or> (\<exists>k n. d1 = obj_put k n d0 \<and> validVarName n))"
  using assms
  by (auto split: list.splits sum.splits if_splits dest: parseEnvVarRef_var) (blast dest: parseEnvVarRef_var)+

lemma parse_labels_from_vars:
  "parse_labels_from d0 s0 ls = Inr (d, s) \<Longrightarrow> \<forall>v \<in> snd ` set d0. validVarName v \<Longrightarrow> \<forall>v \<in> snd ` set d. validVarName v"
proof (induction ls arbitrary: d0 s0)
  case (Cons l ls)
  obtain d1 s1 where d1: "parse_labels_from d1 s1 ls = Inr (d, s)" "d1 = d0 \<or> (\<exists>k n. d1 = obj_put k n d0 \<and> validVarName n)"
    using parse_labels_step [OF Cons.prems(1)] by blast
  have "\<forall>v \<in> snd ` set d1. validVarName v" using d1(2) obj_put_values [OF Cons.prems(2)] Cons.prems(2) by blast
  with d1(1) show ?case by (rule Cons.IH)
qed simp

lemma labels_file_content [simp]:
  "file_content (CreateIgnitionFile p u (DataURLCharset t) m ow) = Inr t"
  by (simp add: CreateIgnitionFile_def)

text \<open>
  Shell safety of the kubelet labels script: whatever the order of the maps, the script
  starts by resolving a list of variables without repetition, every one of them is a plain shell
  identifier, and every variable a label refers to is among them.
\<close>
theorem kubelet_labels_script_variables:
  assumes "CreateKubeletCustomLabelsFile it labels pid = Inr (Some f)" and perm: "\<And>i ks. mset (it i ks) = mset ks"
  shows "\<exists>vars d s rest. parseLabels labels = Inr (d, s)
    \<and> file_content f = Inr (text_lines (''#!/bin/bash'' # concat (List.map resolve_lines vars) @ rest))
    \<and> distinct vars \<and> list_all validVarName vars \<and> snd ` set d \<subseteq> set vars"
proof -
  obtain d s n t where ds: "parseLabels labels = Inr (d, s)" and nt: "parseEnvVarRef pid = Inr (n, t)"
    and f: "f = CreateIgnitionFile ''/usr/local/bin/kubelet_custom_labels'' ''root''
      (DataURLCharset (labels_script it d s n (trim_space t))) 493 True"
    using assms(1) by (auto simp: CreateKubeletCustomLabelsFile_def Let_def split: sum.splits if_splits)
  let ?names = "remdups (List.map snd d @ (if n = [] then [] else [n]))"
  have m: "mset (it 0 ?names) = mset ?names" by (rule perm)
  have "\<forall>v \<in> set ?names. validVarName v"
    using parse_labels_from_vars [of "[]" "[]" labels d s] ds parseEnvVarRef_var [OF nt] by (auto simp: parseLabels_def)
  moreover have "set (it 0 ?names) = set ?names" using m by (rule mset_eq_setD)
  moreover have "distinct (it 0 ?names)" using mset_eq_imp_distinct_iff [OF m] by (simp only: distinct_remdups)
  moreover obtain rest where
    "labels_script it d s n (trim_space t) = text_lines (''#!/bin/bash'' # concat (List.map resolve_lines (it 0 ?names)) @ rest)"
    by (simp add: labels_script_def)
  then have "file_content f = Inr (text_lines (''#!/bin/bash'' # concat (List.map resolve_lines (it 0 ?names)) @ rest))"
    by (simp add: f)
  moreover have "snd ` set d \<subseteq> set ?names" by auto
  ultimately show ?thesis using ds unfolding list_all_iff by blast
qed

theorem kubelet_labels_script_variables_witness:
  "\<exists>f vars rest. CreateKubeletCustomLabelsFile (\<lambda>i ks. ks) [''zone=${ZONE}''] ''$UUID'' = Inr (Some f)
    \<and> file_content f = Inr (text_lines (''#!/bin/bash'' # concat (List.map resolve_lines vars) @ rest)) \<and> ''ZONE'' \<in> set vars"
proof -
  have p: "parseLabels [''zone=${ZONE}''] = Inr ([(''zone'', ''ZONE'')], [])" by code_simp
  have "\<exists>f. CreateKubeletCustomLabelsFile (\<lambda>i ks. ks) [''zone=${ZONE}''] ''$UUID'' = Inr (Some f)"
    by (simp add: CreateKubeletCustomLabelsFile_def p Let_def)
      (simp add: parseEnvVarRef_def strip_reference_def trim_prefix_def trim_suffix_def has_suffix_def validVarName_def is_letter_def byte_def)
  then obtain f where f: "CreateKubeletCustomLabelsFile (\<lambda>i ks. ks) [''zone=${ZONE}''] ''$UUID'' = Inr (Some f)" by blast
  show ?thesis using kubelet_labels_script_variables [OF f refl] f p by auto
qed

subsection \<open>A field without effect\<close>

lemma install_ignores_kubeconfig_path:
  "getIgnitionConfig E it (config\<lparr>oac_spec := (oac_spec config)\<lparr>oac_postBootstrapKubeconfigPath := p\<rparr>\<rparr>) = getIgnitionConfig E it config"
  by (simp add: getIgnitionConfig_def Let_def split: sum.split)

subsection \<open>Quoting and map order\<close>

text \<open>Whether a line of shell script ends inside a quoted string: outside, single or double quotes.\<close>

datatype quoting = Unquoted | SingleQuoted | DoubleQuoted

fun quote_state :: "quoting \<Rightarrow> string \<Rightarrow> quoting" where
  "quote_state q [] = q"
| "quote_state Unquoted (c # s) = quote_state (if c = CHR 0x27 then SingleQuoted else if c = CHR 0x22 then DoubleQuoted else Unquoted) s"
| "quote_state SingleQuoted (c # s) = quote_state (if c = CHR 0x27 then Unquoted else SingleQuoted) s"
| "quote_state DoubleQuoted (c # s) = quote_state (if c = CHR 0x22 then Unquoted else DoubleQuoted) s"

lemma quote_state_append: "quote_state q (s @ t) = quote_state (quote_state q s) t"
  by (induction q s rule: quote_state.induct) simp_all

text \<open>The escape is right inside single quotes and wrong inside double quotes.\<close>

lemma quote_state_escape_single: "quote_state SingleQuoted (shellEscapeSingleQuote s) = SingleQuoted"
proof (induction s)
  case (Cons c s)
  then show ?case by (simp add: shellEscapeSingleQuote_def replace_all_def)
qed (simp add: shellEscapeSingleQuote_def replace_all_def)

lemma providerID_double_quoted:
  "quote_state Unquoted (env_line ''KUBELET_PROVIDERID'' (shellEscapeSingleQuote (''a'' @ [CHR 0x27] @ ''b''))) = DoubleQuoted"
  by (simp add: env_line_def shellEscapeSingleQuote_def replace_all_def)

lemma providerID_file_line_quoted:
  "quote_state Unquoted (''echo '' @ [CHR 0x27] @ shellEscapeSingleQuote s @ [CHR 0x27] @ '' > /run/kubelet-provider-id'') = Unquoted"
  by (simp add: quote_state_append quote_state_escape_single)

text \<open>Two ranges over the same labels can give different scripts, hence different ignition.\<close>

definition two_labels :: "string list" where "two_labels = [''a=1'', ''b=2'']"

lemma two_labels_script: "parseLabels two_labels = Inr ([], [(''a'', ''1''), (''b'', ''2'')])"
  unfolding two_labels_def by code_simp

lemma text_lines_simps [simp]: "text_lines [] = []" "text_lines (l # ls) = l @ CHR 0x0A # text_lines ls"
  by (simp_all add: text_lines_def)

lemma labels_script_order:
  "CreateKubeletCustomLabelsFile (\<lambda>i ks. ks) two_labels [] \<noteq> CreateKubeletCustomLabelsFile (\<lambda>i. rev) two_labels []"
  by (simp add: CreateKubeletCustomLabelsFile_def two_labels_script parseEnvVarRef_def trim_space_def CreateIgnitionFile_def
      CreateFile_def DataURLCharset_def b64_encode_inject labels_script_def label_parts_def ranged_def provider_lines_def env_line_def
      del: b64_encode.simps)

subsection \<open>Approval\<close>

text \<open>The answers a pass read: agents of the InfraEnv, the agent itself.\<close>

definition listed_agents :: "event list \<Rightarrow> string \<Rightarrow> agent list \<Rightarrow> bool" where
  "listed_agents evs v as \<longleftrightarrow> (\<exists>obs. EvList Mgmt KAgent \<lparr>lo_namespace = [], lo_labels = [(InfraEnvNameLabel, v)]\<rparr> (Inr obs) \<in> set evs
     \<and> as = List.map_filter as_agent obs)"

text \<open>The machine of an agent: read under an owner reference of the InfraEnv that the label of the agent names.\<close>

definition owner_machine_read :: "object_meta \<Rightarrow> machine \<Rightarrow> event list \<Rightarrow> bool" where
  "owner_machine_read meta m evs \<longleftrightarrow> (\<exists>r \<in> set (m_ownerReferences meta). or_kind r = ''Machine'' \<and> group_of (or_apiVersion r) = ''cluster.x-k8s.io''
     \<and> EvGet Mgmt KMachine (m_namespace meta) (or_name r) (Inr (OMachine m)) \<in> set evs)"

definition agent_machine :: "agent \<Rightarrow> machine \<Rightarrow> event list \<Rightarrow> bool" where
  "agent_machine a m evs \<longleftrightarrow> (\<exists>v ie. m_labels (ag_meta a) InfraEnvNameLabel = Some v
     \<and> EvGet Mgmt KInfraEnv (m_namespace (ag_meta a)) v (Inr (OInfraEnv ie)) \<in> set evs \<and> owner_machine_read (ie_meta ie) m evs)"

text \<open>The bootstrap config of a machine, and what an agent gets from both.\<close>

definition machine_config :: "machine \<Rightarrow> oac \<Rightarrow> event list \<Rightarrow> bool" where
  "machine_config m config evs \<longleftrightarrow> ref_IsDefined (mc_bootstrapConfigRef m)
     \<and> EvGet Mgmt KOAC (m_namespace (mc_meta m)) (cr_name (mc_bootstrapConfigRef m)) (Inr (OOAC config)) \<in> set evs"

definition approves_safely :: "'s env \<Rightarrow> (nat \<Rightarrow> string list \<Rightarrow> string list) \<Rightarrow> string \<Rightarrow> string \<Rightarrow> event list \<Rightarrow> agent \<Rightarrow> bool" where
  "approves_safely E it ns name evs a' \<longleftrightarrow> (\<exists>a as m config ign. EvGet Mgmt KAgent ns name (Inr (OAgent a)) \<in> set evs
     \<and> listed_agents evs (label_of (ag_meta a) InfraEnvNameLabel) as
     \<and> agent_machine a m evs \<and> machine_config m config evs \<and> getIgnitionConfig E it config = Inr ign \<and> a' \<noteq> a
     \<and> a' = a\<lparr>ag_role := agent_role m, ag_ignitionConfigOverrides := ign,
          ag_approved := list_all (\<lambda>b. m_name (ag_meta b) = m_name (ag_meta a) \<or> \<not> ag_approved b) as,
          ag_installerArgs := getInstallerArgs config\<rparr>)"

lemma agent_reads_mono:
  "owner_machine_read meta m evs \<Longrightarrow> set evs \<subseteq> set evs' \<Longrightarrow> owner_machine_read meta m evs'"
  "agent_machine a m evs \<Longrightarrow> set evs \<subseteq> set evs' \<Longrightarrow> agent_machine a m evs'"
  "machine_config m config evs \<Longrightarrow> set evs \<subseteq> set evs' \<Longrightarrow> machine_config m config evs'"
  "listed_agents evs v as \<Longrightarrow> set evs \<subseteq> set evs' \<Longrightarrow> listed_agents evs' v as"
  unfolding agent_machine_def owner_machine_read_def machine_config_def listed_agents_def by blast+

lemma logs_machine_owner:
  "logs (GetTypedOwner E as_machine KMachine ''cluster.x-k8s.io'' ''Machine'' meta)
     (\<lambda>r evs. filter is_write evs = [] \<and> (\<forall>m. r = Inr m \<longrightarrow> owner_machine_read meta m evs))"
proof -
  let ?read = "\<lambda>ns rs m evs. \<exists>r \<in> set rs. or_kind r = ''Machine'' \<and> group_of (or_apiVersion r) = ''cluster.x-k8s.io''
     \<and> EvGet Mgmt KMachine ns (or_name r) (Inr (OMachine m)) \<in> set evs"
  have "logs (GetTypedOwner_refs E as_machine KMachine ''cluster.x-k8s.io'' ''Machine'' ns rs)
     (\<lambda>r evs. filter is_write evs = [] \<and> (\<forall>m. r = Inr m \<longrightarrow> ?read ns rs m evs))" for ns rs
  proof (induction rs)
    case (Cons r rs)
    show ?case
      unfolding GetTypedOwner_refs.simps get_as_def kcall_defs
      apply (rule logs_if)
       apply (rule logs_mono [OF Cons.IH], simp)
      apply (simp only: prog_simps)
      apply (rule logs_call_bind, rule logs_case_sum)
       apply (rule logs_mono [OF Cons.IH], auto)[1]
      apply (rule logs_return)
      apply (auto simp: decode_def split: sum.splits option.splits)
      done
  qed (simp add: logs_return)
  then show ?thesis by (simp add: GetTypedOwner_def owner_machine_read_def)
qed

lemma logs_getMachineFromAgent:
  "logs (getMachineFromAgent E a) (\<lambda>r evs. filter is_write evs = [] \<and> (\<forall>m. r = Inr m \<longrightarrow> agent_machine a m evs))"
  unfolding getMachineFromAgent_def get_as_def kcall_defs
  apply (rule logs_case_option, rule logs_return, simp)
  apply (simp only: prog_simps)
  apply (rule logs_call_bind, rule logs_case_sum, rule logs_return, simp)
  apply (rule logs_mono [OF logs_machine_owner])
  apply (auto simp: agent_machine_def decode_def split: sum.splits option.splits intro!: exI intro: agent_reads_mono(1))
  done

lemma not_list_ex: "(\<not> list_ex (\<lambda>b. P b \<and> Q b) xs) = list_all (\<lambda>b. \<not> P b \<or> \<not> Q b) xs"
  by (auto simp: list_ex_iff list_all_iff)

lemma agent_update_same:
  "a\<lparr>ag_role := ro, ag_ignitionConfigOverrides := ig, ag_approved := ok, ag_installerArgs := ar\<rparr> = a \<longleftrightarrow>
     ag_role a = ro \<and> ag_ignitionConfigOverrides a = ig \<and> ag_approved a = ok \<and> ag_installerArgs a = ar"
  by (cases a) auto

lemma logs_setAgentFields:
  "logs (setAgentFields E it a m config) (\<lambda>err evs. filter is_write evs = [] \<or> (\<exists>a' r as. filter is_write evs = [EvUpdate Mgmt (OAgent a') r]
     \<and> err = err_of r \<and> listed_agents evs (label_of (ag_meta a) InfraEnvNameLabel) as \<and> a' \<noteq> a
     \<and> (\<exists>ign. getIgnitionConfig E it config = Inr ign \<and> a' = a\<lparr>ag_role := agent_role m, ag_ignitionConfigOverrides := ign,
          ag_approved := list_all (\<lambda>b. m_name (ag_meta b) = m_name (ag_meta a) \<or> \<not> ag_approved b) as,
          ag_installerArgs := getInstallerArgs config\<rparr>)))"
  unfolding setAgentFields_def canApproveAgent_def list_as_def kcall_defs Let_def
  apply (rule logs_case_sum)
   apply (rule logs_return, simp)
  apply (simp only: prog_simps)
  apply (rule logs_call_bind)
  subgoal for overrides ans
    apply (cases ans)
     apply (simp, rule logs_return, simp)
    apply (simp only: decode_list_simps sum.case)
    apply (rule logs_if)
     apply (rule logs_return, simp)
    apply (rule logs_call_bind)
    apply (rule logs_return)
    apply (rule disjI2)
    apply (simp add: listed_agents_def not_list_ex)
    apply (auto simp: agent_update_same)
    done
  done

text \<open>
  Claim C5. Approval safety of the agent controller, for every answer of the API server: a pass
  writes at most once, and only to update the agent it was asked about, in at least one field. The update keeps everything but
  role, ignition, approval and installer arguments. These come from the machine read under an owner reference of
  the InfraEnv that the agent is labelled with, and from the bootstrap config read under the reference of
  that machine; the agent is approved exactly when no agent of another name among those listed for the InfraEnv is
  approved. The pass reports success after an update only if the update succeeded.
\<close>
theorem AgentReconcile_approval_safe:
  assumes "run_state (AgentReconcile E it ns name) (start s) = ((res, err), w)"
  shows "case filter is_write (w_trace w) of [] \<Rightarrow> True
    | EvUpdate c (OAgent a') r # rest \<Rightarrow> c = Mgmt \<and> rest = [] \<and> err = err_of r \<and> approves_safely E it ns name (w_trace w) a'
    | _ \<Rightarrow> False"
proof -
  let ?Q = "\<lambda>(res, err) evs. filter is_write evs = [] \<or> (\<exists>a' r. filter is_write evs = [EvUpdate Mgmt (OAgent a') r]
    \<and> err = err_of r \<and> approves_safely E it ns name evs a')"
  have "logs (AgentReconcile E it ns name) ?Q"
    unfolding AgentReconcile_def get_as_def kcall_defs
    apply (simp only: prog_simps)
    apply (rule logs_call_bind, rule logs_case_sum, rule logs_return, simp)
    apply (rule logs_bind [OF logs_getMachineFromAgent], rule logs_case_sum, rule logs_return, simp)
    apply (rule logs_if, rule logs_return, simp)
    apply (rule logs_call_bind, rule logs_case_sum, rule logs_return, simp)
    apply (rule logs_bind [OF logs_setAgentFields], rule logs_return)
    subgoal premises prems for x ag r evs m y config err evs'
    proof -
      let ?evs = "EvGet Mgmt KAgent ns name x # evs @ EvGet Mgmt KOAC (m_namespace (mc_meta m)) (cr_name (mc_bootstrapConfigRef m)) y # evs' @ []"
      have x: "x = Inr (OAgent ag)" "y = Inr (OOAC config)" using prems by (auto simp: decode_def split: sum.splits option.splits)
      have "agent_machine ag m ?evs" using prems by (auto intro: agent_reads_mono(2))
      moreover have "machine_config m config ?evs" using prems x by (simp add: machine_config_def)
      moreover have "listed_agents evs' v as \<Longrightarrow> listed_agents ?evs v as" for v as by (rule agent_reads_mono(4)) auto
      ultimately show ?thesis using prems x unfolding approves_safely_def by (auto; blast)
    qed
    done
  from logs_start [OF this assms] show ?thesis by auto
qed

end
