(* ===== verification/Approval.thy ===== *)
theory Approval
  imports AgentController
begin

text \<open>
  Approval of agents over time. The agent controller is run against a store that answers reads
  from its current contents and applies updates (\<open>store_env\<close>: a client without a cache, and no other
  writer of approvals; the client that \<open>bootstrap/main.go\<close> hands to the controller may cache, see the end of
  this theory); everything but the three calls the controller makes on agents is any environment \<open>B\<close>. The abstract system \<open>approval_step\<close> only
  knows which agent names are approved for each InfraEnv. Every pass of the controller is a step
  of the abstract system (a refinement), so at every state reached from an empty store, with new
  agents registering and the other objects changing in between, all approved agents of an
  InfraEnv have the same name.
\<close>

subsection \<open>The store\<close>

record agent_store =
  sto_agents :: "agent list"
  sto_objects :: "kind \<Rightarrow> string \<Rightarrow> string \<Rightarrow> kobj option"

definition agent_key :: "agent \<Rightarrow> string \<times> string" where
  "agent_key a = (m_namespace (ag_meta a), m_name (ag_meta a))"

definition found :: "'a option \<Rightarrow> 'a res" where
  "found x = (case x of None \<Rightarrow> Inl (ApiStatus NotFound) | Some a \<Rightarrow> Inr a)"

definition store_get :: "kclient \<Rightarrow> kind \<Rightarrow> string \<Rightarrow> string \<Rightarrow> agent_store \<Rightarrow> kobj res \<times> agent_store" where
  "store_get c k ns n st = (found (if k = KAgent then map_option OAgent (List.find (\<lambda>a. agent_key a = (ns, n)) (sto_agents st))
     else sto_objects st k ns n), st)"

definition selected :: "list_opts \<Rightarrow> agent \<Rightarrow> bool" where
  "selected opts a \<longleftrightarrow> (lo_namespace opts = [] \<or> lo_namespace opts = m_namespace (ag_meta a)) \<and>
     list_all (\<lambda>(k, v). m_labels (ag_meta a) k = Some v) (lo_labels opts)"

definition store_list :: "kclient \<Rightarrow> kind \<Rightarrow> list_opts \<Rightarrow> agent_store \<Rightarrow> kobj list res \<times> agent_store" where
  "store_list c k opts st = (Inr (if k = KAgent then List.map OAgent (filter (selected opts) (sto_agents st)) else []), st)"

definition put_agent :: "agent \<Rightarrow> agent list \<Rightarrow> agent list" where
  "put_agent a as = List.map (\<lambda>x. if agent_key x = agent_key a then a else x) as"

definition store_update :: "kclient \<Rightarrow> kobj \<Rightarrow> agent_store \<Rightarrow> kobj res \<times> agent_store" where
  "store_update c ob st = (case as_agent ob of
     Some a \<Rightarrow> if agent_key a \<in> agent_key ` set (sto_agents st)
       then (Inr ob, st\<lparr>sto_agents := put_agent a (sto_agents st)\<rparr>) else (Inl (ApiStatus NotFound), st)
   | None \<Rightarrow> (Inl (ApiStatus NotFound), st))"

definition store_env :: "agent_store env \<Rightarrow> agent_store env" where
  "store_env B = B\<lparr>k_get := store_get, k_list := store_list, k_update := store_update\<rparr>"

lemma store_env_ops [simp]: "k_get (store_env B) = store_get" "k_list (store_env B) = store_list" "k_update (store_env B) = store_update"
  by (simp_all add: store_env_def)

definition wf_store :: "agent_store \<Rightarrow> bool" where
  "wf_store st \<longleftrightarrow> distinct (List.map agent_key (sto_agents st))"

lemma put_agent_keys [simp]: "List.map agent_key (put_agent a as) = List.map agent_key as"
  by (simp add: put_agent_def)

subsection \<open>The abstract system\<close>

type_synonym approvals = "string \<Rightarrow> string set"

inductive approval_step :: "approvals \<Rightarrow> approvals \<Rightarrow> bool" where
  keep: "approval_step A A"
| grant: "A v \<subseteq> {n} \<Longrightarrow> approval_step A (A(v := {n}))"
| revoke: "approval_step A (A(v := A v - {n}))"

definition single :: "approvals \<Rightarrow> bool" where
  "single A \<longleftrightarrow> (\<forall>v n n'. n \<in> A v \<longrightarrow> n' \<in> A v \<longrightarrow> n = n')"

lemma approval_step_single: "approval_step A A' \<Longrightarrow> single A \<Longrightarrow> single A'"
  by (induction rule: approval_step.induct) (auto simp: single_def)

lemma single_mono: "(\<And>v. A' v \<subseteq> A v) \<Longrightarrow> single A \<Longrightarrow> single A'"
  unfolding single_def by blast

text \<open>The approved names per value of the InfraEnv label.\<close>

definition approvals_of :: "agent_store \<Rightarrow> approvals" where
  "approvals_of st v = {m_name (ag_meta a) | a. a \<in> set (sto_agents st) \<and> ag_approved a
     \<and> m_labels (ag_meta a) InfraEnvNameLabel = Some v}"

subsection \<open>One pass on the store\<close>

text \<open>What an update of the controller does to the store.\<close>

definition store_change :: "agent_store \<Rightarrow> agent_store \<Rightarrow> bool" where
  "store_change st st' \<longleftrightarrow> st' = st \<or> (\<exists>a a' v. a \<in> set (sto_agents st) \<and> m_labels (ag_meta a) InfraEnvNameLabel = Some v
     \<and> ag_meta a' = ag_meta a
     \<and> (ag_approved a' \<longleftrightarrow> (\<forall>b \<in> set (sto_agents st). m_labels (ag_meta b) InfraEnvNameLabel = Some v \<longrightarrow> ag_approved b
          \<longrightarrow> m_name (ag_meta b) = m_name (ag_meta a)))
     \<and> st' = st\<lparr>sto_agents := put_agent a' (sto_agents st)\<rparr>)"

lemma wp_reads [wp_simps]:
  "wp (kget (store_env B) c k ns n) Q w \<longleftrightarrow>
     Q (fst (store_get c k ns n (w_env w))) (w\<lparr>w_trace := w_trace w @ [EvGet c k ns n (fst (store_get c k ns n (w_env w)))]\<rparr>)"
  "wp (klist (store_env B) c k opts) R w \<longleftrightarrow>
     R (fst (store_list c k opts (w_env w))) (w\<lparr>w_trace := w_trace w @ [EvList c k opts (fst (store_list c k opts (w_env w)))]\<rparr>)"
  by (simp_all add: kget_def klist_def wp_call store_get_def store_list_def)

lemma wp_store_update [wp_simps]:
  "wp (kupdate (store_env B) c ob) Q w \<longleftrightarrow> (case store_update c ob (w_env w) of (r, st) \<Rightarrow>
     Q r (w\<lparr>w_env := st, w_trace := w_trace w @ [EvUpdate c ob r]\<rparr>))"
  by (simp add: kupdate_def wp_call)

lemma wp_ret: "wp (ret a) Q = Q a"
  by (simp add: fun_eq_iff wp_return)

lemma wp_get_as: "(\<And>r w'. w_env w' = w_env w \<Longrightarrow> r = decode f (fst (store_get c k ns n (w_env w))) \<Longrightarrow> Q r w') \<Longrightarrow>
    wp (get_as (store_env B) f c k ns n) Q w"
  by (simp add: get_as_def wp_simps)

lemma wp_GetTypedOwner: "(\<And>r w'. w_env w' = w_env w \<Longrightarrow> Q r w') \<Longrightarrow> wp (GetTypedOwner (store_env B) f k g kn m) Q w"
proof -
  have "(\<And>r w'. w_env w' = w_env w \<Longrightarrow> Q r w') \<Longrightarrow> wp (GetTypedOwner_refs (store_env B) f k g kn ns rs) Q w" for ns rs
  proof (induction rs arbitrary: w)
    case (Cons r rs)
    then show ?case by (auto simp: wp_simps get_as_def split: sum.split)
  qed (simp add: wp_simps)
  then show "(\<And>r w'. w_env w' = w_env w \<Longrightarrow> Q r w') \<Longrightarrow> wp (GetTypedOwner (store_env B) f k g kn m) Q w"
    by (simp add: GetTypedOwner_def)
qed

lemma wp_getMachineFromAgent:
  assumes "\<And>r w'. w_env w' = w_env w \<Longrightarrow> (\<And>m. r = Inr m \<Longrightarrow> InfraEnvNameLabel \<in> dom (m_labels (ag_meta a))) \<Longrightarrow> Q r w'"
  shows "wp (getMachineFromAgent (store_env B) a) Q w"
proof (cases "m_labels (ag_meta a) InfraEnvNameLabel")
  case None
  then show ?thesis by (auto simp: getMachineFromAgent_def wp_simps intro!: assms)
next
  case (Some v)
  then have d: "InfraEnvNameLabel \<in> dom (m_labels (ag_meta a))" by blast
  show ?thesis using Some assms d unfolding getMachineFromAgent_def
    by (auto simp: wp_simps intro!: wp_get_as wp_GetTypedOwner split: sum.split)
qed

lemma wp_setAgentFields:
  assumes "a \<in> set (sto_agents st)" "m_labels (ag_meta a) InfraEnvNameLabel = Some v" "w_env w = st"
  shows "wp (setAgentFields (store_env B) it a m config) (\<lambda>r w'. store_change st (w_env w')) w"
proof -
  let ?opts = "\<lparr>lo_namespace = [], lo_labels = [(InfraEnvNameLabel, v)]\<rparr>"
  have lab: "label_of (ag_meta a) InfraEnvNameLabel = v" using assms(2) by (simp add: label_of_def)
  have lst: "List.map_filter as_agent (List.map OAgent xs) = xs" for xs by (induction xs) simp_all
  have sel: "selected ?opts b \<longleftrightarrow> m_labels (ag_meta b) InfraEnvNameLabel = Some v" for b by (simp add: selected_def)
  have key: "agent_key a \<in> agent_key ` set (sto_agents st)" using assms(1) by blast
  have upd: "store_change st (st\<lparr>sto_agents := put_agent a' (sto_agents st)\<rparr>)"
    if "ag_meta a' = ag_meta a" "ag_approved a' \<longleftrightarrow> \<not> list_ex (\<lambda>b. m_name (ag_meta b) \<noteq> m_name (ag_meta a) \<and> ag_approved b)
        (filter (selected ?opts) (sto_agents st))" for a'
    unfolding store_change_def using that assms(1,2) sel by (fastforce simp: list_ex_iff)
  have same: "store_change st st" by (simp add: store_change_def)
  show ?thesis
    unfolding setAgentFields_def canApproveAgent_def list_as_def Let_def
    using upd same key assms(3)
    by (auto simp: wp_simps store_list_def lst lab store_update_def agent_key_def split: sum.split)
qed

lemma AgentReconcile_store_change:
  assumes "run_state (AgentReconcile (store_env B) it ns name) (start st) = (r, w)"
  shows "store_change st (w_env w)"
proof -
  have same: "store_change st st" by (simp add: store_change_def)
  have "wp (AgentReconcile (store_env B) it ns name) (\<lambda>r w'. store_change st (w_env w')) (start st)"
    unfolding AgentReconcile_def wp_bind
    apply (rule wp_get_as)
    apply (simp add: start_def store_get_def wp_simps split: sum.split)
    apply (intro conjI allI impI)
     apply (simp add: same)
    apply (rule wp_getMachineFromAgent)
    apply (simp add: wp_simps split: sum.split)
    apply (intro conjI allI impI)
      apply (simp add: same)+
    apply (rule wp_get_as)
    apply (simp add: wp_simps split: sum.split)
    apply (intro conjI allI impI)
     apply (simp add: same)
    apply (simp only: wp_ret)
    apply (drule domD, elim exE)
    apply (rule wp_setAgentFields)
    apply (auto simp: found_def find_Some_iff decode_def split: option.splits)
    done
  from wpD [OF this assms] show ?thesis .
qed

subsection \<open>Refinement and invariant\<close>

lemma put_agent_mem: "b \<in> set (put_agent a as) \<Longrightarrow> b = a \<or> b \<in> set as \<and> agent_key b \<noteq> agent_key a"
  by (auto simp: put_agent_def split: if_splits)

lemma put_agent_in: "agent_key a \<in> agent_key ` set as \<Longrightarrow> a \<in> set (put_agent a as)"
  by (force simp: put_agent_def)

lemma put_agent_other: "b \<in> set as \<Longrightarrow> agent_key b \<noteq> agent_key a \<Longrightarrow> b \<in> set (put_agent a as)"
  by (force simp: put_agent_def)

text \<open>Putting an agent back changes the approvals of its InfraEnv only, by at most its own name.\<close>

lemma approvals_put:
  assumes "wf_store st" "a \<in> set (sto_agents st)" "m_labels (ag_meta a) InfraEnvNameLabel = Some v" "ag_meta a' = ag_meta a"
  defines "st' \<equiv> st\<lparr>sto_agents := put_agent a' (sto_agents st)\<rparr>"
  shows "u \<noteq> v \<Longrightarrow> approvals_of st' u = approvals_of st u"
    and "approvals_of st' v - {m_name (ag_meta a)} = approvals_of st v - {m_name (ag_meta a)}"
    and "ag_approved a' \<Longrightarrow> m_name (ag_meta a) \<in> approvals_of st' v"
proof -
  have key: "agent_key a' = agent_key a" using assms(4) by (simp add: agent_key_def)
  have uniq: "b = a" if "b \<in> set (sto_agents st)" "agent_key b = agent_key a" for b
    using assms(1,2) that unfolding wf_store_def distinct_map inj_on_def by blast
  have mem: "b \<in> set (sto_agents st') \<longleftrightarrow> b = a' \<or> b \<in> set (sto_agents st) \<and> agent_key b \<noteq> agent_key a" for b
    using put_agent_mem [of b a' "sto_agents st"] put_agent_in [of a' "sto_agents st"] put_agent_other [of b "sto_agents st" a'] assms(2) key
    by (auto simp: st'_def)
  show "u \<noteq> v \<Longrightarrow> approvals_of st' u = approvals_of st u"
    using mem assms(3,4) uniq unfolding approvals_of_def by fastforce
  show "approvals_of st' v - {m_name (ag_meta a)} = approvals_of st v - {m_name (ag_meta a)}"
    using mem assms(4) uniq unfolding approvals_of_def by fastforce
  show "ag_approved a' \<Longrightarrow> m_name (ag_meta a) \<in> approvals_of st' v"
    using mem assms(3,4) unfolding approvals_of_def by fastforce
qed

lemma store_change_refines:
  assumes "wf_store st" "store_change st st'"
  shows "wf_store st'" and "approval_step (approvals_of st) (approvals_of st')"
proof -
  show "wf_store st'" using assms by (auto simp: store_change_def wf_store_def)
  show "approval_step (approvals_of st) (approvals_of st')"
  proof (cases "st' = st")
    case False
    then obtain a a' v where a: "a \<in> set (sto_agents st)" "m_labels (ag_meta a) InfraEnvNameLabel = Some v" "ag_meta a' = ag_meta a"
      and ok: "ag_approved a' \<longleftrightarrow> (\<forall>b \<in> set (sto_agents st). m_labels (ag_meta b) InfraEnvNameLabel = Some v \<longrightarrow> ag_approved b
          \<longrightarrow> m_name (ag_meta b) = m_name (ag_meta a))"
      and st': "st' = st\<lparr>sto_agents := put_agent a' (sto_agents st)\<rparr>"
      using assms(2) by (auto simp: store_change_def)
    let ?n = "m_name (ag_meta a)"
    note put = approvals_put [OF assms(1) a, folded st']
    have upd: "approvals_of st' = (approvals_of st)(v := approvals_of st' v)" using put(1) by (auto simp: fun_eq_iff)
    show ?thesis
    proof (cases "ag_approved a'")
      case True
      then have sub: "approvals_of st v \<subseteq> {?n}" using ok by (auto simp: approvals_of_def)
      then have "approvals_of st' v = {?n}" using put(2,3) True by blast
      then show ?thesis using approval_step.grant [of "approvals_of st" v, OF sub] upd by simp
    next
      case False
      show ?thesis
      proof (cases "?n \<in> approvals_of st' v \<longleftrightarrow> ?n \<in> approvals_of st v")
        case True
        then have "approvals_of st' v = approvals_of st v" using put(2) by blast
        then show ?thesis using upd approval_step.keep by (metis fun_upd_triv)
      next
        case diff: False
        have "approvals_of st' v = approvals_of st v - {?n}"
        proof (cases "?n \<in> approvals_of st' v")
          case True
          then obtain b where b: "b \<in> set (sto_agents st')" "ag_approved b" "m_labels (ag_meta b) InfraEnvNameLabel = Some v" "m_name (ag_meta b) = ?n"
            by (auto simp: approvals_of_def)
          then have "b \<in> set (sto_agents st)" using st' put_agent_mem [of b a'] False by auto
          then have "?n \<in> approvals_of st v" using b unfolding approvals_of_def mem_Collect_eq by metis
          then show ?thesis using True diff by blast
        next
          case False
          then show ?thesis using put(2) by blast
        qed
        then show ?thesis using upd approval_step.revoke by metis
      qed
    qed
  qed (simp add: approval_step.keep)
qed

text \<open>
  Claim C19. Refinement: on a store of agents with distinct keys, a pass of the agent controller is
  one step of the abstract approval system, whatever the pass finds and whatever the order of the
  maps; the keys stay distinct.
\<close>
theorem AgentReconcile_refines_approval:
  assumes "wf_store st" "run_state (AgentReconcile (store_env B) it ns name) (start st) = (r, w)"
  shows "wf_store (w_env w) \<and> approval_step (approvals_of st) (approvals_of (w_env w))"
  using store_change_refines [OF assms(1) AgentReconcile_store_change [OF assms(2)]] by blast

text \<open>
  Executions: passes of the controller on any agent, agents that register (not approved, under a
  fresh key), agents that go away, and any change of the other objects.
\<close>

inductive store_reaches :: "agent_store env \<Rightarrow> agent_store \<Rightarrow> bool" for B where
  init: "sto_agents st = [] \<Longrightarrow> store_reaches B st"
| pass: "store_reaches B st \<Longrightarrow> run_state (AgentReconcile (store_env B) it ns name) (start st) = (r, w) \<Longrightarrow> store_reaches B (w_env w)"
| register: "store_reaches B st \<Longrightarrow> \<not> ag_approved a \<Longrightarrow> agent_key a \<notin> agent_key ` set (sto_agents st) \<Longrightarrow>
    store_reaches B (st\<lparr>sto_agents := a # sto_agents st\<rparr>)"
| gone: "store_reaches B st \<Longrightarrow> store_reaches B (st\<lparr>sto_agents := filter (\<lambda>b. agent_key b \<noteq> k) (sto_agents st)\<rparr>)"
| others: "store_reaches B st \<Longrightarrow> store_reaches B (st\<lparr>sto_objects := ob\<rparr>)"

lemma store_reaches_invariant: "store_reaches B st \<Longrightarrow> wf_store st \<and> single (approvals_of st)"
proof (induction rule: store_reaches.induct)
  case (init st)
  then show ?case by (simp add: wf_store_def single_def approvals_of_def)
next
  case (pass st it ns name r w)
  then show ?case using store_change_refines [OF _ AgentReconcile_store_change] approval_step_single by blast
next
  case (register st a)
  have "approvals_of (st\<lparr>sto_agents := a # sto_agents st\<rparr>) = approvals_of st"
    using register(2) by (auto simp: approvals_of_def fun_eq_iff)
  then show ?case using register by (simp add: wf_store_def)
next
  case (gone st k)
  have "approvals_of (st\<lparr>sto_agents := filter (\<lambda>b. agent_key b \<noteq> k) (sto_agents st)\<rparr>) v \<subseteq> approvals_of st v" for v
    by (auto simp: approvals_of_def)
  moreover have "wf_store (st\<lparr>sto_agents := filter (\<lambda>b. agent_key b \<noteq> k) (sto_agents st)\<rparr>)"
    using gone(2) by (simp add: wf_store_def distinct_map_filter)
  ultimately show ?case using gone(2) single_mono by blast
next
  case (others st ob)
  then show ?case by (simp add: wf_store_def approvals_of_def [abs_def])
qed

lemma approved_unique:
  assumes "store_reaches B st" "a \<in> set (sto_agents st)" "b \<in> set (sto_agents st)" "ag_approved a" "ag_approved b"
    "m_labels (ag_meta a) InfraEnvNameLabel = Some v" "m_labels (ag_meta b) InfraEnvNameLabel = Some v"
    "m_namespace (ag_meta a) = m_namespace (ag_meta b)"
  shows "a = b"
proof -
  have inv: "wf_store st" "single (approvals_of st)" using store_reaches_invariant [OF assms(1)] by blast+
  have "m_name (ag_meta a) \<in> approvals_of st v" "m_name (ag_meta b) \<in> approvals_of st v"
    using assms unfolding approvals_of_def by blast+
  then have "agent_key a = agent_key b" using inv(2) assms(8) by (auto simp: single_def agent_key_def)
  then show ?thesis using inv(1) assms(2,3) unfolding wf_store_def distinct_map inj_on_def by blast
qed

lemma length_le_1: "distinct xs \<Longrightarrow> (\<And>x y. x \<in> set xs \<Longrightarrow> y \<in> set xs \<Longrightarrow> x = y) \<Longrightarrow> length xs \<le> 1"
proof (rule ccontr)
  assume d: "distinct xs" and eq: "\<And>x y. x \<in> set xs \<Longrightarrow> y \<in> set xs \<Longrightarrow> x = y" and "\<not> length xs \<le> 1"
  then have l: "0 < length xs" "1 < length xs" by linarith+
  then have "xs ! 0 \<noteq> xs ! 1" using nth_eq_iff_index_eq [OF d l] by simp
  then show False using eq l nth_mem by blast
qed

text \<open>
  Invariant: on a store whose lists are current, with no other writer of approvals, at most one agent
  of a namespace is approved for an InfraEnv in every reachable state. Current lists are needed: the
  controller reads with the client of the manager, which may answer from a cache, and then the lemma
  \<open>stale_list_approves_second\<close> below shows two approved agents.
\<close>
theorem one_approved_agent:
  assumes "store_reaches B st"
  shows "length (filter (\<lambda>a. ag_approved a \<and> m_namespace (ag_meta a) = ns \<and> m_labels (ag_meta a) InfraEnvNameLabel = Some v)
    (sto_agents st)) \<le> 1"
proof (rule length_le_1)
  have "distinct (sto_agents st)" using store_reaches_invariant [OF assms] by (simp add: wf_store_def distinct_map)
  then show "distinct (filter (\<lambda>a. ag_approved a \<and> m_namespace (ag_meta a) = ns \<and> m_labels (ag_meta a) InfraEnvNameLabel = Some v)
    (sto_agents st))" by simp
next
  fix x y
  assume "x \<in> set (filter (\<lambda>a. ag_approved a \<and> m_namespace (ag_meta a) = ns \<and> m_labels (ag_meta a) InfraEnvNameLabel = Some v) (sto_agents st))"
    "y \<in> set (filter (\<lambda>a. ag_approved a \<and> m_namespace (ag_meta a) = ns \<and> m_labels (ag_meta a) InfraEnvNameLabel = Some v) (sto_agents st))"
  then show "x = y" by (intro approved_unique [OF assms]) simp_all
qed

subsection \<open>A store in which an agent is approved\<close>

definition demo_agent :: agent where
  "demo_agent = \<lparr>ag_meta = empty_meta\<lparr>m_name := ''a1'', m_namespace := ''n'', m_labels := [InfraEnvNameLabel \<mapsto> ''m1'']\<rparr>,
     ag_role = [], ag_ignitionConfigOverrides = [], ag_approved = False, ag_installerArgs = [],
     ag_clusterDeploymentName = None, ag_bootstrap = False, ag_hostname = [], ag_interfaces = [], ag_rest = []\<rparr>"

definition demo_infra_env :: infra_env where
  "demo_infra_env = \<lparr>ie_meta = empty_meta\<lparr>m_name := ''m1'', m_namespace := ''n'', m_ownerReferences :=
       [\<lparr>or_apiVersion = ''cluster.x-k8s.io/v1beta2'', or_kind = ''Machine'', or_name = ''m1'', or_uid = [], or_controller = None\<rparr>]\<rparr>,
     ie_additionalNTPSources = [], ie_additionalTrustBundle = [], ie_clusterRef = None, ie_cpuArchitecture = [],
     ie_nmStateConfigLabelSelector = [], ie_osImageVersion = [], ie_proxy = None, ie_pullSecretRef = None,
     ie_sshAuthorizedKey = [], ie_imageType = [], ie_ignitionConfigOverride = [], ie_eventsURL = []\<rparr>"

definition demo_boot_machine :: machine where
  "demo_boot_machine = empty_machine\<lparr>mc_meta := empty_meta\<lparr>m_name := ''m1'', m_namespace := ''n''\<rparr>,
     mc_bootstrapConfigRef := \<lparr>cr_apiGroup = ''bootstrap.cluster.x-k8s.io'', cr_kind = ''OpenshiftAssistedConfig'', cr_name = ''m1''\<rparr>\<rparr>"

definition demo_boot_config :: oac where
  "demo_boot_config = \<lparr>oac_meta = empty_meta\<lparr>m_name := ''m1'', m_namespace := ''n''\<rparr>, oac_spec = empty_oac_spec, oac_status = empty_oac_status\<rparr>"

definition demo_store :: agent_store where
  "demo_store = \<lparr>sto_agents = [demo_agent], sto_objects = (\<lambda>k ns n.
     if n \<noteq> ''m1'' then None else if k = KInfraEnv then Some (OInfraEnv demo_infra_env)
     else if k = KMachine then Some (OMachine demo_boot_machine)
     else if k = KOAC then Some (OOAC demo_boot_config) else None)\<rparr>"

definition demo_approved :: agent where
  "demo_approved = demo_agent\<lparr>ag_role := ''worker'', ag_ignitionConfigOverrides := json_text (config_json ''3.1.0'' [] []),
     ag_approved := True, ag_installerArgs := ''[]''\<rparr>"

lemma demo_boot_ignition: "getIgnitionConfig (store_env nowhere) it demo_boot_config = Inr (json_text (config_json ''3.1.0'' [] []))"
  by (simp add: getIgnitionConfig_def demo_boot_config_def empty_oac_spec_def empty_node_registration_def CreateKubeletCustomLabelsFile_def
      parseLabels_def parseEnvVarRef_def trim_space_def GetIgnitionConfigOverrides_def installedNodeComponents_def node_parts_def empty_meta_def)

lemma demo_args: "getInstallerArgs demo_boot_config = ''[]''" "agent_role demo_boot_machine = ''worker''"
  by (simp_all add: getInstallerArgs_def demo_boot_config_def empty_oac_spec_def agent_role_def demo_boot_machine_def empty_meta_def)

lemma demo_fields:
  "m_labels (ag_meta demo_agent) InfraEnvNameLabel = Some ''m1''" "m_namespace (ag_meta demo_agent) = ''n''"
  "m_name (ag_meta demo_agent) = ''a1''" "agent_key demo_agent = (''n'', ''a1'')" "\<not> ag_approved demo_agent"
  "m_namespace (ie_meta demo_infra_env) = ''n''"
  "m_ownerReferences (ie_meta demo_infra_env) =
     [\<lparr>or_apiVersion = ''cluster.x-k8s.io/v1beta2'', or_kind = ''Machine'', or_name = ''m1'', or_uid = [], or_controller = None\<rparr>]"
  "m_namespace (mc_meta demo_boot_machine) = ''n''" "cr_name (mc_bootstrapConfigRef demo_boot_machine) = ''m1''"
  "ref_IsDefined (mc_bootstrapConfigRef demo_boot_machine)"
  by (simp_all add: demo_agent_def demo_infra_env_def demo_boot_machine_def agent_key_def empty_meta_def ref_IsDefined_def)

lemma demo_store_objects:
  "sto_agents demo_store = [demo_agent]" "sto_objects demo_store KInfraEnv ns ''m1'' = Some (OInfraEnv demo_infra_env)"
  "sto_objects demo_store KMachine ns ''m1'' = Some (OMachine demo_boot_machine)"
  "sto_objects demo_store KOAC ns ''m1'' = Some (OOAC demo_boot_config)"
  by (simp_all add: demo_store_def)

lemma demo_pass:
  "\<exists>w. run_state (AgentReconcile (store_env nowhere) it ''n'' ''a1'') (start demo_store) = ((result_zero, None), w)
     \<and> filter is_write (w_trace w) = [EvUpdate Mgmt (OAgent demo_approved) (Inr (OAgent demo_approved))]
     \<and> w_env w = demo_store\<lparr>sto_agents := [demo_approved]\<rparr>"
proof -
  have g: "group_of ''cluster.x-k8s.io/v1beta2'' = ''cluster.x-k8s.io''" by code_simp
  have new: "demo_agent\<lparr>ag_role := ''worker'', ag_ignitionConfigOverrides := json_text (config_json ''3.1.0'' [] []), ag_approved := True,
      ag_installerArgs := ''[]''\<rparr> = demo_approved" "agent_key demo_approved = (''n'', ''a1'')"
    by (simp_all add: demo_approved_def agent_key_def demo_fields)
  show ?thesis
    by (simp add: AgentReconcile_def get_as_def list_as_def kcall_defs call_def start_def store_get_def store_list_def store_update_def
        found_def getMachineFromAgent_def GetTypedOwner_def setAgentFields_def canApproveAgent_def demo_boot_ignition g
        demo_args demo_fields demo_store_objects Let_def selected_def label_of_def new put_agent_def)
qed

lemma demo_store_wf: "wf_store demo_store"
  by (simp add: wf_store_def demo_store_objects)

lemma demo_reaches: "store_reaches nowhere (demo_store\<lparr>sto_agents := [demo_approved]\<rparr>)"
proof -
  have "store_reaches nowhere (demo_store\<lparr>sto_agents := []\<rparr>)" by (rule store_reaches.init) simp
  then have "store_reaches nowhere (demo_store\<lparr>sto_agents := [demo_agent]\<rparr>)"
    using store_reaches.register [of nowhere "demo_store\<lparr>sto_agents := []\<rparr>" demo_agent] by (simp add: demo_fields)
  moreover have "demo_store\<lparr>sto_agents := [demo_agent]\<rparr> = demo_store" by (simp add: demo_store_def)
  ultimately have "store_reaches nowhere demo_store" by simp
  with demo_pass [of "\<lambda>i ks. ks"] show ?thesis by (metis store_reaches.pass)
qed

theorem AgentReconcile_refines_approval_witness:
  "\<exists>w. run_state (AgentReconcile (store_env nowhere) (\<lambda>i ks. ks) ''n'' ''a1'') (start demo_store) = ((result_zero, None), w)
     \<and> wf_store (w_env w) \<and> approval_step (approvals_of demo_store) (approvals_of (w_env w))
     \<and> approvals_of (w_env w) ''m1'' = {''a1''}"
proof -
  obtain w where w: "run_state (AgentReconcile (store_env nowhere) (\<lambda>i ks. ks) ''n'' ''a1'') (start demo_store) = ((result_zero, None), w)"
    "w_env w = demo_store\<lparr>sto_agents := [demo_approved]\<rparr>" using demo_pass [of "\<lambda>i ks. ks"] by blast
  have "approvals_of (w_env w) ''m1'' = {''a1''}"
    by (auto simp: approvals_of_def w(2) demo_approved_def demo_agent_def empty_meta_def)
  then show ?thesis using AgentReconcile_refines_approval [OF demo_store_wf w(1)] w(1) by blast
qed

theorem one_approved_agent_witness:
  "store_reaches nowhere (demo_store\<lparr>sto_agents := [demo_approved]\<rparr>) \<and>
   length (filter (\<lambda>a. ag_approved a \<and> m_namespace (ag_meta a) = ''n'' \<and> m_labels (ag_meta a) InfraEnvNameLabel = Some ''m1'')
     [demo_approved]) = 1"
  using one_approved_agent [OF demo_reaches, of "''n''" "''m1''"] demo_reaches
  by (simp add: demo_approved_def demo_fields)

theorem AgentReconcile_approval_safe_witness:
  "\<exists>w r. run_state (AgentReconcile (store_env nowhere) (\<lambda>i ks. ks) ''n'' ''a1'') (start demo_store) = ((result_zero, None), w)
     \<and> filter is_write (w_trace w) = [EvUpdate Mgmt (OAgent demo_approved) r] \<and> approves_safely (store_env nowhere) (\<lambda>i ks. ks) ''n'' ''a1'' (w_trace w) demo_approved"
proof -
  obtain w where w: "run_state (AgentReconcile (store_env nowhere) (\<lambda>i ks. ks) ''n'' ''a1'') (start demo_store) = ((result_zero, None), w)"
    "filter is_write (w_trace w) = [EvUpdate Mgmt (OAgent demo_approved) (Inr (OAgent demo_approved))]"
    using demo_pass [of "\<lambda>i ks. ks"] by blast
  show ?thesis using AgentReconcile_approval_safe [OF w(1)] w by simp
qed

subsection \<open>Where the invariant ends\<close>

text \<open>
  A list from a cache. The store has an approved agent \<open>a1\<close> and an agent \<open>a2\<close> of the same InfraEnv; the list
  still shows \<open>a1\<close> as it was before its approval. A pass on \<open>a2\<close> approves it too, and both stay approved.
\<close>

definition second_agent :: agent where
  "second_agent = demo_agent\<lparr>ag_meta := (ag_meta demo_agent)\<lparr>m_name := ''a2''\<rparr>\<rparr>"

definition stale_env :: "agent_store env" where
  "stale_env = (store_env nowhere)\<lparr>k_list := (\<lambda>c k opts st. (Inr [OAgent demo_agent, OAgent second_agent], st))\<rparr>"

lemma second_agent_fields:
  "m_labels (ag_meta second_agent) InfraEnvNameLabel = Some ''m1''" "m_namespace (ag_meta second_agent) = ''n''"
  "m_name (ag_meta second_agent) = ''a2''" "agent_key second_agent = (''n'', ''a2'')" "\<not> ag_approved second_agent"
  "agent_key demo_approved = (''n'', ''a1'')" "ag_approved demo_approved"
  "ag_role second_agent = []"
  by (simp_all add: second_agent_def demo_agent_def demo_approved_def agent_key_def empty_meta_def)

lemma stale_ignition: "getIgnitionConfig stale_env it demo_boot_config = Inr (json_text (config_json ''3.1.0'' [] []))"
  by (simp add: getIgnitionConfig_def demo_boot_config_def empty_oac_spec_def empty_node_registration_def CreateKubeletCustomLabelsFile_def
      parseLabels_def parseEnvVarRef_def trim_space_def GetIgnitionConfigOverrides_def installedNodeComponents_def node_parts_def empty_meta_def)

lemma stale_calls: "k_get stale_env = store_get" "k_update stale_env = store_update"
  "k_list stale_env c k opts st = (Inr [OAgent demo_agent, OAgent second_agent], st)"
  by (simp_all add: stale_env_def)

lemma stale_list_approves_second:
  "\<exists>w. run_state (AgentReconcile stale_env it ''n'' ''a2'') (start (demo_store\<lparr>sto_agents := [demo_approved, second_agent]\<rparr>)) = ((result_zero, None), w)
     \<and> length (filter ag_approved (sto_agents (w_env w))) = 2"
proof -
  have g: "group_of ''cluster.x-k8s.io/v1beta2'' = ''cluster.x-k8s.io''" by code_simp
  have new: "agent_key (second_agent\<lparr>ag_role := r, ag_ignitionConfigOverrides := i, ag_approved := b, ag_installerArgs := x\<rparr>) = (''n'', ''a2'')" for r i b x
    by (simp add: agent_key_def second_agent_fields)
  show ?thesis
    by (simp add: AgentReconcile_def get_as_def list_as_def kcall_defs call_def start_def store_get_def store_update_def stale_calls
        found_def getMachineFromAgent_def GetTypedOwner_def setAgentFields_def canApproveAgent_def stale_ignition g
        demo_args demo_fields second_agent_fields demo_store_objects Let_def new put_agent_def)
qed

text \<open>
  The list that decides on approval covers all namespaces: an approved agent of an InfraEnv of the
  same name in another namespace keeps this agent from being approved.
\<close>

lemma foreign_agent_blocks:
  "\<exists>w. run_state (canApproveAgent (store_env nowhere) demo_agent)
       (start (demo_store\<lparr>sto_agents := [demo_agent, demo_approved\<lparr>ag_meta := (ag_meta demo_agent)\<lparr>m_namespace := ''other'', m_name := ''a2''\<rparr>\<rparr>]\<rparr>))
     = (Inr False, w)"
  by (simp add: canApproveAgent_def list_as_def kcall_defs call_def start_def store_list_def selected_def label_of_def demo_fields demo_approved_def)

end
