(* ===== verification/Net.thy ===== *)
theory Net
  imports Json
begin

text \<open>
  The parts of Go's packages \<open>net\<close>, \<open>net/netip\<close> and \<open>net/url\<close> (Go 1.26) that the program uses: IP addresses and
  CIDR blocks, parsing of URLs, query strings and their escapes. Text outside ASCII is a sequence
  of bytes of 128 and more.
\<close>

subsection \<open>Addresses\<close>

datatype ip_addr = V4 "nat list" | V6 "nat list"

definition v4_field :: "string \<Rightarrow> nat option" where
  "v4_field s = (if all_digits s \<and> (hd s = CHR ''0'' \<longrightarrow> length s = 1) \<and> length s \<le> 3 \<and> nat_of_digits s \<le> 255
     then Some (nat_of_digits s) else None)"

definition parseIPv4 :: "string \<Rightarrow> nat list option" where
  "parseIPv4 s = (let fs = List.map v4_field (str_split CHR ''.'' s) in
     if length fs = 4 \<and> None \<notin> set fs then Some (List.map the fs) else None)"

definition is_hex :: "char \<Rightarrow> bool" where
  "is_hex c \<longleftrightarrow> hex_val c \<noteq> None"

definition hex_num :: "string \<Rightarrow> nat" where
  "hex_num = foldl (\<lambda>n c. 16 * n + (case hex_val c of Some d \<Rightarrow> d | None \<Rightarrow> 0)) 0"

text \<open>Eight groups; \<open>ell\<close> is the position of the \<open>::\<close>, which stands for at least one group of zeros.\<close>

definition v6_finish :: "nat list \<Rightarrow> nat option \<Rightarrow> nat list option" where
  "v6_finish gs ell = (case ell of
     None \<Rightarrow> if length gs = 8 then Some gs else None
   | Some k \<Rightarrow> if length gs < 8 then Some (take k gs @ replicate (8 - length gs) 0 @ drop k gs) else None)"

fun v6_groups :: "nat \<Rightarrow> nat list \<Rightarrow> nat option \<Rightarrow> string \<Rightarrow> nat list option" where
  "v6_groups 0 gs ell s = None"
| "v6_groups (Suc n) gs ell s = (let h = takeWhile is_hex s in
     if h = [] \<or> length h > 4 then None
     else (case dropWhile is_hex s of
         [] \<Rightarrow> v6_finish (gs @ [hex_num h]) ell
       | c # t \<Rightarrow>
           if c = CHR ''.'' then
             (if ell = None \<and> length gs \<noteq> 6 \<or> n < 1 then None
              else (case parseIPv4 s of
                  Some [w, x, y, z] \<Rightarrow> v6_finish (gs @ [256 * w + x, 256 * y + z]) ell
                | _ \<Rightarrow> None))
           else if c \<noteq> CHR '':'' \<or> t = [] then None
           else if hd t = CHR '':'' then
             (if ell \<noteq> None then None
              else if tl t = [] then v6_finish (gs @ [hex_num h]) (Some (length gs + 1))
              else v6_groups n (gs @ [hex_num h]) (Some (length gs + 1)) (tl t))
           else v6_groups n (gs @ [hex_num h]) ell t))"

text \<open>The address and its zone.\<close>

definition parseIPv6 :: "string \<Rightarrow> (nat list \<times> string) option" where
  "parseIPv6 s = (let addr = takeWhile (\<lambda>c. c \<noteq> CHR ''%'') s; z = dropWhile (\<lambda>c. c \<noteq> CHR ''%'') s in
     if z = ''%'' then None
     else map_option (\<lambda>gs. (gs, drop 1 z))
       (if addr = ''::'' then Some (replicate 8 0)
        else if has_prefix addr ''::'' then v6_groups 8 [] (Some 0) (drop 2 addr)
        else v6_groups 8 [] None addr))"

definition ParseAddr :: "string \<Rightarrow> (ip_addr \<times> string) option" where
  "ParseAddr s = (case List.find (\<lambda>c. c \<in> {CHR ''.'', CHR '':'', CHR ''%''}) s of
     None \<Rightarrow> None
   | Some c \<Rightarrow> if c = CHR ''.'' then map_option (\<lambda>v. (V4 v, [])) (parseIPv4 s)
       else if c = CHR '':'' then map_option (\<lambda>(gs, z). (V6 gs, z)) (parseIPv6 s) else None)"

definition bit_len :: "ip_addr \<Rightarrow> nat" where
  "bit_len a = (case a of V4 _ \<Rightarrow> 32 | V6 _ \<Rightarrow> 128)"

text \<open>\<open>net.ParseCIDR\<close>, of whose results only the address is used.\<close>

definition ParseCIDR :: "string \<Rightarrow> ip_addr option" where
  "ParseCIDR s = (case str_split2 CHR ''/'' s of
     [a, m] \<Rightarrow> (case ParseAddr a of
         Some (ip, z) \<Rightarrow> if z = [] \<and> all_digits m \<and> nat_of_digits m \<le> bit_len ip then Some ip else None
       | None \<Rightarrow> None)
   | _ \<Rightarrow> None)"

text \<open>\<open>ip.To4() != nil\<close>: an IPv4 address, also one mapped into IPv6.\<close>

definition is_v4 :: "ip_addr \<Rightarrow> bool" where
  "is_v4 a = (case a of V4 _ \<Rightarrow> True | V6 gs \<Rightarrow> take 6 gs = [0, 0, 0, 0, 0, 65535])"

subsection \<open>Escapes\<close>

datatype url_mode = EncodePath | EncodeHost | EncodeZone | EncodeUser | EncodeQuery | EncodeFragment

definition is_alnum :: "char \<Rightarrow> bool" where
  "is_alnum c \<longleftrightarrow> is_digit c \<or> byte c \<in> {65..90} \<or> byte c \<in> {97..122}"

definition shouldEscape :: "url_mode \<Rightarrow> char \<Rightarrow> bool" where
  "shouldEscape m c = (if is_alnum c \<or> c \<in> set ''-_.~'' then False
     else if m \<in> {EncodeHost, EncodeZone} \<and> c \<in> set ''!$&()*+,;=:[]<>'' \<union> {CHR 0x22, CHR 0x27} then False
     else if c \<in> set ''$&+,/:;=?@'' then
       (case m of EncodePath \<Rightarrow> c = CHR ''?'' | EncodeUser \<Rightarrow> c \<in> set ''@/?:'' | EncodeQuery \<Rightarrow> True
        | EncodeFragment \<Rightarrow> False | _ \<Rightarrow> True)
     else \<not> (m = EncodeFragment \<and> c \<in> set ''!()*''))"

definition upper_hex :: "nat \<Rightarrow> char" where
  "upper_hex n = ''0123456789ABCDEF'' ! n"

definition escape_byte :: "url_mode \<Rightarrow> char \<Rightarrow> string" where
  "escape_byte m c = (if \<not> shouldEscape m c then [c]
     else if c = CHR '' '' \<and> m = EncodeQuery then ''+''
     else [CHR ''%'', upper_hex (byte c div 16), upper_hex (byte c mod 16)])"

definition url_escape :: "url_mode \<Rightarrow> string \<Rightarrow> string" where
  "url_escape m s = concat (List.map (escape_byte m) s)"

text \<open>A percent escape in a host may only stand for a byte outside ASCII or for the percent sign itself.\<close>

definition escape_allowed :: "url_mode \<Rightarrow> nat \<Rightarrow> nat \<Rightarrow> bool" where
  "escape_allowed m h l = (let v = char_of (16 * h + l) in
     (m = EncodeHost \<longrightarrow> 8 \<le> h \<or> (h = 2 \<and> l = 5)) \<and>
     (m = EncodeZone \<longrightarrow> (h = 2 \<and> l = 5) \<or> v = CHR '' '' \<or> \<not> shouldEscape EncodeHost v))"

fun url_unescape :: "url_mode \<Rightarrow> string \<Rightarrow> string option" where
  "url_unescape m [] = Some []"
| "url_unescape m (c # s) = (if c = CHR ''%'' then
       (case s of x # y # t \<Rightarrow>
           (case (hex_val x, hex_val y) of
              (Some h, Some l) \<Rightarrow> if escape_allowed m h l then map_option (Cons (char_of (16 * h + l))) (url_unescape m t) else None
            | _ \<Rightarrow> None)
        | _ \<Rightarrow> None)
     else if c = CHR ''+'' \<and> m = EncodeQuery then map_option (Cons (CHR '' '')) (url_unescape m s)
     else if m \<in> {EncodeHost, EncodeZone} \<and> byte c < 128 \<and> shouldEscape m c then None
     else map_option (Cons c) (url_unescape m s))"

declare url_unescape.simps [simp del]

subsection \<open>URLs\<close>

record url =
  u_scheme :: string
  u_host :: string
  u_path :: string
  u_rawQuery :: string

text \<open>\<open>strings.Cut\<close> at a character: what stands before it, and what stands after it if it occurs.\<close>

definition cut_at :: "char \<Rightarrow> string \<Rightarrow> string \<times> string" where
  "cut_at c s = (takeWhile (\<lambda>x. x \<noteq> c) s, drop 1 (dropWhile (\<lambda>x. x \<noteq> c) s))"

definition last_cut :: "char \<Rightarrow> string \<Rightarrow> string \<times> string" where
  "last_cut c s = (rev (drop 1 (dropWhile (\<lambda>x. x \<noteq> c) (rev s))), rev (takeWhile (\<lambda>x. x \<noteq> c) (rev s)))"

definition to_lower :: "string \<Rightarrow> string" where
  "to_lower s = List.map (\<lambda>c. if byte c \<in> {65..90} then char_of (byte c + 32) else c) s"

definition is_alpha :: "char \<Rightarrow> bool" where
  "is_alpha c \<longleftrightarrow> byte c \<in> {65..90} \<or> byte c \<in> {97..122}"

definition scheme_char :: "char \<Rightarrow> bool" where
  "scheme_char c \<longleftrightarrow> is_alnum c \<or> c \<in> set ''+-.''"

text \<open>The scheme and the rest; no scheme when the text does not start with one.\<close>

definition getScheme :: "string \<Rightarrow> (string \<times> string) option" where
  "getScheme s = (case dropWhile scheme_char s of
     [] \<Rightarrow> Some ([], s)
   | c # t \<Rightarrow> let p = takeWhile scheme_char s in
       if c \<noteq> CHR '':'' then Some ([], s)
       else if p = [] then None
       else if is_alpha (hd p) then Some (p, t) else Some ([], s))"

definition validOptionalPort :: "string \<Rightarrow> bool" where
  "validOptionalPort p = (case p of [] \<Rightarrow> True | c # ds \<Rightarrow> c = CHR '':'' \<and> list_all is_digit ds)"

fun find_zone :: "string \<Rightarrow> string \<times> string" where
  "find_zone [] = ([], [])"
| "find_zone (c # s) = (if has_prefix (c # s) ''%25'' then ([], c # s) else (case find_zone s of (p, z) \<Rightarrow> (c # p, z)))"

definition parseBracketed :: "string \<Rightarrow> string option" where
  "parseBracketed host = (if CHR '']'' \<notin> set host then None
     else (case last_cut CHR '']'' host of (front, colonPort) \<Rightarrow>
       if \<not> validOptionalPort colonPort then None
       else (case find_zone (drop 1 front) of (h, z) \<Rightarrow>
         (case (url_unescape EncodeHost colonPort, url_unescape EncodeHost h, url_unescape EncodeZone z) of
            (Some p, Some h', Some z') \<Rightarrow> (case ParseAddr (h' @ z') of
                Some (V6 _, _) \<Rightarrow> Some (''['' @ h' @ z' @ '']'' @ p)
              | _ \<Rightarrow> None)
          | _ \<Rightarrow> None))))"

text \<open>A host without brackets may hold one colon, before its port.\<close>

definition parseHost :: "string \<Rightarrow> string option" where
  "parseHost host = (if has_prefix host ''['' then (if CHR ''['' \<in> set (drop 1 host) then None else parseBracketed host)
     else if CHR ''['' \<in> set host then None
     else (case dropWhile (\<lambda>c. c \<noteq> CHR '':'') host of
         [] \<Rightarrow> url_unescape EncodeHost host
       | p \<Rightarrow> if CHR '':'' \<in> set (drop 1 p) \<or> \<not> validOptionalPort p then None else url_unescape EncodeHost host))"

definition validUserinfo :: "string \<Rightarrow> bool" where
  "validUserinfo s = list_all (\<lambda>c. is_alnum c \<or> c \<in> set ''-._:~!$&()*+,;=%@'' \<union> {CHR 0x27}) s"

text \<open>User information is checked and dropped: the program does not use it.\<close>

definition parseAuthority :: "string \<Rightarrow> string option" where
  "parseAuthority a = (if CHR ''@'' \<notin> set a then parseHost a
     else (case last_cut CHR ''@'' a of (user, h) \<Rightarrow> (case parseHost h of
         None \<Rightarrow> None
       | Some host \<Rightarrow> if validUserinfo user \<and> (case cut_at CHR '':'' user of (n, p) \<Rightarrow>
           url_unescape EncodeUser n \<noteq> None \<and> url_unescape EncodeUser p \<noteq> None) then Some host else None)))"

definition mk_url :: "string \<Rightarrow> string \<Rightarrow> string \<Rightarrow> string \<Rightarrow> url option" where
  "mk_url scheme host path q = map_option (\<lambda>p. \<lparr>u_scheme = scheme, u_host = host, u_path = p, u_rawQuery = q\<rparr>) (url_unescape EncodePath path)"

definition parse_rest :: "string \<Rightarrow> string \<Rightarrow> string \<Rightarrow> url option" where
  "parse_rest scheme rest q =
    (if \<not> has_prefix rest ''/'' \<and> scheme \<noteq> [] then Some \<lparr>u_scheme = scheme, u_host = [], u_path = [], u_rawQuery = q\<rparr>
     else if \<not> has_prefix rest ''/'' \<and> CHR '':'' \<in> set (fst (cut_at CHR ''/'' rest)) then None
     else if (scheme \<noteq> [] \<or> \<not> has_prefix rest ''///'') \<and> has_prefix rest ''//'' then
       (let a = drop 2 rest in (case parseAuthority (takeWhile (\<lambda>c. c \<noteq> CHR ''/'') a) of
          None \<Rightarrow> None
        | Some host \<Rightarrow> mk_url scheme host (dropWhile (\<lambda>c. c \<noteq> CHR ''/'') a) q))
     else mk_url scheme [] rest q)"

definition url_parse :: "string \<Rightarrow> url res" where
  "url_parse raw = (case cut_at CHR ''#'' raw of (u, frag) \<Rightarrow>
     (case (if list_ex (\<lambda>c. byte c < 32 \<or> byte c = 127) u then None
        else if u = ''*'' then Some \<lparr>u_scheme = [], u_host = [], u_path = u, u_rawQuery = []\<rparr>
        else (case getScheme u of
            None \<Rightarrow> None
          | Some (scheme, rest) \<Rightarrow> (case cut_at CHR ''?'' rest of (p, q) \<Rightarrow> parse_rest (to_lower scheme) p q))) of
        Some r \<Rightarrow> if url_unescape EncodeFragment frag = None then Inl (Errorf ''parse: invalid URL escape'') else Inr r
      | None \<Rightarrow> Inl (Errorf ''parse: invalid URL'')))"

text \<open>\<open>Hostname\<close> and \<open>Port\<close>.\<close>

definition splitHostPort :: "string \<Rightarrow> string \<times> string" where
  "splitHostPort hp = (case (if CHR '':'' \<in> set hp then last_cut CHR '':'' hp else (hp, [])) of (h, p) \<Rightarrow>
     (let (host, port) = (if CHR '':'' \<in> set hp \<and> \<not> list_all is_digit p then (hp, []) else (h, p)) in
      (if has_prefix host ''['' \<and> has_suffix host '']'' then butlast (drop 1 host) else host, port)))"

text \<open>\<open>URL.String\<close> for a URL with a host, an absolute path and no user.\<close>

definition url_string :: "url \<Rightarrow> string" where
  "url_string u = (if u_scheme u = [] then [] else u_scheme u @ '':'') @ ''//'' @ url_escape EncodeHost (u_host u) @
     url_escape EncodePath (u_path u) @ (if u_rawQuery u = [] then [] else ''?'' @ u_rawQuery u)"

subsection \<open>Query strings\<close>

definition query_pair :: "string \<Rightarrow> (string \<times> string) option" where
  "query_pair s = (if CHR '';'' \<in> set s then None
     else (case cut_at CHR ''='' s of (k, v) \<Rightarrow> (case (url_unescape EncodeQuery k, url_unescape EncodeQuery v) of
         (Some k', Some v') \<Rightarrow> Some (k', v') | _ \<Rightarrow> None)))"

text \<open>The pairs in order; the values of a key are those of its pairs.\<close>

definition ParseQuery :: "string \<Rightarrow> (string \<times> string) list res" where
  "ParseQuery q = (let ps = List.map query_pair (filter (\<lambda>s. s \<noteq> []) (str_split CHR ''&'' q)) in
     if None \<in> set ps then Inl (Errorf ''invalid query'') else Inr (List.map the ps))"

definition query_get :: "string \<Rightarrow> (string \<times> string) list \<Rightarrow> string list" where
  "query_get k ps = List.map snd (filter (\<lambda>p. fst p = k) ps)"

text \<open>\<open>Values.Encode\<close> for one value per key: sorted by key.\<close>

definition values_encode :: "(string \<times> string) list \<Rightarrow> string" where
  "values_encode ps = str_join ''&'' (List.map (\<lambda>(k, v). url_escape EncodeQuery k @ ''='' @ url_escape EncodeQuery v) (sort_key fst ps))"

subsection \<open>Escapes round trip\<close>

lemma hex_val_upper: "n < 16 \<Longrightarrow> hex_val (upper_hex n) = Some n"
proof -
  have "\<forall>n \<in> {0..<16}. hex_val (upper_hex n) = Some n"
    by (simp add: atLeastLessThan_def lessThan_def) code_simp
  then show "n < 16 \<Longrightarrow> hex_val (upper_hex n) = Some n" by simp
qed

lemma nibbles: "byte c div 16 < 16" "byte c mod 16 < 16"
  using byte_props(1) [of c] by linarith+

lemma unescape_escape_byte:
  "url_unescape EncodeQuery (escape_byte EncodeQuery c @ s) = map_option (Cons c) (url_unescape EncodeQuery s)"
proof (cases "shouldEscape EncodeQuery c")
  case True
  note h = nibbles [of c]
  have "char_of (16 * (byte c div 16) + byte c mod 16) = c" by simp
  then show ?thesis using True h
    by (auto simp: escape_byte_def url_unescape.simps(2) hex_val_upper escape_allowed_def)
next
  case False
  then have "c \<noteq> CHR ''%''" "c \<noteq> CHR ''+''" by (auto simp: shouldEscape_def is_alnum_def is_digit_def byte_def)
  then show ?thesis using False by (simp add: escape_byte_def url_unescape.simps)
qed

lemma unescape_escape [simp]: "url_unescape EncodeQuery (url_escape EncodeQuery s) = Some s"
  by (induction s) (simp_all add: url_escape_def url_unescape.simps(1) unescape_escape_byte)

lemma hex_digit_chars: "n < 16 \<Longrightarrow> upper_hex n \<in> set ''0123456789ABCDEF''"
  unfolding upper_hex_def by (rule nth_mem) simp

lemma escape_byte_chars: "set (escape_byte m b) \<subseteq> (if shouldEscape m b then set ''+%0123456789ABCDEF'' else {b})"
  using hex_digit_chars [OF nibbles(1), of b] hex_digit_chars [OF nibbles(2), of b] by (auto simp: escape_byte_def)

lemma url_escape_chars:
  assumes "c \<in> set ''&;=#?''"
  shows "c \<notin> set (url_escape EncodeQuery s)"
proof -
  have "list_all (\<lambda>c. shouldEscape EncodeQuery c \<and> c \<notin> set ''+%0123456789ABCDEF'') ''&;=#?''" by code_simp
  then have c: "shouldEscape EncodeQuery c" "c \<notin> set ''+%0123456789ABCDEF''"
    using assms unfolding list_all_iff by blast+
  have "c \<notin> set (escape_byte EncodeQuery b)" for b
  proof (cases "shouldEscape EncodeQuery b")
    case True
    then show ?thesis using escape_byte_chars [of EncodeQuery b] c(2) by (simp only: if_True) blast
  next
    case False
    then show ?thesis using escape_byte_chars [of EncodeQuery b] c(1) by (simp only: if_False) blast
  qed
  then show ?thesis by (simp add: url_escape_def)
qed

lemma cut_at_append: "c \<notin> set s \<Longrightarrow> cut_at c (s @ c # t) = (s, t)"
  by (induction s) (auto simp: cut_at_def)

lemma query_pair_escape: "query_pair (url_escape EncodeQuery k @ ''='' @ url_escape EncodeQuery v) = Some (k, v)"
  using url_escape_chars [of "CHR '';''"] url_escape_chars [of "CHR ''=''"]
  by (simp add: query_pair_def cut_at_append)

lemma str_split_join:
  assumes "xs \<noteq> []" "\<forall>x \<in> set xs. c \<notin> set x"
  shows "str_split c (str_join [c] xs) = xs"
  using assms
proof (induction xs)
  case (Cons x xs)
  then show ?case by (cases xs) (simp_all add: str_split_no_sep str_split_append)
qed simp

lemma ParseQuery_values_encode: "ParseQuery (values_encode ps) = Inr (sort_key fst ps)"
proof (cases "sort_key fst ps = []")
  case True
  then show ?thesis by (simp add: values_encode_def ParseQuery_def)
next
  case False
  let ?e = "\<lambda>(k, v). url_escape EncodeQuery k @ ''='' @ url_escape EncodeQuery v"
  have "str_split CHR ''&'' (values_encode ps) = List.map ?e (sort_key fst ps)"
    unfolding values_encode_def using url_escape_chars [of "CHR ''&''"] False by (intro str_split_join) auto
  moreover have "filter (\<lambda>s. s \<noteq> []) (List.map ?e qs) = List.map ?e qs" for qs by (induction qs) auto
  moreover have "List.map query_pair (List.map ?e qs) = List.map Some qs" for qs
    using query_pair_escape by (induction qs) auto
  moreover have "None \<notin> set (List.map Some qs)" "List.map the (List.map Some qs) = qs" for qs :: "(string \<times> string) list"
    by (auto simp: comp_def)
  ultimately show ?thesis by (simp only: ParseQuery_def Let_def if_False)
qed

end
