(* ===== verification/AssistedInstaller.thy ===== *)
theory AssistedInstaller
  imports Net Scaling
begin

text \<open>
  Package \<open>assistedinstaller\<close>: the InfraEnv built from a bootstrap config, the URL of the discovery
  ignition derived from the events URL of an InfraEnv, and the HTTP client with the configured CA
  bundle.

  The lemmas: the ignition URL carries the API key and the id of the InfraEnv unchanged through
  escaping, and the overrides that the control plane generates for KubeVirt are JSON that the
  InfraEnv takes over.
\<close>

record ServiceConfig =
  UseInternalImageURL :: bool
  ImageServiceName :: string
  ImageServiceNamespace :: string
  AssistedServiceName :: string
  AssistedInstallerNamespace :: string
  AssistedCABundleNamespace :: string
  AssistedCABundleName :: string
  AssistedCABundleResource :: string
  AssistedCABundleKey :: string

definition OpenshiftAssistedConfigLabel :: string where
  "OpenshiftAssistedConfigLabel = ''bootstrap.cluster.x-k8s.io/openshiftAssistedConfig''"

subsection \<open>InfraEnv\<close>

definition discovery_override :: "labels \<Rightarrow> string" where
  "discovery_override annotations = (case annotations DiscoveryIgnitionOverrideAnnotation of
     Some o' \<Rightarrow> if json_valid o' then o' else [] | None \<Rightarrow> [])"

definition GetInfraEnvFromConfig :: "string \<Rightarrow> oac \<Rightarrow> cluster_deployment \<Rightarrow> infra_env" where
  "GetInfraEnvFromConfig infraEnvName config cd = (let spec = oac_spec config; meta = oac_meta config in
     \<lparr>ie_meta = empty_meta\<lparr>m_name := infraEnvName, m_namespace := m_namespace meta,
        m_labels := (case m_labels meta ClusterNameLabel of
            Some c \<Rightarrow> [OpenshiftAssistedConfigLabel \<mapsto> m_name meta, ClusterNameLabel \<mapsto> c]
          | None \<Rightarrow> [OpenshiftAssistedConfigLabel \<mapsto> m_name meta])\<rparr>,
      ie_additionalNTPSources = oac_additionalNTPSources spec,
      ie_additionalTrustBundle = oac_additionalTrustBundle spec,
      ie_clusterRef = Some (m_name (cd_meta cd), m_namespace (cd_meta cd)),
      ie_cpuArchitecture = oac_cpuArchitecture spec,
      ie_nmStateConfigLabelSelector = oac_nmStateConfigLabelSelector spec,
      ie_osImageVersion = oac_osImageVersion spec,
      ie_proxy = oac_proxy spec,
      ie_pullSecretRef = oac_pullSecretRef spec,
      ie_sshAuthorizedKey = oac_sshAuthorizedKey spec,
      ie_imageType = ''full-iso'',
      ie_ignitionConfigOverride = discovery_override (m_annotations meta),
      ie_eventsURL = []\<rparr>)"

subsection \<open>The URL of the discovery ignition\<close>

definition GetIgnitionURLFromInfraEnv :: "ServiceConfig \<Rightarrow> infra_env \<Rightarrow> url res" where
  "GetIgnitionURLFromInfraEnv config infraEnv =
    (if ie_eventsURL infraEnv = [] then Inl (Errorf ''cannot generate ignition url if events URL is not generated'')
     else (case url_parse (ie_eventsURL infraEnv) of
       Inl e \<Rightarrow> Inl e
     | Inr advertised \<Rightarrow>
         let (name, port) = splitHostPort (u_host advertised);
             ns = (if AssistedInstallerNamespace config = [] then m_namespace (ie_meta infraEnv) else AssistedInstallerNamespace config);
             scheme = (if UseInternalImageURL config then ''http'' else u_scheme advertised);
             host = (if UseInternalImageURL config then AssistedServiceName config @ ''.'' @ ns @ ''.svc.cluster.local:8090''
               else if port = [] then name else name @ '':'' @ port) in
         (case ParseQuery (u_rawQuery advertised) of
            Inl e \<Rightarrow> Inl e
          | Inr q \<Rightarrow> (case query_get ''api_key'' q of
              [] \<Rightarrow> Inl (Errorf ''no api_key found in query string'')
            | apiKey # _ \<Rightarrow> (case query_get ''infra_env_id'' q of
                [] \<Rightarrow> Inl (Errorf ''no infra_env_id found in query string'')
              | infraEnvID # _ \<Rightarrow> Inr \<lparr>u_scheme = scheme, u_host = host,
                  u_path = ''/api/assisted-install/v2/infra-envs/'' @ infraEnvID @ ''/downloads/files'',
                  u_rawQuery = values_encode [(''file_name'', ''discovery.ign''), (''api_key'', apiKey)]\<rparr>)))))"

subsection \<open>The HTTP client\<close>

text \<open>The default client, or one that also trusts a CA bundle.\<close>

datatype http_client = DefaultHTTPClient | HTTPClientWithCA bytes

definition getBundlePEMFromConfigmap :: "'s env \<Rightarrow> string \<Rightarrow> string \<Rightarrow> string \<Rightarrow> ('s, bytes res) prog" where
  "getBundlePEMFromConfigmap E ns name certKey = do {
     r \<leftarrow> get_as E as_config_map Mgmt KConfigMap ns name;
     ret (case r of Inl e \<Rightarrow> Inl (Wrapf ''failed to get configmap'' e)
       | Inr cm \<Rightarrow> (case cm_data cm certKey of None \<Rightarrow> Inl (Errorf ''key not found in configmap'') | Some b \<Rightarrow> Inr b)) }"

definition getBundlePEMFromSecret :: "'s env \<Rightarrow> string \<Rightarrow> string \<Rightarrow> string \<Rightarrow> ('s, bytes res) prog" where
  "getBundlePEMFromSecret E ns name certKey = do {
     r \<leftarrow> get_as E as_secret Mgmt KSecret ns name;
     ret (case r of Inl e \<Rightarrow> Inl (Wrapf ''failed to get secret'' e)
       | Inr sec \<Rightarrow> (case se_data sec certKey of None \<Rightarrow> Inl (Errorf ''key not found in secret'') | Some b \<Rightarrow> Inr b)) }"

definition client_with_bundle :: "'s env \<Rightarrow> string \<Rightarrow> bytes res \<Rightarrow> http_client res" where
  "client_with_bundle E what r = (case r of
     Inl e \<Rightarrow> Inl (Wrapf (''failed to retrieve cert from '' @ what) e)
   | Inr pem \<Rightarrow> if x_append_pem E pem then Inr (HTTPClientWithCA pem) else Inl (Errorf ''failed to append additional certificates''))"

definition GetAssistedHTTPClient :: "'s env \<Rightarrow> ServiceConfig \<Rightarrow> ('s, http_client res) prog" where
  "GetAssistedHTTPClient E config =
    (let name = AssistedCABundleName config; ns = AssistedCABundleNamespace config; resource = AssistedCABundleResource config in
     if name = [] \<and> ns = [] then ret (Inr DefaultHTTPClient)
     else if name = [] \<or> ns = [] then ret (Inl (Errorf ''ASSISTED_CA_BUNDLE_NAME and ASSISTED_CA_BUNDLE_NAMESPACE must either both be set or unset''))
     else if resource \<noteq> ''secret'' \<and> resource \<noteq> ''configmap'' then ret (Inl (Errorf ''ASSISTED_CA_BUNDLE_RESOURCE must be either configmap or secret''))
     else (case x_system_cert_pool E of
       Some e \<Rightarrow> ret (Inl (Wrapf ''failed to obtain system cert pool'' e))
     | None \<Rightarrow>
         if resource = ''secret'' then do {
           r \<leftarrow> getBundlePEMFromSecret E ns name (AssistedCABundleKey config);
           ret (client_with_bundle E ''secret'' r) }
         else do {
           r \<leftarrow> getBundlePEMFromConfigmap E ns name (AssistedCABundleKey config);
           ret (client_with_bundle E ''configmap'' r) }))"

subsection \<open>Facts\<close>

lemma query_get_values:
  "ParseQuery (values_encode [(''file_name'', f), (''api_key'', k)]) = Inr [(''api_key'', k), (''file_name'', f)]"
proof -
  have "sort_key fst [(''file_name'', f), (''api_key'', k)] = [(''api_key'', k), (''file_name'', f)]"
    by (simp add: sort_key_def)
  then show ?thesis by (simp add: ParseQuery_values_encode)
qed

text \<open>
  The URL of the discovery ignition: it is built only from an events URL that has an API
  key and an InfraEnv id; whatever characters the key contains, reading the query of the URL back
  gives exactly the key and the file \<open>discovery.ign\<close>, and the id is the one of the events URL.
  With an internal service it goes to that service over HTTP on port 8090.
\<close>
theorem GetIgnitionURLFromInfraEnv_carries_key:
  assumes "GetIgnitionURLFromInfraEnv config ie = Inr u"
  shows "\<exists>adv q k i. url_parse (ie_eventsURL ie) = Inr adv \<and> ParseQuery (u_rawQuery adv) = Inr q
    \<and> k \<in> set (query_get ''api_key'' q) \<and> i \<in> set (query_get ''infra_env_id'' q)
    \<and> ParseQuery (u_rawQuery u) = Inr [(''api_key'', k), (''file_name'', ''discovery.ign'')]
    \<and> u_path u = ''/api/assisted-install/v2/infra-envs/'' @ i @ ''/downloads/files''
    \<and> (if UseInternalImageURL config then u_scheme u = ''http'' \<and> has_suffix (u_host u) ''.svc.cluster.local:8090'' else u_scheme u = u_scheme adv)"
proof -
  obtain adv where adv: "url_parse (ie_eventsURL ie) = Inr adv"
    using assms by (auto simp: GetIgnitionURLFromInfraEnv_def split: if_splits sum.splits)
  obtain name port where hp: "splitHostPort (u_host adv) = (name, port)" by force
  obtain q where q: "ParseQuery (u_rawQuery adv) = Inr q"
    using assms by (auto simp: GetIgnitionURLFromInfraEnv_def adv hp Let_def split: if_splits sum.splits)
  obtain k ks i ks' where ki: "query_get ''api_key'' q = k # ks" "query_get ''infra_env_id'' q = i # ks'"
    using assms by (auto simp: GetIgnitionURLFromInfraEnv_def adv hp q Let_def split: if_splits list.splits)
  have u: "u_rawQuery u = values_encode [(''file_name'', ''discovery.ign''), (''api_key'', k)]"
    "u_path u = ''/api/assisted-install/v2/infra-envs/'' @ i @ ''/downloads/files''"
    "if UseInternalImageURL config then u_scheme u = ''http'' \<and> has_suffix (u_host u) ''.svc.cluster.local:8090'' else u_scheme u = u_scheme adv"
    using assms by (auto simp: GetIgnitionURLFromInfraEnv_def adv hp q ki Let_def has_suffix_def has_prefix_def split: if_splits)
  then show ?thesis using adv q ki query_get_values by (intro exI [of _ adv] exI [of _ q] exI [of _ k] exI [of _ i]) simp
qed

definition demo_service :: "bool \<Rightarrow> ServiceConfig" where
  "demo_service internal = \<lparr>UseInternalImageURL = internal, ImageServiceName = ''assisted-image-service'', ImageServiceNamespace = [],
     AssistedServiceName = ''assisted-service'', AssistedInstallerNamespace = [], AssistedCABundleNamespace = [],
     AssistedCABundleName = [], AssistedCABundleResource = ''secret'', AssistedCABundleKey = ''ca.crt''\<rparr>"

definition demo_events_env :: "string \<Rightarrow> infra_env" where
  "demo_events_env events = (GetInfraEnvFromConfig ''m1'' \<lparr>oac_meta = empty_meta\<lparr>m_name := ''m1'', m_namespace := ''n''\<rparr>,
     oac_spec = empty_oac_spec, oac_status = empty_oac_status\<rparr> empty_cd)\<lparr>ie_eventsURL := events\<rparr>"

lemma demo_events_fields [simp]: "ie_eventsURL (demo_events_env e) = e" "m_namespace (ie_meta (demo_events_env e)) = ''n''"
  by (simp_all add: demo_events_env_def GetInfraEnvFromConfig_def Let_def)

lemma demo_url_parse:
  "url_parse ''https://ai.example.com:8443/api/v2/events?api_key=a%2Bb&infra_env_id=42'' =
     Inr \<lparr>u_scheme = ''https'', u_host = ''ai.example.com:8443'', u_path = ''/api/v2/events'', u_rawQuery = ''api_key=a%2Bb&infra_env_id=42''\<rparr>"
  "ParseQuery ''api_key=a%2Bb&infra_env_id=42'' = Inr [(''api_key'', ''a+b''), (''infra_env_id'', ''42'')]"
  "splitHostPort ''ai.example.com:8443'' = (''ai.example.com'', ''8443'')"
  by code_simp+

theorem GetIgnitionURLFromInfraEnv_carries_key_witness:
  "\<exists>u. GetIgnitionURLFromInfraEnv (demo_service False) (demo_events_env ''https://ai.example.com:8443/api/v2/events?api_key=a%2Bb&infra_env_id=42'') = Inr u
    \<and> ParseQuery (u_rawQuery u) = Inr [(''api_key'', ''a+b''), (''file_name'', ''discovery.ign'')] \<and> u_host u = ''ai.example.com:8443''"
proof -
  let ?ie = "demo_events_env ''https://ai.example.com:8443/api/v2/events?api_key=a%2Bb&infra_env_id=42''"
  obtain u where u: "GetIgnitionURLFromInfraEnv (demo_service False) ?ie = Inr u" "u_host u = ''ai.example.com:8443''"
    by (simp add: GetIgnitionURLFromInfraEnv_def demo_url_parse demo_service_def query_get_def)
  show ?thesis using GetIgnitionURLFromInfraEnv_carries_key [OF u(1)] u
    by (auto simp: demo_url_parse query_get_def demo_service_def)
qed

text \<open>
  A host that is an IPv6 address loses its brackets, and the URL that results is not one Go parses
  again when the request is made.
\<close>

lemma ipv6_url_broken:
  "url_parse ''https://[::1]:8443/e?api_key=k&infra_env_id=42'' =
     Inr \<lparr>u_scheme = ''https'', u_host = ''[::1]:8443'', u_path = ''/e'', u_rawQuery = ''api_key=k&infra_env_id=42''\<rparr>"
  "splitHostPort ''[::1]:8443'' = (''::1'', ''8443'')"
  "url_parse ''https://::1:8443/e'' = Inl (Errorf ''parse: invalid URL'')"
  by code_simp+

subsection \<open>Overrides of KubeVirt machines\<close>

lemma plain_ign_file: "plain (ign_file p m ow c) \<longleftrightarrow> \<bar>m\<bar> \<le> 2 ^ 53"
  by (auto simp: ign_file_def)

lemma plain_ign_parts: "\<forall>(k, v) \<in> set (ign_passwd s). plain v" "fst ` set (ign_passwd s) \<subseteq> {''passwd''}"
  "plain (snd ign_version)" "fst ign_version = ''ignition''" "distinct (List.map fst (ign_passwd s))"
  by (auto simp: ign_passwd_def ign_version_def)

lemma discovery_config_plain:
  "\<forall>(k, v) \<in> set (discovery_config s a c b d). plain v" "distinct (List.map fst (discovery_config s a c b d))"
  "fst ` set (discovery_config s a c b d) \<subseteq> {''passwd'', ''storage'', ''systemd''}"
  using plain_ign_parts(1,2,5) [of s] unfolding discovery_config_def Let_def by (auto simp: plain_ign_file)

lemma KubeVirt_overrides_valid:
  "KubeVirtDiscoveryIgnitionOverride s a c b d \<noteq> [] \<Longrightarrow> json_valid (KubeVirtDiscoveryIgnitionOverride s a c b d)"
  "json_valid (KubeVirtInstallIgnitionOverride s)"
proof -
  have v: "plain (JObj (ign_version # ps))"
    if "\<forall>(k, v) \<in> set ps. plain v" "distinct (List.map fst ps)" "''ignition'' \<notin> fst ` set ps" for ps
    using that by (simp add: ign_version_def)
  have "''ignition'' \<notin> fst ` set (discovery_config s a c b d)" using discovery_config_plain(3) [of s a c b d] by auto
  then have "plain (JObj (ign_version # discovery_config s a c b d))" by (intro v discovery_config_plain)
  then show "KubeVirtDiscoveryIgnitionOverride s a c b d \<noteq> [] \<Longrightarrow> json_valid (KubeVirtDiscoveryIgnitionOverride s a c b d)"
    unfolding KubeVirtDiscoveryIgnitionOverride_def Let_def by (metis json_text_valid)
  have "plain (JObj (ign_version # ign_passwd s @ [(''storage'', JObj [(''files'', JArr [
        ign_file ''/opt/openshift/manifests/placeholder.yaml'' 420 True placeholderManifest,
        ign_file ''/opt/openshift/openshift/placeholder.yaml'' 420 True placeholderManifest])])]))"
    using plain_ign_parts(1,2,5) [of s] by (intro v) (auto simp: plain_ign_file)
  then show "json_valid (KubeVirtInstallIgnitionOverride s)"
    unfolding KubeVirtInstallIgnitionOverride_def by (rule json_text_valid)
qed

text \<open>The discovery override that the control plane computes for its KubeVirt machines.\<close>

definition kubevirt_discovery :: "oacp \<Rightarrow> string \<Rightarrow> string \<Rightarrow> string" where
  "kubevirt_discovery ob api dns = (let cfg = sp_config (oacp_spec ob); bridge = cfg_apiVIPs cfg \<noteq> [] \<and> cfg_ingressVIPs cfg \<noteq> [] in
     KubeVirtDiscoveryIgnitionOverride (cfg_sshAuthorizedKey cfg) (if bridge then [] else api)
       (if cfg_clusterName cfg = [] then m_name (oacp_meta ob) else cfg_clusterName cfg) (cfg_baseDomain cfg)
       (if bridge then [] else if dns = [] then ''172.30.0.10'' else dns))"

lemma discovery_override_empty:
  "KubeVirtDiscoveryIgnitionOverride s a c b d = [] \<longleftrightarrow> s = [] \<and> (a = [] \<or> c = [] \<or> b = [])"
proof -
  have "json_text (JObj ps) \<noteq> []" for ps by (cases ps) auto
  then show ?thesis by (auto simp: KubeVirtDiscoveryIgnitionOverride_def discovery_config_def ign_passwd_def Let_def)
qed

text \<open>
  Claim C33. Across the two providers: on KubeVirt, when neither the control plane nor its machine
  template sets the discovery annotation, the InfraEnv that the bootstrap provider builds from the
  config that the control plane generates carries exactly the discovery override computed from the
  cluster: the SSH key, and, unless both kinds of virtual addresses are given, the files and the
  unit that point the node at the API service and the name server. The override is valid JSON, so it is never
  dropped, and it is empty only when there is neither an SSH key nor a complete API name to write.
\<close>
theorem KubeVirt_override_reaches_InfraEnv:
  assumes "isKubeVirtInfra cl"
    and "(m_annotations (oacp_meta ob) ++ mt_annotations (sp_machineTemplate (oacp_spec ob))) DiscoveryIgnitionOverrideAnnotation = None"
  shows "let c = generateOpenshiftAssistedConfig E ob cn name api dns cl; o' = kubevirt_discovery ob api dns in
    ie_ignitionConfigOverride (GetInfraEnvFromConfig n c cd) = o' \<and>
    m_annotations (oac_meta c) DiscoveryIgnitionOverrideAnnotation = (if o' = [] then None else Some o') \<and>
    (if o' = [] then cfg_sshAuthorizedKey (sp_config (oacp_spec ob)) = [] else json_valid o')"
proof -
  let ?c = "generateOpenshiftAssistedConfig E ob cn name api dns cl" and ?o = "kubevirt_discovery ob api dns"
  have neq: "DataAnnotation \<noteq> DiscoveryIgnitionOverrideAnnotation" "IgnitionOverrideAnnotation \<noteq> DiscoveryIgnitionOverrideAnnotation"
    by (simp_all add: DataAnnotation_def DiscoveryIgnitionOverrideAnnotation_def IgnitionOverrideAnnotation_def)
  have none: "((m_annotations (oacp_meta ob))(DataAnnotation := None) ++ mt_annotations (sp_machineTemplate (oacp_spec ob)))
      DiscoveryIgnitionOverrideAnnotation = None"
    using assms(2) neq by (auto simp: map_add_def split: option.splits)
  have ann: "m_annotations (oac_meta ?c) DiscoveryIgnitionOverrideAnnotation = (if ?o = [] then None else Some ?o)"
    using assms(1) none neq unfolding generateOpenshiftAssistedConfig_def kubevirt_annotations_def default_annotation_def add_owner_def Let_def
      kubevirt_discovery_def IsBridgeNetworking_def by auto
  have valid: "?o \<noteq> [] \<Longrightarrow> json_valid ?o" "?o = [] \<Longrightarrow> cfg_sshAuthorizedKey (sp_config (oacp_spec ob)) = []"
    by (simp_all add: kubevirt_discovery_def Let_def KubeVirt_overrides_valid discovery_override_empty)
  show ?thesis
    using ann valid by (simp add: Let_def GetInfraEnvFromConfig_def discovery_override_def)
qed

definition demo_kv_cluster :: cluster where
  "demo_kv_cluster = empty_cluster\<lparr>cl_infrastructureRef := empty_ref\<lparr>cr_kind := ''KubevirtCluster''\<rparr>\<rparr>"

definition demo_kv_control_plane :: oacp where
  "demo_kv_control_plane = empty_oacp\<lparr>oacp_spec := (oacp_spec empty_oacp)\<lparr>sp_config := empty_config\<lparr>cfg_sshAuthorizedKey := ''k''\<rparr>\<rparr>\<rparr>"

theorem KubeVirt_override_reaches_InfraEnv_witness:
  "ie_ignitionConfigOverride (GetInfraEnvFromConfig ''m'' (generateOpenshiftAssistedConfig (nowhere :: unit env) demo_kv_control_plane
     ''cl'' ''m'' [] [] demo_kv_cluster) empty_cd) = KubeVirtDiscoveryIgnitionOverride ''k'' [] [] [] ''172.30.0.10'' \<and>
   KubeVirtDiscoveryIgnitionOverride ''k'' [] [] [] ''172.30.0.10'' \<noteq> []"
proof -
  have kv: "isKubeVirtInfra demo_kv_cluster" by (simp add: isKubeVirtInfra_def IsKubeVirtPlatform_def demo_kv_cluster_def)
  have none: "(m_annotations (oacp_meta demo_kv_control_plane) ++ mt_annotations (sp_machineTemplate (oacp_spec demo_kv_control_plane)))
      DiscoveryIgnitionOverrideAnnotation = None"
    by (simp add: demo_kv_control_plane_def empty_oacp_def empty_meta_def empty_template_def)
  have "kubevirt_discovery demo_kv_control_plane [] [] = KubeVirtDiscoveryIgnitionOverride ''k'' [] [] [] ''172.30.0.10''"
    by (simp add: kubevirt_discovery_def demo_kv_control_plane_def empty_oacp_def empty_config_def empty_meta_def)
  then show ?thesis
    using KubeVirt_override_reaches_InfraEnv [OF kv none, where E = "nowhere :: unit env" and cn = "''cl''" and name = "''m''" and api = "[]" and dns = "[]"
        and n = "''m''" and cd = empty_cd]
    by (simp add: Let_def discovery_override_empty)
qed

end
