(* ===== verification/BootstrapConfig.thy ===== *)
theory BootstrapConfig
  imports AgentController AssistedInstaller
begin

text \<open>
  The bootstrap config controller (\<open>bootstrap/internal/controller/openshiftassistedconfig_controller.go\<close>):
  it creates the InfraEnv of a machine, fetches the discovery ignition, merges the components of
  the node into it and publishes it as the bootstrap data secret; on deletion it removes the
  InfraEnv and then its finalizer. The object is changed in place and patched when the pass ends;
  the model passes it along.

  The reconciler keeps an HTTP client it creates once (\<open>br_httpClient\<close>). Of the messages of
  conditions the fixed part is kept.
\<close>

subsection \<open>Conditions of the v1beta1 contract\<close>

definition v1_less_key :: "v1_condition \<Rightarrow> bool \<times> string" where
  "v1_less_key c = (vc_type c \<noteq> ''Ready'', vc_type c)"

fun v1_replace :: "v1_condition \<Rightarrow> v1_condition list \<Rightarrow> v1_condition list" where
  "v1_replace c [] = [c]"
| "v1_replace c (x # xs) = (if vc_type x = vc_type c then c # xs else x # v1_replace c xs)"

definition v1_Set :: "v1_condition \<Rightarrow> v1_condition list \<Rightarrow> v1_condition list" where
  "v1_Set c cs = sort_key v1_less_key (v1_replace c cs)"

definition put_v1_conditions :: "(v1_condition list \<Rightarrow> v1_condition list) \<Rightarrow> oac \<Rightarrow> oac" where
  "put_v1_conditions f ob = ob\<lparr>oac_status := (oac_status ob)\<lparr>oacs_v1beta1Conditions := f (oacs_v1beta1Conditions (oac_status ob))\<rparr>\<rparr>"

definition MarkTrue :: "string \<Rightarrow> oac \<Rightarrow> oac" where
  "MarkTrue t = put_v1_conditions (v1_Set \<lparr>vc_type = t, vc_status = CTrue, vc_severity = [], vc_reason = [], vc_message = []\<rparr>)"

definition MarkFalse :: "string \<Rightarrow> string \<Rightarrow> string \<Rightarrow> string \<Rightarrow> oac \<Rightarrow> oac" where
  "MarkFalse t reason severity message =
     put_v1_conditions (v1_Set \<lparr>vc_type = t, vc_status = CFalse, vc_severity = severity, vc_reason = reason, vc_message = message\<rparr>)"

definition SetSummary :: "'s env \<Rightarrow> string list \<Rightarrow> oac \<Rightarrow> oac" where
  "SetSummary E ts = put_v1_conditions (\<lambda>cs. case x_summary_v1 E ts cs of None \<Rightarrow> cs | Some c \<Rightarrow> v1_Set c cs)"

definition DataSecretAvailableCondition :: string where "DataSecretAvailableCondition = ''DataSecretAvailable''"

definition waiting :: "string \<Rightarrow> string \<Rightarrow> oac \<Rightarrow> oac" where
  "waiting reason severity = MarkFalse DataSecretAvailableCondition reason severity []"

subsection \<open>Owners\<close>

definition bootstrapGroup :: string where "bootstrapGroup = ''bootstrap.cluster.x-k8s.io''"
definition openshiftAssistedConfigKind :: string where "openshiftAssistedConfigKind = ''OpenshiftAssistedConfig''"
definition openshiftAssistedConfigFinalizer :: string where
  "openshiftAssistedConfigFinalizer = ''openshiftassistedconfig.bootstrap.cluster.x-k8s.io/deprovision''"

text \<open>\<open>bsutil.ConfigOwner\<close>: a machine or a machine pool.\<close>

record config_owner =
  co_namespace :: string
  co_clusterName :: string
  co_deleting :: bool

definition owner_of_machine :: "machine \<Rightarrow> config_owner" where
  "owner_of_machine m = \<lparr>co_namespace = m_namespace (mc_meta m), co_clusterName = mc_clusterName m,
     co_deleting = (m_deletionTimestamp (mc_meta m) \<noteq> None)\<rparr>"

definition owner_of_pool :: "json \<Rightarrow> config_owner" where
  "owner_of_pool j = \<lparr>co_namespace = nested_string [''metadata'', ''namespace''] j, co_clusterName = nested_string [''spec'', ''clusterName''] j,
     co_deleting = (nested_string [''metadata'', ''deletionTimestamp''] j \<noteq> [])\<rparr>"

fun config_owner_refs :: "'s env \<Rightarrow> string \<Rightarrow> owner_ref list \<Rightarrow> ('s, config_owner option res) prog" where
  "config_owner_refs E ns [] = ret (Inr None)"
| "config_owner_refs E ns (r # rs) = (case ParseGroupVersion (or_apiVersion r) of
     None \<Rightarrow> ret (Inl (Errorf ''failed to parse GroupVersion''))
   | Some (g, _) \<Rightarrow>
       if g = ''cluster.x-k8s.io'' \<and> or_kind r = ''Machine'' then do {
         x \<leftarrow> get_as E as_machine Mgmt KMachine ns (or_name r);
         ret (map_sum id (\<lambda>m. Some (owner_of_machine m)) x) }
       else if g = ''cluster.x-k8s.io'' \<and> or_kind r = ''MachinePool'' \<and> x_machine_pools E then do {
         x \<leftarrow> get_as E as_unstructured Mgmt (KUnstructured ''cluster.x-k8s.io'' ''v1beta2'' ''MachinePool'') ns (or_name r);
         ret (map_sum id (\<lambda>p. Some (owner_of_pool p)) x) }
       else config_owner_refs E ns rs)"

definition GetTypedConfigOwner :: "'s env \<Rightarrow> object_meta \<Rightarrow> ('s, config_owner option res) prog" where
  "GetTypedConfigOwner E m = config_owner_refs E (m_namespace m) (m_ownerReferences m)"

fun owner_machine_refs :: "'s env \<Rightarrow> string \<Rightarrow> owner_ref list \<Rightarrow> ('s, machine option res) prog" where
  "owner_machine_refs E ns [] = ret (Inr None)"
| "owner_machine_refs E ns (r # rs) = (case ParseGroupVersion (or_apiVersion r) of
     None \<Rightarrow> ret (Inl (Errorf ''unexpected GroupVersion string''))
   | Some (g, _) \<Rightarrow>
       if or_kind r = ''Machine'' \<and> g = ''cluster.x-k8s.io'' then do {
         x \<leftarrow> get_as E as_machine Mgmt KMachine ns (or_name r);
         ret (map_sum id Some x) }
       else owner_machine_refs E ns rs)"

definition GetOwnerMachine :: "'s env \<Rightarrow> object_meta \<Rightarrow> ('s, machine option res) prog" where
  "GetOwnerMachine E m = owner_machine_refs E (m_namespace m) (m_ownerReferences m)"

definition GetClusterByName :: "'s env \<Rightarrow> string \<Rightarrow> string \<Rightarrow> ('s, cluster res) prog" where
  "GetClusterByName E ns name = do {
     r \<leftarrow> get_as E as_cluster Mgmt KCluster ns name;
     ret (map_sum (Wrapf ''failed to get Cluster'') id r) }"

definition oac_owner_ref :: "oac \<Rightarrow> owner_ref" where
  "oac_owner_ref c = \<lparr>or_apiVersion = bootstrapGroup @ ''/v1alpha2'', or_kind = openshiftAssistedConfigKind,
     or_name = m_name (oac_meta c), or_uid = m_uid (oac_meta c), or_controller = None\<rparr>"

definition machine_owner_ref :: "machine \<Rightarrow> owner_ref" where
  "machine_owner_ref m = \<lparr>or_apiVersion = ''cluster.x-k8s.io/v1beta2'', or_kind = ''Machine'',
     or_name = m_name (mc_meta m), or_uid = m_uid (mc_meta m), or_controller = None\<rparr>"

subsection \<open>Child resources\<close>

definition getInfraEnvName :: "machine \<Rightarrow> string" where
  "getInfraEnvName m = m_name (mc_meta m)"

definition getInfraEnv :: "'s env \<Rightarrow> machine \<Rightarrow> ('s, infra_env res) prog" where
  "getInfraEnv E m = get_as E as_infra_env Mgmt KInfraEnv (m_namespace (mc_meta m)) (getInfraEnvName m)"

definition createPullsecretSecret :: "'s env \<Rightarrow> oac \<Rightarrow> ('s, secret res) prog" where
  "createPullsecretSecret E config =
    (let sec = GenerateFakePullSecret [] (m_namespace (oac_meta config)) in
     if \<not> owner_allowed (oac_meta config) (se_meta sec) then ret (Inl (Errorf ''cross-namespace owner references are disallowed''))
     else let sec' = sec\<lparr>se_meta := add_owner (oac_owner_ref config) (se_meta sec)\<rparr> in do {
       r \<leftarrow> kcreate E Mgmt (OSecret sec');
       ret (case err_of r of Some e \<Rightarrow> if is_already_exists e then Inr sec' else Inl e | None \<Rightarrow> Inr sec') })"

text \<open>The object that a create call hands back: the answer of the API server.\<close>

definition created_or :: "infra_env \<Rightarrow> kobj res \<Rightarrow> infra_env" where
  "created_or ie r = (case decode as_infra_env r of Inr ie' \<Rightarrow> ie' | Inl _ \<Rightarrow> ie)"

definition owned_infra_env :: "oac \<Rightarrow> machine \<Rightarrow> infra_env \<Rightarrow> infra_env" where
  "owned_infra_env config m ie = ie\<lparr>ie_meta := try_owner (mc_meta m) (machine_owner_ref m)
     (try_owner (oac_meta config) (oac_owner_ref config) (ie_meta ie))\<rparr>"

definition create_infra_env :: "'s env \<Rightarrow> oac \<Rightarrow> machine \<Rightarrow> infra_env \<Rightarrow> ('s, infra_env res) prog" where
  "create_infra_env E config m ie = (let ie' = owned_infra_env config m ie in do {
     r \<leftarrow> kcreate E Mgmt (OInfraEnv ie');
     ret (case err_of r of
        Some e \<Rightarrow> if is_already_exists e then Inr ie' else Inl e
      | None \<Rightarrow> Inr (created_or ie' r)) })"

definition ensureInfraEnv :: "'s env \<Rightarrow> oac \<Rightarrow> machine \<Rightarrow> cluster_deployment \<Rightarrow> ('s, infra_env res) prog" where
  "ensureInfraEnv E config m cd = (let infraEnvName = getInfraEnvName m in
     if infraEnvName = [] then ret (Inl (Errorf ''no infraenv name for machine''))
     else do {
       r \<leftarrow> get_as E as_infra_env Mgmt KInfraEnv (m_namespace (oac_meta config)) infraEnvName;
       case r of
         Inr ie \<Rightarrow> ret (Inr ie)
       | Inl e \<Rightarrow>
           if \<not> is_not_found e then ret (Inl e)
           else (let infraEnv = GetInfraEnvFromConfig infraEnvName config cd in
             if ie_pullSecretRef infraEnv = None then do {
               s \<leftarrow> createPullsecretSecret E config;
               case s of
                 Inl e \<Rightarrow> ret (Inl e)
               | Inr sec \<Rightarrow> create_infra_env E config m (infraEnv\<lparr>ie_pullSecretRef := Some (m_name (se_meta sec))\<rparr>) }
             else create_infra_env E config m infraEnv) })"

definition getAgentClusterInstall :: "'s env \<Rightarrow> cluster_deployment \<Rightarrow> ('s, aci res) prog" where
  "getAgentClusterInstall E cd = (case cd_installRef cd of
     None \<Rightarrow> ret (Inl (Errorf ''cluster deployment does not reference ACI''))
   | Some (_, _, _, name) \<Rightarrow> get_as E as_aci Mgmt KACI (m_namespace (cd_meta cd)) name)"

definition getClusterDeployment :: "'s env \<Rightarrow> string \<Rightarrow> ('s, cluster_deployment res) prog" where
  "getClusterDeployment E clusterName = do {
     r \<leftarrow> list_as E as_cluster_deployment Mgmt KClusterDeployment \<lparr>lo_namespace = [], lo_labels = [(ClusterNameLabel, clusterName)]\<rparr>;
     ret (case r of
       Inl e \<Rightarrow> Inl e
     | Inr [cd] \<Rightarrow> Inr cd
     | Inr _ \<Rightarrow> Inl (Errorf ''found more or less than 1 cluster deployments. exactly one is needed'')) }"

definition user_data_secret :: "oac \<Rightarrow> bytes \<Rightarrow> secret" where
  "user_data_secret config ignition = \<lparr>
     se_meta = add_owner (oac_owner_ref config) (empty_meta\<lparr>m_name := m_name (oac_meta config), m_namespace := m_namespace (oac_meta config)\<rparr>),
     se_type = ''cluster.x-k8s.io/secret'',
     se_data = [''value'' \<mapsto> ignition, ''format'' \<mapsto> ''ignition'']\<rparr>"

text \<open>\<open>getSecretObjectKey\<close> is the key of the config.\<close>

definition get_data_secret :: "'s env \<Rightarrow> oac \<Rightarrow> ('s, secret res) prog" where
  "get_data_secret E config = get_as E as_secret Mgmt KSecret (m_namespace (oac_meta config)) (m_name (oac_meta config))"

definition createUserDataSecret :: "'s env \<Rightarrow> oac \<Rightarrow> bytes \<Rightarrow> ('s, secret res) prog" where
  "createUserDataSecret E config ignition = do {
     r \<leftarrow> get_data_secret E config;
     case r of
       Inr sec \<Rightarrow> ret (Inr sec)
     | Inl e \<Rightarrow>
         if \<not> is_not_found e then ret (Inl e)
         else do {
           c \<leftarrow> kcreate E Mgmt (OSecret (user_data_secret config ignition));
           ret (case err_of c of Some e \<Rightarrow> Inl e | None \<Rightarrow> Inr (user_data_secret config ignition)) } }"

subsection \<open>Fetching the ignition\<close>

record boot_reconciler =
  br_config :: ServiceConfig
  br_httpClient :: "http_client option"
  br_hasFactory :: bool

definition getHTTPClient :: "'s env \<Rightarrow> boot_reconciler \<Rightarrow> ('s, http_client res \<times> boot_reconciler) prog" where
  "getHTTPClient E rc = (case br_httpClient rc of
     Some c \<Rightarrow> ret (Inr c, rc)
   | None \<Rightarrow>
       if \<not> br_hasFactory rc then ret (Inl (Errorf ''HTTPClientFactory is not set''), rc)
       else do {
         r \<leftarrow> GetAssistedHTTPClient E (br_config rc);
         case r of Inl e \<Rightarrow> ret (Inl e, rc) | Inr c \<Rightarrow> ret (Inr c, rc\<lparr>br_httpClient := Some c\<rparr>) })"

definition getIgnitionBytes :: "'s env \<Rightarrow> boot_reconciler \<Rightarrow> url \<Rightarrow> ('s, bytes res \<times> boot_reconciler) prog" where
  "getIgnitionBytes E rc u = (case url_parse (url_string u) of
     Inl e \<Rightarrow> ret (Inl e, rc)
   | Inr _ \<Rightarrow> do {
       (r, rc') \<leftarrow> getHTTPClient E rc;
       case r of
         Inl e \<Rightarrow> ret (Inl (Wrapf ''failed to create HTTP client'' e), rc')
       | Inr _ \<Rightarrow> do {
           resp \<leftarrow> http_get E (url_string u);
           ret (case resp of
              Inl e \<Rightarrow> Inl e
            | Inr a \<Rightarrow> if hr_status a \<noteq> 200 then Inl (Errorf ''ignition request returned unexpected status'') else hr_body a, rc') } })"

definition getIgnition :: "'s env \<Rightarrow> boot_reconciler \<Rightarrow> infra_env \<Rightarrow> ('s, bytes res \<times> boot_reconciler) prog" where
  "getIgnition E rc ie = (case GetIgnitionURLFromInfraEnv (br_config rc) ie of
     Inl e \<Rightarrow> ret (Inl (Wrapf ''error while retrieving ignitionURL'' e), rc)
   | Inr u \<Rightarrow> getIgnitionBytes E rc u)"

subsection \<open>One pass\<close>

definition isInfrastructureProvisioned_bootstrap :: "cluster \<Rightarrow> bool" where
  "isInfrastructureProvisioned_bootstrap cl = (case cl_infrastructureProvisioned cl of Some b \<Rightarrow> b | None \<Rightarrow> False)"

definition isDay0WorkerState :: "aci \<Rightarrow> cluster \<Rightarrow> bool" where
  "isDay0WorkerState ac cl \<longleftrightarrow> ac_state ac \<in> {''pending-for-input'', ''insufficient'', ''adding-hosts'', []} \<or>
     IsKubeVirtPlatform (Some cl) \<and> ac_state ac = ''ready''"

definition IsControlPlaneMachine :: "machine \<Rightarrow> bool" where
  "IsControlPlaneMachine m \<longleftrightarrow> MachineControlPlaneLabel \<in> dom (m_labels (mc_meta m))"

text \<open>The InfraEnv when there is one; otherwise what the pass returns.\<close>

definition reconcileAssistedResources :: "'s env \<Rightarrow> oac \<Rightarrow> cluster \<Rightarrow> machine \<Rightarrow>
    ('s, oac \<times> (ctrl_result \<times> goerr option, infra_env) sum) prog" where
  "reconcileAssistedResources E config cl m = do {
     cdr \<leftarrow> getClusterDeployment E (m_name (cl_meta cl));
     case cdr of
       Inl _ \<Rightarrow> ret (waiting ''WaitingForAssistedInstaller'' ''Info'' config, Inl (requeue_now_after 0, None))
     | Inr cd \<Rightarrow> do {
         acr \<leftarrow> getAgentClusterInstall E cd;
         case acr of
           Inl _ \<Rightarrow> ret (waiting ''WaitingForAssistedInstaller'' ''Info'' config, Inl (requeue_now_after 0, None))
         | Inr ac \<Rightarrow>
             if \<not> IsControlPlaneMachine m \<and> \<not> isDay0WorkerState ac cl then
               ret (waiting ''WaitingForInstallComplete'' ''Info'' config, Inl (requeue_now_after 60, None))
             else do {
               ier \<leftarrow> ensureInfraEnv E config m cd;
               case ier of
                 Inl e \<Rightarrow> ret (waiting ''InfraEnvFailed'' ''Warning'' config, Inl (result_zero, Some e))
               | Inr ie \<Rightarrow> ret (config, Inr ie) } } }"

definition discovery_options :: "oac \<Rightarrow> IgnitionOptions" where
  "discovery_options config = \<lparr>NodeNameEnvVar = nr_name (oac_nodeRegistration (oac_spec config)), PreBootstrapCommands = [],
     PostBootstrapCommands = [], SentinelDirectory = oac_bootstrapCommandSentinelDir (oac_spec config),
     KubeconfigPath = oac_postBootstrapKubeconfigPath (oac_spec config), ProviderID = [], KubeletCustomLabelsFile = None\<rparr>"

definition discovery_ignition :: "'s env \<Rightarrow> oac \<Rightarrow> bytes \<Rightarrow> bytes res" where
  "discovery_ignition E config ignition = (case MergeIgnitionConfig E ignition (discovery_options config) of
     Inl e \<Rightarrow> Inl e | Inr i \<Rightarrow> MergeDiscoveryIgnitionConfig E i)"

type_synonym pass = "oac \<times> boot_reconciler \<times> ctrl_result \<times> goerr option"

definition publish_ignition :: "'s env \<Rightarrow> boot_reconciler \<Rightarrow> oac \<Rightarrow> infra_env \<Rightarrow> ('s, pass) prog" where
  "publish_ignition E rc config ie =
    (if ie_eventsURL ie = [] then
       ret (waiting ''WaitingForInfraEnvToBeReady'' ''Info'' config, rc, result_zero, Some (Errorf ''infraenv not ready: eventsURL not generated yet''))
     else do {
       (r, rc') \<leftarrow> getIgnition E rc ie;
       case r of
         Inl e \<Rightarrow> ret (MarkFalse DataSecretAvailableCondition ''WaitingForAssistedInstaller'' ''Info'' ''failed retrieving ignition'' config,
             rc', requeue_now_after 20, Some e)
       | Inr ignition \<Rightarrow> (case discovery_ignition E config ignition of
           Inl e \<Rightarrow> ret (config, rc', result_zero, Some e)
         | Inr merged \<Rightarrow> do {
             s \<leftarrow> createUserDataSecret E config merged;
             ret (case s of
               Inl e \<Rightarrow> (waiting ''CreatingSecretFailed'' ''Warning'' config, rc', result_zero, Some e)
             | Inr sec \<Rightarrow> (MarkTrue DataSecretAvailableCondition (config\<lparr>oac_status := (oac_status config)\<lparr>
                   oacs_dataSecretCreated := Some True, oacs_dataSecretName := m_name (se_meta sec)\<rparr>\<rparr>), rc', result_zero, None)) }) })"

definition ensure_data_secret :: "'s env \<Rightarrow> boot_reconciler \<Rightarrow> oac \<Rightarrow> infra_env \<Rightarrow> ('s, pass) prog" where
  "ensure_data_secret E rc config ie =
    (if oacs_dataSecretCreated (oac_status config) = Some True then do {
       s \<leftarrow> get_data_secret E config;
       case s of
         Inr _ \<Rightarrow> ret (config, rc, result_zero, None)
       | Inl e \<Rightarrow>
           if is_not_found e then
             publish_ignition E rc (config\<lparr>oac_status := (oac_status config)\<lparr>oacs_dataSecretCreated := None\<rparr>\<rparr>) ie
           else ret (config, rc, result_zero, Some e) }
     else publish_ignition E rc config ie)"

definition handleDeletion_config :: "'s env \<Rightarrow> oac \<Rightarrow> config_owner \<Rightarrow> machine \<Rightarrow> ('s, oac \<times> goerr option) prog" where
  "handleDeletion_config E config owner m =
    (if \<not> ContainsFinalizer (oac_meta config) openshiftAssistedConfigFinalizer then ret (config, None)
     else if MachineControlPlaneLabel \<in> dom (m_labels (oac_meta config)) \<and> \<not> co_deleting owner then
       ret (config, Some (Errorf ''agent bootstrap config belongs to control plane that's not being deleted''))
     else do {
       r \<leftarrow> getInfraEnv E m;
       let released = (config\<lparr>oac_meta := RemoveFinalizer openshiftAssistedConfigFinalizer (oac_meta config)\<rparr>, None :: goerr option);
       case r of
         Inl e \<Rightarrow> if is_not_found e then ret released else ret (config, Some e)
       | Inr ie \<Rightarrow> do {
           d \<leftarrow> kdelete E Mgmt (OInfraEnv ie);
           case d of
             Some e \<Rightarrow> if is_not_found e then ret released else ret (config, Some e)
           | None \<Rightarrow> ret released } })"

fun root_cause :: "goerr \<Rightarrow> goerr" where
  "root_cause (Wrapf _ e) = root_cause e" | "root_cause e = e"

definition reconcile_config :: "'s env \<Rightarrow> boot_reconciler \<Rightarrow> oac \<Rightarrow> config_owner \<Rightarrow> machine \<Rightarrow> ('s, pass) prog" where
  "reconcile_config E rc config0 owner m =
    (let config = config0\<lparr>oac_meta := AddFinalizer openshiftAssistedConfigFinalizer (oac_meta config0)\<rparr> in do {
       clr \<leftarrow> GetClusterByName E (co_namespace owner) (co_clusterName owner);
       case clr of
         Inl e \<Rightarrow> if root_cause e = Sentinel ''ErrNoCluster'' \<or> is_not_found e then ret (config, rc, result_zero, None)
             else ret (config, rc, result_zero, Some e)
       | Inr cl \<Rightarrow>
           if \<not> isInfrastructureProvisioned_bootstrap cl then
             ret (waiting ''WaitingForClusterInfrastructure'' ''Info'' config, rc, requeue_now_after 60, None)
           else do {
             (config', r) \<leftarrow> reconcileAssistedResources E config cl m;
             case r of
               Inl (res, err) \<Rightarrow> ret (config', rc, res, err)
             | Inr ie \<Rightarrow> ensure_data_secret E rc config' ie } })"

definition bootstrap_body :: "'s env \<Rightarrow> boot_reconciler \<Rightarrow> oac \<Rightarrow> ('s, pass) prog" where
  "bootstrap_body E rc config = do {
     ownr \<leftarrow> GetTypedConfigOwner E (oac_meta config);
     case ownr of
       Inl e \<Rightarrow> if is_not_found e then ret (config, rc, result_zero, None)
           else ret (config, rc, result_zero, Some (Wrapf ''failed to get owner'' e))
     | Inr None \<Rightarrow> ret (config, rc, result_zero, None)
     | Inr (Some owner) \<Rightarrow> do {
         mr \<leftarrow> GetOwnerMachine E (oac_meta config);
         case mr of
           Inl e \<Rightarrow> ret (config, rc, result_zero, Some e)
         | Inr None \<Rightarrow> ret (config, rc, result_zero, None)
         | Inr (Some m) \<Rightarrow>
             if m_deletionTimestamp (oac_meta config) \<noteq> None then do {
               (config', err) \<leftarrow> handleDeletion_config E config owner m;
               ret (config', rc, result_zero, err) }
             else reconcile_config E rc config owner m } }"

definition BootstrapReconcile :: "'s env \<Rightarrow> boot_reconciler \<Rightarrow> string \<Rightarrow> string \<Rightarrow> ('s, boot_reconciler \<times> ctrl_result \<times> goerr option) prog" where
  "BootstrapReconcile E rc ns name = do {
     r \<leftarrow> get_as E as_oac Mgmt KOAC ns name;
     case r of
       Inl e \<Rightarrow> ret (rc, result_zero, ignore_not_found e)
     | Inr config \<Rightarrow> (case k_new_helper E (OOAC config) of
         Some e \<Rightarrow> ret (rc, result_zero, Some e)
       | None \<Rightarrow> do {
           (config', rc', res, rerr) \<leftarrow> bootstrap_body E rc config;
           p \<leftarrow> khelper_patch E (OOAC config) (OOAC (SetSummary E [DataSecretAvailableCondition] config')) (rerr = None);
           ret (rc', res, case p of None \<Rightarrow> rerr | Some e \<Rightarrow> new_aggregate (the_errors [rerr, Some e])) }) }"

subsection \<open>Watches\<close>

definition FilterInfraEnv :: "infra_env \<Rightarrow> (string \<times> string) list" where
  "FilterInfraEnv ie = (case List.find (\<lambda>r. group_of (or_apiVersion r) = bootstrapGroup \<and> or_kind r = openshiftAssistedConfigKind)
       (m_ownerReferences (ie_meta ie)) of
     None \<Rightarrow> [] | Some r \<Rightarrow> [(m_namespace (ie_meta ie), or_name r)])"

definition isOpenshiftAssistedConfig :: "contract_ref \<Rightarrow> bool" where
  "isOpenshiftAssistedConfig ref \<longleftrightarrow> ref_IsDefined ref \<and> cr_apiGroup ref = bootstrapGroup \<and> cr_kind ref = openshiftAssistedConfigKind"

definition FilterMachine :: "kobj \<Rightarrow> (string \<times> string) list" where
  "FilterMachine ob = (case as_machine ob of
     None \<Rightarrow> []
   | Some m \<Rightarrow> if isOpenshiftAssistedConfig (mc_bootstrapConfigRef m)
       then [(m_namespace (mc_meta m), cr_name (mc_bootstrapConfigRef m))] else [])"

subsection \<open>What marking keeps\<close>

lemma put_v1_keeps [simp]:
  "oac_meta (put_v1_conditions f c) = oac_meta c" "oac_spec (put_v1_conditions f c) = oac_spec c"
  "oacs_dataSecretCreated (oac_status (put_v1_conditions f c)) = oacs_dataSecretCreated (oac_status c)"
  "oacs_dataSecretName (oac_status (put_v1_conditions f c)) = oacs_dataSecretName (oac_status c)"
  by (simp_all add: put_v1_conditions_def)

lemma mark_keeps [simp]:
  "oac_meta (waiting r s c) = oac_meta c" "oac_spec (waiting r s c) = oac_spec c" "oacs_dataSecretCreated (oac_status (waiting r s c)) = oacs_dataSecretCreated (oac_status c)"
  "oac_meta (MarkFalse t r s msg c) = oac_meta c" "oac_spec (MarkFalse t r s msg c) = oac_spec c"
  "oacs_dataSecretCreated (oac_status (MarkFalse t r s msg c)) = oacs_dataSecretCreated (oac_status c)"
  "oac_meta (MarkTrue t c) = oac_meta c" "oac_spec (MarkTrue t c) = oac_spec c"
  "oacs_dataSecretCreated (oac_status (MarkTrue t c)) = oacs_dataSecretCreated (oac_status c)"
  "oacs_dataSecretName (oac_status (MarkTrue t c)) = oacs_dataSecretName (oac_status c)"
  "oac_meta (SetSummary E ts c) = oac_meta c" "oac_spec (SetSummary E ts c) = oac_spec c"
  "oacs_dataSecretCreated (oac_status (SetSummary E ts c)) = oacs_dataSecretCreated (oac_status c)"
  "oacs_dataSecretName (oac_status (SetSummary E ts c)) = oacs_dataSecretName (oac_status c)"
  by (simp_all add: waiting_def MarkFalse_def MarkTrue_def SetSummary_def)

lemma finalizer_meta [simp]:
  "m_name (AddFinalizer f m) = m_name m" "m_namespace (AddFinalizer f m) = m_namespace m" "m_uid (AddFinalizer f m) = m_uid m"
  "m_deletionTimestamp (AddFinalizer f m) = m_deletionTimestamp m" "m_labels (AddFinalizer f m) = m_labels m"
  "m_annotations (AddFinalizer f m) = m_annotations m" "set (m_finalizers (AddFinalizer f m)) = insert f (set (m_finalizers m))"
  by (auto simp: AddFinalizer_def)

subsection \<open>Published secrets\<close>

text \<open>The ignition in the secret comes from an answer of the assisted service in this pass.\<close>

definition fetched :: "'s env \<Rightarrow> oac \<Rightarrow> event list \<Rightarrow> bytes \<Rightarrow> bool" where
  "fetched E config evs ign \<longleftrightarrow> (\<exists>u resp b. EvHttpGet u (Inr resp) \<in> set evs \<and> hr_status resp = 200 \<and> hr_body resp = Inr b
     \<and> discovery_ignition E config b = Inr ign)"

definition secret_seen :: "'s env \<Rightarrow> oac \<Rightarrow> event list \<Rightarrow> secret \<Rightarrow> bool" where
  "secret_seen E config evs sec \<longleftrightarrow>
     EvGet Mgmt KSecret (m_namespace (oac_meta config)) (m_name (oac_meta config)) (Inr (OSecret sec)) \<in> set evs \<or>
     (\<exists>ign a. sec = user_data_secret config ign \<and> fetched E config evs ign \<and> EvCreate Mgmt (OSecret sec) (Inr a) \<in> set evs)"

definition published :: "'s env \<Rightarrow> oac \<Rightarrow> event list \<Rightarrow> string \<Rightarrow> bool" where
  "published E config evs name \<longleftrightarrow> (\<exists>sec. m_name (se_meta sec) = name \<and> secret_seen E config evs sec)"

definition same_object :: "oac \<Rightarrow> oac \<Rightarrow> bool" where
  "same_object c d \<longleftrightarrow> oac_spec c = oac_spec d \<and> m_name (oac_meta c) = m_name (oac_meta d) \<and> m_namespace (oac_meta c) = m_namespace (oac_meta d)
     \<and> m_uid (oac_meta c) = m_uid (oac_meta d)"

lemma same_object_refl [simp]: "same_object c c"
  by (simp add: same_object_def)

lemma user_data_secret_same: "same_object c d \<Longrightarrow> user_data_secret c ign = user_data_secret d ign"
  by (simp add: same_object_def user_data_secret_def oac_owner_ref_def)

lemma discovery_ignition_same: "same_object c d \<Longrightarrow> discovery_ignition E c b = discovery_ignition E d b"
  by (simp add: same_object_def discovery_ignition_def discovery_options_def)

lemma published_same:
  assumes "same_object c d"
  shows "published E c evs n = published E d evs n"
  using assms
  by (simp add: published_def secret_seen_def fetched_def user_data_secret_same [OF assms] discovery_ignition_same [OF assms]) (simp add: same_object_def)

lemma fetched_mono: "fetched E c evs ign \<Longrightarrow> set evs \<subseteq> set evs' \<Longrightarrow> fetched E c evs' ign"
  unfolding fetched_def by blast

lemma secret_seen_mono: "secret_seen E c evs sec \<Longrightarrow> set evs \<subseteq> set evs' \<Longrightarrow> secret_seen E c evs' sec"
  unfolding secret_seen_def using fetched_mono by blast

lemma published_mono: "published E c evs n \<Longrightarrow> set evs \<subseteq> set evs' \<Longrightarrow> published E c evs' n"
  unfolding published_def using secret_seen_mono by blast

text \<open>
  A pass may say that the data secret exists only if the object said so before or the secret was
  seen or created in the pass.
\<close>

definition secret_ok :: "'s env \<Rightarrow> oac \<Rightarrow> oac \<Rightarrow> event list \<Rightarrow> bool" where
  "secret_ok E config c' evs \<longleftrightarrow> same_object config c' \<and>
     (oacs_dataSecretCreated (oac_status c') = Some True \<longrightarrow>
        oacs_dataSecretCreated (oac_status config) = Some True \<or> published E config evs (oacs_dataSecretName (oac_status c')))"

lemma secret_ok_mono: "secret_ok E c c' evs \<Longrightarrow> set evs \<subseteq> set evs' \<Longrightarrow> secret_ok E c c' evs'"
  unfolding secret_ok_def using published_mono by blast

lemma secret_ok_trans:
  assumes "secret_ok E d c' evs" "same_object c d" "oacs_dataSecretCreated (oac_status d) = Some True \<longrightarrow> oacs_dataSecretCreated (oac_status c) = Some True"
  shows "secret_ok E c c' evs"
  using assms published_same [OF assms(2)] unfolding secret_ok_def by (auto simp: same_object_def)

lemma logs_get_data_secret:
  "logs (get_data_secret E c) (\<lambda>r evs. \<forall>sec. r = Inr sec \<longrightarrow> EvGet Mgmt KSecret (m_namespace (oac_meta c)) (m_name (oac_meta c)) (Inr (OSecret sec)) \<in> set evs)"
  unfolding get_data_secret_def get_as_def kcall_defs
  by (rule logs_call_bind, rule logs_return) (auto simp: decode_def split: sum.splits option.splits)

lemma logs_createUserDataSecret:
  "logs (createUserDataSecret E c ign) (\<lambda>r evs. \<forall>sec. r = Inr sec \<longrightarrow>
     EvGet Mgmt KSecret (m_namespace (oac_meta c)) (m_name (oac_meta c)) (Inr (OSecret sec)) \<in> set evs \<or>
     sec = user_data_secret c ign \<and> (\<exists>a. EvCreate Mgmt (OSecret sec) (Inr a) \<in> set evs))"
  unfolding createUserDataSecret_def
  apply (rule logs_bind [OF logs_get_data_secret])
  apply (rule logs_case_sum)
   apply (rule logs_if)
    apply (rule logs_return, simp)
   apply (unfold kcall_defs)
   apply (rule logs_call_bind, rule logs_return)
   apply (auto simp: err_of_def split: sum.splits option.splits)[1]
  apply (rule logs_return, simp)
  done

lemma logs_trivial: "(\<And>a evs. Q a evs) \<Longrightarrow> logs m Q"
  if "emits (\<lambda>_. True) m"
  using that unfolding emits_def by (auto elim: logs_mono)

lemma emits_True [emits_intros]: "emits (\<lambda>_. True) (GetAssistedHTTPClient E cfg)"
  unfolding GetAssistedHTTPClient_def getBundlePEMFromSecret_def getBundlePEMFromConfigmap_def by (intro emits_intros) simp_all

lemma logs_getIgnition:
  "logs (getIgnition E rc ie) (\<lambda>(r, rc') evs. \<forall>b. r = Inr b \<longrightarrow> (\<exists>u resp. EvHttpGet u (Inr resp) \<in> set evs \<and> hr_status resp = 200 \<and> hr_body resp = Inr b))"
proof -
  have c: "logs (getHTTPClient E rc) (\<lambda>r evs. True)"
    unfolding getHTTPClient_def
    by (intro logs_case_option logs_return logs_if logs_bind [OF logs_trivial [OF emits_True, where Q = "\<lambda>_ _. True"]] logs_case_sum) simp_all
  show ?thesis
    unfolding getIgnition_def getIgnitionBytes_def kcall_defs
    apply (rule logs_case_sum, rule logs_return, simp)
    apply (rule logs_case_sum, rule logs_return, simp)
    apply (rule logs_bind [OF c], rule logs_case_prod, rule logs_case_sum, rule logs_return, simp)
    apply (rule logs_call_bind, rule logs_return)
    apply (auto split: sum.splits if_splits)
    done
qed

lemma logs_publish_ignition:
  assumes "oacs_dataSecretCreated (oac_status c) \<noteq> Some True"
  shows "logs (publish_ignition E rc c ie) (\<lambda>(c', rc', res, err) evs. secret_ok E c c' evs \<and> oac_meta c' = oac_meta c)"
  unfolding publish_ignition_def
  apply (rule logs_if, rule logs_return)
   apply (simp add: secret_ok_def same_object_def assms)
  apply (rule logs_bind [OF logs_getIgnition], rule logs_case_prod, rule logs_case_sum)
   apply (rule logs_return, simp add: secret_ok_def same_object_def assms)
  apply (rule logs_case_sum, rule logs_return, simp add: secret_ok_def same_object_def assms)
  apply (rule logs_bind [OF logs_createUserDataSecret], rule logs_return)
  subgoal for r evs b rc' ign merged s evs'
    by (cases s) (auto simp: secret_ok_def same_object_def assms published_def secret_seen_def fetched_def; blast)+
  done

lemma logs_ensure_data_secret:
  "logs (ensure_data_secret E rc c ie) (\<lambda>(c', rc', res, err) evs. secret_ok E c c' evs \<and> oac_meta c' = oac_meta c)"
  unfolding ensure_data_secret_def
  apply (rule logs_if)
   apply (rule logs_bind [OF logs_get_data_secret], rule logs_case_sum)
    apply (rule logs_if)
     apply (rule logs_mono [OF logs_publish_ignition])
      apply (simp; fail)
  subgoal for s evs e a evs'
    by (auto intro!: secret_ok_mono [of _ _ _ evs' "evs @ evs'"] secret_ok_trans [where c = c] simp: same_object_def)
    apply (rule logs_return, simp add: secret_ok_def)
   apply (rule logs_return, simp add: secret_ok_def)
  apply (rule logs_publish_ignition, simp)
  done

subsection \<open>Creation of InfraEnvs\<close>

fun creates_infra_env :: "event \<Rightarrow> bool" where
  "creates_infra_env (EvCreate _ (OInfraEnv _) _) = True" | "creates_infra_env _ = False"

definition built_for :: "oac \<Rightarrow> machine \<Rightarrow> cluster_deployment \<Rightarrow> infra_env \<Rightarrow> bool" where
  "built_for config m cd ie \<longleftrightarrow> (\<exists>ps. ie = owned_infra_env config m ((GetInfraEnvFromConfig (getInfraEnvName m) config cd)\<lparr>ie_pullSecretRef := Some ps\<rparr>)
     \<and> oac_pullSecretRef (oac_spec config) \<in> {None, Some ps})"

definition built :: "oac \<Rightarrow> machine \<Rightarrow> infra_env \<Rightarrow> bool" where
  "built config m ie \<longleftrightarrow> (\<exists>cd. built_for config m cd ie)"

text \<open>
  What a pass has seen of the owners of its config: the machine is the one read under the first owner
  reference that names a Machine of the group \<open>cluster.x-k8s.io\<close>, in the namespace of the config; the
  owner is that machine or the machine pool of a reference; the cluster is the one that the owner names.
\<close>

definition machine_ref :: "owner_ref \<Rightarrow> bool" where
  "machine_ref r \<longleftrightarrow> or_kind r = ''Machine'' \<and> map_option fst (ParseGroupVersion (or_apiVersion r)) = Some ''cluster.x-k8s.io''"

definition pool_ref :: "owner_ref \<Rightarrow> bool" where
  "pool_ref r \<longleftrightarrow> or_kind r = ''MachinePool'' \<and> map_option fst (ParseGroupVersion (or_apiVersion r)) = Some ''cluster.x-k8s.io''"

definition machine_under :: "string \<Rightarrow> owner_ref list \<Rightarrow> machine \<Rightarrow> event list \<Rightarrow> bool" where
  "machine_under ns rs m evs \<longleftrightarrow> (\<exists>r. List.find machine_ref rs = Some r \<and> EvGet Mgmt KMachine ns (or_name r) (Inr (OMachine m)) \<in> set evs)"

definition owner_under :: "string \<Rightarrow> owner_ref list \<Rightarrow> config_owner \<Rightarrow> event list \<Rightarrow> bool" where
  "owner_under ns rs ow evs \<longleftrightarrow> (\<exists>m. machine_under ns rs m evs \<and> ow = owner_of_machine m) \<or>
     (\<exists>r\<in>set rs. \<exists>j. pool_ref r \<and> ow = owner_of_pool j \<and>
        EvGet Mgmt (KUnstructured ''cluster.x-k8s.io'' ''v1beta2'' ''MachinePool'') ns (or_name r) (Inr (OUnstructured j)) \<in> set evs)"

definition machine_seen :: "oac \<Rightarrow> machine \<Rightarrow> event list \<Rightarrow> bool" where
  "machine_seen config m evs \<longleftrightarrow> machine_under (m_namespace (oac_meta config)) (m_ownerReferences (oac_meta config)) m evs"

definition owner_seen :: "oac \<Rightarrow> config_owner \<Rightarrow> event list \<Rightarrow> bool" where
  "owner_seen config ow evs \<longleftrightarrow> owner_under (m_namespace (oac_meta config)) (m_ownerReferences (oac_meta config)) ow evs"

definition owned_cluster :: "config_owner \<Rightarrow> cluster \<Rightarrow> event list \<Rightarrow> bool" where
  "owned_cluster ow cl evs \<longleftrightarrow> EvGet Mgmt KCluster (co_namespace ow) (co_clusterName ow) (Inr (OCluster cl)) \<in> set evs"

lemma owners_mono:
  "machine_under ns rs m evs \<Longrightarrow> set evs \<subseteq> set evs' \<Longrightarrow> machine_under ns rs m evs'"
  "owner_under ns rs ow evs \<Longrightarrow> set evs \<subseteq> set evs' \<Longrightarrow> owner_under ns rs ow evs'"
  "machine_seen c m evs \<Longrightarrow> set evs \<subseteq> set evs' \<Longrightarrow> machine_seen c m evs'"
  "owner_seen c ow evs \<Longrightarrow> set evs \<subseteq> set evs' \<Longrightarrow> owner_seen c ow evs'"
  "owned_cluster ow cl evs \<Longrightarrow> set evs \<subseteq> set evs' \<Longrightarrow> owned_cluster ow cl evs'"
  unfolding machine_seen_def owner_seen_def owner_under_def machine_under_def owned_cluster_def by blast+

text \<open>The cluster deployment listed for a cluster, and the AgentClusterInstall that it refers to.\<close>

definition deployment_seen :: "cluster \<Rightarrow> cluster_deployment \<Rightarrow> event list \<Rightarrow> bool" where
  "deployment_seen cl cd evs \<longleftrightarrow> (\<exists>obs. List.map_filter as_cluster_deployment obs = [cd] \<and>
     EvList Mgmt KClusterDeployment \<lparr>lo_namespace = [], lo_labels = [(ClusterNameLabel, m_name (cl_meta cl))]\<rparr> (Inr obs) \<in> set evs)"

definition install_seen :: "cluster_deployment \<Rightarrow> aci \<Rightarrow> event list \<Rightarrow> bool" where
  "install_seen cd ac evs \<longleftrightarrow> (\<exists>g v k n. cd_installRef cd = Some (g, v, k, n) \<and> EvGet Mgmt KACI (m_namespace (cd_meta cd)) n (Inr (OACI ac)) \<in> set evs)"

definition absent_before :: "string \<Rightarrow> string \<Rightarrow> event list \<Rightarrow> bool" where
  "absent_before ns n evs \<longleftrightarrow> (\<exists>e. is_not_found e \<and> EvGet Mgmt KInfraEnv ns n (Inl e) \<in> set evs)"

definition joins_now :: "machine \<Rightarrow> cluster \<Rightarrow> cluster_deployment \<Rightarrow> event list \<Rightarrow> bool" where
  "joins_now m cl cd evs \<longleftrightarrow> IsControlPlaneMachine m \<or> (\<exists>ac. install_seen cd ac evs \<and> isDay0WorkerState ac cl)"

lemma created_built: "EvCreate Mgmt (OInfraEnv ie) a \<in> set evs \<Longrightarrow> filter creates_infra_env evs = [] \<Longrightarrow> False"
  by (force simp: filter_empty_conv)

lemma logs_createPullsecretSecret: "logs (createPullsecretSecret E c) (\<lambda>r evs. filter creates_infra_env evs = [])"
  unfolding createPullsecretSecret_def Let_def kcall_defs by (intro logs_if logs_return logs_call_bind) simp_all

lemma logs_create_infra_env:
  "logs (create_infra_env E c m ie) (\<lambda>r evs. filter creates_infra_env evs \<noteq> [] \<longrightarrow> (\<exists>a. filter creates_infra_env evs = [EvCreate Mgmt (OInfraEnv (owned_infra_env c m ie)) a]))"
  unfolding create_infra_env_def Let_def kcall_defs by (intro logs_return logs_call_bind) simp_all

lemma logs_ensureInfraEnv:
  "logs (ensureInfraEnv E c m cd) (\<lambda>r evs. filter creates_infra_env evs = [] \<or> (\<exists>ie a. filter creates_infra_env evs = [EvCreate Mgmt (OInfraEnv ie) a]
     \<and> built_for c m cd ie \<and> absent_before (m_namespace (oac_meta c)) (m_name (mc_meta m)) evs))"
  unfolding ensureInfraEnv_def Let_def get_as_def kcall_defs
  apply (rule logs_if, rule logs_return, simp)
  apply (simp only: prog_simps)
  apply (rule logs_call_bind)
  apply (rule logs_case_sum)
   apply (rule logs_if, rule logs_return, simp)
   apply (rule logs_if)
    apply (rule logs_bind [OF logs_createPullsecretSecret], rule logs_case_sum, rule logs_return, simp)
    apply (rule logs_mono [OF logs_create_infra_env])
  subgoal for ans e r evs sec x evs'
    by (cases "filter creates_infra_env evs' = []")
      (auto simp: built_for_def absent_before_def GetInfraEnvFromConfig_def Let_def getInfraEnvName_def decode_def split: sum.splits option.splits)
   apply (rule logs_mono [OF logs_create_infra_env])
  subgoal for ans e x evs'
    apply (cases "filter creates_infra_env evs' = []")
     apply simp
    apply (auto simp: built_for_def absent_before_def getInfraEnvName_def decode_def split: sum.splits option.splits)
    apply (auto simp: GetInfraEnvFromConfig_def Let_def intro!: exI)
    done
  apply (rule logs_return, simp)
  done

definition creation_ok :: "oac \<Rightarrow> machine \<Rightarrow> cluster \<Rightarrow> event list \<Rightarrow> bool" where
  "creation_ok config m cl evs \<longleftrightarrow> filter creates_infra_env evs = [] \<or> (\<exists>ie a cd. filter creates_infra_env evs = [EvCreate Mgmt (OInfraEnv ie) a]
     \<and> built_for config m cd ie \<and> absent_before (m_namespace (oac_meta config)) (m_name (mc_meta m)) evs
     \<and> deployment_seen cl cd evs \<and> joins_now m cl cd evs)"

definition quiet :: "event list \<Rightarrow> bool" where
  "quiet evs \<longleftrightarrow> filter creates_infra_env evs = []"

lemma emits_quiet: "emits (\<lambda>e. \<not> creates_infra_env e) p \<Longrightarrow> logs p (\<lambda>r evs. quiet evs)"
  by (auto simp: emits_def quiet_def list_all_iff filter_empty_conv elim!: logs_mono)

lemma creation_ok_extend:
  assumes "creation_ok c m cl evs" "quiet pre" "quiet post"
  shows "creation_ok c m cl (pre @ evs @ post)"
proof (cases "quiet evs")
  case True
  then show ?thesis using assms(2,3) by (simp add: creation_ok_def quiet_def)
next
  case False
  then obtain ie a cd where c: "filter creates_infra_env evs = [EvCreate Mgmt (OInfraEnv ie) a]" "built_for c m cd ie"
    "absent_before (m_namespace (oac_meta c)) (m_name (mc_meta m)) evs" "deployment_seen cl cd evs" "joins_now m cl cd evs"
    using assms(1) unfolding creation_ok_def quiet_def by blast
  have "absent_before (m_namespace (oac_meta c)) (m_name (mc_meta m)) (pre @ evs @ post)" "deployment_seen cl cd (pre @ evs @ post)"
    "joins_now m cl cd (pre @ evs @ post)"
    using c(3-5) unfolding absent_before_def deployment_seen_def joins_now_def install_seen_def by auto
  then show ?thesis using c(1,2) assms(2,3) unfolding creation_ok_def quiet_def by auto
qed

lemma quiet_creation_ok: "quiet evs \<Longrightarrow> creation_ok c m cl evs"
  by (simp add: quiet_def creation_ok_def)

lemma logs_getClusterDeployment:
  "logs (getClusterDeployment E (m_name (cl_meta cl))) (\<lambda>r evs. quiet evs \<and> (\<forall>cd. r = Inr cd \<longrightarrow> deployment_seen cl cd evs))"
  unfolding getClusterDeployment_def list_as_def kcall_defs
  apply (simp only: prog_simps)
  apply (rule logs_call_bind, rule logs_return)
  apply (auto simp: quiet_def deployment_seen_def decode_list_def split: sum.splits list.splits)
  done

lemma logs_getAgentClusterInstall:
  "logs (getAgentClusterInstall E cd) (\<lambda>r evs. quiet evs \<and> (\<forall>ac. r = Inr ac \<longrightarrow> install_seen cd ac evs))"
  unfolding getAgentClusterInstall_def get_as_def kcall_defs
  apply (rule logs_case_option, rule logs_return, simp add: quiet_def)
  apply (rule logs_case_prod)+
  apply (rule logs_call_bind, rule logs_return)
  apply (auto simp: quiet_def install_seen_def decode_def split: sum.splits option.splits)
  done

lemma logs_reconcileAssistedResources:
  "logs (reconcileAssistedResources E c cl m) (\<lambda>(c', r) evs. oac_meta c' = oac_meta c \<and> oac_spec c' = oac_spec c
     \<and> oacs_dataSecretCreated (oac_status c') = oacs_dataSecretCreated (oac_status c) \<and> creation_ok c m cl evs)"
  unfolding reconcileAssistedResources_def
  apply (rule logs_bind [OF logs_getClusterDeployment], rule logs_case_sum, rule logs_return, simp add: quiet_creation_ok)
  apply (rule logs_bind [OF logs_getAgentClusterInstall], rule logs_case_sum, rule logs_return)
   apply (simp add: quiet_def creation_ok_def)
  apply (rule logs_if, rule logs_return, simp add: quiet_def creation_ok_def)
  apply (rule logs_bind [OF logs_ensureInfraEnv])
  subgoal for cdr evs cd acr evs' ac ier evs''
    apply (rule logs_mono [where R = "\<lambda>(c', r) es. es = [] \<and> oac_meta c' = oac_meta c \<and> oac_spec c' = oac_spec c
        \<and> oacs_dataSecretCreated (oac_status c') = oacs_dataSecretCreated (oac_status c)"])
     apply (rule logs_case_sum; rule logs_return; simp)
    apply (clarsimp simp: quiet_def creation_ok_def absent_before_def joins_now_def deployment_seen_def install_seen_def)
    apply blast
    done
  done

subsection \<open>Release on deletion\<close>

definition owner_deleting :: "oac \<Rightarrow> event list \<Rightarrow> bool" where
  "owner_deleting config evs \<longleftrightarrow> (\<exists>ow. owner_seen config ow evs \<and> co_deleting ow)"

text \<open>
  The InfraEnv of a machine has its name and namespace. It is gone when the pass read under that key
  and found nothing, or deleted what it found there (or was told that it is gone already).
\<close>

definition env_gone :: "machine \<Rightarrow> event list \<Rightarrow> bool" where
  "env_gone m evs \<longleftrightarrow> absent_before (m_namespace (mc_meta m)) (getInfraEnvName m) evs \<or>
     (\<exists>ie d. EvGet Mgmt KInfraEnv (m_namespace (mc_meta m)) (getInfraEnvName m) (Inr (OInfraEnv ie)) \<in> set evs \<and>
        EvDelete Mgmt (OInfraEnv ie) d \<in> set evs \<and> (case d of None \<Rightarrow> True | Some e \<Rightarrow> is_not_found e))"

definition infra_env_gone :: "oac \<Rightarrow> event list \<Rightarrow> bool" where
  "infra_env_gone config evs \<longleftrightarrow> (\<exists>m. machine_seen config m evs \<and> env_gone m evs)"

definition release_ok :: "oac \<Rightarrow> oac \<Rightarrow> event list \<Rightarrow> bool" where
  "release_ok config c' evs \<longleftrightarrow>
     (openshiftAssistedConfigFinalizer \<in> set (m_finalizers (oac_meta config)) \<and>
      openshiftAssistedConfigFinalizer \<notin> set (m_finalizers (oac_meta c')) \<longrightarrow>
        m_deletionTimestamp (oac_meta config) \<noteq> None \<and> infra_env_gone config evs \<and>
        (MachineControlPlaneLabel \<in> dom (m_labels (oac_meta config)) \<longrightarrow> owner_deleting config evs))"

lemma env_gone_mono: "env_gone m evs \<Longrightarrow> set evs \<subseteq> set evs' \<Longrightarrow> env_gone m evs'"
  unfolding env_gone_def absent_before_def by blast

lemma release_ok_mono: "release_ok c c' evs \<Longrightarrow> set evs \<subseteq> set evs' \<Longrightarrow> release_ok c c' evs'"
  unfolding release_ok_def infra_env_gone_def owner_deleting_def by (meson env_gone_mono owners_mono)

lemma release_ok_keep: "set (m_finalizers (oac_meta c)) \<subseteq> set (m_finalizers (oac_meta c')) \<Longrightarrow> release_ok c c' evs"
  unfolding release_ok_def by blast

lemma logs_getInfraEnv:
  "logs (getInfraEnv E m) (\<lambda>r evs. quiet evs \<and> (case r of
     Inl e \<Rightarrow> is_not_found e \<longrightarrow> env_gone m evs
   | Inr ie \<Rightarrow> EvGet Mgmt KInfraEnv (m_namespace (mc_meta m)) (getInfraEnvName m) (Inr (OInfraEnv ie)) \<in> set evs))"
  unfolding getInfraEnv_def get_as_def kcall_defs
  by (rule logs_call_bind, rule logs_return) (auto simp: quiet_def env_gone_def absent_before_def decode_def split: sum.splits option.splits)

lemma env_gone_deleted:
  "EvGet Mgmt KInfraEnv (m_namespace (mc_meta m)) (getInfraEnvName m) (Inr (OInfraEnv ie)) \<in> set evs \<Longrightarrow> env_gone m (evs @ [EvDelete Mgmt (OInfraEnv ie) None])"
  "EvGet Mgmt KInfraEnv (m_namespace (mc_meta m)) (getInfraEnvName m) (Inr (OInfraEnv ie)) \<in> set evs \<Longrightarrow> is_not_found e \<Longrightarrow>
     env_gone m (evs @ [EvDelete Mgmt (OInfraEnv ie) (Some e)])"
  unfolding env_gone_def by (force split: option.split)+

definition may_release :: "oac \<Rightarrow> config_owner \<Rightarrow> bool" where
  "may_release c owner \<longleftrightarrow> (MachineControlPlaneLabel \<in> dom (m_labels (oac_meta c)) \<longrightarrow> co_deleting owner)"

lemma logs_handleDeletion_config:
  "logs (handleDeletion_config E c owner m) (\<lambda>(c', err) evs. quiet evs \<and> same_object c c' \<and> oac_status c' = oac_status c
     \<and> (c' = c \<or> env_gone m evs \<and> may_release c owner))"
proof -
  let ?rel = "c\<lparr>oac_meta := RemoveFinalizer openshiftAssistedConfigFinalizer (oac_meta c)\<rparr>"
  have rel: "same_object c ?rel" "oac_status ?rel = oac_status c" by (simp_all add: same_object_def RemoveFinalizer_def)
  show ?thesis
    unfolding handleDeletion_config_def Let_def
    apply (rule logs_if, rule logs_return, simp add: quiet_def)
    apply (rule logs_if, rule logs_return, simp add: quiet_def)
    apply (subgoal_tac "may_release c owner")
     prefer 2 apply (simp add: may_release_def)
    apply (rule logs_bind [OF logs_getInfraEnv], rule logs_case_sum)
     apply (rule logs_if, rule logs_return)
      apply (simp add: rel)
     apply (rule logs_return, simp)
    apply (unfold kcall_defs)
    apply (rule logs_call_bind, rule logs_case_option, rule logs_return)
     apply (simp add: rel quiet_def env_gone_deleted(1))
    apply (rule logs_if; rule logs_return)
     apply (simp add: rel quiet_def env_gone_deleted(2))
    apply (simp add: quiet_def)
    done
qed

subsection \<open>The whole pass\<close>

lemma under_simps:
  "List.find machine_ref (r # rs) = (if machine_ref r then Some r else List.find machine_ref rs)"
  "ParseGroupVersion (or_apiVersion r) = Some (g, v) \<Longrightarrow> machine_ref r \<longleftrightarrow> or_kind r = ''Machine'' \<and> g = ''cluster.x-k8s.io''"
  "ParseGroupVersion (or_apiVersion r) = Some (g, v) \<Longrightarrow> pool_ref r \<longleftrightarrow> or_kind r = ''MachinePool'' \<and> g = ''cluster.x-k8s.io''"
  by (auto simp: machine_ref_def pool_ref_def)

lemma machine_under_Cons: "\<not> machine_ref r \<Longrightarrow> machine_under ns (r # rs) m evs = machine_under ns rs m evs"
  by (simp add: machine_under_def)

lemma owner_under_Cons: "\<not> machine_ref r \<Longrightarrow> owner_under ns rs ow evs \<Longrightarrow> owner_under ns (r # rs) ow evs"
  by (auto simp: owner_under_def machine_under_Cons)

lemma logs_GetTypedConfigOwner:
  "logs (GetTypedConfigOwner E (oac_meta c)) (\<lambda>r evs. quiet evs \<and> (\<forall>ow. r = Inr (Some ow) \<longrightarrow> owner_seen c ow evs))"
proof -
  have "logs (config_owner_refs E ns rs) (\<lambda>r evs. quiet evs \<and> (\<forall>ow. r = Inr (Some ow) \<longrightarrow> owner_under ns rs ow evs))" for ns rs
  proof (induction rs)
    case (Cons r rs)
    show ?case
      unfolding config_owner_refs.simps get_as_def kcall_defs
      apply (rule logs_case_option, rule logs_return, simp add: quiet_def)
      apply (rule logs_case_prod, rule logs_if)
       apply (simp only: prog_simps, rule logs_call_bind, rule logs_return)
       apply (auto simp: quiet_def owner_under_def machine_under_def under_simps decode_def split: sum.splits option.splits)[1]
      apply (rule logs_if)
       apply (simp only: prog_simps, rule logs_call_bind, rule logs_return)
       apply (auto simp: quiet_def owner_under_def under_simps decode_def split: sum.splits option.splits)[1]
      apply (rule logs_mono [OF Cons.IH])
      apply (auto intro: owner_under_Cons simp: under_simps)
      done
  qed (simp add: logs_return quiet_def)
  then show ?thesis by (simp add: GetTypedConfigOwner_def owner_seen_def)
qed

lemma logs_GetOwnerMachine:
  "logs (GetOwnerMachine E (oac_meta c)) (\<lambda>r evs. quiet evs \<and> (\<forall>m. r = Inr (Some m) \<longrightarrow> machine_seen c m evs))"
proof -
  have "logs (owner_machine_refs E ns rs) (\<lambda>r evs. quiet evs \<and> (\<forall>m. r = Inr (Some m) \<longrightarrow> machine_under ns rs m evs))" for ns rs
  proof (induction rs)
    case (Cons r rs)
    show ?case
      unfolding owner_machine_refs.simps get_as_def kcall_defs
      apply (rule logs_case_option, rule logs_return, simp add: quiet_def)
      apply (rule logs_case_prod, rule logs_if)
       apply (simp only: prog_simps, rule logs_call_bind, rule logs_return)
       apply (auto simp: quiet_def machine_under_def under_simps decode_def split: sum.splits option.splits)[1]
      apply (rule logs_mono [OF Cons.IH])
      apply (auto simp: machine_under_Cons under_simps)
      done
  qed (simp add: logs_return quiet_def)
  then show ?thesis by (simp add: GetOwnerMachine_def machine_seen_def)
qed

lemma logs_GetClusterByName:
  "logs (GetClusterByName E (co_namespace ow) (co_clusterName ow)) (\<lambda>r evs. quiet evs \<and> (\<forall>cl. r = Inr cl \<longrightarrow> owned_cluster ow cl evs))"
  unfolding GetClusterByName_def get_as_def kcall_defs
  apply (simp only: prog_simps)
  apply (rule logs_call_bind, rule logs_return)
  apply (auto simp: quiet_def owned_cluster_def decode_def split: sum.splits option.splits)
  done

lemma emits_ensure_data_secret: "emits (\<lambda>e. \<not> creates_infra_env e) (ensure_data_secret E rc c ie)"
  unfolding ensure_data_secret_def publish_ignition_def getIgnition_def getIgnitionBytes_def getHTTPClient_def createUserDataSecret_def
    get_data_secret_def GetAssistedHTTPClient_def getBundlePEMFromSecret_def getBundlePEMFromConfigmap_def
  by (intro emits_intros) simp_all

lemma built_AddFinalizer: "built_for (c\<lparr>oac_meta := AddFinalizer f (oac_meta c)\<rparr>) m cd ie = built_for c m cd ie"
proof -
  have "owned_infra_env (c\<lparr>oac_meta := AddFinalizer f (oac_meta c)\<rparr>) m = owned_infra_env c m"
    by (simp add: fun_eq_iff owned_infra_env_def try_owner_def owner_allowed_def oac_owner_ref_def)
  moreover have "GetInfraEnvFromConfig n (c\<lparr>oac_meta := AddFinalizer f (oac_meta c)\<rparr>) = GetInfraEnvFromConfig n c" for n
    by (simp add: fun_eq_iff GetInfraEnvFromConfig_def Let_def split: option.split)
  ultimately show ?thesis by (simp add: built_for_def)
qed

lemma creation_ok_AddFinalizer: "creation_ok (c\<lparr>oac_meta := AddFinalizer f (oac_meta c)\<rparr>) m cl evs = creation_ok c m cl evs"
  by (simp add: creation_ok_def built_AddFinalizer)

text \<open>What a pass may do to the InfraEnv.\<close>

definition creates_safely :: "oac \<Rightarrow> event list \<Rightarrow> bool" where
  "creates_safely config evs \<longleftrightarrow> quiet evs \<or> (\<exists>m ow cl. machine_seen config m evs \<and> owner_seen config ow evs
     \<and> owned_cluster ow cl evs \<and> creation_ok config m cl evs)"

definition pass_ok :: "'s env \<Rightarrow> oac \<Rightarrow> pass \<Rightarrow> event list \<Rightarrow> bool" where
  "pass_ok E config p evs \<longleftrightarrow> (case p of (c', rc', res, err) \<Rightarrow> secret_ok E config c' evs \<and> release_ok config c' evs \<and> creates_safely config evs)"

lemma pass_ok_quiet: "same_object c c' \<Longrightarrow> oacs_dataSecretCreated (oac_status c') = oacs_dataSecretCreated (oac_status c) \<Longrightarrow>
    set (m_finalizers (oac_meta c)) \<subseteq> set (m_finalizers (oac_meta c')) \<Longrightarrow> quiet evs \<Longrightarrow> pass_ok E c (c', rc', res, err) evs"
  by (simp add: pass_ok_def secret_ok_def release_ok_keep creates_safely_def)

lemma quiet_append [simp]: "quiet (evs @ evs') \<longleftrightarrow> quiet evs \<and> quiet evs'"
  by (simp add: quiet_def)

lemma logs_reconcile_config:
  "logs (reconcile_config E rc c owner m) (\<lambda>p evs. case p of (c', rc', res, err) \<Rightarrow> secret_ok E c c' evs
     \<and> set (m_finalizers (oac_meta c)) \<subseteq> set (m_finalizers (oac_meta c')) \<and> (quiet evs \<or> (\<exists>cl. owned_cluster owner cl evs \<and> creation_ok c m cl evs)))"
proof -
  let ?c = "c\<lparr>oac_meta := AddFinalizer openshiftAssistedConfigFinalizer (oac_meta c)\<rparr>"
  have same: "same_object c ?c" "set (m_finalizers (oac_meta c)) \<subseteq> set (m_finalizers (oac_meta ?c))" by (auto simp: same_object_def)
  have keep: "secret_ok E c c' evs" if "oac_meta c' = oac_meta ?c" "oac_spec c' = oac_spec c"
    "oacs_dataSecretCreated (oac_status c') = oacs_dataSecretCreated (oac_status c)" for c' evs
    using that by (simp add: secret_ok_def same_object_def)
  show ?thesis
    unfolding reconcile_config_def Let_def
    apply (rule logs_bind [OF logs_GetClusterByName], rule logs_case_sum)
     apply (rule logs_if; rule logs_return; use same in \<open>simp add: keep\<close>)
    apply (rule logs_if, rule logs_return)
     apply (use same in \<open>simp add: keep\<close>)[1]
    apply (rule logs_bind [OF logs_reconcileAssistedResources], rule logs_case_prod, rule logs_case_sum)
     apply (rule logs_case_prod, rule logs_return)
    subgoal premises prems for clr evs cl x evs' c'
      using same keep [of c'] creation_ok_extend [of c m cl evs' evs "[]"] owners_mono(5) [of owner cl evs "evs @ evs'"] prems
      by (auto simp: creation_ok_AddFinalizer quiet_def [of "[]"])
    apply (rule logs_mono [OF logs_conj [OF logs_ensure_data_secret emits_quiet [OF emits_ensure_data_secret]]])
    subgoal premises prems for clr evs cl x evs' c' r' ie p evs''
      using same keep [of c'] creation_ok_extend [of c m cl evs' evs evs''] owners_mono(5) [of owner cl evs "evs @ evs' @ evs''"] prems
      by (auto simp: creation_ok_AddFinalizer intro!: secret_ok_mono [of _ _ _ evs'' "evs @ evs' @ evs''"] secret_ok_trans [where c = c and d = c'] simp: same_object_def)
    done
qed

lemma logs_bootstrap_body: "logs (bootstrap_body E rc c) (pass_ok E c)"
  unfolding bootstrap_body_def
  apply (rule logs_bind [OF logs_GetTypedConfigOwner])
  subgoal for ownr evs
    apply (rule logs_case_sum)
     apply (rule logs_if; rule logs_return; simp add: pass_ok_quiet)
    apply (rule logs_case_option, rule logs_return, simp add: pass_ok_quiet)
    apply (rule logs_bind [OF logs_GetOwnerMachine], rule logs_case_sum, rule logs_return, simp add: pass_ok_quiet)
    apply (rule logs_case_option, rule logs_return, simp add: pass_ok_quiet)
    apply (rule logs_if)
     apply (rule logs_bind [OF logs_handleDeletion_config], rule logs_case_prod, rule logs_return)
    subgoal for x owner mr evs' y m d evs'' c' err
      using owners_mono(4) [of c owner evs "evs @ evs' @ evs''"] owners_mono(3) [of c m evs' "evs @ evs' @ evs''"]
        env_gone_mono [of m evs'' "evs @ evs' @ evs''"]
      by (auto simp: pass_ok_def secret_ok_def creates_safely_def release_ok_def may_release_def owner_deleting_def infra_env_gone_def)
    apply (rule logs_mono [OF logs_reconcile_config])
    subgoal for x owner mr evs' y m p evs''
      using creation_ok_extend [of c m _ evs'' "evs @ evs'" "[]"] owners_mono(3) [of c m evs' "evs @ evs' @ evs''"]
        owners_mono(4) [of c owner evs "evs @ evs' @ evs''"] owners_mono(5) [of owner _ evs'' "evs @ evs' @ evs''"]
      by (auto simp: pass_ok_def creates_safely_def release_ok_keep quiet_def [of "[]"] intro!: secret_ok_mono [of _ _ _ evs'' "evs @ evs' @ evs''"])
        blast+
    done
  done

definition pass_patched :: "'s env \<Rightarrow> oac \<Rightarrow> goerr option \<Rightarrow> event list \<Rightarrow> bool" where
  "pass_patched E config err evs \<longleftrightarrow> (\<exists>c' og y. last evs = EvHelperPatch (OOAC config) (OOAC c') og y
     \<and> secret_ok E config c' evs \<and> release_ok config c' evs \<and> creates_safely config evs
     \<and> (if y = None then og \<longleftrightarrow> err = None else err \<noteq> None))"

lemma pass_ok_patched:
  assumes "pass_ok E config (c', rc', res, rerr) evs" "if y = None then err = rerr else err \<noteq> None"
  shows "pass_patched E config err (EvGet Mgmt KOAC ns name a # evs @ [EvHelperPatch (OOAC config) (OOAC (SetSummary E ts c')) (rerr = None) y])"
proof -
  let ?evs = "EvGet Mgmt KOAC ns name a # evs @ [EvHelperPatch (OOAC config) (OOAC (SetSummary E ts c')) (rerr = None) y]"
  have sub: "set evs \<subseteq> set ?evs" by auto
  have "secret_ok E config c' ?evs" "release_ok config c' ?evs"
    using assms(1) secret_ok_mono [OF _ sub] release_ok_mono [OF _ sub] by (auto simp: pass_ok_def)
  then have "secret_ok E config (SetSummary E ts c') ?evs" "release_ok config (SetSummary E ts c') ?evs"
    by (simp_all add: secret_ok_def release_ok_def same_object_def)
  moreover have "creates_safely config ?evs"
  proof (cases "quiet evs")
    case True
    then show ?thesis by (simp add: creates_safely_def quiet_def)
  next
    case False
    then obtain m ow cl where "machine_seen config m evs" "owner_seen config ow evs" "owned_cluster ow cl evs" "creation_ok config m cl evs"
      using assms(1) by (auto simp: pass_ok_def creates_safely_def)
    then have "machine_seen config m ?evs" "owner_seen config ow ?evs" "owned_cluster ow cl ?evs" "creation_ok config m cl ?evs"
      using owners_mono(3-5) [OF _ sub] creation_ok_extend [of config m cl evs "[EvGet Mgmt KOAC ns name a]" "[EvHelperPatch (OOAC config) (OOAC (SetSummary E ts c')) (rerr = None) y]"]
      by (auto simp: quiet_def)
    then show ?thesis unfolding creates_safely_def by blast
  qed
  ultimately show ?thesis using assms(2) unfolding pass_patched_def
    by (intro exI [of _ "SetSummary E ts c'"] exI [of _ "rerr = None"] exI [of _ y]) auto
qed

lemma logs_BootstrapReconcile:
  "logs (BootstrapReconcile E rc ns name) (\<lambda>(rc', res, err) evs. \<forall>config. hd evs = EvGet Mgmt KOAC ns name (Inr (OOAC config)) \<and>
     k_new_helper E (OOAC config) = None \<longrightarrow> pass_patched E config err evs)"
  unfolding BootstrapReconcile_def get_as_def
  apply (simp only: prog_simps)
  apply (unfold kcall_defs)
  apply (rule logs_call_bind, rule logs_case_sum, rule logs_return)
   apply (auto simp: decode_def split: sum.splits option.splits)[1]
  apply (rule logs_case_option)
   prefer 2 apply (rule logs_return, auto simp: decode_def split: sum.splits option.splits)[1]
  apply (rule logs_bind [OF logs_bootstrap_body], rule logs_case_prod, rule logs_case_prod, rule logs_case_prod)
  apply (rule logs_call_bind, rule logs_return)
  subgoal for a config p evs c' q rc' q' res rerr y
    using pass_ok_patched [of E config c' rc' res rerr evs y "case y of None \<Rightarrow> rerr | Some e \<Rightarrow> new_aggregate (the_errors [rerr, Some e])" ns name a "[DataSecretAvailableCondition]"]
    by (cases rerr; cases y) (auto simp: decode_def new_aggregate_def split: sum.splits option.splits)
  done

text \<open>
  Claim C4. Bootstrap data is announced truthfully: every pass that read the config ends with its
  patch (with the observed generation exactly when the pass has no error); a patch that newly
  declares the data secret created names a secret that this pass saw under the key of the config
  or created itself, and a secret it created holds the ignition that the assisted service answered
  with status 200 in this pass, merged with the components of the node.
\<close>
theorem bootstrap_data_secret_safe:
  assumes "run_state (BootstrapReconcile E rc ns name) (start s) = ((rc', res, err), w)"
    and "hd (w_trace w) = EvGet Mgmt KOAC ns name (Inr (OOAC config))" and "k_new_helper E (OOAC config) = None"
  shows "\<exists>c' og y. last (w_trace w) = EvHelperPatch (OOAC config) (OOAC c') og y \<and> oac_spec c' = oac_spec config
    \<and> (if y = None then og \<longleftrightarrow> err = None else err \<noteq> None)
    \<and> (if oacs_dataSecretCreated (oac_status c') = Some True \<and> oacs_dataSecretCreated (oac_status config) \<noteq> Some True
       then published E config (w_trace w) (oacs_dataSecretName (oac_status c')) else True)"
proof -
  have "pass_patched E config err (w_trace w)" using logs_start [OF logs_BootstrapReconcile assms(1)] assms(2,3) by blast
  then obtain c' og y where "last (w_trace w) = EvHelperPatch (OOAC config) (OOAC c') og y" "secret_ok E config c' (w_trace w)"
    "if y = None then og \<longleftrightarrow> err = None else err \<noteq> None" unfolding pass_patched_def by blast
  then show ?thesis by (intro exI [of _ c'] exI [of _ og] exI [of _ y]) (auto simp: secret_ok_def same_object_def)
qed

text \<open>
  Claim C25. Deprovisioning order: the finalizer of a bootstrap config disappears from the patch only
  when the config is being deleted, the InfraEnv of its own machine (the machine read under its first
  owner reference to a Machine; the InfraEnv under the name and namespace of that machine) was seen
  to be gone or was read and deleted in the pass, and, for a config of the control plane, the owner
  that its references name was seen to be deleting.
\<close>
theorem bootstrap_finalizer_safe:
  assumes "run_state (BootstrapReconcile E rc ns name) (start s) = ((rc', res, err), w)"
    and "hd (w_trace w) = EvGet Mgmt KOAC ns name (Inr (OOAC config))" and "k_new_helper E (OOAC config) = None"
    and "openshiftAssistedConfigFinalizer \<in> set (m_finalizers (oac_meta config))"
    and "last (w_trace w) = EvHelperPatch (OOAC config) (OOAC c') og y"
    and "openshiftAssistedConfigFinalizer \<notin> set (m_finalizers (oac_meta c'))"
  shows "m_deletionTimestamp (oac_meta config) \<noteq> None \<and> infra_env_gone config (w_trace w) \<and>
    (if MachineControlPlaneLabel \<in> dom (m_labels (oac_meta config)) then owner_deleting config (w_trace w) else True)"
  using logs_start [OF logs_BootstrapReconcile assms(1)] assms(2-)
  by (auto simp: pass_patched_def release_ok_def)

text \<open>
  Claim C23. A pass creates at most one InfraEnv, for the machine that owns the config (read in the
  namespace of the config under its first owner reference to a Machine of \<open>cluster.x-k8s.io\<close>), under
  the name of the machine, after having seen that none exists, with a pull secret and for the
  cluster deployment that is listed for the cluster of the owner; and only for a machine of the control plane
  or while the AgentClusterInstall of that cluster deployment is in a state that lets a worker join.
\<close>
theorem bootstrap_infra_env_safe:
  assumes "run_state (BootstrapReconcile E rc ns name) (start s) = ((rc', res, err), w)"
    and "hd (w_trace w) = EvGet Mgmt KOAC ns name (Inr (OOAC config))" and "k_new_helper E (OOAC config) = None"
  shows "filter creates_infra_env (w_trace w) = [] \<or> (\<exists>ie a m ow cl cd. filter creates_infra_env (w_trace w) = [EvCreate Mgmt (OInfraEnv ie) a]
     \<and> machine_seen config m (w_trace w) \<and> owner_seen config ow (w_trace w) \<and> owned_cluster ow cl (w_trace w)
     \<and> deployment_seen cl cd (w_trace w) \<and> built_for config m cd ie
     \<and> absent_before (m_namespace (oac_meta config)) (m_name (mc_meta m)) (w_trace w) \<and> joins_now m cl cd (w_trace w))"
proof -
  have "creates_safely config (w_trace w)"
    using logs_start [OF logs_BootstrapReconcile assms(1)] assms(2,3) by (auto simp: pass_patched_def)
  then show ?thesis unfolding creates_safely_def creation_ok_def quiet_def by blast
qed

subsection \<open>Across controllers\<close>

lemma owners_of_built:
  assumes "built config m ie" "m_namespace (mc_meta m) = m_namespace (oac_meta config)"
  shows "m_ownerReferences (ie_meta ie) = [oac_owner_ref config, machine_owner_ref m]" "m_namespace (ie_meta ie) = m_namespace (oac_meta config)"
proof -
  have "\<not> refer_same (oac_owner_ref config) (machine_owner_ref m)"
    by (simp add: refer_same_def oac_owner_ref_def machine_owner_ref_def openshiftAssistedConfigKind_def)
  then show "m_ownerReferences (ie_meta ie) = [oac_owner_ref config, machine_owner_ref m]" "m_namespace (ie_meta ie) = m_namespace (oac_meta config)"
    using assms by (auto simp: built_def built_for_def owned_infra_env_def try_owner_def owner_allowed_def add_owner_def GetInfraEnvFromConfig_def Let_def empty_meta_def)
qed

lemma name_of_built:
  assumes "built config m ie"
  shows "m_name (ie_meta ie) = m_name (mc_meta m)"
  using assms by (auto simp: built_def built_for_def owned_infra_env_def try_owner_def add_owner_def GetInfraEnvFromConfig_def getInfraEnvName_def Let_def split: if_splits)

lemma group_of_machine_ref: "group_of (or_apiVersion (machine_owner_ref m)) = ''cluster.x-k8s.io''"
  "group_of (or_apiVersion (oac_owner_ref c)) = ''bootstrap.cluster.x-k8s.io''"
proof -
  have "group_of ''cluster.x-k8s.io/v1beta2'' = ''cluster.x-k8s.io''" "group_of (bootstrapGroup @ ''/v1alpha2'') = ''bootstrap.cluster.x-k8s.io''"
    by code_simp+
  then show "group_of (or_apiVersion (machine_owner_ref m)) = ''cluster.x-k8s.io''"
    "group_of (or_apiVersion (oac_owner_ref c)) = ''bootstrap.cluster.x-k8s.io''"
    by (simp_all add: machine_owner_ref_def oac_owner_ref_def)
qed

text \<open>
  Claim C29. The two controllers of the bootstrap provider fit together: from an agent labelled with
  an InfraEnv that the config controller built, the agent controller gets back to the machine the
  InfraEnv was built for, with two reads; and a change of that InfraEnv is mapped to the config it
  was built from.
\<close>
theorem agent_finds_machine:
  assumes "built config m ie" "m_namespace (mc_meta m) = m_namespace (oac_meta config)"
    and "m_labels (ag_meta a) InfraEnvNameLabel = Some (m_name (mc_meta m))" "m_namespace (ag_meta a) = m_namespace (oac_meta config)"
    and "k_get E Mgmt KInfraEnv (m_namespace (oac_meta config)) (m_name (mc_meta m)) s = (Inr (OInfraEnv ie), s1)"
    and "k_get E Mgmt KMachine (m_namespace (oac_meta config)) (m_name (mc_meta m)) s1 = (Inr (OMachine m), s2)"
  shows "fst (run_state (getMachineFromAgent E a) (start s)) = Inr m \<and> FilterInfraEnv ie = [(m_namespace (oac_meta config), m_name (oac_meta config))]"
proof
  note own = owners_of_built [OF assms(1,2)]
  have kinds: "or_kind (machine_owner_ref m) = ''Machine''" "or_name (machine_owner_ref m) = m_name (mc_meta m)"
    "or_kind (oac_owner_ref config) = openshiftAssistedConfigKind" "or_name (oac_owner_ref config) = m_name (oac_meta config)"
    by (simp_all add: machine_owner_ref_def oac_owner_ref_def)
  show "fst (run_state (getMachineFromAgent E a) (start s)) = Inr m"
    using assms(3-6) own kinds
    by (simp add: getMachineFromAgent_def get_as_def kcall_defs call_def start_def GetTypedOwner_def group_of_machine_ref)
  show "FilterInfraEnv ie = [(m_namespace (oac_meta config), m_name (oac_meta config))]"
    using own kinds by (simp add: FilterInfraEnv_def group_of_machine_ref bootstrapGroup_def)
qed

lemma discovery_ignores_kubeconfig_path:
  "discovery_ignition E (config\<lparr>oac_spec := (oac_spec config)\<lparr>oac_postBootstrapKubeconfigPath := p\<rparr>\<rparr>) b = discovery_ignition E config b"
proof -
  have "node_parts (discovery_options (config\<lparr>oac_spec := (oac_spec config)\<lparr>oac_postBootstrapKubeconfigPath := p\<rparr>\<rparr>)) = node_parts (discovery_options config)"
    unfolding node_parts_def discovery_options_def IgnitionOptions.simps by simp
  then show ?thesis by (simp add: discovery_ignition_def MergeIgnitionConfig_def installedNodeComponents_def)
qed

text \<open>
  The field \<open>postBootstrapKubeconfigPath\<close> of a bootstrap config has no effect: neither the
  discovery ignition nor the ignition of the installed node depends on it, so the post-bootstrap
  script always waits with the default kubeconfig.
\<close>
theorem postBootstrapKubeconfigPath_ignored:
  "getIgnitionConfig E it (config\<lparr>oac_spec := (oac_spec config)\<lparr>oac_postBootstrapKubeconfigPath := p\<rparr>\<rparr>) = getIgnitionConfig E it config
   \<and> discovery_ignition E (config\<lparr>oac_spec := (oac_spec config)\<lparr>oac_postBootstrapKubeconfigPath := p\<rparr>\<rparr>) b = discovery_ignition E config b"
  by (simp add: install_ignores_kubeconfig_path discovery_ignores_kubeconfig_path)

subsection \<open>Two passes\<close>

definition demo_key :: "object_meta \<Rightarrow> object_meta" where
  "demo_key m = m\<lparr>m_name := ''m1'', m_namespace := ''n'', m_finalizers := [openshiftAssistedConfigFinalizer]\<rparr>"

definition new_config :: oac where
  "new_config = \<lparr>oac_meta = (demo_key empty_meta)\<lparr>m_ownerReferences := [\<lparr>or_apiVersion = ''cluster.x-k8s.io/v1beta2'', or_kind = ''Machine'',
     or_name = ''m1'', or_uid = [], or_controller = None\<rparr>]\<rparr>, oac_spec = empty_oac_spec, oac_status = empty_oac_status\<rparr>"

definition new_machine :: machine where
  "new_machine = empty_machine\<lparr>mc_meta := (demo_key empty_meta)\<lparr>m_labels := [MachineControlPlaneLabel \<mapsto> []]\<rparr>, mc_clusterName := ''c''\<rparr>"

definition new_cluster :: cluster where
  "new_cluster = empty_cluster\<lparr>cl_meta := empty_meta\<lparr>m_name := ''c''\<rparr>, cl_infrastructureProvisioned := Some True\<rparr>"

definition new_cd :: cluster_deployment where
  "new_cd = empty_cd\<lparr>cd_installRef := Some (''g'', ''v'', ''AgentClusterInstall'', ''c'')\<rparr>"

definition events_url :: string where
  "events_url = ''https://ai.example.com:8443/api/v2/events?api_key=a%2Bb&infra_env_id=42''"

definition boot_env :: "oac \<Rightarrow> unit env" where
  "boot_env config = nowhere\<lparr>
     k_get := (\<lambda>c k ns n s. (case k of KOAC \<Rightarrow> Inr (OOAC config) | KMachine \<Rightarrow> Inr (OMachine new_machine)
        | KCluster \<Rightarrow> Inr (OCluster new_cluster) | KACI \<Rightarrow> Inr (OACI empty_aci) | _ \<Rightarrow> Inl (ApiStatus NotFound), s)),
     k_list := (\<lambda>c k opts s. (Inr [OClusterDeployment new_cd], s)),
     k_create := (\<lambda>c ob s. (Inr (case ob of OInfraEnv ie \<Rightarrow> OInfraEnv (ie\<lparr>ie_eventsURL := events_url\<rparr>) | _ \<Rightarrow> ob), s)),
     x_http_get := (\<lambda>u s. (Inr \<lparr>hr_status = 200, hr_body = Inr ''{}''\<rparr>, s))\<rparr>"

definition boot_rc :: boot_reconciler where
  "boot_rc = \<lparr>br_config = demo_service False, br_httpClient = None, br_hasFactory = True\<rparr>"

lemma boot_url:
  "\<exists>u v. GetIgnitionURLFromInfraEnv (demo_service False) (ie\<lparr>ie_eventsURL := events_url\<rparr>) = Inr u \<and> url_parse (url_string u) = Inr v"
proof -
  have q: "values_encode [(''file_name'', ''discovery.ign''), (''api_key'', ''a+b'')] = ''api_key=a%2Bb&file_name=discovery.ign''" by code_simp
  have p: "\<exists>v. url_parse (url_string \<lparr>u_scheme = ''https'', u_host = ''ai.example.com:8443'',
      u_path = ''/api/assisted-install/v2/infra-envs/42/downloads/files'', u_rawQuery = ''api_key=a%2Bb&file_name=discovery.ign''\<rparr>) = Inr v"
    by (rule exI [of _ "\<lparr>u_scheme = ''https'', u_host = ''ai.example.com:8443'',
      u_path = ''/api/assisted-install/v2/infra-envs/42/downloads/files'', u_rawQuery = ''api_key=a%2Bb&file_name=discovery.ign''\<rparr>"]) code_simp
  then show ?thesis
    by (simp add: GetIgnitionURLFromInfraEnv_def events_url_def demo_url_parse demo_service_def query_get_def q)
qed

lemma boot_fields:
  "k_new_helper (boot_env c) ob = None" "k_get (boot_env c) Mgmt KOAC ns n u = (Inr (OOAC c), u)" "k_get (boot_env c) Mgmt KMachine ns n u = (Inr (OMachine new_machine), u)"
  "k_get (boot_env c) Mgmt KCluster ns n u = (Inr (OCluster new_cluster), u)" "k_get (boot_env c) Mgmt KACI ns n u = (Inr (OACI empty_aci), u)"
  "k_get (boot_env c) Mgmt KInfraEnv ns n u = (Inl (ApiStatus NotFound), u)" "k_get (boot_env c) Mgmt KSecret ns n u = (Inl (ApiStatus NotFound), u)"
  "k_list (boot_env c) Mgmt k opts u = (Inr [OClusterDeployment new_cd], u)"
  "k_create (boot_env c) Mgmt (OInfraEnv ie) u = (Inr (OInfraEnv (ie\<lparr>ie_eventsURL := events_url\<rparr>)), u)"
  "k_create (boot_env c) Mgmt (OSecret sec) u = (Inr (OSecret sec), u)" "k_helper_patch (boot_env c) ob ob' og u = (None, u)"
  "x_http_get (boot_env c) t u = (Inr \<lparr>hr_status = 200, hr_body = Inr ''{}''\<rparr>, u)"
  by (simp_all add: boot_env_def nowhere_def)

lemma new_config_fields:
  "m_name (oac_meta new_config) = ''m1''" "m_namespace (oac_meta new_config) = ''n''" "m_deletionTimestamp (oac_meta new_config) = None"
  "m_ownerReferences (oac_meta new_config) = [\<lparr>or_apiVersion = ''cluster.x-k8s.io/v1beta2'', or_kind = ''Machine'', or_name = ''m1'', or_uid = [], or_controller = None\<rparr>]"
  "oac_pullSecretRef (oac_spec new_config) = None" "m_finalizers (oac_meta new_config) = [openshiftAssistedConfigFinalizer]"
  "oacs_dataSecretCreated (oac_status new_config) = None" "m_labels (oac_meta new_config) = Map.empty"
  "m_name (mc_meta new_machine) = ''m1''" "m_namespace (mc_meta new_machine) = ''n''" "IsControlPlaneMachine new_machine"
  "m_deletionTimestamp (mc_meta new_machine) = None"
  "cd_installRef new_cd = Some (''g'', ''v'', ''AgentClusterInstall'', ''c'')" "isInfrastructureProvisioned_bootstrap new_cluster"
  by (simp_all add: new_config_def demo_key_def empty_meta_def empty_oac_spec_def empty_oac_status_def new_machine_def IsControlPlaneMachine_def
      new_cd_def isInfrastructureProvisioned_bootstrap_def new_cluster_def)

lemma parse_v1beta2: "ParseGroupVersion ''cluster.x-k8s.io/v1beta2'' = Some (''cluster.x-k8s.io'', ''v1beta2'')"
  by code_simp

lemma new_config_finalized [simp]: "new_config\<lparr>oac_meta := AddFinalizer openshiftAssistedConfigFinalizer (oac_meta new_config)\<rparr> = new_config"
  by (simp add: AddFinalizer_def new_config_fields)

lemma boot_discovery: "\<exists>ign. discovery_ignition (boot_env new_config) new_config b = Inr ign"
  by (simp add: discovery_ignition_def MergeIgnitionConfig_def installedNodeComponents_def node_parts_def discovery_options_def
      new_config_def empty_oac_spec_def empty_node_registration_def MergeDiscoveryIgnitionConfig_def boot_env_def nowhere_def)

lemma boot_client: "GetAssistedHTTPClient E (demo_service b) = ret (Inr DefaultHTTPClient)"
  by (simp add: GetAssistedHTTPClient_def demo_service_def)

lemma boot_publish:
  "\<exists>rc' w' c'. run_state (publish_ignition (boot_env new_config) boot_rc new_config (ie\<lparr>ie_eventsURL := events_url\<rparr>)) w = ((c', rc', result_zero, None), w')
    \<and> oacs_dataSecretCreated (oac_status c') = Some True \<and> oacs_dataSecretName (oac_status c') = ''m1'' \<and> w_env w' = w_env w"
proof -
  obtain u v where u: "GetIgnitionURLFromInfraEnv (demo_service False) (ie\<lparr>ie_eventsURL := events_url\<rparr>) = Inr u" "url_parse (url_string u) = Inr v"
    using boot_url by blast
  obtain ign where ign: "discovery_ignition (boot_env new_config) new_config ''{}'' = Inr ign" using boot_discovery by blast
  have ne: "events_url \<noteq> []" by (simp add: events_url_def)
  show ?thesis
    by (simp add: publish_ignition_def ne getIgnition_def u boot_rc_def getIgnitionBytes_def getHTTPClient_def boot_client kcall_defs call_def boot_fields ign
        createUserDataSecret_def get_data_secret_def get_as_def user_data_secret_def add_owner_def new_config_fields MarkTrue_def put_v1_conditions_def)
qed

lemma boot_ensureInfraEnv:
  "\<exists>ie w'. run_state (ensureInfraEnv (boot_env new_config) new_config new_machine new_cd) w = (Inr (ie\<lparr>ie_eventsURL := events_url\<rparr>), w')
    \<and> w_env w' = w_env w \<and> (\<exists>pre a. w_trace w' = w_trace w @ pre @ [EvCreate Mgmt (OInfraEnv ie) a])"
proof -
  have n: "is_not_found (ApiStatus NotFound)" by simp
  show ?thesis
    by (simp add: ensureInfraEnv_def getInfraEnvName_def new_config_fields get_as_def kcall_defs call_def boot_fields n
        GetInfraEnvFromConfig_def createPullsecretSecret_def GenerateFakePullSecret_def owner_allowed_def empty_meta_def
        create_infra_env_def created_or_def Let_def)
qed

lemma boot_run:
  "\<exists>rc' w. run_state (BootstrapReconcile (boot_env new_config) boot_rc ''n'' ''m1'') (start ()) = ((rc', result_zero, None), w)
    \<and> hd (w_trace w) = EvGet Mgmt KOAC ''n'' ''m1'' (Inr (OOAC new_config))
    \<and> (\<exists>c'. last (w_trace w) = EvHelperPatch (OOAC new_config) (OOAC c') True None \<and> oacs_dataSecretCreated (oac_status c') = Some True
        \<and> oacs_dataSecretName (oac_status c') = ''m1'')
    \<and> filter creates_infra_env (w_trace w) \<noteq> []"
proof -
  have trace: "\<exists>t. w_trace (snd (run_state p w)) = w_trace w @ t" if "logs p Q" for p Q and w :: "(unit, event) world"
    using that unfolding logs_def by blast
  let ?E = "boot_env new_config"
  let ?w = "\<lparr>w_env = (), w_trace = [EvGet Mgmt KOAC ''n'' ''m1'' (Inr (OOAC new_config)), EvGet Mgmt KMachine ''n'' ''m1'' (Inr (OMachine new_machine)),
    EvGet Mgmt KMachine ''n'' ''m1'' (Inr (OMachine new_machine)), EvGet Mgmt KCluster ''n'' ''c'' (Inr (OCluster new_cluster)),
    EvList Mgmt KClusterDeployment \<lparr>lo_namespace = [], lo_labels = [(ClusterNameLabel, ''c'')]\<rparr> (Inr [OClusterDeployment new_cd]),
    EvGet Mgmt KACI [] ''c'' (Inr (OACI empty_aci))]\<rparr>"
  obtain ie w1 pre a where ie: "run_state (ensureInfraEnv ?E new_config new_machine new_cd) ?w = (Inr (ie\<lparr>ie_eventsURL := events_url\<rparr>), w1)"
    "w_trace w1 = w_trace ?w @ pre @ [EvCreate Mgmt (OInfraEnv ie) a]"
    using boot_ensureInfraEnv [of ?w] by blast
  obtain rc' w2 c' where pub: "run_state (publish_ignition ?E boot_rc new_config (ie\<lparr>ie_eventsURL := events_url\<rparr>)) w1 = ((c', rc', result_zero, None), w2)"
    "oacs_dataSecretCreated (oac_status c') = Some True" "oacs_dataSecretName (oac_status c') = ''m1''"
    using boot_publish [of ie w1] by blast
  have "\<exists>t. w_trace w2 = w_trace w1 @ t"
    using trace [OF logs_publish_ignition [of new_config ?E boot_rc "ie\<lparr>ie_eventsURL := events_url\<rparr>"], of w1] pub(1)
    by (simp add: new_config_fields)
  then obtain t where t: "w_trace w2 = w_trace ?w @ t" "filter creates_infra_env t \<noteq> []" using ie(2) by auto
  have ns: "m_namespace (cd_meta new_cd) = []" "m_name (cl_meta new_cluster) = ''c''" "mc_clusterName new_machine = ''c''"
    by (simp_all add: new_cd_def empty_cd_def empty_meta_def new_cluster_def new_machine_def)
  have "run_state (BootstrapReconcile ?E boot_rc ''n'' ''m1'') (start ()) = ((rc', result_zero, None),
      w2\<lparr>w_trace := w_trace w2 @ [EvHelperPatch (OOAC new_config) (OOAC (SetSummary ?E [DataSecretAvailableCondition] c')) True None]\<rparr>)"
    by (simp add: BootstrapReconcile_def bootstrap_body_def GetTypedConfigOwner_def GetOwnerMachine_def new_config_fields parse_v1beta2
        get_as_def list_as_def kcall_defs call_def start_def boot_fields owner_of_machine_def reconcile_config_def GetClusterByName_def
        reconcileAssistedResources_def getClusterDeployment_def getAgentClusterInstall_def ns ie(1) ensure_data_secret_def pub(1))
  then show ?thesis using t pub(2,3) by (intro exI [of _ rc'] exI) auto
qed

theorem bootstrap_data_secret_safe_witness:
  "\<exists>rc' w c' og y. run_state (BootstrapReconcile (boot_env new_config) boot_rc ''n'' ''m1'') (start ()) = ((rc', result_zero, None), w)
    \<and> last (w_trace w) = EvHelperPatch (OOAC new_config) (OOAC c') og y \<and> published (boot_env new_config) new_config (w_trace w) ''m1''"
proof -
  obtain rc' w d where w: "run_state (BootstrapReconcile (boot_env new_config) boot_rc ''n'' ''m1'') (start ()) = ((rc', result_zero, None), w)"
    "hd (w_trace w) = EvGet Mgmt KOAC ''n'' ''m1'' (Inr (OOAC new_config))"
    "last (w_trace w) = EvHelperPatch (OOAC new_config) (OOAC d) True None" "oacs_dataSecretCreated (oac_status d) = Some True"
    "oacs_dataSecretName (oac_status d) = ''m1''" using boot_run by blast
  then show ?thesis using bootstrap_data_secret_safe [OF w(1,2) boot_fields(1)] by (auto simp: new_config_fields)
qed

theorem bootstrap_infra_env_safe_witness:
  "\<exists>rc' w ie a. run_state (BootstrapReconcile (boot_env new_config) boot_rc ''n'' ''m1'') (start ()) = ((rc', result_zero, None), w)
    \<and> filter creates_infra_env (w_trace w) = [EvCreate Mgmt (OInfraEnv ie) a] \<and> absent_before ''n'' (m_name (ie_meta ie)) (w_trace w)"
proof -
  obtain rc' w where w: "run_state (BootstrapReconcile (boot_env new_config) boot_rc ''n'' ''m1'') (start ()) = ((rc', result_zero, None), w)"
    "hd (w_trace w) = EvGet Mgmt KOAC ''n'' ''m1'' (Inr (OOAC new_config))" "filter creates_infra_env (w_trace w) \<noteq> []" using boot_run by blast
  then obtain ie a m cd where ie: "filter creates_infra_env (w_trace w) = [EvCreate Mgmt (OInfraEnv ie) a]" "built_for new_config m cd ie"
    "absent_before ''n'' (m_name (mc_meta m)) (w_trace w)"
    using bootstrap_infra_env_safe [OF w(1,2) boot_fields(1)] by (auto simp: new_config_fields)
  have "built new_config m ie" using ie(2) by (auto simp: built_def)
  then have "m_name (ie_meta ie) = m_name (mc_meta m)" by (rule name_of_built)
  then show ?thesis using w(1) ie(1,3) by auto
qed

definition leaving_config :: oac where
  "leaving_config = new_config\<lparr>oac_meta := (oac_meta new_config)\<lparr>m_deletionTimestamp := Some 1\<rparr>\<rparr>"

lemma leaving_config_fields:
  "m_ownerReferences (oac_meta leaving_config) = [\<lparr>or_apiVersion = ''cluster.x-k8s.io/v1beta2'', or_kind = ''Machine'', or_name = ''m1'', or_uid = [], or_controller = None\<rparr>]"
  "m_finalizers (oac_meta leaving_config) = [openshiftAssistedConfigFinalizer]" "m_deletionTimestamp (oac_meta leaving_config) \<noteq> None"
  "m_labels (oac_meta leaving_config) = Map.empty" "m_namespace (oac_meta leaving_config) = ''n''"
  by (simp_all add: leaving_config_def new_config_fields)

theorem bootstrap_finalizer_safe_witness:
  "\<exists>rc' w. run_state (BootstrapReconcile (boot_env leaving_config) boot_rc ''n'' ''m1'') (start ()) = ((rc', result_zero, None), w)
    \<and> m_deletionTimestamp (oac_meta leaving_config) \<noteq> None \<and> infra_env_gone leaving_config (w_trace w)"
proof -
  let ?c = "leaving_config\<lparr>oac_meta := RemoveFinalizer openshiftAssistedConfigFinalizer (oac_meta leaving_config)\<rparr>"
  let ?d = "SetSummary (boot_env leaving_config) [DataSecretAvailableCondition] ?c"
  let ?w = "\<lparr>w_env = (), w_trace = [EvGet Mgmt KOAC ''n'' ''m1'' (Inr (OOAC leaving_config)), EvGet Mgmt KMachine ''n'' ''m1'' (Inr (OMachine new_machine)),
    EvGet Mgmt KMachine ''n'' ''m1'' (Inr (OMachine new_machine)), EvGet Mgmt KInfraEnv ''n'' ''m1'' (Inl (ApiStatus NotFound)),
    EvHelperPatch (OOAC leaving_config) (OOAC ?d) True None]\<rparr>"
  have run: "run_state (BootstrapReconcile (boot_env leaving_config) boot_rc ''n'' ''m1'') (start ()) = ((boot_rc, result_zero, None), ?w)"
    by (simp add: BootstrapReconcile_def bootstrap_body_def GetTypedConfigOwner_def GetOwnerMachine_def leaving_config_fields parse_v1beta2
        get_as_def kcall_defs call_def start_def boot_fields owner_of_machine_def handleDeletion_config_def ContainsFinalizer_def getInfraEnv_def
        new_config_fields getInfraEnvName_def)
  have gone: "openshiftAssistedConfigFinalizer \<notin> set (m_finalizers (oac_meta ?d))"
    by (simp add: RemoveFinalizer_def leaving_config_fields)
  show ?thesis using run bootstrap_finalizer_safe [OF run _ boot_fields(1) _ _ gone] leaving_config_fields by auto
qed

definition built_env :: infra_env where
  "built_env = owned_infra_env new_config new_machine ((GetInfraEnvFromConfig (getInfraEnvName new_machine) new_config new_cd)\<lparr>ie_pullSecretRef := Some ''p''\<rparr>)"

definition found_agent :: agent where
  "found_agent = \<lparr>ag_meta = (demo_key empty_meta)\<lparr>m_labels := [InfraEnvNameLabel \<mapsto> ''m1'']\<rparr>,
     ag_role = [], ag_ignitionConfigOverrides = [], ag_approved = False, ag_installerArgs = [],
     ag_clusterDeploymentName = None, ag_bootstrap = False, ag_hostname = [], ag_interfaces = [], ag_rest = []\<rparr>"

definition found_env :: "unit env" where
  "found_env = nowhere\<lparr>k_get := (\<lambda>c k ns n s. (Inr (if k = KInfraEnv then OInfraEnv built_env else OMachine new_machine), s))\<rparr>"

theorem agent_finds_machine_witness:
  "fst (run_state (getMachineFromAgent found_env found_agent) (start ())) = Inr new_machine
    \<and> FilterInfraEnv built_env = [(''n'', ''m1'')]"
proof -
  have b: "built new_config new_machine built_env"
    unfolding built_def built_for_def built_env_def by (intro exI [of _ new_cd] exI [of _ "''p''"]) (simp add: new_config_fields)
  show ?thesis
    using agent_finds_machine [OF b, of found_agent found_env "()" "()" "()"]
    by (simp add: new_config_fields demo_key_def found_agent_def found_env_def nowhere_def)
qed

end
