(* ===== verification/ClusterInstall.thy ===== *)
theory ClusterInstall
  imports Scaling
begin

text \<open>
  The AgentClusterInstall controller, \<open>agentclusterinstall_controller.go\<close>: it publishes the
  kubeconfig of the installed cluster under the name Cluster API looks for and reports the
  progress of the installation in the status of the control plane. Reading and writing of
  kubeconfig files is the client library, a parameter; what the controller changes in one are the
  server addresses.
\<close>

subsection \<open>Kubeconfigs\<close>

definition kubeconfigSecretKey :: string where "kubeconfigSecretKey = ''kubeconfig''"

text \<open>\<open>strings.Replace\<close> with a count of one.\<close>

fun replace_first :: "string \<Rightarrow> string \<Rightarrow> string \<Rightarrow> string" where
  "replace_first old new [] = (if old = [] then new else [])"
| "replace_first old new (c # s) =
    (if has_prefix (c # s) old then new @ drop (length old) (c # s) else c # replace_first old new s)"

text \<open>The new address of a server, if it has to be changed.\<close>

definition rewrite_server :: "string \<Rightarrow> string option" where
  "rewrite_server s =
    (if has_suffix s '':6443'' then Some (trim_suffix s '':6443'' @ '':443'')
     else if str_contains s '':6443/'' then Some (replace_first '':6443/'' '':443/'' s)
     else None)"

definition rewriteKubeconfigPort :: "'s env \<Rightarrow> bytes \<Rightarrow> bytes" where
  "rewriteKubeconfigPort E kubeconfig = (case x_load_kubeconfig E kubeconfig of
     Inl _ \<Rightarrow> kubeconfig
   | Inr clusters \<Rightarrow>
       if list_all (\<lambda>(_, server). rewrite_server server = None) clusters then kubeconfig
       else (case x_write_kubeconfig E kubeconfig
           (List.map (\<lambda>(name, server). (name, case rewrite_server server of None \<Rightarrow> server | Some s \<Rightarrow> s)) clusters) of
         Inl _ \<Rightarrow> kubeconfig
       | Inr out \<Rightarrow> out))"

definition GenerateSecretWithOwner :: "string \<Rightarrow> string \<Rightarrow> bytes \<Rightarrow> owner_ref \<Rightarrow> secret" where
  "GenerateSecretWithOwner ns clusterName data owner = \<lparr>
     se_meta = empty_meta\<lparr>m_name := clusterName @ ''-kubeconfig'', m_namespace := ns,
       m_labels := [ClusterNameLabel \<mapsto> clusterName], m_ownerReferences := [owner]\<rparr>,
     se_type = ''cluster.x-k8s.io/secret'', se_data = [''value'' \<mapsto> data]\<rparr>"

definition published_kubeconfig :: "'s env \<Rightarrow> oacp \<Rightarrow> cluster \<Rightarrow> bytes \<Rightarrow> bytes" where
  "published_kubeconfig E acp cl kubeconfig =
    (if isKubeVirtInfra cl \<and> IsPodNetworking (cfg_apiVIPs (sp_config (oacp_spec acp))) (cfg_ingressVIPs (sp_config (oacp_spec acp)))
     then rewriteKubeconfigPort E kubeconfig else kubeconfig)"

definition createKubeconfig :: "'s env \<Rightarrow> secret \<Rightarrow> string \<Rightarrow> oacp \<Rightarrow> cluster \<Rightarrow> ('s, goerr option) prog" where
  "createKubeconfig E kubeconfigSecret clusterName acp cl = (case se_data kubeconfigSecret kubeconfigSecretKey of
     None \<Rightarrow> ret (Some (Errorf ''kubeconfig with key `kubeconfig` not found in secret''))
   | Some kubeconfig \<Rightarrow>
       let sec = GenerateSecretWithOwner (m_namespace (oacp_meta acp)) clusterName (published_kubeconfig E acp cl kubeconfig)
                   (oacp_owner_ref (Some True) acp) in do {
         c \<leftarrow> kcreate E Mgmt (OSecret sec);
         case c of
           Inr _ \<Rightarrow> ret None
         | Inl e \<Rightarrow> if \<not> is_already_exists e then ret (Some e) else do {
             u \<leftarrow> kupdate E Mgmt (OSecret sec);
             ret (err_of u) } })"

subsection \<open>The AgentClusterInstall\<close>

definition updateLabels :: "'s env \<Rightarrow> secret \<Rightarrow> labels \<Rightarrow> ('s, secret res) prog" where
  "updateLabels E sec labels = do {
     u \<leftarrow> kupdate E Mgmt (OSecret (sec\<lparr>se_meta := (se_meta sec)\<lparr>m_labels := m_labels (se_meta sec) ++ labels\<rparr>\<rparr>));
     ret (decode as_secret u) }"

definition hasKubeconfigRef :: "aci \<Rightarrow> bool" where
  "hasKubeconfigRef ac \<longleftrightarrow> (case ac_clusterMetadata ac of None \<Rightarrow> False | Some md \<Rightarrow> cmd_adminKubeconfigSecretRef md \<noteq> [])"

definition isAvailable :: "aci \<Rightarrow> bool" where
  "isAvailable ac \<longleftrightarrow> ac_state ac = ''finalizing'' \<or> ac_state ac = ''adding-hosts''"

definition getACIKubeconfig :: "'s env \<Rightarrow> aci \<Rightarrow> oacp \<Rightarrow> ('s, secret res) prog" where
  "getACIKubeconfig E ac acp = (case ac_clusterMetadata ac of
     None \<Rightarrow> ret (Inl (Errorf ''nil pointer dereference''))
   | Some md \<Rightarrow> get_as E as_secret Mgmt KSecret (m_namespace (oacp_meta acp)) (cmd_adminKubeconfigSecretRef md))"

definition getOwnerOACP :: "'s env \<Rightarrow> aci \<Rightarrow> ('s, oacp res) prog" where
  "getOwnerOACP E ac = GetTypedOwner E as_oacp KOACP controlplaneGroup openshiftAssistedControlPlaneKind (ac_meta ac)"

definition ClusterKubeconfigSecretExists :: "'s env \<Rightarrow> string \<Rightarrow> string \<Rightarrow> ('s, bool) prog" where
  "ClusterKubeconfigSecretExists E clusterName ns = do {
     r \<leftarrow> get_as E as_secret Mgmt KSecret ns (clusterName @ ''-kubeconfig'');
     ret (err_of r = None) }"

definition ControlPlaneAvailableCondition :: string where "ControlPlaneAvailableCondition = ''Available''"

definition mark_control_plane_initialized :: "oacp \<Rightarrow> oacp" where
  "mark_control_plane_initialized ob = ob\<lparr>oacp_status := (oacp_status ob)\<lparr>st_controlPlaneInitialized := Some True\<rparr>\<rparr>"

definition kubeconfig_unavailable :: "string \<Rightarrow> oacp \<Rightarrow> oacp" where
  "kubeconfig_unavailable = setConditionFalse KubeconfigAvailableCondition ''KubeconfigUnavailable''"

definition kubeconfig_available :: "oacp \<Rightarrow> oacp" where
  "kubeconfig_available ob = mark_control_plane_initialized (setConditionTrue KubeconfigAvailableCondition ob)"

definition reconcile_kubeconfig :: "'s env \<Rightarrow> aci \<Rightarrow> oacp \<Rightarrow> cluster \<Rightarrow> ('s, oacp \<times> goerr option) prog" where
  "reconcile_kubeconfig E ac ob cl =
    (if \<not> hasKubeconfigRef ac then ret (kubeconfig_unavailable ''Kubeconfig not available'' ob, None)
     else do {
       k \<leftarrow> getACIKubeconfig E ac ob;
       case k of
         Inl e \<Rightarrow> ret (kubeconfig_unavailable ''error retrieving Kubeconfig'' ob, Some e)
       | Inr sec \<Rightarrow> let clusterName = label_of (oacp_meta ob) ClusterNameLabel in do {
           u \<leftarrow> updateLabels E sec [ClusterNameLabel \<mapsto> clusterName];
           case u of
             Inl e \<Rightarrow> ret (kubeconfig_unavailable ''error updating Kubeconfig secret labels'' ob, Some e)
           | Inr sec' \<Rightarrow> do {
               there \<leftarrow> ClusterKubeconfigSecretExists E clusterName (m_namespace (oacp_meta ob));
               if there then ret (kubeconfig_available ob, None)
               else do {
                 c \<leftarrow> createKubeconfig E sec' clusterName ob cl;
                 ret (case c of
                   Some e \<Rightarrow> (kubeconfig_unavailable ''error creating Kubeconfig secret'' ob, Some e)
                 | None \<Rightarrow> (kubeconfig_available ob, None)) } } } })"

subsection \<open>Reconcile\<close>

definition report_installation :: "aci \<Rightarrow> oacp \<Rightarrow> oacp" where
  "report_installation ac ob =
    (if isAvailable ac then setConditionTrue ControlPlaneAvailableCondition (mark_control_plane_initialized ob)
     else setConditionFalse ControlPlaneAvailableCondition ''ControlPlaneInstalling''
       (''Controlplane installing, status: '' @ ac_state ac) ob)"

definition install_body :: "'s env \<Rightarrow> aci \<Rightarrow> oacp \<Rightarrow> ('s, oacp \<times> ctrl_result \<times> goerr option) prog" where
  "install_body E ac ob = do {
     c \<leftarrow> GetOwnerCluster E (oacp_meta ob);
     case c of
       Inl e \<Rightarrow> ret (ob, result_zero, Some e)
     | Inr None \<Rightarrow> ret (ob, requeue_after 10, None)
     | Inr (Some cl) \<Rightarrow> do {
         (ob', err) \<leftarrow> reconcile_kubeconfig E ac ob cl;
         ret (case err of
           Some e \<Rightarrow> (ob', result_zero, Some e)
         | None \<Rightarrow> (report_installation ac ob', result_zero, None)) } }"

definition InstallReconcile :: "'s env \<Rightarrow> string \<Rightarrow> string \<Rightarrow> ('s, ctrl_result \<times> goerr option) prog" where
  "InstallReconcile E ns name = do {
     r \<leftarrow> get_as E as_aci Mgmt KACI ns name;
     case r of
       Inl e \<Rightarrow> ret (result_zero, ignore_not_found e)
     | Inr ac \<Rightarrow> do {
         ownr \<leftarrow> getOwnerOACP E ac;
         case ownr of
           Inl e \<Rightarrow> ret (result_zero, Some e)
         | Inr ob \<Rightarrow> do {
             (ob', res, err) \<leftarrow> install_body E ac ob;
             p \<leftarrow> kstatus_patch E Mgmt (OOACP ob) (OOACP ob');
             ret (res, case err of Some e \<Rightarrow> Some e | None \<Rightarrow> err_of p) } } }"

subsection \<open>What a pass reports\<close>

text \<open>
  The secret the ClusterInstall refers to, as it is after its cluster label was written; and the kubeconfig
  of the cluster being where Cluster API looks for it: it was seen there, or its content was
  written there from that secret.
\<close>

definition source_labelled :: "aci \<Rightarrow> oacp \<Rightarrow> secret \<Rightarrow> event list \<Rightarrow> bool" where
  "source_labelled ac ob sec evs \<longleftrightarrow> (\<exists>md sec0. ac_clusterMetadata ac = Some md \<and> cmd_adminKubeconfigSecretRef md \<noteq> []
     \<and> EvGet Mgmt KSecret (m_namespace (oacp_meta ob)) (cmd_adminKubeconfigSecretRef md) (Inr (OSecret sec0)) \<in> set evs
     \<and> EvUpdate Mgmt (OSecret (sec0\<lparr>se_meta := (se_meta sec0)\<lparr>m_labels := (m_labels (se_meta sec0))(ClusterNameLabel \<mapsto> label_of (oacp_meta ob) ClusterNameLabel)\<rparr>\<rparr>))
         (Inr (OSecret sec)) \<in> set evs)"

definition cluster_secret :: "'s env \<Rightarrow> oacp \<Rightarrow> cluster \<Rightarrow> bytes \<Rightarrow> kobj" where
  "cluster_secret E ob cl kubeconfig = OSecret (GenerateSecretWithOwner (m_namespace (oacp_meta ob)) (label_of (oacp_meta ob) ClusterNameLabel)
     (published_kubeconfig E ob cl kubeconfig) (oacp_owner_ref (Some True) ob))"

definition kubeconfig_there :: "'s env \<Rightarrow> aci \<Rightarrow> oacp \<Rightarrow> cluster \<Rightarrow> event list \<Rightarrow> bool" where
  "kubeconfig_there E ac ob cl evs \<longleftrightarrow> (\<exists>sec. source_labelled ac ob sec evs \<and>
     ((\<exists>s. EvGet Mgmt KSecret (m_namespace (oacp_meta ob)) (label_of (oacp_meta ob) ClusterNameLabel @ ''-kubeconfig'') (Inr (OSecret s)) \<in> set evs) \<or>
      (\<exists>kc x. se_data sec kubeconfigSecretKey = Some kc \<and>
         (EvCreate Mgmt (cluster_secret E ob cl kc) (Inr x) \<in> set evs \<or> EvUpdate Mgmt (cluster_secret E ob cl kc) (Inr x) \<in> set evs))))"

lemma kubeconfig_there_mono: "kubeconfig_there E ac ob cl evs \<Longrightarrow> set evs \<subseteq> set evs' \<Longrightarrow> kubeconfig_there E ac ob cl evs'"
  unfolding kubeconfig_there_def source_labelled_def by (meson subsetD)

lemma logs_createKubeconfig:
  "logs (createKubeconfig E sec (label_of (oacp_meta ob) ClusterNameLabel) ob cl) (\<lambda>r evs. r = None \<longrightarrow>
     (\<exists>kc x. se_data sec kubeconfigSecretKey = Some kc \<and>
       (EvCreate Mgmt (cluster_secret E ob cl kc) (Inr x) \<in> set evs \<or> EvUpdate Mgmt (cluster_secret E ob cl kc) (Inr x) \<in> set evs)))"
  unfolding createKubeconfig_def Let_def kcall_defs
  apply (rule logs_case_option, rule logs_return, simp)
  apply (rule logs_call_bind, rule logs_case_sum, rule logs_if, rule logs_return, simp)
   apply (rule logs_call_bind, rule logs_return)
   apply (auto simp: cluster_secret_def err_of_def split: sum.splits)[1]
  apply (rule logs_return, simp add: cluster_secret_def)
  done

lemma logs_reconcile_kubeconfig:
  "logs (reconcile_kubeconfig E ac ob cl) (\<lambda>(ob', err) evs.
     (ob' = kubeconfig_available ob \<and> err = None \<and> kubeconfig_there E ac ob cl evs)
     \<or> (\<exists>msg. ob' = kubeconfig_unavailable msg ob \<and> (err = None \<longleftrightarrow> \<not> hasKubeconfigRef ac)))"
  unfolding reconcile_kubeconfig_def getACIKubeconfig_def updateLabels_def ClusterKubeconfigSecretExists_def Let_def get_as_def kcall_defs
  apply (rule logs_if, rule logs_return, simp, blast)
  apply (simp only: prog_simps)
  subgoal premises ref
  proof (cases "ac_clusterMetadata ac")
    case None
    then show ?thesis using ref by (simp add: hasKubeconfigRef_def)
  next
    case (Some md)
    have ne: "cmd_adminKubeconfigSecretRef md \<noteq> []" using ref Some by (simp add: hasKubeconfigRef_def)
    show ?thesis
      unfolding Some option.case
      apply (simp only: prog_simps)
      apply (rule logs_call_bind, rule logs_case_sum, rule logs_return, use ref in \<open>simp; blast\<close>)
      apply (rule logs_call_bind, rule logs_case_sum, rule logs_return, use ref in \<open>simp; blast\<close>)
      apply (rule logs_call_bind)
      subgoal premises prems for a sec b sec' there
      proof -
        have src: "source_labelled ac ob sec' (EvGet Mgmt KSecret (m_namespace (oacp_meta ob)) (cmd_adminKubeconfigSecretRef md) a #
            EvUpdate Mgmt (OSecret (sec\<lparr>se_meta := (se_meta sec)\<lparr>m_labels := m_labels (se_meta sec) ++ [ClusterNameLabel \<mapsto> label_of (oacp_meta ob) ClusterNameLabel]\<rparr>\<rparr>)) b # evs)" for evs
          using prems ne Some unfolding source_labelled_def
          by (intro exI [of _ md] exI [of _ sec]) (auto simp: decode_def split: sum.splits option.splits)
        show ?thesis
          apply (rule logs_if, rule logs_return)
          subgoal
            using src [of "[EvGet Mgmt KSecret (m_namespace (oacp_meta ob)) (label_of (oacp_meta ob) ClusterNameLabel @ ''-kubeconfig'') there]"]
            by (auto simp: kubeconfig_there_def decode_def err_of_def split: sum.splits option.splits)
          apply (rule logs_bind [OF logs_createKubeconfig], rule logs_return)
          subgoal for r evs
            using src [of "EvGet Mgmt KSecret (m_namespace (oacp_meta ob)) (label_of (oacp_meta ob) ClusterNameLabel @ ''-kubeconfig'') there # evs"] ref
            by (cases r) (auto simp: kubeconfig_there_def)
          done
      qed
      done
  qed
  done

lemma initialized_setCondition [simp]:
  "st_controlPlaneInitialized (oacp_status (setConditionTrue t ob)) = st_controlPlaneInitialized (oacp_status ob)"
  "st_controlPlaneInitialized (oacp_status (setConditionFalse t r m ob)) = st_controlPlaneInitialized (oacp_status ob)"
  by (simp_all add: setConditionTrue_def setConditionFalse_def)

lemma mark_fields [simp]:
  "oacp_meta (mark_control_plane_initialized ob) = oacp_meta ob" "oacp_spec (mark_control_plane_initialized ob) = oacp_spec ob"
  "st_controlPlaneInitialized (oacp_status (mark_control_plane_initialized ob)) = Some True"
  "oacp_is_true (mark_control_plane_initialized ob) t = oacp_is_true ob t"
  by (simp_all add: mark_control_plane_initialized_def oacp_is_true_def oacp_conditions_def)

lemma condition_names [simp]: "KubeconfigAvailableCondition \<noteq> ControlPlaneAvailableCondition" "ControlPlaneAvailableCondition \<noteq> KubeconfigAvailableCondition"
  by (simp_all add: KubeconfigAvailableCondition_def ControlPlaneAvailableCondition_def)

lemma unavailable_fields [simp]:
  "oacp_meta (kubeconfig_unavailable m ob) = oacp_meta ob" "oacp_spec (kubeconfig_unavailable m ob) = oacp_spec ob"
  "st_controlPlaneInitialized (oacp_status (kubeconfig_unavailable m ob)) = st_controlPlaneInitialized (oacp_status ob)"
  "\<not> oacp_is_true (kubeconfig_unavailable m ob) KubeconfigAvailableCondition"
  by (simp_all add: kubeconfig_unavailable_def)

lemma available_fields [simp]:
  "oacp_meta (kubeconfig_available ob) = oacp_meta ob" "oacp_spec (kubeconfig_available ob) = oacp_spec ob"
  "oacp_is_true (kubeconfig_available ob) KubeconfigAvailableCondition"
  by (simp_all add: kubeconfig_available_def)

lemma report_fields [simp]:
  "oacp_meta (report_installation ac ob) = oacp_meta ob" "oacp_spec (report_installation ac ob) = oacp_spec ob"
  "oacp_is_true (report_installation ac ob) ControlPlaneAvailableCondition = isAvailable ac"
  "oacp_is_true (report_installation ac ob) KubeconfigAvailableCondition = oacp_is_true ob KubeconfigAvailableCondition"
  "st_controlPlaneInitialized (oacp_status (report_installation ac ob)) = (if isAvailable ac then Some True else st_controlPlaneInitialized (oacp_status ob))"
  by (simp_all add: report_installation_def)

definition status_truthful :: "'s env \<Rightarrow> aci \<Rightarrow> oacp \<Rightarrow> oacp \<Rightarrow> goerr option \<Rightarrow> event list \<Rightarrow> bool" where
  "status_truthful E ac ob ob' err evs \<longleftrightarrow> oacp_meta ob' = oacp_meta ob \<and> oacp_spec ob' = oacp_spec ob \<and>
    (ob' = ob \<or> (\<exists>cl. cluster_seen cl evs \<and>
      (if oacp_is_true ob' KubeconfigAvailableCondition then kubeconfig_there E ac ob cl evs else True) \<and>
      (if st_controlPlaneInitialized (oacp_status ob') = Some True \<and> st_controlPlaneInitialized (oacp_status ob) \<noteq> Some True
       then kubeconfig_there E ac ob cl evs \<or> isAvailable ac else True) \<and>
      (if err = None then oacp_is_true ob' ControlPlaneAvailableCondition \<longleftrightarrow> isAvailable ac else True)))"

lemma status_truthful_mono:
  assumes "status_truthful E ac ob ob' err evs" and sub: "set evs \<subseteq> set evs'" and "err = None \<or> err' \<noteq> None"
  shows "status_truthful E ac ob ob' err' evs'"
proof (cases "ob' = ob")
  case False
  then obtain cl where "cluster_seen cl evs" "oacp_meta ob' = oacp_meta ob" "oacp_spec ob' = oacp_spec ob"
    "oacp_is_true ob' KubeconfigAvailableCondition \<longrightarrow> kubeconfig_there E ac ob cl evs"
    "st_controlPlaneInitialized (oacp_status ob') = Some True \<and> st_controlPlaneInitialized (oacp_status ob) \<noteq> Some True
       \<longrightarrow> kubeconfig_there E ac ob cl evs \<or> isAvailable ac"
    "err = None \<longrightarrow> (oacp_is_true ob' ControlPlaneAvailableCondition \<longleftrightarrow> isAvailable ac)"
    using assms(1) unfolding status_truthful_def if_bool_eq_conj by blast
  moreover have "cluster_seen cl evs'" using calculation(1) sub by (auto simp: cluster_seen_def)
  ultimately show ?thesis
    using kubeconfig_there_mono [OF _ sub, of E ac ob cl] assms(3) unfolding status_truthful_def if_bool_eq_conj by blast
qed (simp add: status_truthful_def)

lemma logs_install_body: "logs (install_body E ac ob) (\<lambda>(ob', res, err) evs. status_truthful E ac ob ob' err evs)"
  unfolding install_body_def
  apply (rule logs_bind [OF logs_GetOwnerCluster], rule logs_case_sum, rule logs_return, simp add: status_truthful_def)
  apply (rule logs_case_option, rule logs_return, simp add: status_truthful_def)
  apply (rule logs_bind [OF logs_reconcile_kubeconfig], rule logs_case_prod, rule logs_return)
  subgoal premises prems for r evs o1 cl p evs' ob' err
  proof -
    have cl: "cluster_seen cl (evs @ evs' @ [])" using prems cluster_seen_append(1) [of cl evs evs'] by simp
    consider "ob' = kubeconfig_available ob" "err = None" "kubeconfig_there E ac ob cl evs'" | m where "ob' = kubeconfig_unavailable m ob"
      using prems by auto
    then show ?thesis
    proof cases
      case 1
      have "kubeconfig_there E ac ob cl (evs @ evs' @ [])" by (rule kubeconfig_there_mono [OF 1(3)]) auto
      then show ?thesis using cl 1(1,2) by (auto simp: status_truthful_def)
    next
      case 2
      then show ?thesis using cl by (cases err) (auto simp: status_truthful_def)
    qed
  qed
  done

lemma logs_InstallReconcile:
  "logs (InstallReconcile E ns name) (\<lambda>(res, err) evs. \<forall>ac ob ob' p. hd evs = EvGet Mgmt KACI ns name (Inr (OACI ac)) \<and>
     last evs = EvStatusPatch Mgmt (OOACP ob) (OOACP ob') p \<longrightarrow> status_truthful E ac ob ob' err evs)"
  unfolding InstallReconcile_def get_as_def
  apply (simp only: prog_simps)
  apply (unfold kcall_defs)
  apply (rule logs_call_bind, rule logs_case_sum, rule logs_return, simp)
  apply (rule logs_bind [OF emits_logs [where P = "\<lambda>e. \<exists>k ns n a. e = EvGet Mgmt k ns n a"]])
   apply (unfold getOwnerOACP_def, intro emits_intros, blast)
  apply (rule logs_case_sum, rule logs_return)
  subgoal premises prems for a ac r evs e
    using prems by (cases "evs = []") (auto dest!: last_in_set)
  apply (rule logs_bind [OF logs_install_body], rule logs_case_prod, rule logs_case_prod)
  apply (rule logs_call_bind, rule logs_return)
  subgoal premises prems for a ac r evs ob p evs' ob' x res err q
  proof -
    have "status_truthful E ac ob ob' (case err of Some e \<Rightarrow> Some e | None \<Rightarrow> err_of q)
        (EvGet Mgmt KACI ns name a # evs @ evs' @ [EvStatusPatch Mgmt (OOACP ob) (OOACP ob') q])"
      by (rule status_truthful_mono [of _ _ _ _ err evs']) (use prems in \<open>auto split: option.splits\<close>)
    then show ?thesis using prems by (auto simp: decode_def split: sum.splits option.splits)
  qed
  done

text \<open>
  Claim C7. The status of the control plane is reported truthfully: a pass over an AgentClusterInstall
  changes nothing else of the object; when it reports the kubeconfig as available, the secret the
  install refers to was read and labelled and the kubeconfig is in the secret of the cluster, where it was seen or
  where the pass wrote it, with the API port replaced on KubeVirt pod networks; the control plane
  is newly reported initialized only then or when the installation is finalizing or done; and
  without an error it is reported available exactly in these two states.
\<close>

theorem InstallReconcile_status_truthful:
  assumes "run_state (InstallReconcile E ns name) (start s) = ((res, err), w)"
    and "hd (w_trace w) = EvGet Mgmt KACI ns name (Inr (OACI ac))"
    and "last (w_trace w) = EvStatusPatch Mgmt (OOACP ob) (OOACP ob') p"
  shows "status_truthful E ac ob ob' err (w_trace w)"
  using logs_start [OF logs_InstallReconcile assms(1)] assms(2,3) by simp

subsection \<open>A pass\<close>

definition install_cp :: oacp where
  "install_cp = empty_oacp\<lparr>oacp_meta := empty_meta\<lparr>m_name := ''cp'', m_namespace := ''n'', m_labels := [ClusterNameLabel \<mapsto> ''c''],
     m_ownerReferences := [\<lparr>or_apiVersion = ''cluster.x-k8s.io/v1beta2'', or_kind = ''Cluster'', or_name = ''c'', or_uid = [], or_controller = None\<rparr>]\<rparr>\<rparr>"

definition install_aci :: aci where
  "install_aci = empty_aci\<lparr>ac_meta := add_owner (oacp_owner_ref None install_cp) (empty_meta\<lparr>m_name := ''cp'', m_namespace := ''n''\<rparr>),
     ac_clusterMetadata := Some \<lparr>cmd_adminKubeconfigSecretRef = ''admin'', cmd_adminPasswordSecretRef = None\<rparr>, ac_state := ''installing''\<rparr>"

definition admin_secret :: secret where
  "admin_secret = \<lparr>se_meta = empty_meta\<lparr>m_name := ''admin'', m_namespace := ''n''\<rparr>, se_type = [], se_data = [kubeconfigSecretKey \<mapsto> ''kc'']\<rparr>"

definition install_env :: "unit env" where
  "install_env = nowhere\<lparr>
     k_get := (\<lambda>c k ns n s. (case k of KACI \<Rightarrow> Inr (OACI install_aci) | KOACP \<Rightarrow> Inr (OOACP install_cp) | KCluster \<Rightarrow> Inr (OCluster empty_cluster)
        | KSecret \<Rightarrow> if n = ''admin'' then Inr (OSecret admin_secret) else Inl (ApiStatus NotFound) | _ \<Rightarrow> Inl (ApiStatus NotFound), s)),
     k_update := (\<lambda>c ob s. (Inr ob, s)), k_create := (\<lambda>c ob s. (Inr ob, s)), k_status_patch := (\<lambda>c ob nw s. (Inr nw, s))\<rparr>"

lemma install_fields:
  "k_get install_env Mgmt KACI ns n u = (Inr (OACI install_aci), u)" "k_get install_env Mgmt KOACP ns n u = (Inr (OOACP install_cp), u)"
  "k_get install_env Mgmt KCluster ns n u = (Inr (OCluster empty_cluster), u)"
  "k_get install_env Mgmt KSecret ns n u = (if n = ''admin'' then Inr (OSecret admin_secret) else Inl (ApiStatus NotFound), u)"
  "k_update install_env Mgmt ob u = (Inr ob, u)" "k_create install_env Mgmt ob u = (Inr ob, u)" "k_status_patch install_env Mgmt ob nw u = (Inr nw, u)"
  "ac_clusterMetadata install_aci = Some \<lparr>cmd_adminKubeconfigSecretRef = ''admin'', cmd_adminPasswordSecretRef = None\<rparr>"
  "hasKubeconfigRef install_aci" "m_namespace (ac_meta install_aci) = ''n''" "m_ownerReferences (ac_meta install_aci) = [oacp_owner_ref None install_cp]"
  "m_namespace (oacp_meta install_cp) = ''n''" "label_of (oacp_meta install_cp) ClusterNameLabel = ''c''"
  "m_ownerReferences (oacp_meta install_cp) = [\<lparr>or_apiVersion = ''cluster.x-k8s.io/v1beta2'', or_kind = ''Cluster'', or_name = ''c'', or_uid = [], or_controller = None\<rparr>]"
  "se_data admin_secret kubeconfigSecretKey = Some ''kc''" "\<not> isAvailable install_aci"
  by (simp_all add: install_env_def nowhere_def install_aci_def install_cp_def hasKubeconfigRef_def empty_meta_def label_of_def admin_secret_def isAvailable_def)

lemma install_owner: "group_of (or_apiVersion (oacp_owner_ref None ob)) = controlplaneGroup" "or_kind (oacp_owner_ref None ob) = openshiftAssistedControlPlaneKind"
  by (simp_all add: oacp_owner_ref_def group_of_def ParseGroupVersion_def controlplaneGroup_def)

lemma install_parse: "ParseGroupVersion ''cluster.x-k8s.io/v1beta2'' = Some (''cluster.x-k8s.io'', ''v1beta2'')"
  by code_simp

theorem InstallReconcile_status_truthful_witness:
  "\<exists>ob' w p cl. run_state (InstallReconcile install_env ''n'' ''cp'') (start ()) = ((result_zero, None), w)
    \<and> last (w_trace w) = EvStatusPatch Mgmt (OOACP install_cp) (OOACP ob') p
    \<and> oacp_is_true ob' KubeconfigAvailableCondition \<and> kubeconfig_there install_env install_aci install_cp cl (w_trace w)"
proof -
  let ?ob = "report_installation install_aci (kubeconfig_available install_cp)"
  obtain w where w: "run_state (InstallReconcile install_env ''n'' ''cp'') (start ()) = ((result_zero, None), w)"
    "hd (w_trace w) = EvGet Mgmt KACI ''n'' ''cp'' (Inr (OACI install_aci))" "last (w_trace w) = EvStatusPatch Mgmt (OOACP install_cp) (OOACP ?ob) (Inr (OOACP ?ob))"
    by (simp add: InstallReconcile_def install_body_def getOwnerOACP_def GetTypedOwner_def GetOwnerCluster_def get_as_def kcall_defs call_def start_def
        install_fields install_owner install_parse reconcile_kubeconfig_def getACIKubeconfig_def updateLabels_def ClusterKubeconfigSecretExists_def
        createKubeconfig_def Let_def)
  have "?ob \<noteq> install_cp"
  proof
    assume "?ob = install_cp"
    then have "oacp_is_true install_cp KubeconfigAvailableCondition" by (metis report_fields(4) available_fields(3))
    then show False by (simp add: install_cp_def empty_oacp_def oacp_is_true_def is_true_in_def oacp_conditions_def FindStatusCondition_def)
  qed
  then show ?thesis using InstallReconcile_status_truthful [OF w] w by (auto simp: status_truthful_def)
qed

end
