(* ===== verification/ImageRegistry.thy ===== *)
theory ImageRegistry
  imports Json Environment
begin

text \<open>
  \<open>internal/imageregistry/image_registry.go\<close>: the manifests that configure mirror registries on the
  installed cluster, generated from a \<open>registries.conf\<close>. Reading TOML is a library, a parameter;
  the tree it returns is walked as the code walks it. The JSON texts are those of the API types.
\<close>

subsection \<open>Reading registries.conf\<close>

record MirrorConfigs =
  DigestMirrors :: "(string \<times> string list) list"
  TagMirrors :: "(string \<times> string list) list"
  InsecureRegistries :: "string list"

definition toml_string :: "string \<Rightarrow> (string \<times> toml) list \<Rightarrow> string option" where
  "toml_string k t = (case map_of t k of Some (TomlString s) \<Rightarrow> Some s | _ \<Rightarrow> None)"

definition toml_bool :: "string \<Rightarrow> (string \<times> toml) list \<Rightarrow> bool" where
  "toml_bool k t = (case map_of t k of Some (TomlBool b) \<Rightarrow> b | _ \<Rightarrow> False)"

definition toml_trees :: "string \<Rightarrow> (string \<times> toml) list \<Rightarrow> (string \<times> toml) list list option" where
  "toml_trees k t = (case map_of t k of Some (TomlTrees ts) \<Rightarrow> Some ts | _ \<Rightarrow> None)"

text \<open>The loop over the mirrors of one registry: tag mirrors, digest mirrors, insecure registries.\<close>

fun scan_mirrors :: "(string \<times> toml) list list \<Rightarrow> string list \<times> string list \<times> string list \<Rightarrow> (string list \<times> string list \<times> string list) res" where
  "scan_mirrors [] found = Inr found"
| "scan_mirrors (t # ts) (itms, idms, insecure) = (case toml_string ''location'' t of
     None \<Rightarrow> Inl (Errorf ''missing mirror registry location key or the value of location is not a string'')
   | Some mirror \<Rightarrow>
       let insecure' = (if toml_bool ''insecure'' t then insecure @ [mirror] else insecure) in
       if toml_string ''pull-from-mirror'' t = Some ''tag-only'' then scan_mirrors ts (itms @ [mirror], idms, insecure')
       else scan_mirrors ts (itms, idms @ [mirror], insecure'))"

definition parseMirrorRegistries :: "MirrorConfigs \<Rightarrow> (string \<times> toml) list list \<Rightarrow> string \<Rightarrow> MirrorConfigs res" where
  "parseMirrorRegistries mc mirrorTrees source = (case scan_mirrors mirrorTrees ([], [], InsecureRegistries mc) of
     Inl e \<Rightarrow> Inl e
   | Inr (itms, idms, insecure) \<Rightarrow> Inr \<lparr>
       DigestMirrors = DigestMirrors mc @ (if idms = [] then [] else [(source, idms)]),
       TagMirrors = TagMirrors mc @ (if itms = [] then [] else [(source, itms)]),
       InsecureRegistries = insecure\<rparr>)"

fun scan_registries :: "MirrorConfigs \<Rightarrow> (string \<times> toml) list list \<Rightarrow> MirrorConfigs res" where
  "scan_registries mc [] = Inr mc"
| "scan_registries mc (r # rs) = (case toml_string ''location'' r of
     None \<Rightarrow> Inl (Errorf ''failed to parse image registry toml, missing registry location'')
   | Some source \<Rightarrow> (case toml_trees ''mirror'' r of
       None \<Rightarrow> Inl (Errorf ''failed to parse image registry toml, missing registry.mirror in registries.conf'')
     | Some mirrorTrees \<Rightarrow> (case parseMirrorRegistries mc mirrorTrees source of
         Inl e \<Rightarrow> Inl (Wrapf ''failed to parse image mirror registry toml for registry'' e)
       | Inr mc' \<Rightarrow> scan_registries mc' rs)))"

definition getImageRegistries :: "'s env \<Rightarrow> string \<Rightarrow> MirrorConfigs res" where
  "getImageRegistries E registry = (case x_toml E registry of
     Inl e \<Rightarrow> Inl (Wrapf ''failed to load value of registries.conf into toml tree; incorrectly formatted toml'' e)
   | Inr tree \<Rightarrow> (case toml_trees ''registry'' tree of
       None \<Rightarrow> Inl (Errorf ''failed to find registry key in toml tree'')
     | Some registries \<Rightarrow> (case scan_registries \<lparr>DigestMirrors = [], TagMirrors = [], InsecureRegistries = []\<rparr> registries of
         Inl e \<Rightarrow> Inl e
       | Inr mc \<Rightarrow> if DigestMirrors mc = [] \<and> TagMirrors mc = [] then Inl (Errorf ''failed to find any image mirrors in registry.conf'')
           else Inr mc)))"

subsection \<open>The manifests\<close>

definition registryConfKey :: string where "registryConfKey = ''registries.conf''"
definition registryCertKey :: string where "registryCertKey = ''ca-bundle.crt''"
definition imageRegistryName :: string where "imageRegistryName = ''additional-registry''"
definition registryCertConfigMapName :: string where "registryCertConfigMapName = ''additional-registry-certificate''"
definition ImageConfigMapName :: string where "ImageConfigMapName = ''additional-registry-config''"
definition imageDigestMirrorSetKey :: string where "imageDigestMirrorSetKey = ''image-digest-mirror-set.json''"
definition imageTagMirrorSetKey :: string where "imageTagMirrorSetKey = ''image-tag-mirror-set.json''"
definition registryCertConfigMapKey :: string where "registryCertConfigMapKey = ''additional-registry-certificate.json''"
definition imageConfigKey :: string where "imageConfigKey = ''image-config.json''"

definition mirror_json :: "string \<times> string list \<Rightarrow> json" where
  "mirror_json = (\<lambda>(source, mirrors). JObj ((''source'', JStr source) #
     (if mirrors = [] then [] else [(''mirrors'', JArr (List.map JStr mirrors))])))"

definition mirror_set_json :: "string \<Rightarrow> string \<Rightarrow> (string \<times> string list) list \<Rightarrow> json" where
  "mirror_set_json knd field mirrors = JObj [(''kind'', JStr knd), (''apiVersion'', JStr ''config.openshift.io/v1''),
     (''metadata'', JObj [(''name'', JStr imageRegistryName)]),
     (''spec'', JObj [(field, JArr (List.map mirror_json mirrors))]), (''status'', JObj [])]"

definition generateImageDigestMirrorSet :: "(string \<times> string list) list \<Rightarrow> string" where
  "generateImageDigestMirrorSet mirrors = json_text (mirror_set_json ''ImageDigestMirrorSet'' ''imageDigestMirrors'' mirrors)"

definition generateImageTagMirrorSet :: "(string \<times> string list) list \<Rightarrow> string" where
  "generateImageTagMirrorSet mirrors = json_text (mirror_set_json ''ImageTagMirrorSet'' ''imageTagMirrors'' mirrors)"

definition generateRegistyCertificateConfigMap :: "string \<Rightarrow> string" where
  "generateRegistyCertificateConfigMap certificate = json_text (JObj [(''kind'', JStr ''ConfigMap''), (''apiVersion'', JStr ''v1''),
     (''metadata'', JObj [(''name'', JStr registryCertConfigMapName), (''namespace'', JStr ''openshift-config'')]),
     (''data'', JObj [(registryCertKey, JStr certificate)])])"

definition generateOpenshiftImageConfig :: "string list \<Rightarrow> bool \<Rightarrow> string" where
  "generateOpenshiftImageConfig insecureRegistries addRegistryCert = json_text (JObj [(''kind'', JStr ''Image''),
     (''apiVersion'', JStr ''config.openshift.io/v1''), (''metadata'', JObj [(''name'', JStr ''cluster'')]),
     (''spec'', JObj [(''additionalTrustedCA'', JObj [(''name'', JStr (if addRegistryCert then registryCertConfigMapName else []))]),
       (''registrySources'', JObj (if insecureRegistries = [] then [] else [(''insecureRegistries'', JArr (List.map JStr insecureRegistries))])),
       (''imageStreamImportMode'', JStr [])]),
     (''status'', JObj [])])"

definition GenerateImageRegistryData :: "'s env \<Rightarrow> config_map \<Rightarrow> string \<Rightarrow> (string \<rightharpoonup> string) res" where
  "GenerateImageRegistryData E imageRegistry ns = (case cm_data imageRegistry registryConfKey of
     None \<Rightarrow> Inl (Errorf ''failed to find registry key [registries.conf] in configmap for image registry configuration'')
   | Some registryConf \<Rightarrow> (case getImageRegistries E registryConf of
       Inl e \<Rightarrow> Inl e
     | Inr mc \<Rightarrow>
       let registryCert = cm_data imageRegistry registryCertKey;
           d1 = (if DigestMirrors mc \<noteq> [] then [imageDigestMirrorSetKey \<mapsto> generateImageDigestMirrorSet (DigestMirrors mc)] else Map.empty);
           d2 = (if TagMirrors mc \<noteq> [] then d1(imageTagMirrorSetKey \<mapsto> generateImageTagMirrorSet (TagMirrors mc)) else d1);
           d3 = (case registryCert of None \<Rightarrow> d2 | Some cert \<Rightarrow> d2(registryCertConfigMapKey \<mapsto> generateRegistyCertificateConfigMap cert)) in
       Inr (if registryCert \<noteq> None \<or> InsecureRegistries mc \<noteq> []
            then d3(imageConfigKey \<mapsto> generateOpenshiftImageConfig (InsecureRegistries mc) (registryCert \<noteq> None)) else d3)))"

subsection \<open>Every mirror arrives\<close>

text \<open>The mirrors a configuration asks for: source, address, whether for tags only, whether insecure.\<close>

definition wanted_mirrors :: "(string \<times> toml) list list \<Rightarrow> (string \<times> string \<times> bool \<times> bool) list" where
  "wanted_mirrors registries = concat (List.map (\<lambda>r. case (toml_string ''location'' r, toml_trees ''mirror'' r) of
     (Some source, Some ms) \<Rightarrow> List.map (\<lambda>t. (source, the (toml_string ''location'' t),
       toml_string ''pull-from-mirror'' t = Some ''tag-only'', toml_bool ''insecure'' t)) ms
   | _ \<Rightarrow> []) registries)"

definition spread :: "(string \<times> string list) list \<Rightarrow> (string \<times> string) list" where
  "spread ms = concat (List.map (\<lambda>(s, xs). List.map (Pair s) xs) ms)"

definition pairs_of :: "bool \<Rightarrow> (string \<times> string \<times> bool \<times> bool) list \<Rightarrow> (string \<times> string) list" where
  "pairs_of tag ws = List.map (\<lambda>(s, m, _). (s, m)) (filter (\<lambda>(s, m, t, i). t = tag) ws)"

definition insecure_of :: "(string \<times> string \<times> bool \<times> bool) list \<Rightarrow> string list" where
  "insecure_of ws = List.map (\<lambda>(s, m, _). m) (filter (\<lambda>(s, m, t, i). i) ws)"

lemma split_append [simp]: "spread (a @ b) = spread a @ spread b" "pairs_of g (u @ v) = pairs_of g u @ pairs_of g v"
  "insecure_of (u @ v) = insecure_of u @ insecure_of v" "wanted_mirrors (x @ y) = wanted_mirrors x @ wanted_mirrors y"
  by (simp_all add: spread_def pairs_of_def insecure_of_def wanted_mirrors_def)

lemma split_Nil [simp]: "spread [] = []" "pairs_of g [] = []" "insecure_of [] = []" "wanted_mirrors [] = []"
  by (simp_all add: spread_def pairs_of_def insecure_of_def wanted_mirrors_def)

definition mirrors_of :: "string \<Rightarrow> (string \<times> toml) list list \<Rightarrow> (string \<times> string \<times> bool \<times> bool) list" where
  "mirrors_of source ts = List.map (\<lambda>t. (source, the (toml_string ''location'' t),
     toml_string ''pull-from-mirror'' t = Some ''tag-only'', toml_bool ''insecure'' t)) ts"

lemma scan_mirrors_spec:
  "scan_mirrors ts (itms, idms, ins) = Inr (itms', idms', ins') \<Longrightarrow>
    itms' = itms @ List.map snd (pairs_of True (mirrors_of s ts)) \<and> idms' = idms @ List.map snd (pairs_of False (mirrors_of s ts))
    \<and> ins' = ins @ insecure_of (mirrors_of s ts)"
proof (induction ts "(itms, idms, ins)" arbitrary: itms idms ins rule: scan_mirrors.induct)
  case (2 t ts itms idms ins)
  then show ?case
    by (auto simp: mirrors_of_def pairs_of_def insecure_of_def Let_def split: option.splits if_splits)
qed (simp add: mirrors_of_def)

lemma spread_one: "spread (if xs = [] then [] else [(s, xs)]) = List.map (Pair s) xs"
  by (simp add: spread_def)

lemma pairs_of_source: "List.map (Pair s) (List.map snd (pairs_of g (mirrors_of s ts))) = pairs_of g (mirrors_of s ts)"
  by (induction ts) (auto simp: pairs_of_def mirrors_of_def)

lemma parseMirrorRegistries_spec:
  assumes "parseMirrorRegistries mc ts s = Inr mc'"
  shows "spread (TagMirrors mc') = spread (TagMirrors mc) @ pairs_of True (mirrors_of s ts)
    \<and> spread (DigestMirrors mc') = spread (DigestMirrors mc) @ pairs_of False (mirrors_of s ts)
    \<and> InsecureRegistries mc' = InsecureRegistries mc @ insecure_of (mirrors_of s ts)"
proof -
  obtain itms idms ins where sc: "scan_mirrors ts ([], [], InsecureRegistries mc) = Inr (itms, idms, ins)"
    and mc': "mc' = \<lparr>DigestMirrors = DigestMirrors mc @ (if idms = [] then [] else [(s, idms)]),
       TagMirrors = TagMirrors mc @ (if itms = [] then [] else [(s, itms)]), InsecureRegistries = ins\<rparr>"
    using assms by (auto simp: parseMirrorRegistries_def split: sum.splits)
  have "spread (TagMirrors mc') = spread (TagMirrors mc) @ List.map (Pair s) itms" "spread (DigestMirrors mc') = spread (DigestMirrors mc) @ List.map (Pair s) idms"
    "InsecureRegistries mc' = ins" by (simp_all only: mc' MirrorConfigs.simps split_append spread_one)
  then show ?thesis using scan_mirrors_spec [OF sc, of s] pairs_of_source [of s _ ts] by simp
qed

lemma scan_registries_spec:
  "scan_registries mc rs = Inr mc' \<Longrightarrow>
    spread (TagMirrors mc') = spread (TagMirrors mc) @ pairs_of True (wanted_mirrors rs)
    \<and> spread (DigestMirrors mc') = spread (DigestMirrors mc) @ pairs_of False (wanted_mirrors rs)
    \<and> InsecureRegistries mc' = InsecureRegistries mc @ insecure_of (wanted_mirrors rs)"
proof (induction mc rs rule: scan_registries.induct)
  case (2 mc r rs)
  obtain source ts mc1 where r: "toml_string ''location'' r = Some source" "toml_trees ''mirror'' r = Some ts"
    and p: "parseMirrorRegistries mc ts source = Inr mc1" and rec: "scan_registries mc1 rs = Inr mc'"
    using "2.prems" by (auto split: option.splits sum.splits)
  have w: "wanted_mirrors (r # rs) = mirrors_of source ts @ wanted_mirrors rs"
    by (simp add: wanted_mirrors_def mirrors_of_def r)
  show ?case using "2.IH" [OF r p rec] parseMirrorRegistries_spec [OF p] by (simp add: w)
qed simp

text \<open>
  Claim C28. A \<open>registries.conf\<close> that is accepted loses no mirror: the tag mirrors and the digest mirrors of
  the generated manifests, source by source, are exactly the mirrors of the file, in its order,
  divided by \<open>pull-from-mirror\<close>, and the insecure registries are those marked so; there is at least one mirror.
\<close>

theorem getImageRegistries_complete:
  assumes "getImageRegistries E conf = Inr mc"
  shows "\<exists>tree registries. x_toml E conf = Inr tree \<and> toml_trees ''registry'' tree = Some registries
    \<and> spread (TagMirrors mc) = pairs_of True (wanted_mirrors registries)
    \<and> spread (DigestMirrors mc) = pairs_of False (wanted_mirrors registries)
    \<and> InsecureRegistries mc = insecure_of (wanted_mirrors registries)
    \<and> (DigestMirrors mc \<noteq> [] \<or> TagMirrors mc \<noteq> [])"
proof -
  obtain tree registries where t: "x_toml E conf = Inr tree" "toml_trees ''registry'' tree = Some registries"
    and mc: "scan_registries \<lparr>DigestMirrors = [], TagMirrors = [], InsecureRegistries = []\<rparr> registries = Inr mc"
      "\<not> (DigestMirrors mc = [] \<and> TagMirrors mc = [])"
    using assms by (auto simp: getImageRegistries_def split: sum.splits option.splits if_splits)
  show ?thesis using scan_registries_spec [OF mc(1)] t mc(2) by auto
qed

definition demo_toml :: "(string \<times> toml) list" where
  "demo_toml = [(''registry'', TomlTrees [[(''location'', TomlString ''quay.io''),
     (''mirror'', TomlTrees [[(''location'', TomlString ''a:5000''), (''insecure'', TomlBool True)],
        [(''location'', TomlString ''b:5000''), (''pull-from-mirror'', TomlString ''tag-only'')]])]])]"

theorem getImageRegistries_complete_witness:
  "\<exists>mc. getImageRegistries (nowhere\<lparr>x_toml := (\<lambda>t. Inr demo_toml)\<rparr> :: unit env) [] = Inr mc \<and> spread (TagMirrors mc) = [(''quay.io'', ''b:5000'')]
    \<and> spread (DigestMirrors mc) = [(''quay.io'', ''a:5000'')] \<and> InsecureRegistries mc = [''a:5000'']"
proof -
  have "\<exists>mc. getImageRegistries (nowhere\<lparr>x_toml := (\<lambda>t. Inr demo_toml)\<rparr> :: unit env) [] = Inr mc"
    by (simp add: getImageRegistries_def demo_toml_def toml_trees_def toml_string_def toml_bool_def parseMirrorRegistries_def)
  then obtain mc where mc: "getImageRegistries (nowhere\<lparr>x_toml := (\<lambda>t. Inr demo_toml)\<rparr> :: unit env) [] = Inr mc" by blast
  obtain tree registries where t: "Inr demo_toml = (Inr tree :: (string \<times> toml) list res)" "toml_trees ''registry'' tree = Some registries"
    "spread (TagMirrors mc) = pairs_of True (wanted_mirrors registries)" "spread (DigestMirrors mc) = pairs_of False (wanted_mirrors registries)"
    "InsecureRegistries mc = insecure_of (wanted_mirrors registries)"
    using getImageRegistries_complete [OF mc] by auto
  have r: "registries = [[(''location'', TomlString ''quay.io''),
     (''mirror'', TomlTrees [[(''location'', TomlString ''a:5000''), (''insecure'', TomlBool True)],
        [(''location'', TomlString ''b:5000''), (''pull-from-mirror'', TomlString ''tag-only'')]])]]"
    using t(2) unfolding t(1) [THEN sum.inject(2) [THEN iffD1], symmetric] by (simp add: demo_toml_def toml_trees_def)
  show ?thesis using mc t(3-) by (auto simp: r wanted_mirrors_def pairs_of_def insecure_of_def toml_trees_def toml_string_def toml_bool_def)
qed

end
