(* ===== verification/InstallConfig.thy ===== *)
theory InstallConfig
  imports Net Environment
begin

text \<open>
  The install-config override of an AgentClusterInstall, from \<open>clusterdeployment_controller.go\<close>: the
  capabilities a cluster is installed with and their merge into the override the user gave as an
  annotation. A Go map of interface values is the association list of a JSON object; printing a map sorts its
  keys. A panic is a value of its own.
\<close>

subsection \<open>Printing maps\<close>

fun sort_keys :: "json \<Rightarrow> json" where
  "sort_keys (JArr xs) = JArr (List.map sort_keys xs)"
| "sort_keys (JObj m) = JObj (sort_key fst (List.map (\<lambda>(k, v). (k, sort_keys v)) m))"
| "sort_keys v = v"

definition marshal_map :: "(string \<times> json) list \<Rightarrow> string" where
  "marshal_map m = json_text (sort_keys (JObj m))"

subsection \<open>Merging\<close>

text \<open>The loop over the overlay; its keys are those of a map, so its order does not matter.\<close>

function deepMerge :: "(string \<times> json) list \<Rightarrow> (string \<times> json) list \<Rightarrow> (string \<times> json) list" where
  "deepMerge base [] = base"
| "deepMerge base ((key, overlayVal) # overlay) =
    deepMerge (obj_put key (case (map_of base key, overlayVal) of
        (Some (JObj baseMap), JObj overlayMap) \<Rightarrow> JObj (deepMerge baseMap overlayMap)
      | _ \<Rightarrow> overlayVal) base) overlay"
  by pat_completeness auto
termination by (relation "measure (\<lambda>(b, m). size (JObj m))") auto

datatype 'a outcome_of = Panic | Done 'a

text \<open>\<open>json.Unmarshal\<close> into a map: \<open>null\<close> gives the nil map.\<close>

definition unmarshal_map :: "'s env \<Rightarrow> string \<Rightarrow> (string \<times> json) list option res" where
  "unmarshal_map E s = (case parse_json (x_float E) s of
     Some (JObj m) \<Rightarrow> Inr (Some m) | Some JNull \<Rightarrow> Inr None | _ \<Rightarrow> Inl (Errorf ''json: cannot unmarshal''))"

definition mergeJson :: "'s env \<Rightarrow> string \<Rightarrow> string \<Rightarrow> string res outcome_of" where
  "mergeJson E json1 json2 = (case unmarshal_map E json1 of
     Inl e \<Rightarrow> Done (Inl (Wrapf ''failed to unmarshal json1'' e))
   | Inr base \<Rightarrow> (case unmarshal_map E json2 of
       Inl e \<Rightarrow> Done (Inl (Wrapf ''failed to unmarshal json2'' e))
     | Inr overlay \<Rightarrow> (case (base, overlay) of
         (Some b, Some m) \<Rightarrow> Done (Inr (marshal_map (deepMerge b m)))
       | (Some b, None) \<Rightarrow> Done (Inr (marshal_map b))
       | (None, Some (_ # _)) \<Rightarrow> Panic
       | (None, _) \<Rightarrow> Done (Inr ''null''))))"

subsection \<open>Capabilities\<close>

definition defaultBaremetalAdditionalCapabilities :: "string list" where
  "defaultBaremetalAdditionalCapabilities = [''baremetal'', ''Console'', ''Insights'', ''OperatorLifecycleManager'', ''Ingress'',
     ''marketplace'', ''NodeTuning'', ''DeploymentConfig'']"

text \<open>The unanchored pattern \<open>v4\.[0-9]+\<close>.\<close>

fun matches_v4 :: "string \<Rightarrow> bool" where
  "matches_v4 [] = False"
| "matches_v4 (c # s) \<longleftrightarrow> (has_prefix (c # s) ''v4.'' \<and> (case drop 3 (c # s) of d # _ \<Rightarrow> is_digit d | [] \<Rightarrow> False)) \<or> matches_v4 s"

definition getBaselineCapability :: "string \<Rightarrow> bool \<Rightarrow> string res" where
  "getBaselineCapability capability isBaremetal =
    (if capability = ''None'' \<or> capability = ''vCurrent'' then Inr capability
     else if capability = [] then Inr (if isBaremetal then ''None'' else ''vCurrent'')
     else if matches_v4 capability then Inr capability
     else Inl (Errorf ''invalid baseline capability set, must be one of: None, vCurrent, or v4.x''))"

definition add_capability :: "bool \<Rightarrow> string list \<Rightarrow> string \<Rightarrow> string list" where
  "add_capability isBaremetal cs capability =
    (if (to_lower capability = ''machineapi'' \<and> isBaremetal) \<or> capability \<in> set cs then cs else cs @ [capability])"

definition getAdditionalCapabilities :: "string list \<Rightarrow> bool \<Rightarrow> string list" where
  "getAdditionalCapabilities specified isBaremetal =
     foldl (add_capability isBaremetal) (if isBaremetal then defaultBaremetalAdditionalCapabilities else []) specified"

definition isCapabilitiesEmpty :: "capabilities \<Rightarrow> bool" where
  "isCapabilitiesEmpty c \<longleftrightarrow> cap_baselineCapability c = [] \<and> cap_additionalEnabledCapabilities c = []"

definition isBaremetalPlatform :: "aci \<Rightarrow> bool" where "isBaremetalPlatform ac \<longleftrightarrow> ac_platformType ac = ''BareMetal''"

definition capabilities_json :: "string \<Rightarrow> string list \<Rightarrow> json" where
  "capabilities_json baseline additional = JObj [(''capabilities'', JObj (
     (if baseline = [] then [] else [(''baselineCapabilitySet'', JStr baseline)]) @
     (if additional = [] then [] else [(''additionalEnabledCapabilities'', JArr (List.map JStr additional))])))]"

definition getInstallConfigOverrideForCapabilities :: "oacp \<Rightarrow> aci \<Rightarrow> string res" where
  "getInstallConfigOverrideForCapabilities ob ac = (let caps = cfg_capabilities (sp_config (oacp_spec ob)) in
     if isCapabilitiesEmpty caps \<and> \<not> isBaremetalPlatform ac then Inr []
     else (case getBaselineCapability (cap_baselineCapability caps) (isBaremetalPlatform ac) of
       Inl e \<Rightarrow> Inl e
     | Inr baseline \<Rightarrow> Inr (json_text (capabilities_json baseline
         (getAdditionalCapabilities (cap_additionalEnabledCapabilities caps) (isBaremetalPlatform ac))))))"

definition InstallConfigOverrideAnnotation :: string where
  "InstallConfigOverrideAnnotation = ''controlplane.cluster.x-k8s.io/install-config-override''"

definition getInstallConfigOverride :: "'s env \<Rightarrow> oacp \<Rightarrow> aci \<Rightarrow> string res outcome_of" where
  "getInstallConfigOverride E ob ac =
    (let given = (case m_annotations (oacp_meta ob) InstallConfigOverrideAnnotation of Some s \<Rightarrow> s | None \<Rightarrow> []) in
     case getInstallConfigOverrideForCapabilities ob ac of
       Inl e \<Rightarrow> Done (Inl e)
     | Inr caps \<Rightarrow>
         if given = [] \<and> caps = [] then Done (Inr [])
         else if caps = [] then Done (Inr given)
         else if given = [] then Done (Inr caps)
         else mergeJson E given caps)"

subsection \<open>Keys\<close>

text \<open>Values whose objects have no repeated key, as every parsed value.\<close>

fun keyed :: "json \<Rightarrow> bool" where
  "keyed (JArr xs) \<longleftrightarrow> (\<forall>x \<in> set xs. keyed x)"
| "keyed (JObj m) \<longleftrightarrow> distinct (List.map fst m) \<and> (\<forall>(k, v) \<in> set m. keyed v)"
| "keyed _ \<longleftrightarrow> True"

lemma plain_keyed: "plain v \<Longrightarrow> keyed v"
  by (induction v rule: keyed.induct) auto

lemma keyed_member: "keyed (JObj m) \<Longrightarrow> map_of m k = Some v \<Longrightarrow> keyed v"
  using map_of_SomeD by fastforce

lemma obj_put_members: "set (obj_put k v m) \<subseteq> insert (k, v) (set m)"
  by (induction m) (auto split: if_splits)

lemma keyed_obj_put: "keyed (JObj m) \<Longrightarrow> keyed v \<Longrightarrow> keyed (JObj (obj_put k v m))"
  using obj_put_members [of k v m] by (auto simp: distinct_obj_put)

lemma keyed_mk_obj: "(\<forall>(k, v) \<in> set kvs. keyed v) \<Longrightarrow> keyed (mk_obj kvs)"
proof -
  have "keyed (JObj m) \<Longrightarrow> (\<forall>(k, v) \<in> set kvs. keyed v) \<Longrightarrow> keyed (JObj (foldl (\<lambda>m (k, v). obj_put k v m) m kvs))" for m
  proof (induction kvs arbitrary: m)
    case (Cons kv kvs)
    obtain k v where kv: "kv = (k, v)" by (cases kv)
    have "keyed (JObj (obj_put k v m))" by (rule keyed_obj_put [OF Cons.prems(1)]) (use Cons.prems(2) kv in auto)
    then show ?case using Cons.IH [of "obj_put k v m"] Cons.prems(2) by (simp add: kv del: keyed.simps)
  qed simp
  from this [of "[]"] show "(\<forall>(k, v) \<in> set kvs. keyed v) \<Longrightarrow> keyed (mk_obj kvs)" by (simp add: mk_obj_def)
qed

lemma number_value_keyed: "number_value fl s = Some v \<Longrightarrow> keyed v"
  by (auto simp: number_value_def split: if_splits)

lemma p_value_keyed:
  "p_value fl n s = Some (v, r) \<Longrightarrow> keyed v"
  "p_elems fl n s = Some (vs, r) \<Longrightarrow> \<forall>x \<in> set vs. keyed x"
  "p_members fl n s = Some (kvs, r) \<Longrightarrow> \<forall>(k, x) \<in> set kvs. keyed x"
proof (induction fl n s and fl n s and fl n s arbitrary: v r and vs r and kvs r rule: p_value_p_elems_p_members.induct)
  case (2 fl n s)
  obtain c t where c: "skip_ws s = c # t" using "2.prems" by (cases "skip_ws s") auto
  show ?case
  proof (cases "c = CHR ''[''")
    case True
    then show ?thesis using "2.prems" "2.IH"(1) [OF c] c by (auto split: list.splits if_splits)
  next
    case arr: False
    show ?thesis
    proof (cases "c = CHR ''{''")
      case True
      then show ?thesis using "2.prems" "2.IH"(2) [OF c] c keyed_mk_obj by (fastforce split: list.splits if_splits)
    next
      case False
      then show ?thesis using "2.prems" arr c
        by (auto simp: p_literal_def p_number_def number_value_keyed split: if_splits)
    qed
  qed
next
  case (4 fl n s)
  then show ?case by (fastforce split: option.splits list.splits if_splits)
next
  case (6 fl n s)
  then show ?case by (fastforce split: option.splits list.splits if_splits prod.splits)
qed simp_all

lemma parse_json_keyed: "parse_json fl s = Some v \<Longrightarrow> keyed v"
  by (auto simp: parse_json_def p_value_keyed(1) simp del: p_value.simps split: option.splits if_splits)

subsection \<open>Laws of the merge\<close>

definition merge_value :: "json option \<Rightarrow> json \<Rightarrow> json" where
  "merge_value old new = (case (old, new) of (Some (JObj b), JObj m) \<Rightarrow> JObj (deepMerge b m) | _ \<Rightarrow> new)"

lemma deepMerge_step: "deepMerge base ((k, v) # overlay) = deepMerge (obj_put k (merge_value (map_of base k) v) base) overlay"
  by (simp add: merge_value_def)

lemma map_of_deepMerge:
  "distinct (List.map fst overlay) \<Longrightarrow> map_of (deepMerge base overlay) k =
    (case map_of overlay k of None \<Rightarrow> map_of base k | Some v \<Rightarrow> Some (merge_value (map_of base k) v))"
proof (induction overlay arbitrary: base)
  case (Cons kv overlay)
  obtain k' v where kv: "kv = (k', v)" by (cases kv)
  have "map_of overlay k' = None" using Cons.prems kv by (auto simp: map_of_eq_None_iff)
  then show ?case using Cons kv by (auto simp: deepMerge_step simp del: deepMerge.simps split: option.split)
qed simp

text \<open>
  Whether a path leaves the overlay at a key it does not have. On such paths the merged value is the base,
  on the others the overlay's leaf.
\<close>

fun untouched :: "string list \<Rightarrow> json \<Rightarrow> bool" where
  "untouched (k # ks) (JObj m) = (case map_of m k of None \<Rightarrow> True | Some v \<Rightarrow> untouched ks v)"
| "untouched _ _ = False"

definition is_object :: "json \<Rightarrow> bool" where
  "is_object v \<longleftrightarrow> (case v of JObj _ \<Rightarrow> True | _ \<Rightarrow> False)"

lemma untouched_absent: "untouched ks v \<Longrightarrow> nested_field ks v = None"
  by (induction ks v rule: untouched.induct) (auto split: option.splits)

lemma merge_base_kept:
  "keyed (JObj overlay) \<Longrightarrow> untouched ks (JObj overlay) \<Longrightarrow> nested_field ks (JObj (deepMerge base overlay)) = nested_field ks (JObj base)"
proof (induction ks arbitrary: base overlay)
  case (Cons k ks)
  have d: "distinct (List.map fst overlay)" using Cons.prems(1) by simp
  show ?case
  proof (cases "map_of overlay k")
    case None
    then show ?thesis using Cons.prems by (simp add: map_of_deepMerge)
  next
    case (Some w)
    have un: "untouched ks w" using Cons.prems Some by simp
    have kw: "keyed w" using keyed_member [OF Cons.prems(1) Some] .
    obtain m where w: "w = JObj m" using un by (cases w; cases ks) auto
    show ?thesis
    proof (cases "\<exists>b. map_of base k = Some (JObj b)")
      case True
      then obtain b where "map_of base k = Some (JObj b)" by blast
      then show ?thesis using Cons.IH [of m b] un kw Some Cons.prems by (simp add: d map_of_deepMerge merge_value_def w del: keyed.simps(2))
    next
      case False
      then have "merge_value (map_of base k) w = w" by (auto simp: merge_value_def w split: option.splits json.splits)
      moreover have "nested_field (k # ks) (JObj base) = None"
        using False un by (cases "map_of base k"; cases ks) (auto split: json.splits, metis json.exhaust nested_field.simps)
      ultimately show ?thesis using untouched_absent [OF un] Cons.prems Some by (simp add: map_of_deepMerge)
    qed
  qed
qed simp

lemma merge_overlay_wins:
  "keyed (JObj overlay) \<Longrightarrow> nested_field ks (JObj overlay) = Some v \<Longrightarrow> \<not> is_object v \<Longrightarrow>
    nested_field ks (JObj (deepMerge base overlay)) = Some v"
proof (induction ks arbitrary: base overlay)
  case (Cons k ks)
  have d: "distinct (List.map fst overlay)" using Cons.prems(1) by simp
  obtain w where w: "map_of overlay k = Some w" "nested_field ks w = Some v" using Cons.prems(2) by (auto split: option.splits)
  have kw: "keyed w" using keyed_member [OF Cons.prems(1) w(1)] .
  show ?case
  proof (cases "\<exists>b m. map_of base k = Some (JObj b) \<and> w = JObj m")
    case True
    then obtain b m where "map_of base k = Some (JObj b)" "w = JObj m" by blast
    then show ?thesis using Cons.IH [of m b] w kw Cons.prems by (simp add: d map_of_deepMerge merge_value_def del: keyed.simps(2))
  next
    case False
    then have "merge_value (map_of base k) w = w" by (auto simp: merge_value_def split: option.splits json.splits)
    then show ?thesis using w Cons.prems by (simp add: map_of_deepMerge)
  qed
qed (auto simp: is_object_def)

lemma distinct_keys_sort [simp]: "distinct (List.map fst (sort_key fst m)) = distinct (List.map fst m)"
  by (simp add: distinct_map)

lemma map_of_sort_key: "distinct (List.map fst m) \<Longrightarrow> map_of (sort_key fst m) = map_of m"
  by (subst map_of_inject_set) simp_all

lemma keys_sorted [simp]: "List.map (fst \<circ> (\<lambda>(k, v). (k, f v))) m = List.map fst m"
  by auto

lemma map_of_map_snd: "map_of (List.map (\<lambda>(k, v). (k, f v)) m) k = map_option f (map_of m k)"
  by (induction m) auto

lemma nested_field_sort_keys: "keyed v \<Longrightarrow> nested_field ks (sort_keys v) = map_option sort_keys (nested_field ks v)"
proof (induction ks arbitrary: v)
  case (Cons k ks)
  show ?case
  proof (cases v)
    case (JObj m)
    have d: "distinct (List.map fst (List.map (\<lambda>(k, v). (k, sort_keys v)) m))" using Cons.prems JObj by simp
    show ?thesis using Cons.IH keyed_member [of m k] Cons.prems
      by (auto simp: JObj map_of_sort_key [OF d] map_of_map_snd simp del: keyed.simps split: option.split)
  qed simp_all
qed simp

lemma plain_sort_keys: "plain v \<Longrightarrow> plain (sort_keys v)"
proof (induction v rule: sort_keys.induct)
  case (2 m)
  have d: "distinct (List.map fst m)" and p: "\<And>k y. (k, y) \<in> set m \<Longrightarrow> plain y" using "2.prems" by auto
  have "plain y'" if mem: "(k, y') \<in> set (List.map (\<lambda>(k, v). (k, sort_keys v)) m)" for k y'
  proof -
    obtain y where y: "(k, y) \<in> set m" "y' = sort_keys y" using mem by auto
    show ?thesis using "2.IH" [OF y(1) refl p [OF y(1)]] y(2) by simp
  qed
  then have "\<forall>(k, y) \<in> set (sort_key fst (List.map (\<lambda>(k, v). (k, sort_keys v)) m)). plain y" unfolding set_sort by blast
  then show ?case using d by simp
qed auto

lemma keyed_deepMerge: "keyed (JObj base) \<Longrightarrow> keyed (JObj overlay) \<Longrightarrow> keyed (JObj (deepMerge base overlay))"
proof (induction base overlay rule: deepMerge.induct)
  case (2 base k v overlay)
  have mv: "keyed (merge_value (map_of base k) v)"
  proof (cases "\<exists>b m. map_of base k = Some (JObj b) \<and> v = JObj m")
    case True
    then obtain b m where bm: "map_of base k = Some (JObj b)" "v = JObj m" by blast
    have "keyed (JObj b)" using keyed_member [OF "2.prems"(1) bm(1)] .
    then show ?thesis using "2.IH"(1) [of "Some (JObj b)" "JObj m" "JObj b" b m] bm "2.prems"(2) by (simp add: merge_value_def)
  next
    case False
    then have "merge_value (map_of base k) v = v" by (auto simp: merge_value_def split: option.splits json.splits)
    then show ?thesis using "2.prems"(2) by simp
  qed
  have "keyed (JObj (obj_put k (merge_value (map_of base k) v) base))" by (rule keyed_obj_put [OF "2.prems"(1) mv])
  then show ?case using "2.IH"(2) "2.prems"(2) by (simp add: merge_value_def)
qed simp

lemma plain_deepMerge: "plain (JObj base) \<Longrightarrow> plain (JObj overlay) \<Longrightarrow> plain (JObj (deepMerge base overlay))"
proof (induction base overlay rule: deepMerge.induct)
  case (2 base k v overlay)
  have mv: "plain (merge_value (map_of base k) v)"
  proof (cases "\<exists>b m. map_of base k = Some (JObj b) \<and> v = JObj m")
    case True
    then obtain b m where bm: "map_of base k = Some (JObj b)" "v = JObj m" by blast
    have "plain (JObj b)" using "2.prems"(1) map_of_SomeD [OF bm(1)] by fastforce
    then show ?thesis using "2.IH"(1) [of "Some (JObj b)" "JObj m" "JObj b" b m] bm "2.prems"(2) by (simp add: merge_value_def)
  next
    case False
    then have "merge_value (map_of base k) v = v" by (auto simp: merge_value_def split: option.splits json.splits)
    then show ?thesis using "2.prems"(2) by simp
  qed
  have "plain (JObj (obj_put k (merge_value (map_of base k) v) base))"
    using "2.prems"(1) mv obj_put_members [of k "merge_value (map_of base k) v" base] by (auto simp: distinct_obj_put)
  then show ?case using "2.IH"(2) "2.prems"(2) by (simp add: merge_value_def)
qed simp

subsection \<open>The override\<close>

lemma foldl_add_capability:
  "set (foldl (add_capability b) cs xs) = set cs \<union> {x \<in> set xs. \<not> (to_lower x = ''machineapi'' \<and> b)}"
  "distinct cs \<Longrightarrow> distinct (foldl (add_capability b) cs xs)"
  "\<exists>more. foldl (add_capability b) cs xs = cs @ more"
proof (induction xs arbitrary: cs)
  case (Cons x xs)
  { case 1
    show ?case using Cons.IH(1) [of "add_capability b cs x"] by (auto simp: add_capability_def)
  next
    case 2
    then show ?case using Cons.IH(2) [of "add_capability b cs x"] by (auto simp: add_capability_def)
  next
    case 3
    show ?case using Cons.IH(3) [of "add_capability b cs x"] by (auto simp: add_capability_def)
  }
qed simp_all

text \<open>
  The capabilities a cluster gets: each once, the defaults of bare metal first, then those asked for in their order, without
  the machine API on bare metal whatever its spelling.
\<close>

lemma getAdditionalCapabilities_set:
  "set (getAdditionalCapabilities specified b) =
    (if b then set defaultBaremetalAdditionalCapabilities else {}) \<union> {c \<in> set specified. \<not> (to_lower c = ''machineapi'' \<and> b)}"
  "distinct (getAdditionalCapabilities specified b)"
  "\<exists>more. getAdditionalCapabilities specified b = (if b then defaultBaremetalAdditionalCapabilities else []) @ more"
  unfolding getAdditionalCapabilities_def foldl_add_capability(1)
  by (simp, rule foldl_add_capability(2), simp add: defaultBaremetalAdditionalCapabilities_def, rule foldl_add_capability(3))

lemma capabilities_json_plain: "plain (capabilities_json b cs)"
  by (auto simp: capabilities_json_def)

lemma getBaselineCapability_nonempty: "getBaselineCapability c b = Inr baseline \<Longrightarrow> baseline \<noteq> []"
  by (auto simp: getBaselineCapability_def split: if_splits)

text \<open>
  Claim C26. The capabilities of a cluster always win and nothing else of a user's install-config override is
  lost: when the override is a JSON object, the text given to the installer is that of a value whose
  baseline and additional capabilities are the computed ones, and on every path that does not lead to one of
  these two it reads as the override; when the override has only numbers a float holds, the
  text parses back to exactly that value.
\<close>

theorem getInstallConfigOverride_merges:
  fixes ob ac
  defines "caps \<equiv> cfg_capabilities (sp_config (oacp_spec ob))"
  assumes "m_annotations (oacp_meta ob) InstallConfigOverrideAnnotation = Some given" "given \<noteq> []"
    and "parse_json (x_float E) given = Some (JObj user)"
    and "\<not> isCapabilitiesEmpty caps \<or> isBaremetalPlatform ac"
    and "getBaselineCapability (cap_baselineCapability caps) (isBaremetalPlatform ac) = Inr baseline"
  shows "\<exists>v. getInstallConfigOverride E ob ac = Done (Inr (json_text v))
    \<and> nested_field [''capabilities'', ''baselineCapabilitySet''] v = Some (JStr baseline)
    \<and> (let cs = getAdditionalCapabilities (cap_additionalEnabledCapabilities caps) (isBaremetalPlatform ac) in
        if cs = [] then True else nested_field [''capabilities'', ''additionalEnabledCapabilities''] v = Some (JArr (List.map JStr cs)))
    \<and> (\<forall>ks. untouched ks (capabilities_json baseline (getAdditionalCapabilities (cap_additionalEnabledCapabilities caps) (isBaremetalPlatform ac)))
        \<longrightarrow> nested_field ks v = map_option sort_keys (nested_field ks (JObj user)))
    \<and> (if plain (JObj user) then parse_json (x_float E) (json_text v) = Some v else True)"
proof -
  let ?cs = "getAdditionalCapabilities (cap_additionalEnabledCapabilities caps) (isBaremetalPlatform ac)"
  let ?c = "capabilities_json baseline ?cs"
  obtain m where m: "?c = JObj m" by (simp add: capabilities_json_def)
  have km: "keyed (JObj m)" using plain_keyed [OF capabilities_json_plain] m by metis
  have ku: "keyed (JObj user)" using parse_json_keyed [OF assms(4)] .
  let ?merged = "JObj (deepMerge user m)"
  have kmerged: "keyed ?merged" by (rule keyed_deepMerge [OF ku km])
  have cj: "getInstallConfigOverrideForCapabilities ob ac = Inr (json_text ?c)"
    using assms(5,6) by (auto simp: getInstallConfigOverrideForCapabilities_def Let_def caps_def)
  have ne: "json_text ?c \<noteq> []" by (simp add: capabilities_json_def)
  have out: "getInstallConfigOverride E ob ac = Done (Inr (json_text (sort_keys ?merged)))"
    using assms(2-4) cj ne parse_json_text [OF capabilities_json_plain, of "x_float E" baseline ?cs]
    by (simp add: getInstallConfigOverride_def Let_def mergeJson_def unmarshal_map_def marshal_map_def m)
  have win: "nested_field ks (sort_keys ?merged) = map_option sort_keys (Some x)"
    if "nested_field ks (JObj m) = Some x" "\<not> is_object x" for ks x
    using merge_overlay_wins [OF km that] by (simp only: nested_field_sort_keys [OF kmerged])
  have base: "nested_field [''capabilities'', ''baselineCapabilitySet''] (JObj m) = Some (JStr baseline)"
    using getBaselineCapability_nonempty [OF assms(6)] m by (auto simp: capabilities_json_def)
  have adds: "?cs \<noteq> [] \<Longrightarrow> nested_field [''capabilities'', ''additionalEnabledCapabilities''] (JObj m) = Some (JArr (List.map JStr ?cs))"
    using m by (auto simp: capabilities_json_def)
  show ?thesis
  proof (intro exI conjI)
    show "getInstallConfigOverride E ob ac = Done (Inr (json_text (sort_keys ?merged)))" by (rule out)
    show "nested_field [''capabilities'', ''baselineCapabilitySet''] (sort_keys ?merged) = Some (JStr baseline)"
      using win [OF base] by (simp add: is_object_def)
    show "let cs = ?cs in if cs = [] then True else nested_field [''capabilities'', ''additionalEnabledCapabilities''] (sort_keys ?merged) = Some (JArr (List.map JStr cs))"
      using win [OF adds] by (simp add: is_object_def Let_def comp_def)
    show "\<forall>ks. untouched ks ?c \<longrightarrow> nested_field ks (sort_keys ?merged) = map_option sort_keys (nested_field ks (JObj user))"
      using merge_base_kept [OF km] by (simp add: m nested_field_sort_keys [OF kmerged] del: keyed.simps sort_keys.simps)
    show "if plain (JObj user) then parse_json (x_float E) (json_text (sort_keys ?merged)) = Some (sort_keys ?merged) else True"
      using parse_json_text [OF plain_sort_keys [OF plain_deepMerge]] capabilities_json_plain [of baseline ?cs] m by (simp del: plain.simps sort_keys.simps)
  qed
qed

definition override_cp :: "string \<Rightarrow> oacp" where
  "override_cp t = empty_oacp\<lparr>oacp_meta := empty_meta\<lparr>m_annotations := [InstallConfigOverrideAnnotation \<mapsto> t]\<rparr>\<rparr>"

definition metal_aci :: aci where "metal_aci = empty_aci\<lparr>ac_platformType := ''BareMetal''\<rparr>"

lemma override_fields:
  "m_annotations (oacp_meta (override_cp t)) InstallConfigOverrideAnnotation = Some t" "isBaremetalPlatform metal_aci"
  "cfg_capabilities (sp_config (oacp_spec (override_cp t))) = \<lparr>cap_baselineCapability = [], cap_additionalEnabledCapabilities = []\<rparr>"
  by (simp_all add: override_cp_def metal_aci_def isBaremetalPlatform_def empty_oacp_def empty_config_def)

theorem getInstallConfigOverride_merges_witness:
  "\<exists>v. getInstallConfigOverride nowhere (override_cp ''{\"a\":1}'') metal_aci = Done (Inr (json_text v))
    \<and> nested_field [''capabilities'', ''baselineCapabilitySet''] v = Some (JStr ''None'') \<and> nested_field [''a''] v = Some (JInt 1)"
proof -
  have p: "parse_json (x_float nowhere) ''{\"a\":1}'' = Some (JObj [(''a'', JInt 1)])" by code_simp
  have b: "getBaselineCapability (cap_baselineCapability (cfg_capabilities (sp_config (oacp_spec (override_cp ''{\"a\":1}''))))) (isBaremetalPlatform metal_aci) = Inr ''None''"
    by (simp add: override_fields getBaselineCapability_def)
  show ?thesis
    using getInstallConfigOverride_merges [OF override_fields(1) _ p _ b] override_fields(2)
    by (fastforce simp: capabilities_json_def)
qed

text \<open>An override that is the JSON text \<open>null\<close> makes the merge write into a nil map.\<close>

lemma null_override_panics: "getInstallConfigOverride nowhere (override_cp ''null'') metal_aci = Panic"
proof -
  have p: "parse_json (x_float nowhere) ''null'' = Some JNull" by code_simp
  have q: "parse_json (x_float nowhere) (json_text (capabilities_json b cs)) = Some (capabilities_json b cs)" for b cs
    by (rule parse_json_text [OF capabilities_json_plain])
  show ?thesis
    by (simp add: getInstallConfigOverride_def Let_def getInstallConfigOverrideForCapabilities_def override_fields getBaselineCapability_def mergeJson_def
        unmarshal_map_def p q) (simp add: capabilities_json_def)
qed

text \<open>The pattern of baselines is not anchored.\<close>

lemma loose_baseline: "getBaselineCapability ''not-v4.1-at-all'' b = Inr ''not-v4.1-at-all''"
proof -
  have "matches_v4 ''not-v4.1-at-all''" by code_simp
  then show ?thesis by (simp add: getBaselineCapability_def)
qed

end
