(* ===== verification/TenantManifests.thy ===== *)
theory TenantManifests
  imports KubeVirt Net
begin

text \<open>
  The manifests that are injected into a KubeVirt tenant: \<open>manifests.go\<close>, the texts of \<open>dns.go\<close> and the node port of
  \<open>mcs_proxy.go\<close>. The texts are those of the source, line by line, with the values it formats into them.
\<close>

subsection \<open>What a control plane asks for\<close>

definition podNet :: "oacp \<Rightarrow> bool" where
  "podNet acp = IsPodNetworking (cfg_apiVIPs (sp_config (oacp_spec acp))) (cfg_ingressVIPs (sp_config (oacp_spec acp)))"

definition bridgeNet :: "oacp \<Rightarrow> bool" where
  "bridgeNet acp = IsBridgeNetworking (cfg_apiVIPs (sp_config (oacp_spec acp))) (cfg_ingressVIPs (sp_config (oacp_spec acp)))"

definition ccmEnabled :: "oacp \<Rightarrow> bool" where
  "ccmEnabled acp \<longleftrightarrow> cfg_cloudControllerManager (sp_config (oacp_spec acp)) = Some True"

definition csiEnabled :: "oacp \<Rightarrow> bool" where
  "csiEnabled acp \<longleftrightarrow> (case cfg_csiDriver (sp_config (oacp_spec acp)) of None \<Rightarrow> False | Some d \<Rightarrow> csi_enabled d)"

definition CCMManifestsConfigMapName :: string where "CCMManifestsConfigMapName = ''kubevirt-ccm-manifests''"
definition CSIManifestsConfigMapName :: string where "CSIManifestsConfigMapName = ''kubevirt-csi-manifests''"
definition InfraCredentialsCMName :: string where "InfraCredentialsCMName = ''kubevirt-infra-credentials-manifests''"
definition TenantDNSFwdConfigName :: string where "TenantDNSFwdConfigName = ''kubevirt-tenant-dns-fwd-manifests''"
definition DNSProxyConfigMapName :: string where "DNSProxyConfigMapName = ''kubevirt-dns-proxy-manifests''"
definition PodNetDNSFixManifestsConfigMapName :: string where "PodNetDNSFixManifestsConfigMapName = ''kubevirt-pod-net-dns-fix-manifests''"
definition NetworkMTUConfigMapName :: string where "NetworkMTUConfigMapName = ''kubevirt-network-mtu-manifests''"
definition MCSManifestsConfigName :: string where "MCSManifestsConfigName = ''kubevirt-mcs-manifests''"
definition ResolvFixManifestsConfigMapName :: string where "ResolvFixManifestsConfigMapName = ''kubevirt-resolv-fix-manifests''"

lemma bridge_or_pod: "bridgeNet acp \<longleftrightarrow> \<not> podNet acp"
  by (auto simp: bridgeNet_def podNet_def IsBridgeNetworking_def IsPodNetworking_def)

subsection \<open>Manifests and indentation\<close>

record ManifestEntry =
  Filename :: string
  Content :: string

fun splitLines_from :: "string \<Rightarrow> string \<Rightarrow> string list" where
  "splitLines_from cur [] = (if cur = [] then [] else [cur])"
| "splitLines_from cur (c # s) = (if c = CHR 0x0A then cur # splitLines_from [] s else splitLines_from (cur @ [c]) s)"

definition splitLines :: "string \<Rightarrow> string list" where
  "splitLines s = splitLines_from [] s"

definition indent_line :: "string \<Rightarrow> string" where
  "indent_line l = (if l = [] then [] else ''    '' @ l)"

definition indentMultiline :: "string \<Rightarrow> string" where
  "indentMultiline s = str_join [CHR 0x0A] (List.map indent_line (splitLines s))"

subsection \<open>Node configuration and network, \<open>manifests.go\<close>\<close>

definition GenerateResolvFixManifests :: "ManifestEntry list" where
  "GenerateResolvFixManifests = [\<lparr>Filename = ''00-fix-resolv-firstboot.yaml'', Content = text_lines [
     ''apiVersion: machineconfiguration.openshift.io/v1'',
     ''kind: MachineConfig'',
     ''metadata:'',
     ''  name: 00-fix-resolv-firstboot'',
     ''  labels:'',
     ''    machineconfiguration.openshift.io/role: master'',
     ''spec:'',
     ''  config:'',
     ''    ignition:'',
     ''      version: 3.2.0'',
     ''    systemd:'',
     ''      units:'',
     ''      - name: fix-resolv-firstboot.service'',
     ''        enabled: true'',
     ''        contents: |'',
     ''          [Unit]'',
     ''          Description=Ensure working DNS before resolv-prepender on first boot'',
     ''          Before=on-prem-resolv-prepender.service nodeip-configuration.service'',
     ''          After=NetworkManager-wait-online.service'',
     ''          ConditionPathExists=/run/NetworkManager/resolv.conf'',
     [],
     ''          [Service]'',
     ''          Type=oneshot'',
     ''          ExecStart=/bin/bash -c 'TIMEOUT=120; ELAPSED=0; while ! grep -q nameserver /run/NetworkManager/resolv.conf 2>/dev/null; do sleep 0.5; ELAPSED=$((ELAPSED+1)); if [ $ELAPSED -ge $((TIMEOUT*2)) ]; then echo \"Timed out waiting for nameserver in resolv.conf\" >&2; exit 1; fi; done; cp /run/NetworkManager/resolv.conf /etc/resolv.conf'' @ [CHR 0x27],
     [],
     ''          [Install]'',
     ''          WantedBy=multi-user.target'']\<rparr>]"

definition ethtoolUdevRule :: string where
  "ethtoolUdevRule = text_lines [
     ''ACTION==\"add\", SUBSYSTEM==\"net\", NAME==\"enp1s0\", RUN+=\"/usr/sbin/ethtool -K enp1s0 tx-checksum-ip-generic off tx off tso off\"'']"

text \<open>The configurations for masters and workers differ in name and role.\<close>

definition pod_network_config :: "string \<Rightarrow> string \<Rightarrow> string \<Rightarrow> string \<Rightarrow> string" where
  "pod_network_config name role resolvConfB64 ethtoolUdevRuleB64 = text_lines [
     ''apiVersion: machineconfiguration.openshift.io/v1'',
     ''kind: MachineConfig'',
     ''metadata:'',
     ''  name: '' @ name,
     ''  labels:'',
     ''    machineconfiguration.openshift.io/role: '' @ role,
     ''spec:'',
     ''  config:'',
     ''    ignition:'',
     ''      version: 3.2.0'',
     ''    storage:'',
     ''      files:'',
     ''      - path: /etc/resolv.conf'',
     ''        mode: 0644'',
     ''        overwrite: true'',
     ''        contents:'',
     ''          source: \"data:text/plain;charset=utf-8;base64,'' @ resolvConfB64 @ ''\"'',
     ''      - path: /etc/NetworkManager/conf.d/99-capoa-dns.conf'',
     ''        mode: 0644'',
     ''        overwrite: true'',
     ''        contents:'',
     ''          source: \"data:text/plain;charset=utf-8;base64,W21haW5dCmRucz1ub25lCg==\"'',
     ''      - path: /etc/udev/rules.d/99-capoa-fix-tx-offload.rules'',
     ''        mode: 0644'',
     ''        overwrite: true'',
     ''        contents:'',
     ''          source: \"data:text/plain;charset=utf-8;base64,'' @ ethtoolUdevRuleB64 @ ''\"'',
     ''    systemd:'',
     ''      units:'',
     ''      - name: nodeip-configuration.service'',
     ''        enabled: false'',
     ''      - name: set-node-ip.service'',
     ''        enabled: true'',
     ''        contents: |'',
     ''          [Unit]'',
     ''          Description=Set node IP for kubelet (replaces nodeip-configuration for KubeVirt pod-network VMs)'',
     ''          Before=kubelet-dependencies.target'',
     ''          After=NetworkManager-wait-online.service'',
     [],
     ''          [Service]'',
     ''          Type=oneshot'',
     ''          ExecStart=/bin/bash -c 'NODE_IP=$(ip -4 -o addr show enp1s0 | head -1 | cut -d\" \" -f4 | cut -d/ -f1); mkdir -p /etc/systemd/system/kubelet.service.d; echo -e \"[Service]'' @ [CHR 0x5C] @ ''nEnvironment='' @ [CHR 0x5C] @ ''\"KUBELET_NODE_IP=$$NODE_IP'' @ [CHR 0x5C] @ ''\"\" > /etc/systemd/system/kubelet.service.d/20-nodenet.conf; systemctl daemon-reload'' @ [CHR 0x27],
     [],
     ''          [Install]'',
     ''          RequiredBy=kubelet-dependencies.target'']"

definition resolvConf :: "string \<Rightarrow> string" where
  "resolvConf infraCoreDNSIP = text_lines [''nameserver '' @ infraCoreDNSIP, ''search cluster.local svc.cluster.local'', ''options ndots:5'']"

definition GeneratePodNetworkDNSFixManifests :: "string \<Rightarrow> ManifestEntry list" where
  "GeneratePodNetworkDNSFixManifests infraCoreDNSIP =
    (let ip = (if infraCoreDNSIP = [] then defaultInfraCoreDNSIP else infraCoreDNSIP);
         resolvConfB64 = b64_encode (resolvConf ip); ethtoolUdevRuleB64 = b64_encode ethtoolUdevRule in
     [\<lparr>Filename = ''00-fix-dns-pod-network.yaml'', Content = pod_network_config ''00-fix-dns-pod-network'' ''master'' resolvConfB64 ethtoolUdevRuleB64\<rparr>,
      \<lparr>Filename = ''00-fix-dns-pod-network-worker.yaml'', Content = pod_network_config ''00-fix-dns-pod-network-worker'' ''worker'' resolvConfB64 ethtoolUdevRuleB64\<rparr>])"

definition KubeVirtTenantClusterMTU :: int where "KubeVirtTenantClusterMTU = 1300"

definition GenerateNetworkMTUManifests :: "ManifestEntry list" where
  "GenerateNetworkMTUManifests = [\<lparr>Filename = ''01-cluster-network-mtu.yaml'', Content = text_lines [
     ''apiVersion: operator.openshift.io/v1'',
     ''kind: Network'',
     ''metadata:'',
     ''  name: cluster'',
     ''spec:'',
     ''  defaultNetwork:'',
     ''    ovnKubernetesConfig:'',
     ''      mtu: '' @ dec_int KubeVirtTenantClusterMTU,
     ''      genevePort: 9880'']\<rparr>]"

definition network_yaml :: "string \<Rightarrow> string" where
  "network_yaml spec = text_lines [
     ''apiVersion: operator.openshift.io/v1'',
     ''kind: Network'',
     ''metadata:'',
     ''  name: cluster'',
     ''spec:''] @ spec"

definition GenerateNetworkManifests :: "oacp \<Rightarrow> ManifestEntry list" where
  "GenerateNetworkManifests ob = (case cfg_network (sp_config (oacp_spec ob)) of
     Some (Some ovn) \<Rightarrow>
       if ovn_mtu ovn = None \<and> ovn_genevePort ovn = None then []
       else [\<lparr>Filename = ''01-cluster-network-config.yaml'', Content = network_yaml (
         text_lines [''  defaultNetwork:'', ''    ovnKubernetesConfig:''] @
         (case ovn_mtu ovn of None \<Rightarrow> [] | Some mtu \<Rightarrow> text_lines [''      mtu: '' @ dec_int (uint mtu)]) @
         (case ovn_genevePort ovn of None \<Rightarrow> [] | Some port \<Rightarrow> text_lines [''      genevePort: '' @ dec_int (uint port)]))\<rparr>]
   | _ \<Rightarrow> [])"

subsection \<open>Name resolution, \<open>dns.go\<close>\<close>

definition DefaultCoreDNSImage :: string where "DefaultCoreDNSImage = ''quay.io/openshift/origin-coredns:latest''"

definition GetCoreDNSImage :: "'s env \<Rightarrow> string \<Rightarrow> string" where
  "GetCoreDNSImage E resolved = (if resolved \<noteq> [] then resolved
     else if x_getenv E ''RELATED_IMAGE_COREDNS'' \<noteq> [] then x_getenv E ''RELATED_IMAGE_COREDNS'' else DefaultCoreDNSImage)"

definition ParseIP :: "string \<Rightarrow> ip_addr option" where
  "ParseIP s = (case ParseAddr s of Some (ip, zone) \<Rightarrow> if zone = [] then Some ip else None | None \<Rightarrow> None)"

definition dnsRecordType :: "string \<Rightarrow> string" where
  "dnsRecordType ip = (case ParseIP ip of Some a \<Rightarrow> if is_v4 a then ''A'' else ''AAAA'' | None \<Rightarrow> ''A'')"

definition api_answer :: "string \<Rightarrow> string \<Rightarrow> string \<Rightarrow> string" where
  "api_answer host fqdn ip = text_lines [''        answer \"'' @ host @ ''.'' @ fqdn @ '' 60 IN '' @ dnsRecordType ip @ '' '' @ ip @ ''\"'']"

definition api_answers :: "string \<Rightarrow> string \<Rightarrow> string \<Rightarrow> string list \<Rightarrow> string" where
  "api_answers rt host fqdn apiIPs = concat (List.map (api_answer host fqdn) (filter (\<lambda>ip. dnsRecordType ip = rt) apiIPs))"

definition api_templates :: "string \<Rightarrow> string \<Rightarrow> string \<Rightarrow> string list \<Rightarrow> string" where
  "api_templates rt fqdn escapedFQDN apiIPs =
    (let apiAnswers = api_answers rt ''api'' fqdn apiIPs; apiIntAnswers = api_answers rt ''api-int'' fqdn apiIPs in
     if apiAnswers = [] then [] else text_lines [
     [],
     ''    template IN '' @ rt @ '' api.'' @ fqdn @ '' {'',
     ''        match \"^api[.]'' @ escapedFQDN @ ''[.]$\"'',
     apiAnswers @ ''        fallthrough'',
     ''    }'',
     [],
     ''    template IN '' @ rt @ '' api-int.'' @ fqdn @ '' {'',
     ''        match \"^api-int[.]'' @ escapedFQDN @ ''[.]$\"'',
     apiIntAnswers @ ''        fallthrough'',
     ''    }''])"

definition forward_only_corefile :: "string \<Rightarrow> string \<Rightarrow> string" where
  "forward_only_corefile fqdn upstreamDNS = text_lines [
     fqdn @ '':5353 {'',
     ''    errors'',
     ''    log'',
     ''    reload 10s'',
     [],
     ''    template IN AAAA {'',
     ''        match \".*\"'',
     ''        rcode NOERROR'',
     ''    }'',
     [],
     ''    template IN ANY {'',
     ''        match \".*\"'',
     ''        rcode NOERROR'',
     ''    }'',
     [],
     ''    forward . '' @ upstreamDNS,
     ''    cache 30'',
     ''}'']"

definition generateCorefile :: "string \<Rightarrow> string \<Rightarrow> string list \<Rightarrow> string list \<Rightarrow> string" where
  "generateCorefile fqdn upstreamDNS apiIPs ingressIPs =
    (let escapedFQDN = replace_all CHR ''.'' ''[.]'' fqdn;
         templates = api_templates ''A'' fqdn escapedFQDN apiIPs @ api_templates ''AAAA'' fqdn escapedFQDN apiIPs in
     if apiIPs = [] \<and> ingressIPs = [] then forward_only_corefile fqdn upstreamDNS
     else text_lines [
     fqdn @ '':5353 {'',
     ''    errors'',
     ''    log'',
     ''    reload 10s'',
     templates,
     ''    template IN AAAA {'',
     ''        match \".*\"'',
     ''        rcode NOERROR'',
     ''    }'',
     [],
     ''    template IN ANY {'',
     ''        match \".*\"'',
     ''        rcode NOERROR'',
     ''    }'',
     [],
     ''    template IN A {'',
     ''        match \".*\"'',
     ''        rcode NXDOMAIN'',
     ''    }'',
     [],
     ''    cache 30'',
     ''}''])"

definition generateAppsCorefile :: "string \<Rightarrow> string" where
  "generateAppsCorefile fqdn = text_lines [
     ''apps.'' @ fqdn @ '':5353 {'',
     ''    file /etc/coredns/apps.db'',
     ''    reload 10s'',
     ''    errors'',
     ''    log'',
     ''}'']"

definition zone_record :: "string \<Rightarrow> string" where
  "zone_record ip = text_lines [''*  60   IN '' @ dnsRecordType ip @ ''   '' @ ip]"

definition generateAppsZoneFile :: "string \<Rightarrow> string list \<Rightarrow> string" where
  "generateAppsZoneFile fqdn ingressIPs = text_lines [
     ''$ORIGIN apps.'' @ fqdn @ ''.'',
     ''@  3600 IN SOA ns.tenant-dns.svc.cluster.local. admin.tenant-dns.svc.cluster.local. '' @ dec_nat (unat (zoneSerial ingressIPs)) @ '' 3600 900 604800 30'',
     ''@  3600 IN NS  ns.tenant-dns.svc.cluster.local.''] @ concat (List.map zone_record ingressIPs)"

definition dns_proxy_config :: "string \<Rightarrow> string \<Rightarrow> string \<Rightarrow> string" where
  "dns_proxy_config namespace corefileContent appsDbContent = text_lines [
     ''apiVersion: v1'',
     ''kind: ConfigMap'',
     ''metadata:'',
     ''  name: tenant-dns-corefile'',
     ''  namespace: '' @ namespace,
     ''data:'',
     ''  Corefile: |'',
     indentMultiline corefileContent,
     ''  apps.db: |'',
     indentMultiline appsDbContent]"

definition dns_proxy_daemonset :: "'s env \<Rightarrow> string \<Rightarrow> string" where
  "dns_proxy_daemonset E namespace = text_lines [
     ''apiVersion: apps/v1'',
     ''kind: DaemonSet'',
     ''metadata:'',
     ''  name: tenant-dns-proxy'',
     ''  namespace: '' @ namespace,
     ''  labels:'',
     ''    app: tenant-dns-proxy'',
     ''spec:'',
     ''  selector:'',
     ''    matchLabels:'',
     ''      app: tenant-dns-proxy'',
     ''  template:'',
     ''    metadata:'',
     ''      labels:'',
     ''        app: tenant-dns-proxy'',
     ''    spec:'',
     ''      hostNetwork: true'',
     ''      dnsPolicy: ClusterFirstWithHostNet'',
     ''      tolerations:'',
     ''        - operator: Exists'',
     ''      containers:'',
     ''        - name: coredns'',
     ''          image: '' @ GetCoreDNSImage E [],
     ''          args: [\"-conf\", \"/etc/coredns/Corefile\"]'',
     ''          ports:'',
     ''            - containerPort: 5353'',
     ''              protocol: UDP'',
     ''              hostPort: 5353'',
     ''            - containerPort: 5353'',
     ''              protocol: TCP'',
     ''              hostPort: 5353'',
     ''          volumeMounts:'',
     ''            - name: config'',
     ''              mountPath: /etc/coredns'',
     ''              readOnly: true'',
     ''          resources:'',
     ''            requests:'',
     ''              cpu: 10m'',
     ''              memory: 32Mi'',
     ''            limits:'',
     ''              memory: 64Mi'',
     ''      volumes:'',
     ''        - name: config'',
     ''          configMap:'',
     ''            name: tenant-dns-corefile'']"

definition GenerateDNSProxyManifestsWithIPs :: "'s env \<Rightarrow> string \<Rightarrow> string \<Rightarrow> string \<Rightarrow> string \<Rightarrow> string list \<Rightarrow> string list \<Rightarrow> ManifestEntry list" where
  "GenerateDNSProxyManifestsWithIPs E clusterName baseDomain namespace infraClusterDNSServiceIP apiIPs ingressIPs =
    (let fqdn = clusterName @ ''.'' @ baseDomain;
         corefileContent = generateAppsCorefile fqdn @ generateCorefile fqdn infraClusterDNSServiceIP apiIPs ingressIPs;
         appsDbContent = generateAppsZoneFile fqdn ingressIPs in
     [\<lparr>Filename = ''01-dns-proxy-configmap.yaml'', Content = dns_proxy_config namespace corefileContent appsDbContent\<rparr>,
      \<lparr>Filename = ''02-dns-proxy-daemonset.yaml'', Content = dns_proxy_daemonset E namespace\<rparr>])"

definition GenerateDNSProxyManifests :: "'s env \<Rightarrow> string \<Rightarrow> string \<Rightarrow> string \<Rightarrow> string \<Rightarrow> ManifestEntry list" where
  "GenerateDNSProxyManifests E clusterName baseDomain namespace infraClusterDNSServiceIP =
     GenerateDNSProxyManifestsWithIPs E clusterName baseDomain namespace infraClusterDNSServiceIP [] []"

definition forward_upstream :: "string \<Rightarrow> string" where
  "forward_upstream ip = text_lines [''          - \"'' @ ip @ '':5353\"'']"

definition GenerateTenantDNSForwarderManifests :: "string \<Rightarrow> string list \<Rightarrow> ManifestEntry list" where
  "GenerateTenantDNSForwarderManifests fqdn ips =
    (if ips = [] then [\<lparr>Filename = ''99-tenant-dns-forwarder.yaml'', Content = text_lines [
     ''apiVersion: operator.openshift.io/v1'',
     ''kind: DNS'',
     ''metadata:'',
     ''  name: default'',
     ''spec:'',
     ''  servers:'',
     ''    - name: infra-domain-forwarder'',
     ''      zones:'',
     ''        - \"'' @ fqdn @ ''\"'',
     ''      forwardPlugin:'',
     ''        upstreams:'',
     ''          - \"172.30.0.10:53\"'',
     ''        policy: Random'']\<rparr>]
     else [\<lparr>Filename = ''99-tenant-dns-forwarder.yaml'', Content = text_lines [
     ''apiVersion: operator.openshift.io/v1'',
     ''kind: DNS'',
     ''metadata:'',
     ''  name: default'',
     ''spec:'',
     ''  servers:'',
     ''    - name: infra-domain-forwarder'',
     ''      zones:'',
     ''        - \"'' @ fqdn @ ''\"'',
     ''      forwardPlugin:'',
     ''        upstreams:'',
     concat (List.map forward_upstream ips) @ ''        policy: Random'']\<rparr>])"

definition GenerateMCSNodePortManifests :: "ManifestEntry list" where
  "GenerateMCSNodePortManifests = [\<lparr>Filename = ''01-mcs-nodeport-service.yaml'', Content = text_lines [
     ''apiVersion: v1'',
     ''kind: Service'',
     ''metadata:'',
     ''  name: machine-config-server-nodeport'',
     ''  namespace: openshift-machine-config-operator'',
     ''spec:'',
     ''  type: NodePort'',
     ''  selector:'',
     ''    k8s-app: machine-config-server'',
     ''  ports:'',
     ''  - name: mcs-http'',
     ''    port: 22624'',
     ''    targetPort: 22624'',
     ''    nodePort: '' @ dec_int MCSNodePort,
     ''    protocol: TCP'']\<rparr>]"

end
