(* ===== verification/ClusterDeployment.thy ===== *)
theory ClusterDeployment
  imports ClusterInstall ImageRegistry InstallConfig TenantManifests
begin

text \<open>
  The ClusterDeployment controller, \<open>clusterdeployment_controller.go\<close>: from the control plane and its
  cluster it makes the ClusterImageSet with the digest of the release image, the manifests of a
  mirror registry, and the AgentClusterInstall.

  What the controller does for KubeVirt clusters in between (\<open>reconcileKubeVirtInfra\<close>) is an argument of the
  definitions here; it returns the control plane as it is in memory afterwards and how the pass ends.
\<close>

subsection \<open>CreateOrPatch\<close>

text \<open>
  \<open>controllerutil.CreateOrPatch\<close> with a mutation that may fail or panic. Nothing is written when the mutation changes
  nothing; none of the mutations here touches the key or the status.
\<close>

definition CreateOrPatch ::
  "'s env \<Rightarrow> kind \<Rightarrow> (kobj \<Rightarrow> 'a option) \<Rightarrow> ('a \<Rightarrow> kobj) \<Rightarrow> string \<Rightarrow> string \<Rightarrow> 'a \<Rightarrow> ('a \<Rightarrow> 'a res outcome_of) \<Rightarrow> ('s, goerr option outcome_of) prog" where
  "CreateOrPatch E k as_a OA ns n fresh mutate = do {
     r \<leftarrow> get_as E as_a Mgmt k ns n;
     case r of
       Inl e \<Rightarrow> if \<not> is_not_found e then ret (Done (Some e))
         else (case mutate fresh of
           Panic \<Rightarrow> ret Panic
         | Done (Inl e') \<Rightarrow> ret (Done (Some e'))
         | Done (Inr a') \<Rightarrow> do {
             c \<leftarrow> kcreate E Mgmt (OA a');
             ret (Done (err_of c)) })
     | Inr a \<Rightarrow> (case mutate a of
           Panic \<Rightarrow> ret Panic
         | Done (Inl e') \<Rightarrow> ret (Done (Some e'))
         | Done (Inr a') \<Rightarrow> if OA a' = OA a then ret (Done None) else do {
             p \<leftarrow> kpatch E Mgmt (OA a) (OA a');
             ret (Done (err_of p)) }) }"

definition ensureClusterImageSet :: "'s env \<Rightarrow> string \<Rightarrow> string \<Rightarrow> ('s, goerr option outcome_of) prog" where
  "ensureClusterImageSet E imageSetName releaseImage =
     CreateOrPatch E KImageSet as_image_set OImageSet [] imageSetName \<lparr>is_meta = empty_meta\<lparr>m_name := imageSetName\<rparr>, is_releaseImage = []\<rparr>
       (\<lambda>imageSet. Done (Inr (imageSet\<lparr>is_releaseImage := releaseImage\<rparr>)))"

definition createImageRegistry :: "'s env \<Rightarrow> string \<Rightarrow> string \<Rightarrow> ('s, goerr option outcome_of) prog" where
  "createImageRegistry E registryName registryNamespace = do {
     r \<leftarrow> get_as E as_config_map Mgmt KConfigMap registryNamespace registryName;
     case r of
       Inl e \<Rightarrow> ret (Done (Some e))
     | Inr registryConfigmap \<Rightarrow> (case GenerateImageRegistryData E registryConfigmap registryNamespace of
         Inl e \<Rightarrow> ret (Done (Some e))
       | Inr data \<Rightarrow> CreateOrPatch E KConfigMap as_config_map OConfigMap registryNamespace ImageConfigMapName
           \<lparr>cm_meta = empty_meta\<lparr>m_name := ImageConfigMapName, m_namespace := registryNamespace\<rparr>, cm_data = Map.empty\<rparr>
           (\<lambda>cm. Done (Inr (cm\<lparr>cm_data := data\<rparr>)))) }"

subsection \<open>Parts of the AgentClusterInstall\<close>

text \<open>The replicas of the machine deployments; a missing count is dereferenced.\<close>

fun sum_replicas :: "int \<Rightarrow> machine_deployment list \<Rightarrow> int outcome_of" where
  "sum_replicas count [] = Done count"
| "sum_replicas count (md # mds) = (case md_replicas md of None \<Rightarrow> Panic | Some n \<Rightarrow> sum_replicas (count + sint n) mds)"

definition getWorkerNodesCount :: "'s env \<Rightarrow> cluster \<Rightarrow> ('s, int outcome_of) prog" where
  "getWorkerNodesCount E cl = do {
     r \<leftarrow> list_as E as_machine_deployment Mgmt KMachineDeployment \<lparr>lo_namespace = [], lo_labels = [(ClusterNameLabel, m_name (cl_meta cl))]\<rparr>;
     ret (case r of Inl _ \<Rightarrow> Done 0 | Inr mds \<Rightarrow> sum_replicas 0 mds) }"

definition host_prefix :: "string \<Rightarrow> int" where
  "host_prefix cidr = (case ParseCIDR cidr of Some ip \<Rightarrow> if is_v4 ip then 23 else 64 | None \<Rightarrow> 23)"

definition getClusterNetworks :: "cluster \<Rightarrow> (string \<times> int) list \<times> string list" where
  "getClusterNetworks cl =
    (let clusterNetwork = List.map (\<lambda>cidr. (cidr, host_prefix cidr)) (cl_podCIDRs cl); serviceNetwork = cl_serviceCIDRs cl in
     (if isKubeVirtInfra cl \<and> clusterNetwork = [] then [(''10.132.0.0/14'', 23)] else clusterNetwork,
      if isKubeVirtInfra cl \<and> serviceNetwork = [] then [''172.31.0.0/16''] else serviceNetwork))"


definition getClusterAdditionalManifestRefs :: "oacp \<Rightarrow> cluster \<Rightarrow> string list" where
  "getClusterAdditionalManifestRefs acp cl =
     cfg_manifestsConfigMapRefs (sp_config (oacp_spec acp)) @
     (if cfg_imageRegistryRef (sp_config (oacp_spec acp)) \<noteq> None then [ImageConfigMapName] else []) @
     (if \<not> isKubeVirtInfra cl then [] else
       (if ccmEnabled acp \<and> podNet acp then [CCMManifestsConfigMapName] else []) @
       (if csiEnabled acp then [CSIManifestsConfigMapName] else []) @
       (if csiEnabled acp \<or> ccmEnabled acp then [InfraCredentialsCMName] else []) @
       (if podNet acp then [TenantDNSFwdConfigName, PodNetDNSFixManifestsConfigMapName, NetworkMTUConfigMapName, MCSManifestsConfigName] else []) @
       (if bridgeNet acp then [ResolvFixManifestsConfigMapName] else []))"

definition getAgentClusterInstallPlatformType :: "oacp \<Rightarrow> cluster \<Rightarrow> string" where
  "getAgentClusterInstallPlatformType acp cl =
    (if isKubeVirtInfra cl then (if bridgeNet acp then ''BareMetal'' else ''None'')
     else if bridgeNet acp then ''BareMetal'' else ''None'')"

text \<open>The name of the platform and the type of its cloud controller manager.\<close>

definition getExternalPlatformSpec :: "oacp \<Rightarrow> cluster \<Rightarrow> string \<times> string" where
  "getExternalPlatformSpec acp cl = (if isKubeVirtInfra cl then (''KubeVirt'', if ccmEnabled acp \<and> podNet acp then ''External'' else []) else ([], []))"

subsection \<open>The AgentClusterInstall\<close>

definition InstallConfigOverrides :: string where "InstallConfigOverrides = ''agent-install.openshift.io/install-config-overrides''"
definition ClusterConsumerLabel :: string where "ClusterConsumerLabel = ''agentclusterinstalls.agent-install.openshift.io/consumer''"

definition installNotStarted :: "aci \<Rightarrow> bool" where
  "installNotStarted ac \<longleftrightarrow> ac_state ac \<in> {[], ''insufficient'', ''ready'', ''pending-for-input''}"

text \<open>Everything the mutation sets before the install-config override.\<close>

definition desired_spec :: "'s env \<Rightarrow> oacp \<Rightarrow> cluster \<Rightarrow> cluster_deployment \<Rightarrow> int \<Rightarrow> aci \<Rightarrow> aci" where
  "desired_spec E ob cl cd workerNodes ac =
    (let cfg = sp_config (oacp_spec ob); platform = getAgentClusterInstallPlatformType ob cl;
         labels = (ControlPlaneMachineLabelsForCluster E ob (label_of (cd_meta cd) ClusterNameLabel))(ClusterConsumerLabel \<mapsto> openshiftAssistedControlPlaneKind) in
     ac\<lparr>ac_meta := (try_owner (oacp_meta ob) (oacp_owner_ref None ob) (ac_meta ac))\<lparr>m_labels := labels\<rparr>,
        ac_clusterDeploymentRef := m_name (cd_meta cd),
        ac_platformType := platform,
        ac_externalPlatformSpec := (if platform = ''External'' then Some (getExternalPlatformSpec ob cl) else None),
        ac_controlPlaneAgents := sint (sp_replicas (oacp_spec ob)),
        ac_workerAgents := workerNodes,
        ac_diskEncryption := cfg_diskEncryption cfg,
        ac_mastersSchedulable := cfg_mastersSchedulable cfg,
        ac_proxy := cfg_proxy cfg,
        ac_sshPublicKey := cfg_sshAuthorizedKey cfg,
        ac_imageSetRef := Some (m_name (cd_meta cd)),
        ac_clusterNetwork := fst (getClusterNetworks cl),
        ac_serviceNetwork := snd (getClusterNetworks cl),
        ac_networkType := cfg_networkType cfg,
        ac_machineNetwork := cfg_machineNetwork cfg,
        ac_manifestsConfigMapRefs := (if installNotStarted ac then getClusterAdditionalManifestRefs ob cl else ac_manifestsConfigMapRefs ac),
        ac_apiVIPs := (if bridgeNet ob then cfg_apiVIPs cfg else ac_apiVIPs ac),
        ac_ingressVIPs := (if bridgeNet ob then cfg_ingressVIPs cfg else ac_ingressVIPs ac)\<rparr>)"

definition ignition_endpoint :: "cluster_deployment \<Rightarrow> string" where
  "ignition_endpoint cd = ''http://'' @ label_of (cd_meta cd) ClusterNameLabel @ ''-mcs-proxy.'' @ m_namespace (cd_meta cd) @
     ''.svc.cluster.local:8624/config/worker''"

definition password_set :: "aci \<Rightarrow> bool" where
  "password_set ac \<longleftrightarrow> (case ac_clusterMetadata ac of None \<Rightarrow> False | Some md \<Rightarrow> cmd_adminPasswordSecretRef md \<noteq> None)"

definition set_override :: "string \<Rightarrow> aci \<Rightarrow> aci" where
  "set_override s ac = (if s = [] then ac
     else ac\<lparr>ac_meta := (ac_meta ac)\<lparr>m_annotations := (m_annotations (ac_meta ac))(InstallConfigOverrides \<mapsto> s)\<rparr>\<rparr>)"

definition set_endpoint :: "cluster \<Rightarrow> cluster_deployment \<Rightarrow> aci \<Rightarrow> aci" where
  "set_endpoint cl cd ac = (if isKubeVirtInfra cl \<and> password_set ac then ac\<lparr>ac_ignitionEndpoint := Some (ignition_endpoint cd)\<rparr> else ac)"

definition desired_aci :: "'s env \<Rightarrow> oacp \<Rightarrow> cluster \<Rightarrow> cluster_deployment \<Rightarrow> int \<Rightarrow> aci \<Rightarrow> aci res outcome_of" where
  "desired_aci E ob cl cd workerNodes ac = (let ac1 = desired_spec E ob cl cd workerNodes ac in
     case getInstallConfigOverride E ob ac1 of
       Panic \<Rightarrow> Panic
     | Done (Inl e) \<Rightarrow> Done (Inl e)
     | Done (Inr s) \<Rightarrow> Done (Inr (set_endpoint cl cd (set_override s ac1))))"

definition ensureAgentClusterInstall :: "'s env \<Rightarrow> cluster_deployment \<Rightarrow> oacp \<Rightarrow> cluster \<Rightarrow> ('s, goerr option outcome_of) prog" where
  "ensureAgentClusterInstall E cd ob cl = do {
     w \<leftarrow> getWorkerNodesCount E cl;
     case w of
       Panic \<Rightarrow> ret Panic
     | Done workerNodes \<Rightarrow>
         CreateOrPatch E KACI as_aci OACI (m_namespace (cd_meta cd)) (m_name (cd_meta cd))
           (empty_aci\<lparr>ac_meta := empty_meta\<lparr>m_name := m_name (cd_meta cd), m_namespace := m_namespace (cd_meta cd)\<rparr>\<rparr>)
           (desired_aci E ob cl cd workerNodes) }"

definition updateClusterDeploymentRef :: "'s env \<Rightarrow> cluster_deployment \<Rightarrow> ('s, goerr option) prog" where
  "updateClusterDeploymentRef E cd =
    (let expectedRef = (''extensions.hive.openshift.io'', ''v1beta1'', ''AgentClusterInstall'', m_name (cd_meta cd)) in
     if cd_installRef cd = Some expectedRef then ret None
     else do {
       u \<leftarrow> kupdate E Mgmt (OClusterDeployment (cd\<lparr>cd_installRef := Some expectedRef\<rparr>));
       ret (err_of u) })"

subsection \<open>Reconcile\<close>

type_synonym pass_end = "(ctrl_result \<times> goerr option) outcome_of"
type_synonym 's kubevirt_step = "oacp \<Rightarrow> cluster_deployment \<Rightarrow> string \<Rightarrow> ('s, (oacp \<times> ctrl_result \<times> goerr option) outcome_of) prog"

text \<open>A step that may fail or panic, and what follows it.\<close>

definition on_success :: "('s, goerr option outcome_of) prog \<Rightarrow> ('s, pass_end) prog \<Rightarrow> ('s, pass_end) prog" where
  "on_success m k = do {
     r \<leftarrow> m;
     case r of Panic \<Rightarrow> ret Panic | Done (Some e) \<Rightarrow> ret (Done (result_zero, Some e)) | Done None \<Rightarrow> k }"

definition finish_install :: "'s env \<Rightarrow> cluster_deployment \<Rightarrow> oacp \<Rightarrow> cluster \<Rightarrow> ('s, pass_end) prog" where
  "finish_install E cd acp cl =
     on_success (ensureAgentClusterInstall E cd acp cl) (do {
       u \<leftarrow> updateClusterDeploymentRef E cd;
       ret (Done (case u of
         Some e \<Rightarrow> (result_zero, Some e)
       | None \<Rightarrow> if isKubeVirtInfra cl \<and> podNet acp \<and> \<not> oacp_is_true acp KubeconfigAvailableCondition
           then (requeue_after 30, None) else (result_zero, None))) })"

definition deploy_cluster :: "'s env \<Rightarrow> 's kubevirt_step \<Rightarrow> cluster_deployment \<Rightarrow> oacp \<Rightarrow> string \<Rightarrow> ('s, pass_end) prog" where
  "deploy_cluster E kv cd acp releaseImageWithDigest = do {
     c \<leftarrow> GetOwnerCluster E (oacp_meta acp);
     case c of
       Inl e \<Rightarrow> ret (Done (result_zero, Some e))
     | Inr None \<Rightarrow> ret (Done (requeue_after 10, None))
     | Inr (Some cl) \<Rightarrow>
         on_success (case cfg_imageRegistryRef (sp_config (oacp_spec acp)) of
             None \<Rightarrow> ret (Done None)
           | Some ref \<Rightarrow> createImageRegistry E ref (m_namespace (oacp_meta acp)))
         (if isKubeVirtInfra cl then do {
            k \<leftarrow> kv acp cd releaseImageWithDigest;
            case k of
              Panic \<Rightarrow> ret Panic
            | Done (acp', res, err) \<Rightarrow>
                if err \<noteq> None \<or> res \<noteq> result_zero then ret (Done (res, err)) else finish_install E cd acp' cl }
          else finish_install E cd acp cl) }"

definition ClusterDeploymentReconcile :: "'s env \<Rightarrow> 's remoteImage \<Rightarrow> 's kubevirt_step \<Rightarrow> string \<Rightarrow> string \<Rightarrow> ('s, pass_end) prog" where
  "ClusterDeploymentReconcile E R kv ns name = do {
     r \<leftarrow> get_as E as_cluster_deployment Mgmt KClusterDeployment ns name;
     case r of
       Inl e \<Rightarrow> ret (Done (result_zero, ignore_not_found e))
     | Inr cd \<Rightarrow> do {
         a \<leftarrow> get_as E as_oacp Mgmt KOACP (m_namespace (cd_meta cd)) (m_name (cd_meta cd));
         case a of
           Inl e \<Rightarrow> ret (Done (result_zero, ignore_not_found e))
         | Inr acp \<Rightarrow> do {
             ar \<leftarrow> getArchitectureFromBootstrapConfigs E acp;
             case ar of
               Inl e \<Rightarrow> ret (Done (result_zero, Some e))
             | Inr arch \<Rightarrow> do {
                 ps \<leftarrow> GetPullSecret E acp;
                 case ps of
                   Inl e \<Rightarrow> ret (Done (result_zero, Some (Wrapf ''failed to get pull secret for digest resolution'' e)))
                 | Inr pullSecret \<Rightarrow> do {
                     d \<leftarrow> GetReleaseImageWithDigest E (getReleaseImage acp arch) pullSecret R;
                     case d of
                       Inl e \<Rightarrow> ret (Done (result_zero, Some (Wrapf ''failed to resolve release image digest'' e)))
                     | Inr img \<Rightarrow> on_success (ensureClusterImageSet E (m_name (cd_meta cd)) img) (deploy_cluster E kv cd acp img) } } } } }"

subsection \<open>What the mutation of the AgentClusterInstall does\<close>

lemma refer_same_oacp: "refer_same (oacp_owner_ref c ob) (oacp_owner_ref c ob)"
  by (simp add: refer_same_def oacp_owner_ref_def ParseGroupVersion_def controlplaneGroup_def)

lemma upsert_owner_twice: "refer_same r r \<Longrightarrow> upsert_owner r (upsert_owner r rs) = upsert_owner r rs"
  by (induction rs) auto

lemma try_owner_twice: "refer_same r r \<Longrightarrow> try_owner ow r (try_owner ow r m) = try_owner ow r m"
  by (simp add: try_owner_def add_owner_def owner_allowed_def upsert_owner_twice)

lemma try_owner_other [simp]:
  "m_name (try_owner ow r m) = m_name m" "m_namespace (try_owner ow r m) = m_namespace m"
  "m_annotations (try_owner ow r m) = m_annotations m"
  by (simp_all add: try_owner_def)

lemma try_owner_update:
  "(try_owner ow r m)\<lparr>m_labels := l\<rparr> = try_owner ow r (m\<lparr>m_labels := l\<rparr>)"
  "(try_owner ow r m)\<lparr>m_annotations := a\<rparr> = try_owner ow r (m\<lparr>m_annotations := a\<rparr>)"
  by (simp_all add: try_owner_def owner_allowed_def add_owner_def)

lemma desired_spec_other [simp]:
  "ac_state (desired_spec E ob cl cd w ac) = ac_state ac" "ac_clusterMetadata (desired_spec E ob cl cd w ac) = ac_clusterMetadata ac"
  "ac_platformType (desired_spec E ob cl cd w ac) = getAgentClusterInstallPlatformType ob cl"
  "installNotStarted (desired_spec E ob cl cd w ac) = installNotStarted ac" "password_set (desired_spec E ob cl cd w ac) = password_set ac"
  by (simp_all add: desired_spec_def Let_def installNotStarted_def password_set_def)

lemma getAgentClusterInstallPlatformType_cases: "getAgentClusterInstallPlatformType ob cl = (if bridgeNet ob then ''BareMetal'' else ''None'')"
  by (simp add: getAgentClusterInstallPlatformType_def)

lemma desired_spec_fields [simp]:
  "ac_manifestsConfigMapRefs (desired_spec E ob cl cd w ac) = (if installNotStarted ac then getClusterAdditionalManifestRefs ob cl else ac_manifestsConfigMapRefs ac)"
  "m_name (ac_meta (desired_spec E ob cl cd w ac)) = m_name (ac_meta ac)" "m_namespace (ac_meta (desired_spec E ob cl cd w ac)) = m_namespace (ac_meta ac)"
  "ac_externalPlatformSpec (desired_spec E ob cl cd w ac) = None"
  "ac_controlPlaneAgents (desired_spec E ob cl cd w ac) = sint (sp_replicas (oacp_spec ob))" "ac_workerAgents (desired_spec E ob cl cd w ac) = w"
  by (simp_all add: desired_spec_def Let_def getAgentClusterInstallPlatformType_cases)

lemma set_fields [simp]:
  "ac_manifestsConfigMapRefs (set_override t ac) = ac_manifestsConfigMapRefs ac" "ac_manifestsConfigMapRefs (set_endpoint cl cd ac) = ac_manifestsConfigMapRefs ac"
  "m_name (ac_meta (set_override t ac)) = m_name (ac_meta ac)" "m_name (ac_meta (set_endpoint cl cd ac)) = m_name (ac_meta ac)"
  "m_namespace (ac_meta (set_override t ac)) = m_namespace (ac_meta ac)" "m_namespace (ac_meta (set_endpoint cl cd ac)) = m_namespace (ac_meta ac)"
  "ac_externalPlatformSpec (set_override t ac) = ac_externalPlatformSpec ac" "ac_externalPlatformSpec (set_endpoint cl cd ac) = ac_externalPlatformSpec ac"
  "ac_controlPlaneAgents (set_override t ac) = ac_controlPlaneAgents ac" "ac_controlPlaneAgents (set_endpoint cl cd ac) = ac_controlPlaneAgents ac"
  "ac_workerAgents (set_override t ac) = ac_workerAgents ac" "ac_workerAgents (set_endpoint cl cd ac) = ac_workerAgents ac"
  by (simp_all add: set_override_def set_endpoint_def)

lemma set_override_other [simp]:
  "ac_state (set_override t ac) = ac_state ac" "ac_clusterMetadata (set_override t ac) = ac_clusterMetadata ac"
  "ac_platformType (set_override t ac) = ac_platformType ac" "installNotStarted (set_override t ac) = installNotStarted ac"
  "password_set (set_override t ac) = password_set ac" "set_override t (set_override t ac) = set_override t ac"
  by (simp_all add: set_override_def installNotStarted_def password_set_def)

lemma set_endpoint_other [simp]:
  "ac_state (set_endpoint cl cd ac) = ac_state ac" "ac_clusterMetadata (set_endpoint cl cd ac) = ac_clusterMetadata ac"
  "ac_platformType (set_endpoint cl cd ac) = ac_platformType ac" "installNotStarted (set_endpoint cl cd ac) = installNotStarted ac"
  "set_endpoint cl cd (set_endpoint cl cd ac) = set_endpoint cl cd ac"
  by (simp_all add: set_endpoint_def installNotStarted_def password_set_def)

lemma labels_annotations_commute: "m\<lparr>m_annotations := a, m_labels := l\<rparr> = m\<lparr>m_labels := l, m_annotations := a\<rparr>"
  by (cases m) simp

lemma desired_spec_annotated:
  "desired_spec E ob cl cd w (ac\<lparr>ac_meta := (ac_meta ac)\<lparr>m_annotations := a\<rparr>\<rparr>) =
    (desired_spec E ob cl cd w ac)\<lparr>ac_meta := (ac_meta (desired_spec E ob cl cd w ac))\<lparr>m_annotations := a\<rparr>\<rparr>"
  unfolding desired_spec_def Let_def installNotStarted_def by (rule aci.equality) (simp_all add: try_owner_update labels_annotations_commute)

lemma desired_spec_endpoint:
  "desired_spec E ob cl cd w (ac\<lparr>ac_ignitionEndpoint := e\<rparr>) = (desired_spec E ob cl cd w ac)\<lparr>ac_ignitionEndpoint := e\<rparr>"
  unfolding desired_spec_def Let_def installNotStarted_def by simp

lemma desired_spec_annotations [simp]: "m_annotations (ac_meta (desired_spec E ob cl cd w ac)) = m_annotations (ac_meta ac)"
  by (simp add: desired_spec_def Let_def)

lemma desired_spec_commutes:
  "desired_spec E ob cl cd w (set_override t ac) = set_override t (desired_spec E ob cl cd w ac)"
  "desired_spec E ob cl cd w (set_endpoint cl' cd' ac) = set_endpoint cl' cd' (desired_spec E ob cl cd w ac)"
  by (simp_all add: set_override_def set_endpoint_def desired_spec_annotated desired_spec_endpoint)

lemma set_override_endpoint: "set_override t (set_endpoint cl cd ac) = set_endpoint cl cd (set_override t ac)"
  by (simp add: set_override_def set_endpoint_def password_set_def)

lemma desired_spec_twice: "desired_spec E ob cl cd w (desired_spec E ob cl cd w ac) = desired_spec E ob cl cd w ac"
  using try_owner_twice [OF refer_same_oacp, of "oacp_meta ob" None ob] by (simp add: desired_spec_def Let_def installNotStarted_def try_owner_update)

lemma override_by_platform:
  "ac_platformType ac = ac_platformType ac' \<Longrightarrow> getInstallConfigOverride E ob ac = getInstallConfigOverride E ob ac'"
  unfolding getInstallConfigOverride_def getInstallConfigOverrideForCapabilities_def isBaremetalPlatform_def by (simp only:)

lemma desired_aci_cases:
  assumes "desired_aci E ob cl cd w ac = Done (Inr ac')"
  obtains t where "getInstallConfigOverride E ob (desired_spec E ob cl cd w ac) = Done (Inr t)"
    "ac' = set_endpoint cl cd (set_override t (desired_spec E ob cl cd w ac))"
  using assms by (auto simp: desired_aci_def Let_def split: outcome_of.splits sum.splits)

text \<open>
  Claim C8. The mutation of the AgentClusterInstall settles and respects a running installation: applied to its own
  result it changes nothing, so a second pass over unchanged inputs writes nothing; the manifests are replaced exactly
  while the installation has not started and kept afterwards; what the installer reports (state and cluster
  metadata) and the key are never touched; the platform is bare metal exactly with bridge networking and none otherwise,
  never external; the numbers of agents are the wanted ones.
\<close>

theorem desired_aci_settles:
  assumes "desired_aci E ob cl cd w ac = Done (Inr ac')"
  shows "desired_aci E ob cl cd w ac' = Done (Inr ac')
    \<and> ac_manifestsConfigMapRefs ac' = (if installNotStarted ac then getClusterAdditionalManifestRefs ob cl else ac_manifestsConfigMapRefs ac)
    \<and> ac_state ac' = ac_state ac \<and> ac_clusterMetadata ac' = ac_clusterMetadata ac
    \<and> m_name (ac_meta ac') = m_name (ac_meta ac) \<and> m_namespace (ac_meta ac') = m_namespace (ac_meta ac)
    \<and> ac_platformType ac' = (if bridgeNet ob then ''BareMetal'' else ''None'') \<and> ac_externalPlatformSpec ac' = None
    \<and> ac_controlPlaneAgents ac' = sint (sp_replicas (oacp_spec ob)) \<and> ac_workerAgents ac' = w"
proof -
  obtain t where t: "getInstallConfigOverride E ob (desired_spec E ob cl cd w ac) = Done (Inr t)"
    "ac' = set_endpoint cl cd (set_override t (desired_spec E ob cl cd w ac))" using desired_aci_cases [OF assms] .
  have again: "desired_spec E ob cl cd w ac' = ac'"
    by (simp add: t(2) desired_spec_commutes desired_spec_twice)
  have "getInstallConfigOverride E ob ac' = Done (Inr t)"
    using t(1) override_by_platform [of ac' "desired_spec E ob cl cd w ac" E ob] by (simp add: t(2))
  then have "desired_aci E ob cl cd w ac' = Done (Inr (set_endpoint cl cd (set_override t ac')))"
    by (simp add: desired_aci_def again)
  then have "desired_aci E ob cl cd w ac' = Done (Inr ac')" by (simp add: t(2) set_override_endpoint)
  then show ?thesis by (simp add: t(2) getAgentClusterInstallPlatformType_cases)
qed


text \<open>A control plane with both VIPs, on bare metal.\<close>

definition vip_cp :: oacp where
  "vip_cp = empty_oacp\<lparr>oacp_spec := (oacp_spec empty_oacp)\<lparr>sp_replicas := 3,
     sp_config := empty_config\<lparr>cfg_apiVIPs := [''10.0.0.1''], cfg_ingressVIPs := [''10.0.0.2'']\<rparr>\<rparr>\<rparr>"

lemma vip_fields: "bridgeNet vip_cp" "sp_replicas (oacp_spec vip_cp) = 3" "cap_baselineCapability (cfg_capabilities (sp_config (oacp_spec vip_cp))) = []"
  "m_annotations (oacp_meta vip_cp) = Map.empty" "cfg_imageRegistryRef (sp_config (oacp_spec vip_cp)) = None"
  by (simp_all add: vip_cp_def bridgeNet_def IsBridgeNetworking_def empty_oacp_def empty_config_def empty_meta_def)

theorem desired_aci_settles_witness:
  "\<exists>ac'. desired_aci (nowhere :: unit env) vip_cp empty_cluster empty_cd 2 empty_aci = Done (Inr ac')
    \<and> desired_aci (nowhere :: unit env) vip_cp empty_cluster empty_cd 2 ac' = Done (Inr ac') \<and> ac_platformType ac' = ''BareMetal''
    \<and> ac_controlPlaneAgents ac' = 3 \<and> ac_workerAgents ac' = 2"
proof -
  have "\<exists>t. getInstallConfigOverride (nowhere :: unit env) vip_cp (desired_spec (nowhere :: unit env) vip_cp empty_cluster empty_cd 2 empty_aci) = Done (Inr t)"
    using vip_fields by (simp add: getInstallConfigOverride_def getInstallConfigOverrideForCapabilities_def Let_def isBaremetalPlatform_def
        getAgentClusterInstallPlatformType_cases getBaselineCapability_def)
  then obtain ac' where "desired_aci (nowhere :: unit env) vip_cp empty_cluster empty_cd 2 empty_aci = Done (Inr ac')"
    by (auto simp: desired_aci_def Let_def)
  from desired_aci_settles [OF this] this show ?thesis using vip_fields by auto
qed


subsection \<open>The order of a pass\<close>

fun touches_install :: "event \<Rightarrow> bool" where
  "touches_install (EvCreate _ (OACI _) _) = True"
| "touches_install (EvUpdate _ (OACI _) _) = True"
| "touches_install (EvPatch _ _ (OACI _) _) = True"
| "touches_install (EvDelete _ (OACI _) _) = True"
| "touches_install _ = False"

text \<open>\<open>ob\<close> was seen in the store, or put there.\<close>

definition in_store :: "kind \<Rightarrow> string \<Rightarrow> string \<Rightarrow> kobj \<Rightarrow> event list \<Rightarrow> bool" where
  "in_store k ns n ob evs \<longleftrightarrow> EvGet Mgmt k ns n (Inr ob) \<in> set evs \<or>
     (\<exists>g. EvGet Mgmt k ns n g \<in> set evs \<and> ((\<exists>a. EvCreate Mgmt ob (Inr a) \<in> set evs) \<or> (\<exists>old a. g = Inr old \<and> (EvPatch Mgmt old ob (Inr a) \<in> set evs \<or> EvUpdate Mgmt ob (Inr a) \<in> set evs))))"

lemma in_store_append: "in_store k ns n ob evs \<Longrightarrow> in_store k ns n ob (evs @ evs')" "in_store k ns n ob evs' \<Longrightarrow> in_store k ns n ob (evs @ evs')"
  by (auto simp: in_store_def)

text \<open>What \<open>CreateOrPatch\<close> does: at most one write after the read, of what the mutation makes of what was read.\<close>

definition applied :: "kind \<Rightarrow> (kobj \<Rightarrow> 'a option) \<Rightarrow> ('a \<Rightarrow> kobj) \<Rightarrow> string \<Rightarrow> string \<Rightarrow> 'a \<Rightarrow> ('a \<Rightarrow> 'a res outcome_of) \<Rightarrow> goerr option outcome_of \<Rightarrow> event list \<Rightarrow> bool" where
  "applied k as_a OA ns n fresh mutate r evs \<longleftrightarrow> (\<exists>g.
     (evs = [EvGet Mgmt k ns n g] \<and> (r = Done None \<longrightarrow> (\<exists>a. decode as_a g = Inr a \<and> (\<exists>a'. mutate a = Done (Inr a') \<and> OA a' = OA a)))) \<or>
     (\<exists>e a' c. evs = [EvGet Mgmt k ns n g, EvCreate Mgmt (OA a') c] \<and> decode as_a g = Inl e \<and> is_not_found e \<and> mutate fresh = Done (Inr a') \<and> r = Done (err_of c)) \<or>
     (\<exists>a a' p. evs = [EvGet Mgmt k ns n g, EvPatch Mgmt (OA a) (OA a') p] \<and> decode as_a g = Inr a \<and> mutate a = Done (Inr a') \<and> OA a' \<noteq> OA a \<and> r = Done (err_of p)))"

lemma logs_CreateOrPatch: "logs (CreateOrPatch E k as_a OA ns n fresh mutate) (applied k as_a OA ns n fresh mutate)"
  unfolding CreateOrPatch_def get_as_def kcall_defs
  apply (simp only: prog_simps)
  apply (rule logs_call_bind, rule logs_case_sum)
   apply (rule logs_if, rule logs_return, simp add: applied_def)
   apply (cases "mutate fresh")
    apply (simp add: logs_return applied_def)
   subgoal for g e x by (cases x) (auto intro!: logs_return logs_call_bind simp: applied_def)
  subgoal for g a
    apply (cases "mutate a")
     apply (simp add: logs_return applied_def)
    subgoal for x by (cases x) (auto intro!: logs_return logs_call_bind simp: applied_def)
    done
  done


lemma decode_install: "decode as_aci g = Inr ac \<longleftrightarrow> g = Inr (OACI ac)" "decode as_image_set g = Inr im \<longleftrightarrow> g = Inr (OImageSet im)"
  "decode as_config_map g = Inr cm \<longleftrightarrow> g = Inr (OConfigMap cm)" "decode as_cluster_deployment g = Inr cd \<longleftrightarrow> g = Inr (OClusterDeployment cd)"
  "decode as_oacp g = Inr cp \<longleftrightarrow> g = Inr (OOACP cp)"
  by (auto simp: decode_def split: sum.splits option.splits elim!: as_aci.elims as_image_set.elims as_config_map.elims as_cluster_deployment.elims as_oacp.elims)

lemma err_of_None: "err_of r = None \<Longrightarrow> \<exists>x. r = Inr x"
  by (cases r) simp_all

lemma decode_missing: "decode f g = Inl e \<Longrightarrow> is_not_found e \<Longrightarrow> g = Inl e"
  by (auto simp: decode_def split: sum.splits option.splits)

text \<open>A step that leaves AgentClusterInstalls alone.\<close>

definition no_install :: "event list \<Rightarrow> bool" where
  "no_install evs \<longleftrightarrow> filter touches_install evs = []"

lemma no_install_simps [simp]: "no_install []" "no_install (e # evs) \<longleftrightarrow> \<not> touches_install e \<and> no_install evs"
  "no_install (evs @ evs') \<longleftrightarrow> no_install evs \<and> no_install evs'"
  by (simp_all add: no_install_def)

lemma emits_no_install: "emits (\<lambda>e. \<not> touches_install e) m \<Longrightarrow> logs m (\<lambda>r evs. no_install evs)"
  by (auto simp: emits_def no_install_def list_all_iff filter_empty_conv elim!: logs_mono)

lemma writes_no_install: "\<forall>e \<in> set evs. \<not> is_write e \<Longrightarrow> no_install evs"
proof -
  have "touches_install e \<Longrightarrow> is_write e" for e by (cases e rule: touches_install.cases) auto
  then show "\<forall>e \<in> set evs. \<not> is_write e \<Longrightarrow> no_install evs" by (auto simp: no_install_def filter_empty_conv)
qed

text \<open>The pinned image is in the image set; the write of the AgentClusterInstall is the mutation of what was read.\<close>

definition image_ready :: "cluster_deployment \<Rightarrow> event list \<Rightarrow> bool" where
  "image_ready cd evs \<longleftrightarrow> (\<exists>im. in_store KImageSet [] (m_name (cd_meta cd)) (OImageSet im) evs \<and> CHR ''@'' \<in> set (is_releaseImage im))"

definition registry_ready :: "oacp \<Rightarrow> event list \<Rightarrow> bool" where
  "registry_ready acp evs \<longleftrightarrow> (cfg_imageRegistryRef (sp_config (oacp_spec acp)) = None \<or>
     (\<exists>cm. in_store KConfigMap (m_namespace (oacp_meta acp)) ImageConfigMapName (OConfigMap cm) evs))"

definition install_write :: "'s env \<Rightarrow> cluster_deployment \<Rightarrow> oacp \<Rightarrow> cluster \<Rightarrow> event list \<Rightarrow> event \<Rightarrow> bool" where
  "install_write E cd ob cl pre e \<longleftrightarrow> (\<exists>n ac ac' x. desired_aci E ob cl cd n ac = Done (Inr ac') \<and>
     ((e = EvPatch Mgmt (OACI ac) (OACI ac') x \<and> ac' \<noteq> ac \<and> EvGet Mgmt KACI (m_namespace (cd_meta cd)) (m_name (cd_meta cd)) (Inr (OACI ac)) \<in> set pre) \<or>
      (e = EvCreate Mgmt (OACI ac') x \<and> ac_state ac = [] \<and> (\<exists>g. EvGet Mgmt KACI (m_namespace (cd_meta cd)) (m_name (cd_meta cd)) (Inl g) \<in> set pre \<and> is_not_found g))))"

definition written_once :: "(event list \<Rightarrow> event \<Rightarrow> bool) \<Rightarrow> event list \<Rightarrow> bool" where
  "written_once P evs \<longleftrightarrow> no_install evs \<or> (\<exists>pre e post. evs = pre @ e # post \<and> no_install pre \<and> no_install post \<and> P pre e)"

lemma written_once_prefix:
  "no_install pre \<Longrightarrow> written_once P evs \<Longrightarrow> (\<And>pre' e. P pre' e \<Longrightarrow> Q (pre @ pre') e) \<Longrightarrow> written_once Q (pre @ evs)"
  unfolding written_once_def by (metis append_assoc no_install_simps(3))

lemma written_once_suffix: "written_once P evs \<Longrightarrow> no_install post \<Longrightarrow> written_once P (evs @ post)"
  unfolding written_once_def by (metis append_Cons append_assoc no_install_simps(3))

lemma quiet_written [simp]: "no_install evs \<Longrightarrow> written_once P evs"
  by (simp add: written_once_def)

lemma written_onceI: "no_install pre \<Longrightarrow> P pre e \<Longrightarrow> written_once P (pre @ [e])"
  unfolding written_once_def using no_install_simps(1) by blast

lemma applied_install:
  assumes "applied KACI as_aci OACI (m_namespace (cd_meta cd)) (m_name (cd_meta cd)) fresh (desired_aci E ob cl cd n) r evs" "ac_state fresh = []"
  shows "written_once (install_write E cd ob cl) evs"
proof -
  let ?get = "EvGet Mgmt KACI (m_namespace (cd_meta cd)) (m_name (cd_meta cd))"
  consider (quiet) g where "evs = [?get g]"
    | (new) g e a' c where "evs = [?get g, EvCreate Mgmt (OACI a') c]" "decode as_aci g = Inl e" "is_not_found e" "desired_aci E ob cl cd n fresh = Done (Inr a')"
    | (patch) g a a' p where "evs = [?get g, EvPatch Mgmt (OACI a) (OACI a') p]" "decode as_aci g = Inr a" "desired_aci E ob cl cd n a = Done (Inr a')" "a' \<noteq> a"
    using assms(1) unfolding applied_def by blast
  then show ?thesis
  proof cases
    case quiet
    then show ?thesis by simp
  next
    case new
    then have "install_write E cd ob cl [?get g] (EvCreate Mgmt (OACI a') c)"
      using decode_missing [OF new(2,3)] assms(2) by (auto simp: install_write_def)
    then show ?thesis using written_onceI [of "[?get g]"] new(1) by simp
  next
    case patch
    then have "install_write E cd ob cl [?get g] (EvPatch Mgmt (OACI a) (OACI a') p)"
      by (auto simp: install_write_def decode_install)
    then show ?thesis using written_onceI [of "[?get g]"] patch(1) by simp
  qed
qed

lemma install_write_prefix: "install_write E cd ob cl pre e \<Longrightarrow> install_write E cd ob cl (pre0 @ pre) e"
  unfolding install_write_def set_append Un_iff by blast

lemma logs_ensureAgentClusterInstall: "logs (ensureAgentClusterInstall E cd ob cl) (\<lambda>r evs. written_once (install_write E cd ob cl) evs)"
proof -
  have w: "logs (getWorkerNodesCount E cl) (\<lambda>r evs. no_install evs)"
    unfolding getWorkerNodesCount_def list_as_def by (intro emits_no_install emits_intros) simp_all
  show ?thesis
    unfolding ensureAgentClusterInstall_def
    apply (rule logs_bind [OF w])
    subgoal premises prems for c evs
    proof (cases c)
      case Panic
      then show ?thesis using prems by (simp add: logs_return)
    next
      case (Done n)
      show ?thesis
        unfolding Done outcome_of.case
        by (rule logs_mono [OF logs_CreateOrPatch], rule written_once_prefix [OF prems applied_install])
          (auto simp: empty_aci_def install_write_prefix)
    qed
    done
qed


lemma logs_updateClusterDeploymentRef: "logs (updateClusterDeploymentRef E cd) (\<lambda>r evs. no_install evs)"
  unfolding updateClusterDeploymentRef_def by (intro emits_no_install emits_intros) simp_all

lemma logs_on_success:
  assumes "logs m R" "\<And>r evs. R r evs \<Longrightarrow> r \<noteq> Done None \<Longrightarrow> Q (case r of Panic \<Rightarrow> Panic | Done e \<Rightarrow> Done (result_zero, e)) evs"
    "\<And>evs. R (Done None) evs \<Longrightarrow> logs k (\<lambda>r evs'. Q r (evs @ evs'))"
  shows "logs (on_success m k) Q"
  unfolding on_success_def
proof (rule logs_bind [OF assms(1)])
  fix r evs assume r: "R r evs"
  show "logs (case r of Panic \<Rightarrow> ret Panic | Done None \<Rightarrow> k | Done (Some e) \<Rightarrow> ret (Done (result_zero, Some e))) (\<lambda>r evs'. Q r (evs @ evs'))"
  proof (cases "r = Done None")
    case True
    then show ?thesis using assms(3) r by simp
  next
    case False
    then show ?thesis using assms(2) [OF r] by (auto split: outcome_of.splits option.splits intro!: logs_return)
  qed
qed

lemma logs_finish_install: "logs (finish_install E cd ob cl) (\<lambda>r evs. written_once (install_write E cd ob cl) evs)"
  unfolding finish_install_def
  apply (rule logs_on_success [OF logs_ensureAgentClusterInstall], assumption)
  apply (rule logs_bind [OF logs_updateClusterDeploymentRef], rule logs_return)
  apply (simp add: written_once_suffix)
  done

text \<open>What a successful \<open>CreateOrPatch\<close> leaves behind.\<close>

lemma applied_in_store:
  assumes "applied k as_a OA ns n fresh mutate (Done None) evs" and d: "\<And>g a. decode as_a g = Inr a \<Longrightarrow> g = Inr (OA a)"
  shows "\<exists>a a'. mutate a = Done (Inr a') \<and> in_store k ns n (OA a') evs"
proof -
  obtain g where "(evs = [EvGet Mgmt k ns n g] \<and> (\<exists>a. decode as_a g = Inr a \<and> (\<exists>a'. mutate a = Done (Inr a') \<and> OA a' = OA a))) \<or>
     (\<exists>a' c. evs = [EvGet Mgmt k ns n g, EvCreate Mgmt (OA a') c] \<and> mutate fresh = Done (Inr a') \<and> None = err_of c) \<or>
     (\<exists>a a' p. evs = [EvGet Mgmt k ns n g, EvPatch Mgmt (OA a) (OA a') p] \<and> decode as_a g = Inr a \<and> mutate a = Done (Inr a') \<and> None = err_of p)"
    using assms(1) unfolding applied_def outcome_of.inject simp_thms by blast
  then show ?thesis
  proof (elim disjE exE conjE)
    fix a a' assume *: "evs = [EvGet Mgmt k ns n g]" "decode as_a g = Inr a" "mutate a = Done (Inr a')" "OA a' = OA a"
    show ?thesis using d [OF *(2)] * by (auto simp: in_store_def)
  next
    fix a' c assume *: "evs = [EvGet Mgmt k ns n g, EvCreate Mgmt (OA a') c]" "mutate fresh = Done (Inr a')" "None = err_of c"
    obtain x where "c = Inr x" using err_of_None [OF *(3) [symmetric]] by blast
    then have "in_store k ns n (OA a') evs" using *(1) by (auto simp: in_store_def)
    then show ?thesis using *(2) by blast
  next
    fix a a' p assume *: "evs = [EvGet Mgmt k ns n g, EvPatch Mgmt (OA a) (OA a') p]" "decode as_a g = Inr a" "mutate a = Done (Inr a')" "None = err_of p"
    obtain x where "p = Inr x" using err_of_None [OF *(4) [symmetric]] by blast
    then have "in_store k ns n (OA a') evs" using *(1) d [OF *(2)] by (auto simp: in_store_def)
    then show ?thesis using *(3) by blast
  qed
qed

lemma applied_no_install: "applied k as_a OA ns n fresh mutate r evs \<Longrightarrow> (\<And>a. as_aci (OA a) = None) \<Longrightarrow> no_install evs"
proof -
  assume n: "\<And>a. as_aci (OA a) = None" and a: "applied k as_a OA ns n fresh mutate r evs"
  have "\<not> touches_install (EvCreate Mgmt (OA a) c)" "\<not> touches_install (EvPatch Mgmt b (OA a) c)" for a b c
    using n [of a] by (cases "OA a"; simp)+
  then show "no_install evs" using a unfolding applied_def by auto
qed

lemma logs_createImageRegistry:
  "logs (createImageRegistry E ref ns) (\<lambda>r evs. no_install evs \<and> (r = Done None \<longrightarrow> (\<exists>cm. in_store KConfigMap ns ImageConfigMapName (OConfigMap cm) evs)))"
  unfolding createImageRegistry_def get_as_def kcall_defs
  apply (simp only: prog_simps)
  apply (rule logs_call_bind, rule logs_case_sum, rule logs_return, simp)
  apply (rule logs_case_sum, rule logs_return, simp)
  apply (rule logs_mono [OF logs_CreateOrPatch])
  subgoal premises prems for g cm data r evs
  proof -
    have "\<exists>cm. in_store KConfigMap ns ImageConfigMapName (OConfigMap cm) evs" if "r = Done None"
      using applied_in_store [OF prems(3) [unfolded that]] by (auto simp: decode_install)
    then show ?thesis using applied_no_install [OF prems(3)] in_store_append(2) [of _ _ _ _ evs "[_]"] by fastforce
  qed
  done

lemma str_contains_members: "str_contains s sub \<Longrightarrow> set sub \<subseteq> set s"
proof (induction s sub rule: str_contains.induct)
  case (2 c s sub)
  then show ?case
    by (auto simp: has_prefix_def) (metis in_set_takeD set_ConsD)
qed simp

lemma logs_pinned_image:
  "logs (GetReleaseImageWithDigest E img ps (NewRemoteImageRepository E)) (\<lambda>r evs. no_install evs \<and> (\<forall>x. r = Inr x \<longrightarrow> CHR ''@'' \<in> set x))"
  unfolding GetReleaseImageWithDigest_def
  apply (rule logs_if, rule logs_return)
  using str_contains_members [of img "''@sha''"] apply simp
  apply (rule logs_case_sum, rule logs_return, simp)
  apply (rule logs_bind [OF registry.digest_logs], rule logs_return)
  apply (auto simp: writes_no_install split: sum.splits)
  done

lemma logs_ensureClusterImageSet:
  assumes "CHR ''@'' \<in> set img"
  shows "logs (ensureClusterImageSet E (m_name (cd_meta cd)) img) (\<lambda>r evs. no_install evs \<and> (r = Done None \<longrightarrow> image_ready cd evs))"
  unfolding ensureClusterImageSet_def
  apply (rule logs_mono [OF logs_CreateOrPatch])
  subgoal premises prems for r evs
  proof -
    have "image_ready cd evs" if "r = Done None"
      using applied_in_store [OF prems [unfolded that]] assms by (auto simp: image_ready_def decode_install)
    then show ?thesis using applied_no_install [OF prems] by simp
  qed
  done


lemma installs_only_reads: "\<forall>e \<in> set evs. \<exists>ns n a. e = EvGet Mgmt KCluster ns n a \<Longrightarrow> no_install evs"
  by (force simp: no_install_def filter_empty_conv)

text \<open>
  What holds at the write: the cluster was read, the manifests of the mirror registry are in the store, and on KubeVirt
  what the infrastructure step promises, \<open>ready\<close>, for the control plane as that step left it.
\<close>

definition deploy_write :: "'s env \<Rightarrow> (oacp \<Rightarrow> event list \<Rightarrow> bool) \<Rightarrow> cluster_deployment \<Rightarrow> oacp \<Rightarrow> event list \<Rightarrow> event \<Rightarrow> bool" where
  "deploy_write E ready cd acp pre e \<longleftrightarrow> (\<exists>cl ob. cluster_seen cl pre \<and> (if isKubeVirtInfra cl then ready ob pre else ob = acp) \<and> registry_ready acp pre
     \<and> install_write E cd ob cl pre e)"

text \<open>What holds at the write of a whole pass.\<close>

definition pass_write :: "'s env \<Rightarrow> (oacp \<Rightarrow> event list \<Rightarrow> bool) \<Rightarrow> string \<Rightarrow> string \<Rightarrow> event list \<Rightarrow> event \<Rightarrow> bool" where
  "pass_write E ready ns name pre e \<longleftrightarrow> (\<exists>cd acp. EvGet Mgmt KClusterDeployment ns name (Inr (OClusterDeployment cd)) \<in> set pre
     \<and> EvGet Mgmt KOACP (m_namespace (cd_meta cd)) (m_name (cd_meta cd)) (Inr (OOACP acp)) \<in> set pre
     \<and> image_ready cd pre \<and> deploy_write E ready cd acp pre e)"

lemma logs_registry_step:
  "logs (case cfg_imageRegistryRef (sp_config (oacp_spec acp)) of None \<Rightarrow> ret (Done None) | Some ref \<Rightarrow> createImageRegistry E ref (m_namespace (oacp_meta acp)))
     (\<lambda>r evs. no_install evs \<and> (r = Done None \<longrightarrow> registry_ready acp evs))"
  apply (rule logs_case_option, rule logs_return, simp add: registry_ready_def)
  apply (rule logs_mono [OF logs_createImageRegistry])
  apply (auto simp: registry_ready_def)
  done

lemma image_ready_append: "image_ready cd evs \<Longrightarrow> image_ready cd (evs @ evs')" "image_ready cd evs' \<Longrightarrow> image_ready cd (evs @ evs')"
  unfolding image_ready_def using in_store_append by metis+

subsection \<open>The interface to the infrastructure step\<close>

text \<open>
  What the pass relies on: the step leaves AgentClusterInstalls alone, and when it asks to go on, what it promises for
  the control plane it hands back holds, now and later.
\<close>

locale infrastructure =
  fixes kv :: "'s kubevirt_step" and ready :: "oacp \<Rightarrow> event list \<Rightarrow> bool"
  assumes kv_logs: "logs (kv acp cd img) (\<lambda>r evs. no_install evs \<and> (\<forall>acp'. r = Done (acp', result_zero, None) \<longrightarrow> ready acp' evs))"
    and ready_stable: "ready acp evs \<Longrightarrow> ready acp (pre @ evs @ post)"
begin

lemma deploy_writeI:
  assumes "install_write E cd ob cl pre e" "cluster_seen cl pre0" "registry_ready acp pre1" "if isKubeVirtInfra cl then ready ob pre2 else ob = acp"
  shows "deploy_write E ready cd acp (pre0 @ pre1 @ pre2 @ pre) e"
proof -
  have "install_write E cd ob cl (pre0 @ pre1 @ pre2 @ pre) e" using install_write_prefix [OF assms(1)] by (metis append_assoc)
  moreover have "registry_ready acp (pre0 @ pre1 @ pre2 @ pre)" using assms(3) unfolding registry_ready_def by (metis in_store_append)
  moreover have "cluster_seen cl (pre0 @ pre1 @ pre2 @ pre)" using assms(2) by (rule cluster_seen_append)
  moreover have "if isKubeVirtInfra cl then ready ob (pre0 @ pre1 @ pre2 @ pre) else ob = acp"
    using assms(4) ready_stable [of ob pre2 "pre0 @ pre1" pre] by auto
  ultimately show ?thesis unfolding deploy_write_def by blast
qed

lemma deploy_finish:
  assumes "no_install evs0" "no_install evs1" "no_install evs2" "cluster_seen cl evs0" "registry_ready acp evs1"
    "if isKubeVirtInfra cl then ready ob evs2 else ob = acp"
  shows "logs (finish_install E cd ob cl) (\<lambda>r evs. written_once (deploy_write E ready cd acp) (evs0 @ evs1 @ evs2 @ evs))"
proof (rule logs_mono [OF logs_finish_install])
  fix evs assume "written_once (install_write E cd ob cl) evs"
  then have "written_once (deploy_write E ready cd acp) ((evs0 @ evs1 @ evs2) @ evs)"
    by (rule written_once_prefix [rotated]) (simp_all add: assms(1-3) deploy_writeI [OF _ assms(4-6)])
  then show "written_once (deploy_write E ready cd acp) (evs0 @ evs1 @ evs2 @ evs)" by simp
qed

lemma logs_deploy_cluster: "logs (deploy_cluster E kv cd acp img) (\<lambda>r evs. written_once (deploy_write E ready cd acp) evs)"
  unfolding deploy_cluster_def
  apply (rule logs_bind [OF logs_GetOwnerCluster], rule logs_case_sum, rule logs_return, simp add: installs_only_reads)
  apply (rule logs_case_option, rule logs_return, simp add: installs_only_reads)
  subgoal premises prems for c evs0 c' cl
  proof -
    have c: "no_install evs0" "cluster_seen cl evs0" using prems installs_only_reads by auto
    show ?thesis
    proof (rule logs_on_success [OF logs_registry_step])
      fix evs1 assume r: "no_install evs1 \<and> (Done None = Done None \<longrightarrow> registry_ready acp evs1)"
      show "logs (if isKubeVirtInfra cl then do {
            k \<leftarrow> kv acp cd img;
            case k of
              Panic \<Rightarrow> ret Panic
            | Done (acp', res, err) \<Rightarrow> if err \<noteq> None \<or> res \<noteq> result_zero then ret (Done (res, err)) else finish_install E cd acp' cl }
          else finish_install E cd acp cl) (\<lambda>r evs'. written_once (deploy_write E ready cd acp) (evs0 @ evs1 @ evs'))"
      proof (rule logs_if)
        assume k: "isKubeVirtInfra cl"
        show "logs (do { k \<leftarrow> kv acp cd img;
            case k of
              Panic \<Rightarrow> ret Panic
            | Done (acp', res, err) \<Rightarrow> if err \<noteq> None \<or> res \<noteq> result_zero then ret (Done (res, err)) else finish_install E cd acp' cl })
            (\<lambda>r evs'. written_once (deploy_write E ready cd acp) (evs0 @ evs1 @ evs'))"
          apply (rule logs_bind [OF kv_logs])
          subgoal premises prems for o' evs2
            using c r prems k deploy_finish [of evs0 evs1 evs2 cl acp] by (auto intro!: logs_return split: outcome_of.splits)
          done
      next
        assume "\<not> isKubeVirtInfra cl"
        then show "logs (finish_install E cd acp cl) (\<lambda>r evs'. written_once (deploy_write E ready cd acp) (evs0 @ evs1 @ evs'))"
          using deploy_finish [of evs0 evs1 "[]" cl acp acp] c r by simp
      qed
    qed (use c in simp)
  qed
  done

lemma deploy_write_prefix:
  assumes "deploy_write E ready cd acp pre e"
  shows "deploy_write E ready cd acp (pre0 @ pre) e"
proof -
  obtain cl ob where "cluster_seen cl pre" "if isKubeVirtInfra cl then ready ob pre else ob = acp" "registry_ready acp pre" "install_write E cd ob cl pre e"
    using assms unfolding deploy_write_def by blast
  then show ?thesis using deploy_writeI [of E cd ob cl pre e pre acp pre pre] ready_stable [of ob pre pre0 "[]"]
    unfolding deploy_write_def registry_ready_def by (metis append_Nil2 install_write_prefix cluster_seen_append(2) in_store_append(2))
qed

lemma pass_writeI:
  assumes "deploy_write E ready cd acp pre' e" "image_ready cd evs"
  shows "pass_write E ready ns name (EvGet Mgmt KClusterDeployment ns name (Inr (OClusterDeployment cd)) #
     EvGet Mgmt KOACP (m_namespace (cd_meta cd)) (m_name (cd_meta cd)) (Inr (OOACP acp)) # pre @ evs @ pre') e"
  (is "pass_write E ready ns name (?a # ?b # _) e")
proof -
  have "deploy_write E ready cd acp ((?a # ?b # pre @ evs) @ pre') e" by (rule deploy_write_prefix) fact
  moreover have "image_ready cd ((?a # ?b # pre) @ evs @ pre')" using image_ready_append assms(2) by blast
  ultimately show ?thesis unfolding pass_write_def by (intro exI [of _ cd] exI [of _ acp]) simp
qed

lemma pass_written:
  assumes "written_once (deploy_write E ready cd acp) evs'" "image_ready cd evs" "no_install evs" "no_install pre"
  shows "written_once (pass_write E ready ns name) (EvGet Mgmt KClusterDeployment ns name (Inr (OClusterDeployment cd)) #
     EvGet Mgmt KOACP (m_namespace (cd_meta cd)) (m_name (cd_meta cd)) (Inr (OOACP acp)) # pre @ evs @ evs')"
  (is "written_once _ (?a # ?b # _)")
proof -
  have "written_once (pass_write E ready ns name) ((?a # ?b # pre @ evs) @ evs')"
    by (rule written_once_prefix [OF _ assms(1)]) (simp_all add: assms(3,4) pass_writeI [OF _ assms(2)])
  then show ?thesis by simp
qed

lemma logs_ClusterDeploymentReconcile:
  "logs (ClusterDeploymentReconcile E (NewRemoteImageRepository E) kv ns name) (\<lambda>r evs. written_once (pass_write E ready ns name) evs)"
proof -
  have arch: "logs (getArchitectureFromBootstrapConfigs E acp) (\<lambda>r evs. no_install evs)" for acp
    unfolding getArchitectureFromBootstrapConfigs_def list_as_def by (intro emits_no_install emits_intros) simp_all
  have secret: "logs (GetPullSecret E acp) (\<lambda>r evs. no_install evs)" for acp
    unfolding GetPullSecret_def get_as_def by (intro emits_no_install emits_intros) simp_all
  show ?thesis
    unfolding ClusterDeploymentReconcile_def get_as_def kcall_defs
    apply (simp only: prog_simps)
    apply (rule logs_call_bind, rule logs_case_sum, rule logs_return, simp)
    apply (rule logs_call_bind, rule logs_case_sum, rule logs_return, simp)
    apply (rule logs_bind [OF arch], rule logs_case_sum, rule logs_return, simp)
    apply (rule logs_bind [OF secret], rule logs_case_sum, rule logs_return, simp)
    apply (rule logs_bind [OF logs_pinned_image], rule logs_case_sum, rule logs_return, simp)
    apply (rule logs_on_success [OF logs_ensureClusterImageSet], blast, simp)
    apply (rule logs_mono [OF logs_deploy_cluster])
    subgoal premises prems for g cd g' acp ar evs1 arch ps evs2 pull im evs3 img evs4 r evs'
    proof -
      have g: "g = Inr (OClusterDeployment cd)" "g' = Inr (OOACP acp)" using prems(1,2) by (simp_all add: decode_install)
      show ?thesis using pass_written [OF prems(10), of evs4 "evs1 @ evs2 @ evs3" ns name] prems unfolding g by simp
    qed
    done
qed

end

end
