(* ===== verification/CCMManifests.thy ===== *)
theory CCMManifests
  imports TenantManifests
begin

text \<open>
  The manifests of the KubeVirt cloud controller manager, \<open>ccm_manifests.go\<close>: the texts of the source line by line,
  with the values it formats into them.
\<close>

definition ccmNamespace :: string where "ccmNamespace = ''openshift-cloud-controller-manager''"
definition ccmCredSecretName :: string where "ccmCredSecretName = ''kubevirt-infra-credentials''"
definition ccmDeploymentName :: string where "ccmDeploymentName = ''kubevirt-cloud-controller-manager''"
definition ccmServiceAccount :: string where "ccmServiceAccount = ''kubevirt-cloud-controller-manager''"
definition ccmClusterRole :: string where "ccmClusterRole = ''system:cloud-controller-manager''"

definition ccm_namespace_yaml :: "string" where
  "ccm_namespace_yaml = text_lines [
     ''apiVersion: v1'',
     ''kind: Namespace'',
     ''metadata:'',
     ''  name: '' @ ccmNamespace,
     ''  labels:'',
     ''    openshift.io/cluster-monitoring: \"true\"'']"

definition ccm_cloud_config_yaml :: "string \<Rightarrow> string" where
  "ccm_cloud_config_yaml infraNamespace = text_lines [
     ''apiVersion: v1'',
     ''kind: ConfigMap'',
     ''metadata:'',
     ''  name: cloud-config'',
     ''  namespace: '' @ ccmNamespace,
     ''data:'',
     ''  cloud-config: |'',
     ''    kubeconfig: /etc/kubernetes/infra-kubeconfig/kubeconfig'',
     ''    namespace: '' @ infraNamespace,
     ''    loadBalancer:'',
     ''      enabled: true'',
     ''      creationPollInterval: 5'',
     ''      creationPollTimeout: 60'',
     ''      selectorless: true'',
     ''    instancesV2:'',
     ''      enabled: true'',
     ''      zoneAndRegionEnabled: false'']"

definition ccm_rbac_yaml :: "string" where
  "ccm_rbac_yaml = text_lines [
     ''apiVersion: v1'',
     ''kind: ServiceAccount'',
     ''metadata:'',
     ''  name: '' @ ccmServiceAccount,
     ''  namespace: '' @ ccmNamespace,
     ''---'',
     ''apiVersion: rbac.authorization.k8s.io/v1'',
     ''kind: ClusterRole'',
     ''metadata:'',
     ''  name: '' @ ccmClusterRole,
     ''rules:'',
     ''  - apiGroups: [\"\"]'',
     ''    resources: [\"nodes\"]'',
     ''    verbs: [\"get\", \"list\", \"watch\", \"patch\", \"update\", \"delete\"]'',
     ''  - apiGroups: [\"\"]'',
     ''    resources: [\"nodes/status\"]'',
     ''    verbs: [\"patch\"]'',
     ''  - apiGroups: [\"\"]'',
     ''    resources: [\"services\"]'',
     ''    verbs: [\"get\", \"list\", \"watch\", \"create\", \"update\", \"patch\", \"delete\"]'',
     ''  - apiGroups: [\"\"]'',
     ''    resources: [\"services/status\"]'',
     ''    verbs: [\"patch\", \"update\"]'',
     ''  - apiGroups: [\"\"]'',
     ''    resources: [\"events\"]'',
     ''    verbs: [\"create\", \"patch\", \"update\"]'',
     ''  - apiGroups: [\"coordination.k8s.io\"]'',
     ''    resources: [\"leases\"]'',
     ''    verbs: [\"get\", \"list\", \"watch\", \"create\", \"update\", \"patch\"]'',
     ''  - apiGroups: [\"\"]'',
     ''    resources: [\"serviceaccounts\"]'',
     ''    verbs: [\"create\", \"get\"]'',
     ''  - apiGroups: [\"\"]'',
     ''    resources: [\"serviceaccounts/token\"]'',
     ''    verbs: [\"create\"]'',
     ''---'',
     ''apiVersion: rbac.authorization.k8s.io/v1'',
     ''kind: ClusterRoleBinding'',
     ''metadata:'',
     ''  name: '' @ ccmClusterRole,
     ''roleRef:'',
     ''  apiGroup: rbac.authorization.k8s.io'',
     ''  kind: ClusterRole'',
     ''  name: '' @ ccmClusterRole,
     ''subjects:'',
     ''  - kind: ServiceAccount'',
     ''    name: '' @ ccmServiceAccount,
     ''    namespace: '' @ ccmNamespace]"

definition ccm_deployment_yaml :: "string \<Rightarrow> string" where
  "ccm_deployment_yaml ccmImage = text_lines [
     ''apiVersion: apps/v1'',
     ''kind: Deployment'',
     ''metadata:'',
     ''  name: '' @ ccmDeploymentName,
     ''  namespace: '' @ ccmNamespace,
     ''  labels:'',
     ''    app: '' @ ccmDeploymentName,
     ''spec:'',
     ''  replicas: 1'',
     ''  selector:'',
     ''    matchLabels:'',
     ''      app: '' @ ccmDeploymentName,
     ''  template:'',
     ''    metadata:'',
     ''      labels:'',
     ''        app: '' @ ccmDeploymentName,
     ''    spec:'',
     ''      serviceAccountName: '' @ ccmServiceAccount,
     ''      containers:'',
     ''        - name: cloud-controller-manager'',
     ''          image: '' @ ccmImage,
     ''          command:'',
     ''            - /bin/kubevirt-cloud-controller-manager'',
     ''          args:'',
     ''            - --cloud-provider=kubevirt'',
     ''            - --cloud-config=/etc/cloud/cloud-config'',
     ''            - --use-service-account-credentials=true'',
     ''            - --leader-elect=true'',
     ''            - --leader-elect-resource-namespace='' @ ccmNamespace,
     ''            - --controllers=cloud-node,cloud-node-lifecycle,service-lb-controller'',
     ''            - --authentication-skip-lookup'',
     ''          resources:'',
     ''            requests:'',
     ''              cpu: 75m'',
     ''              memory: 60Mi'',
     ''          volumeMounts:'',
     ''            - name: cloud-config'',
     ''              mountPath: /etc/cloud'',
     ''              readOnly: true'',
     ''            - name: infra-kubeconfig'',
     ''              mountPath: /etc/kubernetes/infra-kubeconfig'',
     ''              readOnly: true'',
     ''      volumes:'',
     ''        - name: cloud-config'',
     ''          configMap:'',
     ''            name: cloud-config'',
     ''        - name: infra-kubeconfig'',
     ''          secret:'',
     ''            secretName: '' @ ccmCredSecretName,
     ''      tolerations:'',
     ''        - key: node-role.kubernetes.io/master'',
     ''          operator: Exists'',
     ''          effect: NoSchedule'',
     ''        - key: node.cloudprovider.kubernetes.io/uninitialized'',
     ''          operator: Exists'',
     ''          effect: NoSchedule'',
     ''      nodeSelector:'',
     ''        node-role.kubernetes.io/master: \"\"'']"

definition ccmOperatorScript :: "string" where
  "ccmOperatorScript = text_lines [
     ''#!/bin/bash'',
     ''set -euo pipefail'',
     [],
     ''NAMESPACE=\"openshift-cloud-controller-manager\"'',
     ''PULL_SECRET_DIR=\"/tmp/ccm-pull-secret\"'',
     ''PULL_SECRET_PATH=\"$PULL_SECRET_DIR/.dockerconfigjson\"'',
     ''RECONCILE_INTERVAL=\"${RECONCILE_INTERVAL:-60}\"'',
     [],
     ''MAPPINGS=('',
     ''  \"cloud-controller-manager:kubevirt-cloud-controller-manager:deployment:kubevirt-cloud-controller-manager\"'',
     '')'',
     [],
     ''log() { echo \"[$(date -u '+%Y-%m-%d %H:%M:%S UTC')] $*\"; }'',
     [],
     ''wait_for_clusterversion() {'',
     ''  log \"Waiting for ClusterVersion...\"'',
     ''  until oc get clusterversion version -o jsonpath='{.status.desired.image}' 2>/dev/null | grep -q .; do sleep 10; done'',
     ''  log \"ClusterVersion available.\"'',
     ''}'',
     [],
     ''wait_for_workloads() {'',
     ''  log \"Waiting for CCM deployment...\"'',
     ''  until oc get deployment/kubevirt-cloud-controller-manager -n \"$NAMESPACE\" &>/dev/null; do sleep 5; done'',
     ''  log \"CCM deployment found.\"'',
     ''}'',
     [],
     ''extract_pull_secret() {'',
     ''  mkdir -p \"$PULL_SECRET_DIR\"'',
     ''  oc extract secret/pull-secret -n openshift-config --to=\"$PULL_SECRET_DIR\" --confirm >/dev/null 2>&1 && [ -s \"$PULL_SECRET_PATH\" ]'',
     ''}'',
     [],
     ''reconcile_images() {'',
     ''  local payload=\"$1\"'',
     ''  local all_ok=true'',
     ''  for mapping in \"${MAPPINGS[@]}\"; do'',
     ''    IFS=':' read -r container payload_name res_type res_name <<< \"$mapping\"'',
     ''    desired=$(oc adm release info \"$payload\" --image-for=\"$payload_name\" --registry-config=\"$PULL_SECRET_PATH\" 2>/dev/null || true)'',
     ''    if [ -z \"$desired\" ]; then'',
     ''      log \"WARN: could not resolve $payload_name from payload\"'',
     ''      all_ok=false'',
     ''      continue'',
     ''    fi'',
     ''    current=$(oc get \"$res_type/$res_name\" -n \"$NAMESPACE\" -o jsonpath=\"{.spec.template.spec.containers[?(@.name=='$container')].image}\" 2>/dev/null || true)'',
     ''    [ \"$current\" = \"$desired\" ] && continue'',
     ''    log \"UPDATE: $res_type/$res_name container=$container -> $desired\"'',
     ''    if ! oc set image \"$res_type/$res_name\" \"$container=$desired\" -n \"$NAMESPACE\" 2>/dev/null; then'',
     ''      log \"WARN: failed to update $res_type/$res_name container=$container\"'',
     ''      all_ok=false'',
     ''    fi'',
     ''  done'',
     ''  $all_ok'',
     ''}'',
     [],
     ''log \"=== KubeVirt CCM Operator starting ===\"'',
     ''wait_for_clusterversion'',
     ''wait_for_workloads'',
     [],
     ''LAST_PAYLOAD=\"\"'',
     ''while true; do'',
     ''  CURRENT_PAYLOAD=$(oc get clusterversion version -o jsonpath='{.status.desired.image}' 2>/dev/null || true)'',
     ''  if [ -n \"$CURRENT_PAYLOAD\" ] && [ \"$CURRENT_PAYLOAD\" != \"$LAST_PAYLOAD\" ]; then'',
     ''    log \"Release payload: $CURRENT_PAYLOAD\"'',
     ''    if extract_pull_secret; then'',
     ''      if reconcile_images \"$CURRENT_PAYLOAD\"; then'',
     ''        LAST_PAYLOAD=\"$CURRENT_PAYLOAD\"'',
     ''      else'',
     ''        log \"WARN: partial reconciliation failure, will retry next cycle\"'',
     ''      fi'',
     ''    fi'',
     ''  fi'',
     ''  sleep \"$RECONCILE_INTERVAL\"'',
     ''done'']"

definition ccm_operator_script_yaml :: "string" where
  "ccm_operator_script_yaml = text_lines [
     ''apiVersion: v1'',
     ''kind: ConfigMap'',
     ''metadata:'',
     ''  name: kubevirt-ccm-operator-script'',
     ''  namespace: '' @ ccmNamespace,
     ''data:'',
     ''  operator.sh: |''] @ indentMultiline ccmOperatorScript"

definition ccm_operator_rbac_yaml :: "string" where
  "ccm_operator_rbac_yaml = text_lines [
     ''apiVersion: v1'',
     ''kind: ServiceAccount'',
     ''metadata:'',
     ''  name: kubevirt-ccm-operator'',
     ''  namespace: '' @ ccmNamespace,
     ''---'',
     ''apiVersion: rbac.authorization.k8s.io/v1'',
     ''kind: ClusterRole'',
     ''metadata:'',
     ''  name: kubevirt-ccm-operator'',
     ''rules:'',
     ''  - apiGroups: [\"config.openshift.io\"]'',
     ''    resources: [\"clusterversions\"]'',
     ''    verbs: [\"get\", \"list\", \"watch\"]'',
     ''---'',
     ''apiVersion: rbac.authorization.k8s.io/v1'',
     ''kind: ClusterRoleBinding'',
     ''metadata:'',
     ''  name: kubevirt-ccm-operator'',
     ''roleRef:'',
     ''  apiGroup: rbac.authorization.k8s.io'',
     ''  kind: ClusterRole'',
     ''  name: kubevirt-ccm-operator'',
     ''subjects:'',
     ''  - kind: ServiceAccount'',
     ''    name: kubevirt-ccm-operator'',
     ''    namespace: '' @ ccmNamespace,
     ''---'',
     ''apiVersion: rbac.authorization.k8s.io/v1'',
     ''kind: Role'',
     ''metadata:'',
     ''  name: kubevirt-ccm-operator-workloads'',
     ''  namespace: '' @ ccmNamespace,
     ''rules:'',
     ''  - apiGroups: [\"apps\"]'',
     ''    resources: [\"deployments\"]'',
     ''    resourceNames: [\"'' @ ccmDeploymentName @ ''\"]'',
     ''    verbs: [\"get\", \"patch\"]'',
     ''---'',
     ''apiVersion: rbac.authorization.k8s.io/v1'',
     ''kind: RoleBinding'',
     ''metadata:'',
     ''  name: kubevirt-ccm-operator-workloads'',
     ''  namespace: '' @ ccmNamespace,
     ''roleRef:'',
     ''  apiGroup: rbac.authorization.k8s.io'',
     ''  kind: Role'',
     ''  name: kubevirt-ccm-operator-workloads'',
     ''subjects:'',
     ''  - kind: ServiceAccount'',
     ''    name: kubevirt-ccm-operator'',
     ''    namespace: '' @ ccmNamespace,
     ''---'',
     ''apiVersion: rbac.authorization.k8s.io/v1'',
     ''kind: Role'',
     ''metadata:'',
     ''  name: kubevirt-ccm-operator-pull-secret'',
     ''  namespace: openshift-config'',
     ''rules:'',
     ''  - apiGroups: [\"\"]'',
     ''    resources: [\"secrets\"]'',
     ''    resourceNames: [\"pull-secret\"]'',
     ''    verbs: [\"get\"]'',
     ''---'',
     ''apiVersion: rbac.authorization.k8s.io/v1'',
     ''kind: RoleBinding'',
     ''metadata:'',
     ''  name: kubevirt-ccm-operator-pull-secret'',
     ''  namespace: openshift-config'',
     ''roleRef:'',
     ''  apiGroup: rbac.authorization.k8s.io'',
     ''  kind: Role'',
     ''  name: kubevirt-ccm-operator-pull-secret'',
     ''subjects:'',
     ''  - kind: ServiceAccount'',
     ''    name: kubevirt-ccm-operator'',
     ''    namespace: '' @ ccmNamespace]"

definition ccm_operator_deployment_yaml :: "string \<Rightarrow> string" where
  "ccm_operator_deployment_yaml oseCliImage = text_lines [
     ''apiVersion: apps/v1'',
     ''kind: Deployment'',
     ''metadata:'',
     ''  name: kubevirt-ccm-operator'',
     ''  namespace: '' @ ccmNamespace,
     ''  labels:'',
     ''    app: kubevirt-ccm-operator'',
     ''spec:'',
     ''  replicas: 1'',
     ''  selector:'',
     ''    matchLabels:'',
     ''      app: kubevirt-ccm-operator'',
     ''  template:'',
     ''    metadata:'',
     ''      labels:'',
     ''        app: kubevirt-ccm-operator'',
     ''    spec:'',
     ''      serviceAccountName: kubevirt-ccm-operator'',
     ''      containers:'',
     ''        - name: operator'',
     ''          image: '' @ oseCliImage,
     ''          command: [\"/bin/bash\", \"/scripts/operator.sh\"]'',
     ''          volumeMounts:'',
     ''            - name: scripts'',
     ''              mountPath: /scripts'',
     ''              readOnly: true'',
     ''          resources:'',
     ''            requests:'',
     ''              cpu: 10m'',
     ''              memory: 50Mi'',
     ''      volumes:'',
     ''        - name: scripts'',
     ''          configMap:'',
     ''            name: kubevirt-ccm-operator-script'',
     ''      tolerations:'',
     ''        - key: node-role.kubernetes.io/master'',
     ''          operator: Exists'',
     ''          effect: NoSchedule'',
     ''      nodeSelector:'',
     ''        node-role.kubernetes.io/master: \"\"'']"

definition generateCCMOperatorManifests :: "string \<Rightarrow> ManifestEntry list" where
  "generateCCMOperatorManifests oseCliImage =
     [\<lparr>Filename = ''05-ccm-operator-script.yaml'', Content = ccm_operator_script_yaml\<rparr>,
      \<lparr>Filename = ''06-ccm-operator-rbac.yaml'', Content = ccm_operator_rbac_yaml\<rparr>,
      \<lparr>Filename = ''07-ccm-operator-deployment.yaml'', Content = ccm_operator_deployment_yaml oseCliImage\<rparr>]"

definition GenerateCCMManifests :: "oacp \<Rightarrow> string \<Rightarrow> string \<Rightarrow> string \<Rightarrow> ManifestEntry list" where
  "GenerateCCMManifests ob infraNamespace ccmImage oseCliImage =
    (if \<not> ccmEnabled ob then [] else if ccmImage = [] then []
     else [\<lparr>Filename = ''01-ccm-namespace.yaml'', Content = ccm_namespace_yaml\<rparr>,
           \<lparr>Filename = ''02-ccm-cloud-config.yaml'', Content = ccm_cloud_config_yaml infraNamespace\<rparr>,
           \<lparr>Filename = ''03-ccm-rbac.yaml'', Content = ccm_rbac_yaml\<rparr>,
           \<lparr>Filename = ''04-ccm-deployment.yaml'', Content = ccm_deployment_yaml ccmImage\<rparr>] @
          (if oseCliImage \<noteq> [] then generateCCMOperatorManifests oseCliImage else []))"

lemma GenerateCCMManifests_some: "ccmEnabled ob \<Longrightarrow> ccmImage \<noteq> [] \<Longrightarrow> GenerateCCMManifests ob ns ccmImage cli \<noteq> []"
  by (simp add: GenerateCCMManifests_def)

lemma GenerateCCMManifests_files:
  "distinct (List.map Filename (GenerateCCMManifests ob ns img cli))"
  by (auto simp: GenerateCCMManifests_def generateCCMOperatorManifests_def)

end
