(* ===== verification/CSIManifests.thy ===== *)
theory CSIManifests
  imports TenantManifests
begin

text \<open>
  The manifests of the KubeVirt CSI driver, \<open>csi_manifests.go\<close>: the texts of the source line by line, with the values
  it formats into them.
\<close>

definition csiNamespace :: string where "csiNamespace = ''openshift-cluster-csi-drivers''"
definition csiCredSecretName :: string where "csiCredSecretName = ''kubevirt-infra-credentials''"
definition csiControllerSA :: string where "csiControllerSA = ''kubevirt-csi-controller-sa''"
definition csiNodeSA :: string where "csiNodeSA = ''kubevirt-csi-node-sa''"
definition csiControllerName :: string where "csiControllerName = ''kubevirt-csi-controller''"
definition csiNodeName :: string where "csiNodeName = ''kubevirt-csi-node''"
definition csiDriverName :: string where "csiDriverName = ''csi.kubevirt.io''"
definition csiConfigMapName :: string where "csiConfigMapName = ''driver-config''"
definition csiStorageClass :: string where "csiStorageClass = ''kubevirt-csi''"
definition PayloadCSIDriver :: string where "PayloadCSIDriver = ''kubevirt-csi-driver''"
definition PayloadCSIProvisioner :: string where "PayloadCSIProvisioner = ''csi-external-provisioner''"
definition PayloadCSIAttacher :: string where "PayloadCSIAttacher = ''csi-external-attacher''"
definition PayloadCSISnapshotter :: string where "PayloadCSISnapshotter = ''csi-external-snapshotter''"
definition PayloadCSIResizer :: string where "PayloadCSIResizer = ''csi-external-resizer''"
definition PayloadCSILivenessProbe :: string where "PayloadCSILivenessProbe = ''csi-livenessprobe''"
definition PayloadCSINodeRegistrar :: string where "PayloadCSINodeRegistrar = ''csi-node-driver-registrar''"

record CSIImages =
  Driver :: string
  Provisioner :: string
  Attacher :: string
  Snapshotter :: string
  Resizer :: string
  LivenessProbe :: string
  NodeRegistrar :: string

definition csi_namespace_yaml :: "string" where
  "csi_namespace_yaml = text_lines [
     ''apiVersion: v1'',
     ''kind: Namespace'',
     ''metadata:'',
     ''  name: '' @ csiNamespace,
     ''  labels:'',
     ''    openshift.io/cluster-monitoring: \"true\"'']"

definition csi_driver_yaml :: "string" where
  "csi_driver_yaml = text_lines [
     ''apiVersion: storage.k8s.io/v1'',
     ''kind: CSIDriver'',
     ''metadata:'',
     ''  name: '' @ csiDriverName,
     ''spec:'',
     ''  attachRequired: true'',
     ''  podInfoOnMount: true'',
     ''  fsGroupPolicy: ReadWriteOnceWithFSType'']"

definition csi_driver_config_yaml :: "string \<Rightarrow> string" where
  "csi_driver_config_yaml infraNamespace = text_lines [
     ''apiVersion: v1'',
     ''kind: ConfigMap'',
     ''metadata:'',
     ''  name: '' @ csiConfigMapName,
     ''  namespace: '' @ csiNamespace,
     ''data:'',
     ''  infraClusterNamespace: \"'' @ infraNamespace @ ''\"'',
     ''  infraClusterLabels: \"csi-driver/cluster=tenant\"'']"

definition csi_serviceaccounts_yaml :: "string" where
  "csi_serviceaccounts_yaml = text_lines [
     ''apiVersion: v1'',
     ''kind: ServiceAccount'',
     ''metadata:'',
     ''  name: '' @ csiControllerSA,
     ''  namespace: '' @ csiNamespace,
     ''---'',
     ''apiVersion: v1'',
     ''kind: ServiceAccount'',
     ''metadata:'',
     ''  name: '' @ csiNodeSA,
     ''  namespace: '' @ csiNamespace]"

definition csi_rbac_controller_yaml :: "string" where
  "csi_rbac_controller_yaml = text_lines [
     ''apiVersion: rbac.authorization.k8s.io/v1'',
     ''kind: ClusterRole'',
     ''metadata:'',
     ''  name: kubevirt-csi-controller-role'',
     ''rules:'',
     ''  - apiGroups: [\"\"]'',
     ''    resources: [\"nodes\", \"persistentvolumeclaims\", \"persistentvolumes\", \"pods\", \"events\"]'',
     ''    verbs: [\"get\", \"list\", \"watch\", \"create\", \"update\", \"patch\", \"delete\"]'',
     ''  - apiGroups: [\"storage.k8s.io\"]'',
     ''    resources: [\"storageclasses\", \"volumeattachments\", \"volumeattachments/status\", \"csinodes\"]'',
     ''    verbs: [\"get\", \"list\", \"watch\", \"create\", \"update\", \"patch\", \"delete\"]'',
     ''  - apiGroups: [\"snapshot.storage.k8s.io\"]'',
     ''    resources: [\"volumesnapshots\", \"volumesnapshotcontents\", \"volumesnapshotclasses\"]'',
     ''    verbs: [\"get\", \"list\", \"watch\", \"create\", \"update\", \"patch\", \"delete\"]'',
     ''---'',
     ''apiVersion: rbac.authorization.k8s.io/v1'',
     ''kind: ClusterRoleBinding'',
     ''metadata:'',
     ''  name: kubevirt-csi-controller-binding'',
     ''subjects:'',
     ''  - kind: ServiceAccount'',
     ''    name: '' @ csiControllerSA,
     ''    namespace: '' @ csiNamespace,
     ''roleRef:'',
     ''  kind: ClusterRole'',
     ''  name: kubevirt-csi-controller-role'',
     ''  apiGroup: rbac.authorization.k8s.io'',
     ''---'',
     ''apiVersion: rbac.authorization.k8s.io/v1'',
     ''kind: ClusterRole'',
     ''metadata:'',
     ''  name: external-snapshotter-runner'',
     ''rules:'',
     ''  - apiGroups: [\"\"]'',
     ''    resources: [\"events\"]'',
     ''    verbs: [\"list\", \"watch\", \"create\", \"update\", \"patch\"]'',
     ''  - apiGroups: [\"snapshot.storage.k8s.io\"]'',
     ''    resources: [\"volumesnapshots\"]'',
     ''    verbs: [\"get\", \"list\", \"watch\", \"update\", \"patch\"]'',
     ''  - apiGroups: [\"snapshot.storage.k8s.io\"]'',
     ''    resources: [\"volumesnapshots/status\"]'',
     ''    verbs: [\"update\", \"patch\"]'',
     ''  - apiGroups: [\"snapshot.storage.k8s.io\"]'',
     ''    resources: [\"volumesnapshotcontents\"]'',
     ''    verbs: [\"get\", \"list\", \"watch\", \"create\", \"update\", \"patch\", \"delete\"]'',
     ''  - apiGroups: [\"snapshot.storage.k8s.io\"]'',
     ''    resources: [\"volumesnapshotcontents/status\"]'',
     ''    verbs: [\"update\", \"patch\"]'',
     ''---'',
     ''apiVersion: rbac.authorization.k8s.io/v1'',
     ''kind: ClusterRoleBinding'',
     ''metadata:'',
     ''  name: csi-snapshotter-role-binding'',
     ''subjects:'',
     ''  - kind: ServiceAccount'',
     ''    name: '' @ csiControllerSA,
     ''    namespace: '' @ csiNamespace,
     ''roleRef:'',
     ''  kind: ClusterRole'',
     ''  name: external-snapshotter-runner'',
     ''  apiGroup: rbac.authorization.k8s.io'']"

definition csi_rbac_node_yaml :: "string" where
  "csi_rbac_node_yaml = text_lines [
     ''apiVersion: rbac.authorization.k8s.io/v1'',
     ''kind: ClusterRole'',
     ''metadata:'',
     ''  name: kubevirt-csi-node-role'',
     ''rules:'',
     ''  - apiGroups: [\"\"]'',
     ''    resources: [\"nodes\", \"events\"]'',
     ''    verbs: [\"get\", \"list\", \"watch\", \"update\", \"patch\", \"create\"]'',
     ''  - apiGroups: [\"storage.k8s.io\"]'',
     ''    resources: [\"csinodes\"]'',
     ''    verbs: [\"get\", \"list\", \"watch\", \"update\", \"patch\"]'',
     ''---'',
     ''apiVersion: rbac.authorization.k8s.io/v1'',
     ''kind: ClusterRoleBinding'',
     ''metadata:'',
     ''  name: kubevirt-csi-node-binding'',
     ''subjects:'',
     ''  - kind: ServiceAccount'',
     ''    name: '' @ csiNodeSA,
     ''    namespace: '' @ csiNamespace,
     ''roleRef:'',
     ''  kind: ClusterRole'',
     ''  name: kubevirt-csi-node-role'',
     ''  apiGroup: rbac.authorization.k8s.io'']"

definition csi_scc_yaml :: "string" where
  "csi_scc_yaml = text_lines [
     ''apiVersion: rbac.authorization.k8s.io/v1'',
     ''kind: RoleBinding'',
     ''metadata:'',
     ''  name: kubevirt-csi-controller-privileged'',
     ''  namespace: '' @ csiNamespace,
     ''roleRef:'',
     ''  apiGroup: rbac.authorization.k8s.io'',
     ''  kind: ClusterRole'',
     ''  name: system:openshift:scc:privileged'',
     ''subjects:'',
     ''  - kind: ServiceAccount'',
     ''    name: '' @ csiControllerSA,
     ''    namespace: '' @ csiNamespace,
     ''---'',
     ''apiVersion: rbac.authorization.k8s.io/v1'',
     ''kind: RoleBinding'',
     ''metadata:'',
     ''  name: kubevirt-csi-node-privileged'',
     ''  namespace: '' @ csiNamespace,
     ''roleRef:'',
     ''  apiGroup: rbac.authorization.k8s.io'',
     ''  kind: ClusterRole'',
     ''  name: system:openshift:scc:privileged'',
     ''subjects:'',
     ''  - kind: ServiceAccount'',
     ''    name: '' @ csiNodeSA,
     ''    namespace: '' @ csiNamespace]"

definition csi_controller_head :: "CSIImages \<Rightarrow> string" where
  "csi_controller_head images = text_lines [
     ''apiVersion: apps/v1'',
     ''kind: Deployment'',
     ''metadata:'',
     ''  name: '' @ csiControllerName,
     ''  namespace: '' @ csiNamespace,
     ''spec:'',
     ''  replicas: 1'',
     ''  selector:'',
     ''    matchLabels:'',
     ''      app: '' @ csiControllerName,
     ''  template:'',
     ''    metadata:'',
     ''      labels:'',
     ''        app: '' @ csiControllerName,
     ''    spec:'',
     ''      serviceAccountName: '' @ csiControllerSA,
     ''      priorityClassName: system-cluster-critical'',
     ''      nodeSelector:'',
     ''        node-role.kubernetes.io/control-plane: \"\"'',
     ''      tolerations:'',
     ''        - key: CriticalAddonsOnly'',
     ''          operator: Exists'',
     ''        - key: node-role.kubernetes.io/master'',
     ''          operator: Exists'',
     ''          effect: \"NoSchedule\"'',
     ''        - key: node-role.kubernetes.io/control-plane'',
     ''          operator: Exists'',
     ''          effect: \"NoSchedule\"'',
     ''      containers:'',
     ''        - name: kubevirt-csi-driver'',
     ''          image: '' @ Driver images,
     ''          args:'',
     ''            - \"--endpoint=$(CSI_ENDPOINT)\"'',
     ''            - \"--infra-cluster-namespace=$(INFRACLUSTER_NAMESPACE)\"'',
     ''            - \"--infra-cluster-kubeconfig=/var/run/secrets/infracluster/kubeconfig\"'',
     ''            - \"--infra-cluster-labels=$(INFRACLUSTER_LABELS)\"'',
     ''            - \"--run-node-service=false\"'',
     ''            - \"--run-controller-service=true\"'',
     ''            - \"--v=5\"'',
     ''          ports:'',
     ''            - name: healthz'',
     ''              containerPort: 10301'',
     ''              protocol: TCP'',
     ''          env:'',
     ''            - name: CSI_ENDPOINT'',
     ''              value: unix:///var/lib/csi/sockets/pluginproxy/csi.sock'',
     ''            - name: KUBE_NODE_NAME'',
     ''              valueFrom:'',
     ''                fieldRef:'',
     ''                  fieldPath: spec.nodeName'',
     ''            - name: INFRACLUSTER_NAMESPACE'',
     ''              valueFrom:'',
     ''                configMapKeyRef:'',
     ''                  name: '' @ csiConfigMapName,
     ''                  key: infraClusterNamespace'',
     ''            - name: INFRACLUSTER_LABELS'',
     ''              valueFrom:'',
     ''                configMapKeyRef:'',
     ''                  name: '' @ csiConfigMapName,
     ''                  key: infraClusterLabels'',
     ''            - name: INFRA_STORAGE_CLASS_ENFORCEMENT'',
     ''              valueFrom:'',
     ''                configMapKeyRef:'',
     ''                  name: '' @ csiConfigMapName,
     ''                  key: infraStorageClassEnforcement'',
     ''                  optional: true'',
     ''          volumeMounts:'',
     ''            - name: socket-dir'',
     ''              mountPath: /var/lib/csi/sockets/pluginproxy/'',
     ''            - name: infracluster'',
     ''              mountPath: \"/var/run/secrets/infracluster\"'',
     ''          resources:'',
     ''            requests:'',
     ''              memory: 50Mi'',
     ''              cpu: 10m'',
     ''        - name: csi-provisioner'',
     ''          image: '' @ Provisioner images,
     ''          args:'',
     ''            - \"--csi-address=$(ADDRESS)\"'',
     ''            - \"--default-fstype=ext4\"'',
     ''            - \"--v=5\"'',
     ''            - \"--timeout=3m\"'',
     ''            - \"--retry-interval-max=1m\"'',
     ''          env:'',
     ''            - name: ADDRESS'',
     ''              value: /var/lib/csi/sockets/pluginproxy/csi.sock'',
     ''          volumeMounts:'',
     ''            - name: socket-dir'',
     ''              mountPath: /var/lib/csi/sockets/pluginproxy/'',
     ''          resources:'',
     ''            requests:'',
     ''              memory: 50Mi'',
     ''              cpu: 10m'']"

definition csi_controller_sidecars :: "CSIImages \<Rightarrow> string" where
  "csi_controller_sidecars images = text_lines [
     ''        - name: csi-attacher'',
     ''          image: '' @ Attacher images,
     ''          args:'',
     ''            - \"--csi-address=$(ADDRESS)\"'',
     ''            - \"--v=5\"'',
     ''            - \"--timeout=3m\"'',
     ''            - \"--retry-interval-max=1m\"'',
     ''          env:'',
     ''            - name: ADDRESS'',
     ''              value: /var/lib/csi/sockets/pluginproxy/csi.sock'',
     ''          volumeMounts:'',
     ''            - name: socket-dir'',
     ''              mountPath: /var/lib/csi/sockets/pluginproxy/'',
     ''          resources:'',
     ''            requests:'',
     ''              memory: 50Mi'',
     ''              cpu: 10m'',
     ''        - name: csi-liveness-probe'',
     ''          image: '' @ LivenessProbe images,
     ''          args:'',
     ''            - \"--csi-address=/csi/csi.sock\"'',
     ''            - \"--probe-timeout=3s\"'',
     ''            - \"--health-port=10301\"'',
     ''          volumeMounts:'',
     ''            - name: socket-dir'',
     ''              mountPath: /csi'',
     ''          resources:'',
     ''            requests:'',
     ''              memory: 50Mi'',
     ''              cpu: 10m'',
     ''        - name: csi-snapshotter'',
     ''          image: '' @ Snapshotter images,
     ''          args:'',
     ''            - \"--v=3\"'',
     ''            - \"--csi-address=/csi/csi.sock\"'',
     ''            - \"--timeout=3m\"'',
     ''          volumeMounts:'',
     ''            - mountPath: /csi'',
     ''              name: socket-dir'',
     ''          resources:'',
     ''            requests:'',
     ''              memory: 20Mi'',
     ''              cpu: 10m'',
     ''        - name: csi-resizer'',
     ''          image: '' @ Resizer images,
     ''          args:'',
     ''            - \"-csi-address=/csi/csi.sock\"'',
     ''            - \"-v=5\"'',
     ''            - \"-timeout=3m\"'',
     ''            - \"-handle-volume-inuse-error=false\"'',
     ''          volumeMounts:'',
     ''            - name: socket-dir'',
     ''              mountPath: /csi'',
     ''          resources:'',
     ''            requests:'',
     ''              cpu: 10m'',
     ''              memory: 20Mi'',
     ''          securityContext:'',
     ''            capabilities:'',
     ''              drop:'',
     ''                - ALL'',
     ''      volumes:'',
     ''        - name: socket-dir'',
     ''          emptyDir: {}'',
     ''        - name: infracluster'',
     ''          secret:'',
     ''            secretName: '' @ csiCredSecretName]"

definition csi_node_yaml :: "CSIImages \<Rightarrow> string" where
  "csi_node_yaml images = text_lines [
     ''apiVersion: apps/v1'',
     ''kind: DaemonSet'',
     ''metadata:'',
     ''  name: '' @ csiNodeName,
     ''  namespace: '' @ csiNamespace,
     ''spec:'',
     ''  selector:'',
     ''    matchLabels:'',
     ''      app: kubevirt-csi-driver'',
     ''  updateStrategy:'',
     ''    type: RollingUpdate'',
     ''  template:'',
     ''    metadata:'',
     ''      labels:'',
     ''        app: kubevirt-csi-driver'',
     ''    spec:'',
     ''      serviceAccountName: '' @ csiNodeSA,
     ''      priorityClassName: system-node-critical'',
     ''      tolerations:'',
     ''        - operator: Exists'',
     ''      containers:'',
     ''        - name: csi-driver'',
     ''          securityContext:'',
     ''            privileged: true'',
     ''            allowPrivilegeEscalation: true'',
     ''          image: '' @ Driver images,
     ''          args:'',
     ''            - \"--endpoint=unix:/csi/csi.sock\"'',
     ''            - \"--node-name=$(KUBE_NODE_NAME)\"'',
     ''            - \"--run-node-service=true\"'',
     ''            - \"--run-controller-service=false\"'',
     ''            - \"--v=5\"'',
     ''          env:'',
     ''            - name: KUBE_NODE_NAME'',
     ''              valueFrom:'',
     ''                fieldRef:'',
     ''                  fieldPath: spec.nodeName'',
     ''          volumeMounts:'',
     ''            - name: kubelet-dir'',
     ''              mountPath: /var/lib/kubelet'',
     ''              mountPropagation: \"Bidirectional\"'',
     ''            - name: plugin-dir'',
     ''              mountPath: /csi'',
     ''            - name: device-dir'',
     ''              mountPath: /dev'',
     ''            - name: udev'',
     ''              mountPath: /run/udev'',
     ''          ports:'',
     ''            - name: healthz'',
     ''              containerPort: 10300'',
     ''              protocol: TCP'',
     ''          livenessProbe:'',
     ''            httpGet:'',
     ''              path: /healthz'',
     ''              port: healthz'',
     ''            initialDelaySeconds: 10'',
     ''            timeoutSeconds: 3'',
     ''            periodSeconds: 10'',
     ''            failureThreshold: 5'',
     ''          resources:'',
     ''            requests:'',
     ''              memory: 50Mi'',
     ''              cpu: 10m'',
     ''        - name: csi-node-driver-registrar'',
     ''          image: '' @ NodeRegistrar images,
     ''          args:'',
     ''            - \"--csi-address=$(ADDRESS)\"'',
     ''            - \"--kubelet-registration-path=$(DRIVER_REG_SOCK_PATH)\"'',
     ''            - \"--v=5\"'',
     ''          lifecycle:'',
     ''            preStop:'',
     ''              exec:'',
     ''                command: [\"/bin/sh\", \"-c\", \"rm -rf /registration/csi.kubevirt.io-reg.sock /csi/csi.sock\"]'',
     ''          env:'',
     ''            - name: ADDRESS'',
     ''              value: /csi/csi.sock'',
     ''            - name: DRIVER_REG_SOCK_PATH'',
     ''              value: /var/lib/kubelet/plugins/csi.kubevirt.io/csi.sock'',
     ''          volumeMounts:'',
     ''            - name: plugin-dir'',
     ''              mountPath: /csi'',
     ''            - name: registration-dir'',
     ''              mountPath: /registration'',
     ''          resources:'',
     ''            requests:'',
     ''              memory: 20Mi'',
     ''              cpu: 5m'',
     ''        - name: csi-liveness-probe'',
     ''          image: '' @ LivenessProbe images,
     ''          args:'',
     ''            - \"--csi-address=/csi/csi.sock\"'',
     ''            - \"--probe-timeout=3s\"'',
     ''            - \"--health-port=10300\"'',
     ''          volumeMounts:'',
     ''            - name: plugin-dir'',
     ''              mountPath: /csi'',
     ''          resources:'',
     ''            requests:'',
     ''              memory: 20Mi'',
     ''              cpu: 5m'',
     ''      volumes:'',
     ''        - name: kubelet-dir'',
     ''          hostPath:'',
     ''            path: /var/lib/kubelet'',
     ''            type: Directory'',
     ''        - name: plugin-dir'',
     ''          hostPath:'',
     ''            path: /var/lib/kubelet/plugins/csi.kubevirt.io/'',
     ''            type: DirectoryOrCreate'',
     ''        - name: registration-dir'',
     ''          hostPath:'',
     ''            path: /var/lib/kubelet/plugins_registry/'',
     ''            type: Directory'',
     ''        - name: device-dir'',
     ''          hostPath:'',
     ''            path: /dev'',
     ''            type: Directory'',
     ''        - name: udev'',
     ''          hostPath:'',
     ''            path: /run/udev'']"

definition csi_storageclass_yaml :: "string \<Rightarrow> string" where
  "csi_storageclass_yaml infraSC = text_lines [
     ''apiVersion: storage.k8s.io/v1'',
     ''kind: StorageClass'',
     ''metadata:'',
     ''  name: '' @ csiStorageClass,
     ''  annotations:'',
     ''    storageclass.kubernetes.io/is-default-class: \"true\"'',
     ''provisioner: '' @ csiDriverName,
     ''parameters:'',
     ''  infraStorageClassName: '' @ infraSC,
     ''  bus: scsi'',
     ''reclaimPolicy: Delete'',
     ''allowVolumeExpansion: true'',
     ''volumeBindingMode: Immediate'']"

definition csiOperatorScript :: "string" where
  "csiOperatorScript = text_lines [
     ''#!/bin/bash'',
     ''set -euo pipefail'',
     [],
     ''NAMESPACE=\"openshift-cluster-csi-drivers\"'',
     ''PULL_SECRET_DIR=\"/tmp/csi-pull-secret\"'',
     ''PULL_SECRET_PATH=\"$PULL_SECRET_DIR/.dockerconfigjson\"'',
     ''RECONCILE_INTERVAL=\"${RECONCILE_INTERVAL:-60}\"'',
     ''INFRA_NAMESPACE=$(cat /config/infraClusterNamespace 2>/dev/null || echo \"\")'',
     [],
     ''MAPPINGS=('',
     ''  \"kubevirt-csi-driver:kubevirt-csi-driver:deployment:kubevirt-csi-controller\"'',
     ''  \"csi-driver:kubevirt-csi-driver:daemonset:kubevirt-csi-node\"'',
     ''  \"csi-provisioner:csi-external-provisioner:deployment:kubevirt-csi-controller\"'',
     ''  \"csi-attacher:csi-external-attacher:deployment:kubevirt-csi-controller\"'',
     ''  \"csi-snapshotter:csi-external-snapshotter:deployment:kubevirt-csi-controller\"'',
     ''  \"csi-resizer:csi-external-resizer:deployment:kubevirt-csi-controller\"'',
     ''  \"csi-liveness-probe:csi-livenessprobe:deployment:kubevirt-csi-controller\"'',
     ''  \"csi-liveness-probe:csi-livenessprobe:daemonset:kubevirt-csi-node\"'',
     ''  \"csi-node-driver-registrar:csi-node-driver-registrar:daemonset:kubevirt-csi-node\"'',
     '')'',
     [],
     ''log() { echo \"[$(date -u '+%Y-%m-%d %H:%M:%S UTC')] $*\"; }'',
     [],
     ''wait_for_clusterversion() {'',
     ''  log \"Waiting for ClusterVersion...\"'',
     ''  until oc get clusterversion version -o jsonpath='{.status.desired.image}' 2>/dev/null | grep -q .; do sleep 10; done'',
     ''  log \"ClusterVersion available.\"'',
     ''}'',
     [],
     ''annotate_nodes() {'',
     ''  [ -z \"$INFRA_NAMESPACE\" ] && return'',
     ''  for node in $(oc get nodes -o jsonpath='{.items[*].metadata.name}' 2>/dev/null); do'',
     ''    current=$(oc get node \"$node\" -o jsonpath='{.metadata.annotations.cluster'' @ [CHR 0x5C] @ ''.x-k8s'' @ [CHR 0x5C] @ ''.io/cluster-namespace}' 2>/dev/null || true)'',
     ''    if [ \"$current\" != \"$INFRA_NAMESPACE\" ]; then'',
     ''      log \"Annotating node $node with cluster.x-k8s.io/cluster-namespace=$INFRA_NAMESPACE\"'',
     ''      oc annotate node \"$node\" \"cluster.x-k8s.io/cluster-namespace=$INFRA_NAMESPACE\" --overwrite 2>/dev/null || true'',
     ''    fi'',
     ''  done'',
     ''}'',
     [],
     ''wait_for_workloads() {'',
     ''  log \"Waiting for CSI workloads...\"'',
     ''  until oc get deployment/kubevirt-csi-controller -n \"$NAMESPACE\" &>/dev/null && '' @ [CHR 0x5C],
     ''        oc get daemonset/kubevirt-csi-node -n \"$NAMESPACE\" &>/dev/null; do sleep 5; done'',
     ''  log \"CSI workloads found.\"'',
     ''}'',
     [],
     ''extract_pull_secret() {'',
     ''  mkdir -p \"$PULL_SECRET_DIR\"'',
     ''  oc extract secret/pull-secret -n openshift-config --to=\"$PULL_SECRET_DIR\" --confirm >/dev/null 2>&1 && [ -s \"$PULL_SECRET_PATH\" ]'',
     ''}'',
     [],
     ''reconcile_images() {'',
     ''  local payload=\"$1\"'',
     ''  local all_ok=true'',
     ''  for mapping in \"${MAPPINGS[@]}\"; do'',
     ''    IFS=':' read -r container payload_name res_type res_name <<< \"$mapping\"'',
     ''    desired=$(oc adm release info \"$payload\" --image-for=\"$payload_name\" --registry-config=\"$PULL_SECRET_PATH\" 2>/dev/null || true)'',
     ''    if [ -z \"$desired\" ]; then'',
     ''      log \"WARN: could not resolve $payload_name from payload\"'',
     ''      all_ok=false'',
     ''      continue'',
     ''    fi'',
     ''    current=$(oc get \"$res_type/$res_name\" -n \"$NAMESPACE\" -o jsonpath=\"{.spec.template.spec.containers[?(@.name=='$container')].image}\" 2>/dev/null || true)'',
     ''    [ \"$current\" = \"$desired\" ] && continue'',
     ''    log \"UPDATE: $res_type/$res_name container=$container -> $desired\"'',
     ''    if ! oc set image \"$res_type/$res_name\" \"$container=$desired\" -n \"$NAMESPACE\" 2>/dev/null; then'',
     ''      log \"WARN: failed to update $res_type/$res_name container=$container\"'',
     ''      all_ok=false'',
     ''    fi'',
     ''  done'',
     ''  $all_ok'',
     ''}'',
     [],
     ''log \"=== KubeVirt CSI Operator starting ===\"'',
     ''wait_for_clusterversion'',
     ''annotate_nodes'',
     ''wait_for_workloads'',
     [],
     ''LAST_PAYLOAD=\"\"'',
     ''while true; do'',
     ''  CURRENT_PAYLOAD=$(oc get clusterversion version -o jsonpath='{.status.desired.image}' 2>/dev/null || true)'',
     ''  if [ -n \"$CURRENT_PAYLOAD\" ] && [ \"$CURRENT_PAYLOAD\" != \"$LAST_PAYLOAD\" ]; then'',
     ''    log \"Release payload: $CURRENT_PAYLOAD\"'',
     ''    if extract_pull_secret; then'',
     ''      if reconcile_images \"$CURRENT_PAYLOAD\"; then'',
     ''        LAST_PAYLOAD=\"$CURRENT_PAYLOAD\"'',
     ''      else'',
     ''        log \"WARN: partial reconciliation failure, will retry next cycle\"'',
     ''      fi'',
     ''    fi'',
     ''  fi'',
     ''  annotate_nodes'',
     ''  sleep \"$RECONCILE_INTERVAL\"'',
     ''done'']"

definition csi_operator_rbac_yaml :: "string" where
  "csi_operator_rbac_yaml = text_lines [
     ''apiVersion: v1'',
     ''kind: ServiceAccount'',
     ''metadata:'',
     ''  name: kubevirt-csi-operator-sa'',
     ''  namespace: '' @ csiNamespace,
     ''---'',
     ''apiVersion: rbac.authorization.k8s.io/v1'',
     ''kind: ClusterRole'',
     ''metadata:'',
     ''  name: kubevirt-csi-operator-role'',
     ''rules:'',
     ''  - apiGroups: [\"config.openshift.io\"]'',
     ''    resources: [\"clusterversions\"]'',
     ''    verbs: [\"get\", \"list\"]'',
     ''  - apiGroups: [\"\"]'',
     ''    resources: [\"nodes\"]'',
     ''    verbs: [\"get\", \"list\", \"patch\"]'',
     ''---'',
     ''apiVersion: rbac.authorization.k8s.io/v1'',
     ''kind: ClusterRoleBinding'',
     ''metadata:'',
     ''  name: kubevirt-csi-operator-binding'',
     ''subjects:'',
     ''  - kind: ServiceAccount'',
     ''    name: kubevirt-csi-operator-sa'',
     ''    namespace: '' @ csiNamespace,
     ''roleRef:'',
     ''  kind: ClusterRole'',
     ''  name: kubevirt-csi-operator-role'',
     ''  apiGroup: rbac.authorization.k8s.io'',
     ''---'',
     ''apiVersion: rbac.authorization.k8s.io/v1'',
     ''kind: Role'',
     ''metadata:'',
     ''  name: kubevirt-csi-operator-workloads'',
     ''  namespace: '' @ csiNamespace,
     ''rules:'',
     ''  - apiGroups: [\"apps\"]'',
     ''    resources: [\"deployments\"]'',
     ''    resourceNames: [\"'' @ csiControllerName @ ''\"]'',
     ''    verbs: [\"get\", \"patch\"]'',
     ''  - apiGroups: [\"apps\"]'',
     ''    resources: [\"daemonsets\"]'',
     ''    resourceNames: [\"'' @ csiNodeName @ ''\"]'',
     ''    verbs: [\"get\", \"patch\"]'',
     ''---'',
     ''apiVersion: rbac.authorization.k8s.io/v1'',
     ''kind: RoleBinding'',
     ''metadata:'',
     ''  name: kubevirt-csi-operator-workloads'',
     ''  namespace: '' @ csiNamespace,
     ''roleRef:'',
     ''  apiGroup: rbac.authorization.k8s.io'',
     ''  kind: Role'',
     ''  name: kubevirt-csi-operator-workloads'',
     ''subjects:'',
     ''  - kind: ServiceAccount'',
     ''    name: kubevirt-csi-operator-sa'',
     ''    namespace: '' @ csiNamespace,
     ''---'',
     ''apiVersion: rbac.authorization.k8s.io/v1'',
     ''kind: Role'',
     ''metadata:'',
     ''  name: kubevirt-csi-operator-pull-secret'',
     ''  namespace: openshift-config'',
     ''rules:'',
     ''  - apiGroups: [\"\"]'',
     ''    resources: [\"secrets\"]'',
     ''    resourceNames: [\"pull-secret\"]'',
     ''    verbs: [\"get\"]'',
     ''---'',
     ''apiVersion: rbac.authorization.k8s.io/v1'',
     ''kind: RoleBinding'',
     ''metadata:'',
     ''  name: kubevirt-csi-operator-pull-secret'',
     ''  namespace: openshift-config'',
     ''roleRef:'',
     ''  apiGroup: rbac.authorization.k8s.io'',
     ''  kind: Role'',
     ''  name: kubevirt-csi-operator-pull-secret'',
     ''subjects:'',
     ''  - kind: ServiceAccount'',
     ''    name: kubevirt-csi-operator-sa'',
     ''    namespace: '' @ csiNamespace]"

definition csi_operator_script_yaml :: "string" where
  "csi_operator_script_yaml = text_lines [
     ''apiVersion: v1'',
     ''kind: ConfigMap'',
     ''metadata:'',
     ''  name: kubevirt-csi-operator-script'',
     ''  namespace: '' @ csiNamespace,
     ''data:'',
     ''  operator.sh: |''] @ indentMultiline csiOperatorScript"

definition csi_operator_deployment_yaml :: "string \<Rightarrow> string" where
  "csi_operator_deployment_yaml oseCliImage = text_lines [
     ''apiVersion: apps/v1'',
     ''kind: Deployment'',
     ''metadata:'',
     ''  name: kubevirt-csi-operator'',
     ''  namespace: '' @ csiNamespace,
     ''  labels:'',
     ''    app: kubevirt-csi-operator'',
     ''spec:'',
     ''  replicas: 1'',
     ''  selector:'',
     ''    matchLabels:'',
     ''      app: kubevirt-csi-operator'',
     ''  template:'',
     ''    metadata:'',
     ''      labels:'',
     ''        app: kubevirt-csi-operator'',
     ''    spec:'',
     ''      serviceAccountName: kubevirt-csi-operator-sa'',
     ''      containers:'',
     ''        - name: operator'',
     ''          image: '' @ oseCliImage,
     ''          command: [\"/bin/bash\", \"/scripts/operator.sh\"]'',
     ''          env:'',
     ''            - name: RECONCILE_INTERVAL'',
     ''              value: \"60\"'',
     ''          volumeMounts:'',
     ''            - name: script'',
     ''              mountPath: /scripts'',
     ''              readOnly: true'',
     ''            - name: config'',
     ''              mountPath: /config'',
     ''              readOnly: true'',
     ''          resources:'',
     ''            requests:'',
     ''              cpu: 10m'',
     ''              memory: 50Mi'',
     ''      tolerations:'',
     ''        - key: node-role.kubernetes.io/master'',
     ''          operator: Exists'',
     ''          effect: NoSchedule'',
     ''        - key: node-role.kubernetes.io/control-plane'',
     ''          operator: Exists'',
     ''          effect: NoSchedule'',
     ''      nodeSelector:'',
     ''        node-role.kubernetes.io/control-plane: \"\"'',
     ''      volumes:'',
     ''        - name: script'',
     ''          configMap:'',
     ''            name: kubevirt-csi-operator-script'',
     ''            defaultMode: 0755'',
     ''        - name: config'',
     ''          configMap:'',
     ''            name: '' @ csiConfigMapName]"

definition generateCSIOperatorManifests :: "string \<Rightarrow> ManifestEntry list" where
  "generateCSIOperatorManifests oseCliImage =
     [\<lparr>Filename = ''11-csi-operator-rbac.yaml'', Content = csi_operator_rbac_yaml\<rparr>,
      \<lparr>Filename = ''12-csi-operator-script.yaml'', Content = csi_operator_script_yaml\<rparr>,
      \<lparr>Filename = ''13-csi-operator-deployment.yaml'', Content = csi_operator_deployment_yaml oseCliImage\<rparr>]"

definition images_known :: "CSIImages \<Rightarrow> bool" where
  "images_known images \<longleftrightarrow> \<not> (Driver images = [] \<or> Provisioner images = [] \<or> Attacher images = [] \<or> Snapshotter images = [] \<or>
     Resizer images = [] \<or> LivenessProbe images = [] \<or> NodeRegistrar images = [])"

definition GenerateCSIManifests :: "oacp \<Rightarrow> string \<Rightarrow> CSIImages \<Rightarrow> string \<Rightarrow> ManifestEntry list" where
  "GenerateCSIManifests ob infraNamespace images oseCliImage =
    (case cfg_csiDriver (sp_config (oacp_spec ob)) of
       None \<Rightarrow> []
     | Some driver \<Rightarrow> if \<not> csi_enabled driver then [] else if \<not> images_known images then []
         else [\<lparr>Filename = ''01-csi-namespace.yaml'', Content = csi_namespace_yaml\<rparr>,
               \<lparr>Filename = ''02-csi-driver.yaml'', Content = csi_driver_yaml\<rparr>,
               \<lparr>Filename = ''03-csi-driver-config.yaml'', Content = csi_driver_config_yaml infraNamespace\<rparr>,
               \<lparr>Filename = ''04-csi-serviceaccounts.yaml'', Content = csi_serviceaccounts_yaml\<rparr>,
               \<lparr>Filename = ''05-csi-rbac-controller.yaml'', Content = csi_rbac_controller_yaml\<rparr>,
               \<lparr>Filename = ''06-csi-rbac-node.yaml'', Content = csi_rbac_node_yaml\<rparr>,
               \<lparr>Filename = ''07-csi-scc-rolebindings.yaml'', Content = csi_scc_yaml\<rparr>,
               \<lparr>Filename = ''08-csi-controller-deployment.yaml'', Content = csi_controller_head images @ csi_controller_sidecars images\<rparr>,
               \<lparr>Filename = ''09-csi-node-daemonset.yaml'', Content = csi_node_yaml images\<rparr>] @
              (if csi_infraStorageClass driver \<noteq> [] then [\<lparr>Filename = ''10-csi-storageclass.yaml'', Content = csi_storageclass_yaml (csi_infraStorageClass driver)\<rparr>] else []) @
              (if oseCliImage \<noteq> [] then generateCSIOperatorManifests oseCliImage else []))"

lemma GenerateCSIManifests_some: "csiEnabled ob \<Longrightarrow> images_known images \<Longrightarrow> GenerateCSIManifests ob ns images cli \<noteq> []"
  by (auto simp: GenerateCSIManifests_def csiEnabled_def split: option.splits)

lemma GenerateCSIManifests_files: "distinct (List.map Filename (GenerateCSIManifests ob ns images cli))"
  by (auto simp: GenerateCSIManifests_def generateCSIOperatorManifests_def split: option.splits)

end
