(* ===== verification/BlockScalar.thy ===== *)
theory BlockScalar
  imports TenantManifests
begin

text \<open>
  Reading back what the generated manifests embed: the scanner of literal and folded blocks of the YAML library in
  \<open>src/vendor/go.yaml.in/yaml/v2\<close> (\<open>scannerc.go\<close>, \<open>yamlprivateh.go\<close>), and what it finds in the text that
  \<open>indentMultiline\<close> produces. The position of the parser is the column and the bytes that are left; a NUL stands after the
  last byte. Marks of errors and the number of the line are left out. The reader lets only valid UTF-8 into the buffer, so no
  character has width 0 there; a loop that would stay at such a byte ends with \<open>InvalidCharacter\<close>, the panic of \<open>read\<close>.
\<close>

subsection \<open>Characters\<close>

datatype scan_error = TabIndentation | ZeroIndentation | NoLineBreak | InvalidCharacter

definition is_z :: "string \<Rightarrow> bool" where "is_z s \<longleftrightarrow> s = [] \<or> hd s = CHR 0x00"

definition is_space_at :: "string \<Rightarrow> bool" where "is_space_at s \<longleftrightarrow> s \<noteq> [] \<and> hd s = CHR '' ''"

definition is_tab :: "string \<Rightarrow> bool" where "is_tab s \<longleftrightarrow> s \<noteq> [] \<and> hd s = CHR 0x09"

definition is_blank :: "string \<Rightarrow> bool" where "is_blank s \<longleftrightarrow> is_space_at s \<or> is_tab s"

definition is_digit_at :: "string \<Rightarrow> bool" where
  "is_digit_at s \<longleftrightarrow> s \<noteq> [] \<and> (of_char (hd s) :: nat) \<in> {48..57}"

definition as_digit :: "string \<Rightarrow> nat" where "as_digit s = of_char (hd s) - 48"

definition is_crlf :: "string \<Rightarrow> bool" where "is_crlf s \<longleftrightarrow> take 2 s = [CHR 0x0D, CHR 0x0A]"

definition is_break :: "string \<Rightarrow> bool" where
  "is_break s \<longleftrightarrow> take 1 s = [CHR 0x0D] \<or> take 1 s = [CHR 0x0A] \<or> take 2 s = [CHR 0xC2, CHR 0x85]
     \<or> take 3 s = [CHR 0xE2, CHR 0x80, CHR 0xA8] \<or> take 3 s = [CHR 0xE2, CHR 0x80, CHR 0xA9]"

definition is_breakz :: "string \<Rightarrow> bool" where "is_breakz s \<longleftrightarrow> is_break s \<or> is_z s"

definition char_width :: "char \<Rightarrow> nat" where
  "char_width c = (let b = of_char c :: nat in
     if b < 128 then 1 else if 192 \<le> b \<and> b < 224 then 2 else if 224 \<le> b \<and> b < 240 then 3 else if 240 \<le> b \<and> b < 248 then 4 else 0)"

subsection \<open>Line breaks\<close>

definition skip_line :: "nat \<Rightarrow> string \<Rightarrow> nat \<times> string" where
  "skip_line col s =
     (if is_crlf s then (0, drop 2 s)
      else if is_break s then (0, drop (char_width (hd s)) s)
      else (col, s))"

text \<open>The line break that is read, the column after it and what is left.\<close>

definition read_line :: "nat \<Rightarrow> string \<Rightarrow> string \<times> nat \<times> string" where
  "read_line col s =
     (if is_crlf s then ([CHR 0x0A], 0, drop 2 s)
      else if take 1 s = [CHR 0x0D] \<or> take 1 s = [CHR 0x0A] then ([CHR 0x0A], 0, drop 1 s)
      else if take 2 s = [CHR 0xC2, CHR 0x85] then ([CHR 0x0A], 0, drop 2 s)
      else if take 3 s = [CHR 0xE2, CHR 0x80, CHR 0xA8] \<or> take 3 s = [CHR 0xE2, CHR 0x80, CHR 0xA9] then (take 3 s, 0, drop 3 s)
      else ([], col, s))"

lemma is_break_not_Nil: "is_break s \<Longrightarrow> s \<noteq> []"
  by (auto simp: is_break_def)

lemma read_line_shorter: "is_break s \<Longrightarrow> length (snd (snd (read_line col s))) < length s"
  using is_break_not_Nil [of s] by (auto simp: read_line_def is_break_def)

lemma read_line_le: "length (snd (snd (read_line col s))) \<le> length s"
  by (simp add: read_line_def)

subsection \<open>The scanner of blocks\<close>

text \<open>The characters up to the next line break or the end: \<open>read\<close> in a loop.\<close>

function read_to_break :: "nat \<Rightarrow> string \<Rightarrow> string \<times> nat \<times> string" where
  "read_to_break col s =
     (if is_breakz s \<or> char_width (hd s) = 0 then ([], col, s)
      else let w = char_width (hd s); (l, col', r) = read_to_break (col + 1) (drop w s) in (take w s @ l, col', r))"
  by pat_completeness auto

termination
proof (relation "measure (\<lambda>(col, s). length s)")
  fix col :: nat and s :: string and w
  assume "\<not> (is_breakz s \<or> char_width (hd s) = 0)" "w = char_width (hd s)"
  then show "((col + 1, drop w s), col, s) \<in> measure (\<lambda>(col, s). length s)"
    by (cases s) (auto simp: is_breakz_def is_z_def)
qed simp

declare read_to_break.simps [simp del]

fun eat_spaces :: "nat \<Rightarrow> nat \<Rightarrow> string \<Rightarrow> nat \<times> string" where
  "eat_spaces indent col [] = (col, [])"
| "eat_spaces indent col (c # s) = (if (indent = 0 \<or> col < indent) \<and> c = CHR '' '' then eat_spaces indent (col + 1) s else (col, c # s))"

lemma eat_spaces_le: "length (snd (eat_spaces indent col s)) \<le> length s"
  by (induction indent col s rule: eat_spaces.induct) auto

text \<open>\<open>yaml_parser_scan_block_scalar_breaks\<close>: the indentation found, the line breaks, the column and what is left.\<close>

function scan_breaks :: "int \<Rightarrow> nat \<Rightarrow> nat \<Rightarrow> string \<Rightarrow> nat \<Rightarrow> string \<Rightarrow> scan_error + nat \<times> string \<times> nat \<times> string" where
  "scan_breaks parent indent max_indent breaks col s =
     (case eat_spaces indent col s of (col1, s1) \<Rightarrow>
        let max1 = max max_indent col1 in
        if (indent = 0 \<or> col1 < indent) \<and> is_tab s1 then Inl TabIndentation
        else if \<not> is_break s1 then
          Inr (if indent = 0 then max (max max1 (nat (parent + 1))) 1 else indent, breaks, col1, s1)
        else (case read_line col1 s1 of (b, col2, s2) \<Rightarrow> scan_breaks parent indent max1 (breaks @ b) col2 s2))"
  by pat_completeness auto

termination
proof (relation "measure (\<lambda>(parent, indent, max_indent, breaks, col, s). length s)")
  fix parent :: int and indent max_indent :: nat and breaks :: string and col :: nat and s :: string and col1 s1 max1 b z col2 s2
  assume a: "(col1, s1) = eat_spaces indent col s" "\<not> \<not> is_break s1" "(b, z) = read_line col1 s1" "(col2, s2) = z"
  have "length s2 < length s1" using read_line_shorter [of s1 col1] a by (metis prod.sel(2))
  moreover have "length s1 \<le> length s" using eat_spaces_le [of indent col s] a by (metis prod.sel(2))
  ultimately show "((parent, indent, max1, breaks @ b, col2, s2), parent, indent, max_indent, breaks, col, s)
      \<in> measure (\<lambda>(parent, indent, max_indent, breaks, col, s). length s)" by simp
qed simp

declare scan_breaks.simps [simp del]

lemma read_to_break_split: "read_to_break col s = (l, col', r) \<Longrightarrow> s = l @ r"
proof (induction col s arbitrary: l col' r rule: read_to_break.induct)
  case (1 col s)
  show ?case
  proof (cases "is_breakz s \<or> char_width (hd s) = 0")
    case True
    then show ?thesis using "1.prems" by (simp add: read_to_break.simps [of col s])
  next
    case False
    obtain l2 c2 r2 where n: "read_to_break (col + 1) (drop (char_width (hd s)) s) = (l2, c2, r2)" by (cases "read_to_break (col + 1) (drop (char_width (hd s)) s)") auto
    then have "l = take (char_width (hd s)) s @ l2" "r = r2" using "1.prems" False by (simp_all add: read_to_break.simps [of col s])
    moreover have "drop (char_width (hd s)) s = l2 @ r2" using "1.IH" [OF False refl n] .
    ultimately show ?thesis by (metis append_assoc append_take_drop_id)
  qed
qed

lemma read_to_break_Nil: "\<not> is_breakz s \<Longrightarrow> read_to_break col s = ([], col', r) \<Longrightarrow> \<not> is_breakz r"
  using read_to_break_split [of col s "[]" col' r] by simp

lemma scan_breaks_le: "scan_breaks parent indent max_indent breaks col s = Inr (i, bs, col', r) \<Longrightarrow> length r \<le> length s"
proof (induction parent indent max_indent breaks col s rule: scan_breaks.induct)
  case (1 parent indent max_indent breaks col s)
  obtain col1 s1 where e: "eat_spaces indent col s = (col1, s1)" by (cases "eat_spaces indent col s") auto
  obtain b col2 s2 where l: "read_line col1 s1 = (b, col2, s2)" by (cases "read_line col1 s1") auto
  have le: "length s1 \<le> length s" "length s2 \<le> length s1"
    using eat_spaces_le [of indent col s] read_line_le [of col1 s1] e l by auto
  show ?case
  proof (cases "(indent = 0 \<or> col1 < indent) \<and> is_tab s1")
    case True
    then show ?thesis using "1.prems" e by (simp add: scan_breaks.simps [of parent indent max_indent])
  next
    case nt: False
    show ?thesis
    proof (cases "is_break s1")
      case False
      then show ?thesis using "1.prems" e nt le by (simp add: scan_breaks.simps [of parent indent max_indent])
    next
      case True
      then have "scan_breaks parent indent (max max_indent col1) (breaks @ b) col2 s2 = Inr (i, bs, col', r)"
        using "1.prems" e nt l by (simp add: scan_breaks.simps [of parent indent max_indent])
      then have "length r \<le> length s2" using "1.IH" [OF e [symmetric] refl nt _ l [symmetric] refl] True by simp
      then show ?thesis using le by simp
    qed
  qed
qed

text \<open>The lines of the block, with the line breaks between them: the text, the last line break and the ones after it.\<close>

function scan_lines :: "int \<Rightarrow> bool \<Rightarrow> nat \<Rightarrow> string \<Rightarrow> string \<Rightarrow> string \<Rightarrow> bool \<Rightarrow> nat \<Rightarrow> string \<Rightarrow> scan_error + string \<times> string \<times> string \<times> string" where
  "scan_lines parent literal indent acc leading_break trailing_breaks leading_blank col s =
     (if col = indent \<and> \<not> is_z s then
        let trailing_blank = is_blank s;
            fold = (\<not> literal \<and> \<not> leading_blank \<and> \<not> trailing_blank \<and> leading_break \<noteq> [] \<and> hd leading_break = CHR 0x0A);
            acc1 = (if fold then (if trailing_breaks = [] then acc @ '' '' else acc) else acc @ leading_break)
        in (case read_to_break col s of (l, col1, s1) \<Rightarrow>
          if \<not> is_breakz s1 then Inl InvalidCharacter
          else (case read_line col1 s1 of (b, col2, s2) \<Rightarrow>
            (case scan_breaks parent indent 0 [] col2 s2 of
               Inl e \<Rightarrow> Inl e
             | Inr (indent', bs, col3, s3) \<Rightarrow> scan_lines parent literal indent' (acc1 @ trailing_breaks @ l) b bs trailing_blank col3 s3)))
      else Inr (acc, leading_break, trailing_breaks, s))"
  by pat_completeness auto

termination
proof (relation "measure (\<lambda>(parent, literal, indent, acc, lb, tb, lblank, col, s). length s)")
  fix parent :: int and literal leading_blank :: bool and indent col :: nat and acc leading_break trailing_breaks s :: string
    and tbl fd acc1 l y col1 s1 b v col2 s2 w indent' z bs q col3 s3
  assume a: "col = indent \<and> \<not> is_z s" "(l, y) = read_to_break col s" "(col1, s1) = y" "\<not> \<not> is_breakz s1"
    "(b, v) = read_line col1 s1" "(col2, s2) = v" "scan_breaks parent indent 0 [] col2 s2 = Inr w" "(indent', z) = w" "(bs, q) = z" "(col3, s3) = q"
  have r: "read_to_break col s = (l, col1, s1)" and n: "read_line col1 s1 = (b, col2, s2)" using a by simp_all
  have s: "s = l @ s1" by (rule read_to_break_split [OF r])
  have "length s2 < length s"
  proof (cases "l = []")
    case True
    then have "is_break s1" using a(1,4) s by (simp add: is_breakz_def)
    then show ?thesis using read_line_shorter [of s1 col1] n s by simp
  next
    case False
    then show ?thesis using read_line_le [of col1 s1] n s by (cases l) auto
  qed
  moreover have "w = (indent', bs, col3, s3)" using a(8-10) by simp
  then have "length s3 \<le> length s2" using scan_breaks_le [of parent indent 0 "[]" col2 s2] a(7) by blast
  ultimately show "((parent, literal, indent', acc1 @ trailing_breaks @ l, b, bs, tbl, col3, s3), parent, literal, indent, acc, leading_break, trailing_breaks, leading_blank, col, s)
      \<in> measure (\<lambda>(parent, literal, indent, acc, lb, tb, lblank, col, s). length s)" by simp
qed simp

declare scan_lines.simps [simp del]

text \<open>The indicators after \<open>|\<close> or \<open>>\<close>: the chomping (1 for keep, -1 for strip) and the indentation, in either order.\<close>

definition chomp_indicator :: "nat \<Rightarrow> string \<Rightarrow> int \<times> nat \<times> string" where
  "chomp_indicator col s =
     (if take 1 s = ''+'' then (1, col + 1, drop 1 s) else if take 1 s = ''-'' then (-1, col + 1, drop 1 s) else (0, col, s))"

definition indent_indicator :: "nat \<Rightarrow> string \<Rightarrow> scan_error + nat \<times> nat \<times> string" where
  "indent_indicator col s =
     (if \<not> is_digit_at s then Inr (0, col, s)
      else if hd s = CHR ''0'' then Inl ZeroIndentation
      else Inr (as_digit s, col + 1, drop 1 s))"

definition block_indicators :: "nat \<Rightarrow> string \<Rightarrow> scan_error + int \<times> nat \<times> nat \<times> string" where
  "block_indicators col s = (case chomp_indicator col s of (ch, col1, s1) \<Rightarrow>
     if ch \<noteq> 0 then
       (case indent_indicator col1 s1 of Inl e \<Rightarrow> Inl e | Inr (inc, col2, s2) \<Rightarrow> Inr (ch, inc, col2, s2))
     else (case indent_indicator col s of
         Inl e \<Rightarrow> Inl e
       | Inr (inc, col2, s2) \<Rightarrow> if inc = 0 then Inr (0, 0, col2, s2) else
           (case chomp_indicator col2 s2 of (ch, col3, s3) \<Rightarrow> Inr (ch, inc, col3, s3))))"

fun eat_blanks :: "nat \<Rightarrow> string \<Rightarrow> nat \<times> string" where
  "eat_blanks col [] = (col, [])"
| "eat_blanks col (c # s) = (if is_blank (c # s) then eat_blanks (col + 1) s else (col, c # s))"

definition eat_comment :: "nat \<Rightarrow> string \<Rightarrow> nat \<times> string" where
  "eat_comment col s = (if take 1 s = ''#'' then snd (read_to_break col s) else (col, s))"

text \<open>
  \<open>yaml_parser_scan_block_scalar\<close> at the indicator, inside a block that is indented by \<open>parent\<close>: the value of the scalar and what is
  left of the input.
\<close>

definition scan_block_scalar :: "int \<Rightarrow> bool \<Rightarrow> nat \<Rightarrow> string \<Rightarrow> scan_error + string \<times> string" where
  "scan_block_scalar parent literal col s =
     (case block_indicators (col + 1) (drop 1 s) of
        Inl e \<Rightarrow> Inl e
      | Inr (chomping, increment, col1, s1) \<Rightarrow>
          (case eat_blanks col1 s1 of (col2, s2) \<Rightarrow>
           case eat_comment col2 s2 of (col3, s3) \<Rightarrow>
           if \<not> is_breakz s3 then Inl NoLineBreak
           else (case skip_line col3 s3 of (col4, s4) \<Rightarrow>
             let indent = (if increment > 0 then (if parent \<ge> 0 then nat parent + increment else increment) else 0) in
             (case scan_breaks parent indent 0 [] col4 s4 of
                Inl e \<Rightarrow> Inl e
              | Inr (indent', bs, col5, s5) \<Rightarrow>
                  (case scan_lines parent literal indent' [] [] bs False col5 s5 of
                     Inl e \<Rightarrow> Inl e
                   | Inr (acc, leading_break, trailing_breaks, r) \<Rightarrow>
                       Inr (acc @ (if chomping \<noteq> -1 then leading_break else []) @ (if chomping = 1 then trailing_breaks else []), r))))))"

text \<open>A comment with a byte of width 0 is refused as a missing line break here; the reader never hands one out.\<close>


subsection \<open>Lines, and the last line break\<close>

text \<open>The lines without the empty ones at the end.\<close>

definition clip :: "string list \<Rightarrow> string" where
  "clip ls = text_lines (rev (dropWhile (\<lambda>l. l = []) (rev ls)))"

text \<open>The text with exactly one line break at its end.\<close>

definition one_newline :: "string \<Rightarrow> string" where
  "one_newline s = rev (dropWhile (\<lambda>c. c = CHR 0x0A) (rev s)) @ [CHR 0x0A]"

lemma text_lines_unfold: "text_lines [] = []" "text_lines (l # ls) = l @ CHR 0x0A # text_lines ls"
  by (simp_all add: text_lines_def)

lemma text_lines_append: "text_lines (ls @ ms) = text_lines ls @ text_lines ms"
  by (simp add: text_lines_def)

lemma splitLines_from_cur: "splitLines_from cur s = (case splitLines s of [] \<Rightarrow> if cur = [] then [] else [cur] | l # ls \<Rightarrow> (cur @ l) # ls)"
proof (induction s arbitrary: cur)
  case Nil
  then show ?case by (simp add: splitLines_def)
next
  case (Cons c s)
  show ?case
  proof (cases "c = CHR 0x0A")
    case True
    then show ?thesis by (simp add: splitLines_def)
  next
    case False
    then show ?thesis using Cons.IH [of "cur @ [c]"] Cons.IH [of "[c]"] by (auto simp: splitLines_def split: list.splits)
  qed
qed

lemma splitLines_Nil [simp]: "splitLines [] = []" by (simp add: splitLines_def)

lemma splitLines_newline [simp]: "splitLines (CHR 0x0A # s) = [] # splitLines s"
  by (simp add: splitLines_def)

lemma splitLines_Cons: "c \<noteq> CHR 0x0A \<Longrightarrow> splitLines (c # s) = (case splitLines s of [] \<Rightarrow> [[c]] | l # ls \<Rightarrow> (c # l) # ls)"
  using splitLines_from_cur [of "[c]" s] by (auto simp: splitLines_def split: list.splits)

lemma splitLines_line: "CHR 0x0A \<notin> set l \<Longrightarrow> splitLines (l @ CHR 0x0A # s) = l # splitLines s"
  by (induction l) (auto simp: splitLines_Cons)

lemma splitLines_text_lines: "\<forall>l \<in> set ls. CHR 0x0A \<notin> set l \<Longrightarrow> splitLines (text_lines ls @ s) = ls @ splitLines s"
  by (induction ls) (auto simp: splitLines_line text_lines_unfold)

lemma splitLines_last: "CHR 0x0A \<notin> set l \<Longrightarrow> l \<noteq> [] \<Longrightarrow> splitLines l = [l]"
proof (induction l)
  case (Cons c l)
  then show ?case by (cases "l = []") (auto simp: splitLines_Cons)
qed simp

lemma splitLines_no_newline: "l \<in> set (splitLines s) \<Longrightarrow> CHR 0x0A \<notin> set l"
proof (induction s arbitrary: l)
  case (Cons c s)
  show ?case
  proof (cases "c = CHR 0x0A")
    case True
    then show ?thesis using Cons by auto
  next
    case False
    then show ?thesis using Cons by (auto simp: splitLines_Cons split: list.splits)
  qed
qed simp

text \<open>The lines of a text, and the text without its last line breaks.\<close>

lemma text_lines_join: "ls \<noteq> [] \<Longrightarrow> str_join [CHR 0x0A] ls @ CHR 0x0A # s = text_lines ls @ s"
proof (induction ls)
  case (Cons l ls)
  then show ?case by (cases "ls = []") (auto simp: str_join_Cons text_lines_unfold)
qed simp

lemma text_lines_splitLines: "text_lines (splitLines s) = (if s = [] \<or> last s = CHR 0x0A then s else s @ [CHR 0x0A])"
proof (induction s)
  case (Cons c s)
  show ?case
  proof (cases "c = CHR 0x0A")
    case True
    then show ?thesis using Cons by (auto simp: text_lines_unfold)
  next
    case False
    show ?thesis
    proof (cases "splitLines s")
      case Nil
      then show ?thesis using Cons False by (auto simp: splitLines_Cons text_lines_unfold split: if_splits)
    next
      case (Cons l ls)
      then show ?thesis using Cons.IH False by (auto simp: splitLines_Cons text_lines_unfold split: if_splits)
    qed
  qed
qed (simp add: text_lines_unfold)

lemma one_newline_last: "one_newline (s @ [CHR 0x0A]) = one_newline s"
  by (simp add: one_newline_def)

lemma text_lines_end: "ls \<noteq> [] \<Longrightarrow> last (text_lines ls) = CHR 0x0A"
  by (induction ls rule: rev_induct) (simp_all add: text_lines_append text_lines_unfold)

lemma clip_one_newline: "\<forall>l \<in> set ls. CHR 0x0A \<notin> set l \<Longrightarrow> \<exists>l \<in> set ls. l \<noteq> [] \<Longrightarrow> clip ls = one_newline (text_lines ls)"
proof (induction ls rule: rev_induct)
  case (snoc l ls)
  show ?case
  proof (cases "l = []")
    case True
    then show ?thesis using snoc by (auto simp: clip_def text_lines_append text_lines_unfold one_newline_last)
  next
    case False
    have "CHR 0x0A \<notin> set l" using snoc.prems(1) by simp
    then have "last l \<noteq> CHR 0x0A" using False last_in_set by metis
    then have "one_newline (text_lines ls @ l) = text_lines ls @ l @ [CHR 0x0A]" using False
      by (cases l rule: rev_cases) (auto simp: one_newline_def)
    moreover have "one_newline (text_lines ls @ l @ [CHR 0x0A]) = one_newline (text_lines ls @ l)" using one_newline_last [of "text_lines ls @ l"] by simp
    ultimately show ?thesis using False by (simp add: clip_def text_lines_append text_lines_unfold)
  qed
qed simp

lemma text_lines_empty: "\<forall>l \<in> set ls. l = [] \<Longrightarrow> set (text_lines ls) \<subseteq> {CHR 0x0A}"
  by (induction ls) (auto simp: text_lines_unfold)

lemma clip_splitLines:
  assumes "\<exists>c \<in> set s. c \<noteq> CHR 0x0A"
  shows "clip (splitLines s) = one_newline s"
proof -
  have "set s \<subseteq> set (text_lines (splitLines s))" using text_lines_splitLines [of s] by auto
  then have "\<exists>l \<in> set (splitLines s). l \<noteq> []" using assms text_lines_empty [of "splitLines s"] by blast
  then have "clip (splitLines s) = one_newline (text_lines (splitLines s))" using clip_one_newline [of "splitLines s"] splitLines_no_newline by blast
  then show ?thesis by (simp add: text_lines_splitLines one_newline_last)
qed

lemma hd_splitLines: "c \<noteq> CHR 0x0A \<Longrightarrow> splitLines (c # s) \<noteq> [] \<and> hd (splitLines (c # s)) \<noteq> [] \<and> hd (hd (splitLines (c # s))) = c"
  by (auto simp: splitLines_Cons split: list.splits)

subsection \<open>What the scanner finds in an indented text\<close>

text \<open>Text of tabs, line breaks and the printable characters of ASCII, which the reader of the library lets through.\<close>

definition yaml_char :: "char \<Rightarrow> bool" where
  "yaml_char c \<longleftrightarrow> c = CHR 0x09 \<or> c = CHR 0x0A \<or> (of_char c :: nat) \<in> {32..126}"

definition yaml_text :: "string \<Rightarrow> bool" where "yaml_text s \<longleftrightarrow> (\<forall>c \<in> set s. yaml_char c)"

definition yaml_line :: "string \<Rightarrow> bool" where "yaml_line l \<longleftrightarrow> (\<forall>c \<in> set l. yaml_char c \<and> c \<noteq> CHR 0x0A)"

lemma yaml_line_Nil [simp]: "yaml_line []"
  by (simp add: yaml_line_def)

lemma yaml_line_Cons [simp]: "yaml_line (c # l) \<longleftrightarrow> yaml_char c \<and> c \<noteq> CHR 0x0A \<and> yaml_line l"
  by (auto simp: yaml_line_def)

lemma yaml_text_append [simp]: "yaml_text (s @ t) \<longleftrightarrow> yaml_text s \<and> yaml_text t"
  by (auto simp: yaml_text_def)

lemma yaml_text_lines: "yaml_text s \<Longrightarrow> \<forall>l \<in> set (splitLines s). yaml_line l"
proof (induction s)
  case (Cons c s)
  then show ?case
    by (cases "c = CHR 0x0A"; cases "splitLines s") (auto simp: yaml_text_def splitLines_Cons)
qed simp

lemma LF_break [simp]: "is_break (CHR 0x0A # s)" "is_breakz (CHR 0x0A # s)" "\<not> is_tab (CHR 0x0A # s)" "\<not> is_z (CHR 0x0A # s)"
  by (simp_all add: is_break_def is_breakz_def is_tab_def is_z_def)

lemma read_line_LF [simp]: "read_line col (CHR 0x0A # s) = ([CHR 0x0A], 0, s)"
  by (simp add: read_line_def is_crlf_def)

lemma skip_line_LF: "skip_line col (CHR 0x0A # s) = (0, s)"
  by (simp add: skip_line_def is_crlf_def char_width_def)

lemma yaml_char_no_break:
  assumes "yaml_char c" "c \<noteq> CHR 0x0A"
  shows "\<not> is_break (c # s)" "\<not> is_breakz (c # s)" "\<not> is_z (c # s)" "char_width c = 1"
proof -
  have n: "c \<noteq> CHR 0x0D" "c \<noteq> CHR 0xC2" "c \<noteq> CHR 0xE2" "c \<noteq> CHR 0x00" "(of_char c :: nat) < 128" using assms by (auto simp: yaml_char_def)
  then show "\<not> is_break (c # s)" "\<not> is_breakz (c # s)" "\<not> is_z (c # s)" "char_width c = 1"
    using assms(2) by (auto simp: is_break_def is_breakz_def is_z_def char_width_def)
qed

lemma read_to_break_line: "yaml_line l \<Longrightarrow> read_to_break col (l @ CHR 0x0A # s) = (l, col + length l, CHR 0x0A # s)"
proof (induction l arbitrary: col)
  case Nil
  show ?case by (simp add: read_to_break.simps)
next
  case (Cons c l)
  then show ?case by (simp add: read_to_break.simps [of col "c # _"] yaml_char_no_break)
qed

text \<open>A block indented by four, and what follows it: nothing, or a line that is indented by less.\<close>

definition indented :: "string list \<Rightarrow> string \<Rightarrow> string" where
  "indented ls rest = text_lines (List.map indent_line ls) @ rest"

definition ends_block :: "nat \<Rightarrow> string \<Rightarrow> string \<Rightarrow> bool" where
  "ends_block k r rest \<longleftrightarrow> eat_spaces 4 0 rest = (k, r) \<and> k < 4 \<and> \<not> is_tab r \<and> \<not> is_break r"

lemma indented_Cons: "indented ([] # ls) rest = CHR 0x0A # indented ls rest"
  "l \<noteq> [] \<Longrightarrow> indented (l # ls) rest = ''    '' @ l @ CHR 0x0A # indented ls rest"
  "indented [] rest = rest"
  by (simp_all add: indented_def text_lines_unfold indent_line_def)

lemma eat_indentation: "eat_spaces 4 0 (''    '' @ s) = (4, s)"
  by (cases s) simp_all

lemma scan_breaks_empty:
  "indent = 0 \<or> 0 < indent \<Longrightarrow> scan_breaks parent indent m tb 0 (CHR 0x0A # s) = scan_breaks parent indent (max m 0) (tb @ [CHR 0x0A]) 0 s"
  by (simp add: scan_breaks.simps [of parent indent m])

lemma scan_breaks_line:
  assumes "yaml_line l" "l \<noteq> []"
  shows "scan_breaks parent 4 m tb 0 (''    '' @ l @ s) = Inr (4, tb, 4, l @ s)"
proof -
  obtain c l' where l: "l = c # l'" using assms(2) by (cases l) auto
  have "\<not> is_break (l @ s)" using assms(1) yaml_char_no_break(1) [of c] by (simp add: l)
  then show ?thesis by (simp add: scan_breaks.simps [of parent 4 m] eat_indentation del: append_Cons)
qed

lemma scan_breaks_indented:
  "scan_breaks parent 4 m tb 0 (indented ([] # ls) rest) = scan_breaks parent 4 m (tb @ [CHR 0x0A]) 0 (indented ls rest)"
  "yaml_line l \<Longrightarrow> l \<noteq> [] \<Longrightarrow> scan_breaks parent 4 m tb 0 (indented (l # ls) rest) = Inr (4, tb, 4, l @ CHR 0x0A # indented ls rest)"
  by (simp add: indented_Cons(1) scan_breaks_empty) (simp add: indented_Cons(2) scan_breaks_line del: append_Cons)

lemma scan_lines_line:
  assumes "yaml_line l" "l \<noteq> []"
  shows "scan_lines parent True 4 acc lb tb lbl 4 (l @ CHR 0x0A # s) =
    (case scan_breaks parent 4 0 [] 0 s of
       Inl e \<Rightarrow> Inl e
     | Inr (i, bs, col, s') \<Rightarrow> scan_lines parent True i (acc @ lb @ tb @ l) [CHR 0x0A] bs (is_blank l) col s')"
proof -
  obtain c l' where l: "l = c # l'" using assms(2) by (cases l) auto
  have "\<not> is_z (l @ CHR 0x0A # s)" using assms(1) yaml_char_no_break(3) [of c] by (simp add: l)
  moreover have "is_blank (l @ CHR 0x0A # s) = is_blank l" by (simp add: l is_blank_def is_space_at_def is_tab_def)
  ultimately show ?thesis using read_to_break_line [OF assms(1), of 4 s]
    by (cases "scan_breaks parent 4 0 [] 0 s") (auto simp: scan_lines.simps [of parent True 4] Let_def split: prod.splits)
qed

lemma clip_Nil_Cons: "clip ([] # ls) = (if \<forall>l \<in> set ls. l = [] then [] else CHR 0x0A # clip ls)"
  by (auto simp: clip_def dropWhile_append text_lines_unfold dropWhile_eq_Nil_conv)

lemma clip_Cons: "l \<noteq> [] \<Longrightarrow> clip (l # ls) = l @ CHR 0x0A # (if \<forall>l \<in> set ls. l = [] then [] else clip ls)"
  by (auto simp: clip_def dropWhile_append text_lines_unfold dropWhile_eq_Nil_conv)

text \<open>From the line break after a line of the block, with the empty lines since then.\<close>

lemma scan_indented:
  assumes "\<forall>l \<in> set ls. yaml_line l" "ends_block k r rest"
  shows "\<exists>a bs. (case scan_breaks parent 4 m tb 0 (indented ls rest) of
        Inl e \<Rightarrow> Inl e
      | Inr (i, bs, col, s) \<Rightarrow> scan_lines parent True i acc [CHR 0x0A] bs lbl col s) = Inr (a, [CHR 0x0A], bs, r)
    \<and> a @ [CHR 0x0A] = acc @ CHR 0x0A # (if \<forall>l \<in> set ls. l = [] then [] else tb @ clip ls)"
  using assms(1)
proof (induction ls arbitrary: m tb acc lbl)
  case Nil
  have "scan_breaks parent 4 m tb 0 rest = Inr (4, tb, k, r)" "k \<noteq> 4"
    using assms(2) by (simp_all add: ends_block_def scan_breaks.simps [of parent 4 m])
  then show ?case by (simp add: indented_Cons scan_lines.simps [of parent True 4])
next
  case (Cons l ls)
  show ?case
  proof (cases "l = []")
    case True
    then show ?thesis using Cons.IH [where m = m and tb = "tb @ [CHR 0x0A]" and acc = acc and lbl = lbl] Cons.prems
      by (auto simp: scan_breaks_indented clip_Nil_Cons)
  next
    case False
    then show ?thesis
      using Cons.IH [where m = 0 and tb = "[]" and acc = "acc @ [CHR 0x0A] @ tb @ l" and lbl = "is_blank l"] Cons.prems
      by (auto cong: sum.case_cong simp: scan_breaks_indented scan_lines_line clip_Cons)
  qed
qed

text \<open>
  What \<open>indentMultiline\<close> put under a key is what the scanner finds there, with one line break at the end. The text must not
  start with a space or a line break, which would shift the indentation, nor with a tab, which the scanner refuses.
\<close>

lemma scan_block_indented:
  assumes s: "yaml_text s" "s = c # s'" "c \<notin> {CHR '' '', CHR 0x09, CHR 0x0A}" and p: "p < 4" and rest: "ends_block k r rest"
  shows "scan_block_scalar p True col (CHR ''|'' # CHR 0x0A # indented (splitLines s) rest) = Inr (one_newline s, r)"
proof -
  have c: "c \<noteq> CHR 0x0A" "c \<noteq> CHR '' ''" "c \<noteq> CHR 0x09" using s(3) by auto
  obtain l ls where ls: "splitLines s = (c # l) # ls" using hd_splitLines [OF c(1), of s'] s(2) by (cases "splitLines s"; cases "hd (splitLines s)") auto
  have lines: "yaml_line (c # l)" "\<forall>l \<in> set ls. yaml_line l" using yaml_text_lines [OF s(1)] ls by auto
  let ?body = "(c # l) @ CHR 0x0A # indented ls rest"
  have b: "scan_breaks p 0 0 [] 0 (''    '' @ ?body) = Inr (4, [], 4, ?body)"
    using c p yaml_char_no_break(1) [of c] lines(1) by (auto simp: scan_breaks.simps [of p 0 0] is_tab_def)
  obtain a bs where t: "(case scan_breaks p 4 0 [] 0 (indented ls rest) of
        Inl e \<Rightarrow> Inl e
      | Inr (i, bs, col, s) \<Rightarrow> scan_lines p True i (c # l) [CHR 0x0A] bs (is_blank (c # l)) col s) = Inr (a, [CHR 0x0A], bs, r)"
    "a @ [CHR 0x0A] = (c # l) @ CHR 0x0A # (if \<forall>l \<in> set ls. l = [] then [] else clip ls)"
    using scan_indented [OF lines(2) rest, where parent = p and m = 0 and tb = "[]" and acc = "c # l" and lbl = "is_blank (c # l)"] by auto
  have "scan_lines p True 4 [] [] [] False 4 ?body = Inr (a, [CHR 0x0A], bs, r)"
    using scan_lines_line [OF lines(1), of p "[]" "[]" "[]" False "indented ls rest", unfolded append_Nil] t(1) by simp
  moreover have "clip ((c # l) # ls) = one_newline s" using clip_splitLines [of s] c(1) s(2) unfolding ls by simp
  then have "a @ [CHR 0x0A] = one_newline s" using t(2) clip_Cons [of "c # l" ls] by simp
  moreover have "block_indicators (col + 1) (CHR 0x0A # x) = Inr (0, 0, col + 1, CHR 0x0A # x)" for x
    by (simp add: block_indicators_def chomp_indicator_def indent_indicator_def is_digit_at_def)
  moreover have "eat_blanks (col + 1) (CHR 0x0A # x) = (col + 1, CHR 0x0A # x)" "eat_comment (col + 1) (CHR 0x0A # x) = (col + 1, CHR 0x0A # x)" for x
    by (simp_all add: is_blank_def is_space_at_def is_tab_def eat_comment_def)
  ultimately show ?thesis using b indented_Cons(2) [of "c # l" ls rest]
    by (simp add: scan_block_scalar_def ls skip_line_LF)
qed

lemma indented_text: "s \<noteq> [] \<Longrightarrow> hd s \<noteq> CHR 0x0A \<Longrightarrow> indentMultiline s @ CHR 0x0A # rest = indented (splitLines s) rest"
  unfolding indentMultiline_def indented_def by (rule text_lines_join) (cases s; auto simp: splitLines_Cons split: list.splits)

lemma ends_block_end: "ends_block 0 [] []"
  by (simp add: ends_block_def is_tab_def is_break_def)

lemma ends_block_key: "c \<noteq> CHR '' '' \<Longrightarrow> yaml_char c \<Longrightarrow> c \<noteq> CHR 0x09 \<Longrightarrow> c \<noteq> CHR 0x0A \<Longrightarrow> ends_block 2 (c # r) (''  '' @ c # r)"
  by (simp add: ends_block_def is_tab_def yaml_char_no_break)

subsection \<open>The texts of the DNS proxy\<close>

lemma yaml_text_Nil [simp]: "yaml_text []"
  by (simp add: yaml_text_def)

lemma yaml_text_Cons: "yaml_text (c # s) \<longleftrightarrow> yaml_char c \<and> yaml_text s"
  by (simp add: yaml_text_def)

lemma yaml_text_text_lines: "yaml_text (text_lines ls) \<longleftrightarrow> (\<forall>l \<in> set ls. yaml_text l)"
  by (induction ls) (simp_all add: text_lines_unfold yaml_text_Cons yaml_char_def)

lemma yaml_text_concat: "yaml_text (concat ls) \<longleftrightarrow> (\<forall>l \<in> set ls. yaml_text l)"
  by (induction ls) simp_all

lemma yaml_text_replace_all: "yaml_text r \<Longrightarrow> yaml_text s \<Longrightarrow> yaml_text (replace_all c r s)"
  by (induction s) (auto simp: replace_all_def yaml_text_Cons)

lemma yaml_text_dec_nat: "yaml_text (dec_nat n)"
proof (induction n rule: dec_nat.induct)
  case (1 n)
  have "n mod 10 < 10" by simp
  then have "n mod 10 \<le> 78" by linarith
  then have "yaml_text [digit_char (n mod 10)]" by (simp add: yaml_text_def yaml_char_def digit_char_def)
  then show ?case using 1 by (cases "n < 10") (simp_all add: dec_nat.simps [of n])
qed

lemma yaml_text_dnsRecordType: "yaml_text (dnsRecordType ip)"
  by (simp add: dnsRecordType_def yaml_text_Cons yaml_char_def split: option.split)

lemma yaml_text_api_answers:
  "yaml_text rt \<Longrightarrow> yaml_text host \<Longrightarrow> yaml_text fqdn \<Longrightarrow> \<forall>ip \<in> set ips. yaml_text ip \<Longrightarrow> yaml_text (api_answers rt host fqdn ips)"
  by (simp add: api_answers_def api_answer_def yaml_text_text_lines yaml_text_concat yaml_text_dnsRecordType yaml_text_Cons yaml_char_def)

lemma yaml_text_api_templates:
  "yaml_text rt \<Longrightarrow> yaml_text fqdn \<Longrightarrow> yaml_text efqdn \<Longrightarrow> \<forall>ip \<in> set ips. yaml_text ip \<Longrightarrow> yaml_text (api_templates rt fqdn efqdn ips)"
  by (simp add: api_templates_def Let_def yaml_text_text_lines yaml_text_api_answers yaml_text_Cons yaml_char_def)

lemma yaml_text_generateCorefile:
  "yaml_text fqdn \<Longrightarrow> yaml_text dns \<Longrightarrow> \<forall>ip \<in> set apis. yaml_text ip \<Longrightarrow> yaml_text (generateCorefile fqdn dns apis ings)"
  by (simp add: generateCorefile_def forward_only_corefile_def Let_def yaml_text_text_lines yaml_text_api_templates yaml_text_replace_all yaml_text_Cons yaml_char_def)

lemma yaml_text_generateAppsCorefile: "yaml_text fqdn \<Longrightarrow> yaml_text (generateAppsCorefile fqdn)"
  by (simp add: generateAppsCorefile_def yaml_text_text_lines yaml_text_Cons yaml_char_def)

lemma yaml_text_generateAppsZoneFile: "yaml_text fqdn \<Longrightarrow> \<forall>ip \<in> set ings. yaml_text ip \<Longrightarrow> yaml_text (generateAppsZoneFile fqdn ings)"
  by (simp add: generateAppsZoneFile_def zone_record_def yaml_text_text_lines yaml_text_concat yaml_text_dnsRecordType yaml_text_dec_nat yaml_text_Cons yaml_char_def)

end
