(* ===== verification/TenantInstall.thy ===== *)
theory TenantInstall
  imports ClusterDeployment CCMManifests CSIManifests BlockScalar
begin

text \<open>
  The ConfigMaps with the manifests of a KubeVirt tenant: component images from the release payload
  (\<open>release_images.go\<close>), the ConfigMaps themselves (\<open>configmap.go\<close>) and the credentials of the infrastructure cluster
  (\<open>credentials.go\<close>).
\<close>

subsection \<open>Images of the release payload\<close>

fun component_image :: "string \<Rightarrow> (string \<times> string option) list \<Rightarrow> string res" where
  "component_image componentName [] = Inl (Errorf ''component not found in release image-references'')"
| "component_image componentName ((n, from_ref) # tags) =
    (if n = componentName then (case from_ref of
       None \<Rightarrow> Inl (Errorf ''component found in image-references but has no From reference'')
     | Some img \<Rightarrow> Inr img)
     else component_image componentName tags)"

definition ResolveImageFromPayload :: "'s env \<Rightarrow> 's remoteImage \<Rightarrow> string \<Rightarrow> bytes \<Rightarrow> string \<Rightarrow> ('s, string res) prog" where
  "ResolveImageFromPayload E R releaseImageRef pullSecret componentName = (case PullSecretKeyChainFromString E pullSecret of
     Inl e \<Rightarrow> ret (Inl (Wrapf ''failed to load auth from pull secret'' e))
   | Inr auth \<Rightarrow> do {
       r \<leftarrow> ri_GetImage R releaseImageRef auth;
       ret (case r of
         Inl e \<Rightarrow> Inl (Wrapf ''failed to get release image'' e)
       | Inr img \<Rightarrow> (case ExtractFileFromImage (Some img) imageReferencesPath of
           Inl e \<Rightarrow> Inl (Wrapf ''failed to extract from release image'' e)
         | Inr content \<Rightarrow> (case x_image_tags E content of
             Inl e \<Rightarrow> Inl (Wrapf ''failed to parse image-references'' e)
           | Inr tags \<Rightarrow> component_image componentName tags))) })"

subsection \<open>ConfigMaps\<close>

definition with_manifests :: "oacp \<Rightarrow> ManifestEntry list \<Rightarrow> config_map \<Rightarrow> config_map" where
  "with_manifests acp manifests cm = cm\<lparr>cm_data := foldl (\<lambda>data m. data(Filename m \<mapsto> Content m)) (cm_data cm) manifests,
     cm_meta := add_owner (oacp_owner_ref None acp) (cm_meta cm)\<rparr>"

definition fresh_config_map :: "string \<Rightarrow> string \<Rightarrow> config_map" where
  "fresh_config_map ns n = \<lparr>cm_meta = empty_meta\<lparr>m_name := n, m_namespace := ns\<rparr>, cm_data = Map.empty\<rparr>"

definition ensureManifestsConfigMap :: "'s env \<Rightarrow> oacp \<Rightarrow> string \<Rightarrow> ManifestEntry list \<Rightarrow> ('s, goerr option) prog" where
  "ensureManifestsConfigMap E acp name manifests = do {
     r \<leftarrow> CreateOrUpdate E Mgmt KConfigMap as_config_map OConfigMap (m_namespace (oacp_meta acp)) name
       (fresh_config_map (m_namespace (oacp_meta acp)) name) (with_manifests acp manifests);
     ret (err_of r) }"

text \<open>A step that makes one ConfigMap when it has manifests and refers to it; steps one after the other.\<close>

definition add_manifests :: "'s env \<Rightarrow> oacp \<Rightarrow> string \<Rightarrow> ManifestEntry list \<Rightarrow> string \<Rightarrow> ('s, string list res) prog" where
  "add_manifests E acp name manifests msg = (if manifests = [] then ret (Inr []) else do {
     e \<leftarrow> ensureManifestsConfigMap E acp name manifests;
     ret (case e of Some e' \<Rightarrow> Inl (Wrapf msg e') | None \<Rightarrow> Inr [name]) })"

definition and_then :: "('s, string list res) prog \<Rightarrow> ('s, string list res) prog \<Rightarrow> ('s, string list res) prog" where
  "and_then m k = do {
     r \<leftarrow> m;
     case r of Inl e \<Rightarrow> ret (Inl e) | Inr refs \<Rightarrow> do {
       r' \<leftarrow> k;
       ret (case r' of Inl e \<Rightarrow> Inl e | Inr refs' \<Rightarrow> Inr (refs @ refs')) } }"

definition without_refs :: "('s, string list res) prog \<Rightarrow> ('s, string list res) prog" where
  "without_refs m = do { r \<leftarrow> m; ret (case r of Inl e \<Rightarrow> Inl e | Inr _ \<Rightarrow> Inr []) }"

definition ccm_step :: "'s env \<Rightarrow> 's remoteImage \<Rightarrow> oacp \<Rightarrow> string \<Rightarrow> string \<Rightarrow> string \<Rightarrow> bytes \<Rightarrow> ('s, string list res) prog" where
  "ccm_step E R acp infraNamespace oseCliImage releaseImage pullSecret = (if \<not> ccmEnabled acp then ret (Inr []) else do {
     r \<leftarrow> ResolveImageFromPayload E R releaseImage pullSecret ''kubevirt-cloud-controller-manager'';
     case r of
       Inl e \<Rightarrow> ret (Inl (Wrapf ''failed to resolve CCM image from release payload'' e))
     | Inr ccmImage \<Rightarrow>
         if ccmImage = [] then ret (Inl (Errorf ''CCM image resolved to empty string from release payload''))
         else add_manifests E acp CCMManifestsConfigMapName (GenerateCCMManifests acp infraNamespace ccmImage oseCliImage)
           ''failed to create CCM manifests ConfigMap'' })"

definition csi_components :: "string list" where
  "csi_components = [PayloadCSIDriver, PayloadCSIProvisioner, PayloadCSIAttacher, PayloadCSISnapshotter, PayloadCSIResizer,
     PayloadCSILivenessProbe, PayloadCSINodeRegistrar]"

text \<open>The loop over the map of components, in the order \<open>cs\<close>.\<close>

fun resolve_components :: "'s env \<Rightarrow> 's remoteImage \<Rightarrow> string \<Rightarrow> bytes \<Rightarrow> string list \<Rightarrow> (string \<Rightarrow> string) \<Rightarrow> ('s, (string \<Rightarrow> string) res) prog" where
  "resolve_components E R releaseImage pullSecret [] images = ret (Inr images)"
| "resolve_components E R releaseImage pullSecret (c # cs) images = do {
     r \<leftarrow> ResolveImageFromPayload E R releaseImage pullSecret c;
     case r of
       Inl e \<Rightarrow> ret (Inl (Wrapf ''failed to resolve CSI image from release payload'' e))
     | Inr img \<Rightarrow> resolve_components E R releaseImage pullSecret cs (images(c := img)) }"

definition csi_images :: "(string \<Rightarrow> string) \<Rightarrow> CSIImages" where
  "csi_images img = \<lparr>Driver = img PayloadCSIDriver, Provisioner = img PayloadCSIProvisioner, Attacher = img PayloadCSIAttacher,
     Snapshotter = img PayloadCSISnapshotter, Resizer = img PayloadCSIResizer, LivenessProbe = img PayloadCSILivenessProbe,
     NodeRegistrar = img PayloadCSINodeRegistrar\<rparr>"

definition csi_step :: "'s env \<Rightarrow> 's remoteImage \<Rightarrow> (string list \<Rightarrow> string list) \<Rightarrow> oacp \<Rightarrow> string \<Rightarrow> string \<Rightarrow> string \<Rightarrow> bytes \<Rightarrow> ('s, string list res) prog" where
  "csi_step E R ord acp infraNamespace oseCliImage releaseImage pullSecret = (if \<not> csiEnabled acp then ret (Inr []) else do {
     r \<leftarrow> resolve_components E R releaseImage pullSecret (ord csi_components) (\<lambda>_. []);
     case r of
       Inl e \<Rightarrow> ret (Inl e)
     | Inr img \<Rightarrow> add_manifests E acp CSIManifestsConfigMapName (GenerateCSIManifests acp infraNamespace (csi_images img) oseCliImage)
         ''failed to create CSI manifests ConfigMap'' })"

definition cluster_name_of :: "oacp \<Rightarrow> string" where
  "cluster_name_of acp = (if cfg_clusterName (sp_config (oacp_spec acp)) = [] then m_name (oacp_meta acp) else cfg_clusterName (sp_config (oacp_spec acp)))"

definition if_pod :: "oacp \<Rightarrow> ('s, string list res) prog \<Rightarrow> ('s, string list res) prog" where
  "if_pod acp m = (if podNet acp then m else ret (Inr []))"

definition ip_list :: "string \<Rightarrow> string list" where "ip_list ip = (if ip = [] then [] else [ip])"

text \<open>\<open>serviceIPs\<close> is the pair of the API's and the ingress's address.\<close>

definition ensurePodNetworkingManifests :: "'s env \<Rightarrow> oacp \<Rightarrow> (string \<times> string) option \<Rightarrow> string \<Rightarrow> string \<Rightarrow> ('s, string list res) prog" where
  "ensurePodNetworkingManifests E acp serviceIPs infraCoreDNSIP clusterName =
    (let baseDomain = cfg_baseDomain (sp_config (oacp_spec acp));
         apiIPs = (case serviceIPs of None \<Rightarrow> [] | Some (a, i) \<Rightarrow> ip_list a); ingressIPs = (case serviceIPs of None \<Rightarrow> [] | Some (a, i) \<Rightarrow> ip_list i) in
     and_then (if_pod acp (add_manifests E acp PodNetDNSFixManifestsConfigMapName (GeneratePodNetworkDNSFixManifests infraCoreDNSIP)
       ''failed to create pod network DNS fix manifests ConfigMap''))
     (and_then (add_manifests E acp NetworkMTUConfigMapName GenerateNetworkMTUManifests ''failed to create network MTU manifests ConfigMap'')
     (and_then (without_refs (add_manifests E acp DNSProxyConfigMapName
         (GenerateDNSProxyManifestsWithIPs E clusterName baseDomain (m_namespace (oacp_meta acp)) infraCoreDNSIP apiIPs ingressIPs)
         ''failed to create DNS proxy manifests ConfigMap''))
     (and_then (if_pod acp (add_manifests E acp TenantDNSFwdConfigName (GenerateTenantDNSForwarderManifests (clusterName @ ''.'' @ baseDomain) [])
       ''failed to create tenant DNS forwarder manifests ConfigMap''))
     (if_pod acp (add_manifests E acp MCSManifestsConfigName GenerateMCSNodePortManifests ''failed to create MCS manifests ConfigMap''))))))"

definition EnsureKubeVirtManifests :: "'s env \<Rightarrow> 's remoteImage \<Rightarrow> (string list \<Rightarrow> string list) \<Rightarrow> oacp \<Rightarrow> string \<Rightarrow> (string \<times> string) option \<Rightarrow> string \<Rightarrow> string \<Rightarrow> bytes \<Rightarrow> string \<Rightarrow> ('s, string list res) prog" where
  "EnsureKubeVirtManifests E R ord acp infraNamespace serviceIPs oseCliImage releaseImage pullSecret infraCoreDNSIP =
     and_then (ccm_step E R acp infraNamespace oseCliImage releaseImage pullSecret)
     (and_then (csi_step E R ord acp infraNamespace oseCliImage releaseImage pullSecret)
     (and_then (if bridgeNet acp then add_manifests E acp ResolvFixManifestsConfigMapName GenerateResolvFixManifests ''failed to create resolv fix manifests ConfigMap''
        else ret (Inr []))
     (ensurePodNetworkingManifests E acp serviceIPs infraCoreDNSIP (cluster_name_of acp))))"

subsection \<open>Credentials\<close>

definition ccm_credentials_yaml :: "string \<Rightarrow> string" where
  "ccm_credentials_yaml kubeconfigData = text_lines [
     ''apiVersion: v1'',
     ''kind: Secret'',
     ''metadata:'',
     ''  name: '' @ ccmCredSecretName,
     ''  namespace: openshift-cloud-controller-manager'',
     ''type: Opaque'',
     ''stringData:'',
     ''  kubeconfig: |'',
     indentMultiline kubeconfigData]"

definition csi_credentials_yaml :: "string \<Rightarrow> string \<Rightarrow> string" where
  "csi_credentials_yaml infraNS kubeconfigData = text_lines [
     ''apiVersion: v1'',
     ''kind: Secret'',
     ''metadata:'',
     ''  name: '' @ csiCredSecretName,
     ''  namespace: openshift-cluster-csi-drivers'',
     ''type: Opaque'',
     ''stringData:'',
     ''  infraClusterNamespace: '' @ infraNS,
     ''  kubeconfig: |'',
     indentMultiline kubeconfigData]"

definition credentials_manifests :: "oacp \<Rightarrow> string \<Rightarrow> ManifestEntry list" where
  "credentials_manifests acp kubeconfigData =
     (if ccmEnabled acp then [\<lparr>Filename = ''01-ccm-credentials-secret.yaml'', Content = ccm_credentials_yaml kubeconfigData\<rparr>] else []) @
     (if csiEnabled acp then [\<lparr>Filename = ''02-csi-credentials-secret.yaml'', Content = csi_credentials_yaml (m_namespace (oacp_meta acp)) kubeconfigData\<rparr>] else [])"

text \<open>The branch of the source for no manifests at all is never reached: it returns before when neither component is enabled.\<close>

definition EnsureInfraCredentialsManifests :: "'s env \<Rightarrow> oacp \<Rightarrow> ('s, goerr option) prog" where
  "EnsureInfraCredentialsManifests E acp =
    (if \<not> (csiEnabled acp \<or> ccmEnabled acp) then ret None
     else do {
       let credSecretName = (case cfg_infraClusterRef (sp_config (oacp_spec acp)) of None \<Rightarrow> ''infra-cluster-credentials'' | Some ref \<Rightarrow> ref);
       r \<leftarrow> get_as E as_secret Mgmt KSecret (m_namespace (oacp_meta acp)) credSecretName;
       case r of
         Inl e \<Rightarrow> ret (Some (Wrapf ''failed to get infra credentials secret'' e))
       | Inr sourceSecret \<Rightarrow>
           let kubeconfigData = (case se_data sourceSecret ''kubeconfig'' of None \<Rightarrow> [] | Some d \<Rightarrow> d) in
           if kubeconfigData = [] then ret (Some (Errorf ''infra credentials secret does not contain kubeconfig key''))
           else let manifests = credentials_manifests acp kubeconfigData in
             if manifests = [] then ensureManifestsConfigMap E acp InfraCredentialsCMName
               [\<lparr>Filename = ''placeholder.yaml'', Content = text_lines [''# No infra credentials manifests needed'']\<rparr>]
             else ensureManifestsConfigMap E acp InfraCredentialsCMName manifests })"

subsection \<open>What a successful step leaves in the store\<close>

lemma logs_CreateOrUpdate:
  assumes d: "\<And>g a. decode as_a g = Inr a \<Longrightarrow> g = Inr (OA a)" and n: "\<And>a. as_aci (OA a) = None"
  shows "logs (CreateOrUpdate E Mgmt k as_a OA ns n fresh mutate) (\<lambda>r evs. no_install evs \<and> (\<forall>x. r = Inr x \<longrightarrow> (\<exists>a. in_store k ns n (OA (mutate a)) evs)))"
proof -
  have t: "\<not> touches_install (EvCreate Mgmt (OA a) c)" "\<not> touches_install (EvUpdate Mgmt (OA a) c)" for a c
    using n [of a] by (cases "OA a"; simp)+
  show ?thesis
    unfolding CreateOrUpdate_def get_as_def kcall_defs
    apply (simp only: prog_simps)
    apply (rule logs_call_bind, rule logs_case_sum, rule logs_if)
       apply (rule logs_call_bind, rule logs_return)
    subgoal for g e c using t(1) d [of c] by (force simp: in_store_def)
      apply (rule logs_return, simp)
    apply (rule logs_if, rule logs_return)
    subgoal for g a using d [of g a] by (force simp: in_store_def)
    apply (rule logs_call_bind, rule logs_return)
    subgoal for g a c using t(2) d [of g a] d [of c] by (force simp: in_store_def)
    done
qed

text \<open>The ConfigMap \<open>name\<close> is in the store with manifests in it.\<close>

definition cm_delivered :: "oacp \<Rightarrow> string \<Rightarrow> event list \<Rightarrow> bool" where
  "cm_delivered acp name evs \<longleftrightarrow> (\<exists>cm (ms :: ManifestEntry list). in_store KConfigMap (m_namespace (oacp_meta acp)) name (OConfigMap cm) evs
     \<and> ms \<noteq> [] \<and> (\<forall>m \<in> set ms. cm_data cm (Filename m) = Some (Content m)))"

definition stable :: "(event list \<Rightarrow> bool) \<Rightarrow> bool" where
  "stable P \<longleftrightarrow> (\<forall>pre evs post. P evs \<longrightarrow> P (pre @ evs @ post))"

lemma stable_intros: "stable (cm_delivered acp name)" "stable (\<lambda>_. b)" "stable P \<Longrightarrow> stable Q \<Longrightarrow> stable (\<lambda>evs. P evs \<and> Q evs)"
  "stable P \<Longrightarrow> stable (\<lambda>evs. b \<longrightarrow> P evs)"
  unfolding stable_def cm_delivered_def using in_store_append by (fast, fast, fast, fast)

lemma stableD: "stable P \<Longrightarrow> P evs \<Longrightarrow> P (pre @ evs)" "stable P \<Longrightarrow> P evs \<Longrightarrow> P (evs @ post)"
  unfolding stable_def by (metis append_Nil2, metis append_Nil)

lemma manifests_written:
  "distinct (List.map Filename ms) \<Longrightarrow> m \<in> set ms \<Longrightarrow> foldl (\<lambda>data m. data(Filename m \<mapsto> Content m)) d ms (Filename m) = Some (Content m)"
proof (induction ms rule: rev_induct)
  case (snoc x ms)
  have "Filename m \<noteq> Filename x" if "m \<in> set ms" using snoc.prems(1) that by (auto simp: image_iff)
  then show ?case using snoc by (cases "m = x") auto
qed simp

lemma logs_ensureManifestsConfigMap:
  assumes "ms \<noteq> []" "distinct (List.map Filename ms)"
  shows "logs (ensureManifestsConfigMap E acp name ms) (\<lambda>r evs. no_install evs \<and> (r = None \<longrightarrow> cm_delivered acp name evs))"
  unfolding ensureManifestsConfigMap_def
  apply (rule logs_bind [OF logs_CreateOrUpdate], simp add: decode_install, simp, rule logs_return)
  subgoal premises prems for r evs
  proof -
    have "cm_delivered acp name evs" if err: "err_of r = None"
    proof -
      obtain x where "r = Inr x" using err_of_None [OF err] by blast
      then obtain a where "in_store KConfigMap (m_namespace (oacp_meta acp)) name (OConfigMap (with_manifests acp ms a)) evs" using prems by blast
      moreover have "\<forall>m \<in> set ms. cm_data (with_manifests acp ms a) (Filename m) = Some (Content m)"
        using manifests_written [OF assms(2)] by (simp add: with_manifests_def)
      ultimately show ?thesis unfolding cm_delivered_def using assms(1) by blast
    qed
    then show ?thesis using prems by simp
  qed
  done

text \<open>A step that, when it succeeds, has established \<open>P\<close>, and that does not write AgentClusterInstalls.\<close>

definition establishes :: "(event list \<Rightarrow> bool) \<Rightarrow> ('s, string list res) prog \<Rightarrow> bool" where
  "establishes P m \<longleftrightarrow> logs m (\<lambda>r evs. no_install evs \<and> (\<forall>refs. r = Inr refs \<longrightarrow> P evs))"

lemma establishes_and_then:
  assumes "establishes P m" "establishes Q k" "stable P" "stable Q"
  shows "establishes (\<lambda>evs. P evs \<and> Q evs) (and_then m k)"
  unfolding establishes_def and_then_def
  apply (rule logs_bind [OF assms(1) [unfolded establishes_def]], rule logs_case_sum, rule logs_return, simp)
  apply (rule logs_bind [OF assms(2) [unfolded establishes_def]], rule logs_return)
  using stableD [OF assms(3)] stableD [OF assms(4)] by (auto split: sum.splits)

lemma establishes_without_refs: "establishes P m \<Longrightarrow> establishes P (without_refs m)"
  unfolding establishes_def without_refs_def
  by (erule logs_bind, rule logs_return) (auto split: sum.splits)

lemma establishes_if_pod: "establishes P m \<Longrightarrow> establishes (\<lambda>evs. podNet acp \<longrightarrow> P evs) (if_pod acp m)"
  unfolding establishes_def if_pod_def by (auto intro: logs_return elim: logs_mono)

lemma establishes_add:
  assumes "ms \<noteq> []" "distinct (List.map Filename ms)"
  shows "establishes (cm_delivered acp name) (add_manifests E acp name ms msg)"
  unfolding establishes_def add_manifests_def
  using assms(1) by (auto intro!: logs_bind [OF logs_ensureManifestsConfigMap [OF assms]] logs_return split: option.splits)

text \<open>A release image read in this pass names the component with an empty image.\<close>

definition names_empty :: "'s env \<Rightarrow> string \<Rightarrow> event list \<Rightarrow> bool" where
  "names_empty E c evs \<longleftrightarrow> (\<exists>ref im b tags. EvRemoteImage ref (Inr im) \<in> set evs \<and> ExtractFileFromImage (Some im) imageReferencesPath = Inr b
     \<and> x_image_tags E b = Inr tags \<and> component_image c tags = Inr [])"

definition csi_unnamed :: "'s env \<Rightarrow> event list \<Rightarrow> bool" where
  "csi_unnamed E evs \<longleftrightarrow> (\<exists>c \<in> set csi_components. names_empty E c evs)"

lemma names_empty_mono: "names_empty E c evs \<Longrightarrow> set evs \<subseteq> set evs' \<Longrightarrow> names_empty E c evs'"
  unfolding names_empty_def by blast

lemma stable_unnamed: "stable (csi_unnamed E)"
proof -
  have "names_empty E c evs \<Longrightarrow> names_empty E c (pre @ evs @ post)" for c pre evs post by (erule names_empty_mono) auto
  then show ?thesis unfolding stable_def csi_unnamed_def by blast
qed

lemma emits_ResolveImage: "logs (ResolveImageFromPayload E (NewRemoteImageRepository E) img ps c) (\<lambda>r evs. no_install evs
   \<and> (r = Inr [] \<longrightarrow> names_empty E c evs))"
proof -
  have get: "logs (GetImage E ref kc) (\<lambda>r evs. no_install evs \<and> (\<forall>im. r = Inr im \<longrightarrow> EvRemoteImage ref (Inr im) \<in> set evs))" for ref kc
    unfolding GetImage_def remote_image_def
    by (intro logs_intros logs_call_bind) (auto simp: no_install_def split: sum.splits)
  show ?thesis
    unfolding ResolveImageFromPayload_def NewRemoteImageRepository_def remoteImage.simps
    apply (rule logs_case_sum, rule logs_return, simp)
    apply (rule logs_bind [OF get], rule logs_return)
    apply (auto simp: names_empty_def split: sum.splits)
    done
qed

lemma logs_resolve_components:
  "logs (resolve_components E (NewRemoteImageRepository E) img ps cs f) (\<lambda>r evs. no_install evs \<and>
     (\<forall>g. r = Inr g \<longrightarrow> (\<forall>c. c \<in> set cs \<or> f c \<noteq> [] \<longrightarrow> g c \<noteq> [] \<or> names_empty E c evs)))"
proof (induction cs arbitrary: f)
  case Nil
  then show ?case by (simp add: logs_return)
next
  case (Cons c cs)
  show ?case
    unfolding resolve_components.simps
    apply (rule logs_bind [OF emits_ResolveImage], rule logs_case_sum, rule logs_return, simp)
    apply (rule logs_mono [OF Cons.IH])
    subgoal premises prems for r evs x r' evs'
    proof -
      have sub: "names_empty E d evs \<Longrightarrow> names_empty E d (evs @ evs')" "names_empty E d evs' \<Longrightarrow> names_empty E d (evs @ evs')" for d
        by (erule names_empty_mono, simp)+
      have later: "g d \<noteq> [] \<or> names_empty E d evs'" if "r' = Inr g" "d \<in> set cs \<or> (f(c := x)) d \<noteq> []" for g d
        using prems(3) that by blast
      have "g d \<noteq> [] \<or> names_empty E d (evs @ evs')" if g: "r' = Inr g" and d: "d \<in> set (c # cs) \<or> f d \<noteq> []" for g d
      proof (cases "d \<in> set cs \<or> (f(c := x)) d \<noteq> []")
        case True
        then show ?thesis using later [OF g] sub(2) by blast
      next
        case False
        then have "d = c" "x = []" using d by (auto split: if_splits)
        then show ?thesis using prems(1,2) sub(1) by simp
      qed
      moreover have "no_install (evs @ evs')" using prems by (simp add: no_install_def)
      ultimately show ?thesis by blast
    qed
    done
qed

lemma establishes_ccm:
  "establishes (\<lambda>evs. ccmEnabled acp \<longrightarrow> cm_delivered acp CCMManifestsConfigMapName evs) (ccm_step E (NewRemoteImageRepository E) acp ns cli img ps)"
  unfolding establishes_def ccm_step_def
  apply (rule logs_if, rule logs_return, simp)
  apply (rule logs_bind [OF emits_ResolveImage], rule logs_case_sum, rule logs_return, simp)
  apply (rule logs_if, rule logs_return, simp)
  apply (rule logs_mono [OF establishes_add [unfolded establishes_def]])
    apply (simp add: GenerateCCMManifests_some)
   apply (rule GenerateCCMManifests_files)
  apply (auto intro: stableD stable_intros)
  done

text \<open>The manifests of the CSI driver are in the store, unless the payload names one of its images with the empty text.\<close>

definition csi_delivered :: "'s env \<Rightarrow> oacp \<Rightarrow> event list \<Rightarrow> bool" where
  "csi_delivered E acp evs \<longleftrightarrow> cm_delivered acp CSIManifestsConfigMapName evs \<or> csi_unnamed E evs"

lemma stable_csi: "stable (csi_delivered E acp)"
  using stable_intros(1) [of acp CSIManifestsConfigMapName] stable_unnamed [of E] unfolding stable_def csi_delivered_def by blast

lemma emits_CreateOrUpdate [emits_intros]:
  assumes "\<And>a. as_aci (OA a) = None"
  shows "emits (\<lambda>e. \<not> touches_install e) (CreateOrUpdate E c k as_a OA ns n fresh mutate)"
proof -
  have "\<not> touches_install (EvCreate c (OA a) r)" "\<not> touches_install (EvUpdate c (OA a) r)" for a r
    using assms [of a] by (cases "OA a"; simp)+
  then show ?thesis unfolding CreateOrUpdate_def by (intro emits_intros) simp_all
qed

lemma logs_add_manifests: "logs (add_manifests E acp name ms msg) (\<lambda>r evs. no_install evs)"
proof -
  have "emits (\<lambda>e. \<not> touches_install e) (add_manifests E acp name ms msg)"
    unfolding add_manifests_def ensureManifestsConfigMap_def by (intro emits_intros) simp_all
  then show ?thesis by (rule emits_no_install)
qed

lemma establishes_csi:
  assumes "\<And>xs. set (ord xs) = set xs"
  shows "establishes (\<lambda>evs. csiEnabled acp \<longrightarrow> csi_delivered E acp evs) (csi_step E (NewRemoteImageRepository E) ord acp ns cli img ps)"
  unfolding establishes_def csi_step_def
  apply (rule logs_if, rule logs_return, simp)
  apply (rule logs_bind [OF logs_resolve_components], rule logs_case_sum, rule logs_return, simp)
  subgoal premises prems for r evs g
  proof (cases "images_known (csi_images g)")
    case True
    then show ?thesis
      using prems stableD(1) [OF stable_intros(1), of acp CSIManifestsConfigMapName _ evs]
      by (intro logs_mono [OF establishes_add [unfolded establishes_def, OF GenerateCSIManifests_some GenerateCSIManifests_files]])
        (auto simp: csi_delivered_def)
  next
    case False
    have "g c \<noteq> [] \<or> names_empty E c evs" if "c \<in> set csi_components" for c
      using prems that assms by blast
    then have "csi_unnamed E evs"
      using False unfolding csi_unnamed_def images_known_def csi_images_def csi_components_def by auto
    then show ?thesis
      using prems stableD(2) [OF stable_csi, of E acp evs] by (intro logs_mono [OF logs_add_manifests]) (auto simp: csi_delivered_def)
  qed
  done

lemmas manifest_lists = GenerateResolvFixManifests_def GeneratePodNetworkDNSFixManifests_def GenerateNetworkMTUManifests_def
  GenerateDNSProxyManifestsWithIPs_def GenerateTenantDNSForwarderManifests_def GenerateMCSNodePortManifests_def Let_def

definition pod_delivered :: "oacp \<Rightarrow> event list \<Rightarrow> bool" where
  "pod_delivered acp evs \<longleftrightarrow> (\<forall>name \<in> {PodNetDNSFixManifestsConfigMapName, NetworkMTUConfigMapName, TenantDNSFwdConfigName, MCSManifestsConfigName}.
     cm_delivered acp name evs)"

lemma establishes_mono: "establishes P m \<Longrightarrow> (\<And>evs. P evs \<Longrightarrow> Q evs) \<Longrightarrow> establishes Q m"
  unfolding establishes_def by (auto elim: logs_mono)

lemma establishes_pod:
  "establishes (\<lambda>evs. podNet acp \<longrightarrow> pod_delivered acp evs) (ensurePodNetworkingManifests E acp ips dns cn)"
proof -
  have "establishes (\<lambda>evs. (podNet acp \<longrightarrow> cm_delivered acp PodNetDNSFixManifestsConfigMapName evs) \<and> cm_delivered acp NetworkMTUConfigMapName evs
      \<and> cm_delivered acp DNSProxyConfigMapName evs \<and> (podNet acp \<longrightarrow> cm_delivered acp TenantDNSFwdConfigName evs) \<and> (podNet acp \<longrightarrow> cm_delivered acp MCSManifestsConfigName evs))
     (ensurePodNetworkingManifests E acp ips dns cn)"
    unfolding ensurePodNetworkingManifests_def Let_def
    by (intro establishes_and_then establishes_if_pod establishes_without_refs establishes_add stable_intros) (auto simp: manifest_lists)
  then show ?thesis by (rule establishes_mono) (auto simp: pod_delivered_def)
qed

lemma stable_pod: "stable (pod_delivered acp)"
  unfolding stable_def pod_delivered_def using stable_intros(1) by (fast dest: stable_def [THEN iffD1])

lemma establishes_manifests:
  assumes "\<And>xs. set (ord xs) = set xs"
  shows "establishes (\<lambda>evs. (ccmEnabled acp \<longrightarrow> cm_delivered acp CCMManifestsConfigMapName evs) \<and> (csiEnabled acp \<longrightarrow> csi_delivered E acp evs)
      \<and> (bridgeNet acp \<longrightarrow> cm_delivered acp ResolvFixManifestsConfigMapName evs) \<and> (podNet acp \<longrightarrow> pod_delivered acp evs))
     (EnsureKubeVirtManifests E (NewRemoteImageRepository E) ord acp ns ips cli img ps dns)"
proof -
  have b: "establishes (\<lambda>evs. bridgeNet acp \<longrightarrow> cm_delivered acp ResolvFixManifestsConfigMapName evs)
     (if bridgeNet acp then add_manifests E acp ResolvFixManifestsConfigMapName GenerateResolvFixManifests msg else ret (Inr []))" for msg
    using establishes_add [of GenerateResolvFixManifests] by (auto simp: establishes_def manifest_lists intro: logs_return elim: logs_mono)
  show ?thesis
    unfolding EnsureKubeVirtManifests_def
    by (intro establishes_and_then establishes_ccm establishes_csi [OF assms] b establishes_pod stable_intros stable_pod stable_csi)
qed

lemma logs_credentials:
  "logs (EnsureInfraCredentialsManifests E acp) (\<lambda>r evs. no_install evs \<and> (r = None \<longrightarrow> csiEnabled acp \<or> ccmEnabled acp \<longrightarrow> cm_delivered acp InfraCredentialsCMName evs))"
  unfolding EnsureInfraCredentialsManifests_def Let_def get_as_def kcall_defs
  apply (simp only: prog_simps)
  apply (rule logs_if, rule logs_return, simp)
  apply (rule logs_call_bind, rule logs_case_sum, rule logs_return, simp)
  apply (rule logs_if, rule logs_return, simp)
  apply (rule logs_if)
   apply (rule logs_mono [OF logs_ensureManifestsConfigMap])
     apply (simp, simp)
  subgoal premises prems for g sec r evs using prems stableD(1) [OF stable_intros(1), of acp InfraCredentialsCMName evs "[_]"] by auto
  apply (rule logs_mono [OF logs_ensureManifestsConfigMap])
    apply assumption
   apply (auto simp: credentials_manifests_def)[1]
  subgoal premises prems for g sec r evs using prems stableD(1) [OF stable_intros(1), of acp InfraCredentialsCMName evs "[_]"] by auto
  done

subsection \<open>What is embedded reads back\<close>

text \<open>
  The scanner of YAML meets the first block of a document after a key at column 2, so its indentation is 2 there
  (\<open>parser.indent\<close>): the value it returns and the input it leaves.
\<close>

definition embeds :: "string \<Rightarrow> string \<Rightarrow> string \<Rightarrow> string \<Rightarrow> bool" where
  "embeds key d value r \<longleftrightarrow> (\<exists>pre t. d = pre @ ''  '' @ key @ '': '' @ t \<and> CHR ''|'' \<notin> set pre \<and>
     scan_block_scalar 2 True (length key + 4) t = Inr (value, r))"

lemma embedsI:
  assumes "yaml_text s" "s = c # s'" "c \<notin> {CHR '' '', CHR 0x09, CHR 0x0A}" "ends_block k r rest" "CHR ''|'' \<notin> set pre"
    and "d = pre @ ''  '' @ key @ '': |'' @ CHR 0x0A # indentMultiline s @ CHR 0x0A # rest"
  shows "embeds key d (one_newline s) r"
proof -
  have "indentMultiline s @ CHR 0x0A # rest = indented (splitLines s) rest" by (rule indented_text) (use assms(2,3) in auto)
  then have "scan_block_scalar 2 True (length key + 4) (CHR ''|'' # CHR 0x0A # indentMultiline s @ CHR 0x0A # rest) = Inr (one_newline s, r)"
    using scan_block_indented [OF assms(1-3) _ assms(4), of 2] by simp
  moreover have "d = pre @ ''  '' @ key @ '': '' @ (CHR ''|'' # CHR 0x0A # indentMultiline s @ CHR 0x0A # rest)" using assms(6) by simp
  ultimately show ?thesis using assms(5) unfolding embeds_def by blast
qed

lemma ccm_credentials_reads_back:
  assumes "yaml_text kc" "kc = c # rest" "c \<notin> {CHR '' '', CHR 0x09, CHR 0x0A}"
  shows "embeds ''kubeconfig'' (ccm_credentials_yaml kc) (one_newline kc) []"
  by (rule embedsI [OF assms ends_block_end, where pre = "text_lines [''apiVersion: v1'', ''kind: Secret'', ''metadata:'',
      ''  name: '' @ ccmCredSecretName, ''  namespace: openshift-cloud-controller-manager'', ''type: Opaque'', ''stringData:'']"])
    (simp_all add: ccm_credentials_yaml_def text_lines_unfold ccmCredSecretName_def)

lemma csi_credentials_reads_back:
  assumes "yaml_text kc" "kc = c # rest" "c \<notin> {CHR '' '', CHR 0x09, CHR 0x0A}" "CHR ''|'' \<notin> set ns"
  shows "embeds ''kubeconfig'' (csi_credentials_yaml ns kc) (one_newline kc) []"
  by (rule embedsI [OF assms(1-3) ends_block_end, where pre = "text_lines [''apiVersion: v1'', ''kind: Secret'', ''metadata:'',
      ''  name: '' @ csiCredSecretName, ''  namespace: openshift-cluster-csi-drivers'', ''type: Opaque'', ''stringData:'', ''  infraClusterNamespace: '' @ ns]"])
    (use assms(4) in \<open>simp_all add: csi_credentials_yaml_def text_lines_unfold csiCredSecretName_def\<close>)

lemma dns_proxy_reads_back:
  assumes "yaml_text x" "yaml_text f" "\<forall>ip \<in> set ips. yaml_text ip" "CHR ''|'' \<notin> set ns"
  shows "\<exists>u. embeds ''Corefile'' (dns_proxy_config ns (generateAppsCorefile f @ x) (generateAppsZoneFile f ips))
      (one_newline (generateAppsCorefile f @ x)) (''apps.db: '' @ u)
    \<and> scan_block_scalar 2 True 11 u = Inr (one_newline (generateAppsZoneFile f ips), [])"
proof -
  let ?core = "generateAppsCorefile f @ x" and ?zone = "generateAppsZoneFile f ips"
  let ?pre = "text_lines [''apiVersion: v1'', ''kind: ConfigMap'', ''metadata:'', ''  name: tenant-dns-corefile'', ''  namespace: '' @ ns, ''data:'']"
  let ?u = "CHR ''|'' # CHR 0x0A # indentMultiline ?zone @ [CHR 0x0A]"
  have d: "dns_proxy_config ns ?core ?zone = ?pre @ ''  '' @ ''Corefile'' @ '': |'' @ CHR 0x0A # indentMultiline ?core @ CHR 0x0A # ''  apps.db: '' @ ?u"
    by (simp add: dns_proxy_config_def text_lines_unfold)
  have c: "?core = CHR ''a'' # tl ?core" by (simp add: generateAppsCorefile_def text_lines_unfold)
  have z: "?zone = CHR ''$'' # tl ?zone" by (simp add: generateAppsZoneFile_def text_lines_unfold)
  have "ends_block 2 (CHR ''a'' # ''pps.db: '' @ ?u) (''  '' @ CHR ''a'' # ''pps.db: '' @ ?u)" by (rule ends_block_key) (simp_all add: yaml_char_def)
  then have e: "ends_block 2 (''apps.db: '' @ ?u) (''  apps.db: '' @ ?u)" by simp
  have "yaml_text ?core" using assms(1,2) yaml_text_generateAppsCorefile by simp
  then have "embeds ''Corefile'' (dns_proxy_config ns ?core ?zone) (one_newline ?core) (''apps.db: '' @ ?u)"
    by (rule embedsI [OF _ c _ e _ d]) (use assms(4) in \<open>simp_all add: text_lines_unfold\<close>)
  moreover have "indentMultiline ?zone @ CHR 0x0A # [] = indented (splitLines ?zone) []" by (rule indented_text) (subst z, simp)+
  then have "scan_block_scalar 2 True 11 ?u = Inr (one_newline ?zone, [])"
    using scan_block_indented [OF yaml_text_generateAppsZoneFile [OF assms(2,3)] z _ _ ends_block_end, of 2 11] by simp
  ultimately show ?thesis by blast
qed

text \<open>
  Claim C15. What is embedded into the manifests of a tenant is what the YAML scanner under \<open>src/vendor\<close> finds there, up to
  line breaks at the end: the kubeconfig of the infrastructure cluster in the first block of the secrets for the cloud controller manager
  and the CSI driver, up to the end of the manifest, and the Corefile and the zone of the DNS proxy in its ConfigMap. The texts are
  made of tabs, line breaks and printable ASCII, and the kubeconfig does not start with a space, a tab or a line break; the
  namespace has no character that begins a block.
\<close>

theorem embedded_texts_read_back:
  assumes "yaml_text kc" "kc = c # rest" "c \<notin> {CHR '' '', CHR 0x09, CHR 0x0A}" "m \<in> set (credentials_manifests acp kc)"
    and ns: "CHR ''|'' \<notin> set (m_namespace (oacp_meta acp))"
    and t: "yaml_text cn" "yaml_text bd" "yaml_text dns" "\<forall>ip \<in> set (apis @ ings). yaml_text ip"
  shows "embeds ''kubeconfig'' (Content m) (one_newline kc) []
    \<and> (\<exists>d u. hd (GenerateDNSProxyManifestsWithIPs E cn bd (m_namespace (oacp_meta acp)) dns apis ings) = \<lparr>Filename = ''01-dns-proxy-configmap.yaml'', Content = d\<rparr>
      \<and> embeds ''Corefile'' d (one_newline (generateAppsCorefile (cn @ ''.'' @ bd) @ generateCorefile (cn @ ''.'' @ bd) dns apis ings)) (''apps.db: '' @ u)
      \<and> scan_block_scalar 2 True 11 u = Inr (one_newline (generateAppsZoneFile (cn @ ''.'' @ bd) ings), []))"
proof -
  have k: "embeds ''kubeconfig'' (Content m) (one_newline kc) []"
    using assms(4) ccm_credentials_reads_back [OF assms(1-3)] csi_credentials_reads_back [OF assms(1-3) ns]
    by (auto simp: credentials_manifests_def split: if_splits)
  have f: "yaml_text (cn @ ''.'' @ bd)" using t(1,2) by (simp add: yaml_text_Cons yaml_char_def)
  have "yaml_text (generateCorefile (cn @ ''.'' @ bd) dns apis ings)" using yaml_text_generateCorefile [OF f t(3)] t(4) by simp
  from dns_proxy_reads_back [OF this f _ ns, of ings]
  have "\<exists>d u. hd (GenerateDNSProxyManifestsWithIPs E cn bd (m_namespace (oacp_meta acp)) dns apis ings) = \<lparr>Filename = ''01-dns-proxy-configmap.yaml'', Content = d\<rparr>
      \<and> embeds ''Corefile'' d (one_newline (generateAppsCorefile (cn @ ''.'' @ bd) @ generateCorefile (cn @ ''.'' @ bd) dns apis ings)) (''apps.db: '' @ u)
      \<and> scan_block_scalar 2 True 11 u = Inr (one_newline (generateAppsZoneFile (cn @ ''.'' @ bd) ings), [])"
    using t(4) by (simp add: GenerateDNSProxyManifestsWithIPs_def Let_def)
  with k show ?thesis ..
qed

definition ccm_cp :: oacp where
  "ccm_cp = empty_oacp\<lparr>oacp_meta := empty_meta\<lparr>m_name := ''cp'', m_namespace := ''n''\<rparr>,
     oacp_spec := (oacp_spec empty_oacp)\<lparr>sp_config := empty_config\<lparr>cfg_cloudControllerManager := Some True\<rparr>\<rparr>\<rparr>"

theorem embedded_texts_read_back_witness:
  "embeds ''kubeconfig'' (ccm_credentials_yaml ''apiVersion: v1'') (''apiVersion: v1'' @ [CHR 0x0A]) []
    \<and> (\<exists>d u. hd (GenerateDNSProxyManifestsWithIPs (nowhere :: unit env) ''c'' ''example.org'' ''n'' ''172.30.0.10'' [''10.0.0.1''] []) = \<lparr>Filename = ''01-dns-proxy-configmap.yaml'', Content = d\<rparr>
        \<and> embeds ''Corefile'' d (one_newline (generateAppsCorefile ''c.example.org'' @ generateCorefile ''c.example.org'' ''172.30.0.10'' [''10.0.0.1''] [])) (''apps.db: '' @ u)
        \<and> scan_block_scalar 2 True 11 u = Inr (one_newline (generateAppsZoneFile ''c.example.org'' []), []))"
proof -
  let ?m = "\<lparr>Filename = ''01-ccm-credentials-secret.yaml'', Content = ccm_credentials_yaml ''apiVersion: v1''\<rparr>"
  have m: "?m \<in> set (credentials_manifests ccm_cp ''apiVersion: v1'')" "m_namespace (oacp_meta ccm_cp) = ''n''"
    by (simp_all add: credentials_manifests_def ccm_cp_def ccmEnabled_def)
  have "one_newline ''apiVersion: v1'' = ''apiVersion: v1'' @ [CHR 0x0A]" by (simp add: one_newline_def)
  moreover have "yaml_text ''apiVersion: v1''" "yaml_text ''c''" "yaml_text ''example.org''" "yaml_text ''172.30.0.10''" "yaml_text ''10.0.0.1''"
    by (simp_all add: yaml_text_def yaml_char_def)
  ultimately show ?thesis
    using embedded_texts_read_back [OF _ _ _ m(1), of "CHR ''a''" "''piVersion: v1''" "''c''" "''example.org''" "''172.30.0.10''" "[''10.0.0.1'']" "[]" "nowhere :: unit env"] m(2)
    by simp
qed

text \<open>A payload that names a CSI image with the empty string: no ConfigMap is made, but it is referred to.\<close>

lemma csi_reference_dangles:
  assumes "csiEnabled acp" "\<not> images_known images" "isKubeVirtInfra cl"
  shows "GenerateCSIManifests acp ns images cli = []" "CSIManifestsConfigMapName \<in> set (getClusterAdditionalManifestRefs acp cl)"
  using assms by (auto simp: GenerateCSIManifests_def getClusterAdditionalManifestRefs_def split: option.splits)

end
