(* ===== verification/TenantInfra.thy ===== *)
theory TenantInfra
  imports TenantInstall
begin

text \<open>
  What the program sets up on the infrastructure cluster of a KubeVirt tenant: the client for it (\<open>infra_client.go\<close>),
  routes (\<open>route.go\<close>), the proxy of the machine config server (\<open>mcs_proxy.go\<close>), the DNS proxy (\<open>dns_proxy.go\<close>), the
  address of the bootstrap node (\<open>bootstrap.go\<close>) and the validation setting of the assisted service (\<open>validation.go\<close>).
\<close>

subsection \<open>The client\<close>

record InfraClientResult =
  ir_Client :: kclient
  ir_Namespace :: string
  ir_IsRemote :: bool

definition context_namespace :: "'s env \<Rightarrow> bytes \<Rightarrow> string \<Rightarrow> string" where
  "context_namespace E kubeconfigData namespace = (case x_kubeconfig_contexts E kubeconfigData of
     Inl _ \<Rightarrow> namespace
   | Inr (current, contexts) \<Rightarrow> if current = [] then namespace else (case contexts current of
       None \<Rightarrow> namespace
     | Some ns \<Rightarrow> if ns = [] then namespace else ns))"

definition GetInfraClusterClient :: "'s env \<Rightarrow> oacp \<Rightarrow> ('s, InfraClientResult res) prog" where
  "GetInfraClusterClient E acp = (let namespace = m_namespace (oacp_meta acp) in
     case cfg_infraClusterRef (sp_config (oacp_spec acp)) of
       None \<Rightarrow> ret (Inr \<lparr>ir_Client = Mgmt, ir_Namespace = namespace, ir_IsRemote = False\<rparr>)
     | Some secretName \<Rightarrow> do {
         r \<leftarrow> get_as E as_secret Mgmt KSecret namespace secretName;
         ret (case r of
           Inl e \<Rightarrow> Inl (Wrapf ''failed to get infra cluster secret'' e)
         | Inr sec \<Rightarrow> (case se_data sec ''kubeconfig'' of
             None \<Rightarrow> Inl (Errorf ''infra cluster secret does not contain kubeconfig key'')
           | Some kubeconfigData \<Rightarrow> (case x_rest_config E kubeconfigData of
               Some e \<Rightarrow> Inl (Wrapf ''failed to parse infra kubeconfig from secret'' e)
             | None \<Rightarrow> (case x_new_client E kubeconfigData of
                 Some e \<Rightarrow> Inl (Wrapf ''failed to create infra cluster client'' e)
               | None \<Rightarrow> Inr \<lparr>ir_Client = Infra kubeconfigData, ir_Namespace = context_namespace E kubeconfigData namespace, ir_IsRemote = True\<rparr>)))) })"

definition EnsurePullSecretOnInfra :: "'s env \<Rightarrow> kclient \<Rightarrow> string \<Rightarrow> string \<Rightarrow> string \<Rightarrow> ('s, goerr option) prog" where
  "EnsurePullSecretOnInfra E infraClient localNamespace infraNamespace secretName = (if secretName = [] then ret None else do {
     r \<leftarrow> kget E infraClient KSecret infraNamespace secretName;
     case r of
       Inr _ \<Rightarrow> ret None
     | Inl e \<Rightarrow> if \<not> is_not_found e then ret (Some e) else do {
         src \<leftarrow> get_as E as_secret Mgmt KSecret localNamespace secretName;
         case src of
           Inl e' \<Rightarrow> ret (Some (Wrapf ''failed to get pull secret from management cluster'' e'))
         | Inr source \<Rightarrow> do {
             c \<leftarrow> kcreate E infraClient (OSecret \<lparr>se_meta = empty_meta\<lparr>m_name := secretName, m_namespace := infraNamespace,
                    m_labels := [''capoa.openshift.io/managed-by'' \<mapsto> ''capoa-controlplane'']\<rparr>, se_type = se_type source, se_data = se_data source\<rparr>);
             ret (case c of
               Inr _ \<Rightarrow> None
             | Inl e' \<Rightarrow> if is_already_exists e' then None else Some (Wrapf ''failed to create pull secret on infra cluster'' e')) } } })"

subsection \<open>Routes\<close>

definition route_kind :: kind where "route_kind = KUnstructured ''route.openshift.io'' ''v1'' ''Route''"
definition ingress_controller_kind :: kind where "ingress_controller_kind = KUnstructured ''operator.openshift.io'' ''v1'' ''IngressController''"

definition route_spec :: "string \<Rightarrow> string \<Rightarrow> int \<Rightarrow> string \<Rightarrow> jobj" where
  "route_spec host serviceName targetPort wildcardPolicy =
     [(''host'', JStr host), (''to'', JObj [(''kind'', JStr ''Service''), (''name'', JStr serviceName)]),
      (''port'', JObj [(''targetPort'', JInt targetPort)]), (''tls'', JObj [(''termination'', JStr ''passthrough'')])] @
     (if wildcardPolicy \<noteq> [] then [(''wildcardPolicy'', JStr wildcardPolicy)] else [])"

definition buildPassthroughRoute :: "string \<Rightarrow> string \<Rightarrow> string \<Rightarrow> string \<Rightarrow> int \<Rightarrow> string \<Rightarrow> json" where
  "buildPassthroughRoute name namespace host serviceName targetPort wildcardPolicy =
     JObj [(''apiVersion'', JStr ''route.openshift.io/v1''), (''kind'', JStr ''Route''),
       (''metadata'', JObj [(''name'', JStr name), (''namespace'', JStr namespace)]),
       (''spec'', JObj (route_spec host serviceName targetPort wildcardPolicy))]"

text \<open>The loop that copies the fields the program sets into the route as it is.\<close>

fun copy_fields :: "string list \<Rightarrow> jobj \<Rightarrow> json \<Rightarrow> json" where
  "copy_fields [] spec existing = existing"
| "copy_fields (f # fs) spec existing = copy_fields fs spec
     (case map_of spec f of None \<Rightarrow> existing | Some v \<Rightarrow> set_nested_ignore v [''spec'', f] existing)"

definition route_fields :: "string list" where "route_fields = [''host'', ''to'', ''port'', ''tls'', ''wildcardPolicy'']"

definition ensureRoute :: "'s env \<Rightarrow> kclient \<Rightarrow> json \<Rightarrow> ('s, goerr option) prog" where
  "ensureRoute E c desired = do {
     r \<leftarrow> get_as E as_unstructured c route_kind (nested_string [''metadata'', ''namespace''] desired) (nested_string [''metadata'', ''name''] desired);
     case r of
       Inl e \<Rightarrow> if is_not_found e then do { x \<leftarrow> kcreate E c (OUnstructured desired); ret (err_of x) } else ret (Some e)
     | Inr existing \<Rightarrow>
         let desiredSpec = (case nested_map [''spec''] desired of Some m \<Rightarrow> m | None \<Rightarrow> []) in do {
         x \<leftarrow> kupdate E c (OUnstructured (copy_fields route_fields desiredSpec existing));
         ret (err_of x) } }"

definition EnsureExternalRoutes :: "'s env \<Rightarrow> kclient \<Rightarrow> oacp \<Rightarrow> string \<Rightarrow> string \<Rightarrow> ('s, goerr option) prog" where
  "EnsureExternalRoutes E c acp clusterName namespace =
    (let baseDomain = cfg_baseDomain (sp_config (oacp_spec acp)); apiHost = ''api.'' @ clusterName @ ''.'' @ baseDomain; appsHost = ''apps.'' @ clusterName @ ''.'' @ baseDomain in do {
     a \<leftarrow> ensureRoute E c (buildPassthroughRoute (clusterName @ ''-api-route'') namespace apiHost (clusterName @ ''-api'') 6443 []);
     case a of
       Some e \<Rightarrow> ret (Some (Wrapf ''failed to ensure API route'' e))
     | None \<Rightarrow> do {
         i \<leftarrow> ensureRoute E c (buildPassthroughRoute (clusterName @ ''-ingress-route'') namespace (''wildcard.'' @ appsHost) (clusterName @ ''-ingress'') 443 ''Subdomain'');
         ret (case i of Some e \<Rightarrow> Some (Wrapf ''failed to ensure ingress wildcard route'' e) | None \<Rightarrow> None) } })"

definition EnsureIngressControllerWildcardPolicy :: "'s env \<Rightarrow> kclient \<Rightarrow> ('s, goerr option) prog" where
  "EnsureIngressControllerWildcardPolicy E c = do {
     r \<leftarrow> get_as E as_unstructured c ingress_controller_kind ''openshift-ingress-operator'' ''default'';
     case r of
       Inl e \<Rightarrow> ret (Some (Wrapf ''failed to get default IngressController'' e))
     | Inr ic \<Rightarrow>
         if (case nested_map [''spec'', ''routeAdmission''] ic of None \<Rightarrow> False | Some m \<Rightarrow> map_of m ''wildcardPolicy'' = Some (JStr ''WildcardsAllowed''))
         then ret None
         else do {
           p \<leftarrow> kmerge_patch E c ingress_controller_kind ''openshift-ingress-operator'' ''default''
             ''{\"spec\":{\"routeAdmission\":{\"wildcardPolicy\":\"WildcardsAllowed\"}}}'';
           ret (case p of Inl e \<Rightarrow> Some (Wrapf ''failed to patch IngressController wildcard policy'' e) | Inr _ \<Rightarrow> None) } }"

subsection \<open>The proxy of the machine config server\<close>

definition MCSProxyPort :: int where "MCSProxyPort = 8624"
definition DefaultMCSProxyImage :: string where "DefaultMCSProxyImage = ''registry.redhat.io/openshift4/ose-tools-rhel9:latest''"

definition GetMCSProxyImage :: "'s env \<Rightarrow> string \<Rightarrow> string" where
  "GetMCSProxyImage E resolvedImage = (if resolvedImage \<noteq> [] then resolvedImage
     else if x_getenv E ''RELATED_IMAGE_MCS_PROXY'' \<noteq> [] then x_getenv E ''RELATED_IMAGE_MCS_PROXY'' else DefaultMCSProxyImage)"

definition empty_template_pods :: pod_template where
  "empty_template_pods = \<lparr>pt_labels = Map.empty, pt_restartPolicy = [], pt_antiAffinity = None, pt_containers = [], pt_volumes = []\<rparr>"

definition fresh_deployment :: "string \<Rightarrow> string \<Rightarrow> deployment" where
  "fresh_deployment ns n = \<lparr>dp_meta = empty_meta\<lparr>m_name := n, m_namespace := ns\<rparr>, dp_replicas = None, dp_selector = Map.empty, dp_template = empty_template_pods\<rparr>"

definition own_in_namespace :: "oacp \<Rightarrow> object_meta \<Rightarrow> object_meta" where
  "own_in_namespace acp m = (if m_namespace m = m_namespace (oacp_meta acp) then add_owner (oacp_owner_ref None acp) m else m)"

definition mcs_labels :: "string \<Rightarrow> labels" where
  "mcs_labels clusterName = [''app'' \<mapsto> clusterName @ ''-mcs-proxy'', ClusterNameLabel \<mapsto> clusterName]"

definition mcs_container :: "'s env \<Rightarrow> string \<Rightarrow> string \<Rightarrow> string \<Rightarrow> container" where
  "mcs_container E clusterName namespace proxyImage = empty_container\<lparr>ct_name := ''socat'', ct_image := GetMCSProxyImage E proxyImage, ct_command := [''socat''],
     ct_args := [''TCP-LISTEN:'' @ dec_int MCSProxyPort @ '',fork,reuseaddr'',
       ''TCP:'' @ clusterName @ ''-api.'' @ namespace @ ''.svc.cluster.local:'' @ dec_int MCSNodePort],
     ct_ports := [(''mcs'', MCSProxyPort, ''TCP'')], ct_requests := [(''cpu'', ''10m''), (''memory'', ''16Mi'')], ct_limits := [(''cpu'', ''100m''), (''memory'', ''64Mi'')],
     ct_readiness := Some \<lparr>pb_httpPath = Some ''/config/worker'', pb_port = MCSProxyPort, pb_initialDelay = 5, pb_period = 10\<rparr>,
     ct_liveness := Some \<lparr>pb_httpPath = None, pb_port = MCSProxyPort, pb_initialDelay = 15, pb_period = 20\<rparr>\<rparr>"

definition mcs_deployment :: "'s env \<Rightarrow> oacp \<Rightarrow> string \<Rightarrow> string \<Rightarrow> string \<Rightarrow> deployment \<Rightarrow> deployment" where
  "mcs_deployment E acp clusterName namespace proxyImage d = d\<lparr>dp_meta := own_in_namespace acp (dp_meta d), dp_replicas := Some 1, dp_selector := mcs_labels clusterName,
     dp_template := empty_template_pods\<lparr>pt_labels := mcs_labels clusterName, pt_containers := [mcs_container E clusterName namespace proxyImage]\<rparr>\<rparr>"

definition mcs_service :: "oacp \<Rightarrow> string \<Rightarrow> service \<Rightarrow> service" where
  "mcs_service acp clusterName svc = svc\<lparr>sv_meta := own_in_namespace acp ((sv_meta svc)\<lparr>m_labels := [ClusterNameLabel \<mapsto> clusterName]\<rparr>),
     sv_selector := mcs_labels clusterName, sv_ports := [tcp_port ''mcs'' MCSProxyPort MCSProxyPort]\<rparr>"

definition mcs_url :: "string \<Rightarrow> string \<Rightarrow> string" where
  "mcs_url clusterName namespace = ''http://'' @ clusterName @ ''-mcs-proxy.'' @ namespace @ ''.svc.cluster.local:'' @ dec_int MCSProxyPort @ ''/config/worker''"

definition EnsureMCSProxy :: "'s env \<Rightarrow> kclient \<Rightarrow> oacp \<Rightarrow> string \<Rightarrow> string \<Rightarrow> string \<Rightarrow> ('s, string res) prog" where
  "EnsureMCSProxy E c acp clusterName namespace proxyImage = do {
     d \<leftarrow> CreateOrUpdate E c KDeployment as_deployment ODeployment namespace (clusterName @ ''-mcs-proxy'') (fresh_deployment namespace (clusterName @ ''-mcs-proxy''))
       (mcs_deployment E acp clusterName namespace proxyImage);
     case d of
       Inl e \<Rightarrow> ret (Inl (Wrapf ''failed to ensure MCS proxy deployment'' e))
     | Inr _ \<Rightarrow> do {
         s \<leftarrow> CreateOrUpdate E c KService as_service OService namespace (clusterName @ ''-mcs-proxy'') (fresh_service namespace (clusterName @ ''-mcs-proxy''))
           (mcs_service acp clusterName);
         ret (case s of Inl e \<Rightarrow> Inl (Wrapf ''failed to ensure MCS proxy service'' e) | Inr _ \<Rightarrow> Inr (mcs_url clusterName namespace)) } }"

subsection \<open>The DNS proxy\<close>

text \<open>\<open>IsDNS1123Label\<close> and \<open>IsDNS1123Subdomain\<close> of \<open>k8s.io/apimachinery\<close>.\<close>

definition dns_char :: "char \<Rightarrow> bool" where
  "dns_char c \<longleftrightarrow> CHR ''a'' \<le> c \<and> c \<le> CHR ''z'' \<or> is_digit c"

definition dns_label_fmt :: "string \<Rightarrow> bool" where
  "dns_label_fmt s \<longleftrightarrow> s \<noteq> [] \<and> dns_char (hd s) \<and> dns_char (last s) \<and> list_all (\<lambda>c. dns_char c \<or> c = CHR ''-'') s"

definition IsDNS1123Label :: "string \<Rightarrow> bool" where
  "IsDNS1123Label s \<longleftrightarrow> length s \<le> 63 \<and> dns_label_fmt s"

definition IsDNS1123Subdomain :: "string \<Rightarrow> bool" where
  "IsDNS1123Subdomain s \<longleftrightarrow> length s \<le> 253 \<and> list_all dns_label_fmt (str_split CHR ''.'' s)"

definition TenantDNSPort :: int where "TenantDNSPort = 5353"

definition corefile_config :: "string \<Rightarrow> string \<Rightarrow> string list \<Rightarrow> config_map \<Rightarrow> config_map" where
  "corefile_config fqdn apiIP ingressIPs cm = cm\<lparr>cm_data :=
     [''Corefile'' \<mapsto> generateAppsCorefile fqdn @ generateCorefile fqdn ''172.30.0.10'' [apiIP] ingressIPs,
      ''apps.db'' \<mapsto> generateAppsZoneFile fqdn ingressIPs]\<rparr>"

definition dns_labels :: labels where "dns_labels = [''app'' \<mapsto> ''tenant-dns'']"

definition dns_container :: "'s env \<Rightarrow> container" where
  "dns_container E = empty_container\<lparr>ct_name := ''coredns'', ct_image := GetCoreDNSImage E [], ct_args := [''-conf'', ''/etc/coredns/Corefile''],
     ct_ports := [([], TenantDNSPort, ''UDP''), ([], TenantDNSPort, ''TCP'')], ct_mounts := [(''config'', ''/etc/coredns'', True)],
     ct_requests := [(''cpu'', ''10m''), (''memory'', ''32Mi'')]\<rparr>"

definition dns_deployment :: "'s env \<Rightarrow> deployment \<Rightarrow> deployment" where
  "dns_deployment E d = d\<lparr>dp_replicas := Some 2, dp_selector := dns_labels,
     dp_template := empty_template_pods\<lparr>pt_labels := dns_labels, pt_antiAffinity := Some (100, dns_labels, ''kubernetes.io/hostname''),
       pt_containers := [dns_container E], pt_volumes := [(''config'', FromConfigMap ''tenant-dns-corefile'')]\<rparr>\<rparr>"

definition dns_service :: "service \<Rightarrow> service" where
  "dns_service svc = svc\<lparr>sv_selector := dns_labels,
     sv_ports := [\<lparr>svp_name = ''dns-udp'', svp_port = TenantDNSPort, svp_targetPort = TenantDNSPort, svp_protocol = ''UDP''\<rparr>, tcp_port ''dns-tcp'' TenantDNSPort TenantDNSPort]\<rparr>"

definition EnsureDNSProxy :: "'s env \<Rightarrow> kclient \<Rightarrow> oacp \<Rightarrow> string \<Rightarrow> string list \<Rightarrow> string \<Rightarrow> ('s, goerr option) prog" where
  "EnsureDNSProxy E c acp apiIP ingressIPs namespace =
    (let clusterName = cluster_name_of acp; baseDomain = cfg_baseDomain (sp_config (oacp_spec acp)); fqdn = clusterName @ ''.'' @ baseDomain in
     if apiIP = [] then ret None
     else if \<not> IsDNS1123Label clusterName then ret (Some (Errorf ''invalid clusterName''))
     else if \<not> IsDNS1123Subdomain baseDomain then ret (Some (Errorf ''invalid baseDomain''))
     else if \<not> IsDNS1123Subdomain fqdn then ret (Some (Errorf ''invalid FQDN''))
     else do {
       m \<leftarrow> CreateOrUpdate E c KConfigMap as_config_map OConfigMap namespace ''tenant-dns-corefile'' (fresh_config_map namespace ''tenant-dns-corefile'')
         (corefile_config fqdn apiIP ingressIPs);
       case m of
         Inl e \<Rightarrow> ret (Some (Wrapf ''failed to ensure corefile'' e))
       | Inr _ \<Rightarrow> do {
           d \<leftarrow> CreateOrUpdate E c KDeployment as_deployment ODeployment namespace ''tenant-dns'' (fresh_deployment namespace ''tenant-dns'') (dns_deployment E);
           case d of
             Inl e \<Rightarrow> ret (Some (Wrapf ''failed to ensure deployment'' e))
           | Inr _ \<Rightarrow> do {
               s \<leftarrow> CreateOrUpdate E c KService as_service OService namespace ''tenant-dns'' (fresh_service namespace ''tenant-dns'') dns_service;
               ret (case s of Inl e \<Rightarrow> Some (Wrapf ''failed to ensure service'' e) | Inr _ \<Rightarrow> None) } } })"

definition running_ips :: "pod list \<Rightarrow> string list" where
  "running_ips pods = List.map pod_IP (filter (\<lambda>p. pod_phase p = ''Running'' \<and> pod_IP p \<noteq> []) pods)"

definition GetRouterNodeIPs :: "'s env \<Rightarrow> kclient \<Rightarrow> string \<Rightarrow> string \<Rightarrow> ('s, string list res) prog" where
  "GetRouterNodeIPs E c clusterName namespace = do {
     r \<leftarrow> list_as E as_pod c KPod \<lparr>lo_namespace = namespace, lo_labels = [(''cluster.x-k8s.io/cluster-name'', clusterName), (''cluster.x-k8s.io/role'', ''control-plane'')]\<rparr>;
     ret (case r of Inl e \<Rightarrow> Inl e | Inr pods \<Rightarrow> Inr (running_ips pods)) }"

subsection \<open>The bootstrap node\<close>

definition isNonRoutableIP :: "string \<Rightarrow> bool" where
  "isNonRoutableIP ip \<longleftrightarrow> has_prefix ip ''10.0.2.'' \<or> ip = ''127.0.0.1''"

definition bootstrap_agents :: "string \<Rightarrow> agent list \<Rightarrow> agent list" where
  "bootstrap_agents clusterName agents = filter (\<lambda>a. ag_clusterDeploymentName a = Some clusterName \<and> ag_bootstrap a) agents"

definition routable_ips :: "agent \<Rightarrow> string list" where
  "routable_ips a = filter (\<lambda>ip. ip \<noteq> [] \<and> \<not> isNonRoutableIP ip) (List.map (\<lambda>addr. hd (str_split CHR ''/'' addr)) (concat (ag_interfaces a)))"

definition GetBootstrapPodIP :: "'s env \<Rightarrow> kclient \<Rightarrow> string \<Rightarrow> string \<Rightarrow> ('s, string res) prog" where
  "GetBootstrapPodIP E c clusterName namespace = do {
     r \<leftarrow> list_as E as_agent c KAgent \<lparr>lo_namespace = namespace, lo_labels = []\<rparr>;
     case r of
       Inl e \<Rightarrow> ret (Inl e)
     | Inr agents \<Rightarrow> (case bootstrap_agents clusterName agents of
         [] \<Rightarrow> ret (Inr [])
       | a # _ \<Rightarrow> if ag_hostname a = [] then ret (Inr []) else do {
           p \<leftarrow> list_as E as_pod c KPod \<lparr>lo_namespace = namespace, lo_labels = [(''vm.kubevirt.io/name'', ag_hostname a)]\<rparr>;
           ret (case p of
             Inl e \<Rightarrow> Inl e
           | Inr pods \<Rightarrow> (case running_ips pods of
               ip # _ \<Rightarrow> Inr ip
             | [] \<Rightarrow> (case concat (List.map routable_ips (bootstrap_agents clusterName agents)) of ip # _ \<Rightarrow> Inr ip | [] \<Rightarrow> Inr []))) }) }"

subsection \<open>The validation of wildcard DNS records\<close>

definition dnsWildcardValidation :: string where "dnsWildcardValidation = ''dns-wildcard-not-configured''"
definition disabledValidationsEnvVar :: string where "disabledValidationsEnvVar = ''DISABLED_HOST_VALIDATIONS''"

text \<open>The variables of the container after the change; none when the validation is disabled already.\<close>

fun disable_validation :: "(string \<times> string) list \<Rightarrow> (string \<times> string) list option" where
  "disable_validation [] = Some [(disabledValidationsEnvVar, dnsWildcardValidation)]"
| "disable_validation ((n, v) # vars) =
    (if n = disabledValidationsEnvVar then (if str_contains v dnsWildcardValidation then None
       else if v = [] then Some ((n, dnsWildcardValidation) # vars) else Some ((n, v @ '','' @ dnsWildcardValidation) # vars))
     else map_option ((#) (n, v)) (disable_validation vars))"

fun disable_in :: "container list \<Rightarrow> container list option" where
  "disable_in [] = None"
| "disable_in (c # cs) = (if ct_name c \<noteq> ''assisted-service'' \<and> ct_name c \<noteq> ''service'' then map_option ((#) c) (disable_in cs)
     else map_option (\<lambda>vars. c\<lparr>ct_env := vars\<rparr> # cs) (disable_validation (ct_env c)))"

definition is_service_container :: "container \<Rightarrow> bool" where
  "is_service_container c \<longleftrightarrow> ct_name c = ''assisted-service'' \<or> ct_name c = ''service''"

definition EnsureDNSWildcardValidationDisabled :: "'s env \<Rightarrow> kclient \<Rightarrow> ('s, goerr option) prog" where
  "EnsureDNSWildcardValidationDisabled E c = do {
     r \<leftarrow> get_as E as_deployment c KDeployment ''multicluster-engine'' ''assisted-service'';
     case r of
       Inl e \<Rightarrow> ret (Some (Wrapf ''failed to get assisted-service deployment'' e))
     | Inr d \<Rightarrow> (case pt_containers (dp_template d) of
         [] \<Rightarrow> ret None
       | c0 # cs \<Rightarrow>
           (case (if list_ex is_service_container (c0 # cs) then disable_in (c0 # cs)
                  else Some (c0\<lparr>ct_env := ct_env c0 @ [(disabledValidationsEnvVar, dnsWildcardValidation)]\<rparr> # cs)) of
              None \<Rightarrow> ret None
            | Some cs' \<Rightarrow> do {
                u \<leftarrow> kupdate E c (ODeployment (d\<lparr>dp_template := (dp_template d)\<lparr>pt_containers := cs'\<rparr>\<rparr>));
                ret (err_of u) })) }"

end
