(* ===== verification/Calendar.thy ===== *)
theory Calendar
  imports GoLib
begin

text \<open>
  Points in time as RFC 3339 texts, \<open>time.Parse(time.RFC3339, s)\<close> and \<open>Format\<close> of Go's \<open>time\<close> package in UTC; a point
  in time is a number of nanoseconds since 1970. As in Go, years count 400, 100, 4 and 1 year cycles from the year 1.
\<close>

subsection \<open>Days\<close>

definition leap :: "int \<Rightarrow> bool" where "leap y \<longleftrightarrow> y mod 4 = 0 \<and> (y mod 100 \<noteq> 0 \<or> y mod 400 = 0)"

definition month_lengths :: "int \<Rightarrow> int list" where
  "month_lengths y = [31, if leap y then 29 else 28, 31, 30, 31, 30, 31, 31, 30, 31, 30, 31]"

definition days_before_year :: "int \<Rightarrow> int" where
  "days_before_year y = (let n = y - 1 in n div 400 * 146097 + n mod 400 div 100 * 36524 + n mod 100 div 4 * 1461 + n mod 4 * 365)"

definition days_of_date :: "int \<Rightarrow> nat \<Rightarrow> nat \<Rightarrow> int" where
  "days_of_date y m d = days_before_year y + sum_list (take (m - 1) (month_lengths y)) + int d - 1 - 719162"

text \<open>The month and the day in it of the day \<open>d\<close> of a year, both from 1.\<close>

fun month_day :: "int list \<Rightarrow> nat \<Rightarrow> int \<Rightarrow> nat \<times> nat" where
  "month_day [] m d = (m, nat (d + 1))"
| "month_day (l # ls) m d = (if d < l then (m, nat (d + 1)) else month_day ls (Suc m) (d - l))"

definition date_of_days :: "int \<Rightarrow> int \<times> nat \<times> nat" where
  "date_of_days days =
    (let n = days + 719162; c = n div 146097; r = n mod 146097;
         h = min 3 (r div 36524); r1 = r - 36524 * h; f = r1 div 1461; r2 = r1 mod 1461; g = min 3 (r2 div 365);
         y = 400 * c + 100 * h + 4 * f + g + 1 in (y, month_day (month_lengths y) 1 (r2 - 365 * g)))"

lemma sum_month_lengths: "sum_list (month_lengths y) = (if leap y then 366 else 365)"
  by (simp add: month_lengths_def)

lemma month_day_back:
  assumes "0 \<le> d" "d < sum_list ls" "\<forall>l \<in> set ls. 0 < l" "month_day ls m0 d = (m, k)"
  shows "m0 \<le> m \<and> m - m0 < length ls \<and> 1 \<le> k \<and> int k \<le> ls ! (m - m0) \<and> sum_list (take (m - m0) ls) + int k - 1 = d"
  using assms
proof (induction ls arbitrary: m0 d)
  case (Cons l ls)
  show ?case
  proof (cases "d < l")
    case True
    then show ?thesis using Cons.prems by auto
  next
    case False
    then have *: "Suc m0 \<le> m \<and> m - Suc m0 < length ls \<and> 1 \<le> k \<and> int k \<le> ls ! (m - Suc m0) \<and> sum_list (take (m - Suc m0) ls) + int k - 1 = d - l"
      using Cons.prems by (intro Cons.IH) auto
    then obtain i where "m = Suc m0 + i" using le_Suc_ex by blast
    then show ?thesis using * by simp
  qed
qed simp

text \<open>The cycles: a day has a year, and its number in that year is within the year.\<close>

lemma capped_div:
  fixes a b :: int
  assumes "0 < b" "0 \<le> a" "a < 4 * b + e" "e \<le> b" "0 \<le> e" "q = min 3 (a div b)"
  shows "0 \<le> q" "q \<le> 3" "0 \<le> a - b * q" "a - b * q < b + e" "q < 3 \<Longrightarrow> a - b * q < b"
proof -
  define d where "d = a div b"
  define s where "s = a mod b"
  have a: "a = b * d + s" "0 \<le> s" "s < b" using assms(1) by (simp_all add: d_def s_def)
  have d: "0 \<le> d" using assms(1,2) by (simp add: d_def pos_imp_zdiv_nonneg_iff)
  have q: "q = min 3 d" using assms(6) by (simp add: d_def)
  have d5: "d < 5"
  proof (rule ccontr)
    assume "\<not> d < 5"
    then have "b * 5 \<le> b * d" using assms(1) by simp
    then show False using a(1,2) assms(3,4) by linarith
  qed
  show "0 \<le> q" "q \<le> 3" using q d by auto
  show "q < 3 \<Longrightarrow> a - b * q < b" using q a by simp
  show "0 \<le> a - b * q" "a - b * q < b + e"
  proof -
    have "d \<le> 3 \<or> d = 4" using d5 by auto
    then show "0 \<le> a - b * q" "a - b * q < b + e" using q a assms by auto
  qed
qed

lemma div_part:
  fixes x :: int
  assumes "0 \<le> x" "x < b"
  shows "(b * k + x) div b = k" "(b * k + x) mod b = x"
  using assms by simp_all

lemma cycles:
  fixes n :: int
  assumes "c = n div 146097" "r = n mod 146097" "h = min 3 (r div 36524)" "r1 = r - 36524 * h" "f = r1 div 1461" "r2 = r1 mod 1461" "g = min 3 (r2 div 365)"
    "y = 400 * c + 100 * h + 4 * f + g + 1" "d = r2 - 365 * g"
  shows "0 \<le> d" "d < (if leap y then 366 else 365)" "days_before_year y + d = n" "0 \<le> h" "h \<le> 3" "0 \<le> f" "f \<le> 24" "0 \<le> g" "g \<le> 3"
proof -
  have r: "0 \<le> r" "r < 146097" "n = 146097 * c + r" using assms(1,2) by simp_all
  have h: "0 \<le> h" "h \<le> 3" "0 \<le> r1" "r1 < 36525" "h < 3 \<Longrightarrow> r1 < 36524"
    using capped_div [OF _ r(1) _ _ _ assms(3), of 1] r(2) by (simp_all add: assms(4))
  have f: "0 \<le> r2" "r2 < 1461" "r1 = 1461 * f + r2" using assms(5,6) by simp_all
  have fb: "0 \<le> f" "f \<le> 24"
    using f h by linarith+
  have g: "0 \<le> g" "g \<le> 3" "0 \<le> d" "d < 366" "g < 3 \<Longrightarrow> d < 365"
    using capped_div [OF _ f(1) _ _ _ assms(7), of 1] f(2) by (simp_all add: assms(9))
  show "0 \<le> d" "0 \<le> h" "h \<le> 3" "0 \<le> f" "f \<le> 24" "0 \<le> g" "g \<le> 3" by fact+
  have y: "y - 1 = 400 * c + (100 * h + (4 * f + g))" "y - 1 = 100 * (4 * c + h) + (4 * f + g)" "y - 1 = 4 * (100 * c + 25 * h + f) + g"
    using assms(8) by simp_all
  have s: "0 \<le> 4 * f + g" "4 * f + g < 100" "0 \<le> 100 * h + (4 * f + g)" "100 * h + (4 * f + g) < 400" "g < 4" using fb g h by linarith+
  have parts: "(y - 1) div 400 = c" "(y - 1) mod 400 = 100 * h + (4 * f + g)" "(y - 1) mod 100 = 4 * f + g" "(y - 1) mod 4 = g"
    by (subst y(1), rule div_part [OF s(3,4)], subst y(1), rule div_part [OF s(3,4)], subst y(2), rule div_part [OF s(1,2)], subst y(3), rule div_part [OF g(1) s(5)])
  have parts': "(100 * h + (4 * f + g)) div 100 = h" "(4 * f + g) div 4 = f"
    by (rule div_part [OF s(1,2)], rule div_part [OF g(1) s(5)])
  show "days_before_year y + d = n"
    unfolding days_before_year_def Let_def parts parts' using r(3) f(3) assms(4,9) by simp
  show "d < (if leap y then 366 else 365)"
  proof (cases "g < 3")
    case False
    then have g3: "g = 3" using g by simp
    have y4: "y = 4 * (100 * c + 25 * h + f + 1)" using assms(8) g3 by simp
    show ?thesis
    proof (cases "d < 365")
      case False
      then have d: "d = 365" using g by simp
      have "y mod 100 \<noteq> 0 \<or> y mod 400 = 0"
      proof (cases "f < 24")
        case True
        have e: "y = 100 * (4 * c + h) + 4 * (f + 1)" using y4 by simp
        have "y mod 100 = 4 * (f + 1)" unfolding e by (rule div_part) (use True fb in auto)
        then show ?thesis using fb by simp
      next
        case False
        then have "f = 24" using fb by simp
        then have "r1 = 36524" using f(3) d g3 assms(9) by simp
        then have "\<not> h < 3" using h(5) by linarith
        then have "y = 400 * (c + 1)" using y4 \<open>f = 24\<close> h by simp
        then show ?thesis by simp
      qed
      moreover have "y mod 4 = 0" by (simp add: y4)
      ultimately show ?thesis using d by (simp add: leap_def)
    qed (use g in auto)
  qed (use g in auto)
qed

lemma date_of_days_back:
  assumes "date_of_days days = (y, m, d)"
  shows "1 \<le> m" "m \<le> 12" "1 \<le> d" "int d \<le> month_lengths y ! (m - 1)" "days_of_date y m d = days"
proof -
  define n where "n = days + 719162"
  define r where "r = n mod 146097"
  define h where "h = min 3 (r div 36524)"
  define r1 where "r1 = r - 36524 * h"
  define g where "g = min 3 (r1 mod 1461 div 365)"
  define e where "e = r1 mod 1461 - 365 * g"
  have y: "y = 400 * (n div 146097) + 100 * h + 4 * (r1 div 1461) + g + 1" and md: "month_day (month_lengths y) 1 e = (m, d)"
    using assms unfolding date_of_days_def Let_def n_def [symmetric] r_def [symmetric] h_def [symmetric] r1_def [symmetric] g_def [symmetric] e_def [symmetric]
    by auto
  have c: "0 \<le> e" "e < (if leap y then 366 else 365)" "days_before_year y + e = n"
    by (rule cycles [OF refl r_def h_def r1_def refl refl g_def y e_def])+
  have "\<forall>l \<in> set (month_lengths y). 0 < l" by (simp add: month_lengths_def)
  then have "1 \<le> m \<and> m - 1 < length (month_lengths y) \<and> 1 \<le> d \<and> int d \<le> month_lengths y ! (m - 1) \<and> sum_list (take (m - 1) (month_lengths y)) + int d - 1 = e"
    using month_day_back [OF c(1) _ _ md] c(2) by (simp add: sum_month_lengths)
  then show "1 \<le> m" "m \<le> 12" "1 \<le> d" "int d \<le> month_lengths y ! (m - 1)" "days_of_date y m d = days"
    using c(3) by (auto simp: days_of_date_def n_def month_lengths_def)
qed

text \<open>The years 1970 to 9999.\<close>

lemma date_of_days_year:
  assumes "date_of_days days = (y, m, d)" "0 \<le> days" "days \<le> 2932896"
  shows "0 \<le> y" "y \<le> 9999"
proof -
  define n where "n = days + 719162"
  define r where "r = n mod 146097"
  define h where "h = min 3 (r div 36524)"
  define r1 where "r1 = r - 36524 * h"
  define f where "f = r1 div 1461"
  define g where "g = min 3 (r1 mod 1461 div 365)"
  define e where "e = r1 mod 1461 - 365 * g"
  have y: "y = 400 * (n div 146097) + 100 * h + 4 * f + g + 1"
    using assms(1) unfolding date_of_days_def Let_def n_def [symmetric] r_def [symmetric] h_def [symmetric] r1_def [symmetric] g_def [symmetric] f_def [symmetric]
    by auto
  note c = cycles [OF refl r_def h_def r1_def f_def refl g_def y e_def]
  have n: "719162 \<le> n" "n \<le> 3652058" using assms by (simp_all add: n_def)
  have e: "n = 146097 * (n div 146097) + 36524 * h + 1461 * f + 365 * g + e" using r_def r1_def f_def e_def by auto
  have "0 \<le> n div 146097" using n by (simp add: pos_imp_zdiv_nonneg_iff)
  then show "0 \<le> y" using c y by linarith
  show "y \<le> 9999" using e c n y by linarith
qed

subsection \<open>Texts\<close>

text \<open>The hour may have one digit, a comma may separate the fraction, and of a fraction nine digits count.\<close>

definition take_digits :: "nat \<Rightarrow> string \<Rightarrow> (nat \<times> string) option" where
  "take_digits n s = (if n \<le> length s \<and> list_all is_digit (take n s) then Some (nat_of_digits (take n s), drop n s) else None)"

definition take_hour :: "string \<Rightarrow> (nat \<times> string) option" where
  "take_hour s = (case take_digits 2 s of Some r \<Rightarrow> Some r | None \<Rightarrow> take_digits 1 s)"

definition expect :: "char \<Rightarrow> string \<Rightarrow> string option" where
  "expect c s = (case s of [] \<Rightarrow> None | x # r \<Rightarrow> if x = c then Some r else None)"

definition take_fraction :: "string \<Rightarrow> int \<times> string" where
  "take_fraction s = (case s of
     x # y # r \<Rightarrow> if (x = CHR ''.'' \<or> x = CHR '','') \<and> is_digit y
       then let ds = takeWhile is_digit (y # r); nine = take 9 ds in (int (nat_of_digits nine) * 10 ^ (9 - length nine), dropWhile is_digit (y # r))
       else (0, s)
   | _ \<Rightarrow> (0, s))"

text \<open>The offset from UTC in seconds.\<close>

definition take_zone :: "string \<Rightarrow> (int \<times> string) option" where
  "take_zone s = (case s of
     [] \<Rightarrow> None
   | c # r \<Rightarrow> if c = CHR ''Z'' then Some (0, r)
       else if c = CHR ''+'' \<or> c = CHR ''-'' then do {
         (h, r1) \<leftarrow> take_digits 2 r;
         r2 \<leftarrow> expect CHR '':'' r1;
         (m, r3) \<leftarrow> take_digits 2 r2;
         if h \<le> 24 \<and> m \<le> 60 then Some ((if c = CHR ''-'' then -1 else 1) * (int h * 3600 + int m * 60), r3) else None }
       else None)"

definition parse_rfc3339 :: "string \<Rightarrow> int option" where
  "parse_rfc3339 s = do {
     (y, s1) \<leftarrow> take_digits 4 s; s2 \<leftarrow> expect CHR ''-'' s1;
     (mo, s3) \<leftarrow> take_digits 2 s2; s4 \<leftarrow> expect CHR ''-'' s3;
     (d, s5) \<leftarrow> take_digits 2 s4; s6 \<leftarrow> expect CHR ''T'' s5;
     (h, s7) \<leftarrow> take_hour s6; s8 \<leftarrow> expect CHR '':'' s7;
     (mi, s9) \<leftarrow> take_digits 2 s8; s10 \<leftarrow> expect CHR '':'' s9;
     (sec, s11) \<leftarrow> take_digits 2 s10;
     let (ns, s12) = take_fraction s11;
     (off, s13) \<leftarrow> take_zone s12;
     if s13 = [] \<and> 1 \<le> mo \<and> mo \<le> 12 \<and> 1 \<le> d \<and> int d \<le> month_lengths (int y) ! (mo - 1) \<and> h < 24 \<and> mi < 60 \<and> sec < 60
     then Some ((((days_of_date (int y) mo d * 24 + int h) * 60 + int mi) * 60 + int sec - off) * 1000000000 + ns)
     else None }"

definition pad :: "nat \<Rightarrow> int \<Rightarrow> string" where
  "pad n i = (let s = dec_int i in replicate (n - length s) CHR ''0'' @ s)"

definition format_rfc3339 :: "int \<Rightarrow> string" where
  "format_rfc3339 t = (let secs = t div 1000000000; (y, m, d) = date_of_days (secs div 86400); r = secs mod 86400 in
     pad 4 y @ ''-'' @ pad 2 (int m) @ ''-'' @ pad 2 (int d) @ ''T'' @ pad 2 (r div 3600) @ '':'' @ pad 2 (r div 60 mod 60) @ '':'' @ pad 2 (r mod 60) @ ''Z'')"

subsection \<open>A printed time reads back\<close>

lemma dec_nat_length: "k < 10 ^ n \<Longrightarrow> 0 < n \<Longrightarrow> length (dec_nat k) \<le> n"
proof (induction k arbitrary: n rule: dec_nat.induct)
  case (1 k)
  show ?case
  proof (cases "k < 10")
    case True
    then show ?thesis using 1 by (subst dec_nat.simps) simp
  next
    case False
    then have "1 < n" using 1(2,3) by (cases n) (auto simp: less_Suc_eq)
    then obtain m where m: "n = Suc m" "0 < m" by (cases n) auto
    have "k div 10 < 10 ^ m" using 1(2) m by (simp add: less_mult_imp_div_less)
    then have "length (dec_nat (k div 10)) \<le> m" using 1(1) False m by blast
    then show ?thesis using False m by (subst dec_nat.simps) simp
  qed
qed

lemma nat_of_digits_zeros: "nat_of_digits (replicate k CHR ''0'' @ s) = nat_of_digits s"
proof -
  have "foldl (\<lambda>n c. 10 * n + digit_val c) 0 (replicate k CHR ''0'') = 0" for k
    by (induction k) (simp_all add: digit_val_def)
  then show ?thesis by (simp add: nat_of_digits_def)
qed

lemma take_digits_pad:
  assumes "0 \<le> i" "i < 10 ^ n" "0 < n"
  shows "take_digits n (pad n i @ rest) = Some (nat i, rest)"
proof -
  let ?p = "pad n i"
  have "nat i < 10 ^ n" using assms by (simp add: nat_less_iff)
  then have l: "length (dec_nat (nat i)) \<le> n" using dec_nat_length assms(3) by blast
  have p: "?p = replicate (n - length (dec_nat (nat i))) CHR ''0'' @ dec_nat (nat i)" using assms(1) by (simp add: pad_def dec_int_def Let_def)
  then have "length ?p = n" using l by simp
  moreover have "list_all is_digit ?p" unfolding p by (auto simp: list_all_iff is_digit_def dest: dec_nat_digits)
  moreover have "nat_of_digits ?p = nat i" unfolding p by (simp add: nat_of_digits_zeros)
  ultimately show ?thesis by (simp add: take_digits_def)
qed

lemma expect_same [simp]: "expect c (c # r) = Some r"
  by (simp add: expect_def)

lemma parse_format:
  assumes "0 \<le> t" "t div 1000000000 \<le> 253402300799"
  shows "parse_rfc3339 (format_rfc3339 t) = Some (t - t mod 1000000000)"
proof -
  define secs where "secs = t div 1000000000"
  define days where "days = secs div 86400"
  define r where "r = secs mod 86400"
  obtain y m d where date: "date_of_days days = (y, m, d)" by (metis prod_cases3)
  have secs: "0 \<le> secs" "secs \<le> 253402300799" using assms by (simp_all add: secs_def pos_imp_zdiv_nonneg_iff)
  have r: "0 \<le> r" "r < 86400" "secs = 86400 * days + r" by (simp_all add: r_def days_def)
  have days: "0 \<le> days" "days \<le> 2932896"
    using secs r by linarith+
  note ymd = date_of_days_back [OF date] and year = date_of_days_year [OF date days]
  have dm: "d \<le> 31" using ymd by (auto simp: month_lengths_def nth_Cons' split: if_splits)
  define h where "h = r div 3600"
  define mi where "mi = r div 60 mod 60"
  define sc where "sc = r mod 60"
  have hms: "0 \<le> h" "h < 24" "0 \<le> mi" "mi < 60" "0 \<le> sc" "sc < 60" "3600 * h + 60 * mi + sc = r"
  proof -
    have "r = 60 * (r div 60) + sc" "r div 60 = 60 * (r div 60 div 60) + mi" unfolding sc_def mi_def by (rule mult_div_mod_eq [symmetric])+
    moreover have "r div 60 div 60 = h" by (simp add: h_def flip: zdiv_zmult2_eq)
    moreover show "0 \<le> mi" "mi < 60" "0 \<le> sc" "sc < 60" by (simp_all add: mi_def sc_def)
    ultimately show "3600 * h + 60 * mi + sc = r" by linarith
    then show "0 \<le> h" "h < 24" using r \<open>0 \<le> mi\<close> \<open>0 \<le> sc\<close> \<open>mi < 60\<close> \<open>sc < 60\<close> by linarith+
  qed
  have hour: "take_hour (pad 2 h @ rest) = Some (nat h, rest)" for rest
    using take_digits_pad [of h 2] hms by (simp add: take_hour_def)
  have "format_rfc3339 t = pad 4 y @ ''-'' @ pad 2 (int m) @ ''-'' @ pad 2 (int d) @ ''T'' @ pad 2 h @ '':'' @ pad 2 mi @ '':'' @ pad 2 sc @ ''Z''"
    unfolding format_rfc3339_def Let_def secs_def [symmetric] days_def [symmetric] r_def [symmetric] date h_def mi_def sc_def by simp
  note printed = this
  have digits: "take_digits 4 (pad 4 y @ rest) = Some (nat y, rest)" "take_digits 2 (pad 2 (int m) @ rest) = Some (m, rest)"
    "take_digits 2 (pad 2 (int d) @ rest) = Some (d, rest)" "take_digits 2 (pad 2 mi @ rest) = Some (nat mi, rest)"
    "take_digits 2 (pad 2 sc @ rest) = Some (nat sc, rest)" for rest
    using take_digits_pad [of y 4 rest] take_digits_pad [of "int m" 2 rest] take_digits_pad [of "int d" 2 rest] take_digits_pad [of mi 2 rest]
      take_digits_pad [of sc 2 rest] ymd(1-4) year hms(1-6) dm by simp_all
  have ends: "take_fraction ''Z'' = (0, ''Z'')" "take_zone ''Z'' = Some (0, [])" by (simp_all add: take_fraction_def take_zone_def)
  have valid: "1 \<le> m \<and> m \<le> 12 \<and> 1 \<le> d \<and> int d \<le> month_lengths y ! (m - 1) \<and> nat h < 24 \<and> nat mi < 60 \<and> nat sc < 60"
    using ymd(1-4) hms(1-6) by auto
  have ints: "int (nat y) = y" "int (nat h) = h" "int (nat mi) = mi" "int (nat sc) = sc" using year hms(1-6) by simp_all
  have "parse_rfc3339 (format_rfc3339 t) = Some ((((days_of_date y m d * 24 + h) * 60 + mi) * 60 + sc) * 1000000000)"
    unfolding printed parse_rfc3339_def append_Cons append_Nil digits hour Option.bind.bind_lunit case_prod_conv expect_same ends Let_def ints
    using valid by simp
  also have "(((days_of_date y m d * 24 + h) * 60 + mi) * 60 + sc) = secs" using ymd(5) hms(7) r(3) by simp
  also have "secs * 1000000000 = t - t mod 1000000000" by (simp add: secs_def minus_mod_eq_div_mult)
  finally show ?thesis .
qed

end
