(* ===== verification/GoldenImage.thy ===== *)
theory GoldenImage
  imports TenantInfra Calendar
begin

text \<open>
  The volume with the disk image of the operating system, \<open>rhcos_image.go\<close>: a job finds the address of the image in the release
  payload, another one writes the image to a volume claim that all machines are cloned from.
\<close>

subsection \<open>Names\<close>

definition RHCOSGoldenPVCReadyAnnotation :: string where "RHCOSGoldenPVCReadyAnnotation = ''capoa.openshift.io/rhcos-golden-pvc''"
definition jobFailedCooldownAnnotation :: string where "jobFailedCooldownAnnotation = ''capoa.openshift.io/last-job-failure''"
definition RHCOSURLConfigMapKey :: string where "RHCOSURLConfigMapKey = ''qcow2-url''"
definition DefaultJobImage :: string where "DefaultJobImage = ''registry.redhat.io/openshift4/ose-tools-rhel9:latest''"
definition jobFailedCooldown :: int where "jobFailedCooldown = 5 * 60 * 1000000000"
definition jobTTLSeconds :: int where "jobTTLSeconds = 3600"

definition GetJobImage :: "'s env \<Rightarrow> string \<Rightarrow> string" where
  "GetJobImage E resolvedCliImage = (if resolvedCliImage \<noteq> [] then resolvedCliImage
     else if x_getenv E ''RELATED_IMAGE_CLI'' \<noteq> [] then x_getenv E ''RELATED_IMAGE_CLI'' else DefaultJobImage)"

text \<open>\<open>strings.SplitN(version, ".", 3)\<close> with its first two parts.\<close>

definition extractMajorMinor :: "string \<Rightarrow> string" where
  "extractMajorMinor version = (case str_split CHR ''.'' version of a # b # _ \<Rightarrow> a @ ''.'' @ b | _ \<Rightarrow> [])"

definition GoldenPVCName :: "string \<Rightarrow> string" where
  "GoldenPVCName version = (if extractMajorMinor version = [] then ''rhcos-golden-'' @ version else ''rhcos-golden-'' @ extractMajorMinor version)"

subsection \<open>Volume claim and jobs\<close>

definition buildGoldenPVC :: "string \<Rightarrow> string \<Rightarrow> oacp \<Rightarrow> volume_claim" where
  "buildGoldenPVC name namespace acp = \<lparr>
     pvc_meta = empty_meta\<lparr>m_name := name, m_namespace := namespace, m_labels := [''capoa.openshift.io/cluster-name'' \<mapsto> m_name (oacp_meta acp)]\<rparr>,
     pvc_accessModes = [''ReadWriteOnce''], pvc_volumeMode = ''Block'', pvc_storage = ''30Gi'',
     pvc_storageClass = (case cfg_csiDriver (sp_config (oacp_spec acp)) of None \<Rightarrow> None
       | Some d \<Rightarrow> if csi_infraStorageClass d \<noteq> [] then Some (csi_infraStorageClass d) else None)\<rparr>"

definition import_script :: string where
  "import_script = text_lines [
     ''#!/bin/sh'',
     ''set -eu'',
     [],
     ''WORKDIR=$(mktemp -d)'',
     ''EXTRACT_DIR=\"\"'',
     ''trap 'rm -rf \"$WORKDIR\" \"$EXTRACT_DIR\" 2>/dev/null' EXIT'',
     ''cd \"$WORKDIR\"'',
     [],
     ''echo \"Downloading ociarchive from $RHCOS_URL...\"'',
     ''curl -fsSL --retry 3 --retry-delay 5 \"$RHCOS_URL\" -o rhcos.ociarchive'',
     ''echo \"Download complete\"'',
     [],
     ''echo \"Extracting ociarchive...\"'',
     ''tar xf rhcos.ociarchive'',
     ''rm -f rhcos.ociarchive'',
     [],
     ''if [ ! -f index.json ]; then'',
     ''  echo \"ERROR: Not a valid OCI archive\" >&2'',
     ''  exit 1'',
     ''fi'',
     [],
     ''echo \"Parsing OCI layout...\"'',
     ''# Extract the first manifest digest from \"manifests\" array in index.json.'',
     ''# OCI index.json has a top-level \"manifests\" array; we grep for \"digest\" lines'',
     ''# only after seeing \"manifests\", taking the first match.'',
     ''MANIFEST_DIGEST=$(sed -n '/\"manifests\"/,/'' @ [CHR 0x5C] @ '']/{ s/.*\"digest\"[[:space:]]*:[[:space:]]*\"sha256:'' @ [CHR 0x5C] @ ''([a-f0-9]*'' @ [CHR 0x5C] @ '')\".*/'' @ [CHR 0x5C] @ ''1/p; }' index.json | head -1)'',
     ''if [ -z \"$MANIFEST_DIGEST\" ]; then'',
     ''  echo \"ERROR: Could not parse manifest digest from index.json\" >&2'',
     ''  cat index.json >&2'',
     ''  exit 1'',
     ''fi'',
     ''MANIFEST_PATH=\"blobs/sha256/$MANIFEST_DIGEST\"'',
     [],
     ''# Extract the last layer digest from the \"layers\" array in the manifest.'',
     ''# The disk layer is typically the last (or only) layer in RHCOS ociarchives.'',
     ''LAYER_DIGEST=$(sed -n '/\"layers\"/,/'' @ [CHR 0x5C] @ '']/{ s/.*\"digest\"[[:space:]]*:[[:space:]]*\"sha256:'' @ [CHR 0x5C] @ ''([a-f0-9]*'' @ [CHR 0x5C] @ '')\".*/'' @ [CHR 0x5C] @ ''1/p; }' \"$MANIFEST_PATH\" | tail -1)'',
     ''if [ -z \"$LAYER_DIGEST\" ]; then'',
     ''  echo \"ERROR: Could not parse layer digest from manifest\" >&2'',
     ''  cat \"$MANIFEST_PATH\" >&2'',
     ''  exit 1'',
     ''fi'',
     ''LAYER_PATH=\"blobs/sha256/$LAYER_DIGEST\"'',
     ''echo \"  manifest=$MANIFEST_DIGEST\"'',
     ''echo \"  layer=$LAYER_DIGEST\"'',
     [],
     ''echo \"Extracting disk from layer...\"'',
     ''EXTRACT_DIR=$(mktemp -d)'',
     ''gunzip -c \"$LAYER_PATH\" | tar -xf - -C \"$EXTRACT_DIR\"'',
     [],
     ''DISK_FILE=$(find \"$EXTRACT_DIR\" -type f '' @ [CHR 0x5C] @ ''( -name \"*.qcow2\" -o -name \"*.raw\" -o -name \"*.img\" '' @ [CHR 0x5C] @ '') | head -1)'',
     ''if [ -z \"$DISK_FILE\" ]; then'',
     ''  echo \"ERROR: No disk file found in layer\" >&2'',
     ''  exit 1'',
     ''fi'',
     ''echo \"  disk=$DISK_FILE\"'',
     [],
     ''echo \"Converting disk to raw on block device /dev/disk...\"'',
     ''qemu-img convert -O raw -t none \"$DISK_FILE\" /dev/disk'',
     [],
     ''echo \"Disk write complete.\"'']"

definition job_of :: "string \<Rightarrow> string \<Rightarrow> int \<Rightarrow> int option \<Rightarrow> container \<Rightarrow> (string \<times> volume_source) list \<Rightarrow> job" where
  "job_of name namespace backoff deadline c volumes = \<lparr>jb_meta = empty_meta\<lparr>m_name := name, m_namespace := namespace\<rparr>,
     jb_backoffLimit = Some backoff, jb_ttl = Some jobTTLSeconds, jb_deadline = deadline,
     jb_template = empty_template_pods\<lparr>pt_restartPolicy := ''OnFailure'', pt_containers := [c], pt_volumes := volumes\<rparr>,
     jb_succeeded = 0, jb_failed = 0\<rparr>"

definition buildRHCOSImportJob :: "string \<Rightarrow> string \<Rightarrow> string \<Rightarrow> string \<Rightarrow> string \<Rightarrow> job" where
  "buildRHCOSImportJob name namespace pvcName rhcosURL jobImage = job_of name namespace 2 (Some 3600)
     (empty_container\<lparr>ct_name := ''import-rhcos'', ct_image := jobImage, ct_command := [''/bin/sh'', ''-c'', import_script],
       ct_env := [(''RHCOS_URL'', rhcosURL)], ct_devices := [(''disk'', ''/dev/disk'')],
       ct_requests := [(''cpu'', ''500m''), (''memory'', ''512Mi''), (''ephemeral-storage'', ''4Gi'')], ct_limits := [(''memory'', ''2Gi'')]\<rparr>)
     [(''disk'', FromClaim pvcName)]"

definition buildPullSecretJob :: "string \<Rightarrow> string \<Rightarrow> string \<Rightarrow> string \<Rightarrow> string \<Rightarrow> string \<Rightarrow> string \<Rightarrow> (string \<times> string) list \<Rightarrow> (string \<times> string) list \<Rightarrow> job" where
  "buildPullSecretJob name namespace releaseImage pullSecretName jobImage script containerName reqs lims = job_of name namespace 3 None
     (empty_container\<lparr>ct_name := containerName, ct_image := jobImage, ct_command := [''/bin/bash'', ''-c'', script],
       ct_env := [(''RELEASE_IMAGE'', releaseImage)], ct_mounts := [(''pull-secret'', ''/pull-secret'', True)], ct_requests := reqs, ct_limits := lims\<rparr>)
     [(''pull-secret'', FromSecret pullSecretName)]"

definition url_script :: string where
  "url_script = text_lines [
     ''#!/bin/bash'',
     ''set -euo pipefail'',
     [],
     ''ERRTMP=$(mktemp)'',
     ''MOS_IMAGE=$(oc adm release info \"$RELEASE_IMAGE\" --image-for=machine-os-images --registry-config=/pull-secret/.dockerconfigjson 2>\"$ERRTMP\" || true)'',
     ''if [ -z \"$MOS_IMAGE\" ]; then'',
     ''  echo \"ERROR: Could not find machine-os-images in release payload\" >&2'',
     ''  cat \"$ERRTMP\" >&2'',
     ''  rm -f \"$ERRTMP\"'',
     ''  exit 1'',
     ''fi'',
     ''rm -f \"$ERRTMP\"'',
     [],
     ''TMPDIR=$(mktemp -d)'',
     ''trap 'rm -rf \"$TMPDIR\"' EXIT'',
     ''oc image extract \"$MOS_IMAGE\" --path /coreos/coreos-stream.json:\"$TMPDIR\" --registry-config=/pull-secret/.dockerconfigjson'',
     [],
     ''URL=$(jq -r '.architectures.x86_64.artifacts.kubevirt.formats.ociarchive.disk.location' \"$TMPDIR/coreos-stream.json\")'',
     ''if [ -z \"$URL\" ] || [ \"$URL\" = \"null\" ]; then'',
     ''  echo \"ERROR: RHCOS kubevirt ociarchive URL not found in coreos-stream.json\" >&2'',
     ''  jq '.architectures.x86_64.artifacts | keys' \"$TMPDIR/coreos-stream.json\" >&2'',
     ''  exit 1'',
     ''fi'',
     [],
     ''echo \"$URL\" > /dev/termination-log'',
     ''echo \"Resolved: $URL\"'']"

definition buildRHCOSURLResolveJob :: "string \<Rightarrow> string \<Rightarrow> string \<Rightarrow> string \<Rightarrow> string \<Rightarrow> job" where
  "buildRHCOSURLResolveJob name namespace releaseImage pullSecretName jobImage =
     buildPullSecretJob name namespace releaseImage pullSecretName jobImage url_script ''resolve-url''
       [(''cpu'', ''100m''), (''memory'', ''256Mi'')] [(''memory'', ''512Mi'')]"

subsection \<open>The address of the image\<close>

definition termination_messages :: "pod \<Rightarrow> string list" where
  "termination_messages p = filter (\<lambda>m. m \<noteq> []) (List.map trim_space (concat (List.map (\<lambda>t. case t of None \<Rightarrow> [] | Some m \<Rightarrow> [m]) (pod_terminated p))))"

definition ReadURLFromJobPod :: "'s env \<Rightarrow> kclient \<Rightarrow> string \<Rightarrow> string \<Rightarrow> ('s, string res) prog" where
  "ReadURLFromJobPod E c jobName namespace = do {
     r \<leftarrow> list_as E as_pod c KPod \<lparr>lo_namespace = namespace, lo_labels = [(''job-name'', jobName)]\<rparr>;
     ret (case r of
       Inl e \<Rightarrow> Inl e
     | Inr pods \<Rightarrow> (case concat (List.map termination_messages (filter (\<lambda>p. pod_phase p = ''Succeeded'') pods)) of
         [] \<Rightarrow> Inl (Errorf ''no completed pod found for job'')
       | url # _ \<Rightarrow> Inr url)) }"

text \<open>What a job that exists says: the address when it has succeeded, nothing yet otherwise.\<close>

definition url_from_job :: "'s env \<Rightarrow> kclient \<Rightarrow> string \<Rightarrow> string \<Rightarrow> string \<Rightarrow> job \<Rightarrow> ('s, string res) prog" where
  "url_from_job E c namespace cmName jobName existingJob =
    (if 0 <s jb_succeeded existingJob then do {
       u \<leftarrow> ReadURLFromJobPod E c jobName namespace;
       case u of
         Inr url \<Rightarrow> if url = [] then do { _ \<leftarrow> kdelete E c (OJob existingJob); ret (Inr []) } else do {
           x \<leftarrow> kcreate E c (OConfigMap \<lparr>cm_meta = empty_meta\<lparr>m_name := cmName, m_namespace := namespace\<rparr>, cm_data = [RHCOSURLConfigMapKey \<mapsto> url]\<rparr>);
           ret (case x of
             Inl e \<Rightarrow> if is_already_exists e then Inr url else Inl (Wrapf ''failed to create RHCOS URL ConfigMap'' e)
           | Inr _ \<Rightarrow> Inr url) }
       | Inl _ \<Rightarrow> do { _ \<leftarrow> kdelete E c (OJob existingJob); ret (Inr []) } }
     else if 0 <s jb_failed existingJob then do { _ \<leftarrow> kdelete E c (OJob existingJob); ret (Inr []) }
     else ret (Inr []))"

definition ensureRHCOSURLResolved :: "'s env \<Rightarrow> kclient \<Rightarrow> string \<Rightarrow> string \<Rightarrow> string \<Rightarrow> string \<Rightarrow> string \<Rightarrow> ('s, string res) prog" where
  "ensureRHCOSURLResolved E c namespace majorMinor releaseImage pullSecretName resolvedCliImage =
    (let cmName = ''capoa-rhcos-url-'' @ majorMinor; jobName = ''rhcos-url-resolve-'' @ majorMinor in do {
     m \<leftarrow> get_as E as_config_map c KConfigMap namespace cmName;
     let known = (case m of Inl _ \<Rightarrow> [] | Inr cm \<Rightarrow> (case cm_data cm RHCOSURLConfigMapKey of None \<Rightarrow> [] | Some u \<Rightarrow> u));
     if known \<noteq> [] then ret (Inr known) else do {
       j \<leftarrow> get_as E as_job c KJob namespace jobName;
       case j of
         Inr existingJob \<Rightarrow> url_from_job E c namespace cmName jobName existingJob
       | Inl e \<Rightarrow> if \<not> is_not_found e then ret (Inl (Wrapf ''failed to check RHCOS URL Job'' e)) else do {
           x \<leftarrow> kcreate E c (OJob (buildRHCOSURLResolveJob jobName namespace releaseImage pullSecretName (GetJobImage E resolvedCliImage)));
           ret (case x of
             Inl e' \<Rightarrow> if is_already_exists e' then Inr [] else Inl (Wrapf ''failed to create RHCOS URL resolve Job'' e')
           | Inr _ \<Rightarrow> Inr []) } } })"

subsection \<open>The volume\<close>

definition ResolveCDIImporterImage :: "'s env \<Rightarrow> kclient \<Rightarrow> ('s, string res) prog" where
  "ResolveCDIImporterImage E c = do {
     r \<leftarrow> get_as E as_deployment c KDeployment ''openshift-cnv'' ''cdi-deployment'';
     ret (case r of
       Inl e \<Rightarrow> Inl (Wrapf ''CDI deployment not found'' e)
     | Inr d \<Rightarrow> (case filter (\<lambda>(n, v). n = ''IMPORTER_IMAGE'' \<and> v \<noteq> []) (concat (List.map ct_env (pt_containers (dp_template d)))) of
         [] \<Rightarrow> Inl (Errorf ''IMPORTER_IMAGE env var not found in CDI deployment'')
       | (_, v) # _ \<Rightarrow> Inr v)) }"

definition annotation_of :: "oacp \<Rightarrow> string \<Rightarrow> string" where
  "annotation_of acp k = (case m_annotations (oacp_meta acp) k of None \<Rightarrow> [] | Some v \<Rightarrow> v)"

definition with_annotation :: "string \<Rightarrow> string \<Rightarrow> oacp \<Rightarrow> oacp" where
  "with_annotation k v acp = acp\<lparr>oacp_meta := (oacp_meta acp)\<lparr>m_annotations := (m_annotations (oacp_meta acp))(k \<mapsto> v)\<rparr>\<rparr>"

definition isJobFailureCooldownElapsed :: "'s env \<Rightarrow> oacp \<Rightarrow> ('s, bool) prog" where
  "isJobFailureCooldownElapsed E acp = (let lastFailure = annotation_of acp jobFailedCooldownAnnotation in
     if lastFailure = [] then ret True
     else (case parse_rfc3339 lastFailure of
       None \<Rightarrow> ret True
     | Some t \<Rightarrow> do { now \<leftarrow> clock_now E; ret (now - t > jobFailedCooldown) }))"

definition setJobFailureCooldown :: "'s env \<Rightarrow> oacp \<Rightarrow> ('s, oacp) prog" where
  "setJobFailureCooldown E acp = do { now \<leftarrow> clock_now E; ret (with_annotation jobFailedCooldownAnnotation (format_rfc3339 now) acp) }"

text \<open>The object as it is in memory after an update: what the server answered, or unchanged after an error.\<close>

definition updated_oacp :: "oacp \<Rightarrow> kobj res \<Rightarrow> oacp" where
  "updated_oacp acp u = (case decode as_oacp u of Inl _ \<Rightarrow> acp | Inr acp' \<Rightarrow> acp')"

definition check_import_job :: "'s env \<Rightarrow> kclient \<Rightarrow> oacp \<Rightarrow> string \<Rightarrow> job \<Rightarrow> ('s, oacp \<times> bool res) prog" where
  "check_import_job E c acp pvcName existingJob =
    (if 0 <s jb_succeeded existingJob then
       (let acp1 = with_annotation RHCOSGoldenPVCReadyAnnotation pvcName acp in do {
         u \<leftarrow> kupdate E Mgmt (OOACP acp1);
         ret (updated_oacp acp1 u, case u of Inl e \<Rightarrow> Inl (Wrapf ''failed to persist golden PVC annotation'' e) | Inr _ \<Rightarrow> Inr True) })
     else if 0 <s jb_failed existingJob then do {
       elapsed \<leftarrow> isJobFailureCooldownElapsed E acp;
       if \<not> elapsed then ret (acp, Inr False) else do {
         _ \<leftarrow> kdelete E c (OJob existingJob);
         acp1 \<leftarrow> setJobFailureCooldown E acp;
         u \<leftarrow> kupdate E Mgmt (OOACP acp1);
         ret (updated_oacp acp1 u, Inr False) } }
     else ret (acp, Inr False))"

definition ensure_import_job :: "'s env \<Rightarrow> kclient \<Rightarrow> oacp \<Rightarrow> string \<Rightarrow> string \<Rightarrow> string \<Rightarrow> string \<Rightarrow> ('s, oacp \<times> bool res) prog" where
  "ensure_import_job E c acp namespace jobName pvcName rhcosURL = do {
     j \<leftarrow> get_as E as_job c KJob namespace jobName;
     case j of
       Inr existingJob \<Rightarrow> check_import_job E c acp pvcName existingJob
     | Inl e \<Rightarrow> if \<not> is_not_found e then ret (acp, Inl (Wrapf ''failed to check RHCOS import Job'' e)) else do {
         i \<leftarrow> ResolveCDIImporterImage E c;
         case i of
           Inl e' \<Rightarrow> ret (acp, Inl (Wrapf ''failed to resolve CDI importer image'' e'))
         | Inr importImage \<Rightarrow> do {
             x \<leftarrow> kcreate E c (OJob (buildRHCOSImportJob jobName namespace pvcName rhcosURL importImage));
             ret (acp, case x of
               Inl e' \<Rightarrow> if is_already_exists e' then Inr False else Inl (Wrapf ''failed to create RHCOS import Job'' e')
             | Inr _ \<Rightarrow> Inr False) } } }"

definition EnsureRHCOSGoldenPVC :: "'s env \<Rightarrow> kclient \<Rightarrow> oacp \<Rightarrow> string \<Rightarrow> string \<Rightarrow> string \<Rightarrow> string \<Rightarrow> ('s, oacp \<times> bool res) prog" where
  "EnsureRHCOSGoldenPVC E c acp releaseImage pullSecretName infraNamespace resolvedCliImage =
    (let version = sp_distributionVersion (oacp_spec acp); majorMinor = extractMajorMinor version; pvcName = GoldenPVCName version in
     if annotation_of acp RHCOSGoldenPVCReadyAnnotation \<noteq> [] then ret (acp, Inr True)
     else if majorMinor = [] then ret (acp, Inl (Errorf ''cannot extract major.minor from version''))
     else do {
       u \<leftarrow> ensureRHCOSURLResolved E c infraNamespace majorMinor releaseImage pullSecretName resolvedCliImage;
       case u of
         Inl e \<Rightarrow> ret (acp, Inl e)
       | Inr rhcosURL \<Rightarrow> if rhcosURL = [] then ret (acp, Inr False) else do {
           p \<leftarrow> get_as E as_volume_claim c KVolumeClaim infraNamespace pvcName;
           case p of
             Inr _ \<Rightarrow> ensure_import_job E c acp infraNamespace (''rhcos-import-'' @ majorMinor) pvcName rhcosURL
           | Inl e \<Rightarrow> if \<not> is_not_found e then ret (acp, Inl (Wrapf ''failed to check golden PVC'' e)) else do {
               x \<leftarrow> kcreate E c (OVolumeClaim (buildGoldenPVC pvcName infraNamespace acp));
               ret (acp, case x of
                 Inl e' \<Rightarrow> if is_already_exists e' then Inr False else Inl (Wrapf ''failed to create golden PVC'' e')
               | Inr _ \<Rightarrow> Inr False) } } })"

subsection \<open>What a step does\<close>

text \<open>The recorded failure is long enough ago.\<close>

definition cooled :: "oacp \<Rightarrow> event list \<Rightarrow> bool" where
  "cooled acp evs \<longleftrightarrow> (\<forall>t. annotation_of acp jobFailedCooldownAnnotation \<noteq> [] \<longrightarrow> parse_rfc3339 (annotation_of acp jobFailedCooldownAnnotation) = Some t \<longrightarrow>
     (\<exists>now. EvClock now \<in> set evs \<and> jobFailedCooldown < now - t))"

lemma cooled_append: "cooled acp evs \<Longrightarrow> cooled acp (pre @ evs @ post)"
  unfolding cooled_def by (metis Un_iff set_append)

lemma logs_cooldown: "logs (isJobFailureCooldownElapsed E acp) (\<lambda>r evs. (\<forall>e \<in> set evs. \<exists>now. e = EvClock now) \<and> (r \<longrightarrow> cooled acp evs))"
  unfolding isJobFailureCooldownElapsed_def Let_def clock_now_def
  by (intro logs_if logs_case_option logs_call_bind logs_return) (auto simp: cooled_def)

lemma logs_setCooldown: "logs (setJobFailureCooldown E acp) (\<lambda>r evs. \<exists>now. evs = [EvClock now] \<and> r = with_annotation jobFailedCooldownAnnotation (format_rfc3339 now) acp)"
  unfolding setJobFailureCooldown_def clock_now_def by (intro logs_call_bind logs_return) simp

text \<open>The address step knows nothing of the import job, and deletes nothing when it returns an address.\<close>

definition url_event :: "kclient \<Rightarrow> string \<Rightarrow> event \<Rightarrow> bool" where
  "url_event c mm e \<longleftrightarrow> (\<forall>ns g. e \<noteq> EvGet c KJob ns (''rhcos-import-'' @ mm) g)
     \<and> (\<forall>j x. e = EvCreate c (OJob j) x \<longrightarrow> m_name (jb_meta j) = ''rhcos-url-resolve-'' @ mm)"

definition no_delete :: "event list \<Rightarrow> bool" where
  "no_delete evs \<longleftrightarrow> (\<forall>c ob x. EvDelete c ob x \<notin> set evs)"

lemma logs_ReadURL: "logs (ReadURLFromJobPod E c n ns) (\<lambda>r evs. (\<forall>e \<in> set evs. url_event c mm e) \<and> no_delete evs)"
  unfolding ReadURLFromJobPod_def list_as_def klist_def prog_simps
  by (rule logs_call_bind, rule logs_return) (simp add: url_event_def no_delete_def)

lemma logs_url_from_job: "logs (url_from_job E c ns cm n j) (\<lambda>r evs. (\<forall>e \<in> set evs. url_event c mm e) \<and> (\<forall>url. r = Inr url \<longrightarrow> url \<noteq> [] \<longrightarrow> no_delete evs))"
  unfolding url_from_job_def kcall_defs
  apply (rule logs_if)
   apply (rule logs_bind [OF logs_ReadURL [where mm = mm]], rule logs_case_sum)
    apply (rule logs_call_bind, rule logs_return, simp add: url_event_def)
   apply (rule logs_if, rule logs_call_bind, rule logs_return, simp add: url_event_def)
   apply (rule logs_call_bind, rule logs_return, simp add: url_event_def no_delete_def)
  apply (rule logs_if, rule logs_call_bind, rule logs_return, simp add: url_event_def)
  apply (rule logs_return, simp)
  done

lemma logs_url: "logs (ensureRHCOSURLResolved E c ns mm img ps cli) (\<lambda>r evs. (\<forall>e \<in> set evs. url_event c mm e) \<and> (\<forall>url. r = Inr url \<longrightarrow> url \<noteq> [] \<longrightarrow> no_delete evs))"
  unfolding ensureRHCOSURLResolved_def Let_def get_as_def kcall_defs
  apply (simp only: prog_simps)
  apply (rule logs_call_bind, rule logs_if, rule logs_return, simp add: url_event_def no_delete_def)
  apply (rule logs_call_bind, rule logs_case_sum, rule logs_if, rule logs_return, simp add: url_event_def)
   apply (rule logs_call_bind, rule logs_return)
   apply (simp add: url_event_def buildRHCOSURLResolveJob_def buildPullSecretJob_def job_of_def split: sum.splits)
  apply (rule logs_mono [OF logs_url_from_job [where mm = mm]])
  apply (auto simp: url_event_def no_delete_def)
  done

text \<open>The step of the import job, after its claim was seen.\<close>

definition import_step :: "kclient \<Rightarrow> oacp \<Rightarrow> string \<Rightarrow> string \<Rightarrow> string \<Rightarrow> string \<Rightarrow> bool res \<Rightarrow> event list \<Rightarrow> bool" where
  "import_step c acp ns imp pvc url r evs \<longleftrightarrow>
     (r = Inr True \<longrightarrow> (\<exists>job a. evs = [EvGet c KJob ns imp (Inr (OJob job)), EvUpdate Mgmt (OOACP (with_annotation RHCOSGoldenPVCReadyAnnotation pvc acp)) (Inr a)] \<and> 0 <s jb_succeeded job)) \<and>
     (\<forall>j x. EvCreate c (OJob j) x \<in> set evs \<longrightarrow> (\<exists>img. j = buildRHCOSImportJob imp ns pvc url img)) \<and>
     (\<forall>ob x. EvDelete c ob x \<in> set evs \<longrightarrow> (\<exists>j. ob = OJob j \<and> EvGet c KJob ns imp (Inr (OJob j)) \<in> set evs \<and> 0 <s jb_failed j \<and> \<not> 0 <s jb_succeeded j \<and> cooled acp evs))"

lemma decode_job: "decode as_job g = Inr j \<longleftrightarrow> g = Inr (OJob j)" "decode as_volume_claim g = Inr v \<longleftrightarrow> g = Inr (OVolumeClaim v)"
  by (auto simp: decode_def split: sum.splits option.splits)

lemma logs_CDI: "logs (ResolveCDIImporterImage E c) (\<lambda>r evs. \<forall>e \<in> set evs. \<exists>g. e = EvGet c KDeployment ''openshift-cnv'' ''cdi-deployment'' g)"
  unfolding ResolveCDIImporterImage_def get_as_def kget_def prog_simps by (rule logs_call_bind, rule logs_return) simp

lemma logs_check_import:
  "logs (check_import_job E c acp pvc j) (\<lambda>r evs. import_step c acp ns imp pvc url (snd r) (EvGet c KJob ns imp (Inr (OJob j)) # evs))"
  unfolding check_import_job_def Let_def kcall_defs
  apply (rule logs_if)
   apply (rule logs_call_bind, rule logs_return, simp add: import_step_def split: sum.splits)
  apply (rule logs_if)
   apply (rule logs_bind [OF logs_cooldown], rule logs_if, rule logs_return)
  subgoal by (auto simp: import_step_def)
   apply (rule logs_call_bind, rule logs_bind [OF logs_setCooldown], rule logs_call_bind, rule logs_return)
  subgoal premises prems for el evs d acp1 evs1 u
  proof -
    have "cooled acp (EvGet c KJob ns imp (Inr (OJob j)) # evs @ EvDelete c (OJob j) d # evs1 @ [EvUpdate Mgmt (OOACP acp1) u])"
      using cooled_append [of acp evs "[EvGet c KJob ns imp (Inr (OJob j))]" "EvDelete c (OJob j) d # evs1 @ [EvUpdate Mgmt (OOACP acp1) u]"] prems by simp
    then show ?thesis using prems by (auto simp: import_step_def)
  qed
  apply (rule logs_return, simp add: import_step_def)
  done

lemma logs_import:
  "logs (ensure_import_job E c acp ns imp pvc url) (\<lambda>r evs. import_step c acp ns imp pvc url (snd r) evs)"
  unfolding ensure_import_job_def get_as_def kcall_defs
  apply (simp only: prog_simps)
  apply (rule logs_call_bind, rule logs_case_sum, rule logs_if, rule logs_return, simp add: import_step_def)
   apply (rule logs_bind [OF logs_CDI], rule logs_case_sum, rule logs_return)
  subgoal by (auto simp: import_step_def)
   apply (rule logs_call_bind, rule logs_return)
  subgoal by (auto simp: import_step_def split: sum.splits)
  apply (rule logs_mono [OF logs_check_import [where ns = ns and imp = imp and url = url]])
  apply (simp add: decode_job)
  done

text \<open>What the whole operation does, for the versions it accepts.\<close>

definition golden_run :: "kclient \<Rightarrow> oacp \<Rightarrow> string \<Rightarrow> string \<Rightarrow> bool res \<Rightarrow> event list \<Rightarrow> bool" where
  "golden_run c acp ns mm r evs \<longleftrightarrow> (let pvc = GoldenPVCName (sp_distributionVersion (oacp_spec acp)); imp = ''rhcos-import-'' @ mm in
     (r = Inr True \<longrightarrow> (\<exists>pre cl job a. evs = pre @ [EvGet c KVolumeClaim ns pvc (Inr (OVolumeClaim cl)), EvGet c KJob ns imp (Inr (OJob job)),
        EvUpdate Mgmt (OOACP (with_annotation RHCOSGoldenPVCReadyAnnotation pvc acp)) (Inr a)] \<and> 0 <s jb_succeeded job)) \<and>
     (\<forall>j x. EvCreate c (OJob j) x \<in> set evs \<longrightarrow> m_name (jb_meta j) = imp \<longrightarrow>
        (\<exists>cl img url. EvGet c KVolumeClaim ns pvc (Inr (OVolumeClaim cl)) \<in> set evs \<and> url \<noteq> [] \<and> j = buildRHCOSImportJob imp ns pvc url img)) \<and>
     (\<forall>j d. EvGet c KJob ns imp (Inr (OJob j)) \<in> set evs \<longrightarrow> EvDelete c (OJob j) d \<in> set evs \<longrightarrow>
        0 <s jb_failed j \<and> \<not> 0 <s jb_succeeded j \<and> cooled acp evs))"

lemma import_golden:
  assumes "import_step c acp ns (''rhcos-import-'' @ mm) (GoldenPVCName (sp_distributionVersion (oacp_spec acp))) url r evs" "url \<noteq> []"
    "\<forall>e \<in> set pre. url_event c mm e" "no_delete pre"
  shows "golden_run c acp ns mm r (pre @ EvGet c KVolumeClaim ns (GoldenPVCName (sp_distributionVersion (oacp_spec acp))) (Inr (OVolumeClaim cl)) # evs)"
  (is "golden_run _ _ _ _ _ (pre @ ?get # evs)")
proof -
  have p: "EvCreate c (OJob j) x \<in> set pre \<Longrightarrow> m_name (jb_meta j) \<noteq> ''rhcos-import-'' @ mm" "EvDelete c ob d \<notin> set pre" for j x ob d
    using assms(3,4) by (force simp: url_event_def no_delete_def)+
  have i: "r = Inr True \<Longrightarrow> \<exists>job a. evs = [EvGet c KJob ns (''rhcos-import-'' @ mm) (Inr (OJob job)),
      EvUpdate Mgmt (OOACP (with_annotation RHCOSGoldenPVCReadyAnnotation (GoldenPVCName (sp_distributionVersion (oacp_spec acp))) acp)) (Inr a)] \<and> 0 <s jb_succeeded job"
    "EvCreate c (OJob j) x \<in> set evs \<Longrightarrow> \<exists>img. j = buildRHCOSImportJob (''rhcos-import-'' @ mm) ns (GoldenPVCName (sp_distributionVersion (oacp_spec acp))) url img"
    "EvDelete c (OJob j) d \<in> set evs \<Longrightarrow> 0 <s jb_failed j \<and> \<not> 0 <s jb_succeeded j \<and> cooled acp evs" for j x d
    using assms(1) unfolding import_step_def by blast+
  have "cooled acp evs \<Longrightarrow> cooled acp (pre @ ?get # evs)" using cooled_append [of acp evs "pre @ [?get]" "[]"] by simp
  then show ?thesis
    unfolding golden_run_def Let_def using assms(2) p i
    by (intro conjI impI allI) (fastforce+)
qed

lemma pre_golden: "\<forall>e \<in> set evs. url_event c mm e \<Longrightarrow> r \<noteq> Inr True \<Longrightarrow> golden_run c acp ns mm r evs"
  unfolding golden_run_def Let_def
proof (intro conjI impI allI)
  assume u: "\<forall>e \<in> set evs. url_event c mm e" and r: "r \<noteq> Inr True"
  show "\<exists>pre cl job a. evs = pre @ [EvGet c KVolumeClaim ns n (Inr (OVolumeClaim cl)), EvGet c KJob ns n' (Inr (OJob job)), EvUpdate Mgmt (OOACP acp1) (Inr a)] \<and> 0 <s jb_succeeded job"
    if "r = Inr True" for n n' acp1 using r that by simp
  show "\<exists>cl img url. EvGet c KVolumeClaim ns n (Inr (OVolumeClaim cl)) \<in> set evs \<and> url \<noteq> [] \<and> j = buildRHCOSImportJob (''rhcos-import-'' @ mm) ns n url img"
    if "EvCreate c (OJob j) x \<in> set evs" "m_name (jb_meta j) = ''rhcos-import-'' @ mm" for j x n
    using u that unfolding url_event_def by fastforce
  show "0 <s jb_failed j" "\<not> 0 <s jb_succeeded j" "cooled acp evs" if "EvGet c KJob ns (''rhcos-import-'' @ mm) (Inr (OJob j)) \<in> set evs" for j
    using u that unfolding url_event_def by blast+
qed

lemma url_event_other: "url_event c mm (EvGet c' KVolumeClaim ns n g)" "url_event c mm (EvCreate c' (OVolumeClaim v) x)"
  by (simp_all add: url_event_def)

lemma not_ready [simp]: "(case x of Inl e \<Rightarrow> if b e then Inr False else Inl (f e) | Inr y \<Rightarrow> Inr False) \<noteq> Inr True"
  by (simp split: sum.splits)

lemma logs_golden:
  assumes "annotation_of acp RHCOSGoldenPVCReadyAnnotation = []"
  shows "logs (EnsureRHCOSGoldenPVC E c acp img ps ns cli) (\<lambda>r evs. golden_run c acp ns (extractMajorMinor (sp_distributionVersion (oacp_spec acp))) (snd r) evs)"
  unfolding EnsureRHCOSGoldenPVC_def Let_def get_as_def kcall_defs if_not_P [OF not_not [THEN iffD2, OF assms]]
  apply (simp only: prog_simps)
  apply (rule logs_if, rule logs_return, simp add: pre_golden)
  apply (rule logs_bind [OF logs_url], rule logs_case_sum, rule logs_return, simp add: pre_golden)
  apply (rule logs_if, rule logs_return, simp add: pre_golden)
  apply (rule logs_call_bind, rule logs_case_sum, rule logs_if, rule logs_return)
    apply (rule pre_golden, simp add: url_event_other, simp)
   apply (rule logs_call_bind, rule logs_return)
   apply (rule pre_golden, simp add: url_event_other, simp)
  apply (rule logs_mono [OF logs_import])
  apply (simp add: decode_job import_golden)
  done

text \<open>
  Claim C34. The image volume is reported ready only when the control plane is marked already, and then nothing is done, or when the
  pass saw the volume claim and then a succeeded import job and recorded the mark on the control plane, in this order
  and as its last calls. An import job is created only for a claim that was seen and a nonempty address, with exactly the
  arguments of the source; an import job is deleted only when it has failed, has not succeeded, and the failure recorded before is more than five
  minutes old by the clock.
\<close>

theorem golden_image_safe:
  assumes "run_state (EnsureRHCOSGoldenPVC E c acp img ps ns cli) (start s) = ((acp', r), w)"
  shows "if annotation_of acp RHCOSGoldenPVCReadyAnnotation \<noteq> [] then r = Inr True \<and> acp' = acp \<and> w_trace w = []
    else golden_run c acp ns (extractMajorMinor (sp_distributionVersion (oacp_spec acp))) r (w_trace w)"
proof (cases "annotation_of acp RHCOSGoldenPVCReadyAnnotation = []")
  case True
  then show ?thesis using logs_start [OF logs_golden [OF True] assms] by simp
next
  case False
  then show ?thesis using assms by (auto simp: EnsureRHCOSGoldenPVC_def start_def)
qed

subsection \<open>The import job is created again\<close>

definition importer_image :: "deployment \<Rightarrow> string option" where
  "importer_image d = (case filter (\<lambda>(n, v). n = ''IMPORTER_IMAGE'' \<and> v \<noteq> []) (concat (List.map ct_env (pt_containers (dp_template d)))) of
     [] \<Rightarrow> None | (_, v) # _ \<Rightarrow> Some v)"

definition absent_job :: "kclient \<Rightarrow> string \<Rightarrow> string \<Rightarrow> event list \<Rightarrow> bool" where
  "absent_job c ns imp evs \<longleftrightarrow> (\<exists>e. is_not_found e \<and> EvGet c KJob ns imp (Inl e) \<in> set evs)"

definition importer_seen :: "kclient \<Rightarrow> string \<Rightarrow> event list \<Rightarrow> bool" where
  "importer_seen c img evs \<longleftrightarrow> (\<exists>d. importer_image d = Some img \<and> EvGet c KDeployment ''openshift-cnv'' ''cdi-deployment'' (Inr (ODeployment d)) \<in> set evs)"

definition recreates :: "kclient \<Rightarrow> string \<Rightarrow> string \<Rightarrow> string \<Rightarrow> event list \<Rightarrow> bool" where
  "recreates c ns imp pvc evs \<longleftrightarrow> (\<forall>img. absent_job c ns imp evs \<longrightarrow> importer_seen c img evs \<longrightarrow>
     (\<exists>url x. EvCreate c (OJob (buildRHCOSImportJob imp ns pvc url img)) x \<in> set evs))"

lemma logs_importer:
  "logs (ResolveCDIImporterImage E c) (\<lambda>r evs. \<exists>g. evs = [EvGet c KDeployment ''openshift-cnv'' ''cdi-deployment'' g] \<and>
     (\<forall>d img. g = Inr (ODeployment d) \<longrightarrow> importer_image d = Some img \<longrightarrow> r = Inr img))"
  unfolding ResolveCDIImporterImage_def get_as_def kget_def prog_simps
  by (rule logs_call_bind, rule logs_return) (auto simp: importer_image_def decode_def split: list.splits)

definition no_reads :: "event list \<Rightarrow> bool" where
  "no_reads evs \<longleftrightarrow> (\<forall>c k ns n g. EvGet c k ns n g \<notin> set evs)"

lemma logs_check_no_reads: "logs (check_import_job E c acp pvc j) (\<lambda>r evs. no_reads evs)"
proof -
  have "emits (\<lambda>e. \<forall>c k ns n g. e \<noteq> EvGet c k ns n g) (check_import_job E c acp pvc j)"
    unfolding check_import_job_def isJobFailureCooldownElapsed_def setJobFailureCooldown_def clock_now_def Let_def
    by (intro emits_intros) simp_all
  then show ?thesis by (rule logs_mono [OF emits_logs]) (auto simp: no_reads_def)
qed

lemma logs_import_recreates: "logs (ensure_import_job E c acp ns imp pvc url) (\<lambda>r evs. recreates c ns imp pvc evs)"
  unfolding ensure_import_job_def get_as_def kcall_defs
  apply (simp only: prog_simps)
  apply (rule logs_call_bind, rule logs_case_sum, rule logs_if, rule logs_return)
    apply (auto simp: recreates_def absent_job_def decode_def split: sum.splits option.splits)[1]
   apply (rule logs_bind [OF logs_importer], rule logs_case_sum, rule logs_return)
    apply (auto simp: recreates_def importer_seen_def)[1]
   apply (rule logs_call_bind, rule logs_return)
   apply (auto simp: recreates_def importer_seen_def intro!: exI refl)[1]
  apply (rule logs_mono [OF logs_check_no_reads])
  apply (auto simp: recreates_def absent_job_def no_reads_def decode_job)
  done

lemma url_recreates: "\<forall>e \<in> set evs. url_event c mm e \<Longrightarrow> recreates c ns (''rhcos-import-'' @ mm) pvc evs"
  unfolding recreates_def absent_job_def url_event_def by blast

lemma emits_url: "emits (\<lambda>e. \<forall>ns n g. e \<noteq> EvGet c KDeployment ns n g) (ensureRHCOSURLResolved E c ns mm img ps cli)"
  unfolding ensureRHCOSURLResolved_def url_from_job_def ReadURLFromJobPod_def Let_def
  by (intro emits_intros) simp_all

lemma recreates_after:
  assumes "\<forall>e \<in> set pre. url_event c mm e" "\<forall>e \<in> set pre. \<forall>ns n g. e \<noteq> EvGet c KDeployment ns n g" "recreates c ns (''rhcos-import-'' @ mm) pvc evs"
  shows "recreates c ns (''rhcos-import-'' @ mm) pvc (pre @ EvGet c KVolumeClaim ns pvc g # evs)"
proof -
  have "EvGet c KDeployment n1 n2 x \<notin> set pre" "EvGet c KJob n1 (''rhcos-import-'' @ mm) x \<notin> set pre" for n1 n2 x
    using assms(1,2) unfolding url_event_def by blast+
  then have "absent_job c ns (''rhcos-import-'' @ mm) (pre @ EvGet c KVolumeClaim ns pvc g # evs) \<Longrightarrow> absent_job c ns (''rhcos-import-'' @ mm) evs"
    "importer_seen c img (pre @ EvGet c KVolumeClaim ns pvc g # evs) \<Longrightarrow> importer_seen c img evs" for img
    unfolding absent_job_def importer_seen_def by auto
  then show ?thesis using assms(3) unfolding recreates_def by fastforce
qed

lemma logs_recreates:
  "logs (EnsureRHCOSGoldenPVC E c acp img ps ns cli) (\<lambda>r evs.
     recreates c ns (''rhcos-import-'' @ extractMajorMinor (sp_distributionVersion (oacp_spec acp))) (GoldenPVCName (sp_distributionVersion (oacp_spec acp))) evs)"
  unfolding EnsureRHCOSGoldenPVC_def Let_def get_as_def kcall_defs
  apply (simp only: prog_simps)
  apply (rule logs_if, rule logs_return, rule url_recreates, simp)
  apply (rule logs_if, rule logs_return, rule url_recreates, simp)
  apply (rule logs_bind [OF logs_conj [OF logs_url emits_logs [OF emits_url]]], rule logs_case_sum, rule logs_return, rule url_recreates, simp)
  apply (rule logs_if, rule logs_return, rule url_recreates, simp)
  apply (rule logs_call_bind, rule logs_case_sum, rule logs_if, rule logs_return)
    apply (rule url_recreates, simp add: url_event_other)
   apply (rule logs_call_bind, rule logs_return)
   apply (rule url_recreates, simp add: url_event_other)
  apply (rule logs_mono [OF logs_import_recreates])
  apply (rule recreates_after; simp)
  done

text \<open>
  Claim C35. What the cooldown of a failed import delays. When the failure was recorded at \<open>t0\<close>, up to
  the year 9999, a later pass deletes a failed import job again only at a clock time more than five
  minutes after \<open>t0\<close>, cut down to a whole second. It does not delay the retry itself: however
  recent the recorded failure is, a pass that finds no import job and knows the importer image creates the job. So
  the first failed job, which is deleted when its failure is recorded, is replaced by the next pass.
\<close>

theorem failed_import_retry:
  assumes "run_state (setJobFailureCooldown E acp) (start s) = (acp1, w1)" "EvClock t0 \<in> set (w_trace w1)" "0 \<le> t0" "t0 div 1000000000 \<le> 253402300799"
    "run_state (EnsureRHCOSGoldenPVC E' c acp1 img ps ns cli) (start s') = (r, w2)"
  shows "let imp = ''rhcos-import-'' @ extractMajorMinor (sp_distributionVersion (oacp_spec acp)) in
    (\<forall>j x. EvGet c KJob ns imp (Inr (OJob j)) \<in> set (w_trace w2) \<and> EvDelete c (OJob j) x \<in> set (w_trace w2) \<longrightarrow>
       (\<exists>now. EvClock now \<in> set (w_trace w2) \<and> t0 - t0 mod 1000000000 + 300 * 1000000000 < now)) \<and>
    (\<forall>im. absent_job c ns imp (w_trace w2) \<and> importer_seen c im (w_trace w2) \<longrightarrow>
       (\<exists>url x. EvCreate c (OJob (buildRHCOSImportJob imp ns (GoldenPVCName (sp_distributionVersion (oacp_spec acp))) url im)) x \<in> set (w_trace w2)))"
proof -
  have acp1: "acp1 = with_annotation jobFailedCooldownAnnotation (format_rfc3339 t0) acp"
    using logs_start [OF logs_setCooldown assms(1)] assms(2) by auto
  have same: "annotation_of acp1 RHCOSGoldenPVCReadyAnnotation = annotation_of acp RHCOSGoldenPVCReadyAnnotation" "oacp_spec acp1 = oacp_spec acp"
    "annotation_of acp1 jobFailedCooldownAnnotation = format_rfc3339 t0"
    by (simp_all add: acp1 with_annotation_def annotation_of_def RHCOSGoldenPVCReadyAnnotation_def jobFailedCooldownAnnotation_def)
  have parse: "parse_rfc3339 (format_rfc3339 t0) = Some (t0 - t0 mod 1000000000)" by (rule parse_format [OF assms(3,4)])
  have ne: "format_rfc3339 t0 \<noteq> []" by (simp add: format_rfc3339_def Let_def split: prod.splits)
  have delayed: "\<exists>now. EvClock now \<in> set (w_trace w2) \<and> t0 - t0 mod 1000000000 + 300 * 1000000000 < now"
    if get: "EvGet c KJob ns (''rhcos-import-'' @ extractMajorMinor (sp_distributionVersion (oacp_spec acp))) (Inr (OJob j)) \<in> set (w_trace w2)"
      and del: "EvDelete c (OJob j) x \<in> set (w_trace w2)" for j x
  proof -
    have unmarked: "annotation_of acp1 RHCOSGoldenPVCReadyAnnotation = []"
    proof (rule ccontr)
      assume "annotation_of acp1 RHCOSGoldenPVCReadyAnnotation \<noteq> []"
      then have "w_trace w2 = []" using assms(5) by (auto simp: EnsureRHCOSGoldenPVC_def start_def)
      then show False using del by simp
    qed
    have "golden_run c acp1 ns (extractMajorMinor (sp_distributionVersion (oacp_spec acp1))) (snd r) (w_trace w2)"
      by (rule logs_start [OF logs_golden [OF unmarked] assms(5)])
    then have "cooled acp1 (w_trace w2)" using get del unfolding golden_run_def Let_def same(2) by blast
    then obtain now where "EvClock now \<in> set (w_trace w2)" "jobFailedCooldown < now - (t0 - t0 mod 1000000000)"
      unfolding cooled_def same(3) using parse ne by blast
    then show ?thesis by (intro exI [of _ now]) (simp add: jobFailedCooldown_def)
  qed
  have "recreates c ns (''rhcos-import-'' @ extractMajorMinor (sp_distributionVersion (oacp_spec acp)))
      (GoldenPVCName (sp_distributionVersion (oacp_spec acp))) (w_trace w2)"
    using logs_start [OF logs_recreates assms(5)] by (simp add: same)
  then show ?thesis unfolding Let_def recreates_def using delayed by blast
qed

text \<open>A store with the address, the claim and an import job, seen 400 seconds after 1970.\<close>

definition golden_cp :: oacp where
  "golden_cp = empty_oacp\<lparr>oacp_spec := (oacp_spec empty_oacp)\<lparr>sp_distributionVersion := ''4.19.0''\<rparr>\<rparr>"

definition golden_job :: "32 word \<Rightarrow> 32 word \<Rightarrow> job" where
  "golden_job ok bad = (buildRHCOSImportJob ''rhcos-import-4.19'' ''n'' ''rhcos-golden-4.19'' ''http://x'' ''img'')\<lparr>jb_succeeded := ok, jb_failed := bad\<rparr>"

definition golden_env :: "job \<Rightarrow> unit env" where
  "golden_env j = nowhere\<lparr>
     k_get := (\<lambda>c k ns n s. (case k of KConfigMap \<Rightarrow> Inr (OConfigMap \<lparr>cm_meta = empty_meta, cm_data = [RHCOSURLConfigMapKey \<mapsto> ''http://x'']\<rparr>)
        | KVolumeClaim \<Rightarrow> Inr (OVolumeClaim (buildGoldenPVC ''rhcos-golden-4.19'' ''n'' golden_cp)) | KJob \<Rightarrow> Inr (OJob j) | _ \<Rightarrow> Inl (ApiStatus NotFound), s)),
     k_update := (\<lambda>c ob s. (Inr ob, s)), x_now := (\<lambda>s. (400 * 1000000000, s))\<rparr>"

lemma golden_answers:
  "k_get (golden_env j) c KConfigMap ns n u = (Inr (OConfigMap \<lparr>cm_meta = empty_meta, cm_data = [RHCOSURLConfigMapKey \<mapsto> ''http://x'']\<rparr>), u)"
  "k_get (golden_env j) c KVolumeClaim ns n u = (Inr (OVolumeClaim (buildGoldenPVC ''rhcos-golden-4.19'' ''n'' golden_cp)), u)"
  "k_get (golden_env j) c KJob ns n u = (Inr (OJob j), u)" "k_update (golden_env j) c ob u = (Inr ob, u)" "x_now (golden_env j) u = (400 * 1000000000, u)"
  "k_delete (golden_env j) c ob u = (Some (ApiStatus NotFound), u)"
  by (simp_all add: golden_env_def nowhere_def)

lemma golden_version: "extractMajorMinor ''4.19.0'' = ''4.19''" "GoldenPVCName ''4.19.0'' = ''rhcos-golden-4.19''"
  by (simp_all add: GoldenPVCName_def extractMajorMinor_def)

lemma golden_fields: "sp_distributionVersion (oacp_spec golden_cp) = ''4.19.0''" "m_annotations (oacp_meta golden_cp) = Map.empty"
  by (simp_all add: golden_cp_def empty_oacp_def empty_meta_def)

lemma golden_job_fields: "jb_succeeded (golden_job ok bad) = ok" "jb_failed (golden_job ok bad) = bad" "0 <s (1 :: int32)" "\<not> 0 <s (0 :: int32)"
  by (simp_all add: golden_job_def word_sless_alt)

theorem golden_image_safe_witness:
  "\<exists>acp' w. run_state (EnsureRHCOSGoldenPVC (golden_env (golden_job 1 0)) Mgmt golden_cp ''r'' ''p'' ''n'' []) (start ()) = ((acp', Inr True), w)
    \<and> golden_run Mgmt golden_cp ''n'' ''4.19'' (Inr True) (w_trace w)"
proof -
  have a: "annotation_of golden_cp RHCOSGoldenPVCReadyAnnotation = []" by (simp add: annotation_of_def golden_fields)
  obtain acp' w where run: "run_state (EnsureRHCOSGoldenPVC (golden_env (golden_job 1 0)) Mgmt golden_cp ''r'' ''p'' ''n'' []) (start ()) = ((acp', Inr True), w)"
    by (simp add: EnsureRHCOSGoldenPVC_def ensureRHCOSURLResolved_def ensure_import_job_def check_import_job_def Let_def get_as_def kcall_defs call_def
        golden_answers golden_fields golden_version golden_job_fields a)
  from golden_image_safe [OF this] this a show ?thesis by (auto simp: golden_fields golden_version)
qed

lemma epoch: "format_rfc3339 0 = ''1970-01-01T00:00:00Z''" "parse_rfc3339 ''1970-01-01T00:00:00Z'' = Some 0"
  by code_simp+

definition importer :: deployment where
  "importer = \<lparr>dp_meta = empty_meta, dp_replicas = None, dp_selector = Map.empty,
     dp_template = empty_template_pods\<lparr>pt_containers := [empty_container\<lparr>ct_env := [(''IMPORTER_IMAGE'', ''img'')]\<rparr>]\<rparr>\<rparr>"

text \<open>The failure is recorded at the very time at which the next pass runs.\<close>

definition retry_env :: "unit env" where
  "retry_env = (golden_env (golden_job 0 1))\<lparr>k_get := (\<lambda>c k ns n s. if k = KJob then (Inl (ApiStatus NotFound), s)
     else if k = KDeployment then (Inr (ODeployment importer), s) else k_get (golden_env (golden_job 0 1)) c k ns n s),
     k_create := (\<lambda>c ob s. (Inr ob, s)), x_now := (\<lambda>s. (0, s))\<rparr>"

lemma retry_answers:
  "k_get retry_env c KConfigMap ns n u = (Inr (OConfigMap \<lparr>cm_meta = empty_meta, cm_data = [RHCOSURLConfigMapKey \<mapsto> ''http://x'']\<rparr>), u)"
  "k_get retry_env c KVolumeClaim ns n u = (Inr (OVolumeClaim (buildGoldenPVC ''rhcos-golden-4.19'' ''n'' golden_cp)), u)"
  "k_get retry_env c KJob ns n u = (Inl (ApiStatus NotFound), u)" "k_get retry_env c KDeployment ns n u = (Inr (ODeployment importer), u)"
  "k_create retry_env c ob u = (Inr ob, u)" "x_now retry_env u = (0, u)"
  by (simp_all add: retry_env_def golden_answers)

theorem failed_import_retry_witness:
  "\<exists>acp1 w1 r w2. run_state (setJobFailureCooldown retry_env golden_cp) (start ()) = (acp1, w1) \<and>
     run_state (EnsureRHCOSGoldenPVC retry_env Mgmt acp1 ''r'' ''p'' ''n'' []) (start ()) = (r, w2) \<and>
     (\<exists>url x. EvCreate Mgmt (OJob (buildRHCOSImportJob ''rhcos-import-4.19'' ''n'' ''rhcos-golden-4.19'' url ''img'')) x \<in> set (w_trace w2))"
proof -
  let ?acp1 = "with_annotation jobFailedCooldownAnnotation ''1970-01-01T00:00:00Z'' golden_cp"
  obtain w1 where 1: "run_state (setJobFailureCooldown retry_env golden_cp) (start ()) = (?acp1, w1)" "EvClock 0 \<in> set (w_trace w1)"
    by (simp add: setJobFailureCooldown_def clock_now_def call_def retry_answers start_def epoch)
  have a: "annotation_of ?acp1 RHCOSGoldenPVCReadyAnnotation = []" "sp_distributionVersion (oacp_spec ?acp1) = ''4.19.0''"
    by (simp_all add: annotation_of_def with_annotation_def golden_fields RHCOSGoldenPVCReadyAnnotation_def jobFailedCooldownAnnotation_def)
  have im: "importer_image importer = Some ''img''" by (simp add: importer_image_def importer_def empty_container_def)
  obtain r w2 where 2: "run_state (EnsureRHCOSGoldenPVC retry_env Mgmt ?acp1 ''r'' ''p'' ''n'' []) (start ()) = (r, w2)" by (metis surj_pair)
  have "absent_job Mgmt ''n'' ''rhcos-import-4.19'' (w_trace w2) \<and> importer_seen Mgmt ''img'' (w_trace w2)"
    using arg_cong [OF 2, of snd] im
    by (auto simp: EnsureRHCOSGoldenPVC_def ensureRHCOSURLResolved_def ensure_import_job_def ResolveCDIImporterImage_def Let_def get_as_def kcall_defs call_def start_def
        retry_answers golden_version a absent_job_def importer_seen_def split: list.splits prod.splits)
  then show ?thesis using failed_import_retry [OF 1 _ _ 2] 1(1) 2 by (auto simp: golden_fields golden_version Let_def)
qed

end
