(* ===== verification/KubeVirtStep.thy ===== *)
theory KubeVirtStep
  imports GoldenImage Passes
begin

text \<open>
  The KubeVirt part of the ClusterDeployment controller, \<open>reconcileKubeVirtInfra\<close>, \<open>ensureGoldenPVC\<close> and
  \<open>reconcileDNSProxy\<close> of \<open>clusterdeployment_controller.go\<close>: image volume, services, routes, DNS, manifests,
  credentials and the proxy of the machine config server, in this order. It provides the interface
  \<open>infrastructure\<close>, so that the order of a whole pass is proved for the step of the code.
\<close>

subsection \<open>DNS\<close>

text \<open>
  The addresses of the manifests: the bootstrap node's for the API as long as there is no kubeconfig. Of the errors of
  the best-effort steps nothing is returned; the annotation stays in memory when the patch fails.
\<close>

definition bootstrap_dns :: "'s env \<Rightarrow> kclient \<Rightarrow> bool \<Rightarrow> string \<Rightarrow> (string \<times> string) option \<Rightarrow> string \<Rightarrow> ('s, (string \<times> string) option) prog" where
  "bootstrap_dns E c kubeconfigAvailable clusterName serviceIPs infraNamespace = (if kubeconfigAvailable then ret serviceIPs else do {
     b \<leftarrow> GetBootstrapPodIP E c clusterName infraNamespace;
     ret (case b of
       Inl _ \<Rightarrow> serviceIPs
     | Inr bootstrapIP \<Rightarrow> if bootstrapIP = [] then serviceIPs
         else Some (bootstrapIP, case serviceIPs of None \<Rightarrow> [] | Some (_, ingress) \<Rightarrow> ingress)) })"

definition record_dns_rule :: "'s env \<Rightarrow> oacp \<Rightarrow> string \<Rightarrow> ('s, oacp) prog" where
  "record_dns_rule E acp ruleIdentity = (if m_annotations (oacp_meta acp) DNSRuleCreatedAnnotation = Some ruleIdentity then ret acp
     else let acp1 = with_annotation DNSRuleCreatedAnnotation ruleIdentity acp in do {
       p \<leftarrow> kpatch E Mgmt (OOACP acp) (OOACP acp1);
       ret (updated_oacp acp1 p) })"

definition forward_dns :: "'s env \<Rightarrow> oacp \<Rightarrow> string \<Rightarrow> string \<Rightarrow> string \<Rightarrow> ('s, oacp) prog" where
  "forward_dns E acp clusterName dnsProxyIP infraNamespace = (if dnsProxyIP = [] then ret acp else do {
     f \<leftarrow> EnsureDNSForwardingRule E Mgmt clusterName (cfg_baseDomain (sp_config (oacp_spec acp))) dnsProxyIP infraNamespace;
     case f of Some _ \<Rightarrow> ret acp | None \<Rightarrow> record_dns_rule E acp (infraNamespace @ ''/'' @ clusterName) })"

definition reconcileDNSProxy :: "'s env \<Rightarrow> oacp \<Rightarrow> InfraClientResult \<Rightarrow> cluster_deployment \<Rightarrow> (string \<times> string) option \<Rightarrow> string \<Rightarrow> ('s, oacp \<times> (string \<times> string) option) prog" where
  "reconcileDNSProxy E acp infraResult cd serviceIPs infraNamespace = (if \<not> podNet acp then ret (acp, serviceIPs) else do {
     manifestDNSIPs \<leftarrow> bootstrap_dns E (ir_Client infraResult) (oacp_is_true acp KubeconfigAvailableCondition) (cd_clusterName cd) serviceIPs infraNamespace;
     ri \<leftarrow> GetRouterNodeIPs E (ir_Client infraResult) (cd_clusterName cd) infraNamespace;
     _ \<leftarrow> EnsureDNSProxy E (ir_Client infraResult) acp (case manifestDNSIPs of None \<Rightarrow> [] | Some (api, _) \<Rightarrow> api)
       (case ri of Inl _ \<Rightarrow> [] | Inr ips \<Rightarrow> ips) infraNamespace;
     dnsProxyIP \<leftarrow> GetDNSProxyClusterIP E (ir_Client infraResult) infraNamespace;
     acp' \<leftarrow> forward_dns E acp (cd_clusterName cd) dnsProxyIP infraNamespace;
     ret (acp', manifestDNSIPs) })"

subsection \<open>The image volume\<close>

definition ensureGoldenPVC :: "'s env \<Rightarrow> oacp \<Rightarrow> InfraClientResult \<Rightarrow> string \<Rightarrow> string \<Rightarrow> ('s, oacp \<times> ctrl_result \<times> goerr option) prog" where
  "ensureGoldenPVC E acp infraResult infraNamespace releaseImageWithDigest =
    (let goldenPullSecretName = (case cfg_pullSecretRef (sp_config (oacp_spec acp)) of None \<Rightarrow> [] | Some ref \<Rightarrow> ref) in do {
     p \<leftarrow> (if ir_IsRemote infraResult
       then EnsurePullSecretOnInfra E (ir_Client infraResult) (m_namespace (oacp_meta acp)) infraNamespace goldenPullSecretName else ret None);
     case p of
       Some _ \<Rightarrow> ret (acp, requeue_after 30, None)
     | None \<Rightarrow> do {
         (acp', ready) \<leftarrow> EnsureRHCOSGoldenPVC E (ir_Client infraResult) acp releaseImageWithDigest goldenPullSecretName infraNamespace [];
         ret (acp', case ready of
           Inl e \<Rightarrow> (result_zero, Some e)
         | Inr r \<Rightarrow> if r then (result_zero, None) else (requeue_after 30, None)) } })"

subsection \<open>The whole step\<close>

definition read_pull_secret :: "'s env \<Rightarrow> oacp \<Rightarrow> ('s, bytes res) prog" where
  "read_pull_secret E acp = (case cfg_pullSecretRef (sp_config (oacp_spec acp)) of
     None \<Rightarrow> ret (Inr [])
   | Some ref \<Rightarrow> do {
       r \<leftarrow> get_as E as_secret Mgmt KSecret (m_namespace (oacp_meta acp)) ref;
       ret (case r of
         Inl e \<Rightarrow> Inl (Wrapf ''failed to read pull secret'' e)
       | Inr pullSecret \<Rightarrow> Inr (case se_data pullSecret ''.dockerconfigjson'' of None \<Rightarrow> [] | Some d \<Rightarrow> d)) })"

text \<open>The steps of the installation: the manifests, their credentials and the proxy, when the image of the CLI is known.\<close>

definition tenant_manifests :: "'s env \<Rightarrow> 's remoteImage \<Rightarrow> (string list \<Rightarrow> string list) \<Rightarrow> oacp \<Rightarrow> string \<Rightarrow> InfraClientResult \<Rightarrow> cluster_deployment \<Rightarrow>
   (string \<times> string) option \<Rightarrow> string \<Rightarrow> string \<Rightarrow> string \<Rightarrow> bytes \<Rightarrow> ('s, oacp \<times> ctrl_result \<times> goerr option) prog" where
  "tenant_manifests E R ord acp infraNS infraResult cd manifestDNSIPs infraNamespace oseCliImage releaseImageWithDigest pullSecretData = do {
     infraCoreDNSIP \<leftarrow> GetInfraCoreDNSIP E (ir_Client infraResult);
     m \<leftarrow> EnsureKubeVirtManifests E R ord acp infraNS manifestDNSIPs oseCliImage releaseImageWithDigest pullSecretData infraCoreDNSIP;
     case m of
       Inl e \<Rightarrow> ret (acp, result_zero, Some e)
     | Inr _ \<Rightarrow> do {
         cr \<leftarrow> EnsureInfraCredentialsManifests E acp;
         case cr of
           Some e \<Rightarrow> ret (acp, result_zero, Some e)
         | None \<Rightarrow> if \<not> podNet acp then ret (acp, result_zero, None) else do {
             p \<leftarrow> EnsureMCSProxy E (ir_Client infraResult) acp (cd_clusterName cd) infraNamespace [];
             ret (acp, result_zero, case p of Inl e \<Rightarrow> Some e | Inr _ \<Rightarrow> None) } } }"

definition tenant_install :: "'s env \<Rightarrow> 's remoteImage \<Rightarrow> (string list \<Rightarrow> string list) \<Rightarrow> oacp \<Rightarrow> string \<Rightarrow> InfraClientResult \<Rightarrow> cluster_deployment \<Rightarrow>
   (string \<times> string) option \<Rightarrow> string \<Rightarrow> string \<Rightarrow> ('s, oacp \<times> ctrl_result \<times> goerr option) prog" where
  "tenant_install E R ord acp infraNS infraResult cd manifestDNSIPs infraNamespace releaseImageWithDigest = do {
     ps \<leftarrow> read_pull_secret E acp;
     case ps of
       Inl e \<Rightarrow> ret (acp, result_zero, Some e)
     | Inr pullSecretData \<Rightarrow> do {
         cli \<leftarrow> ResolveImageFromPayload E R releaseImageWithDigest pullSecretData ''cli'';
         case cli of
           Inl _ \<Rightarrow> ret (acp, requeue_after 30, None)
         | Inr oseCliImage \<Rightarrow> if oseCliImage = [] then ret (acp, requeue_after 15, None)
             else tenant_manifests E R ord acp infraNS infraResult cd manifestDNSIPs infraNamespace oseCliImage releaseImageWithDigest pullSecretData } }"

text \<open>Access from outside, then DNS, then what the installation needs.\<close>

definition tenant_access :: "'s env \<Rightarrow> 's remoteImage \<Rightarrow> (string list \<Rightarrow> string list) \<Rightarrow> oacp \<Rightarrow> string \<Rightarrow> InfraClientResult \<Rightarrow> cluster_deployment \<Rightarrow>
   string \<Rightarrow> string \<Rightarrow> ('s, oacp \<times> ctrl_result \<times> goerr option) prog" where
  "tenant_access E R ord acp infraNS infraResult cd infraNamespace releaseImageWithDigest = do {
     s \<leftarrow> EnsureExternalAccessServices E (ir_Client infraResult) acp (cd_clusterName cd) infraNamespace;
     case s of
       Inl e \<Rightarrow> ret (acp, result_zero, Some e)
     | Inr serviceIPs \<Rightarrow> do {
         _ \<leftarrow> EnsureIngressControllerWildcardPolicy E (ir_Client infraResult);
         rt \<leftarrow> EnsureExternalRoutes E (ir_Client infraResult) acp (cd_clusterName cd) infraNamespace;
         case rt of
           Some e \<Rightarrow> ret (acp, result_zero, Some e)
         | None \<Rightarrow> do {
             (acp', manifestDNSIPs) \<leftarrow> reconcileDNSProxy E acp infraResult cd (Some serviceIPs) infraNamespace;
             tenant_install E R ord acp' infraNS infraResult cd manifestDNSIPs infraNamespace releaseImageWithDigest } } }"

definition reconcileKubeVirtInfra :: "'s env \<Rightarrow> 's remoteImage \<Rightarrow> (string list \<Rightarrow> string list) \<Rightarrow> oacp \<Rightarrow> cluster_deployment \<Rightarrow> string \<Rightarrow> ('s, oacp \<times> ctrl_result \<times> goerr option) prog" where
  "reconcileKubeVirtInfra E R ord acp cd releaseImageWithDigest = do {
     ic \<leftarrow> GetInfraClusterClient E acp;
     case ic of
       Inl e \<Rightarrow> ret (acp, result_zero, Some e)
     | Inr infraResult \<Rightarrow> do {
         let infraNamespace = (if ir_IsRemote infraResult then ir_Namespace infraResult else m_namespace (oacp_meta acp));
         (acp', result, err) \<leftarrow> ensureGoldenPVC E acp infraResult infraNamespace releaseImageWithDigest;
         if err \<noteq> None \<or> result \<noteq> result_zero then ret (acp', result, err)
         else tenant_access E R ord acp' (m_namespace (oacp_meta acp)) infraResult cd infraNamespace releaseImageWithDigest } }"

text \<open>The step as the controller calls it.\<close>

definition kubevirt_infra :: "'s env \<Rightarrow> (string list \<Rightarrow> string list) \<Rightarrow> 's kubevirt_step" where
  "kubevirt_infra E ord acp cd img = do { r \<leftarrow> reconcileKubeVirtInfra E (NewRemoteImageRepository E) ord acp cd img; ret (Done r) }"

subsection \<open>What the step leaves behind\<close>

text \<open>
  Every ConfigMap the AgentClusterInstall will refer to is in the store, up to those the user named and the mirror
  registry's. The one with the CSI manifests is missing when the release image names a CSI component with the empty
  text: the controller then makes no manifests (\<open>csi_reference_dangles\<close> in TenantInstall).
\<close>

definition refs_ready :: "'s env \<Rightarrow> oacp \<Rightarrow> event list \<Rightarrow> bool" where
  "refs_ready E acp evs \<longleftrightarrow> (\<forall>cl. isKubeVirtInfra cl \<longrightarrow> (\<forall>name \<in> set (getClusterAdditionalManifestRefs acp cl).
     name \<in> set (cfg_manifestsConfigMapRefs (sp_config (oacp_spec acp))) \<or>
     (cfg_imageRegistryRef (sp_config (oacp_spec acp)) \<noteq> None \<and> name = ImageConfigMapName) \<or> cm_delivered acp name evs \<or>
     name = CSIManifestsConfigMapName \<and> csi_unnamed E evs))"

lemma refs_ready_stable: "refs_ready E acp evs \<Longrightarrow> refs_ready E acp (pre @ evs @ post)"
  unfolding refs_ready_def using stable_intros(1) [unfolded stable_def] stable_unnamed [unfolded stable_def] by blast

text \<open>The order of the loop over the components is that of a Go map: any order of the same components.\<close>

definition tenant_ready :: "'s env \<Rightarrow> (string list \<Rightarrow> string list) \<Rightarrow> oacp \<Rightarrow> event list \<Rightarrow> bool" where
  "tenant_ready E ord acp evs \<longleftrightarrow> ((\<forall>xs. set (ord xs) = set xs) \<longrightarrow> refs_ready E acp evs)"

lemma tenant_ready_stable: "tenant_ready E ord acp evs \<Longrightarrow> tenant_ready E ord acp (pre @ evs @ post)"
  unfolding tenant_ready_def using refs_ready_stable by blast

lemma emits_retryOnConflict [emits_intros]: "emits P m \<Longrightarrow> emits P (retryOnConflict n m)"
proof (induction n)
  case 0
  then show ?case by (subst retryOnConflict.simps) (auto intro!: emits_intros split: option.splits)
next
  case (Suc n)
  then show ?case by (subst retryOnConflict.simps) (auto intro!: emits_intros split: option.splits)
qed

text \<open>The steps before the manifests touch no AgentClusterInstall, whatever they return.\<close>

lemma quiet_access:
  "emits (\<lambda>e. \<not> touches_install e) (GetInfraClusterClient E acp)"
  "emits (\<lambda>e. \<not> touches_install e) (EnsurePullSecretOnInfra E c ns ns' n)"
  "emits (\<lambda>e. \<not> touches_install e) (EnsureExternalAccessServices E c acp cn ns)"
  "emits (\<lambda>e. \<not> touches_install e) (EnsureIngressControllerWildcardPolicy E c)"
  "emits (\<lambda>e. \<not> touches_install e) (EnsureExternalRoutes E c acp cn ns)"
  unfolding GetInfraClusterClient_def EnsurePullSecretOnInfra_def EnsureExternalAccessServices_def EnsureIngressControllerWildcardPolicy_def
    EnsureExternalRoutes_def ensureRoute_def Let_def
  by (intro emits_intros; simp)+

lemma quiet_dns:
  "emits (\<lambda>e. \<not> touches_install e) (GetBootstrapPodIP E c cn ns)"
  "emits (\<lambda>e. \<not> touches_install e) (GetRouterNodeIPs E c cn ns)"
  "emits (\<lambda>e. \<not> touches_install e) (EnsureDNSProxy E c acp ip ips ns)"
  "emits (\<lambda>e. \<not> touches_install e) (GetDNSProxyClusterIP E c ns)"
  "emits (\<lambda>e. \<not> touches_install e) (EnsureDNSForwardingRule E c cn bd ip ns)"
  "emits (\<lambda>e. \<not> touches_install e) (GetInfraCoreDNSIP E c)"
  "emits (\<lambda>e. \<not> touches_install e) (EnsureMCSProxy E c acp cn ns img)"
  unfolding GetBootstrapPodIP_def GetRouterNodeIPs_def EnsureDNSProxy_def GetDNSProxyClusterIP_def GetServiceClusterIP_def
    EnsureDNSForwardingRule_def GetInfraCoreDNSIP_def EnsureMCSProxy_def Let_def
  by (intro emits_intros; simp)+

lemma quiet_reconcileDNSProxy: "emits (\<lambda>e. \<not> touches_install e) (reconcileDNSProxy E acp ir cd ips ns)"
  unfolding reconcileDNSProxy_def bootstrap_dns_def forward_dns_def record_dns_rule_def Let_def
  by (intro emits_intros quiet_dns) simp_all

lemma quiet_golden:
  "emits (\<lambda>e. \<not> touches_install e) (EnsureRHCOSGoldenPVC E c acp img ps ns cli)"
  unfolding EnsureRHCOSGoldenPVC_def ensureRHCOSURLResolved_def url_from_job_def ReadURLFromJobPod_def ensure_import_job_def check_import_job_def
    ResolveCDIImporterImage_def isJobFailureCooldownElapsed_def setJobFailureCooldown_def Let_def
  by (intro emits_intros) simp_all

lemma quiet_ensureGoldenPVC: "emits (\<lambda>e. \<not> touches_install e) (ensureGoldenPVC E acp ir ns img)"
  unfolding ensureGoldenPVC_def Let_def by (intro emits_intros quiet_golden quiet_access)

lemma quiet_read_pull_secret: "emits (\<lambda>e. \<not> touches_install e) (read_pull_secret E acp)"
  unfolding read_pull_secret_def by (intro emits_intros) simp_all

text \<open>A step that leaves AgentClusterInstalls alone and establishes what it promises when it asks to go on.\<close>

definition goes_on :: "(oacp \<Rightarrow> event list \<Rightarrow> bool) \<Rightarrow> ('s, oacp \<times> ctrl_result \<times> goerr option) prog \<Rightarrow> bool" where
  "goes_on P m \<longleftrightarrow> logs m (\<lambda>r evs. no_install evs \<and> (\<forall>acp'. r = (acp', result_zero, None) \<longrightarrow> P acp' evs))"

lemma goes_on_after:
  assumes "\<And>acp pre evs. P acp evs \<Longrightarrow> P acp (pre @ evs)" "emits (\<lambda>e. \<not> touches_install e) m" "\<And>x. goes_on P (k x)"
  shows "goes_on P (State_Monad.bind m k)"
  unfolding goes_on_def
  apply (rule logs_bind [OF emits_no_install [OF assms(2)]], rule logs_mono [OF assms(3) [unfolded goes_on_def]])
  using assms(1) by auto

lemma goes_on_stop: "err \<noteq> None \<or> res \<noteq> result_zero \<Longrightarrow> goes_on P (ret (acp, res, err))"
  by (auto simp: goes_on_def intro: logs_return)

lemma tenant_ready_pre: "tenant_ready E ord acp evs \<Longrightarrow> tenant_ready E ord acp (pre @ evs)"
  using tenant_ready_stable [of E ord acp evs pre "[]"] by simp

lemma tenant_after:
  "emits (\<lambda>e. \<not> touches_install e) m \<Longrightarrow> (\<And>x. goes_on (tenant_ready E ord) (k x)) \<Longrightarrow> goes_on (tenant_ready E ord) (State_Monad.bind m k)"
  by (rule goes_on_after) (simp_all add: tenant_ready_pre)

lemma quiet_add_manifests: "emits (\<lambda>e. \<not> touches_install e) (add_manifests E acp name ms msg)"
  unfolding add_manifests_def ensureManifestsConfigMap_def by (intro emits_intros) simp_all

lemma quiet_and_then:
  "emits P m \<Longrightarrow> emits P k \<Longrightarrow> emits P (and_then m k)" "emits P m \<Longrightarrow> emits P (without_refs m)" "emits P m \<Longrightarrow> emits P (if_pod acp m)"
  unfolding and_then_def without_refs_def if_pod_def by (intro emits_intros; assumption)+

lemma quiet_ResolveImage: "emits (\<lambda>e. \<not> touches_install e) (ResolveImageFromPayload E (NewRemoteImageRepository E) img ps c)"
  using emits_ResolveImage [of E img ps c] by (auto simp: emits_def no_install_def filter_empty_conv list_all_iff elim: logs_mono)

lemma quiet_resolve_components: "emits (\<lambda>e. \<not> touches_install e) (resolve_components E (NewRemoteImageRepository E) img ps cs f)"
proof (induction cs arbitrary: f)
  case Nil
  then show ?case by (simp add: emits_return)
next
  case (Cons c cs)
  then show ?case unfolding resolve_components.simps by (intro emits_intros quiet_ResolveImage)
qed

lemma quiet_manifests: "logs (EnsureKubeVirtManifests E (NewRemoteImageRepository E) ord acp ns ips cli img ps dns) (\<lambda>r evs. no_install evs)"
  unfolding EnsureKubeVirtManifests_def ensurePodNetworkingManifests_def ccm_step_def csi_step_def Let_def
  by (intro emits_no_install emits_intros quiet_and_then quiet_add_manifests quiet_ResolveImage quiet_resolve_components)

lemma refs_delivered:
  assumes "ccmEnabled acp \<longrightarrow> cm_delivered acp CCMManifestsConfigMapName evs" "csiEnabled acp \<longrightarrow> csi_delivered E acp evs"
    "bridgeNet acp \<longrightarrow> cm_delivered acp ResolvFixManifestsConfigMapName evs" "podNet acp \<longrightarrow> pod_delivered acp evs"
    "csiEnabled acp \<or> ccmEnabled acp \<longrightarrow> cm_delivered acp InfraCredentialsCMName evs"
  shows "refs_ready E acp evs"
  using assms unfolding refs_ready_def getClusterAdditionalManifestRefs_def pod_delivered_def csi_delivered_def by (auto split: if_splits)

lemma logs_manifests:
  "logs (EnsureKubeVirtManifests E (NewRemoteImageRepository E) ord acp ns ips cli img ps dns) (\<lambda>r evs. no_install evs \<and> (\<forall>refs. r = Inr refs \<longrightarrow>
     (\<forall>xs. set (ord xs) = set xs) \<longrightarrow>
     (ccmEnabled acp \<longrightarrow> cm_delivered acp CCMManifestsConfigMapName evs) \<and> (csiEnabled acp \<longrightarrow> csi_delivered E acp evs)
      \<and> (bridgeNet acp \<longrightarrow> cm_delivered acp ResolvFixManifestsConfigMapName evs) \<and> (podNet acp \<longrightarrow> pod_delivered acp evs)))"
proof (cases "\<forall>xs. set (ord xs) = set xs")
  case True
  then show ?thesis using establishes_manifests [of ord] by (simp add: establishes_def)
next
  case False
  show ?thesis by (rule logs_mono [OF quiet_manifests]) (use False in blast)
qed

lemma goes_on_manifests: "goes_on (tenant_ready E ord) (tenant_manifests E (NewRemoteImageRepository E) ord acp infraNS ir cd ips ns cli img ps)"
  unfolding tenant_manifests_def
proof (rule tenant_after [OF quiet_dns(6)])
  fix dns
  let ?proxy = "if \<not> podNet acp then ret (acp, result_zero, None) else do {
      p \<leftarrow> EnsureMCSProxy E (ir_Client ir) acp (cd_clusterName cd) ns [];
      ret (acp, result_zero, case p of Inl e \<Rightarrow> Some e | Inr _ \<Rightarrow> None) }"
  have proxy: "logs ?proxy (\<lambda>r evs. no_install evs \<and> fst r = acp)"
    by (rule logs_if, simp add: logs_return)
      (rule logs_bind [OF emits_no_install [OF quiet_dns(7)]], simp add: logs_return)
  show "goes_on (tenant_ready E ord) (do {
      m \<leftarrow> EnsureKubeVirtManifests E (NewRemoteImageRepository E) ord acp infraNS ips cli img ps dns;
      case m of Inl e \<Rightarrow> ret (acp, result_zero, Some e)
      | Inr _ \<Rightarrow> do { cr \<leftarrow> EnsureInfraCredentialsManifests E acp;
          case cr of None \<Rightarrow> ?proxy | Some e \<Rightarrow> ret (acp, result_zero, Some e) } })"
    unfolding goes_on_def
    apply (rule logs_bind [OF logs_manifests], rule logs_case_sum, rule logs_return, simp)
    apply (rule logs_bind [OF logs_credentials], rule logs_case_option)
     apply (rule logs_mono [OF proxy])
    subgoal premises prems for m evs1 refs cr evs2 r evs3
    proof -
      have "refs_ready E acp (evs1 @ evs2 @ evs3)" if n: "\<forall>xs. set (ord xs) = set xs"
      proof -
        have d: "cm_delivered acp name evs1 \<or> cm_delivered acp name evs2 \<Longrightarrow> cm_delivered acp name (evs1 @ evs2 @ evs3)" for name
          using stableD [OF stable_intros(1)] by metis
        have "pod_delivered acp evs1 \<Longrightarrow> pod_delivered acp (evs1 @ evs2 @ evs3)" "csi_delivered E acp evs1 \<Longrightarrow> csi_delivered E acp (evs1 @ evs2 @ evs3)"
          using stableD(2) [OF stable_pod] stableD(2) [OF stable_csi] by blast+
        then show ?thesis by (intro refs_delivered) (use d prems n in blast)+
      qed
      then show ?thesis using prems by (auto simp: tenant_ready_def)
    qed
    apply (rule logs_return, simp)
    done
qed

lemma goes_on_install: "goes_on (tenant_ready E ord) (tenant_install E (NewRemoteImageRepository E) ord acp infraNS ir cd ips ns img)"
proof -
  have "goes_on (tenant_ready E ord) (case cli of Inl _ \<Rightarrow> ret (acp, requeue_after 30, None)
      | Inr cli \<Rightarrow> if cli = [] then ret (acp, requeue_after 15, None) else tenant_manifests E (NewRemoteImageRepository E) ord acp infraNS ir cd ips ns cli img ps)" for cli ps
    using goes_on_manifests by (auto intro!: goes_on_stop split: sum.splits)
  then have k: "goes_on (tenant_ready E ord) (do { cli \<leftarrow> ResolveImageFromPayload E (NewRemoteImageRepository E) img ps ''cli'';
      case cli of Inl _ \<Rightarrow> ret (acp, requeue_after 30, None)
      | Inr cli \<Rightarrow> if cli = [] then ret (acp, requeue_after 15, None) else tenant_manifests E (NewRemoteImageRepository E) ord acp infraNS ir cd ips ns cli img ps })" for ps
    by (intro tenant_after [OF quiet_ResolveImage])
  show ?thesis
    unfolding tenant_install_def
    by (rule tenant_after [OF quiet_read_pull_secret]) (auto intro!: goes_on_stop k split: sum.splits)
qed

lemma goes_on_access: "goes_on (tenant_ready E ord) (tenant_access E (NewRemoteImageRepository E) ord acp infraNS ir cd ns img)"
proof -
  have "goes_on (tenant_ready E ord) (case x of (acp', ips) \<Rightarrow> tenant_install E (NewRemoteImageRepository E) ord acp' infraNS ir cd ips ns img)" for x
    by (cases x) (simp add: goes_on_install)
  then have dns: "goes_on (tenant_ready E ord) (do { (acp', ips) \<leftarrow> reconcileDNSProxy E acp ir cd ips ns;
      tenant_install E (NewRemoteImageRepository E) ord acp' infraNS ir cd ips ns img })" for ips
    by (intro tenant_after [OF quiet_reconcileDNSProxy])
  have "goes_on (tenant_ready E ord) (do { rt \<leftarrow> EnsureExternalRoutes E (ir_Client ir) acp (cd_clusterName cd) ns;
      case rt of Some e \<Rightarrow> ret (acp, result_zero, Some e) | None \<Rightarrow> do { (acp', ips) \<leftarrow> reconcileDNSProxy E acp ir cd ips ns;
      tenant_install E (NewRemoteImageRepository E) ord acp' infraNS ir cd ips ns img } })" for ips
    by (rule tenant_after [OF quiet_access(5)]) (auto intro!: goes_on_stop dns split: option.splits)
  then have "goes_on (tenant_ready E ord) (do { _ \<leftarrow> EnsureIngressControllerWildcardPolicy E (ir_Client ir);
      rt \<leftarrow> EnsureExternalRoutes E (ir_Client ir) acp (cd_clusterName cd) ns;
      case rt of Some e \<Rightarrow> ret (acp, result_zero, Some e) | None \<Rightarrow> do { (acp', ips) \<leftarrow> reconcileDNSProxy E acp ir cd ips ns;
      tenant_install E (NewRemoteImageRepository E) ord acp' infraNS ir cd ips ns img } })" for ips
    by (intro tenant_after [OF quiet_access(4)])
  then show ?thesis
    unfolding tenant_access_def
    by (intro tenant_after [OF quiet_access(3)]) (auto intro!: goes_on_stop split: sum.splits)
qed

lemma goes_on_infra: "goes_on (tenant_ready E ord) (reconcileKubeVirtInfra E (NewRemoteImageRepository E) ord acp cd img)"
proof -
  have "goes_on (tenant_ready E ord) (case x of (acp', result, err) \<Rightarrow> if err \<noteq> None \<or> result \<noteq> result_zero then ret (acp', result, err)
      else tenant_access E (NewRemoteImageRepository E) ord acp' infraNS ir cd ns img)" for x ir ns infraNS
    by (cases x) (auto intro!: goes_on_stop goes_on_access)
  then have "goes_on (tenant_ready E ord) (do { (acp', result, err) \<leftarrow> ensureGoldenPVC E acp ir ns img;
      if err \<noteq> None \<or> result \<noteq> result_zero then ret (acp', result, err)
      else tenant_access E (NewRemoteImageRepository E) ord acp' infraNS ir cd ns img })" for ir ns infraNS
    by (intro tenant_after [OF quiet_ensureGoldenPVC])
  then show ?thesis
    unfolding reconcileKubeVirtInfra_def Let_def
    by (intro tenant_after [OF quiet_access(1)]) (auto intro!: goes_on_stop split: sum.splits)
qed

interpretation tenant: infrastructure "kubevirt_infra E ord" "tenant_ready E ord" for E :: "'s env" and ord
proof
  show "logs (kubevirt_infra E ord acp cd img) (\<lambda>r evs. no_install evs \<and> (\<forall>acp'. r = Done (acp', result_zero, None) \<longrightarrow> tenant_ready E ord acp' evs))" for acp cd img
    unfolding kubevirt_infra_def
    by (rule logs_bind [OF goes_on_infra [unfolded goes_on_def]], rule logs_return) auto
  show "tenant_ready E ord acp evs \<Longrightarrow> tenant_ready E ord acp (pre @ evs @ post)" for acp evs pre post
    by (rule tenant_ready_stable)
qed

subsection \<open>The whole pass\<close>

text \<open>
  Claim C6. The AgentClusterInstall is written at most once in a pass, and only when everything it refers to is in
  place: the ClusterDeployment, its control plane and the owning cluster were read; the ClusterImageSet is in the
  store with an image that carries a digest; the manifests of a configured mirror registry are in the store; on
  KubeVirt every ConfigMap that the controller itself adds to the references is in the store with manifests in it, for
  the control plane as the KubeVirt step left it; on every other platform the control plane is the one that was read.
  What is written is the mutation of what was read, or a new object after the read found none. The one exception is
  the ConfigMap with the CSI manifests: it may be missing when the release image read in this pass names a CSI
  component with an empty image, since the code then writes no manifests and still refers to the ConfigMap.
\<close>

theorem install_written_after_image:
  assumes "\<And>xs. set (ord xs) = set xs"
    and "run_state (ClusterDeploymentReconcile E (NewRemoteImageRepository E) (kubevirt_infra E ord) ns name) (start s) = (r, w)"
  shows "written_once (pass_write E (refs_ready E) ns name) (w_trace w)"
proof -
  have "tenant_ready E ord = refs_ready E" using assms(1) by (auto simp: tenant_ready_def fun_eq_iff)
  then show ?thesis using logs_start [OF tenant.logs_ClusterDeploymentReconcile assms(2)] by simp
qed

text \<open>A first pass over a KubeVirt control plane with virtual IPs, its image volume in place.\<close>

definition tenant_cp :: oacp where
  "tenant_cp = vip_cp\<lparr>oacp_meta := empty_meta\<lparr>m_name := ''c'', m_namespace := ''n'',
       m_ownerReferences := [\<lparr>or_apiVersion = ''cluster.x-k8s.io/v1beta2'', or_kind = ''Cluster'', or_name = ''c'', or_uid = [], or_controller = None\<rparr>],
       m_annotations := [RHCOSGoldenPVCReadyAnnotation \<mapsto> ''rhcos-golden-4.19'']\<rparr>,
     oacp_spec := (oacp_spec vip_cp)\<lparr>sp_config := (sp_config (oacp_spec vip_cp))\<lparr>cfg_pullSecretRef := Some ''pull''\<rparr>\<rparr>\<rparr>"

definition tenant_cd :: cluster_deployment where
  "tenant_cd = empty_cd\<lparr>cd_meta := empty_meta\<lparr>m_name := ''c'', m_namespace := ''n''\<rparr>, cd_clusterName := ''c''\<rparr>"

definition tenant_cluster :: cluster where
  "tenant_cluster = empty_cluster\<lparr>cl_infrastructureRef := empty_ref\<lparr>cr_kind := ''KubevirtCluster''\<rparr>\<rparr>"

definition tenant_env :: "unit env" where
  "tenant_env = nowhere\<lparr>
     k_get := (\<lambda>c k ns n s. (case k of KClusterDeployment \<Rightarrow> Inr (OClusterDeployment tenant_cd) | KOACP \<Rightarrow> Inr (OOACP tenant_cp) | KCluster \<Rightarrow> Inr (OCluster tenant_cluster)
        | KSecret \<Rightarrow> Inr (OSecret \<lparr>se_meta = empty_meta, se_type = [], se_data = [PullsecretDataKey \<mapsto> ''{}'']\<rparr>) | _ \<Rightarrow> Inl (ApiStatus NotFound), s)),
     k_list := (\<lambda>c k opts s. (Inr [], s)), k_update := (\<lambda>c ob s. (Inr ob, s)), k_create := (\<lambda>c ob s. (Inr ob, s)),
     x_remote_get := (\<lambda>r kc s. (Inr ''sha256:1'', s)), x_remote_image := (\<lambda>r kc s. (Inr demo_image, s)),
     x_image_tags := (\<lambda>b. Inr [(''cli'', Some ''quay.io/cli'')])\<rparr>"

lemma tenant_answers:
  "k_get tenant_env c KClusterDeployment ns n u = (Inr (OClusterDeployment tenant_cd), u)" "k_get tenant_env c KOACP ns n u = (Inr (OOACP tenant_cp), u)"
  "k_get tenant_env c KCluster ns n u = (Inr (OCluster tenant_cluster), u)" "k_get tenant_env c KImageSet ns n u = (Inl (ApiStatus NotFound), u)"
  "k_get tenant_env c KSecret ns n u = (Inr (OSecret \<lparr>se_meta = empty_meta, se_type = [], se_data = [PullsecretDataKey \<mapsto> ''{}'']\<rparr>), u)"
  "k_get tenant_env c KACI ns n u = (Inl (ApiStatus NotFound), u)" "k_get tenant_env c KService ns n u = (Inl (ApiStatus NotFound), u)"
  "k_get tenant_env c KConfigMap ns n u = (Inl (ApiStatus NotFound), u)" "k_get tenant_env c (KUnstructured a b d) ns n u = (Inl (ApiStatus NotFound), u)"
  "k_list tenant_env c k opts u = (Inr [], u)"
  "k_update tenant_env c ob u = (Inr ob, u)" "k_create tenant_env c ob u = (Inr ob, u)" "x_remote_get tenant_env r kc u = (Inr ''sha256:1'', u)"
  "x_remote_image tenant_env r kc u = (Inr demo_image, u)" "x_image_tags tenant_env t = Inr [(''cli'', Some ''quay.io/cli'')]"
  "x_docker_config tenant_env ps = Inr []" "x_parse_reference tenant_env r' = None"
  by (simp_all add: tenant_env_def nowhere_def)

lemma tenant_fields:
  "annotation_of tenant_cp RHCOSGoldenPVCReadyAnnotation = ''rhcos-golden-4.19''" "isKubeVirtInfra tenant_cluster"
  "m_labels (oacp_meta tenant_cp) = Map.empty" "m_namespace (oacp_meta tenant_cp) = ''n''" "m_name (oacp_meta tenant_cp) = ''c''"
  "m_ownerReferences (oacp_meta tenant_cp) = [\<lparr>or_apiVersion = ''cluster.x-k8s.io/v1beta2'', or_kind = ''Cluster'', or_name = ''c'', or_uid = [], or_controller = None\<rparr>]"
  "m_annotations (oacp_meta tenant_cp) = [RHCOSGoldenPVCReadyAnnotation \<mapsto> ''rhcos-golden-4.19'']"
  "bridgeNet tenant_cp" "\<not> podNet tenant_cp" "\<not> ccmEnabled tenant_cp" "\<not> csiEnabled tenant_cp"
  "cfg_infraClusterRef (sp_config (oacp_spec tenant_cp)) = None"
  "cfg_imageRegistryRef (sp_config (oacp_spec tenant_cp)) = None" "cfg_pullSecretRef (sp_config (oacp_spec tenant_cp)) = Some ''pull''"
  "cap_baselineCapability (cfg_capabilities (sp_config (oacp_spec tenant_cp))) = []"
  "cd_installRef tenant_cd = None" "sp_distributionVersion (oacp_spec tenant_cp) = []"
  using vip_fields by (simp_all add: tenant_cp_def annotation_of_def tenant_cluster_def isKubeVirtInfra_def tenant_cd_def empty_cd_def
      bridgeNet_def podNet_def IsPodNetworking_def IsBridgeNetworking_def ccmEnabled_def csiEnabled_def vip_cp_def empty_oacp_def empty_config_def empty_meta_def)

lemma tenant_image: "GetReleaseImageWithDigest tenant_env (getReleaseImage tenant_cp ''multi'') ''{}'' (NewRemoteImageRepository tenant_env) =
   do { r \<leftarrow> remote_get tenant_env ''quay.io/openshift-release-dev/ocp-release:-multi'' Map.empty;
        ret (case r of Inl e \<Rightarrow> Inl (Wrapf ''failed to get remote image descriptor'' e) | Inr d \<Rightarrow> Inr (''quay.io/openshift-release-dev/ocp-release@'' @ d)) }"
proof -
  have *: "GetReleaseImage [] [] ''multi'' = ''quay.io/openshift-release-dev/ocp-release:-multi''"
    "\<not> str_contains ''quay.io/openshift-release-dev/ocp-release:-multi'' ''@sha''"
    "GetRepoImage ''quay.io/openshift-release-dev/ocp-release:-multi'' = Inr ''quay.io/openshift-release-dev/ocp-release''"
    "ReleaseImageRepositoryOverrideAnnotation \<noteq> RHCOSGoldenPVCReadyAnnotation" by code_simp+
  show ?thesis
    by (simp add: GetReleaseImageWithDigest_def getReleaseImage_def specVersion_def tenant_fields tenant_answers * PullSecretKeyChainFromString_def
        NewRemoteImageRepository_def GetDigest_def prog_simps cong: sum.case_cong)
      (auto intro!: arg_cong [where f = "State_Monad.bind _"] split: sum.splits)
qed

lemma tenant_created:
  "\<exists>x w'. run_state (CreateOrUpdate tenant_env c KConfigMap as_config_map OConfigMap ns n f m) w = (Inr x, w')"
  "\<exists>x w'. run_state (CreateOrUpdate tenant_env c KService as_service OService ns n f' m') w = (Inr x, w')"
  by (simp_all add: CreateOrUpdate_def get_as_def kcall_defs call_def tenant_answers)

lemma tenant_routed: "\<exists>w'. run_state (EnsureExternalRoutes tenant_env c acp cn ns) w = (None, w')"
  by (simp add: EnsureExternalRoutes_def ensureRoute_def Let_def get_as_def kcall_defs call_def tenant_answers route_kind_def)

lemma tenant_added: "\<exists>x w'. run_state (add_manifests tenant_env acp name ms msg) w = (Inr x, w')"
proof (cases "ms = []")
  case False
  obtain x w' where "run_state (CreateOrUpdate tenant_env Mgmt KConfigMap as_config_map OConfigMap (m_namespace (oacp_meta acp)) name
    (fresh_config_map (m_namespace (oacp_meta acp)) name) (with_manifests acp ms)) w = (Inr x, w')" using tenant_created(1) by blast
  then show ?thesis using False by (simp add: add_manifests_def ensureManifestsConfigMap_def)
qed (simp add: add_manifests_def)

lemma tenant_and_then:
  assumes "\<And>w. \<exists>x w'. run_state m w = (Inr x, w')" "\<And>w. \<exists>x w'. run_state k w = (Inr x, w')"
  shows "\<exists>x w'. run_state (and_then m k) w = (Inr x, w')"
proof -
  obtain x w1 where "run_state m w = (Inr x, w1)" using assms(1) by blast
  moreover obtain y w2 where "run_state k w1 = (Inr y, w2)" using assms(2) by blast
  ultimately show ?thesis by (simp add: and_then_def)
qed

lemma tenant_without_refs: "(\<And>w. \<exists>x w'. run_state m w = (Inr x, w')) \<Longrightarrow> \<exists>x w'. run_state (without_refs m) w = (Inr x, w')"
proof -
  assume "\<And>w. \<exists>x w'. run_state m w = (Inr x, w')"
  then obtain x w1 where "run_state m w = (Inr x, w1)" by blast
  then show ?thesis by (simp add: without_refs_def)
qed

lemma tenant_manifests_made: "\<exists>x w'. run_state (EnsureKubeVirtManifests tenant_env R ord tenant_cp ns ips cli img ps dns) w = (Inr x, w')"
  unfolding EnsureKubeVirtManifests_def ensurePodNetworkingManifests_def ccm_step_def csi_step_def if_pod_def Let_def
  using tenant_fields(8-11) by (simp, intro tenant_and_then tenant_without_refs tenant_added) simp_all

lemma tenant_step: "\<exists>w'. run_state (kubevirt_infra tenant_env ord tenant_cp tenant_cd img) w = (Done (tenant_cp, result_zero, None), w')"
proof -
  have golden: "run_state (ensureGoldenPVC tenant_env tenant_cp \<lparr>ir_Client = Mgmt, ir_Namespace = ''n'', ir_IsRemote = False\<rparr> ''n'' img) w = ((tenant_cp, result_zero, None), w)" for w
    by (simp add: ensureGoldenPVC_def EnsureRHCOSGoldenPVC_def Let_def tenant_fields)
  have client: "run_state (GetInfraClusterClient tenant_env tenant_cp) w = (Inr \<lparr>ir_Client = Mgmt, ir_Namespace = ''n'', ir_IsRemote = False\<rparr>, w)" for w
    by (simp add: GetInfraClusterClient_def Let_def tenant_fields)
  have services: "\<exists>x w'. run_state (EnsureExternalAccessServices tenant_env Mgmt tenant_cp ''c'' ''n'') w = (Inr x, w')" for w
    by (simp add: EnsureExternalAccessServices_def CreateOrUpdate_def get_as_def kcall_defs call_def tenant_answers)
  have dns: "run_state (reconcileDNSProxy tenant_env tenant_cp ir tenant_cd ips ns) w = ((tenant_cp, ips), w)" for ir ips ns w
    by (simp add: reconcileDNSProxy_def tenant_fields)
  have secret: "\<exists>w'. run_state (read_pull_secret tenant_env tenant_cp) w = (Inr ''{}'', w')" for w
    by (simp add: read_pull_secret_def get_as_def kcall_defs call_def tenant_answers tenant_fields PullsecretDataKey_def)
  have cli: "\<exists>w'. run_state (ResolveImageFromPayload tenant_env (NewRemoteImageRepository tenant_env) img ''{}'' ''cli'') w = (Inr ''quay.io/cli'', w')" for w
    by (simp add: ResolveImageFromPayload_def PullSecretKeyChainFromString_def NewRemoteImageRepository_def GetImage_def remote_image_def call_def tenant_answers demo_version)
  have creds: "run_state (EnsureInfraCredentialsManifests tenant_env tenant_cp) w = (None, w)" for w
    by (simp add: EnsureInfraCredentialsManifests_def tenant_fields)
  have made: "\<exists>w'. run_state (tenant_manifests tenant_env (NewRemoteImageRepository tenant_env) ord tenant_cp ''n'' ir tenant_cd ips ''n'' cli img ps) w
     = ((tenant_cp, result_zero, None), w')" for ir ips cli ps w
  proof -
    obtain x w1 where "run_state (GetInfraCoreDNSIP tenant_env (ir_Client ir)) w = (x, w1)" by fastforce
    moreover obtain y w2 where "run_state (EnsureKubeVirtManifests tenant_env (NewRemoteImageRepository tenant_env) ord tenant_cp ''n'' ips cli img ps x) w1 = (Inr y, w2)"
      using tenant_manifests_made by blast
    ultimately show ?thesis by (simp add: tenant_manifests_def creds tenant_fields)
  qed
  obtain x w1 where 1: "run_state (EnsureExternalAccessServices tenant_env Mgmt tenant_cp ''c'' ''n'') w = (Inr x, w1)" using services by blast
  obtain y w2 where 2: "run_state (EnsureIngressControllerWildcardPolicy tenant_env Mgmt) w1 = (y, w2)" by fastforce
  obtain w3 where 3: "run_state (EnsureExternalRoutes tenant_env Mgmt tenant_cp ''c'' ''n'') w2 = (None, w3)" using tenant_routed by blast
  obtain w4 where 4: "run_state (read_pull_secret tenant_env tenant_cp) w3 = (Inr ''{}'', w4)" using secret by blast
  obtain w5 where 5: "run_state (ResolveImageFromPayload tenant_env (NewRemoteImageRepository tenant_env) img ''{}'' ''cli'') w4 = (Inr ''quay.io/cli'', w5)" using cli by blast
  obtain w6 where 6: "run_state (tenant_manifests tenant_env (NewRemoteImageRepository tenant_env) ord tenant_cp ''n'' \<lparr>ir_Client = Mgmt, ir_Namespace = ''n'', ir_IsRemote = False\<rparr>
     tenant_cd (Some x) ''n'' ''quay.io/cli'' img ''{}'') w5 = ((tenant_cp, result_zero, None), w6)" using made by blast
  have "cd_clusterName tenant_cd = ''c''" by (simp add: tenant_cd_def)
  then show ?thesis
    by (simp add: kubevirt_infra_def reconcileKubeVirtInfra_def client golden tenant_fields tenant_access_def 1 2 3 dns tenant_install_def 4 5 6 Let_def)
qed

theorem install_written_after_image_witness:
  "written_once (pass_write tenant_env (refs_ready tenant_env) ''n'' ''c'') (w_trace (snd (run_state (ClusterDeploymentReconcile tenant_env (NewRemoteImageRepository tenant_env)
      (kubevirt_infra tenant_env id) ''n'' ''c'') (start ())))) \<and>
   \<not> no_install (w_trace (snd (run_state (ClusterDeploymentReconcile tenant_env (NewRemoteImageRepository tenant_env)
      (kubevirt_infra tenant_env id) ''n'' ''c'') (start ()))))"
proof -
  let ?m = "ClusterDeploymentReconcile tenant_env (NewRemoteImageRepository tenant_env) (kubevirt_infra tenant_env id) ''n'' ''c''"
  let ?fresh = "empty_aci\<lparr>ac_meta := empty_meta\<lparr>m_name := m_name (cd_meta tenant_cd), m_namespace := m_namespace (cd_meta tenant_cd)\<rparr>\<rparr>"
  have "RHCOSGoldenPVCReadyAnnotation \<noteq> InstallConfigOverrideAnnotation" by code_simp
  then have "\<exists>t. getInstallConfigOverride tenant_env tenant_cp (desired_spec tenant_env tenant_cp tenant_cluster tenant_cd 0 ?fresh) = Done (Inr t)"
    using tenant_fields by (simp add: getInstallConfigOverride_def getInstallConfigOverrideForCapabilities_def Let_def isBaremetalPlatform_def
        getAgentClusterInstallPlatformType_cases getBaselineCapability_def)
  then obtain ac' where ac: "desired_aci tenant_env tenant_cp tenant_cluster tenant_cd 0 ?fresh = Done (Inr ac')"
    by (auto simp: desired_aci_def Let_def)
  obtain r w where run: "run_state ?m (start ()) = (r, w)" by (metis surj_pair)
  have step: "run_state (kubevirt_infra tenant_env id tenant_cp tenant_cd img) w =
      (Done (tenant_cp, result_zero, None), snd (run_state (kubevirt_infra tenant_env id tenant_cp tenant_cd img) w))" for img w
    using tenant_step [of id img w] by force
  have finish: "\<not> no_install (w_trace (snd (run_state (finish_install tenant_env tenant_cd tenant_cp tenant_cluster) w)))" for w
    by (simp add: finish_install_def on_success_def ensureAgentClusterInstall_def getWorkerNodesCount_def CreateOrPatch_def updateClusterDeploymentRef_def
        get_as_def list_as_def kcall_defs call_def tenant_answers tenant_fields ac Let_def)
  have "\<not> no_install (w_trace (snd (run_state ?m (start ()))))"
    by (simp add: ClusterDeploymentReconcile_def deploy_cluster_def on_success_def ensureClusterImageSet_def CreateOrPatch_def
        get_as_def list_as_def kcall_defs call_def start_def tenant_answers tenant_fields
        getArchitectureFromBootstrapConfigs_def GetPullSecret_def tenant_image GetOwnerCluster_def install_parse remote_get_def Let_def)
      (subst step, simp add: finish)
  with install_written_after_image [OF _ run] run show ?thesis by simp
qed

end
