(* ===== verification/GoldenProgress.thy ===== *)
theory GoldenProgress
  imports GoldenImage
begin

text \<open>
  The volume with the disk image gets ready: the operation of GoldenImage is run again and again against a store of objects whose jobs finish
  between the passes. On such a store it implements a small machine over what exists (the recorded address, the two jobs and the
  volume claim), and that machine is ready after at most four passes and one more for each job that has failed.
\<close>

subsection \<open>An infrastructure cluster\<close>

type_synonym infra_objects = "kind \<Rightarrow> string \<Rightarrow> string \<Rightarrow> kobj option"

definition infra_key :: "kobj \<Rightarrow> (kind \<times> string \<times> string) option" where
  "infra_key ob = (case ob of
     OConfigMap m \<Rightarrow> Some (KConfigMap, m_namespace (cm_meta m), m_name (cm_meta m))
   | OVolumeClaim v \<Rightarrow> Some (KVolumeClaim, m_namespace (pvc_meta v), m_name (pvc_meta v))
   | OJob j \<Rightarrow> Some (KJob, m_namespace (jb_meta j), m_name (jb_meta j))
   | _ \<Rightarrow> None)"

definition put_object :: "kind \<Rightarrow> string \<Rightarrow> string \<Rightarrow> kobj option \<Rightarrow> infra_objects \<Rightarrow> infra_objects" where
  "put_object k ns n x objs = (\<lambda>k' ns' n'. if k' = k \<and> ns' = ns \<and> n' = n then x else objs k' ns' n')"

lemma put_object_same [simp]: "put_object k ns n x objs k ns n = x"
  by (simp add: put_object_def)

lemma put_object_other [simp]: "k' \<noteq> k \<or> n' \<noteq> n \<Longrightarrow> put_object k ns n x objs k' ns' n' = objs k' ns' n'"
  by (auto simp: put_object_def)

definition succeeded :: "kobj option \<Rightarrow> bool" where
  "succeeded x = (case x of Some (OJob j) \<Rightarrow> 0 <s jb_succeeded j | _ \<Rightarrow> False)"

text \<open>The pod of a job that succeeded, with the message it left.\<close>

definition job_pods :: "(string \<Rightarrow> string) \<Rightarrow> infra_objects \<Rightarrow> string \<Rightarrow> string \<Rightarrow> kobj list" where
  "job_pods msg objs ns n = (if succeeded (objs KJob ns n) then [OPod \<lparr>pod_meta = empty_meta\<lparr>m_name := n, m_namespace := ns\<rparr>,
     pod_phase = ''Succeeded'', pod_nodeName = [], pod_conditions = [], pod_IP = [], pod_terminated = [Some (msg n)]\<rparr>] else [])"

definition infra_store :: "(string \<Rightarrow> string) \<Rightarrow> infra_objects env" where
  "infra_store msg = nowhere\<lparr>
     k_get := (\<lambda>c k ns n objs. (case objs k ns n of None \<Rightarrow> Inl (ApiStatus NotFound) | Some ob \<Rightarrow> Inr ob, objs)),
     k_list := (\<lambda>c k opts objs. (case lo_labels opts of [(l, n)] \<Rightarrow> Inr (job_pods msg objs (lo_namespace opts) n) | _ \<Rightarrow> Inr [], objs)),
     k_create := (\<lambda>c ob objs. (case infra_key ob of None \<Rightarrow> (Inl (ApiStatus NotFound), objs)
       | Some (k, ns, n) \<Rightarrow> if objs k ns n = None then (Inr ob, put_object k ns n (Some ob) objs) else (Inl (ApiStatus AlreadyExists), objs))),
     k_update := (\<lambda>c ob objs. (Inr ob, objs)),
     k_delete := (\<lambda>c ob objs. (case infra_key ob of None \<Rightarrow> (Some (ApiStatus NotFound), objs) | Some (k, ns, n) \<Rightarrow> (None, put_object k ns n None objs)))\<rparr>"

text \<open>Between two passes every job that has no outcome succeeds.\<close>

definition finish_jobs :: "infra_objects \<Rightarrow> infra_objects" where
  "finish_jobs objs = (\<lambda>k ns n. case objs k ns n of
     Some (OJob j) \<Rightarrow> Some (OJob (if jb_succeeded j = 0 \<and> jb_failed j = 0 then j\<lparr>jb_succeeded := 1\<rparr> else j)) | x \<Rightarrow> x)"

text \<open>Up to \<open>n\<close> passes, until one reports that the volume is ready.\<close>

fun ready_within :: "nat \<Rightarrow> (string \<Rightarrow> string) \<Rightarrow> kclient \<Rightarrow> oacp \<Rightarrow> string \<Rightarrow> string \<Rightarrow> string \<Rightarrow> string \<Rightarrow> infra_objects \<Rightarrow> bool" where
  "ready_within 0 msg c acp img ps ns cli objs = False"
| "ready_within (Suc n) msg c acp img ps ns cli objs =
    (case run_state (EnsureRHCOSGoldenPVC (infra_store msg) c acp img ps ns cli) (start objs) of
       ((acp', r), w) \<Rightarrow> r = Inr True \<or> ready_within n msg c acp' img ps ns cli (finish_jobs (w_env w)))"

subsection \<open>The machine\<close>

datatype stage = Absent | Running | Finished | Failed

text \<open>Is the address recorded, its job, is the claim there, the import job. A failed job is deleted, and created again by the next pass.\<close>

type_synonym image_state = "bool \<times> stage \<times> bool \<times> stage"

fun import_pass :: "image_state \<Rightarrow> image_state \<times> bool" where
  "import_pass (u, j, False, i) = ((u, j, True, i), False)"
| "import_pass (u, j, True, Absent) = ((u, j, True, Running), False)"
| "import_pass (u, j, True, Running) = ((u, j, True, Running), False)"
| "import_pass (u, j, True, Finished) = ((u, j, True, Finished), True)"
| "import_pass (u, j, True, Failed) = ((u, j, True, Absent), False)"

fun image_pass :: "image_state \<Rightarrow> image_state \<times> bool" where
  "image_pass (True, j, p, i) = import_pass (True, j, p, i)"
| "image_pass (False, Absent, p, i) = ((False, Running, p, i), False)"
| "image_pass (False, Running, p, i) = ((False, Running, p, i), False)"
| "image_pass (False, Finished, p, i) = import_pass (True, Finished, p, i)"
| "image_pass (False, Failed, p, i) = ((False, Absent, p, i), False)"

fun finished :: "stage \<Rightarrow> stage" where
  "finished Absent = Absent" | "finished Running = Finished" | "finished Finished = Finished" | "finished Failed = Failed"

fun machine_ready :: "nat \<Rightarrow> image_state \<Rightarrow> bool" where
  "machine_ready 0 a = False"
| "machine_ready (Suc n) a = (case image_pass a of ((u, j, p, i), r) \<Rightarrow> r \<or> machine_ready n (u, finished j, p, finished i))"

fun failures :: "image_state \<Rightarrow> nat" where
  "failures (u, j, p, i) = (if j = Failed then 1 else 0) + (if i = Failed then 1 else 0)"

lemma machine_gets_ready: "machine_ready (4 + failures a) a"
proof -
  obtain u j p i where a: "a = (u, j, p, i)" by (cases a)
  show ?thesis unfolding a by (cases u; cases j; cases p; cases i) (simp_all add: numeral_eq_Suc)
qed

subsection \<open>The operation on the store\<close>

fun job_at :: "string \<Rightarrow> string \<Rightarrow> stage \<Rightarrow> infra_objects \<Rightarrow> bool" where
  "job_at ns n Absent objs \<longleftrightarrow> objs KJob ns n = None"
| "job_at ns n Running objs \<longleftrightarrow> (\<exists>j. objs KJob ns n = Some (OJob j) \<and> jb_succeeded j = 0 \<and> jb_failed j = 0)"
| "job_at ns n Finished objs \<longleftrightarrow> (\<exists>j. objs KJob ns n = Some (OJob j) \<and> 0 <s jb_succeeded j)"
| "job_at ns n Failed objs \<longleftrightarrow> (\<exists>j. objs KJob ns n = Some (OJob j) \<and> \<not> 0 <s jb_succeeded j \<and> 0 <s jb_failed j \<and>
     m_name (jb_meta j) = n \<and> m_namespace (jb_meta j) = ns)"

definition url_at :: "bool \<Rightarrow> kobj option \<Rightarrow> bool" where
  "url_at u x \<longleftrightarrow> (if u then \<exists>cm url. x = Some (OConfigMap cm) \<and> cm_data cm RHCOSURLConfigMapKey = Some url \<and> url \<noteq> [] else x = None)"

definition claim_at :: "bool \<Rightarrow> kobj option \<Rightarrow> bool" where
  "claim_at p x \<longleftrightarrow> (if p then \<exists>cl. x = Some (OVolumeClaim cl) else x = None)"

definition importer_known :: "kobj option \<Rightarrow> bool" where
  "importer_known x \<longleftrightarrow> (\<exists>d v rest. x = Some (ODeployment d) \<and>
     filter (\<lambda>(n, v). n = ''IMPORTER_IMAGE'' \<and> v \<noteq> []) (concat (List.map ct_env (pt_containers (dp_template d)))) = v # rest)"

definition image_at :: "string \<Rightarrow> string \<Rightarrow> string \<Rightarrow> image_state \<Rightarrow> infra_objects \<Rightarrow> bool" where
  "image_at mm pvc ns a objs \<longleftrightarrow> (case a of (u, j, p, i) \<Rightarrow>
     url_at u (objs KConfigMap ns (''capoa-rhcos-url-'' @ mm)) \<and> job_at ns (''rhcos-url-resolve-'' @ mm) j objs \<and>
     claim_at p (objs KVolumeClaim ns pvc) \<and> job_at ns (''rhcos-import-'' @ mm) i objs \<and>
     importer_known (objs KDeployment ''openshift-cnv'' ''cdi-deployment''))"

lemma job_at_other [simp]:
  "k \<noteq> KJob \<or> m \<noteq> n \<Longrightarrow> job_at ns n s (put_object k ns m x objs) = job_at ns n s objs"
proof -
  assume "k \<noteq> KJob \<or> m \<noteq> n"
  then have "put_object k ns m x objs KJob ns n = objs KJob ns n" by (auto simp: put_object_def)
  then show ?thesis by (cases s) simp_all
qed

lemma finish_at:
  assumes "image_at mm pvc ns (u, j, p, i) objs"
  shows "image_at mm pvc ns (u, finished j, p, finished i) (finish_jobs objs)"
proof -
  have "job_at ns n s objs \<Longrightarrow> job_at ns n (finished s) (finish_jobs objs)" for s n
    by (cases s) (auto simp: finish_jobs_def word_sless_alt)
  moreover have "url_at u (objs KConfigMap ns n) \<Longrightarrow> url_at u (finish_jobs objs KConfigMap ns n)" for n
    by (auto simp: url_at_def finish_jobs_def split: if_splits)
  moreover have "claim_at p (objs KVolumeClaim ns n) \<Longrightarrow> claim_at p (finish_jobs objs KVolumeClaim ns n)" for n
    by (auto simp: claim_at_def finish_jobs_def split: if_splits)
  moreover have "importer_known x \<Longrightarrow> objs KDeployment m n = x \<Longrightarrow> importer_known (finish_jobs objs KDeployment m n)" for m n x
    by (auto simp: importer_known_def finish_jobs_def)
  ultimately show ?thesis using assms by (auto simp: image_at_def)
qed

lemma infra_calls:
  "k_get (infra_store msg) c k ns n objs = (case objs k ns n of None \<Rightarrow> Inl (ApiStatus NotFound) | Some ob \<Rightarrow> Inr ob, objs)"
  "k_list (infra_store msg) c k opts objs = (case lo_labels opts of [(l, n)] \<Rightarrow> Inr (job_pods msg objs (lo_namespace opts) n) | _ \<Rightarrow> Inr [], objs)"
  "k_create (infra_store msg) c ob objs = (case infra_key ob of None \<Rightarrow> (Inl (ApiStatus NotFound), objs)
     | Some (k, ns, n) \<Rightarrow> if objs k ns n = None then (Inr ob, put_object k ns n (Some ob) objs) else (Inl (ApiStatus AlreadyExists), objs))"
  "k_update (infra_store msg) c ob objs = (Inr ob, objs)"
  "k_delete (infra_store msg) c ob objs = (case infra_key ob of None \<Rightarrow> (Some (ApiStatus NotFound), objs) | Some (k, ns, n) \<Rightarrow> (None, put_object k ns n None objs))"
  by (simp_all add: infra_store_def)

lemma wp_infra:
  "wp (get_as (infra_store msg) f c k ns n) Q w \<longleftrightarrow> (let r = (case w_env w k ns n of None \<Rightarrow> Inl (ApiStatus NotFound) | Some ob \<Rightarrow> Inr ob) in
     Q (decode f r) (w\<lparr>w_trace := w_trace w @ [EvGet c k ns n r]\<rparr>))"
  "wp (kcreate (infra_store msg) c ob) R w \<longleftrightarrow> (case k_create (infra_store msg) c ob (w_env w) of (r, objs) \<Rightarrow>
     R r (w\<lparr>w_env := objs, w_trace := w_trace w @ [EvCreate c ob r]\<rparr>))"
  "wp (kupdate (infra_store msg) c ob) R w \<longleftrightarrow> R (Inr ob) (w\<lparr>w_trace := w_trace w @ [EvUpdate c ob (Inr ob)]\<rparr>)"
  "wp (list_as (infra_store msg) g c k opts) S w \<longleftrightarrow> (let r = fst (k_list (infra_store msg) c k opts (w_env w)) in
     S (decode_list g r) (w\<lparr>w_trace := w_trace w @ [EvList c k opts r]\<rparr>))"
  "wp (kdelete (infra_store msg) c ob) T w \<longleftrightarrow> (case k_delete (infra_store msg) c ob (w_env w) of (d, objs) \<Rightarrow>
     T d (w\<lparr>w_env := objs, w_trace := w_trace w @ [EvDelete c ob d]\<rparr>))"
  "wp (clock_now (infra_store msg)) V w \<longleftrightarrow> V 0 (w\<lparr>w_trace := w_trace w @ [EvClock 0]\<rparr>)"
  by (simp_all add: get_as_def list_as_def kcall_defs clock_now_def wp_simps infra_calls wp_call Let_def infra_store_def nowhere_def)

text \<open>What a pass that is not ready yet does to the control plane: nothing, or it records the failure of the import job.\<close>

definition keeps_plane :: "stage \<Rightarrow> oacp \<Rightarrow> oacp \<Rightarrow> bool" where
  "keeps_plane i acp acp' \<longleftrightarrow> acp' = acp \<or> (i = Failed \<and> (\<exists>t. acp' = with_annotation jobFailedCooldownAnnotation t acp))"

definition no_failure :: "stage \<Rightarrow> oacp \<Rightarrow> bool" where
  "no_failure i acp \<longleftrightarrow> (i = Failed \<longrightarrow> annotation_of acp jobFailedCooldownAnnotation = [])"

text \<open>The import step, once the address is known.\<close>

lemma import_wp:
  assumes "image_at mm pvc ns (True, j, True, i) (w_env w)" "no_failure i acp"
  shows "wp (ensure_import_job (infra_store msg) c acp ns (''rhcos-import-'' @ mm) pvc url)
    (\<lambda>(acp', r) w'. r = Inr (snd (import_pass (True, j, True, i))) \<and> image_at mm pvc ns (fst (import_pass (True, j, True, i))) (w_env w') \<and>
      (snd (import_pass (True, j, True, i)) \<or> keeps_plane i acp acp')) w"
proof (cases i)
  case Absent
  then obtain d v rest where *: "w_env w KJob ns (''rhcos-import-'' @ mm) = None" "w_env w KDeployment ''openshift-cnv'' ''cdi-deployment'' = Some (ODeployment d)"
    "filter (\<lambda>(n, v). n = ''IMPORTER_IMAGE'' \<and> v \<noteq> []) (concat (List.map ct_env (pt_containers (dp_template d)))) = v # rest"
    using assms by (auto simp: image_at_def importer_known_def)
  then show ?thesis using assms Absent
    by (simp add: ensure_import_job_def ResolveCDIImporterImage_def wp_simps wp_infra infra_calls decode_def Let_def infra_key_def image_at_def
        buildRHCOSImportJob_def job_of_def keeps_plane_def split: prod.splits)
next
  case Running
  then show ?thesis using assms
    by (auto simp: ensure_import_job_def check_import_job_def wp_simps wp_infra decode_def Let_def image_at_def keeps_plane_def)
next
  case Finished
  then show ?thesis using assms
    by (auto simp: ensure_import_job_def check_import_job_def wp_simps wp_infra decode_def Let_def image_at_def)
next
  case Failed
  then show ?thesis using assms
    by (auto simp: ensure_import_job_def check_import_job_def isJobFailureCooldownElapsed_def setJobFailureCooldown_def no_failure_def wp_simps wp_infra infra_calls
        decode_def Let_def image_at_def infra_key_def updated_oacp_def keeps_plane_def)
qed

text \<open>The address step: it returns the address when it is recorded, or when its job has finished, and then records it.\<close>

lemma url_wp:
  assumes "image_at mm pvc ns (u, j, p, i) (w_env w)" "trim_space (msg (''rhcos-url-resolve-'' @ mm)) \<noteq> []"
  shows "wp (ensureRHCOSURLResolved (infra_store msg) c ns mm img ps cli)
    (\<lambda>r w'. if u \<or> j = Finished then (\<exists>url. url \<noteq> [] \<and> r = Inr url) \<and> image_at mm pvc ns (True, j, p, i) (w_env w')
      else r = Inr [] \<and> image_at mm pvc ns (False, if j = Failed then Absent else Running, p, i) (w_env w')) w"
proof (cases u)
  case True
  then show ?thesis using assms
    by (auto simp: ensureRHCOSURLResolved_def wp_simps wp_infra decode_def Let_def image_at_def url_at_def)
next
  case u: False
  then have none: "w_env w KConfigMap ns (''capoa-rhcos-url-'' @ mm) = None" using assms(1) by (simp add: image_at_def url_at_def)
  show ?thesis
  proof (cases j)
    case Absent
    then show ?thesis using assms u none
      by (simp add: ensureRHCOSURLResolved_def wp_simps wp_infra infra_calls decode_def Let_def image_at_def url_at_def infra_key_def
          buildRHCOSURLResolveJob_def buildPullSecretJob_def job_of_def)
  next
    case Running
    then show ?thesis using assms u none
      by (auto simp: ensureRHCOSURLResolved_def url_from_job_def wp_simps wp_infra decode_def Let_def image_at_def url_at_def)
  next
    case Finished
    then obtain job where job: "w_env w KJob ns (''rhcos-url-resolve-'' @ mm) = Some (OJob job)" "0 <s jb_succeeded job"
      using assms(1) by (auto simp: image_at_def)
    then show ?thesis using assms u none Finished
      by (auto simp: ensureRHCOSURLResolved_def url_from_job_def ReadURLFromJobPod_def wp_simps wp_infra infra_calls decode_def decode_list_def Let_def image_at_def
          url_at_def infra_key_def job_pods_def succeeded_def termination_messages_def)
  next
    case Failed
    then show ?thesis using assms u none
      by (auto simp: ensureRHCOSURLResolved_def url_from_job_def wp_simps wp_infra infra_calls decode_def Let_def image_at_def url_at_def infra_key_def)
  qed
qed

lemma pass_wp:
  assumes "image_at mm pvc ns (u, j, p, i) (w_env w)" "trim_space (msg (''rhcos-url-resolve-'' @ mm)) \<noteq> []" "no_failure i acp"
    "annotation_of acp RHCOSGoldenPVCReadyAnnotation = []" "mm = extractMajorMinor (sp_distributionVersion (oacp_spec acp))" "mm \<noteq> []"
    "pvc = GoldenPVCName (sp_distributionVersion (oacp_spec acp))"
  shows "wp (EnsureRHCOSGoldenPVC (infra_store msg) c acp img ps ns cli)
    (\<lambda>(acp', r) w'. r = Inr (snd (image_pass (u, j, p, i))) \<and> image_at mm pvc ns (fst (image_pass (u, j, p, i))) (w_env w') \<and>
      (snd (image_pass (u, j, p, i)) \<or> acp' = acp \<or> snd (snd (snd (fst (image_pass (u, j, p, i))))) = Absent \<and> keeps_plane i acp acp')) w"
    (is "wp _ ?Q w")
proof -
  let ?a = "(u, j, p, i)"
  have rest: "wp (do {
      p \<leftarrow> get_as (infra_store msg) as_volume_claim c KVolumeClaim ns pvc;
      case p of
        Inr _ \<Rightarrow> ensure_import_job (infra_store msg) c acp ns (''rhcos-import-'' @ mm) pvc url
      | Inl e \<Rightarrow> if \<not> is_not_found e then ret (acp, Inl (Wrapf ''failed to check golden PVC'' e)) else do {
          x \<leftarrow> kcreate (infra_store msg) c (OVolumeClaim (buildGoldenPVC pvc ns acp));
          ret (acp, case x of
            Inl e' \<Rightarrow> if is_already_exists e' then Inr False else Inl (Wrapf ''failed to create golden PVC'' e')
          | Inr _ \<Rightarrow> Inr False) } }) ?Q w'"
    if at: "image_at mm pvc ns (True, j, p, i) (w_env w')" and go: "image_pass ?a = import_pass (True, j, p, i)" for w' url
  proof (cases p)
    case True
    then obtain cl where cl: "w_env w' KVolumeClaim ns pvc = Some (OVolumeClaim cl)" using at by (auto simp: image_at_def claim_at_def)
    have "snd (snd (snd (fst (import_pass (True, j, True, i))))) = Absent \<or> i \<noteq> Failed" by (cases i) simp_all
    then have "wp (ensure_import_job (infra_store msg) c acp ns (''rhcos-import-'' @ mm) pvc url) ?Q (w'\<lparr>w_trace := t\<rparr>)" for t
      using at True go by (intro wp_mono [OF import_wp [of mm pvc ns j i]]) (auto simp: assms(3) keeps_plane_def)
    then show ?thesis using cl by (simp add: wp_simps wp_infra decode_def)
  next
    case False
    then show ?thesis using at go
      by (simp add: wp_simps wp_infra infra_calls decode_def Let_def image_at_def claim_at_def infra_key_def buildGoldenPVC_def)
  qed
  have later: "image_pass ?a = import_pass (True, j, p, i)" if "u \<or> j = Finished" using that by (cases u) auto
  have waiting: "image_pass ?a = ((False, if j = Failed then Absent else Running, p, i), False)" if "\<not> (u \<or> j = Finished)"
    using that by (cases u; cases j) auto
  show ?thesis
    unfolding EnsureRHCOSGoldenPVC_def Let_def assms(5,7) [symmetric] if_not_P [OF not_not [THEN iffD2, OF assms(4)]] if_not_P [OF assms(6)] wp_bind [of "ensureRHCOSURLResolved _ _ _ _ _ _ _"]
  proof (rule wp_mono [OF url_wp [where msg = msg, OF assms(1,2)]], goal_cases)
    case (1 r w')
    show ?case
    proof (cases "u \<or> j = Finished")
      case True
      then obtain url where r: "r = Inr url" and ne: "url \<noteq> []" and at: "image_at mm pvc ns (True, j, p, i) (w_env w')" using 1 by auto
      show ?thesis unfolding r sum.case if_not_P [OF ne] by (rule rest [OF at later [OF True]])
    next
      case False
      then show ?thesis using 1 waiting [OF False] by (simp add: wp_simps)
    qed
  qed
qed

lemma keeps_plane_fields:
  assumes "keeps_plane i acp acp'"
  shows "annotation_of acp' RHCOSGoldenPVCReadyAnnotation = annotation_of acp RHCOSGoldenPVCReadyAnnotation" "oacp_spec acp' = oacp_spec acp"
  using assms by (auto simp: keeps_plane_def with_annotation_def annotation_of_def RHCOSGoldenPVCReadyAnnotation_def jobFailedCooldownAnnotation_def)

text \<open>
  Claim C11. The image volume gets ready. Take a control plane that is not marked and whose version has a major and a minor part, and a
  store with the importer image in which the address is recorded or not, the volume claim is there or not, and each of the two jobs is absent, unfinished, succeeded or
  failed; a failed import job only as long as no failure is recorded yet. Let the jobs that have no outcome succeed between the passes, the address job leaving a
  nonempty address. Then one of the next four passes reports that the volume is ready, with one more pass for each of the two jobs that has failed.
\<close>

theorem golden_image_gets_ready:
  assumes "annotation_of acp RHCOSGoldenPVCReadyAnnotation = []" "extractMajorMinor version \<noteq> []" "sp_distributionVersion (oacp_spec acp) = version"
    "trim_space (msg (''rhcos-url-resolve-'' @ extractMajorMinor version)) \<noteq> []"
    "image_at (extractMajorMinor version) (GoldenPVCName version) ns (u, j, p, i) objs"
    "if i = Failed then annotation_of acp jobFailedCooldownAnnotation = [] else True"
  shows "ready_within (4 + failures (u, j, p, i)) msg c acp img ps ns cli objs"
proof -
  have "machine_ready n (u, j, p, i) \<Longrightarrow> ready_within n msg c acp img ps ns cli objs" for n
    using assms(1,3,5,6)
  proof (induction n arbitrary: u j p i objs acp)
    case (Suc n)
    obtain u' j' p' i' r where pass: "image_pass (u, j, p, i) = ((u', j', p', i'), r)" by (metis prod_cases4 surj_pair)
    obtain acp' r' w where run: "run_state (EnsureRHCOSGoldenPVC (infra_store msg) c acp img ps ns cli) (start objs) = ((acp', r'), w)" by (metis surj_pair)
    have at: "image_at (extractMajorMinor version) (GoldenPVCName version) ns (u, j, p, i) (w_env (start objs))" using Suc.prems(4) by (simp add: start_def)
    have nf: "no_failure i acp" using Suc.prems(5) by (simp add: no_failure_def split: if_splits)
    have step: "r' = Inr r \<and> image_at (extractMajorMinor version) (GoldenPVCName version) ns (u', j', p', i') (w_env w) \<and>
        (r \<or> acp' = acp \<or> i' = Absent \<and> keeps_plane i acp acp')"
      using wpD [OF pass_wp [where msg = msg, OF at assms(4) nf Suc.prems(2)] run] assms(2) Suc.prems(3) pass by simp
    have "i' = Failed \<Longrightarrow> i = Failed" using pass by (cases u; cases j; cases p; cases i) auto
    then have inv: "annotation_of acp' RHCOSGoldenPVCReadyAnnotation = [] \<and> sp_distributionVersion (oacp_spec acp') = version \<and>
        (if finished i' = Failed then annotation_of acp' jobFailedCooldownAnnotation = [] else True)" if "\<not> r"
      using that step Suc.prems(2,3,5) keeps_plane_fields [of i acp acp'] by (cases i') (auto split: if_splits)
    show ?case
    proof (cases r)
      case False
      have "machine_ready n (u', finished j', p', finished i')" using Suc.prems(1) pass False by simp
      then have "ready_within n msg c acp' img ps ns cli (finish_jobs (w_env w))"
        by (rule Suc.IH) (use inv [OF False] finish_at step in blast)+
      then show ?thesis using run by simp
    qed (use run step in simp)
  qed simp
  then show ?thesis using machine_gets_ready by blast
qed

text \<open>A store with the importer and a failed import job.\<close>

definition fresh_objects :: infra_objects where
  "fresh_objects = (\<lambda>k ns n. if k = KDeployment then Some (ODeployment \<lparr>dp_meta = empty_meta, dp_replicas = None, dp_selector = Map.empty,
     dp_template = empty_template_pods\<lparr>pt_containers := [empty_container\<lparr>ct_env := [(''IMPORTER_IMAGE'', ''img'')]\<rparr>]\<rparr>\<rparr>)
     else if k = KJob \<and> ns = ''n'' \<and> n = ''rhcos-import-4.19'' then Some (OJob (golden_job 0 1)) else None)"

theorem golden_image_gets_ready_witness:
  "ready_within 5 (\<lambda>n. ''http://x'') Mgmt golden_cp ''r'' ''p'' ''n'' [] fresh_objects"
proof -
  have trim: "trim_space ''http://x'' \<noteq> []" by code_simp
  have at: "image_at (extractMajorMinor ''4.19.0'') (GoldenPVCName ''4.19.0'') ''n'' (False, Absent, False, Failed) fresh_objects"
    by (simp add: image_at_def url_at_def claim_at_def importer_known_def fresh_objects_def empty_container_def golden_version golden_job_fields)
      (simp add: golden_job_def buildRHCOSImportJob_def job_of_def)
  show ?thesis
    using golden_image_gets_ready [OF _ _ _ _ at, of golden_cp "\<lambda>n. ''http://x''" Mgmt "''r''" "''p''" "[]"] trim
    by (simp add: annotation_of_def golden_fields golden_version)
qed

end
