(* ===== verification/Recovery.thy ===== *)
theory Recovery
  imports KubeVirt Calendar
begin

text \<open>
  Recovery of virtual machines that missed their ignition config, \<open>recovery.go\<close>: the instance and its root disk are deleted, so that
  both are made anew, at most a fixed number of times per machine.
\<close>

definition VMIStaleThreshold :: int where "VMIStaleThreshold = 7 * 60 * 1000000000"
definition MaxRecoveryAttempts :: int where "MaxRecoveryAttempts = 5"
definition recoveryCountAnnotation :: string where "recoveryCountAnnotation = ''capoa.openshift.io/ignition-recovery-count''"

definition vmi_kind :: kind where "vmi_kind = KUnstructured ''kubevirt.io'' ''v1'' ''VirtualMachineInstance''"
definition vm_kind :: kind where "vm_kind = KUnstructured ''kubevirt.io'' ''v1'' ''VirtualMachine''"
definition data_volume_kind :: kind where "data_volume_kind = KUnstructured ''cdi.kubevirt.io'' ''v1beta1'' ''DataVolume''"

text \<open>\<open>GetCreationTimestamp\<close>: a text that is missing or is not a time, or the first instant of the year 1, is the zero time.\<close>

definition creation_time :: "json \<Rightarrow> int option" where
  "creation_time ob = (case parse_rfc3339 (nested_string [''metadata'', ''creationTimestamp''] ob) of
     None \<Rightarrow> None | Some t \<Rightarrow> if t = - 62135596800 * 1000000000 then None else Some t)"

text \<open>\<open>GetAnnotations\<close> gives nothing when a value is not a string.\<close>

fun string_values :: "(string \<times> json) list \<Rightarrow> (string \<times> string) list option" where
  "string_values [] = Some []"
| "string_values ((k, v) # m) = (case v of JStr s \<Rightarrow> map_option ((#) (k, s)) (string_values m) | _ \<Rightarrow> None)"

definition annotations_of :: "json \<Rightarrow> (string \<times> string) list" where
  "annotations_of ob = (case nested_field [''metadata'', ''annotations''] ob of
     Some (JObj m) \<Rightarrow> (case string_values m of None \<Rightarrow> [] | Some kvs \<Rightarrow> kvs) | _ \<Rightarrow> [])"

text \<open>\<open>fmt.Sscanf(s, "%d", &n)\<close>: blanks, a sign and digits of a 64 bit number; what follows is not looked at.\<close>

definition scan_int :: "string \<Rightarrow> int option" where
  "scan_int s = (let t = dropWhile (\<lambda>c. c \<in> {CHR '' '', CHR 0x09, CHR 0x0B, CHR 0x0C, CHR 0x0D}) s;
       neg = (case t of c # _ \<Rightarrow> c = CHR ''-'' | [] \<Rightarrow> False);
       u = (case t of c # r \<Rightarrow> if c = CHR ''-'' \<or> c = CHR ''+'' then r else t | [] \<Rightarrow> []);
       ds = takeWhile is_digit u; v = (if neg then - int (nat_of_digits ds) else int (nat_of_digits ds)) in
     if ds = [] \<or> v < - (2 ^ 63) \<or> 2 ^ 63 \<le> v then None else Some v)"

definition attempts :: "json \<Rightarrow> int" where
  "attempts vm = (case map_of (annotations_of vm) recoveryCountAnnotation of
     None \<Rightarrow> 0 | Some s \<Rightarrow> (case scan_int s of None \<Rightarrow> 0 | Some n \<Rightarrow> n))"

definition counted :: "json \<Rightarrow> json" where
  "counted vm = set_nested_ignore (JObj (List.map (\<lambda>(k, s). (k, JStr s))
     (obj_put recoveryCountAnnotation (dec_int (attempts vm + 1)) (annotations_of vm)))) [''metadata'', ''annotations''] vm"

definition rootDiskPVCName :: "string \<Rightarrow> string" where "rootDiskPVCName vmiName = vmiName @ ''-rootdisk''"

text \<open>Deleting the root disk: errors are only logged.\<close>

definition delete_root_disk :: "'s env \<Rightarrow> kclient \<Rightarrow> string \<Rightarrow> string \<Rightarrow> ('s, bool res) prog" where
  "delete_root_disk E c vmiName ns = do {
     p \<leftarrow> get_as E as_volume_claim c KVolumeClaim ns (rootDiskPVCName vmiName);
     _ \<leftarrow> (case p of Inl _ \<Rightarrow> ret None | Inr pvc \<Rightarrow> kdelete E c (OVolumeClaim pvc));
     d \<leftarrow> get_as E as_unstructured c data_volume_kind ns (rootDiskPVCName vmiName);
     _ \<leftarrow> (case d of Inl _ \<Rightarrow> ret None | Inr dv \<Rightarrow> kdelete E c (OUnstructured dv));
     ret (Inr True) }"

definition recover :: "'s env \<Rightarrow> kclient \<Rightarrow> string \<Rightarrow> string \<Rightarrow> json \<Rightarrow> json \<Rightarrow> ('s, bool res) prog" where
  "recover E c vmiName ns vmi vm = do {
     _ \<leftarrow> kupdate E c (OUnstructured (counted vm));
     d \<leftarrow> kdelete E c (OUnstructured vmi);
     case d of
       Some e \<Rightarrow> if \<not> is_not_found e then ret (Inl (Wrapf ''failed to delete stale VMI'' e)) else delete_root_disk E c vmiName ns
     | None \<Rightarrow> delete_root_disk E c vmiName ns }"

definition RecoverStaleVM :: "'s env \<Rightarrow> kclient \<Rightarrow> string \<Rightarrow> string \<Rightarrow> ('s, bool res) prog" where
  "RecoverStaleVM E c vmiName ns = do {
     i \<leftarrow> get_as E as_unstructured c vmi_kind ns vmiName;
     case i of
       Inl e \<Rightarrow> ret (if is_not_found e then Inr False else Inl e)
     | Inr vmi \<Rightarrow> (case creation_time vmi of
         None \<Rightarrow> ret (Inr False)
       | Some t \<Rightarrow> do {
           now \<leftarrow> clock_now E;
           if now - t < VMIStaleThreshold then ret (Inr False)
           else if nested_string [''status'', ''phase''] vmi \<noteq> ''Running'' then ret (Inr False)
           else do {
             m \<leftarrow> get_as E as_unstructured c vm_kind ns vmiName;
             case m of
               Inl e \<Rightarrow> ret (if is_not_found e then Inr False else Inl e)
             | Inr vm \<Rightarrow> if MaxRecoveryAttempts \<le> attempts vm then ret (Inr False) else recover E c vmiName ns vmi vm } }) }"

subsection \<open>The recovery count\<close>

lemma string_values_strings: "string_values (List.map (\<lambda>(k, s). (k, JStr s)) m) = Some m"
  by (induction m) auto

lemma scan_dec_int:
  assumes "- (2 ^ 63) \<le> i" "i < 2 ^ 63"
  shows "scan_int (dec_int i) = Some i"
proof -
  have all: "takeWhile is_digit (dec_nat n) = dec_nat n" for n by (simp add: takeWhile_eq_all_conv dec_nat_digits)
  show ?thesis
  proof (cases "i < 0")
    case True
    then show ?thesis using assms(1) by (simp add: scan_int_def dec_int_def Let_def all)
  next
    case False
    obtain c s where c: "dec_nat (nat i) = c # s" by (cases "dec_nat (nat i)") auto
    then have "is_digit c" using dec_nat_digits [of c "nat i"] by simp
    then have "c \<notin> {CHR '' '', CHR 0x09, CHR 0x0B, CHR 0x0C, CHR 0x0D, CHR ''-'', CHR ''+''}" by (auto simp: is_digit_def)
    then have "scan_int (dec_nat (nat i)) = (let ds = takeWhile is_digit (dec_nat (nat i)); v = int (nat_of_digits ds) in
        if ds = [] \<or> v < - (2 ^ 63) \<or> 2 ^ 63 \<le> v then None else Some v)"
      by (simp add: scan_int_def c)
    then show ?thesis using False assms(2) by (simp add: dec_int_def all Let_def)
  qed
qed

text \<open>What the API server answers has an object as its metadata.\<close>

fun is_object :: "json \<Rightarrow> bool" where "is_object (JObj m) \<longleftrightarrow> True" | "is_object _ \<longleftrightarrow> False"

definition has_metadata :: "json \<Rightarrow> bool" where
  "has_metadata ob \<longleftrightarrow> (case nested_field [''metadata''] ob of Some v \<Rightarrow> is_object v | None \<Rightarrow> False)"

lemma is_objectE: "is_object v \<Longrightarrow> (\<And>m. v = JObj m \<Longrightarrow> P) \<Longrightarrow> P"
  by (cases v) auto

lemma attempts_range: "- (2 ^ 63) \<le> attempts vm"
proof -
  have "scan_int s = Some n \<Longrightarrow> - (2 ^ 63) \<le> n" for s n by (simp add: scan_int_def Let_def split: if_splits)
  then show ?thesis by (simp add: attempts_def split: option.splits)
qed

lemma counted_attempts:
  assumes "has_metadata vm" "attempts vm < MaxRecoveryAttempts"
  shows "attempts (counted vm) = attempts vm + 1"
proof -
  let ?new = "obj_put recoveryCountAnnotation (dec_int (attempts vm + 1)) (annotations_of vm)"
  let ?x = "JObj (List.map (\<lambda>(k, s). (k, JStr s)) ?new)"
  obtain m m' where m: "vm = JObj m" "map_of m ''metadata'' = Some (JObj m')" using assms(1)
    by (cases vm) (auto simp: has_metadata_def split: option.splits elim: is_objectE)
  obtain v' where v': "set_nested_field ?x [''metadata'', ''annotations''] vm = Some v'" by (simp add: m)
  then have "nested_field [''metadata'', ''annotations''] (counted vm) = Some ?x"
    unfolding counted_def set_nested_ignore_def by (simp add: nested_field_set_nested del: set_nested_field.simps)
  then have "annotations_of (counted vm) = ?new" by (simp add: annotations_of_def string_values_strings)
  moreover have "scan_int (dec_int (attempts vm + 1)) = Some (attempts vm + 1)" using assms(2) attempts_range [of vm] by (intro scan_dec_int) (simp_all add: MaxRecoveryAttempts_def)
  ultimately show ?thesis by (simp add: attempts_def [of "counted vm"])
qed

subsection \<open>What a recovery does\<close>

lemma decoded_recovery:
  "decode as_unstructured g = Inr ob \<Longrightarrow> g = Inr (OUnstructured ob)" "decode as_volume_claim g = Inr pvc \<Longrightarrow> g = Inr (OVolumeClaim pvc)"
  by (auto simp: decode_def split: sum.splits option.splits)

text \<open>The deletions of the root disk: only of the two objects that were just read under its name.\<close>

definition disk_deleted :: "kclient \<Rightarrow> string \<Rightarrow> string \<Rightarrow> event list \<Rightarrow> bool" where
  "disk_deleted c n ns evs \<longleftrightarrow> (\<forall>e \<in> set evs. is_write e \<longrightarrow>
     (\<exists>pvc x. e = EvDelete c (OVolumeClaim pvc) x \<and> EvGet c KVolumeClaim ns (rootDiskPVCName n) (Inr (OVolumeClaim pvc)) \<in> set evs) \<or>
     (\<exists>dv x. e = EvDelete c (OUnstructured dv) x \<and> EvGet c data_volume_kind ns (rootDiskPVCName n) (Inr (OUnstructured dv)) \<in> set evs))"

lemma logs_root_disk: "logs (delete_root_disk E c n ns) (\<lambda>r evs. r = Inr True \<and> disk_deleted c n ns evs)"
  unfolding delete_root_disk_def get_as_def kcall_defs
  apply (simp only: prog_simps)
  apply (rule logs_call_bind)
  apply (rule logs_bind [where R = "\<lambda>r evs. evs = [] \<or> (\<exists>pvc x. evs = [EvDelete c (OVolumeClaim pvc) x] \<and> decode as_volume_claim a = Inr pvc)" for a])
   apply (rule logs_case_sum, rule logs_return, simp, rule logs_call, simp)
  apply (rule logs_call_bind)
  apply (rule logs_bind [where R = "\<lambda>r evs. evs = [] \<or> (\<exists>dv x. evs = [EvDelete c (OUnstructured dv) x] \<and> decode as_unstructured a = Inr dv)" for a])
   apply (rule logs_case_sum, rule logs_return, simp, rule logs_call, simp)
  apply (rule logs_return)
  apply (auto simp: disk_deleted_def dest!: decoded_recovery)
  done

definition recovery :: "kclient \<Rightarrow> string \<Rightarrow> string \<Rightarrow> bool res \<Rightarrow> event list \<Rightarrow> bool" where
  "recovery c n ns r evs \<longleftrightarrow> (\<exists>vmi vm t now u d rest.
     evs = [EvGet c vmi_kind ns n (Inr (OUnstructured vmi)), EvClock now, EvGet c vm_kind ns n (Inr (OUnstructured vm)),
       EvUpdate c (OUnstructured (counted vm)) u, EvDelete c (OUnstructured vmi) d] @ rest \<and>
     creation_time vmi = Some t \<and> VMIStaleThreshold \<le> now - t \<and> nested_string [''status'', ''phase''] vmi = ''Running'' \<and> attempts vm < MaxRecoveryAttempts \<and>
     (if d = None \<or> (\<exists>e. d = Some e \<and> is_not_found e) then r = Inr True \<and> disk_deleted c n ns rest else rest = [] \<and> (\<exists>e. r = Inl e)))"

definition recover_run :: "kclient \<Rightarrow> string \<Rightarrow> string \<Rightarrow> json \<Rightarrow> json \<Rightarrow> bool res \<Rightarrow> event list \<Rightarrow> bool" where
  "recover_run c n ns vmi vm r evs \<longleftrightarrow> (\<exists>u d rest. evs = [EvUpdate c (OUnstructured (counted vm)) u, EvDelete c (OUnstructured vmi) d] @ rest \<and>
     (if d = None \<or> (\<exists>e. d = Some e \<and> is_not_found e) then r = Inr True \<and> disk_deleted c n ns rest else rest = [] \<and> (\<exists>e. r = Inl e)))"

lemma logs_recover: "logs (recover E c n ns vmi vm) (recover_run c n ns vmi vm)"
  unfolding recover_def kcall_defs
  apply (rule logs_call_bind, rule logs_call_bind, rule logs_case_option)
   apply (rule logs_mono [OF logs_root_disk], simp add: recover_run_def)
  apply (rule logs_if, rule logs_return, simp add: recover_run_def)
  apply (rule logs_mono [OF logs_root_disk], simp add: recover_run_def)
  done

lemma logs_RecoverStaleVM: "logs (RecoverStaleVM E c n ns) (\<lambda>r evs. (r \<noteq> Inr True \<and> filter is_write evs = []) \<or> recovery c n ns r evs)"
  unfolding RecoverStaleVM_def get_as_def clock_now_def kcall_defs
  apply (simp only: prog_simps)
  apply (rule logs_call_bind, rule logs_case_sum, rule logs_return, simp)
  apply (rule logs_case_option, rule logs_return, simp)
  apply (rule logs_call_bind, rule logs_if, rule logs_return, simp)
  apply (rule logs_if, rule logs_return, simp)
  apply (rule logs_call_bind, rule logs_case_sum, rule logs_return, simp)
  apply (rule logs_if, rule logs_return, simp)
  apply (rule logs_mono [OF logs_recover])
  subgoal premises prems for g vmi t now g' vm r evs
    using prems decoded_recovery(1) [OF prems(1)] decoded_recovery(1) [OF prems(5)] unfolding recover_run_def recovery_def by force
  done

text \<open>
  Claim C12. Recovery is careful. A pass either writes nothing and does not report a recovery, or it saw an instance that is running and whose creation is at least seven minutes
  back by the clock, and a machine with fewer than five recorded attempts; then it first updates the machine with the count and deletes
  the instance it saw, and reports a recovery exactly when the instance is deleted or gone already; after that it deletes at most the claim and the data volume that it found under the name of
  the root disk. The count written is one more than the count read, and at most five.
\<close>

theorem RecoverStaleVM_safe:
  assumes "run_state (RecoverStaleVM E c n ns) (start s) = (r, w)"
  shows "(r \<noteq> Inr True \<and> filter is_write (w_trace w) = [] \<or> recovery c n ns r (w_trace w)) \<and>
    (\<forall>ob u. EvUpdate c ob u \<in> set (w_trace w) \<longrightarrow> (\<exists>vm. EvGet c vm_kind ns n (Inr (OUnstructured vm)) \<in> set (w_trace w) \<and> ob = OUnstructured (counted vm) \<and>
      (has_metadata vm \<longrightarrow> attempts (counted vm) = attempts vm + 1 \<and> attempts (counted vm) \<le> 5)))"
proof -
  have cases: "r \<noteq> Inr True \<and> filter is_write (w_trace w) = [] \<or> recovery c n ns r (w_trace w)"
    by (rule logs_start [OF logs_RecoverStaleVM assms])
  have "\<exists>vm. EvGet c vm_kind ns n (Inr (OUnstructured vm)) \<in> set (w_trace w) \<and> ob = OUnstructured (counted vm) \<and>
      (has_metadata vm \<longrightarrow> attempts (counted vm) = attempts vm + 1 \<and> attempts (counted vm) \<le> 5)"
    if u: "EvUpdate c ob u \<in> set (w_trace w)" for ob u
  proof -
    have "filter is_write (w_trace w) \<noteq> []" using u by (force simp: filter_empty_conv)
    then obtain vmi vm t now u' d rest where evs: "w_trace w = [EvGet c vmi_kind ns n (Inr (OUnstructured vmi)), EvClock now, EvGet c vm_kind ns n (Inr (OUnstructured vm)),
         EvUpdate c (OUnstructured (counted vm)) u', EvDelete c (OUnstructured vmi) d] @ rest" "attempts vm < MaxRecoveryAttempts"
        "disk_deleted c n ns rest \<or> rest = []"
      using cases unfolding recovery_def by (auto split: if_splits)
    have "EvUpdate c ob u \<notin> set rest" using evs(3) unfolding disk_deleted_def by fastforce
    then have "ob = OUnstructured (counted vm)" using u evs(1) by auto
    then show ?thesis
      using evs(1,2) counted_attempts [OF _ evs(2)] by (intro exI [of _ vm]) (auto simp: MaxRecoveryAttempts_def)
  qed
  with cases show ?thesis by blast
qed

text \<open>An instance that runs since 1970, looked at 500 seconds later; its machine was recovered four times.\<close>

definition stale_vmi :: json where
  "stale_vmi = JObj [(''metadata'', JObj [(''creationTimestamp'', JStr ''1970-01-01T00:00:00Z'')]), (''status'', JObj [(''phase'', JStr ''Running'')])]"

definition stale_vm :: json where
  "stale_vm = JObj [(''metadata'', JObj [(''annotations'', JObj [(recoveryCountAnnotation, JStr ''4'')])])]"

definition stale_infra :: "(kobj \<Rightarrow> kobj res) \<Rightarrow> unit env" where
  "stale_infra upd = nowhere\<lparr>k_get := (\<lambda>c k ns n s. (if k = vmi_kind then Inr (OUnstructured stale_vmi) else if k = vm_kind then Inr (OUnstructured stale_vm)
       else Inl (ApiStatus NotFound), s)), k_update := (\<lambda>c ob s. (upd ob, s)), k_delete := (\<lambda>c ob s. (None, s)), x_now := (\<lambda>s. (500 * 1000000000, s))\<rparr>"

lemma stale_vmi_facts: "creation_time stale_vmi = Some 0" "nested_string [''status'', ''phase''] stale_vmi = ''Running''"
proof -
  have "parse_rfc3339 ''1970-01-01T00:00:00Z'' = Some 0" by code_simp
  then show "creation_time stale_vmi = Some 0" by (simp add: creation_time_def stale_vmi_def nested_string_def)
  show "nested_string [''status'', ''phase''] stale_vmi = ''Running''" by (simp add: stale_vmi_def nested_string_def)
qed

lemma stale_vm_facts: "attempts stale_vm = 4" "has_metadata stale_vm"
proof -
  have "scan_int ''4'' = Some 4" by (simp add: scan_int_def is_digit_def nat_of_digits_def digit_val_def)
  then show "attempts stale_vm = 4" by (simp add: attempts_def annotations_of_def stale_vm_def)
  show "has_metadata stale_vm" by (simp add: has_metadata_def stale_vm_def)
qed

lemma stale_run:
  obtains w where "run_state (RecoverStaleVM (stale_infra upd) Mgmt ''v'' ''n'') (start ()) = (Inr True, w)"
    "EvUpdate Mgmt (OUnstructured (counted stale_vm)) (upd (OUnstructured (counted stale_vm))) \<in> set (w_trace w)"
    "EvDelete Mgmt (OUnstructured stale_vmi) None \<in> set (w_trace w)"
proof -
  have objects: "as_unstructured (OUnstructured stale_vmi) = Some stale_vmi" "as_unstructured (OUnstructured stale_vm) = Some stale_vm"
    by (simp_all add: stale_vmi_def stale_vm_def)
  show thesis
    by (rule that, simp add: RecoverStaleVM_def recover_def delete_root_disk_def get_as_def kcall_defs call_def start_def stale_infra_def nowhere_def objects
        stale_vmi_facts stale_vm_facts VMIStaleThreshold_def MaxRecoveryAttempts_def vmi_kind_def vm_kind_def data_volume_kind_def decode_def) simp_all
qed

theorem RecoverStaleVM_safe_witness:
  "\<exists>w. run_state (RecoverStaleVM (stale_infra Inr) Mgmt ''v'' ''n'') (start ()) = (Inr True, w) \<and> recovery Mgmt ''v'' ''n'' (Inr True) (w_trace w) \<and>
     (\<exists>vm. EvGet Mgmt vm_kind ''n'' ''v'' (Inr (OUnstructured vm)) \<in> set (w_trace w) \<and> OUnstructured (counted stale_vm) = OUnstructured (counted vm))"
proof -
  obtain w where run: "run_state (RecoverStaleVM (stale_infra Inr) Mgmt ''v'' ''n'') (start ()) = (Inr True, w)"
    "EvUpdate Mgmt (OUnstructured (counted stale_vm)) (Inr (OUnstructured (counted stale_vm))) \<in> set (w_trace w)" by (rule stale_run)
  from RecoverStaleVM_safe [OF run(1)] run show ?thesis by blast
qed

text \<open>The limit rests on the update: when it fails, the instance is deleted all the same and the next pass finds the old count.\<close>

lemma limit_needs_update:
  "\<exists>w. run_state (RecoverStaleVM (stale_infra (\<lambda>ob. Inl (ApiStatus Conflict))) Mgmt ''v'' ''n'') (start ()) = (Inr True, w) \<and>
     EvDelete Mgmt (OUnstructured stale_vmi) None \<in> set (w_trace w)"
  by (rule stale_run [of "\<lambda>ob. Inl (ApiStatus Conflict)"]) blast

end
