(* ===== verification/Durations.thy ===== *)
theory Durations
  imports Calendar
begin

text \<open>
  Durations of Go's \<open>time\<close> package as texts such as \<open>1h0m1.5s\<close>: \<open>Duration.String\<close> and \<open>time.ParseDuration\<close>. A duration is a number of
  nanoseconds. The fraction of a part is exact here; Go multiplies floats, which gives the same for the fractions that it prints.
\<close>

definition time_units :: "(string \<times> nat) list" where
  "time_units = [(''ns'', 1), (''us'', 1000), ([CHR 0xC2, CHR 0xB5] @ ''s'', 1000), ([CHR 0xCE, CHR 0xBC] @ ''s'', 1000), (''ms'', 1000000),
     (''s'', 1000000000), (''m'', 60000000000), (''h'', 3600000000000)]"

definition fraction :: "nat \<Rightarrow> nat \<Rightarrow> string" where
  "fraction p v = (if v = 0 then [] else CHR ''.'' # rev (dropWhile ((=) CHR ''0'') (rev (pad p (int v)))))"

definition duration_magnitude :: "nat \<Rightarrow> string" where
  "duration_magnitude u = (if u = 0 then ''0s''
     else if u < 1000 then dec_nat u @ ''ns''
     else if u < 1000000 then dec_nat (u div 1000) @ fraction 3 (u mod 1000) @ [CHR 0xC2, CHR 0xB5] @ ''s''
     else if u < 1000000000 then dec_nat (u div 1000000) @ fraction 6 (u mod 1000000) @ ''ms''
     else (let secs = u div 1000000000; mins = secs div 60; hours = mins div 60 in
       (if 0 < hours then dec_nat hours @ ''h'' else []) @ (if 0 < mins then dec_nat (mins mod 60) @ ''m'' else []) @
       dec_nat (secs mod 60) @ fraction 9 (u mod 1000000000) @ ''s''))"

definition duration_string :: "int \<Rightarrow> string" where
  "duration_string d = (if d < 0 then CHR ''-'' # duration_magnitude (nat (- d)) else duration_magnitude (nat d))"

definition unit_char :: "char \<Rightarrow> bool" where "unit_char c \<longleftrightarrow> \<not> is_digit c \<and> c \<noteq> CHR ''.''"

text \<open>One number with its unit, and what is left.\<close>

definition after_point :: "string \<Rightarrow> string \<times> string" where
  "after_point s = (case s of c # t \<Rightarrow> if c = CHR ''.'' then (takeWhile is_digit t, dropWhile is_digit t) else ([], s) | [] \<Rightarrow> ([], []))"

definition duration_part :: "string \<Rightarrow> (nat \<times> string) option" where
  "duration_part s = (let ds = takeWhile is_digit s; (fs, t) = after_point (dropWhile is_digit s); n = nat_of_digits ds in
     if ds = [] \<and> fs = [] then None
     else (case map_of time_units (takeWhile unit_char t) of None \<Rightarrow> None
       | Some u \<Rightarrow> if n > 2 ^ 63 div u then None
           else let v = n * u + nat_of_digits fs * u div 10 ^ length fs in if v > 2 ^ 63 then None else Some (v, dropWhile unit_char t)))"

lemma after_point_le: "after_point s = (fs, t) \<Longrightarrow> length t \<le> length s"
  by (cases s) (auto simp: after_point_def length_dropWhile_le le_SucI split: if_splits)

lemma duration_part_shorter: "duration_part s = Some (v, r) \<Longrightarrow> length r < length s"
proof -
  assume a: "duration_part s = Some (v, r)"
  obtain fs t where ft: "after_point (dropWhile is_digit s) = (fs, t)" by force
  have "length t \<le> length (dropWhile is_digit s)" by (rule after_point_le [OF ft])
  then have "length t \<le> length s" using length_dropWhile_le [of is_digit s] by linarith
  moreover have u: "r = dropWhile unit_char t" "takeWhile unit_char t \<noteq> []"
    using a ft by (auto simp: duration_part_def Let_def time_units_def split: option.splits if_splits)
  have "length t = length (takeWhile unit_char t) + length r" using u(1) by (metis length_append takeWhile_dropWhile_id)
  ultimately show ?thesis using u(2) by (cases "takeWhile unit_char t") auto
qed

function sum_parts :: "nat \<Rightarrow> string \<Rightarrow> nat option" where
  "sum_parts d s = (if s = [] then Some d else (case duration_part s of None \<Rightarrow> None
     | Some (v, r) \<Rightarrow> if d + v > 2 ^ 63 then None else sum_parts (d + v) r))"
  by pat_completeness auto
termination by (relation "measure (\<lambda>(d, s). length s)") (auto dest: duration_part_shorter)

declare sum_parts.simps [simp del]

definition parse_duration :: "string \<Rightarrow> int option" where
  "parse_duration s = (let neg = (case s of c # _ \<Rightarrow> c = CHR ''-'' | [] \<Rightarrow> False);
       t = (case s of c # r \<Rightarrow> if c = CHR ''-'' \<or> c = CHR ''+'' then r else s | [] \<Rightarrow> []) in
     if t = ''0'' then Some 0 else if t = [] then None
     else (case sum_parts 0 t of None \<Rightarrow> None
       | Some d \<Rightarrow> if neg then Some (- int d) else if d > 2 ^ 63 - 1 then None else Some (int d)))"

subsection \<open>A printed duration reads back\<close>

lemma nat_of_digits_shift: "nat_of_digits (s @ replicate k CHR ''0'') = nat_of_digits s * 10 ^ k"
proof -
  have "foldl (\<lambda>n c. 10 * n + digit_val c) x (replicate k CHR ''0'') = x * 10 ^ k" for x
    by (induction k arbitrary: x) (simp_all add: digit_val_def)
  then show ?thesis by (simp add: nat_of_digits_def)
qed

lemma pad_digits:
  assumes "v < 10 ^ p" "0 < p"
  shows "length (pad p (int v)) = p" "list_all is_digit (pad p (int v))" "nat_of_digits (pad p (int v)) = v"
  using take_digits_pad [of "int v" p "[]"] assms by (auto simp: take_digits_def split: if_splits)

lemma fraction_value:
  assumes "v < 10 ^ p" "0 < p" "v \<noteq> 0"
  obtains z where "fraction p v = CHR ''.'' # z" "list_all is_digit z" "nat_of_digits z * 10 ^ p div 10 ^ length z = v"
proof -
  define q where "q = pad p (int v)"
  define z where "z = rev (dropWhile ((=) CHR ''0'') (rev q))"
  define k where "k = length (takeWhile ((=) CHR ''0'') (rev q))"
  note q_props = pad_digits [OF assms(1,2), folded q_def]
  have "takeWhile ((=) CHR ''0'') (rev q) = replicate k CHR ''0''"
    unfolding k_def by (rule replicate_length_same [symmetric]) (auto dest: set_takeWhileD)
  then have q: "q = z @ replicate k CHR ''0''"
    using arg_cong [OF takeWhile_dropWhile_id [of "(=) CHR ''0''" "rev q"], of rev] by (simp add: z_def)
  have "nat_of_digits z * 10 ^ k = v" using q_props(3) unfolding q nat_of_digits_shift .
  moreover have "p = k + length z" using q_props(1) unfolding q by simp
  ultimately have "nat_of_digits z * 10 ^ p = v * 10 ^ length z" by (simp add: power_add)
  then have "nat_of_digits z * 10 ^ p div 10 ^ length z = v" by simp
  moreover have "list_all is_digit z" using q_props(2) unfolding q by simp
  ultimately show thesis using that assms(3) by (simp add: fraction_def z_def q_def)
qed

definition starts_number :: "string \<Rightarrow> bool" where
  "starts_number r \<longleftrightarrow> (case r of [] \<Rightarrow> True | c # _ \<Rightarrow> is_digit c)"

lemma takeWhile_stop: "list_all P xs \<Longrightarrow> (case r of [] \<Rightarrow> True | c # _ \<Rightarrow> \<not> P c) \<Longrightarrow> takeWhile P (xs @ r) = xs \<and> dropWhile P (xs @ r) = r"
  by (cases r) (auto simp: list_all_iff takeWhile_append2 dropWhile_append2)

lemma part_reads:
  assumes "map_of time_units u = Some U" "list_all unit_char u" "u \<noteq> []" "v = 0 \<or> U = 10 ^ p \<and> v < 10 ^ p \<and> 0 < p"
    "n * U + v \<le> 2 ^ 63" "starts_number r"
  shows "duration_part (dec_nat n @ fraction p v @ u @ r) = Some (n * U + v, r)"
proof -
  have U: "0 < U" using assms(1) by (auto simp: time_units_def split: if_splits)
  have n: "\<not> 2 ^ 63 div U < n" using assms(5) U by (simp add: not_less less_eq_div_iff_mult_less_eq)
  have unit: "takeWhile unit_char (u @ r) = u" "dropWhile unit_char (u @ r) = r"
    using takeWhile_stop [OF assms(2), of r] assms(6) by (auto simp: starts_number_def unit_char_def split: list.splits)
  obtain c u' where u: "u = c # u'" "\<not> is_digit c" "c \<noteq> CHR ''.''" using assms(2,3) by (cases u) (auto simp: unit_char_def)
  have ds: "list_all is_digit (dec_nat n)" by (auto simp: list_all_iff dest: dec_nat_digits)
  have digits: "takeWhile is_digit (dec_nat n @ fraction p v @ u @ r) = dec_nat n" "dropWhile is_digit (dec_nat n @ fraction p v @ u @ r) = fraction p v @ u @ r"
    using takeWhile_stop [OF ds, of "fraction p v @ u @ r"] u by (auto simp: fraction_def is_digit_def)
  have "\<exists>z. after_point (fraction p v @ u @ r) = (z, u @ r) \<and> nat_of_digits z * U div 10 ^ length z = v"
  proof (cases "v = 0")
    case True
    then show ?thesis using u by (simp add: fraction_def after_point_def nat_of_digits_def)
  next
    case False
    then obtain z where "fraction p v = CHR ''.'' # z" "list_all is_digit z" "nat_of_digits z * 10 ^ p div 10 ^ length z = v"
      using fraction_value assms(4) by metis
    then show ?thesis using takeWhile_stop [of is_digit z "u @ r"] u False assms(4) by (auto simp: after_point_def)
  qed
  then obtain z where z: "after_point (fraction p v @ u @ r) = (z, u @ r)" "nat_of_digits z * U div 10 ^ length z = v" by blast
  show ?thesis unfolding duration_part_def Let_def digits z(1) case_prod_conv unit assms(1) option.case nat_of_digits_dec_nat z(2)
    using n assms(5) by simp
qed

lemma sum_parts_step: "duration_part s = Some (v, r) \<Longrightarrow> s \<noteq> [] \<Longrightarrow> d + v \<le> 2 ^ 63 \<Longrightarrow> sum_parts d s = sum_parts (d + v) r"
  by (simp add: sum_parts.simps [of d s])

lemma sum_parts_Nil [simp]: "sum_parts d [] = Some d"
  by (simp add: sum_parts.simps)

lemma starts_number_dec [simp]: "starts_number (dec_nat n @ r)" "starts_number []"
proof -
  obtain c s where "dec_nat n = c # s" using dec_nat_not_Nil by (cases "dec_nat n") auto
  moreover have "is_digit c" using dec_nat_digits [of c n] calculation by simp
  ultimately show "starts_number (dec_nat n @ r)" by (simp add: starts_number_def)
qed (simp add: starts_number_def)

lemma units:
  "map_of time_units ''ns'' = Some 1" "map_of time_units [CHR 0xC2, CHR 0xB5, CHR ''s''] = Some 1000" "map_of time_units ''ms'' = Some 1000000"
  "map_of time_units ''s'' = Some 1000000000" "map_of time_units ''m'' = Some 60000000000" "map_of time_units ''h'' = Some 3600000000000"
  "list_all unit_char ''ns''" "list_all unit_char [CHR 0xC2, CHR 0xB5, CHR ''s'']" "list_all unit_char ''ms''" "list_all unit_char ''s''"
  "list_all unit_char ''m''" "list_all unit_char ''h''"
  by (simp_all add: time_units_def unit_char_def is_digit_def)

lemma whole_part:
  assumes "map_of time_units u = Some U" "list_all unit_char u" "u \<noteq> []" "d + n * U \<le> 2 ^ 63" "starts_number r"
  shows "sum_parts d (dec_nat n @ u @ r) = sum_parts (d + n * U) r"
  using part_reads [OF assms(1-3), of 0 1 n r] assms(4,5) by (intro sum_parts_step) (simp_all add: fraction_def)

lemma last_part:
  assumes "map_of time_units u = Some (10 ^ p)" "list_all unit_char u" "u \<noteq> []" "v < 10 ^ p" "0 < p" "d + (n * 10 ^ p + v) \<le> 2 ^ 63"
  shows "sum_parts d (dec_nat n @ fraction p v @ u) = Some (d + (n * 10 ^ p + v))"
  using part_reads [OF assms(1-3), of v p n "[]"] assms(4-) by (subst sum_parts_step [of _ "n * 10 ^ p + v" "[]"]) simp_all

lemma magnitude_reads: "u \<le> 2 ^ 63 \<Longrightarrow> sum_parts 0 (duration_magnitude u) = Some u"
proof -
  assume u: "u \<le> 2 ^ 63"
  consider "u = 0" | "0 < u" "u < 1000" | "1000 \<le> u" "u < 1000000" | "1000000 \<le> u" "u < 1000000000" | "1000000000 \<le> u" by linarith
  then show ?thesis
  proof cases
    case 1
    then show ?thesis using whole_part [OF units(4,10), of 0 0 "[]"] by (simp add: duration_magnitude_def dec_nat.simps)
  next
    case 2
    then show ?thesis using whole_part [OF units(1,7), of 0 u "[]"] u by (simp add: duration_magnitude_def)
  next
    case 3
    then show ?thesis using last_part [of "[CHR 0xC2, CHR 0xB5, CHR ''s'']" 3 "u mod 1000" 0 "u div 1000"] units(2,8) u
      by (simp add: duration_magnitude_def div_mult_mod_eq)
  next
    case 4
    then show ?thesis using last_part [of "''ms''" 6 "u mod 1000000" 0 "u div 1000000"] units(3,9) u
      by (simp add: duration_magnitude_def div_mult_mod_eq)
  next
    case 5
    define secs where "secs = u div 1000000000"
    define mins where "mins = secs div 60"
    define hours where "hours = mins div 60"
    have e: "u = secs * 1000000000 + u mod 1000000000" "secs = mins * 60 + secs mod 60" "mins = hours * 60 + mins mod 60"
      by (simp_all add: secs_def mins_def hours_def div_mult_mod_eq)
    then have total: "hours * 3600000000000 + (mins mod 60) * 60000000000 + ((secs mod 60) * 10 ^ 9 + u mod 10 ^ 9) = u" by simp
    have last: "sum_parts d (dec_nat (secs mod 60) @ fraction 9 (u mod 1000000000) @ ''s'') = Some (d + ((secs mod 60) * 10 ^ 9 + u mod 10 ^ 9))"
      if "d + ((secs mod 60) * 10 ^ 9 + u mod 10 ^ 9) \<le> 2 ^ 63" for d
      using last_part [of "''s''" 9 "u mod 10 ^ 9" d "secs mod 60"] units(4,10) that by simp
    have mid: "sum_parts d (dec_nat (mins mod 60) @ ''m'' @ dec_nat (secs mod 60) @ fraction 9 (u mod 1000000000) @ ''s'')
      = Some (d + (mins mod 60) * 60000000000 + ((secs mod 60) * 10 ^ 9 + u mod 10 ^ 9))"
      if "d + (mins mod 60) * 60000000000 + ((secs mod 60) * 10 ^ 9 + u mod 10 ^ 9) \<le> 2 ^ 63" for d
      using whole_part [OF units(5,11), of d "mins mod 60"] last that by simp
    have "sum_parts 0 (duration_magnitude u) = Some (hours * 3600000000000 + (mins mod 60) * 60000000000 + ((secs mod 60) * 10 ^ 9 + u mod 10 ^ 9))"
    proof (cases "0 < hours")
      case True
      then have "0 < mins" by (simp add: hours_def)
      then have "duration_magnitude u = dec_nat hours @ ''h'' @ dec_nat (mins mod 60) @ ''m'' @ dec_nat (secs mod 60) @ fraction 9 (u mod 1000000000) @ ''s''"
        using 5 True by (simp add: duration_magnitude_def Let_def secs_def mins_def hours_def)
      then show ?thesis using whole_part [OF units(6,12), of 0 hours] mid total u by simp
    next
      case h: False
      show ?thesis
      proof (cases "0 < mins")
        case True
        then have "duration_magnitude u = dec_nat (mins mod 60) @ ''m'' @ dec_nat (secs mod 60) @ fraction 9 (u mod 1000000000) @ ''s''"
          using 5 h by (simp add: duration_magnitude_def Let_def secs_def mins_def hours_def)
        then show ?thesis using mid [of 0] h total u by simp
      next
        case False
        then have "duration_magnitude u = dec_nat (secs mod 60) @ fraction 9 (u mod 1000000000) @ ''s''"
          using 5 h by (simp add: duration_magnitude_def Let_def secs_def mins_def hours_def)
        then show ?thesis using last [of 0] h False total u by simp
      qed
    qed
    then show ?thesis using total by simp
  qed
qed

lemma magnitude_starts: "starts_number (duration_magnitude u)" "duration_magnitude u \<noteq> []" "duration_magnitude u \<noteq> ''0''"
proof -
  have "starts_number ''0s''" by (simp add: starts_number_def is_digit_def)
  then show "starts_number (duration_magnitude u)" by (auto simp: duration_magnitude_def Let_def)
  show "duration_magnitude u \<noteq> []" by (simp add: duration_magnitude_def Let_def)
  have "last (duration_magnitude u) = CHR ''s''" by (auto simp: duration_magnitude_def Let_def)
  then show "duration_magnitude u \<noteq> ''0''" by auto
qed

lemma duration_reads:
  assumes "- (2 ^ 63) \<le> d" "d < 2 ^ 63"
  shows "parse_duration (duration_string d) = Some d"
proof (cases "d < 0")
  case True
  then show ?thesis using magnitude_reads [of "nat (- d)"] magnitude_starts [of "nat (- d)"] assms
    by (simp add: parse_duration_def duration_string_def)
next
  case False
  obtain c s where m: "duration_magnitude (nat d) = c # s" using magnitude_starts(2) by (cases "duration_magnitude (nat d)") auto
  then have "is_digit c" using magnitude_starts(1) [of "nat d"] by (simp add: starts_number_def)
  then have "c \<noteq> CHR ''-''" "c \<noteq> CHR ''+''" by (auto simp: is_digit_def)
  then show ?thesis using magnitude_reads [of "nat d"] magnitude_starts(2,3) [of "nat d"] assms False m
    by (auto simp: parse_duration_def duration_string_def Let_def)
qed

end
