(* ===== verification/StructJson.thy ===== *)
theory StructJson
  imports Json ApiTypes Durations
begin

text \<open>
  Go structs as JSON objects: what \<open>ToUnstructured\<close> of apimachinery makes of a value according to its \<open>json\<close> tags, and what
  reading the object over an existing value does (\<open>json.Unmarshal\<close> of apimachinery: keys are case sensitive, a member that is missing leaves the
  field as it is, unknown members are skipped). A codec has an encoder, which gives nothing for a field that \<open>omitempty\<close> drops, and a decoder that is given the old
  value and fails where Go reports a type error. The members of a table are in the order in which \<open>json.Marshal\<close> sorts the keys of a map.
\<close>

type_synonym 'a codec = "('a \<Rightarrow> json option) \<times> (json \<Rightarrow> 'a \<Rightarrow> 'a option)"
type_synonym 'a member = "string \<times> 'a codec"

abbreviation enc :: "'a codec \<Rightarrow> 'a \<Rightarrow> json option" where "enc \<equiv> fst"
abbreviation dec :: "'a codec \<Rightarrow> json \<Rightarrow> 'a \<Rightarrow> 'a option" where "dec \<equiv> snd"

subsection \<open>Values\<close>

text \<open>A value of a basic type: null leaves it as it is.\<close>

definition basic :: "('a \<Rightarrow> json) \<Rightarrow> (json \<Rightarrow> 'a option) \<Rightarrow> 'a codec" where
  "basic e d = (\<lambda>x. Some (e x), \<lambda>v y. if v = JNull then Some y else d v)"

definition omitempty :: "('a \<Rightarrow> bool) \<Rightarrow> 'a codec \<Rightarrow> 'a codec" where
  "omitempty z c = (\<lambda>x. if z x then None else enc c x, dec c)"

definition str_codec :: "string codec" where
  "str_codec = basic JStr (\<lambda>v. case v of JStr s \<Rightarrow> Some s | _ \<Rightarrow> None)"

definition bool_codec :: "bool codec" where
  "bool_codec = basic JBool (\<lambda>v. case v of JBool b \<Rightarrow> Some b | _ \<Rightarrow> None)"

definition int32_codec :: "int32 codec" where
  "int32_codec = basic (\<lambda>x. JInt (sint x)) (\<lambda>v. case v of JInt i \<Rightarrow> if - (2 ^ 31) \<le> i \<and> i < 2 ^ 31 then Some (word_of_int i) else None | _ \<Rightarrow> None)"

definition int64_codec :: "int codec" where
  "int64_codec = basic JInt (\<lambda>v. case v of JInt i \<Rightarrow> Some i | _ \<Rightarrow> None)"

text \<open>\<open>metav1.Duration\<close> is printed as a text.\<close>

definition duration_codec :: "int codec" where
  "duration_codec = basic (\<lambda>d. JStr (duration_string d)) (\<lambda>v. case v of JStr s \<Rightarrow> parse_duration s | _ \<Rightarrow> None)"

text \<open>A pointer: null makes it nil; an object is read over what it points to, or over the zero value \<open>z\<close>.\<close>

definition pointer :: "'a \<Rightarrow> 'a codec \<Rightarrow> 'a option codec" where
  "pointer z c = (\<lambda>x. case x of None \<Rightarrow> None | Some a \<Rightarrow> enc c a,
     \<lambda>v y. if v = JNull then Some None else map_option Some (dec c v (case y of None \<Rightarrow> z | Some b \<Rightarrow> b)))"

text \<open>A slice: elements are read over the elements it has.\<close>

fun dec_elems :: "'a codec \<Rightarrow> 'a \<Rightarrow> json list \<Rightarrow> 'a list \<Rightarrow> 'a list option" where
  "dec_elems c z [] ys = Some []"
| "dec_elems c z (v # vs) ys = (case dec c v (case ys of [] \<Rightarrow> z | y # _ \<Rightarrow> y) of None \<Rightarrow> None
     | Some x \<Rightarrow> map_option ((#) x) (dec_elems c z vs (tl ys)))"

definition slice :: "'a \<Rightarrow> 'a codec \<Rightarrow> 'a list codec" where
  "slice z c = (\<lambda>xs. if xs = [] then None else Some (JArr (List.map_filter (enc c) xs)),
     \<lambda>v ys. case v of JNull \<Rightarrow> Some [] | JArr vs \<Rightarrow> dec_elems c z vs ys | _ \<Rightarrow> None)"

text \<open>A map of strings: members are added to those it has.\<close>

fun dec_entries :: "(string \<times> json) list \<Rightarrow> labels \<Rightarrow> labels option" where
  "dec_entries [] m = Some m"
| "dec_entries ((k, v) # kvs) m = (case v of JStr s \<Rightarrow> dec_entries kvs (m(k \<mapsto> s)) | JNull \<Rightarrow> dec_entries kvs (m(k \<mapsto> [])) | _ \<Rightarrow> None)"

definition entries :: "labels \<Rightarrow> (string \<times> json) list" where
  "entries m = List.map (\<lambda>k. (k, JStr (case m k of None \<Rightarrow> [] | Some s \<Rightarrow> s))) (sorted_list_of_set (dom m))"

definition map_codec :: "labels codec" where
  "map_codec = (\<lambda>m. if dom m = {} then None else Some (JObj (entries m)),
     \<lambda>v m. case v of JNull \<Rightarrow> Some Map.empty | JObj kvs \<Rightarrow> dec_entries kvs m | _ \<Rightarrow> None)"

subsection \<open>Structs\<close>

definition member :: "string \<Rightarrow> ('a \<Rightarrow> 'b) \<Rightarrow> (('b \<Rightarrow> 'b) \<Rightarrow> 'a \<Rightarrow> 'a) \<Rightarrow> 'b codec \<Rightarrow> 'a member" where
  "member k get upd c = (k, \<lambda>a. enc c (get a), \<lambda>v a. map_option (\<lambda>x. upd (\<lambda>_. x) a) (dec c v (get a)))"

definition members :: "'a member list \<Rightarrow> 'a \<Rightarrow> (string \<times> json) list" where
  "members ms a = List.map_filter (\<lambda>(k, c). map_option (Pair k) (enc c a)) ms"

fun dec_members :: "'a member list \<Rightarrow> (string \<times> json) list \<Rightarrow> 'a \<Rightarrow> 'a option" where
  "dec_members ms [] a = Some a"
| "dec_members ms ((k, v) # kvs) a = (case map_of ms k of None \<Rightarrow> dec_members ms kvs a
     | Some c \<Rightarrow> (case dec c v a of None \<Rightarrow> None | Some b \<Rightarrow> dec_members ms kvs b))"

definition struct :: "'a member list \<Rightarrow> 'a codec" where
  "struct ms = (\<lambda>a. Some (JObj (members ms a)), \<lambda>v a. case v of JNull \<Rightarrow> Some a | JObj kvs \<Rightarrow> dec_members ms kvs a | _ \<Rightarrow> None)"

subsection \<open>Reading back over a value\<close>

text \<open>\<open>over c x y z\<close>: what the encoder makes of \<open>x\<close> is well formed and, read over \<open>y\<close>, gives \<open>z\<close>.\<close>

definition over :: "'a codec \<Rightarrow> 'a \<Rightarrow> 'a \<Rightarrow> 'a \<Rightarrow> bool" where
  "over c x y z \<longleftrightarrow> (case enc c x of None \<Rightarrow> z = y | Some v \<Rightarrow> plain v \<and> dec c v y = Some z)"

text \<open>The same for the members of a struct, one after the other.\<close>

fun overs :: "'a member list \<Rightarrow> 'a \<Rightarrow> 'a \<Rightarrow> 'a \<Rightarrow> bool" where
  "overs [] a b c \<longleftrightarrow> c = b"
| "overs (m # ms) a b c \<longleftrightarrow> (\<exists>b'. over (snd m) a b b' \<and> overs ms a b' c)"

lemma overs_dec:
  assumes "overs ms a b c" "distinct (List.map fst (pre @ ms))"
  shows "dec_members (pre @ ms) (members ms a) b = Some c \<and> (\<forall>(k, v) \<in> set (members ms a). plain v)"
  using assms
proof (induction ms arbitrary: b pre)
  case Nil
  then show ?case by (simp add: members_def)
next
  case (Cons m ms)
  obtain k co where m: "m = (k, co)" by (cases m)
  obtain b' where b': "over co a b b'" "overs ms a b' c" using Cons.prems(1) m by auto
  have "dec_members ((pre @ [m]) @ ms) (members ms a) b' = Some c \<and> (\<forall>(k, v) \<in> set (members ms a). plain v)"
    using Cons.IH [OF b'(2), of "pre @ [m]"] Cons.prems(2) by simp
  then have rest: "dec_members (pre @ m # ms) (members ms a) b' = Some c" "\<forall>(k, v) \<in> set (members ms a). plain v" by simp_all
  have k: "map_of (pre @ m # ms) k = Some co"
    using Cons.prems(2) m by (force simp: map_add_def dest: map_of_SomeD split: option.splits)
  show ?case
  proof (cases "enc co a")
    case None
    then show ?thesis using rest b'(1) m by (simp add: members_def over_def)
  next
    case (Some v)
    then have "members (m # ms) a = (k, v) # members ms a" "plain v" "dec co v b = Some b'" using m b'(1) by (simp_all add: members_def over_def)
    then show ?thesis using rest k by simp
  qed
qed

lemma dec_overs:
  assumes "dec_members (pre @ ms) (members ms a) b = Some c" "distinct (List.map fst (pre @ ms))" "\<forall>(k, v) \<in> set (members ms a). plain v"
  shows "overs ms a b c"
  using assms
proof (induction ms arbitrary: b pre)
  case Nil
  then show ?case by (simp add: members_def)
next
  case (Cons m ms)
  obtain k co where m: "m = (k, co)" by (cases m)
  have k: "map_of (pre @ m # ms) k = Some co"
    using Cons.prems(2) m by (force simp: map_add_def dest: map_of_SomeD split: option.splits)
  obtain b' where b': "over co a b b'" "dec_members (pre @ m # ms) (members ms a) b' = Some c" "\<forall>(k, v) \<in> set (members ms a). plain v"
  proof (cases "enc co a")
    case None
    then show thesis using that [of b] Cons.prems m by (simp add: members_def over_def)
  next
    case (Some v)
    then have e: "members (m # ms) a = (k, v) # members ms a" using m by (simp add: members_def)
    then obtain b' where "dec co v b = Some b'" "dec_members (pre @ m # ms) (members ms a) b' = Some c"
      using Cons.prems(1) k by (auto split: option.splits)
    then show thesis using that [of b'] Some e Cons.prems(3) by (simp add: over_def)
  qed
  then have "overs ms a b' c" using Cons.IH [of "pre @ [m]" b'] Cons.prems(2) by simp
  then show ?case using b'(1) m by auto
qed

lemma members_keys: "fst ` set (members ms a) \<subseteq> fst ` set ms"
  by (force simp: members_def map_filter_def)

lemma distinct_members: "distinct (List.map fst ms) \<Longrightarrow> distinct (List.map fst (members ms a))"
proof (induction ms)
  case (Cons m ms)
  obtain k co where m: "m = (k, co)" by (cases m)
  then show ?case using Cons members_keys [of ms a] by (auto simp: members_def split: option.splits)
qed (simp add: members_def)

lemma over_struct: "distinct (List.map fst ms) \<Longrightarrow> overs ms a b c \<Longrightarrow> over (struct ms) a b c"
  using overs_dec [of ms a b c "[]"] distinct_members [of ms a] by (simp add: over_def struct_def)

lemma struct_over: "distinct (List.map fst ms) \<Longrightarrow> over (struct ms) a b c \<Longrightarrow> overs ms a b c"
  using dec_overs [of "[]" ms a b c] by (auto simp: over_def struct_def)

text \<open>One member: the field gets the value that its codec gives, the others stay.\<close>

lemma overs_member:
  assumes "over c (get a) (get b) x" "upd (\<lambda>_. get b) b = b" "overs ms a (upd (\<lambda>_. x) b) r"
  shows "overs (member k get upd c # ms) a b r"
proof -
  have "over (snd (member k get upd c)) a b (upd (\<lambda>_. x) b)"
    using assms(1,2) by (auto simp: over_def member_def split: option.splits)
  then show ?thesis using assms(3) by auto
qed

lemma overs_same:
  assumes "over c (get a) (get b) (get a)" "upd (\<lambda>_. get b) b = b" "overs ms a (upd (\<lambda>_. get a) b) r"
  shows "overs (member k get upd c # ms) a b r"
  using assms by (rule overs_member)

lemma overs_memberD:
  assumes "overs (member k get upd c # ms) a b r" "upd (\<lambda>_. get b) b = b"
  shows "\<exists>x. over c (get a) (get b) x \<and> overs ms a (upd (\<lambda>_. x) b) r"
proof -
  obtain b' where b': "over (snd (member k get upd c)) a b b'" "overs ms a b' r" using assms(1) by auto
  have "\<exists>x. over c (get a) (get b) x \<and> b' = upd (\<lambda>_. x) b"
    using b'(1) assms(2) by (auto simp: over_def member_def split: option.splits)
  then show ?thesis using b'(2) by blast
qed

lemma fst_member [simp]: "fst (member k get upd c) = k"
  by (simp add: member_def)

lemma overs_Cons: "over c a b b' \<Longrightarrow> overs ms a b' r \<Longrightarrow> overs ((k, c) # ms) a b r"
  by auto

declare overs.simps(2) [simp del]

text \<open>The values.\<close>

lemma over_basic: "over (basic e d) x y z \<longleftrightarrow> plain (e x) \<and> (if e x = JNull then z = y else d (e x) = Some z)"
  by (auto simp: over_def basic_def)

lemma over_omitempty: "over (omitempty p c) x y z \<longleftrightarrow> (if p x then z = y else over c x y z)"
  by (auto simp: over_def omitempty_def split: option.splits)

lemma over_str [simp]: "over str_codec x y z \<longleftrightarrow> z = x"
  by (auto simp: str_codec_def over_basic)

lemma over_bool [simp]: "over bool_codec x y z \<longleftrightarrow> z = x"
  by (auto simp: bool_codec_def over_basic)

lemma sint32: "- (2 ^ 31) \<le> sint (x :: int32)" "sint (x :: int32) < 2 ^ 31"
  using sint_ge [of x] sint_lt [of x] by simp_all

lemma over_int32 [simp]: "over int32_codec x y z \<longleftrightarrow> z = x"
  using sint32 [of x] by (auto simp: int32_codec_def over_basic)

lemma over_int64: "\<bar>x\<bar> \<le> 2 ^ 53 \<Longrightarrow> over int64_codec x y x"
  by (simp add: int64_codec_def over_basic)

lemma over_duration: "- (2 ^ 63) \<le> d \<Longrightarrow> d < 2 ^ 63 \<Longrightarrow> over duration_codec d y d"
  by (simp add: duration_codec_def over_basic duration_reads)

lemma over_pointer_None [simp]: "over (pointer z c) None y r \<longleftrightarrow> r = y"
  by (auto simp: pointer_def over_def)

lemma over_pointer_Some:
  assumes "over c x (case y of None \<Rightarrow> z | Some b \<Rightarrow> b) x" "enc c x \<noteq> None" "enc c x \<noteq> Some JNull"
  shows "over (pointer z c) (Some x) y (Some x)"
  using assms by (auto simp: pointer_def over_def)

lemma over_slice:
  assumes "\<And>i. i < length xs \<Longrightarrow> enc c (xs ! i) \<noteq> None \<and> over c (xs ! i) (if i < length ys then ys ! i else z) (xs ! i)" "xs = [] \<Longrightarrow> ys = []"
  shows "over (slice z c) xs ys xs"
proof (cases "xs = []")
  case False
  have "dec_elems c z (List.map_filter (enc c) xs) ys = Some xs \<and> (\<forall>v \<in> set (List.map_filter (enc c) xs). plain v)"
    using assms(1)
  proof (induction xs arbitrary: ys)
    case (Cons x xs)
    obtain v where v: "enc c x = Some v" using Cons.prems [of 0] by (cases "enc c x") auto
    have "over c x (case ys of [] \<Rightarrow> z | y # _ \<Rightarrow> y) x" using Cons.prems [of 0] by (cases ys) simp_all
    moreover have "enc c (xs ! i) \<noteq> None \<and> over c (xs ! i) (if i < length (tl ys) then tl ys ! i else z) (xs ! i)" if "i < length xs" for i
      using Cons.prems [of "Suc i"] that by (auto simp: nth_tl less_diff_conv split: if_splits)
    ultimately show ?case using Cons.IH [of "tl ys"] v by (simp add: over_def)
  qed simp
  then show ?thesis using False by (simp add: over_def slice_def)
qed (use assms(2) in \<open>simp add: over_def slice_def\<close>)

lemma over_slice_same: "(\<And>x. x \<in> set xs \<Longrightarrow> enc c x \<noteq> None \<and> over c x x x) \<Longrightarrow> over (slice z c) xs xs xs"
  by (rule over_slice) auto

lemma over_slice_fresh: "(\<And>x. x \<in> set xs \<Longrightarrow> enc c x \<noteq> None \<and> over c x z x) \<Longrightarrow> over (slice z c) xs [] xs"
  by (rule over_slice) auto

lemma dec_entries_same: "\<forall>k \<in> set ks. m k = Some (f k) \<Longrightarrow> dec_entries (List.map (\<lambda>k. (k, JStr (f k))) ks) m = Some m"
  by (induction ks) (auto simp: fun_upd_idem)

lemma over_map: "finite (dom m) \<Longrightarrow> over map_codec m m m"
proof -
  assume f: "finite (dom m)"
  have "dec_entries (entries m) m = Some m" unfolding entries_def
    by (rule dec_entries_same) (use f in \<open>auto split: option.splits\<close>)
  moreover have "plain (JObj (entries m))" using f by (auto simp: entries_def comp_def)
  ultimately show ?thesis by (simp add: over_def map_codec_def)
qed

end
