(* ===== verification/ConversionTypes.thy ===== *)
theory ConversionTypes
  imports StructJson
begin

text \<open>
  The older versions of both API groups, \<open>controlplane/api/v1alpha2\<close> and \<open>bootstrap/api/v1alpha1\<close>, with one record field per struct field,
  and their JSON tables, from the tags of the types. Values of third-party types (proxies, disk encryption, label selectors) are
  written and read by parameters. As elsewhere, the transition time of a condition is not kept, and a nil slice or map is an empty one.
\<close>

text \<open>
  What is not in the source: the JSON of third-party types by their name, the text of a float (for literals beyond 53 bits), and the conversion of a duration to \<open>int32\<close> seconds where Go
  leaves the result to the implementation or rounds a float.
\<close>

record json_lib =
  third_enc :: "string \<Rightarrow> opaque \<Rightarrow> json"
  third_dec :: "string \<Rightarrow> json \<Rightarrow> opaque \<Rightarrow> opaque option"
  json_float :: "string \<Rightarrow> string option"
  far_seconds :: "int \<Rightarrow> int32"

definition third :: "json_lib \<Rightarrow> string \<Rightarrow> opaque codec" where
  "third J t = (\<lambda>x. Some (third_enc J t x), third_dec J t)"

text \<open>Reading the JSON of a third-party value over the same value leaves it as it is.\<close>

definition lawful :: "json_lib \<Rightarrow> bool" where
  "lawful J \<longleftrightarrow> (\<forall>t x. plain (third_enc J t x) \<and> third_enc J t x \<noteq> JNull \<and> third_dec J t (third_enc J t x) x = Some x)"

subsection \<open>Shared pieces\<close>

abbreviation opt_str :: "string codec" where "opt_str \<equiv> omitempty (\<lambda>s. s = []) str_codec"
abbreviation opt_bool :: "bool codec" where "opt_bool \<equiv> omitempty (\<lambda>b. \<not> b) bool_codec"
abbreviation strs :: "string list codec" where "strs \<equiv> slice [] str_codec"

record object_ref =
  ob_kind :: string
  ob_namespace :: string
  ob_name :: string
  ob_uid :: string
  ob_apiVersion :: string
  ob_resourceVersion :: string
  ob_fieldPath :: string

definition empty_object_ref :: object_ref where
  "empty_object_ref = \<lparr>ob_kind = [], ob_namespace = [], ob_name = [], ob_uid = [], ob_apiVersion = [], ob_resourceVersion = [], ob_fieldPath = []\<rparr>"

definition object_ref_members :: "object_ref member list" where
  "object_ref_members = [member ''apiVersion'' ob_apiVersion ob_apiVersion_update opt_str, member ''fieldPath'' ob_fieldPath ob_fieldPath_update opt_str,
     member ''kind'' ob_kind ob_kind_update opt_str, member ''name'' ob_name ob_name_update opt_str,
     member ''namespace'' ob_namespace ob_namespace_update opt_str, member ''resourceVersion'' ob_resourceVersion ob_resourceVersion_update opt_str,
     member ''uid'' ob_uid ob_uid_update opt_str]"

text \<open>\<open>LocalObjectReference\<close>, \<open>ManifestsConfigMapReference\<close> and \<open>MachineNetworkEntry\<close> have one field each.\<close>

definition local_ref :: "string codec" where
  "local_ref = struct [member ''name'' (\<lambda>s. s) (\<lambda>f. f) opt_str]"

definition wrapped :: "string \<Rightarrow> string codec" where
  "wrapped k = struct [member k (\<lambda>s. s) (\<lambda>f. f) str_codec]"

definition kernel_argument :: "(string \<times> string) codec" where
  "kernel_argument = struct [member ''operation'' fst apfst opt_str, member ''value'' snd apsnd opt_str]"

fun status_text :: "cond_status \<Rightarrow> string" where
  "status_text CTrue = ''True''" | "status_text CFalse = ''False''" | "status_text CUnknown = ''Unknown''"

definition status_codec :: "cond_status codec" where
  "status_codec = basic (\<lambda>x. JStr (status_text x)) (\<lambda>v. map_of [(JStr ''True'', CTrue), (JStr ''False'', CFalse), (JStr ''Unknown'', CUnknown)] v)"

definition condition_members :: "v1_condition member list" where
  "condition_members = [member ''message'' vc_message vc_message_update opt_str, member ''reason'' vc_reason vc_reason_update opt_str,
     member ''severity'' vc_severity vc_severity_update opt_str, member ''status'' vc_status vc_status_update status_codec,
     member ''type'' vc_type vc_type_update str_codec]"

definition empty_v1_condition :: v1_condition where
  "empty_v1_condition = \<lparr>vc_type = [], vc_status = CUnknown, vc_severity = [], vc_reason = [], vc_message = []\<rparr>"

text \<open>The \<open>ObjectMeta\<close> of a template: labels and annotations.\<close>

record template_meta =
  tm_labels :: labels
  tm_annotations :: labels

definition template_meta_members :: "template_meta member list" where
  "template_meta_members = [member ''annotations'' tm_annotations tm_annotations_update map_codec, member ''labels'' tm_labels tm_labels_update map_codec]"

subsection \<open>Bootstrap API, v1alpha1\<close>

record node_registration1 =
  nr1_name :: string
  nr1_kubeletExtraLabels :: "string list"

record oac_spec1 =
  o1_proxy :: "opaque option"
  o1_pullSecretRef :: "string option"
  o1_additionalNTPSources :: "string list"
  o1_sshAuthorizedKey :: string
  o1_nmStateConfigLabelSelector :: opaque
  o1_cpuArchitecture :: string
  o1_kernelArguments :: "(string \<times> string) list"
  o1_additionalTrustBundle :: string
  o1_osImageVersion :: string
  o1_nodeRegistration :: node_registration1

definition node_registration_members :: "node_registration1 member list" where
  "node_registration_members = [member ''kubeletExtraLabels'' nr1_kubeletExtraLabels nr1_kubeletExtraLabels_update strs,
     member ''name'' nr1_name nr1_name_update opt_str]"

definition oac_spec1_members :: "json_lib \<Rightarrow> oac_spec1 member list" where
  "oac_spec1_members J = [member ''additionalNTPSources'' o1_additionalNTPSources o1_additionalNTPSources_update strs,
     member ''additionalTrustBundle'' o1_additionalTrustBundle o1_additionalTrustBundle_update opt_str,
     member ''cpuArchitecture'' o1_cpuArchitecture o1_cpuArchitecture_update opt_str,
     member ''kernelArguments'' o1_kernelArguments o1_kernelArguments_update (slice ([], []) kernel_argument),
     member ''nmStateConfigLabelSelector'' o1_nmStateConfigLabelSelector o1_nmStateConfigLabelSelector_update (third J ''metav1.LabelSelector''),
     member ''nodeRegistration'' o1_nodeRegistration o1_nodeRegistration_update (struct node_registration_members),
     member ''osImageVersion'' o1_osImageVersion o1_osImageVersion_update opt_str,
     member ''proxy'' o1_proxy o1_proxy_update (pointer [] (third J ''aiv1beta1.Proxy'')),
     member ''pullSecretRef'' o1_pullSecretRef o1_pullSecretRef_update (pointer [] local_ref),
     member ''sshAuthorizedKey'' o1_sshAuthorizedKey o1_sshAuthorizedKey_update opt_str]"

record oac_status1 =
  os1_infraEnvRef :: "object_ref option"
  os1_agentRef :: "string option"
  os1_ready :: bool
  os1_dataSecretName :: "string option"
  os1_failureReason :: string
  os1_failureMessage :: string
  os1_observedGeneration :: int
  os1_conditions :: "v1_condition list"

definition oac_status1_members :: "oac_status1 member list" where
  "oac_status1_members = [member ''agentRef'' os1_agentRef os1_agentRef_update (pointer [] local_ref),
     member ''conditions'' os1_conditions os1_conditions_update (slice empty_v1_condition (struct condition_members)),
     member ''dataSecretName'' os1_dataSecretName os1_dataSecretName_update (pointer [] str_codec),
     member ''failureMessage'' os1_failureMessage os1_failureMessage_update opt_str,
     member ''failureReason'' os1_failureReason os1_failureReason_update opt_str,
     member ''infraEnvRef'' os1_infraEnvRef os1_infraEnvRef_update (pointer empty_object_ref (struct object_ref_members)),
     member ''observedGeneration'' os1_observedGeneration os1_observedGeneration_update (omitempty (\<lambda>i. i = 0) int64_codec),
     member ''ready'' os1_ready os1_ready_update bool_codec]"

record oac1 =
  oac1_apiVersion :: string
  oac1_kind :: string
  oac1_meta :: object_meta
  oac1_spec :: oac_spec1
  oac1_status :: oac_status1

definition oac1_members :: "json_lib \<Rightarrow> oac1 member list" where
  "oac1_members J = [member ''apiVersion'' oac1_apiVersion oac1_apiVersion_update opt_str, member ''kind'' oac1_kind oac1_kind_update opt_str,
     member ''spec'' oac1_spec oac1_spec_update (struct (oac_spec1_members J)), member ''status'' oac1_status oac1_status_update (struct oac_status1_members)]"

record oac_template1 =
  ot1_apiVersion :: string
  ot1_kind :: string
  ot1_meta :: object_meta
  ot1_templateMeta :: template_meta
  ot1_spec :: oac_spec1

text \<open>The template is nested: \<open>spec.template\<close> has the metadata and the spec; the status has no fields.\<close>

definition oac_template1_members :: "json_lib \<Rightarrow> oac_template1 member list" where
  "oac_template1_members J = [member ''apiVersion'' ot1_apiVersion ot1_apiVersion_update opt_str, member ''kind'' ot1_kind ot1_kind_update opt_str,
     (''spec'', struct [(''template'', struct [member ''metadata'' ot1_templateMeta ot1_templateMeta_update (struct template_meta_members),
       member ''spec'' ot1_spec ot1_spec_update (struct (oac_spec1_members J))])]),
     (''status'', struct [])]"

subsection \<open>Control plane API, v1alpha2\<close>

record config2 =
  c2_apiVIPs :: "string list"
  c2_ingressVIPs :: "string list"
  c2_manifestsConfigMapRefs :: "string list"
  c2_diskEncryption :: "opaque option"
  c2_proxy :: "opaque option"
  c2_mastersSchedulable :: bool
  c2_networkType :: string
  c2_machineNetwork :: "string list"
  c2_sshAuthorizedKey :: string
  c2_clusterName :: string
  c2_baseDomain :: string
  c2_pullSecretRef :: "string option"
  c2_imageRegistryRef :: "string option"
  c2_capabilities :: capabilities

definition capabilities_members :: "capabilities member list" where
  "capabilities_members = [member ''additionalEnabledCapabilities'' cap_additionalEnabledCapabilities cap_additionalEnabledCapabilities_update strs,
     member ''baselineCapability'' cap_baselineCapability cap_baselineCapability_update opt_str]"

definition config2_members :: "json_lib \<Rightarrow> config2 member list" where
  "config2_members J = [member ''apiVIPs'' c2_apiVIPs c2_apiVIPs_update strs, member ''baseDomain'' c2_baseDomain c2_baseDomain_update str_codec,
     member ''capabilities'' c2_capabilities c2_capabilities_update (struct capabilities_members),
     member ''clusterName'' c2_clusterName c2_clusterName_update str_codec,
     member ''diskEncryption'' c2_diskEncryption c2_diskEncryption_update (pointer [] (third J ''hiveext.DiskEncryption'')),
     member ''imageRegistryRef'' c2_imageRegistryRef c2_imageRegistryRef_update (pointer [] local_ref),
     member ''ingressVIPs'' c2_ingressVIPs c2_ingressVIPs_update strs,
     member ''machineNetwork'' c2_machineNetwork c2_machineNetwork_update (slice [] (wrapped ''cidr'')),
     member ''manifestsConfigMapRefs'' c2_manifestsConfigMapRefs c2_manifestsConfigMapRefs_update (slice [] (wrapped ''name'')),
     member ''mastersSchedulable'' c2_mastersSchedulable c2_mastersSchedulable_update opt_bool,
     member ''networkType'' c2_networkType c2_networkType_update opt_str,
     member ''proxy'' c2_proxy c2_proxy_update (pointer [] (third J ''hiveext.Proxy'')),
     member ''pullSecretRef'' c2_pullSecretRef c2_pullSecretRef_update (pointer [] local_ref),
     member ''sshAuthorizedKey'' c2_sshAuthorizedKey c2_sshAuthorizedKey_update opt_str]"

text \<open>The timeouts are nanoseconds.\<close>

record machine_template2 =
  t2_meta :: template_meta
  t2_infrastructureRef :: object_ref
  t2_nodeDrainTimeout :: "int option"
  t2_nodeVolumeDetachTimeout :: "int option"
  t2_nodeDeletionTimeout :: "int option"

definition machine_template2_members :: "machine_template2 member list" where
  "machine_template2_members = [member ''infrastructureRef'' t2_infrastructureRef t2_infrastructureRef_update (struct object_ref_members),
     member ''metadata'' t2_meta t2_meta_update (struct template_meta_members),
     member ''nodeDeletionTimeout'' t2_nodeDeletionTimeout t2_nodeDeletionTimeout_update (pointer 0 duration_codec),
     member ''nodeDrainTimeout'' t2_nodeDrainTimeout t2_nodeDrainTimeout_update (pointer 0 duration_codec),
     member ''nodeVolumeDetachTimeout'' t2_nodeVolumeDetachTimeout t2_nodeVolumeDetachTimeout_update (pointer 0 duration_codec)]"

record spec2 =
  s2_config :: config2
  s2_machineTemplate :: machine_template2
  s2_oacSpec :: oac_spec1
  s2_replicas :: int32
  s2_distributionVersion :: string

definition spec2_members :: "json_lib \<Rightarrow> spec2 member list" where
  "spec2_members J = [member ''config'' s2_config s2_config_update (struct (config2_members J)),
     member ''distributionVersion'' s2_distributionVersion s2_distributionVersion_update str_codec,
     member ''machineTemplate'' s2_machineTemplate s2_machineTemplate_update (struct machine_template2_members),
     member ''openshiftAssistedConfigSpec'' s2_oacSpec s2_oacSpec_update (struct (oac_spec1_members J)),
     member ''replicas'' s2_replicas s2_replicas_update (omitempty (\<lambda>n. n = 0) int32_codec)]"

record status2 =
  st2_clusterDeploymentRef :: "object_ref option"
  st2_selector :: string
  st2_replicas :: int32
  st2_version :: "string option"
  st2_distributionVersion :: string
  st2_updatedReplicas :: int32
  st2_readyReplicas :: int32
  st2_unavailableReplicas :: int32
  st2_initialized :: bool
  st2_ready :: bool
  st2_failureReason :: "string option"
  st2_failureMessage :: "string option"
  st2_conditions :: "v1_condition list"

definition status2_members :: "status2 member list" where
  "status2_members = [
     member ''clusterDeploymentRef'' st2_clusterDeploymentRef st2_clusterDeploymentRef_update (pointer empty_object_ref (struct object_ref_members)),
     member ''conditions'' st2_conditions st2_conditions_update (slice empty_v1_condition (struct condition_members)),
     member ''distributionVersion'' st2_distributionVersion st2_distributionVersion_update opt_str,
     member ''failureMessage'' st2_failureMessage st2_failureMessage_update (pointer [] str_codec),
     member ''failureReason'' st2_failureReason st2_failureReason_update (pointer [] str_codec),
     member ''initialized'' st2_initialized st2_initialized_update bool_codec, member ''ready'' st2_ready st2_ready_update bool_codec,
     member ''readyReplicas'' st2_readyReplicas st2_readyReplicas_update int32_codec, member ''replicas'' st2_replicas st2_replicas_update int32_codec,
     member ''selector'' st2_selector st2_selector_update opt_str,
     member ''unavailableReplicas'' st2_unavailableReplicas st2_unavailableReplicas_update int32_codec,
     member ''updatedReplicas'' st2_updatedReplicas st2_updatedReplicas_update int32_codec,
     member ''version'' st2_version st2_version_update (pointer [] str_codec)]"

record oacp2 =
  cp2_apiVersion :: string
  cp2_kind :: string
  cp2_meta :: object_meta
  cp2_spec :: spec2
  cp2_status :: status2

definition oacp2_members :: "json_lib \<Rightarrow> oacp2 member list" where
  "oacp2_members J = [member ''apiVersion'' cp2_apiVersion cp2_apiVersion_update opt_str, member ''kind'' cp2_kind cp2_kind_update opt_str,
     member ''spec'' cp2_spec cp2_spec_update (struct (spec2_members J)), member ''status'' cp2_status cp2_status_update (struct status2_members)]"

subsection \<open>What reads back\<close>

lemma over_status [simp]: "over status_codec x y z \<longleftrightarrow> z = x"
  by (cases x) (auto simp: status_codec_def over_basic)

lemma over_local_ref: "over local_ref x y (if x = [] then y else x)"
  unfolding local_ref_def by (rule over_struct, simp, rule overs_member [where x = "if x = [] then y else x"]) (simp_all add: over_omitempty)

lemma over_wrapped: "over (wrapped k) x y x"
  unfolding wrapped_def by (rule over_struct, simp, rule overs_same) simp_all

lemma over_third: "lawful J \<Longrightarrow> over (third J t) x x x"
  by (simp add: over_def third_def lawful_def)

lemma enc_simps [simp]: "enc (struct ms) a = Some (JObj (members ms a))" "enc (third J t) x = Some (third_enc J t x)" "enc str_codec s = Some (JStr s)"
  "enc duration_codec d = Some (JStr (duration_string d))" "enc local_ref s = Some (JObj (members [member ''name'' (\<lambda>s. s) (\<lambda>f. f) opt_str] s))"
  "enc (wrapped k) s = Some (JObj (members [member k (\<lambda>s. s) (\<lambda>f. f) str_codec] s))"
  "enc kernel_argument p = Some (JObj (members [member ''operation'' fst apfst opt_str, member ''value'' snd apsnd opt_str] p))"
  by (simp_all add: struct_def third_def str_codec_def basic_def duration_codec_def local_ref_def wrapped_def kernel_argument_def)

end
