(* ===== verification/Conversion.thy ===== *)
theory Conversion
  imports ConversionTypes
begin

text \<open>
  The conversions between the older API versions and the stored ones, \<open>controlplane/api/v1alpha2/conversion.go\<close> and
  \<open>bootstrap/api/v1alpha1/conversion.go\<close>, with \<open>MarshalData\<close> and \<open>UnmarshalData\<close> of Cluster API, which keep the older object as JSON in an
  annotation of the stored one. Copying \<open>ObjectMeta\<close> shares the map of annotations, so what \<open>UnmarshalData\<close> deletes is
  gone from both objects. Marshalling cannot fail for these types.
\<close>

subsection \<open>The annotation\<close>

definition MarshalData :: "'a member list \<Rightarrow> 'a \<Rightarrow> object_meta \<Rightarrow> object_meta" where
  "MarshalData ms src m = m\<lparr>m_annotations := (m_annotations m)(DataAnnotation \<mapsto> json_text (JObj (members ms src)))\<rparr>"

definition UnmarshalData :: "json_lib \<Rightarrow> 'a member list \<Rightarrow> object_meta \<Rightarrow> 'a \<Rightarrow> 'a option" where
  "UnmarshalData J ms m dst = (case m_annotations m DataAnnotation of
     None \<Rightarrow> Some dst
   | Some data \<Rightarrow> (case parse_json (json_float J) data of None \<Rightarrow> None | Some v \<Rightarrow> dec (struct ms) v dst))"

definition without_data :: "object_meta \<Rightarrow> object_meta" where
  "without_data m = m\<lparr>m_annotations := (m_annotations m)(DataAnnotation := None)\<rparr>"

subsection \<open>Pieces\<close>

text \<open>
  \<open>int32(d.Seconds())\<close>: below 97 days the float is close enough to be cut to the whole seconds; beyond, rounding may
  reach the next second, and beyond 32 bits the result is that of the machine.
\<close>

definition durationToSeconds :: "json_lib \<Rightarrow> int option \<Rightarrow> int32 option" where
  "durationToSeconds J d = map_option (\<lambda>n. if \<bar>n\<bar> < 2 ^ 23 * 1000000000 then word_of_int (sgn n * (\<bar>n\<bar> div 1000000000)) else far_seconds J n) d"

definition secondsToDuration :: "int32 option \<Rightarrow> int option" where
  "secondsToDuration s = map_option (\<lambda>n. sint n * 1000000000) s"

definition convertObjectRefToContractVersionedRef :: "object_ref \<Rightarrow> contract_ref" where
  "convertObjectRefToContractVersionedRef r = \<lparr>
     cr_apiGroup = (case str_split CHR ''/'' (ob_apiVersion r) of [g, v] \<Rightarrow> g | _ \<Rightarrow> []), cr_kind = ob_kind r, cr_name = ob_name r\<rparr>"

definition convertContractVersionedRefToObjectRef :: "contract_ref \<Rightarrow> object_ref" where
  "convertContractVersionedRefToObjectRef r = empty_object_ref\<lparr>ob_kind := cr_kind r, ob_name := cr_name r,
     ob_apiVersion := (if cr_apiGroup r \<noteq> [] then cr_apiGroup r @ ''/v1beta1'' else [])\<rparr>"

definition convertV1Beta1ConditionsToMetav1 :: "v1_condition list \<Rightarrow> condition list" where
  "convertV1Beta1ConditionsToMetav1 cs = List.map (\<lambda>c. mk_condition (vc_type c) (vc_status c)
     (if vc_reason c = [] then ''Unknown'' else vc_reason c) (vc_message c)) cs"

definition info_condition :: "condition \<Rightarrow> v1_condition" where
  "info_condition c = \<lparr>vc_type = c_type c, vc_status = c_status c, vc_severity = ''Info'', vc_reason = c_reason c, vc_message = c_message c\<rparr>"

text \<open>\<open>convertObjectMetaToV1Beta2\<close> and its inverse copy labels and annotations.\<close>

definition convertObjectMetaToV1Beta2 :: "template_meta \<Rightarrow> machine_template \<Rightarrow> machine_template" where
  "convertObjectMetaToV1Beta2 m t = t\<lparr>mt_labels := tm_labels m, mt_annotations := tm_annotations m\<rparr>"

definition convertObjectMetaFromV1Beta2 :: "machine_template \<Rightarrow> template_meta \<Rightarrow> template_meta" where
  "convertObjectMetaFromV1Beta2 t m = m\<lparr>tm_labels := mt_labels t, tm_annotations := mt_annotations t\<rparr>"

definition convertBootstrapConfigSpecToV1Alpha2 :: "oac_spec1 \<Rightarrow> oac_spec \<Rightarrow> oac_spec" where
  "convertBootstrapConfigSpecToV1Alpha2 a b = b\<lparr>oac_proxy := o1_proxy a, oac_pullSecretRef := o1_pullSecretRef a,
     oac_additionalNTPSources := o1_additionalNTPSources a, oac_sshAuthorizedKey := o1_sshAuthorizedKey a,
     oac_nmStateConfigLabelSelector := o1_nmStateConfigLabelSelector a, oac_cpuArchitecture := o1_cpuArchitecture a,
     oac_kernelArguments := o1_kernelArguments a, oac_additionalTrustBundle := o1_additionalTrustBundle a, oac_osImageVersion := o1_osImageVersion a,
     oac_nodeRegistration := empty_node_registration\<lparr>nr_name := nr1_name (o1_nodeRegistration a),
       nr_kubeletExtraLabels := nr1_kubeletExtraLabels (o1_nodeRegistration a)\<rparr>\<rparr>"

definition convertBootstrapConfigSpecFromV1Alpha2 :: "oac_spec \<Rightarrow> oac_spec1 \<Rightarrow> oac_spec1" where
  "convertBootstrapConfigSpecFromV1Alpha2 a b = b\<lparr>o1_proxy := oac_proxy a, o1_pullSecretRef := oac_pullSecretRef a,
     o1_additionalNTPSources := oac_additionalNTPSources a, o1_sshAuthorizedKey := oac_sshAuthorizedKey a,
     o1_nmStateConfigLabelSelector := oac_nmStateConfigLabelSelector a, o1_cpuArchitecture := oac_cpuArchitecture a,
     o1_kernelArguments := oac_kernelArguments a, o1_additionalTrustBundle := oac_additionalTrustBundle a, o1_osImageVersion := oac_osImageVersion a,
     o1_nodeRegistration := \<lparr>nr1_name = nr_name (oac_nodeRegistration a), nr1_kubeletExtraLabels = nr_kubeletExtraLabels (oac_nodeRegistration a)\<rparr>\<rparr>"

subsection \<open>Control plane\<close>

definition config_to_hub :: "config2 \<Rightarrow> oacp_config" where
  "config_to_hub c = empty_config\<lparr>cfg_apiVIPs := c2_apiVIPs c, cfg_ingressVIPs := c2_ingressVIPs c, cfg_manifestsConfigMapRefs := c2_manifestsConfigMapRefs c,
     cfg_diskEncryption := c2_diskEncryption c, cfg_proxy := c2_proxy c, cfg_mastersSchedulable := c2_mastersSchedulable c,
     cfg_networkType := c2_networkType c, cfg_machineNetwork := c2_machineNetwork c, cfg_sshAuthorizedKey := c2_sshAuthorizedKey c,
     cfg_clusterName := c2_clusterName c, cfg_baseDomain := c2_baseDomain c, cfg_pullSecretRef := c2_pullSecretRef c,
     cfg_imageRegistryRef := c2_imageRegistryRef c, cfg_capabilities := c2_capabilities c\<rparr>"

definition config_from_hub :: "oacp_config \<Rightarrow> config2" where
  "config_from_hub c = \<lparr>c2_apiVIPs = cfg_apiVIPs c, c2_ingressVIPs = cfg_ingressVIPs c, c2_manifestsConfigMapRefs = cfg_manifestsConfigMapRefs c,
     c2_diskEncryption = cfg_diskEncryption c, c2_proxy = cfg_proxy c, c2_mastersSchedulable = cfg_mastersSchedulable c,
     c2_networkType = cfg_networkType c, c2_machineNetwork = cfg_machineNetwork c, c2_sshAuthorizedKey = cfg_sshAuthorizedKey c,
     c2_clusterName = cfg_clusterName c, c2_baseDomain = cfg_baseDomain c, c2_pullSecretRef = cfg_pullSecretRef c,
     c2_imageRegistryRef = cfg_imageRegistryRef c, c2_capabilities = cfg_capabilities c\<rparr>"

definition template_to_hub :: "json_lib \<Rightarrow> machine_template2 \<Rightarrow> machine_template \<Rightarrow> machine_template" where
  "template_to_hub J t h = (convertObjectMetaToV1Beta2 (t2_meta t) h)\<lparr>
     mt_infrastructureRef := convertObjectRefToContractVersionedRef (t2_infrastructureRef t),
     mt_deletion := \<lparr>del_nodeDrainTimeoutSeconds = durationToSeconds J (t2_nodeDrainTimeout t),
       del_nodeVolumeDetachTimeoutSeconds = durationToSeconds J (t2_nodeVolumeDetachTimeout t),
       del_nodeDeletionTimeoutSeconds = durationToSeconds J (t2_nodeDeletionTimeout t)\<rparr>\<rparr>"

definition template_from_hub :: "machine_template \<Rightarrow> machine_template2 \<Rightarrow> machine_template2" where
  "template_from_hub h t = t\<lparr>t2_meta := convertObjectMetaFromV1Beta2 h (t2_meta t),
     t2_infrastructureRef := convertContractVersionedRefToObjectRef (mt_infrastructureRef h),
     t2_nodeDrainTimeout := secondsToDuration (del_nodeDrainTimeoutSeconds (mt_deletion h)),
     t2_nodeVolumeDetachTimeout := secondsToDuration (del_nodeVolumeDetachTimeoutSeconds (mt_deletion h)),
     t2_nodeDeletionTimeout := secondsToDuration (del_nodeDeletionTimeoutSeconds (mt_deletion h))\<rparr>"

definition spec_to_hub :: "json_lib \<Rightarrow> spec2 \<Rightarrow> oacp_spec \<Rightarrow> oacp_spec" where
  "spec_to_hub J s h = h\<lparr>sp_config := config_to_hub (s2_config s), sp_oacSpec := convertBootstrapConfigSpecToV1Alpha2 (s2_oacSpec s) (sp_oacSpec h),
     sp_replicas := s2_replicas s, sp_distributionVersion := s2_distributionVersion s,
     sp_machineTemplate := template_to_hub J (s2_machineTemplate s) (sp_machineTemplate h)\<rparr>"

definition spec_from_hub :: "oacp_spec \<Rightarrow> spec2 \<Rightarrow> spec2" where
  "spec_from_hub h s = s\<lparr>s2_config := config_from_hub (sp_config h), s2_oacSpec := convertBootstrapConfigSpecFromV1Alpha2 (sp_oacSpec h) (s2_oacSpec s),
     s2_replicas := sp_replicas h, s2_distributionVersion := sp_distributionVersion h,
     s2_machineTemplate := template_from_hub (sp_machineTemplate h) (s2_machineTemplate s)\<rparr>"

definition if_positive :: "int32 \<Rightarrow> int32 option \<Rightarrow> int32 option" where
  "if_positive n old = (if 0 <s n then Some n else old)"

definition status_to_hub :: "status2 \<Rightarrow> oacp_status \<Rightarrow> oacp_status" where
  "status_to_hub s h = h\<lparr>st_conditions := (if st2_conditions s \<noteq> [] then convertV1Beta1ConditionsToMetav1 (st2_conditions s) else st_conditions h),
     st_selector := st2_selector s, st_replicas := if_positive (st2_replicas s) (st_replicas h),
     st_readyReplicas := if_positive (st2_readyReplicas s) (st_readyReplicas h),
     st_upToDateReplicas := if_positive (st2_updatedReplicas s) (st_upToDateReplicas h),
     st_version := (case st2_version s of None \<Rightarrow> [] | Some v \<Rightarrow> v), st_distributionVersion := st2_distributionVersion s,
     st_controlPlaneInitialized := (if st2_initialized s then Some True else st_controlPlaneInitialized h)\<rparr>"

definition ControlPlaneAvailable2 :: string where "ControlPlaneAvailable2 = ''Available''"

definition status_from_hub :: "oacp \<Rightarrow> status2 \<Rightarrow> status2" where
  "status_from_hub h s = (let st = oacp_status h in s\<lparr>st2_conditions := List.map info_condition (st_conditions st),
     st2_selector := st_selector st, st2_replicas := case_option (st2_replicas s) (\<lambda>n. n) (st_replicas st),
     st2_readyReplicas := case_option (st2_readyReplicas s) (\<lambda>n. n) (st_readyReplicas st),
     st2_updatedReplicas := case_option (st2_updatedReplicas s) (\<lambda>n. n) (st_upToDateReplicas st),
     st2_version := (if st_version st \<noteq> [] then Some (st_version st) else st2_version s), st2_distributionVersion := st_distributionVersion st,
     st2_unavailableReplicas := (case st_availableReplicas st of None \<Rightarrow> st2_unavailableReplicas s
       | Some n \<Rightarrow> let unavailable = sp_replicas (oacp_spec h) - n in if unavailable <s 0 then 0 else unavailable),
     st2_initialized := (if st_controlPlaneInitialized st = Some True then True else st2_initialized s),
     st2_ready := (if list_ex (\<lambda>c. c_type c = ControlPlaneAvailable2 \<and> c_status c = CTrue) (st_conditions st) then True else st2_ready s)\<rparr>)"

definition ConvertTo :: "json_lib \<Rightarrow> oacp2 \<Rightarrow> oacp \<Rightarrow> oacp" where
  "ConvertTo J src dst = dst\<lparr>oacp_meta := MarshalData (oacp2_members J) src (cp2_meta src),
     oacp_spec := spec_to_hub J (cp2_spec src) (oacp_spec dst), oacp_status := status_to_hub (cp2_status src) (oacp_status dst)\<rparr>"

definition ConvertFrom :: "json_lib \<Rightarrow> oacp \<Rightarrow> oacp2 \<Rightarrow> oacp2 option" where
  "ConvertFrom J src dst = (case UnmarshalData J (oacp2_members J) (oacp_meta src)
       (dst\<lparr>cp2_meta := oacp_meta src, cp2_spec := spec_from_hub (oacp_spec src) (cp2_spec dst)\<rparr>) of
     None \<Rightarrow> None
   | Some d \<Rightarrow> Some (d\<lparr>cp2_meta := without_data (oacp_meta src), cp2_status := status_from_hub src (cp2_status d)\<rparr>))"

subsection \<open>Bootstrap config and template\<close>

definition ConvertTo_config :: "json_lib \<Rightarrow> oac1 \<Rightarrow> oac \<Rightarrow> oac" where
  "ConvertTo_config J src dst = dst\<lparr>oac_meta := MarshalData (oac1_members J) src (oac1_meta src),
     oac_spec := convertBootstrapConfigSpecToV1Alpha2 (oac1_spec src) empty_oac_spec,
     oac_status := (let s = oac1_status src; h = oac_status dst;
         h1 = (case os1_dataSecretName s of None \<Rightarrow> h | Some n \<Rightarrow> h\<lparr>oacs_dataSecretName := n, oacs_dataSecretCreated := Some True\<rparr>);
         h2 = (if os1_ready s \<and> oacs_dataSecretCreated h1 = None then h1\<lparr>oacs_dataSecretCreated := Some True\<rparr> else h1)
       in h2\<lparr>oacs_observedGeneration := os1_observedGeneration s\<rparr>)\<rparr>"

definition ConvertFrom_config :: "json_lib \<Rightarrow> oac \<Rightarrow> oac1 \<Rightarrow> oac1 option" where
  "ConvertFrom_config J src dst = (case UnmarshalData J (oac1_members J) (oac_meta src)
       (dst\<lparr>oac1_meta := oac_meta src, oac1_spec := convertBootstrapConfigSpecFromV1Alpha2 (oac_spec src) (oac1_spec dst)\<rparr>) of
     None \<Rightarrow> None
   | Some d \<Rightarrow> Some (let s = oac1_status d; h = oac_status src in d\<lparr>oac1_meta := without_data (oac_meta src), oac1_status := s\<lparr>
       os1_dataSecretName := (if oacs_dataSecretName h \<noteq> [] then Some (oacs_dataSecretName h) else os1_dataSecretName s),
       os1_ready := (if oacs_dataSecretCreated h = Some True then True else os1_ready s),
       os1_observedGeneration := oacs_observedGeneration h\<rparr>\<rparr>))"

text \<open>The template of the stored version, \<open>bootstrap/api/v1alpha2\<close>.\<close>

record oac_template =
  ot_meta :: object_meta
  ot_templateMeta :: template_meta
  ot_spec :: oac_spec

definition ConvertTo_template :: "json_lib \<Rightarrow> oac_template1 \<Rightarrow> oac_template \<Rightarrow> oac_template" where
  "ConvertTo_template J src dst = dst\<lparr>ot_meta := MarshalData (oac_template1_members J) src (ot1_meta src),
     ot_templateMeta := ot1_templateMeta src, ot_spec := convertBootstrapConfigSpecToV1Alpha2 (ot1_spec src) empty_oac_spec\<rparr>"

definition ConvertFrom_template :: "json_lib \<Rightarrow> oac_template \<Rightarrow> oac_template1 \<Rightarrow> oac_template1 option" where
  "ConvertFrom_template J src dst = map_option (\<lambda>d. d\<lparr>ot1_meta := without_data (ot_meta src)\<rparr>) (UnmarshalData J (oac_template1_members J) (ot_meta src)
     (dst\<lparr>ot1_meta := ot_meta src, ot1_templateMeta := ot_templateMeta src,
       ot1_spec := convertBootstrapConfigSpecFromV1Alpha2 (ot_spec src) (ot1_spec dst)\<rparr>))"

subsection \<open>Restoring the older object\<close>

text \<open>Each struct reads back over a value whose fields are empty where its own are, and otherwise compatible.\<close>

lemma over_object_ref:
  assumes "ob_kind x = [] \<longrightarrow> ob_kind y = []" "ob_namespace x = [] \<longrightarrow> ob_namespace y = []" "ob_name x = [] \<longrightarrow> ob_name y = []" "ob_uid x = [] \<longrightarrow> ob_uid y = []"
    "ob_apiVersion x = [] \<longrightarrow> ob_apiVersion y = []" "ob_resourceVersion x = [] \<longrightarrow> ob_resourceVersion y = []" "ob_fieldPath x = [] \<longrightarrow> ob_fieldPath y = []"
  shows "over (struct object_ref_members) x y x"
  unfolding object_ref_members_def
  by (rule over_struct, simp, intro overs_same) (use assms in \<open>auto simp: over_omitempty\<close>)

lemma over_template_meta: "finite (dom (tm_labels x)) \<Longrightarrow> finite (dom (tm_annotations x)) \<Longrightarrow> over (struct template_meta_members) x x x"
  unfolding template_meta_members_def
  by (rule over_struct, simp, intro overs_same) (auto intro: over_map)

lemma over_condition: "over (struct condition_members) x empty_v1_condition x"
  unfolding condition_members_def
  by (rule over_struct, simp, intro overs_same) (auto simp: over_omitempty empty_v1_condition_def)

lemma over_conditions: "over (slice empty_v1_condition (struct condition_members)) cs [] cs"
  by (rule over_slice_fresh) (simp add: over_condition)

lemma over_kernel_argument: "over kernel_argument x x x"
  unfolding kernel_argument_def
  by (rule over_struct, simp, intro overs_same) (auto simp: over_omitempty apfst_def apsnd_def map_prod_def split: prod.splits)

lemma over_strs [simp]: "over strs xs xs xs"
  by (rule over_slice_same) simp

lemma over_wrapped_list [simp]: "over (slice [] (wrapped k)) xs xs xs"
  by (rule over_slice_same) (simp add: over_wrapped)

lemma over_ref_pointer [simp]: "over (pointer [] local_ref) x x x"
proof (cases x)
  case (Some s)
  then show ?thesis using over_local_ref [of s s] by (auto intro!: over_pointer_Some)
qed simp

lemma over_str_pointer [simp]: "over (pointer [] str_codec) x y x \<longleftrightarrow> x = None \<longrightarrow> y = None"
  by (cases x) (auto intro!: over_pointer_Some)

lemma over_third_pointer: "lawful J \<Longrightarrow> over (pointer [] (third J t)) x x x"
  by (cases x) (auto intro!: over_pointer_Some over_third simp: lawful_def)

lemma over_node_registration: "over (struct node_registration_members) x x x"
  unfolding node_registration_members_def
  by (rule over_struct, simp, intro overs_same) (auto simp: over_omitempty)

lemma over_oac_spec1: "lawful J \<Longrightarrow> over (struct (oac_spec1_members J)) x x x"
  unfolding oac_spec1_members_def
  by (rule over_struct, simp, intro overs_same)
    (auto simp: over_omitempty over_third over_third_pointer over_node_registration intro: over_slice_same over_kernel_argument)

lemma over_capabilities: "over (struct capabilities_members) x x x"
  unfolding capabilities_members_def
  by (rule over_struct, simp, intro overs_same) (auto simp: over_omitempty)

lemma over_config2: "lawful J \<Longrightarrow> over (struct (config2_members J)) x x x"
  unfolding config2_members_def
  by (rule over_struct, simp, intro overs_same) (auto simp: over_omitempty over_third_pointer over_capabilities)

text \<open>A duration of 64 bits; the API server stores finite maps only.\<close>

definition timeout_ok :: "int option \<Rightarrow> bool" where
  "timeout_ok t = (case t of None \<Rightarrow> True | Some d \<Rightarrow> - (2 ^ 63) \<le> d \<and> d < 2 ^ 63)"

definition template_ok :: "machine_template2 \<Rightarrow> bool" where
  "template_ok t \<longleftrightarrow> finite (dom (tm_labels (t2_meta t))) \<and> finite (dom (tm_annotations (t2_meta t))) \<and>
     timeout_ok (t2_nodeDrainTimeout t) \<and> timeout_ok (t2_nodeVolumeDetachTimeout t) \<and> timeout_ok (t2_nodeDeletionTimeout t)"

lemma over_timeout: "timeout_ok x \<Longrightarrow> x = None \<longrightarrow> y = None \<Longrightarrow> over (pointer 0 duration_codec) x y x"
  by (cases x) (auto simp: timeout_ok_def intro!: over_pointer_Some over_duration)

lemma reference_compatible:
  fixes r :: object_ref
  defines "y \<equiv> convertContractVersionedRefToObjectRef (convertObjectRefToContractVersionedRef r)"
  shows "over (struct object_ref_members) r y r"
proof (rule over_object_ref)
  show "ob_apiVersion r = [] \<longrightarrow> ob_apiVersion y = []"
    by (simp add: y_def convertContractVersionedRefToObjectRef_def convertObjectRefToContractVersionedRef_def empty_object_ref_def)
qed (simp_all add: y_def convertContractVersionedRefToObjectRef_def convertObjectRefToContractVersionedRef_def empty_object_ref_def)

lemma over_template:
  assumes "template_ok x" "t2_meta y = t2_meta x" "over (struct object_ref_members) (t2_infrastructureRef x) (t2_infrastructureRef y) (t2_infrastructureRef x)"
    "t2_nodeDrainTimeout x = None \<longrightarrow> t2_nodeDrainTimeout y = None" "t2_nodeVolumeDetachTimeout x = None \<longrightarrow> t2_nodeVolumeDetachTimeout y = None"
    "t2_nodeDeletionTimeout x = None \<longrightarrow> t2_nodeDeletionTimeout y = None"
  shows "over (struct machine_template2_members) x y x"
  unfolding machine_template2_members_def
  by (rule over_struct, simp, intro overs_same) (use assms in \<open>auto simp: template_ok_def intro!: over_timeout over_template_meta\<close>)

lemma over_spec2:
  assumes "lawful J" "s2_config y = s2_config x" "s2_oacSpec y = s2_oacSpec x" "s2_replicas x = 0 \<longrightarrow> s2_replicas y = 0"
    "over (struct machine_template2_members) (s2_machineTemplate x) (s2_machineTemplate y) (s2_machineTemplate x)"
  shows "over (struct (spec2_members J)) x y x"
  unfolding spec2_members_def
  by (rule over_struct, simp, intro overs_same) (use assms in \<open>auto simp: over_omitempty over_config2 over_oac_spec1\<close>)

definition empty_template_meta :: template_meta where "empty_template_meta = \<lparr>tm_labels = Map.empty, tm_annotations = Map.empty\<rparr>"

definition empty_oac_spec1 :: oac_spec1 where
  "empty_oac_spec1 = \<lparr>o1_proxy = None, o1_pullSecretRef = None, o1_additionalNTPSources = [], o1_sshAuthorizedKey = [],
     o1_nmStateConfigLabelSelector = [], o1_cpuArchitecture = [], o1_kernelArguments = [], o1_additionalTrustBundle = [], o1_osImageVersion = [],
     o1_nodeRegistration = \<lparr>nr1_name = [], nr1_kubeletExtraLabels = []\<rparr>\<rparr>"

definition empty_spec2 :: spec2 where
  "empty_spec2 = \<lparr>s2_config = config_from_hub empty_config, s2_machineTemplate = \<lparr>t2_meta = empty_template_meta, t2_infrastructureRef = empty_object_ref,
     t2_nodeDrainTimeout = None, t2_nodeVolumeDetachTimeout = None, t2_nodeDeletionTimeout = None\<rparr>,
     s2_oacSpec = empty_oac_spec1, s2_replicas = 0, s2_distributionVersion = []\<rparr>"

definition empty_status2 :: status2 where
  "empty_status2 = \<lparr>st2_clusterDeploymentRef = None, st2_selector = [], st2_replicas = 0, st2_version = None, st2_distributionVersion = [],
     st2_updatedReplicas = 0, st2_readyReplicas = 0, st2_unavailableReplicas = 0, st2_initialized = False, st2_ready = False,
     st2_failureReason = None, st2_failureMessage = None, st2_conditions = []\<rparr>"

definition empty_oacp2 :: oacp2 where
  "empty_oacp2 = \<lparr>cp2_apiVersion = [], cp2_kind = [], cp2_meta = empty_meta, cp2_spec = empty_spec2, cp2_status = empty_status2\<rparr>"

lemma over_fresh_ref: "over (pointer empty_object_ref (struct object_ref_members)) x None x"
  by (cases x) (auto simp: empty_object_ref_def intro!: over_pointer_Some over_object_ref)

lemma over_status2: "over (struct status2_members) x empty_status2 x"
  unfolding status2_members_def
  by (rule over_struct, simp, intro overs_same) (auto simp: over_omitempty empty_status2_def over_fresh_ref over_conditions)

lemma over_oacp2:
  assumes "over (struct (spec2_members J)) (cp2_spec x) (cp2_spec y) (cp2_spec x)" "cp2_status y = empty_status2"
    "cp2_apiVersion x = [] \<longrightarrow> cp2_apiVersion y = []" "cp2_kind x = [] \<longrightarrow> cp2_kind y = []"
  shows "over (struct (oacp2_members J)) x y (x\<lparr>cp2_meta := cp2_meta y\<rparr>)"
  unfolding oacp2_members_def
  by (rule over_struct, simp, intro overs_same) (use assms in \<open>auto simp: over_omitempty over_status2\<close>)

lemma unmarshal_marshalled:
  assumes "over (struct ms) x y z" "m_annotations m DataAnnotation = Some (json_text (JObj (members ms x)))"
  shows "UnmarshalData J ms m y = Some z"
proof -
  have "plain (JObj (members ms x))" "dec (struct ms) (JObj (members ms x)) y = Some z" using assms(1) by (auto simp: over_def)
  then show ?thesis using assms(2) by (simp add: UnmarshalData_def parse_json_text del: json_text.simps plain.simps)
qed

lemma spec_back:
  assumes "lawful J" "template_ok (s2_machineTemplate x)"
  shows "over (struct (spec2_members J)) x (spec_from_hub (spec_to_hub J x h) y) x"
proof (rule over_spec2 [OF assms(1)])
  let ?y = "spec_from_hub (spec_to_hub J x h) y"
  show "s2_config ?y = s2_config x" by (simp add: spec_from_hub_def spec_to_hub_def config_from_hub_def config_to_hub_def empty_config_def)
  show "s2_oacSpec ?y = s2_oacSpec x"
    by (simp add: spec_from_hub_def spec_to_hub_def convertBootstrapConfigSpecFromV1Alpha2_def convertBootstrapConfigSpecToV1Alpha2_def empty_node_registration_def)
  show "s2_replicas x = 0 \<longrightarrow> s2_replicas ?y = 0" by (simp add: spec_from_hub_def spec_to_hub_def)
  show "over (struct machine_template2_members) (s2_machineTemplate x) (s2_machineTemplate ?y) (s2_machineTemplate x)"
    by (rule over_template [OF assms(2)]) (simp_all add: spec_from_hub_def spec_to_hub_def template_from_hub_def template_to_hub_def
        convertObjectMetaFromV1Beta2_def convertObjectMetaToV1Beta2_def reference_compatible secondsToDuration_def durationToSeconds_def)
qed

text \<open>The object that a conversion to v1alpha2 fills in.\<close>

definition target2 :: "oacp2 \<Rightarrow> oacp2" where
  "target2 src = empty_oacp2\<lparr>cp2_apiVersion := cp2_apiVersion src, cp2_kind := cp2_kind src\<rparr>"

text \<open>What the round trip does to a condition and to the flag for readiness.\<close>

definition restored_condition :: "v1_condition \<Rightarrow> v1_condition" where
  "restored_condition c = c\<lparr>vc_severity := ''Info'', vc_reason := (if vc_reason c = [] then ''Unknown'' else vc_reason c)\<rparr>"

definition restored :: "oacp2 \<Rightarrow> oacp2" where
  "restored src = src\<lparr>cp2_meta := without_data (cp2_meta src), cp2_status := (cp2_status src)\<lparr>
     st2_conditions := List.map restored_condition (st2_conditions (cp2_status src)),
     st2_ready := (st2_ready (cp2_status src) \<or> list_ex (\<lambda>c. vc_type c = ''Available'' \<and> vc_status c = CTrue) (st2_conditions (cp2_status src)))\<rparr>\<rparr>"

lemma restored_conditions: "List.map info_condition (convertV1Beta1ConditionsToMetav1 cs) = List.map restored_condition cs"
  by (simp add: convertV1Beta1ConditionsToMetav1_def info_condition_def restored_condition_def mk_condition_def)

lemma available_converted:
  "list_ex (\<lambda>c. c_type c = t \<and> c_status c = CTrue) (convertV1Beta1ConditionsToMetav1 cs) \<longleftrightarrow> list_ex (\<lambda>c. vc_type c = t \<and> vc_status c = CTrue) cs"
  by (simp add: convertV1Beta1ConditionsToMetav1_def mk_condition_def list_ex_iff)

lemma status_back:
  assumes "oacp_status h = status_to_hub s (oacp_status empty_oacp)"
  shows "status_from_hub h s = s\<lparr>st2_conditions := List.map restored_condition (st2_conditions s),
    st2_ready := (st2_ready s \<or> list_ex (\<lambda>c. vc_type c = ''Available'' \<and> vc_status c = CTrue) (st2_conditions s))\<rparr>"
proof -
  have st: "st_conditions (oacp_status h) = convertV1Beta1ConditionsToMetav1 (st2_conditions s)"
    using assms by (simp add: status_to_hub_def empty_oacp_def convertV1Beta1ConditionsToMetav1_def)
  show ?thesis unfolding status_from_hub_def Let_def st restored_conditions available_converted ControlPlaneAvailable2_def
    using assms by (simp add: status_to_hub_def empty_oacp_def if_positive_def split: option.splits)
qed

text \<open>
  Claim C9. A v1alpha2 control plane that is stored and read back is the same, to the nanosecond of its timeouts and to the full reference to the infrastructure
  template, with three exceptions: the severity of every condition is \<open>Info\<close> and an empty reason is \<open>Unknown\<close>, a
  true \<open>Available\<close> condition makes it ready, and the conversion annotation is gone.
\<close>

theorem control_plane_round_trip:
  assumes "lawful J" "template_ok (s2_machineTemplate (cp2_spec src))"
  shows "ConvertFrom J (ConvertTo J src empty_oacp) (target2 src) = Some (restored src)"
proof -
  let ?h = "ConvertTo J src empty_oacp"
  let ?d = "(target2 src)\<lparr>cp2_meta := oacp_meta ?h, cp2_spec := spec_from_hub (oacp_spec ?h) (cp2_spec (target2 src))\<rparr>"
  have meta: "oacp_meta ?h = MarshalData (oacp2_members J) src (cp2_meta src)" by (simp add: ConvertTo_def)
  have "over (struct (oacp2_members J)) src ?d (src\<lparr>cp2_meta := cp2_meta ?d\<rparr>)"
    by (rule over_oacp2) (use spec_back [OF assms] in \<open>simp_all add: ConvertTo_def target2_def empty_oacp2_def\<close>)
  then have u: "UnmarshalData J (oacp2_members J) (oacp_meta ?h) ?d = Some (src\<lparr>cp2_meta := cp2_meta ?d\<rparr>)"
    by (rule unmarshal_marshalled) (simp add: meta MarshalData_def del: json_text.simps)
  have m: "without_data (oacp_meta ?h) = without_data (cp2_meta src)" by (simp add: meta MarshalData_def without_data_def)
  have st: "status_from_hub ?h (cp2_status src) = cp2_status (restored src)"
    unfolding restored_def using status_back [of ?h "cp2_status src"]
    by (simp add: ConvertTo_def)
  show ?thesis unfolding ConvertFrom_def u option.case using m st by (simp add: restored_def)
qed

text \<open>What is left of a spec when an older one is read over it.\<close>

lemma spec_over:
  assumes "over (struct (spec2_members J)) x y z"
  shows "s2_distributionVersion z = s2_distributionVersion x" "s2_replicas z = (if s2_replicas x = 0 then s2_replicas y else s2_replicas x)"
    "over (struct (config2_members J)) (s2_config x) (s2_config y) (s2_config z)"
proof -
  have "overs (spec2_members J) x y z" by (rule struct_over [OF _ assms]) (simp add: spec2_members_def)
  then show "s2_distributionVersion z = s2_distributionVersion x" "s2_replicas z = (if s2_replicas x = 0 then s2_replicas y else s2_replicas x)"
    "over (struct (config2_members J)) (s2_config x) (s2_config y) (s2_config z)"
    unfolding spec2_members_def by (auto dest!: overs_memberD simp: over_omitempty split: if_splits)
qed

lemma config_over:
  assumes "over (struct (config2_members J)) x y z"
  shows "c2_baseDomain z = c2_baseDomain x" "c2_clusterName z = c2_clusterName x"
proof -
  have "overs (config2_members J) x y z" by (rule struct_over [OF _ assms]) (simp add: config2_members_def)
  then show "c2_baseDomain z = c2_baseDomain x" "c2_clusterName z = c2_clusterName x"
    unfolding config2_members_def by (auto dest!: overs_memberD)
qed

text \<open>The marshalled text is well formed: reading it over the object itself is one way to see it.\<close>

lemma marshalled_plain:
  assumes "lawful J" "template_ok (s2_machineTemplate (cp2_spec src))"
  shows "plain (JObj (members (oacp2_members J) src))"
proof -
  let ?y = "src\<lparr>cp2_spec := spec_from_hub (spec_to_hub J (cp2_spec src) (oacp_spec empty_oacp)) (cp2_spec src), cp2_status := empty_status2\<rparr>"
  have "over (struct (oacp2_members J)) src ?y (src\<lparr>cp2_meta := cp2_meta ?y\<rparr>)"
    by (rule over_oacp2) (use spec_back [OF assms] in simp_all)
  then show ?thesis by (simp add: over_def del: plain.simps)
qed

text \<open>
  Claim C10. The older object in the annotation wins over the stored one. When a stored control plane is changed in any way that keeps the annotation, a reader
  of v1alpha2 still sees the distribution version, the cluster name, the base domain and, unless it was zero, the number of replicas
  that were written last through v1alpha2. When that reader writes the object back, those values
  are stored again, and what v1alpha2 does not know is emptied: the reference to the infrastructure cluster, the settings of its cloud
  controller manager, storage driver and network, and the commands and arguments of the bootstrap config.
\<close>

theorem older_object_wins:
  assumes "lawful J" "template_ok (s2_machineTemplate (cp2_spec src))"
    "m_annotations (oacp_meta h) DataAnnotation = m_annotations (oacp_meta (ConvertTo J src empty_oacp)) DataAnnotation"
    "ConvertFrom J h dst = Some r" "oacp_spec (ConvertTo J r empty_oacp) = sp"
  shows "s2_distributionVersion (cp2_spec r) = s2_distributionVersion (cp2_spec src) \<and>
    s2_replicas (cp2_spec r) = (if s2_replicas (cp2_spec src) = 0 then sp_replicas (oacp_spec h) else s2_replicas (cp2_spec src)) \<and>
    c2_clusterName (s2_config (cp2_spec r)) = c2_clusterName (s2_config (cp2_spec src)) \<and>
    c2_baseDomain (s2_config (cp2_spec r)) = c2_baseDomain (s2_config (cp2_spec src)) \<and>
    sp_distributionVersion sp = s2_distributionVersion (cp2_spec src) \<and>
    cfg_infraClusterRef (sp_config sp) = None \<and> cfg_cloudControllerManager (sp_config sp) = None \<and> cfg_csiDriver (sp_config sp) = None \<and>
    cfg_network (sp_config sp) = None \<and> oac_installerArgs (sp_oacSpec sp) = [] \<and> oac_preBootstrapCommands (sp_oacSpec sp) = [] \<and>
    oac_postBootstrapCommands (sp_oacSpec sp) = []"
proof -
  let ?y = "dst\<lparr>cp2_meta := oacp_meta h, cp2_spec := spec_from_hub (oacp_spec h) (cp2_spec dst)\<rparr>"
  have data: "m_annotations (oacp_meta h) DataAnnotation = Some (json_text (JObj (members (oacp2_members J) src)))"
    using assms(3) by (simp add: ConvertTo_def MarshalData_def del: json_text.simps)
  obtain d where d: "UnmarshalData J (oacp2_members J) (oacp_meta h) ?y = Some d" "cp2_spec r = cp2_spec d"
    using assms(4) by (auto simp: ConvertFrom_def split: option.splits)
  have p: "plain (JObj (members (oacp2_members J) src))" by (rule marshalled_plain [OF assms(1,2)])
  have "over (struct (oacp2_members J)) src ?y d"
    using d(1) p data by (simp add: UnmarshalData_def parse_json_text over_def del: json_text.simps plain.simps)
  then have "overs (oacp2_members J) src ?y d" by (rule struct_over [rotated]) (simp add: oacp2_members_def)
  then have "over (struct (spec2_members J)) (cp2_spec src) (cp2_spec ?y) (cp2_spec d)"
    unfolding oacp2_members_def by (auto dest!: overs_memberD)
  note spec = spec_over [OF this] and config = config_over [OF spec_over(3) [OF this]]
  have sp: "sp = spec_to_hub J (cp2_spec d) (oacp_spec empty_oacp)" using assms(5) d(2) by (simp add: ConvertTo_def)
  have lost: "cfg_infraClusterRef (sp_config sp) = None \<and> cfg_cloudControllerManager (sp_config sp) = None \<and> cfg_csiDriver (sp_config sp) = None \<and>
      cfg_network (sp_config sp) = None \<and> oac_installerArgs (sp_oacSpec sp) = [] \<and> oac_preBootstrapCommands (sp_oacSpec sp) = [] \<and>
      oac_postBootstrapCommands (sp_oacSpec sp) = []"
    unfolding sp by (simp add: spec_to_hub_def config_to_hub_def empty_config_def convertBootstrapConfigSpecToV1Alpha2_def empty_oacp_def empty_oac_spec_def)
  have "sp_distributionVersion sp = s2_distributionVersion (cp2_spec src)" unfolding sp using spec(1) by (simp add: spec_to_hub_def)
  moreover have "s2_replicas (cp2_spec d) = (if s2_replicas (cp2_spec src) = 0 then sp_replicas (oacp_spec h) else s2_replicas (cp2_spec src))"
    using spec(2) by (simp add: spec_from_hub_def)
  ultimately show ?thesis using lost spec(1) config unfolding d(2) by blast
qed

subsection \<open>Bootstrap config and template\<close>

definition empty_hub_config :: oac where "empty_hub_config = \<lparr>oac_meta = empty_meta, oac_spec = empty_oac_spec, oac_status = empty_oac_status\<rparr>"

definition empty_status1 :: oac_status1 where
  "empty_status1 = \<lparr>os1_infraEnvRef = None, os1_agentRef = None, os1_ready = False, os1_dataSecretName = None, os1_failureReason = [],
     os1_failureMessage = [], os1_observedGeneration = 0, os1_conditions = []\<rparr>"

definition target1 :: "oac1 \<Rightarrow> oac1" where
  "target1 src = \<lparr>oac1_apiVersion = oac1_apiVersion src, oac1_kind = oac1_kind src, oac1_meta = empty_meta, oac1_spec = empty_oac_spec1, oac1_status = empty_status1\<rparr>"

lemma over_fresh_local: "over (pointer [] local_ref) x None x"
proof (cases x)
  case (Some s)
  then show ?thesis using over_local_ref [of s "[]"] by (cases "s = []") (auto intro!: over_pointer_Some)
qed simp

lemma over_oac_status1: "\<bar>os1_observedGeneration x\<bar> \<le> 2 ^ 53 \<Longrightarrow> over (struct oac_status1_members) x empty_status1 x"
  unfolding oac_status1_members_def
  by (rule over_struct, simp, intro overs_same)
    (auto simp: over_omitempty empty_status1_def over_fresh_ref over_fresh_local over_conditions intro: over_int64)

lemma over_oac1:
  assumes "lawful J" "\<bar>os1_observedGeneration (oac1_status x)\<bar> \<le> 2 ^ 53" "oac1_spec y = oac1_spec x" "oac1_status y = empty_status1"
    "oac1_apiVersion y = oac1_apiVersion x" "oac1_kind y = oac1_kind x"
  shows "over (struct (oac1_members J)) x y (x\<lparr>oac1_meta := oac1_meta y\<rparr>)"
  unfolding oac1_members_def
  by (rule over_struct, simp, intro overs_same) (use assms in \<open>auto simp: over_omitempty over_oac_status1 over_oac_spec1\<close>)

lemma config_spec_back: "convertBootstrapConfigSpecFromV1Alpha2 (convertBootstrapConfigSpecToV1Alpha2 s h) t = s"
  by (simp add: convertBootstrapConfigSpecFromV1Alpha2_def convertBootstrapConfigSpecToV1Alpha2_def empty_node_registration_def)

text \<open>
  Claim C30. A v1alpha1 bootstrap config that is stored and read back is the same, its status with references, failure and conditions
  included, but it is also ready when it has the name of a data secret, and the conversion annotation is gone.
\<close>

theorem config_round_trip:
  assumes "lawful J" "\<bar>os1_observedGeneration (oac1_status src)\<bar> \<le> 2 ^ 53"
  shows "ConvertFrom_config J (ConvertTo_config J src empty_hub_config) (target1 src) = Some (src\<lparr>oac1_meta := without_data (oac1_meta src),
    oac1_status := (oac1_status src)\<lparr>os1_ready := (os1_ready (oac1_status src) \<or> os1_dataSecretName (oac1_status src) \<noteq> None)\<rparr>\<rparr>)"
proof -
  let ?h = "ConvertTo_config J src empty_hub_config"
  let ?d = "(target1 src)\<lparr>oac1_meta := oac_meta ?h, oac1_spec := convertBootstrapConfigSpecFromV1Alpha2 (oac_spec ?h) (oac1_spec (target1 src))\<rparr>"
  have meta: "oac_meta ?h = MarshalData (oac1_members J) src (oac1_meta src)" by (simp add: ConvertTo_config_def)
  have "over (struct (oac1_members J)) src ?d (src\<lparr>oac1_meta := oac1_meta ?d\<rparr>)"
    by (rule over_oac1 [OF assms]) (simp_all add: ConvertTo_config_def target1_def config_spec_back)
  then have u: "UnmarshalData J (oac1_members J) (oac_meta ?h) ?d = Some (src\<lparr>oac1_meta := oac1_meta ?d\<rparr>)"
    by (rule unmarshal_marshalled) (simp add: meta MarshalData_def del: json_text.simps)
  have m: "without_data (oac_meta ?h) = without_data (oac1_meta src)" by (simp add: meta MarshalData_def without_data_def)
  show ?thesis unfolding ConvertFrom_config_def u option.case m
    by (auto simp: ConvertTo_config_def empty_hub_config_def empty_oac_status_def Let_def split: option.splits)
qed

lemma over_template1:
  assumes "lawful J" "finite (dom (tm_labels (ot1_templateMeta x)))" "finite (dom (tm_annotations (ot1_templateMeta x)))"
    "ot1_templateMeta y = ot1_templateMeta x" "ot1_spec y = ot1_spec x" "ot1_apiVersion y = ot1_apiVersion x" "ot1_kind y = ot1_kind x"
  shows "over (struct (oac_template1_members J)) x y (x\<lparr>ot1_meta := ot1_meta y\<rparr>)"
proof -
  have inner: "over (struct [member ''metadata'' ot1_templateMeta ot1_templateMeta_update (struct template_meta_members),
      member ''spec'' ot1_spec ot1_spec_update (struct (oac_spec1_members J))]) x y y"
    by (rule over_struct, simp, intro overs_same) (use assms in \<open>auto simp: over_template_meta over_oac_spec1\<close>)
  have body: "over (struct [(''template'', struct [member ''metadata'' ot1_templateMeta ot1_templateMeta_update (struct template_meta_members),
      member ''spec'' ot1_spec ot1_spec_update (struct (oac_spec1_members J))])]) x y y"
    by (rule over_struct, simp, rule overs_Cons [OF inner]) simp
  have status: "over (struct []) x y y" by (rule over_struct) simp_all
  have y: "y = x\<lparr>ot1_meta := ot1_meta y\<rparr>" using assms(4-7) by (intro oac_template1.equality) simp_all
  have "overs (oac_template1_members J) x y y"
    unfolding oac_template1_members_def
    by (rule overs_same, simp add: over_omitempty assms(6), simp, rule overs_same, simp add: over_omitempty assms(7), simp,
        simp add: assms(6,7)[symmetric], rule overs_Cons [OF body], rule overs_Cons [OF status], simp)
  then show ?thesis using over_struct [of "oac_template1_members J"] y by (simp add: oac_template1_members_def)
qed

text \<open>The template comes back as it was, but for the annotation.\<close>

lemma template_round_trip:
  assumes "lawful J" "finite (dom (tm_labels (ot1_templateMeta src)))" "finite (dom (tm_annotations (ot1_templateMeta src)))"
    "ot1_apiVersion dst = ot1_apiVersion src" "ot1_kind dst = ot1_kind src"
  shows "ConvertFrom_template J (ConvertTo_template J src hub) dst = Some (src\<lparr>ot1_meta := without_data (ot1_meta src)\<rparr>)"
proof -
  let ?h = "ConvertTo_template J src hub"
  let ?d = "dst\<lparr>ot1_meta := ot_meta ?h, ot1_templateMeta := ot_templateMeta ?h, ot1_spec := convertBootstrapConfigSpecFromV1Alpha2 (ot_spec ?h) (ot1_spec dst)\<rparr>"
  have meta: "ot_meta ?h = MarshalData (oac_template1_members J) src (ot1_meta src)" by (simp add: ConvertTo_template_def)
  have "over (struct (oac_template1_members J)) src ?d (src\<lparr>ot1_meta := ot1_meta ?d\<rparr>)"
    by (rule over_template1 [OF assms(1-3)]) (use assms(4,5) in \<open>simp_all add: ConvertTo_template_def config_spec_back\<close>)
  then have u: "UnmarshalData J (oac_template1_members J) (ot_meta ?h) ?d = Some (src\<lparr>ot1_meta := ot1_meta ?d\<rparr>)"
    by (rule unmarshal_marshalled) (simp add: meta MarshalData_def del: json_text.simps)
  have m: "without_data (ot_meta ?h) = without_data (ot1_meta src)" by (simp add: meta MarshalData_def without_data_def)
  show ?thesis unfolding ConvertFrom_template_def u m by simp
qed

subsection \<open>Concrete objects\<close>

definition demo_lib :: json_lib where
  "demo_lib = \<lparr>third_enc = (\<lambda>t x. JStr x), third_dec = (\<lambda>t v y. case v of JStr s \<Rightarrow> Some s | _ \<Rightarrow> None), json_float = (\<lambda>s. None), far_seconds = (\<lambda>n. 0)\<rparr>"

lemma demo_lawful: "lawful demo_lib"
  by (simp add: lawful_def demo_lib_def)

definition demo_cp2 :: oacp2 where
  "demo_cp2 = empty_oacp2\<lparr>cp2_kind := ''OpenshiftAssistedControlPlane'', cp2_spec := empty_spec2\<lparr>s2_replicas := 3, s2_distributionVersion := ''4.18.0'',
     s2_machineTemplate := (s2_machineTemplate empty_spec2)\<lparr>t2_meta := \<lparr>tm_labels = [''a'' \<mapsto> ''b''], tm_annotations = Map.empty\<rparr>,
       t2_infrastructureRef := empty_object_ref\<lparr>ob_apiVersion := ''infrastructure.cluster.x-k8s.io/v1alpha1'', ob_kind := ''M'', ob_name := ''m''\<rparr>,
       t2_nodeDrainTimeout := Some 1500000000\<rparr>\<rparr>,
     cp2_status := empty_status2\<lparr>st2_conditions := [\<lparr>vc_type = ''Available'', vc_status = CTrue, vc_severity = [], vc_reason = [], vc_message = []\<rparr>]\<rparr>\<rparr>"

lemma demo_template: "template_ok (s2_machineTemplate (cp2_spec demo_cp2))"
  by (simp add: demo_cp2_def empty_spec2_def template_ok_def timeout_ok_def)

theorem control_plane_round_trip_witness:
  "\<exists>r. ConvertFrom demo_lib (ConvertTo demo_lib demo_cp2 empty_oacp) (target2 demo_cp2) = Some r \<and>
     t2_nodeDrainTimeout (s2_machineTemplate (cp2_spec r)) = Some 1500000000 \<and>
     ob_apiVersion (t2_infrastructureRef (s2_machineTemplate (cp2_spec r))) = ''infrastructure.cluster.x-k8s.io/v1alpha1'' \<and>
     st2_ready (cp2_status r) \<and> vc_reason (hd (st2_conditions (cp2_status r))) = ''Unknown''"
  using control_plane_round_trip [OF demo_lawful demo_template]
  by (simp add: restored_def restored_condition_def demo_cp2_def empty_oacp2_def empty_spec2_def empty_status2_def)

text \<open>The stored object upgraded and scaled through the stored version, with the storage driver switched on.\<close>

definition demo_hub :: oacp where
  "demo_hub = (let h = ConvertTo demo_lib demo_cp2 empty_oacp in h\<lparr>oacp_spec := (oacp_spec h)\<lparr>sp_replicas := 5, sp_distributionVersion := ''4.19.0'',
     sp_config := (sp_config (oacp_spec h))\<lparr>cfg_csiDriver := Some \<lparr>csi_enabled = True, csi_infraStorageClass = []\<rparr>\<rparr>\<rparr>\<rparr>)"

lemma demo_reads: "\<exists>r. ConvertFrom demo_lib demo_hub (target2 demo_cp2) = Some r"
proof -
  let ?d = "(target2 demo_cp2)\<lparr>cp2_meta := oacp_meta demo_hub, cp2_spec := spec_from_hub (oacp_spec demo_hub) (cp2_spec (target2 demo_cp2))\<rparr>"
  have "over (struct (spec2_members demo_lib)) (cp2_spec demo_cp2) (cp2_spec ?d) (cp2_spec demo_cp2)"
  proof (rule over_spec2 [OF demo_lawful])
    show "over (struct machine_template2_members) (s2_machineTemplate (cp2_spec demo_cp2)) (s2_machineTemplate (cp2_spec ?d)) (s2_machineTemplate (cp2_spec demo_cp2))"
      by (rule over_template [OF demo_template]) (simp_all add: demo_hub_def Let_def ConvertTo_def spec_from_hub_def spec_to_hub_def template_from_hub_def template_to_hub_def
          convertObjectMetaFromV1Beta2_def convertObjectMetaToV1Beta2_def reference_compatible secondsToDuration_def durationToSeconds_def)
  qed (simp_all add: demo_hub_def Let_def ConvertTo_def spec_from_hub_def spec_to_hub_def config_from_hub_def config_to_hub_def empty_config_def demo_cp2_def
      convertBootstrapConfigSpecFromV1Alpha2_def convertBootstrapConfigSpecToV1Alpha2_def empty_node_registration_def)
  then have "over (struct (oacp2_members demo_lib)) demo_cp2 ?d (demo_cp2\<lparr>cp2_meta := cp2_meta ?d\<rparr>)"
    by (intro over_oacp2) (simp_all add: target2_def empty_oacp2_def)
  then have "UnmarshalData demo_lib (oacp2_members demo_lib) (oacp_meta demo_hub) ?d = Some (demo_cp2\<lparr>cp2_meta := cp2_meta ?d\<rparr>)"
    by (rule unmarshal_marshalled) (simp add: demo_hub_def Let_def ConvertTo_def MarshalData_def del: json_text.simps)
  then show ?thesis by (simp add: ConvertFrom_def)
qed

theorem older_object_wins_witness:
  "\<exists>r. ConvertFrom demo_lib demo_hub (target2 demo_cp2) = Some r \<and> sp_distributionVersion (oacp_spec demo_hub) = ''4.19.0'' \<and>
     s2_distributionVersion (cp2_spec r) = ''4.18.0'' \<and> s2_replicas (cp2_spec r) = 3 \<and>
     cfg_csiDriver (sp_config (oacp_spec (ConvertTo demo_lib r empty_oacp))) = None"
proof -
  obtain r where r: "ConvertFrom demo_lib demo_hub (target2 demo_cp2) = Some r" using demo_reads by blast
  have "m_annotations (oacp_meta demo_hub) DataAnnotation = m_annotations (oacp_meta (ConvertTo demo_lib demo_cp2 empty_oacp)) DataAnnotation"
    by (simp add: demo_hub_def Let_def)
  from older_object_wins [OF demo_lawful demo_template this r refl] r show ?thesis
    by (simp add: demo_cp2_def demo_hub_def Let_def)
qed

definition demo_oac1 :: oac1 where
  "demo_oac1 = \<lparr>oac1_apiVersion = [], oac1_kind = [], oac1_meta = empty_meta, oac1_spec = empty_oac_spec1,
     oac1_status = empty_status1\<lparr>os1_dataSecretName := Some ''d'', os1_agentRef := Some ''a'', os1_observedGeneration := 7\<rparr>\<rparr>"

theorem config_round_trip_witness:
  "\<exists>r. ConvertFrom_config demo_lib (ConvertTo_config demo_lib demo_oac1 empty_hub_config) (target1 demo_oac1) = Some r \<and>
     os1_ready (oac1_status r) \<and> os1_agentRef (oac1_status r) = Some ''a''"
  using config_round_trip [OF demo_lawful, of demo_oac1] by (simp add: demo_oac1_def empty_status1_def)

end
