(* ===== verification/Admission.thy ===== *)
theory Admission
  imports Conversion Passes BootstrapConfig
begin

text \<open>
  What the API server accepts. The webhooks of the bootstrap provider (\<open>webhook.go\<close> of both API versions) admit an update of a config only
  when its spec is unchanged, and the CRDs declare conditions as lists keyed by their type. The patches of both controllers are within these
  bounds, for every answer of the outside; writes of clients of the older version need not be.
\<close>

subsection \<open>The webhooks\<close>

definition ValidateCreate :: "oac \<Rightarrow> goerr option" where "ValidateCreate ob = None"

definition ValidateUpdate :: "oac \<Rightarrow> oac \<Rightarrow> goerr option" where
  "ValidateUpdate oldObj newObj = (if oac_spec oldObj = oac_spec newObj then None else Some (ApiStatus (OtherReason ''BadRequest'')))"

definition ValidateDelete :: "oac \<Rightarrow> goerr option" where "ValidateDelete ob = None"

definition ValidateCreate_v1alpha1 :: "oac1 \<Rightarrow> goerr option" where "ValidateCreate_v1alpha1 ob = None"

definition ValidateUpdate_v1alpha1 :: "oac1 \<Rightarrow> oac1 \<Rightarrow> goerr option" where
  "ValidateUpdate_v1alpha1 oldObj newObj = (if oac1_spec oldObj = oac1_spec newObj then None else Some (ApiStatus (OtherReason ''BadRequest'')))"

definition ValidateDelete_v1alpha1 :: "oac1 \<Rightarrow> goerr option" where "ValidateDelete_v1alpha1 ob = None"

subsection \<open>Results of programs\<close>

definition yields :: "('a \<Rightarrow> bool) \<Rightarrow> ('w, 'a) state \<Rightarrow> bool" where
  "yields P m \<longleftrightarrow> (\<forall>w. P (fst (run_state m w)))"

named_theorems yields_intros

lemma yields_return [yields_intros]: "P a \<Longrightarrow> yields P (ret a)"
  by (simp add: yields_def)

lemma yields_bind: "yields R m \<Longrightarrow> (\<And>a. R a \<Longrightarrow> yields P (f a)) \<Longrightarrow> yields P (State_Monad.bind m f)"
  by (auto simp: yields_def split: prod.splits) (metis fst_conv)

lemma yields_any [yields_intros]: "(\<And>a. yields P (f a)) \<Longrightarrow> yields P (State_Monad.bind m f)"
  by (auto simp: yields_def split: prod.splits)

lemma yields_if [yields_intros]: "(b \<Longrightarrow> yields P m) \<Longrightarrow> (\<not> b \<Longrightarrow> yields P n) \<Longrightarrow> yields P (if b then m else n)"
  by simp

lemma yields_case_sum [yields_intros]:
  "(\<And>a. x = Inl a \<Longrightarrow> yields P (f a)) \<Longrightarrow> (\<And>b. x = Inr b \<Longrightarrow> yields P (g b)) \<Longrightarrow> yields P (case x of Inl a \<Rightarrow> f a | Inr b \<Rightarrow> g b)"
  by (auto split: sum.splits)

lemma yields_case_option [yields_intros]:
  "(x = None \<Longrightarrow> yields P m) \<Longrightarrow> (\<And>b. x = Some b \<Longrightarrow> yields P (g b)) \<Longrightarrow> yields P (case x of None \<Rightarrow> m | Some b \<Rightarrow> g b)"
  by (auto split: option.splits)

lemma yields_case_prod [yields_intros]:
  "(\<And>a b. x = (a, b) \<Longrightarrow> yields P (f a b)) \<Longrightarrow> yields P (case x of (a, b) \<Rightarrow> f a b)"
  by (auto split: prod.splits)

lemma yields_case_list [yields_intros]:
  "(x = [] \<Longrightarrow> yields P m) \<Longrightarrow> (\<And>a b. x = a # b \<Longrightarrow> yields P (f a b)) \<Longrightarrow> yields P (case x of [] \<Rightarrow> m | a # b \<Rightarrow> f a b)"
  by (auto split: list.splits)

lemma yields_let [yields_intros]: "yields P (f v) \<Longrightarrow> yields P (let x = v in f x)"
  by (simp add: Let_def)

lemma yields_mono: "yields P m \<Longrightarrow> (\<And>a. P a \<Longrightarrow> Q a) \<Longrightarrow> yields Q m"
  by (simp add: yields_def)

lemma logs_yields: "logs m R \<Longrightarrow> yields P m \<Longrightarrow> logs m (\<lambda>a evs. R a evs \<and> P a)"
  by (auto simp: logs_def yields_def)

subsection \<open>What a pass may change in the control plane\<close>

definition one_per_type :: "condition list \<Rightarrow> bool" where
  "one_per_type cs \<longleftrightarrow> distinct (List.map c_type cs)"

definition pull_secret_filled :: "oacp_spec \<Rightarrow> oacp_spec \<Rightarrow> bool" where
  "pull_secret_filled s s' \<longleftrightarrow> s' = s \<or> cfg_pullSecretRef (sp_config s) = None \<and>
     (\<exists>n. s' = s\<lparr>sp_config := (sp_config s)\<lparr>cfg_pullSecretRef := Some n\<rparr>\<rparr>)"

definition finalizers_only :: "string \<Rightarrow> object_meta \<Rightarrow> object_meta \<Rightarrow> bool" where
  "finalizers_only f m m' \<longleftrightarrow> m' = m\<lparr>m_finalizers := m_finalizers m'\<rparr> \<and> set (m_finalizers m') - {f} = set (m_finalizers m) - {f}"

definition within :: "oacp \<Rightarrow> oacp \<Rightarrow> bool" where
  "within ob ob' \<longleftrightarrow> finalizers_only oacpFinalizer (oacp_meta ob) (oacp_meta ob') \<and> pull_secret_filled (oacp_spec ob) (oacp_spec ob') \<and>
     (one_per_type (oacp_conditions ob) \<longrightarrow> one_per_type (oacp_conditions ob'))"

lemma finalizers_only_simps [simp]: "finalizers_only f m m"
  "finalizers_only f m m' \<Longrightarrow> finalizers_only f m (AddFinalizer f m')" "finalizers_only f m m' \<Longrightarrow> finalizers_only f m (RemoveFinalizer f m')"
  by (cases m; cases m'; auto simp: finalizers_only_def AddFinalizer_def RemoveFinalizer_def)+

lemma within_refl [simp]: "within ob ob"
  by (simp add: within_def pull_secret_filled_def)

lemma within_oacp_set [simp]: "within ob ob' \<Longrightarrow> within ob (oacp_set c ob')"
  by (auto simp: within_def one_per_type_def oacp_cond.types_distinct_after_set)

lemma within_setCondition [simp]:
  "within ob ob' \<Longrightarrow> within ob (setConditionTrue t ob')" "within ob ob' \<Longrightarrow> within ob (setConditionFalse t r msg ob')"
  by (simp_all add: setConditionTrue_def setConditionFalse_def)

lemma within_status [simp]: "within ob ob' \<Longrightarrow> st_conditions s = st_conditions (oacp_status ob') \<Longrightarrow> within ob (ob'\<lparr>oacp_status := s\<rparr>)"
  by (simp add: within_def oacp_conditions_def)

lemma within_meta [simp]: "within ob ob' \<Longrightarrow> m' = AddFinalizer oacpFinalizer (oacp_meta ob') \<or> m' = RemoveFinalizer oacpFinalizer (oacp_meta ob') \<Longrightarrow>
    within ob (ob'\<lparr>oacp_meta := m'\<rparr>)"
  by (auto simp: within_def oacp_conditions_def)

lemma within_pull_secret [simp]:
  "within ob ob' \<Longrightarrow> cfg_pullSecretRef (sp_config (oacp_spec ob')) = None \<Longrightarrow>
    within ob (ob'\<lparr>oacp_spec := (oacp_spec ob')\<lparr>sp_config := (sp_config (oacp_spec ob'))\<lparr>cfg_pullSecretRef := Some n\<rparr>\<rparr>\<rparr>)"
  by (auto simp: within_def oacp_conditions_def pull_secret_filled_def)

lemma within_small [simp]:
  assumes "within ob ob'"
  shows "within ob (upgrade_epilogue b msg ob')" "within ob (markKubernetesVersionCondition err ob')" "within ob (set_status_version v ob')"
    "within ob (mark_initialized ob')" "within ob (infra_failed msg ob')" "within ob (replica_conditions n (set_replica_status u r a n ob'))" "within ob (with_summary E ob')"
  using assms by (auto simp: upgrade_epilogue_def setUpgradeStatus_def markKubernetesVersionCondition_def set_status_version_def mark_initialized_def
      infra_failed_def replica_conditions_def set_replica_status_def with_summary_def Let_def split: option.splits)

subsection \<open>The steps of a control plane pass\<close>

text \<open>Every step hands on an object that is within the bounds of the one that was read.\<close>

lemma within_handleDeletion: "within ob ob' \<Longrightarrow> yields (\<lambda>r. within ob (fst r)) (handleDeletion E ob')"
  unfolding handleDeletion_def Let_def by (intro yields_intros) (auto split: option.splits)

lemma within_ensurePullSecret: "within ob ob' \<Longrightarrow> yields (\<lambda>r. within ob (fst r)) (ensurePullSecret E ob')"
  unfolding ensurePullSecret_def Let_def by (intro yields_intros) (auto split: sum.splits)

lemma within_detect_version: "within ob ob' \<Longrightarrow> yields (\<lambda>r. within ob (fst r)) (detect_version E R ob' arch ps)"
  unfolding detect_version_def by (intro yields_intros) (auto simp: Let_def split: sum.splits)

lemma within_upgradeWorkloadCluster: "within ob ob' \<Longrightarrow> yields (\<lambda>r. within ob (fst r)) (upgradeWorkloadCluster E UF cl ob' arch ps)"
  unfolding upgradeWorkloadCluster_def upgrade_decide_def finish_def finish_handled_def by (intro yields_intros) simp_all

lemma within_reconcile_upgrade: "within ob ob' \<Longrightarrow> yields (\<lambda>r. within ob (fst r)) (reconcile_upgrade E UF ob' cl arch ps)"
  unfolding reconcile_upgrade_def
  by (intro yields_if yields_return yields_bind [OF within_upgradeWorkloadCluster] yields_case_prod yields_any) simp_all

lemma within_reconcileMachineLifecycle: "within ob ob' \<Longrightarrow> yields (\<lambda>r. within ob (fst r)) (reconcileMachineLifecycle E CG ob' cl)"
  unfolding reconcileMachineLifecycle_def reconcileEtcdMembers_def Let_def by (intro yields_intros) (auto split: option.splits)

lemma within_createInfraMachine: "within ob ob' \<Longrightarrow> yields (\<lambda>r. within ob (fst r)) (createInfraMachine E ob' name cn cl)"
  unfolding createInfraMachine_def by (intro yields_intros) (auto split: sum.splits)

lemma within_generateMachine: "within ob ob' \<Longrightarrow> yields (\<lambda>r. within ob (fst r)) (generateMachine E ob' name cl fd)"
  unfolding generateMachine_def by (intro yields_bind [OF within_createInfraMachine] yields_return) auto

lemma within_create_for_machine: "within ob ob' \<Longrightarrow> yields (\<lambda>r. within ob (fst r)) (create_for_machine E ob' m i b)"
  unfolding create_for_machine_def by (intro yields_intros) simp_all

lemma within_scaleUp: "within ob ob' \<Longrightarrow> yields (\<lambda>r. within ob (fst r)) (scaleUpControlPlane E ob' cl fd)"
  unfolding scaleUpControlPlane_def
  by (rule yields_any, rule yields_if, rule yields_return, simp, rule yields_any, rule yields_bind [OF within_generateMachine], assumption,
      intro yields_case_sum yields_case_prod yields_any yields_return within_create_for_machine) simp_all

lemma within_updateReplicaStatus: "within ob ob' \<Longrightarrow> yields (within ob) (updateReplicaStatus E ob' ms)"
  unfolding updateReplicaStatus_def Let_def by (intro yields_any yields_return) simp

lemma within_reconcileReplicas: "within ob ob' \<Longrightarrow> yields (\<lambda>r. within ob (fst r)) (reconcileReplicas E order ob' cl)"
  unfolding reconcileReplicas_def Let_def
  apply (rule yields_any, rule yields_case_sum, rule yields_return, simp)
  apply (rule yields_if, rule yields_if, rule yields_return, simp)
   apply (rule yields_bind [OF within_scaleUp [of ob]], simp, rule yields_case_sum, rule yields_return, simp)
   apply (rule yields_bind [OF within_updateReplicaStatus [of ob]], simp, rule yields_return, simp)
  apply (rule yields_if, rule yields_any, rule yields_case_sum, rule yields_return, simp)
   apply (rule yields_bind [OF within_updateReplicaStatus [of ob]], simp, rule yields_return, simp)
  apply (rule yields_bind [OF within_updateReplicaStatus [of ob]], simp, rule yields_return, simp)
  done

lemma within_reconcile_machines: "within ob ob' \<Longrightarrow> yields (\<lambda>r. within ob (fst r)) (reconcile_machines E CG order result ob' cl)"
  unfolding reconcile_machines_def
  by (intro yields_bind [OF within_reconcileMachineLifecycle] yields_case_prod yields_if yields_bind [OF within_reconcileReplicas] yields_return) simp_all

lemma within_reconcile_provisioned: "within ob ob' \<Longrightarrow> yields (\<lambda>r. within ob (fst r)) (reconcile_provisioned E R CG UF order ob' cl)"
  unfolding reconcile_provisioned_def
  apply (rule yields_bind [OF within_ensurePullSecret], assumption)
  apply (rule yields_case_prod, rule yields_if, rule yields_return, simp)
  apply (rule yields_any, rule yields_if, rule yields_return, simp)
  apply (rule yields_any, rule yields_case_sum, rule yields_return, simp)
  apply (rule yields_any, rule yields_case_sum, rule yields_return, simp)
  apply (rule yields_bind [OF within_detect_version], simp)
  apply (rule yields_case_prod, rule yields_case_option)
   apply (rule yields_bind [OF within_reconcile_upgrade], simp)
   apply (rule yields_case_prod, rule yields_case_prod, rule yields_if, rule yields_return, simp)
   apply (rule within_reconcile_machines, simp)
  apply (rule yields_return, simp)
  done

lemma within_reconcile_body: "yields (\<lambda>r. within ob (fst r)) (reconcile_body E R CG UF order ob)"
  unfolding reconcile_body_def reconcile_cluster_def Let_def
  by (intro yields_if yields_bind [OF within_handleDeletion] within_reconcile_provisioned yields_intros) simp_all

lemma within_Reconcile:
  "logs (Reconcile E (NewRemoteImageRepository E) (workload_generator E)
      (NewUpgrader E (workload_generator E) (NewRemoteImageRepository E)) order ns name)
    (\<lambda>r evs. \<exists>x. hd evs = EvGet Mgmt KOACP ns name x \<and> (\<forall>ob. x = Inr (OOACP ob) \<and> k_new_helper E (OOACP ob) = None \<longrightarrow>
       (\<exists>ob' og y. last evs = EvHelperPatch (OOACP ob) (OOACP ob') og y \<and> within ob ob')))"
  unfolding Reconcile_def get_as_def kcall_defs
proof (simp only: prog_simps, intro logs_call_bind logs_intros logs_bind [OF logs_yields [OF one_change_body within_reconcile_body]], goal_cases)
  case (2 x ob b evs y)
  then show ?case by (auto simp: decode_Inr_iff)
qed (auto simp: decode_def split: sum.splits option.splits)

subsection \<open>What a pass may change in a bootstrap config\<close>

definition v1_one_per_type :: "v1_condition list \<Rightarrow> bool" where
  "v1_one_per_type cs \<longleftrightarrow> distinct (List.map vc_type cs)"

lemma v1_replace_types: "List.map vc_type (v1_replace c cs) =
    (if vc_type c \<in> vc_type ` set cs then List.map vc_type cs else List.map vc_type cs @ [vc_type c])"
  by (induction cs) auto

lemma v1_Set_distinct: "v1_one_per_type cs \<Longrightarrow> v1_one_per_type (v1_Set c cs)"
proof -
  have "distinct (List.map vc_type (sort_key v1_less_key xs)) \<longleftrightarrow> distinct (List.map vc_type xs)" for xs
    by (metis distinct_map distinct_sort set_sort)
  then show "v1_one_per_type cs \<Longrightarrow> v1_one_per_type (v1_Set c cs)" by (simp add: v1_one_per_type_def v1_Set_def v1_replace_types)
qed

definition config_within :: "oac \<Rightarrow> oac \<Rightarrow> bool" where
  "config_within c c' \<longleftrightarrow> finalizers_only openshiftAssistedConfigFinalizer (oac_meta c) (oac_meta c') \<and> oac_spec c' = oac_spec c \<and>
     oacs_conditions (oac_status c') = oacs_conditions (oac_status c) \<and>
     (v1_one_per_type (oacs_v1beta1Conditions (oac_status c)) \<longrightarrow> v1_one_per_type (oacs_v1beta1Conditions (oac_status c')))"

lemma config_within_simps [simp]: "config_within c c"
  "config_within c c' \<Longrightarrow> config_within c (MarkTrue t c')" "config_within c c' \<Longrightarrow> config_within c (MarkFalse t r s msg c')"
  "config_within c c' \<Longrightarrow> config_within c (waiting r s c')" "config_within c c' \<Longrightarrow> config_within c (SetSummary E ts c')"
  "config_within c c' \<Longrightarrow> config_within c (c'\<lparr>oac_meta := AddFinalizer openshiftAssistedConfigFinalizer (oac_meta c')\<rparr>)"
  "config_within c c' \<Longrightarrow> config_within c (c'\<lparr>oac_meta := RemoveFinalizer openshiftAssistedConfigFinalizer (oac_meta c')\<rparr>)"
  "config_within c c' \<Longrightarrow> config_within c (c'\<lparr>oac_status := (oac_status c')\<lparr>oacs_dataSecretCreated := b\<rparr>\<rparr>)"
  "config_within c c' \<Longrightarrow> config_within c (c'\<lparr>oac_status := (oac_status c')\<lparr>oacs_dataSecretCreated := b, oacs_dataSecretName := n\<rparr>\<rparr>)"
  by (auto simp: config_within_def MarkTrue_def MarkFalse_def waiting_def SetSummary_def put_v1_conditions_def v1_Set_distinct split: option.splits)

lemma within_publish_ignition: "config_within c c' \<Longrightarrow> yields (\<lambda>r. config_within c (fst r)) (publish_ignition E rc c' ie)"
  unfolding publish_ignition_def by (intro yields_intros) (auto split: sum.splits)

lemma within_ensure_data_secret: "config_within c c' \<Longrightarrow> yields (\<lambda>r. config_within c (fst r)) (ensure_data_secret E rc c' ie)"
  unfolding ensure_data_secret_def by (intro yields_intros within_publish_ignition) simp_all

lemma within_reconcileAssistedResources: "config_within c c' \<Longrightarrow> yields (\<lambda>r. config_within c (fst r)) (reconcileAssistedResources E c' cl m)"
  unfolding reconcileAssistedResources_def by (intro yields_intros) simp_all

lemma within_handleDeletion_config: "config_within c c' \<Longrightarrow> yields (\<lambda>r. config_within c (fst r)) (handleDeletion_config E c' owner m)"
  unfolding handleDeletion_config_def Let_def by (intro yields_intros) simp_all

lemma within_reconcile_config: "config_within c c' \<Longrightarrow> yields (\<lambda>r. config_within c (fst r)) (reconcile_config E rc c' owner m)"
  unfolding reconcile_config_def Let_def
  by (intro yields_if yields_case_sum yields_case_prod yields_return yields_bind [OF within_reconcileAssistedResources [of c]] within_ensure_data_secret yields_any) simp_all

lemma within_bootstrap_body: "yields (\<lambda>r. config_within c (fst r)) (bootstrap_body E rc c)"
  unfolding bootstrap_body_def
  by (intro yields_if yields_case_sum yields_case_option yields_case_prod yields_return yields_bind [OF within_handleDeletion_config [of c]] within_reconcile_config yields_any) simp_all

lemma within_BootstrapReconcile:
  "logs (BootstrapReconcile E rc ns name) (\<lambda>r evs. \<forall>config. hd evs = EvGet Mgmt KOAC ns name (Inr (OOAC config)) \<and> k_new_helper E (OOAC config) = None \<longrightarrow>
     (\<exists>c' og y. last evs = EvHelperPatch (OOAC config) (OOAC c') og y \<and> config_within config c'))"
  unfolding BootstrapReconcile_def get_as_def kcall_defs
proof (simp only: prog_simps, intro logs_call_bind logs_intros logs_bind [OF logs_yields [OF logs_bootstrap_body within_bootstrap_body]], goal_cases)
qed (auto simp: decode_def split: sum.splits option.splits)

subsection \<open>Properties\<close>

text \<open>
  Claim C2. The status is always persisted, and what is persisted is well-formed. Whatever the outside answers and whichever way the pass goes, also when it panics, a pass of the control
  plane controller that read its object ends with the patch of that object. The patch changes only the status, the finalizer of the controller and
  the reference to the pull secret where there was none; the conditions are still one per type, as their list in the CRD requires. The
  observed generation is part of the patch exactly when the pass has no error or panics, and an error of the patch is an error of the pass.
\<close>

theorem Reconcile_patch_well_formed:
  assumes "run_state (Reconcile E (NewRemoteImageRepository E) (workload_generator E)
      (NewUpgrader E (workload_generator E) (NewRemoteImageRepository E)) order ns name) (start s) = (out, w)"
    and "hd (w_trace w) = EvGet Mgmt KOACP ns name (Inr (OOACP ob))" and "k_new_helper E (OOACP ob) = None"
    and "one_per_type (oacp_conditions ob)"
  shows "\<exists>ob' og y. last (w_trace w) = EvHelperPatch (OOACP ob) (OOACP ob') og y \<and> one_per_type (oacp_conditions ob') \<and>
    finalizers_only oacpFinalizer (oacp_meta ob) (oacp_meta ob') \<and> pull_secret_filled (oacp_spec ob) (oacp_spec ob') \<and>
    (\<forall>res err. out = Returned res err \<longrightarrow> (y = None \<longrightarrow> (og \<longleftrightarrow> err = None)) \<and> (y \<noteq> None \<longrightarrow> err \<noteq> None)) \<and> (out = Panicked \<longrightarrow> og)"
proof -
  obtain ob' og y where "last (w_trace w) = EvHelperPatch (OOACP ob) (OOACP ob') og y" "within ob ob'"
    using logs_start [OF within_Reconcile assms(1)] assms(2,3) by auto
  moreover obtain ob2 og2 y2 where "last (w_trace w) = EvHelperPatch (OOACP ob) (OOACP ob2) og2 y2"
    "\<forall>res err. out = Returned res err \<longrightarrow> (y2 = None \<longrightarrow> (og2 \<longleftrightarrow> err = None)) \<and> (y2 \<noteq> None \<longrightarrow> err \<noteq> None)" "out = Panicked \<longrightarrow> og2"
    using logs_start [OF Reconcile_last_patch assms(1)] assms(2,3) by auto
  ultimately show ?thesis using assms(4) by (intro exI [of _ ob'] exI [of _ og] exI [of _ y]) (simp add: within_def)
qed

theorem Reconcile_patch_well_formed_witness:
  "\<exists>ob' og y. last (w_trace (snd pass_run)) = EvHelperPatch (OOACP pass_cp) (OOACP ob') og y \<and> one_per_type (oacp_conditions ob') \<and>
     oacp_spec ob' = oacp_spec pass_cp"
proof -
  obtain out w where run: "pass_run = (out, w)" by (meson surj_pair)
  have "hd (w_trace (snd pass_run)) = EvGet Mgmt KOACP ''ns'' ''cp'' (Inr (OOACP pass_cp))" by (simp add: demo_pass_run del: finalizer_meta)
  moreover have "one_per_type (oacp_conditions pass_cp)" by (simp add: one_per_type_def oacp_conditions_def pass_cp_def empty_oacp_def)
  moreover have "pull_secret_filled (oacp_spec pass_cp) x \<Longrightarrow> x = oacp_spec pass_cp" for x by (simp add: pull_secret_filled_def pass_cp_spec)
  ultimately show ?thesis using Reconcile_patch_well_formed [OF run, of pass_cp] run by (auto simp: demo_pass_fields)
qed

text \<open>
  Claim C13. The bootstrap controller never runs into its own webhook. The patch that ends a pass is an update that \<open>ValidateUpdate\<close> admits:
  it changes the config that was read only in its status and in its own finalizer, leaves the conditions of the new contract alone and keeps those of the
  old one one per type.
\<close>

theorem bootstrap_patch_admitted:
  assumes "run_state (BootstrapReconcile E rc ns name) (start s) = ((rc', res, err), w)"
    and "hd (w_trace w) = EvGet Mgmt KOAC ns name (Inr (OOAC config))" and "k_new_helper E (OOAC config) = None"
    and "v1_one_per_type (oacs_v1beta1Conditions (oac_status config))"
  shows "\<exists>c' og y. last (w_trace w) = EvHelperPatch (OOAC config) (OOAC c') og y \<and> ValidateUpdate config c' = None \<and>
    finalizers_only openshiftAssistedConfigFinalizer (oac_meta config) (oac_meta c') \<and>
    oacs_conditions (oac_status c') = oacs_conditions (oac_status config) \<and> v1_one_per_type (oacs_v1beta1Conditions (oac_status c'))"
  using logs_start [OF within_BootstrapReconcile assms(1)] assms(2-4) by (auto simp: config_within_def ValidateUpdate_def)

theorem bootstrap_patch_admitted_witness:
  "\<exists>rc' w c' og y. run_state (BootstrapReconcile (boot_env new_config) boot_rc ''n'' ''m1'') (start ()) = ((rc', result_zero, None), w) \<and>
     last (w_trace w) = EvHelperPatch (OOAC new_config) (OOAC c') og y \<and> ValidateUpdate new_config c' = None \<and>
     oacs_dataSecretCreated (oac_status c') = Some True"
proof -
  obtain rc' w d where w: "run_state (BootstrapReconcile (boot_env new_config) boot_rc ''n'' ''m1'') (start ()) = ((rc', result_zero, None), w)"
    "hd (w_trace w) = EvGet Mgmt KOAC ''n'' ''m1'' (Inr (OOAC new_config))"
    "last (w_trace w) = EvHelperPatch (OOAC new_config) (OOAC d) True None" "oacs_dataSecretCreated (oac_status d) = Some True" using boot_run by blast
  have "v1_one_per_type (oacs_v1beta1Conditions (oac_status new_config))" by (simp add: v1_one_per_type_def new_config_def empty_oac_status_def)
  from bootstrap_patch_admitted [OF w(1,2) boot_fields(1) this] w show ?thesis by auto
qed

text \<open>
  Claim C31. A client of v1alpha1 erases what v1alpha1 does not know, although the spec is immutable. When such a client reads a config that was never
  written through v1alpha1 and writes it back with its spec as it was read - a change of a label, a finalizer or the status - the webhook of its version
  admits the write, and what it is converted to for storage has the spec of before except that the installer arguments, the commands, their
  directory and kubeconfig and the provider ID are empty. So the stored spec stays the same exactly when they were empty before; the webhook of
  v1alpha2 would have refused that change of the stored object.
\<close>

theorem older_client_erases_fields:
  assumes "m_annotations (oac_meta c) DataAnnotation = None" "ConvertFrom_config J c dst = Some read" "oac1_spec written = oac1_spec read"
  shows "let stored = ConvertTo_config J written hub; spec = oac_spec c in
    ValidateUpdate_v1alpha1 read written = None \<and>
    oac_spec stored = spec\<lparr>oac_installerArgs := [], oac_preBootstrapCommands := [], oac_postBootstrapCommands := [],
      oac_bootstrapCommandSentinelDir := [], oac_postBootstrapKubeconfigPath := [],
      oac_nodeRegistration := (oac_nodeRegistration spec)\<lparr>nr_providerID := []\<rparr>\<rparr> \<and>
    (ValidateUpdate c stored = None \<longleftrightarrow>
      oac_installerArgs spec = [] \<and> oac_preBootstrapCommands spec = [] \<and> oac_postBootstrapCommands spec = [] \<and>
      oac_bootstrapCommandSentinelDir spec = [] \<and> oac_postBootstrapKubeconfigPath spec = [] \<and> nr_providerID (oac_nodeRegistration spec) = [])"
proof -
  have "oac1_spec written = convertBootstrapConfigSpecFromV1Alpha2 (oac_spec c) (oac1_spec dst)"
    using assms(2) unfolding assms(3) by (auto simp: ConvertFrom_config_def UnmarshalData_def assms(1) Let_def)
  then have "oac_spec (ConvertTo_config J written hub) =
      convertBootstrapConfigSpecToV1Alpha2 (convertBootstrapConfigSpecFromV1Alpha2 (oac_spec c) (oac1_spec dst)) empty_oac_spec"
    by (simp add: ConvertTo_config_def)
  then have stored: "oac_spec (ConvertTo_config J written hub) = (oac_spec c)\<lparr>oac_installerArgs := [], oac_preBootstrapCommands := [], oac_postBootstrapCommands := [],
      oac_bootstrapCommandSentinelDir := [], oac_postBootstrapKubeconfigPath := [],
      oac_nodeRegistration := (oac_nodeRegistration (oac_spec c))\<lparr>nr_providerID := []\<rparr>\<rparr>"
    by (cases "oac_spec c"; cases "oac_nodeRegistration (oac_spec c)")
      (simp add: convertBootstrapConfigSpecToV1Alpha2_def convertBootstrapConfigSpecFromV1Alpha2_def empty_oac_spec_def empty_node_registration_def)
  show ?thesis
    unfolding Let_def stored
    by (cases "oac_spec c"; cases "oac_nodeRegistration (oac_spec c)") (auto simp: ValidateUpdate_def ValidateUpdate_v1alpha1_def assms(3) stored)
qed

text \<open>A config with installer arguments, to which a client of v1alpha1 adds a finalizer.\<close>

definition newer_config :: oac where
  "newer_config = empty_hub_config\<lparr>oac_spec := empty_oac_spec\<lparr>oac_installerArgs := [''--append-karg'']\<rparr>\<rparr>"

theorem older_client_erases_fields_witness:
  "\<exists>r. ConvertFrom_config demo_lib newer_config (target1 demo_oac1) = Some r \<and>
     ValidateUpdate_v1alpha1 r (r\<lparr>oac1_meta := AddFinalizer ''f'' (oac1_meta r)\<rparr>) = None \<and>
     oac_installerArgs (oac_spec (ConvertTo_config demo_lib (r\<lparr>oac1_meta := AddFinalizer ''f'' (oac1_meta r)\<rparr>) empty_hub_config)) = [] \<and>
     oac_installerArgs (oac_spec newer_config) \<noteq> []"
proof -
  have a: "m_annotations (oac_meta newer_config) DataAnnotation = None" by (simp add: newer_config_def empty_hub_config_def empty_meta_def)
  obtain r where r: "ConvertFrom_config demo_lib newer_config (target1 demo_oac1) = Some r"
    by (simp add: ConvertFrom_config_def UnmarshalData_def a Let_def)
  show ?thesis
    using older_client_erases_fields [OF a r, of "r\<lparr>oac1_meta := AddFinalizer ''f'' (oac1_meta r)\<rparr>" empty_hub_config] r
    by (simp add: Let_def newer_config_def)
qed

end
