(* ===== verification/Platform.thy ===== *)
theory Platform
  imports GoLib
begin

text \<open>
  What the two managers find out at their start: whether they run on OpenShift (\<open>internal/openshift/openshift.go\<close>) and which TLS settings
  the cluster asks for (\<open>internal/tlsconfig/tlsconfig.go\<close>). Discovery is polled until it answers or the context is cancelled, which may
  never happen, so the poll is a partial function. The discovery client, the client of the API server and the libraries that read profiles and
  build TLS settings are parameters; \<open>'p\<close> is the type of profiles, \<open>'c\<close> that of TLS settings.
\<close>

record ('s, 'p, 'c) platform =
  pf_new_clientset :: "goerr option"
  pf_resources :: "string \<Rightarrow> 's \<Rightarrow> string list res \<times> 's"
  pf_wait :: "'s \<Rightarrow> goerr option \<times> 's"
  pf_install_scheme :: "goerr option"
  pf_new_client :: "goerr option"
  pf_policy :: "'s \<Rightarrow> string res \<times> 's"
  pf_profile :: "'s \<Rightarrow> 'p res \<times> 's"
  pf_honor :: "string \<Rightarrow> bool"
  pf_settings :: "'p \<Rightarrow> 'c \<times> string list"
  pf_default_profile :: 'p

subsection \<open>OpenShift\<close>

text \<open>
  One round of the poll: an answer settles it, and so does the context when it is cancelled before the next round; otherwise it goes on in
  the next state.
\<close>

definition poll_round :: "('s, 'p, 'c) platform \<Rightarrow> 's \<Rightarrow> (bool res \<times> 's) + 's" where
  "poll_round P s = (case pf_resources P ''config.openshift.io/v1'' s of (r, s1) \<Rightarrow> (case r of
     Inr names \<Rightarrow> Inl (Inr (''apiservers'' \<in> set names), s1)
   | Inl e \<Rightarrow> if is_not_found e then Inl (Inr False, s1)
       else (case pf_wait P s1 of (c, s2) \<Rightarrow> (case c of Some e' \<Rightarrow> Inl (Inl (Wrapf ''waiting for API server'' e'), s2) | None \<Rightarrow> Inr s2))))"

partial_function (option) isOpenShiftWithDiscovery :: "('s, 'p, 'c) platform \<Rightarrow> 's \<Rightarrow> (bool res \<times> 's) option" where
  "isOpenShiftWithDiscovery D s = (case poll_round D s of Inl x \<Rightarrow> Some x | Inr s' \<Rightarrow> isOpenShiftWithDiscovery D s')"

definition IsOpenShift :: "('s, 'p, 'c) platform \<Rightarrow> 's \<Rightarrow> (bool res \<times> 's) option" where
  "IsOpenShift P s = (case pf_new_clientset P of
     Some e \<Rightarrow> Some (Inl (Wrapf ''creating kubernetes clientset'' e), s) | None \<Rightarrow> isOpenShiftWithDiscovery P s)"

text \<open>The state after \<open>n\<close> rounds that settled nothing.\<close>

fun unsettled :: "('s, 'p, 'c) platform \<Rightarrow> nat \<Rightarrow> 's \<Rightarrow> 's option" where
  "unsettled P 0 s = Some s"
| "unsettled P (Suc n) s = (case poll_round P s of Inl _ \<Rightarrow> None | Inr s' \<Rightarrow> unsettled P n s')"

lemma poll_settles: "unsettled P n s = Some s' \<Longrightarrow> poll_round P s' = Inl x \<Longrightarrow> isOpenShiftWithDiscovery P s = Some x"
proof (induction n arbitrary: s)
  case 0
  then show ?case by (simp add: isOpenShiftWithDiscovery.simps)
next
  case (Suc n)
  then show ?case by (subst isOpenShiftWithDiscovery.simps) (auto split: sum.splits)
qed

lemma poll_settled: "isOpenShiftWithDiscovery P s = Some x \<Longrightarrow> \<exists>n s'. unsettled P n s = Some s' \<and> poll_round P s' = Inl x"
proof (rule isOpenShiftWithDiscovery.raw_induct [where P = "\<lambda>P s x. \<exists>n s'. unsettled P n s = Some s' \<and> poll_round P s' = Inl x"])
  fix poll and D :: "('s, 'p, 'c) platform" and s x
  assume rec: "\<And>D s x. poll D s = Some x \<Longrightarrow> \<exists>n s'. unsettled D n s = Some s' \<and> poll_round D s' = Inl x"
    and now: "(case poll_round D s of Inl x \<Rightarrow> Some x | Inr s' \<Rightarrow> poll D s') = Some x"
  show "\<exists>n s'. unsettled D n s = Some s' \<and> poll_round D s' = Inl x"
  proof (cases "poll_round D s")
    case (Inl y)
    then show ?thesis using now by (intro exI [of _ 0] exI [of _ s]) simp
  next
    case (Inr s1)
    then obtain n s' where "unsettled D n s1 = Some s'" "poll_round D s' = Inl x" using rec [of D s1 x] now by auto
    then show ?thesis using Inr by (intro exI [of _ "Suc n"] exI [of _ s']) simp
  qed
qed

text \<open>The last of several rounds; a poll that never returns is one of which no round settles it.\<close>

lemma unsettled_Suc: "unsettled P (Suc n) s \<noteq> None \<longleftrightarrow> (\<exists>s' t. unsettled P n s = Some s' \<and> poll_round P s' = Inr t)"
proof (induction n arbitrary: s)
  case (Suc n)
  have "unsettled P (Suc (Suc n)) s = (case poll_round P s of Inl _ \<Rightarrow> None | Inr s' \<Rightarrow> unsettled P (Suc n) s')" by (rule unsettled.simps(2))
  then show ?case using Suc by (cases "poll_round P s") (simp_all del: unsettled.simps(2) add: unsettled.simps(2) [of P n s])
qed (simp split: sum.splits)

lemma never_settled: "(\<forall>x. isOpenShiftWithDiscovery P s \<noteq> Some x) \<longleftrightarrow> (\<forall>n. unsettled P n s \<noteq> None)"
proof
  assume l: "\<forall>x. isOpenShiftWithDiscovery P s \<noteq> Some x"
  show "\<forall>n. unsettled P n s \<noteq> None"
  proof
    fix n show "unsettled P n s \<noteq> None"
    proof (induction n)
      case (Suc n)
      then obtain s' where s': "unsettled P n s = Some s'" by blast
      then obtain t where "poll_round P s' = Inr t" using l poll_settles [OF s'] by (cases "poll_round P s'") auto
      then show ?case using s' unsettled_Suc [of P n s] by auto
    qed simp
  qed
next
  assume r: "\<forall>n. unsettled P n s \<noteq> None"
  show "\<forall>x. isOpenShiftWithDiscovery P s \<noteq> Some x"
  proof (intro allI notI)
    fix x assume "isOpenShiftWithDiscovery P s = Some x"
    from poll_settled [OF this] obtain n s' where "unsettled P n s = Some s'" "poll_round P s' = Inl x" by blast
    moreover have "unsettled P (Suc n) s \<noteq> None" using r by blast
    ultimately show False using iffD1 [OF unsettled_Suc [of P n s]] by auto
  qed
qed

lemma poll_round_Inr: "(\<exists>t. poll_round P s = Inr t) \<longleftrightarrow>
    (\<exists>e s1 s2. pf_resources P ''config.openshift.io/v1'' s = (Inl e, s1) \<and> \<not> is_not_found e \<and> pf_wait P s1 = (None, s2))"
  by (auto simp: poll_round_def split: prod.splits sum.splits option.splits)

lemma poll_round_Inl: "poll_round P s = Inl (r, s2) \<longleftrightarrow> (\<exists>a s1. pf_resources P ''config.openshift.io/v1'' s = (a, s1) \<and> (case a of
      Inr names \<Rightarrow> r = Inr (''apiservers'' \<in> set names) \<and> s2 = s1
    | Inl e \<Rightarrow> if is_not_found e then r = Inr False \<and> s2 = s1
        else (\<exists>e'. pf_wait P s1 = (Some e', s2) \<and> r = Inl (Wrapf ''waiting for API server'' e'))))"
  by (auto simp: poll_round_def split: prod.splits sum.splits option.splits)

text \<open>
  Claim C38. The check for OpenShift returns exactly when a round of its poll settles it, and then with the answer of the first such round: the resource list names
  \<open>apiservers\<close> or does not, the group is not found, or the context is cancelled. It fails to return exactly when every round finds the API server
  unreachable and the context alive.
\<close>

theorem IsOpenShift_returns:
  assumes "pf_new_clientset P = None"
  shows "(\<forall>r s2. IsOpenShift P s = Some (r, s2) \<longleftrightarrow> (\<exists>n s' a s1. unsettled P n s = Some s' \<and> pf_resources P ''config.openshift.io/v1'' s' = (a, s1) \<and> (case a of
      Inr names \<Rightarrow> r = Inr (''apiservers'' \<in> set names) \<and> s2 = s1
    | Inl e \<Rightarrow> if is_not_found e then r = Inr False \<and> s2 = s1
        else (\<exists>e'. pf_wait P s1 = (Some e', s2) \<and> r = Inl (Wrapf ''waiting for API server'' e'))))) \<and>
    (IsOpenShift P s = None \<longleftrightarrow> (\<forall>n. \<exists>s'. unsettled P n s = Some s' \<and> (\<exists>e s1 s2. pf_resources P ''config.openshift.io/v1'' s' = (Inl e, s1) \<and>
      \<not> is_not_found e \<and> pf_wait P s1 = (None, s2))))"
proof -
  have e: "IsOpenShift P s = isOpenShiftWithDiscovery P s" using assms by (simp add: IsOpenShift_def)
  have ret: "IsOpenShift P s = Some x \<longleftrightarrow> (\<exists>n s'. unsettled P n s = Some s' \<and> poll_round P s' = Inl x)" for x
    unfolding e using poll_settles poll_settled by metis
  have "IsOpenShift P s = None \<longleftrightarrow> (\<forall>n. unsettled P n s \<noteq> None)" unfolding e using never_settled [of P s] by (metis not_None_eq)
  also have "\<dots> \<longleftrightarrow> (\<forall>n. unsettled P (Suc n) s \<noteq> None)" by (metis not0_implies_Suc option.distinct(1) unsettled.simps(1))
  also have "\<dots> \<longleftrightarrow> (\<forall>n. \<exists>s'. unsettled P n s = Some s' \<and> (\<exists>t. poll_round P s' = Inr t))" unfolding unsettled_Suc by blast
  finally have none: "IsOpenShift P s = None \<longleftrightarrow> (\<forall>n. \<exists>s'. unsettled P n s = Some s' \<and> (\<exists>t. poll_round P s' = Inr t))" .
  show ?thesis unfolding ret none poll_round_Inl poll_round_Inr by blast
qed

subsection \<open>TLS settings\<close>

record ('p, 'c) TLSConfigResult =
  TLSConfig :: 'c
  TLSAdherencePolicy :: string
  TLSProfileSpec :: 'p

definition DefaultTLSConfig :: "('s, 'p, 'c) platform \<Rightarrow> ('p, 'c) TLSConfigResult" where
  "DefaultTLSConfig P = \<lparr>TLSConfig = fst (pf_settings P (pf_default_profile P)), TLSAdherencePolicy = [], TLSProfileSpec = pf_default_profile P\<rparr>"

definition resolveOpenShiftTLSConfig :: "('s, 'p, 'c) platform \<Rightarrow> 's \<Rightarrow> ('p, 'c) TLSConfigResult res \<times> 's" where
  "resolveOpenShiftTLSConfig P s = (case pf_policy P s of
     (Inl e, s1) \<Rightarrow> (Inl (Wrapf ''fetching TLS adherence policy from APIServer'' e), s1)
   | (Inr policy, s1) \<Rightarrow> (case pf_profile P s1 of
       (Inl e, s2) \<Rightarrow> (Inl (Wrapf ''fetching TLS profile from APIServer'' e), s2)
     | (Inr profile, s2) \<Rightarrow> (Inr (if \<not> pf_honor P policy
           then (DefaultTLSConfig P)\<lparr>TLSAdherencePolicy := policy, TLSProfileSpec := profile\<rparr>
           else \<lparr>TLSConfig = fst (pf_settings P profile), TLSAdherencePolicy = policy, TLSProfileSpec = profile\<rparr>), s2)))"

definition ResolveOpenShiftTLSConfig :: "('s, 'p, 'c) platform \<Rightarrow> 's \<Rightarrow> ('p, 'c) TLSConfigResult res \<times> 's" where
  "ResolveOpenShiftTLSConfig P s = (case pf_install_scheme P of
     Some e \<Rightarrow> (Inl (Wrapf ''registering configv1 scheme'' e), s)
   | None \<Rightarrow> (case pf_new_client P of
       Some e \<Rightarrow> (Inl (Wrapf ''creating controller-runtime client'' e), s) | None \<Rightarrow> resolveOpenShiftTLSConfig P s))"

text \<open>
  A resolved configuration always reports policy and profile of the cluster, so that a watcher that compares them sees no change; its settings
  are those of the profile when the policy asks for it, and those of the default profile otherwise.
\<close>

lemma resolved_tls:
  assumes "resolveOpenShiftTLSConfig P s = (Inr r, s2)"
  obtains policy s1 profile where "pf_policy P s = (Inr policy, s1)" "pf_profile P s1 = (Inr profile, s2)"
    "TLSAdherencePolicy r = policy" "TLSProfileSpec r = profile"
    "TLSConfig r = fst (pf_settings P (if pf_honor P policy then profile else pf_default_profile P))"
  using assms by (auto simp: resolveOpenShiftTLSConfig_def DefaultTLSConfig_def split: prod.splits sum.splits if_splits)

text \<open>A server that is unreachable for three rounds; the state counts them.\<close>

definition slow_start :: "(nat, unit, unit) platform" where
  "slow_start = \<lparr>pf_new_clientset = None, pf_resources = (\<lambda>g n. (if n < 3 then Inl (ApiStatus Conflict) else Inr [''apiservers''], n)), pf_wait = (\<lambda>n. (None, n + 1)),
     pf_install_scheme = None, pf_new_client = None, pf_policy = (\<lambda>s. (Inr [], s)), pf_profile = (\<lambda>s. (Inr (), s)), pf_honor = (\<lambda>p. False),
     pf_settings = (\<lambda>p. ((), [])), pf_default_profile = ()\<rparr>"

theorem IsOpenShift_returns_witness: "IsOpenShift slow_start 0 = Some (Inr True, 3)"
proof -
  have "unsettled slow_start 3 0 = Some 3 \<and> pf_resources slow_start ''config.openshift.io/v1'' 3 = (Inr [''apiservers''], 3)"
    by (simp add: numeral_3_eq_3 poll_round_def slow_start_def)
  moreover have "pf_new_clientset slow_start = None" by (simp add: slow_start_def)
  ultimately show ?thesis using IsOpenShift_returns [of slow_start 0] by fastforce
qed

end
