(* ===== verification/Startup.thy ===== *)
theory Startup
  imports Platform Util
begin

text \<open>
  What the managers do around their controllers: \<open>internal/setup/setup.go\<close> and the parts of the two \<open>main.go\<close> with logic of their own. At the start
  the TLS settings are resolved; a watcher ends the process when they would be resolved differently; the manager of the control plane provider
  puts the labels of Cluster API's contract on the CRDs of the providers. An exit of the process is an error. The watcher itself is vendored
  (\<open>controller-runtime-common/pkg/tls\<close>); its step is \<open>watcher_sees\<close>.
\<close>

subsection \<open>TLS settings\<close>

definition ResolveTLSConfig :: "('s, 'p, 'c) platform \<Rightarrow> bool \<Rightarrow> 's \<Rightarrow> ('p, 'c) TLSConfigResult res \<times> 's" where
  "ResolveTLSConfig P isOpenShift s = (if \<not> isOpenShift then (Inr (DefaultTLSConfig P), s) else ResolveOpenShiftTLSConfig P s)"

text \<open>The steps of \<open>main\<close> up to the TLS settings.\<close>

definition resolve_at_start :: "('s, 'p, 'c) platform \<Rightarrow> 's \<Rightarrow> ((bool \<times> ('p, 'c) TLSConfigResult) res \<times> 's) option" where
  "resolve_at_start P s = (case IsOpenShift P s of
     None \<Rightarrow> None
   | Some (Inl e, s1) \<Rightarrow> Some (Inl e, s1)
   | Some (Inr isOpenShift, s1) \<Rightarrow> (case ResolveTLSConfig P isOpenShift s1 of
       (Inl e, s2) \<Rightarrow> Some (Inl e, s2) | (Inr r, s2) \<Rightarrow> Some (Inr (isOpenShift, r), s2)))"

text \<open>The options of the servers, in the order in which they are applied; \<open>h1\<close> is the option that allows HTTP/1.1 only.\<close>

definition tls_options :: "bool \<Rightarrow> 'c \<Rightarrow> ('p, 'c) TLSConfigResult \<Rightarrow> 'c list" where
  "tls_options enableHTTP2 h1 r = (if enableHTTP2 then [] else [h1]) @ [TLSConfig r]"

subsection \<open>The watcher\<close>

text \<open>A callback is the decision to end the process.\<close>

record 'p tls_watcher =
  InitialTLSAdherencePolicy :: string
  InitialTLSProfileSpec :: 'p
  OnAdherencePolicyChange :: "string \<Rightarrow> string \<Rightarrow> bool"
  OnProfileChange :: "'p \<Rightarrow> 'p \<Rightarrow> bool"

definition SetupSecurityProfileWatcher :: "('s, 'p, 'c) platform \<Rightarrow> ('p, 'c) TLSConfigResult \<Rightarrow> bool \<Rightarrow> goerr option \<Rightarrow> 'p tls_watcher option res" where
  "SetupSecurityProfileWatcher P result isOpenShift register = (if \<not> isOpenShift then Inr None
     else case register of Some e \<Rightarrow> Inl e
     | None \<Rightarrow> Inr (Some \<lparr>InitialTLSAdherencePolicy = TLSAdherencePolicy result, InitialTLSProfileSpec = TLSProfileSpec result,
         OnAdherencePolicyChange = (\<lambda>oldPolicy newPolicy. True),
         OnProfileChange = (\<lambda>oldProfile newProfile. if \<not> pf_honor P (TLSAdherencePolicy result) then False else True)\<rparr>))"

definition watcher_sees :: "'p tls_watcher \<Rightarrow> string \<times> 'p \<Rightarrow> 'p tls_watcher \<times> bool" where
  "watcher_sees W ob = (case ob of (policy, profile) \<Rightarrow>
     let c1 = (InitialTLSProfileSpec W \<noteq> profile \<and> OnProfileChange W (InitialTLSProfileSpec W) profile);
         W1 = W\<lparr>InitialTLSProfileSpec := profile\<rparr>;
         c2 = (InitialTLSAdherencePolicy W1 \<noteq> policy \<and> OnAdherencePolicyChange W1 (InitialTLSAdherencePolicy W1) policy)
     in (W1\<lparr>InitialTLSAdherencePolicy := policy\<rparr>, c1 \<or> c2))"

text \<open>The states of the API server that the watcher sees one after the other; whether the process was told to end.\<close>

fun watched :: "'p tls_watcher \<Rightarrow> (string \<times> 'p) list \<Rightarrow> bool" where
  "watched W [] = False"
| "watched W (ob # obs) = (case watcher_sees W ob of (W', c) \<Rightarrow> if c then True else watched W' obs)"

lemma watched_iff:
  assumes "OnAdherencePolicyChange W = (\<lambda>a b. True)" "OnProfileChange W = (\<lambda>a b. h)"
  shows "watched W obs \<longleftrightarrow> (\<exists>(policy, profile) \<in> set obs. policy \<noteq> InitialTLSAdherencePolicy W \<or> h \<and> profile \<noteq> InitialTLSProfileSpec W)"
  using assms
proof (induction obs arbitrary: W)
  case (Cons ob obs)
  obtain policy profile where ob: "ob = (policy, profile)" by (cases ob)
  have IH: "watched (W\<lparr>InitialTLSProfileSpec := profile, InitialTLSAdherencePolicy := policy\<rparr>) obs \<longleftrightarrow>
      (\<exists>(p, q) \<in> set obs. p \<noteq> policy \<or> h \<and> q \<noteq> profile)"
    using Cons.IH [of "W\<lparr>InitialTLSProfileSpec := profile, InitialTLSAdherencePolicy := policy\<rparr>"] Cons.prems by simp
  show ?case using IH Cons.prems by (auto simp: ob watcher_sees_def Let_def)
qed simp

text \<open>
  Claim C14. A manager that runs has the TLS settings that the cluster asks for. On OpenShift the watcher ends the process exactly when one of the states of the API
  server it sees differs from the one at the start in the policy, or in the profile while the policy asks to honour it; and as long as
  it does not, the settings of the process are those that a fresh start would take for the last state seen.
\<close>

theorem tls_settings_current:
  assumes "resolve_at_start P s = Some (Inr (True, r), s')" "SetupSecurityProfileWatcher P r True None = Inr (Some W)"
  shows "(watched W obs \<longleftrightarrow> (\<exists>(policy, profile) \<in> set obs. policy \<noteq> TLSAdherencePolicy r \<or>
      pf_honor P (TLSAdherencePolicy r) \<and> profile \<noteq> TLSProfileSpec r)) \<and>
    (watched W obs \<or> obs = [] \<or> (\<forall>s1 s2 s3. pf_policy P s1 = (Inr (fst (last obs)), s2) \<and> pf_profile P s2 = (Inr (snd (last obs)), s3) \<longrightarrow>
      (\<exists>r'. resolveOpenShiftTLSConfig P s1 = (Inr r', s3) \<and> TLSConfig r' = TLSConfig r)))"
proof -
  have W: "W = \<lparr>InitialTLSAdherencePolicy = TLSAdherencePolicy r, InitialTLSProfileSpec = TLSProfileSpec r,
      OnAdherencePolicyChange = (\<lambda>a b. True), OnProfileChange = (\<lambda>a b. pf_honor P (TLSAdherencePolicy r))\<rparr>"
    using assms(2) by (auto simp: SetupSecurityProfileWatcher_def)
  have ends: "watched W obs \<longleftrightarrow> (\<exists>(policy, profile) \<in> set obs. policy \<noteq> TLSAdherencePolicy r \<or> pf_honor P (TLSAdherencePolicy r) \<and> profile \<noteq> TLSProfileSpec r)"
    by (subst watched_iff [of W]) (simp_all add: W)
  obtain s0 where "resolveOpenShiftTLSConfig P s0 = (Inr r, s')"
    using assms(1) by (auto simp: resolve_at_start_def ResolveTLSConfig_def ResolveOpenShiftTLSConfig_def split: option.splits sum.splits prod.splits if_splits)
  then obtain policy profile where r: "TLSAdherencePolicy r = policy" "TLSProfileSpec r = profile"
    "TLSConfig r = fst (pf_settings P (if pf_honor P policy then profile else pf_default_profile P))" by (rule resolved_tls)
  have "\<exists>r'. resolveOpenShiftTLSConfig P s1 = (Inr r', s3) \<and> TLSConfig r' = TLSConfig r"
    if "\<not> watched W obs" "obs \<noteq> []" "pf_policy P s1 = (Inr (fst (last obs)), s2)" "pf_profile P s2 = (Inr (snd (last obs)), s3)" for s1 s2 s3
  proof -
    obtain p q where last: "last obs = (p, q)" by (cases "last obs")
    then have "(p, q) \<in> set obs" using last_in_set [OF that(2)] by simp
    then have "p = policy" "pf_honor P policy \<longrightarrow> q = profile" using that(1) r(1,2) unfolding ends by auto
    then show ?thesis using that(3,4) r(3) by (simp add: last resolveOpenShiftTLSConfig_def DefaultTLSConfig_def)
  qed
  with ends show ?thesis by blast
qed

text \<open>A cluster whose policy asks to honour its profile, a number, and changes it.\<close>

definition strict_cluster :: "(unit, nat, nat) platform" where
  "strict_cluster = \<lparr>pf_new_clientset = None, pf_resources = (\<lambda>g s. (Inr [''apiservers''], s)), pf_wait = (\<lambda>s. (None, s)),
     pf_install_scheme = None, pf_new_client = None, pf_policy = (\<lambda>s. (Inr ''StrictAllComponents'', s)), pf_profile = (\<lambda>s. (Inr 1, s)),
     pf_honor = (\<lambda>p. p = ''StrictAllComponents''), pf_settings = (\<lambda>p. (p, [])), pf_default_profile = 0\<rparr>"

theorem tls_settings_current_witness:
  "\<exists>r s' W. resolve_at_start strict_cluster () = Some (Inr (True, r), s') \<and> SetupSecurityProfileWatcher strict_cluster r True None = Inr (Some W) \<and>
     TLSConfig r = 1 \<and> watched W [(''StrictAllComponents'', 1), (''StrictAllComponents'', 2)]"
proof -
  define r :: "(nat, nat) TLSConfigResult" where "r = \<lparr>TLSConfig = 1, TLSAdherencePolicy = ''StrictAllComponents'', TLSProfileSpec = 1\<rparr>"
  then have r: "TLSConfig r = 1" "TLSProfileSpec r = 1" "TLSAdherencePolicy r = ''StrictAllComponents''" by simp_all
  obtain W where start: "resolve_at_start strict_cluster () = Some (Inr (True, r), ())" "SetupSecurityProfileWatcher strict_cluster r True None = Inr (Some W)"
    by (simp add: r_def resolve_at_start_def IsOpenShift_def isOpenShiftWithDiscovery.simps poll_round_def ResolveTLSConfig_def ResolveOpenShiftTLSConfig_def
        resolveOpenShiftTLSConfig_def SetupSecurityProfileWatcher_def strict_cluster_def)
  have "watched W [(''StrictAllComponents'', 1), (''StrictAllComponents'', 2)]"
    using tls_settings_current [OF start, of "[(''StrictAllComponents'', 1), (''StrictAllComponents'', 2)]"] by (simp add: r strict_cluster_def)
  with start r(1) show ?thesis by blast
qed

subsection \<open>Contract labels of the CRDs\<close>

definition crdLabels :: "(string \<times> (string \<times> string) list) list" where
  "crdLabels = [
     (''kubevirtclusters.infrastructure.cluster.x-k8s.io'', [(''cluster.x-k8s.io/v1beta1'', ''v1alpha1''), (''cluster.x-k8s.io/v1beta2'', ''v1alpha1'')]),
     (''kubevirtmachines.infrastructure.cluster.x-k8s.io'', [(''cluster.x-k8s.io/v1beta1'', ''v1alpha1''), (''cluster.x-k8s.io/v1beta2'', ''v1alpha1'')]),
     (''kubevirtmachinetemplates.infrastructure.cluster.x-k8s.io'', [(''cluster.x-k8s.io/v1beta1'', ''v1alpha1''), (''cluster.x-k8s.io/v1beta2'', ''v1alpha1'')]),
     (''openshiftassistedconfigs.bootstrap.cluster.x-k8s.io'', [(''cluster.x-k8s.io/v1beta1'', ''v1alpha2''), (''cluster.x-k8s.io/v1beta2'', ''v1alpha2'')]),
     (''openshiftassistedconfigtemplates.bootstrap.cluster.x-k8s.io'', [(''cluster.x-k8s.io/v1beta1'', ''v1alpha2''), (''cluster.x-k8s.io/v1beta2'', ''v1alpha2'')]),
     (''openshiftassistedcontrolplanes.controlplane.cluster.x-k8s.io'', [(''cluster.x-k8s.io/v1beta1'', ''v1alpha3''), (''cluster.x-k8s.io/v1beta2'', ''v1alpha3'')])]"

fun set_labels :: "(string \<times> string) list \<Rightarrow> labels \<Rightarrow> bool \<Rightarrow> labels \<times> bool" where
  "set_labels [] ls needsUpdate = (ls, needsUpdate)"
| "set_labels ((k, v) # req) ls needsUpdate =
    (if (case ls k of None \<Rightarrow> [] | Some x \<Rightarrow> x) \<noteq> v then set_labels req (ls(k \<mapsto> v)) True else set_labels req ls needsUpdate)"

definition with_crd_labels :: "labels \<Rightarrow> crd \<Rightarrow> crd" where
  "with_crd_labels ls c = c\<lparr>crd_meta := (crd_meta c)\<lparr>m_labels := ls\<rparr>\<rparr>"

definition ensure_crd :: "'s env \<Rightarrow> string \<times> (string \<times> string) list \<Rightarrow> ('s, unit) prog" where
  "ensure_crd E entry = (case entry of (crdName, requiredLabels) \<Rightarrow> do {
     r \<leftarrow> get_as E as_crd Mgmt KCRD [] crdName;
     case r of
       Inl _ \<Rightarrow> ret ()
     | Inr c \<Rightarrow> (case set_labels requiredLabels (m_labels (crd_meta c)) False of (ls, needsUpdate) \<Rightarrow>
         if needsUpdate then do { _ \<leftarrow> kupdate E Mgmt (OCRD (with_crd_labels ls c)); ret () } else ret ()) })"

text \<open>The map is visited in the order \<open>order\<close>; its inner maps in any, which does not matter because their keys differ.\<close>

definition ensureCRDContractLabels :: "'s env \<Rightarrow> ((string \<times> (string \<times> string) list) list \<Rightarrow> (string \<times> (string \<times> string) list) list) \<Rightarrow>
    ('s, goerr option) prog" where
  "ensureCRDContractLabels E order = do { _ \<leftarrow> for_each (ensure_crd E) (order crdLabels); ret None }"

lemma set_labels_all:
  assumes "distinct (List.map fst req)" "\<forall>(k, v) \<in> set req. v \<noteq> []"
  shows "set_labels req ls b = (ls ++ map_of req, b \<or> (\<exists>(k, v) \<in> set req. ls k \<noteq> Some v))"
  using assms
proof (induction req arbitrary: ls b)
  case (Cons e req)
  obtain k v where e: "e = (k, v)" by (cases e)
  have k: "k \<notin> fst ` set req" using Cons.prems(1) by (simp add: e)
  then have kn: "map_of req k = None" by (simp add: map_of_eq_None_iff)
  have swap: "ls(k \<mapsto> v) ++ map_of req = ls ++ map_of (e # req)" using kn
    by (auto simp: e fun_eq_iff map_add_def split: option.splits)
  have same: "ls ++ map_of req = ls ++ map_of (e # req)" if "ls k = Some v"
    using kn that by (auto simp: e fun_eq_iff map_add_def split: option.splits)
  have rest: "(\<exists>(k', v') \<in> set req. (ls(k \<mapsto> v)) k' \<noteq> Some v') \<longleftrightarrow> (\<exists>(k', v') \<in> set req. ls k' \<noteq> Some v')"
    using k by force
  have diff: "(case ls k of None \<Rightarrow> [] | Some x \<Rightarrow> x) \<noteq> v \<longleftrightarrow> ls k \<noteq> Some v" using Cons.prems(2) by (auto simp: e split: option.splits)
  have IH: "set_labels req l b' = (l ++ map_of req, b' \<or> (\<exists>(k, v) \<in> set req. l k \<noteq> Some v))" for l b'
    using Cons.prems by (intro Cons.IH) simp_all
  show ?case
  proof (cases "ls k = Some v")
    case True
    then have "set_labels (e # req) ls b = set_labels req ls b" by (simp add: e)
    also have "\<dots> = (ls ++ map_of (e # req), b \<or> (\<exists>(k, v) \<in> set req. ls k \<noteq> Some v))" unfolding IH same [OF True] ..
    also have "(\<exists>(k, v) \<in> set req. ls k \<noteq> Some v) = (\<exists>(k, v) \<in> set (e # req). ls k \<noteq> Some v)" using True by (simp add: e)
    finally show ?thesis .
  next
    case False
    then have "set_labels (e # req) ls b = set_labels req (ls(k \<mapsto> v)) True" using diff by (simp add: e)
    also have "\<dots> = (ls ++ map_of (e # req), True)" unfolding IH swap by simp
    also have "True = (b \<or> (\<exists>(k, v) \<in> set (e # req). ls k \<noteq> Some v))" using False by (simp add: e)
    finally show ?thesis .
  qed
qed simp

text \<open>A store of CRDs under their names.\<close>

definition crd_store :: "(string \<rightharpoonup> crd) env \<Rightarrow> bool" where
  "crd_store E \<longleftrightarrow> (\<forall>n s. k_get E Mgmt KCRD [] n s = (case s n of None \<Rightarrow> Inl (ApiStatus NotFound) | Some c \<Rightarrow> Inr (OCRD c), s)) \<and>
     (\<forall>c s. k_update E Mgmt (OCRD c) s = (Inr (OCRD c), s(m_name (crd_meta c) \<mapsto> c)))"

definition named :: "(string \<rightharpoonup> crd) \<Rightarrow> bool" where
  "named s \<longleftrightarrow> (\<forall>n c. s n = Some c \<longrightarrow> m_name (crd_meta c) = n)"

definition labelled :: "(string \<times> string) list \<Rightarrow> crd \<Rightarrow> bool" where
  "labelled req c \<longleftrightarrow> (\<forall>(k, v) \<in> set req. m_labels (crd_meta c) k = Some v)"

definition relabel :: "(string \<times> string) list \<Rightarrow> crd \<Rightarrow> crd" where
  "relabel req c = with_crd_labels (m_labels (crd_meta c) ++ map_of req) c"

definition proper :: "(string \<times> string) list \<Rightarrow> bool" where
  "proper req \<longleftrightarrow> distinct (List.map fst req) \<and> (\<forall>(k, v) \<in> set req. v \<noteq> [])"

lemma relabel_labelled: "proper req \<Longrightarrow> labelled req (relabel req c)" "proper req \<Longrightarrow> labelled req c \<Longrightarrow> relabel req c = c"
proof -
  assume "proper req"
  then show "labelled req (relabel req c)" by (auto simp: labelled_def relabel_def with_crd_labels_def proper_def map_add_def)
  assume "labelled req c"
  then have "m_labels (crd_meta c) ++ map_of req = m_labels (crd_meta c)"
    by (force simp: labelled_def map_add_def split: option.splits dest!: map_of_SomeD)
  then show "relabel req c = c" by (simp add: relabel_def with_crd_labels_def)
qed

text \<open>What one entry of the table does to the store.\<close>

lemma ensure_crd_wp:
  assumes "crd_store E" "proper req" "named (w_env w)"
  shows "wp (ensure_crd E (n, req)) (\<lambda>_ w'. w_env w' = (w_env w)(n := map_option (relabel req) (w_env w n)) \<and>
    (\<exists>evs. w_trace w' = w_trace w @ evs \<and> (filter is_write evs = [] \<longleftrightarrow> (\<forall>c. w_env w n = Some c \<longrightarrow> labelled req c)))) w"
proof (cases "w_env w n")
  case None
  then show ?thesis using assms(1)
    by (simp add: ensure_crd_def get_as_def kcall_defs wp_simps crd_store_def fun_upd_idem)
next
  case (Some c)
  have name: "m_name (crd_meta (relabel req c)) = n" using assms(3) Some by (simp add: named_def relabel_def with_crd_labels_def)
  have set: "set_labels req (m_labels (crd_meta c)) False = (m_labels (crd_meta c) ++ map_of req, \<not> labelled req c)"
    using assms(2) by (subst set_labels_all) (auto simp: proper_def labelled_def)
  show ?thesis
  proof (cases "labelled req c")
    case True
    then show ?thesis using assms(1) Some relabel_labelled(2) [OF assms(2) True]
      by (simp add: ensure_crd_def get_as_def kcall_defs wp_simps crd_store_def set fun_upd_idem)
  next
    case False
    then show ?thesis using assms(1) Some name
      by (simp add: ensure_crd_def get_as_def kcall_defs wp_simps crd_store_def set relabel_def)
  qed
qed

definition relabel_all :: "(string \<times> (string \<times> string) list) list \<Rightarrow> (string \<rightharpoonup> crd) \<Rightarrow> string \<rightharpoonup> crd" where
  "relabel_all xs s = (\<lambda>n. case map_of xs n of None \<Rightarrow> s n | Some req \<Rightarrow> map_option (relabel req) (s n))"

definition all_labelled :: "(string \<times> (string \<times> string) list) list \<Rightarrow> (string \<rightharpoonup> crd) \<Rightarrow> bool" where
  "all_labelled xs s \<longleftrightarrow> (\<forall>(n, req) \<in> set xs. \<forall>c. s n = Some c \<longrightarrow> labelled req c)"

lemma named_relabel: "named s \<Longrightarrow> named (s(n := map_option (relabel req) (s n)))"
  by (auto simp: named_def relabel_def with_crd_labels_def)

lemma for_each_crd_wp:
  assumes "crd_store E" "\<forall>(n, req) \<in> set xs. proper req" "distinct (List.map fst xs)" "named (w_env w)"
  shows "wp (for_each (ensure_crd E) xs) (\<lambda>_ w'. w_env w' = relabel_all xs (w_env w) \<and>
    (\<exists>evs. w_trace w' = w_trace w @ evs \<and> (filter is_write evs = [] \<longleftrightarrow> all_labelled xs (w_env w)))) w"
  using assms(2-4)
proof (induction xs arbitrary: w)
  case Nil
  then show ?case by (simp add: wp_simps relabel_all_def all_labelled_def)
next
  case (Cons x xs)
  obtain n req where x: "x = (n, req)" by (cases x)
  have n: "map_of xs n = None" "\<forall>(m, r) \<in> set xs. m \<noteq> n" using Cons.prems(2) by (force simp: x map_of_eq_None_iff)+
  have rest: "wp (for_each (ensure_crd E) xs) (\<lambda>_ w''. w_env w'' = relabel_all (x # xs) (w_env w) \<and>
      (\<exists>evs. w_trace w'' = w_trace w @ evs \<and> (filter is_write evs = [] \<longleftrightarrow> all_labelled (x # xs) (w_env w)))) w'"
    if w': "w_env w' = (w_env w)(n := map_option (relabel req) (w_env w n))" "w_trace w' = w_trace w @ evs"
      "filter is_write evs = [] \<longleftrightarrow> (\<forall>c. w_env w n = Some c \<longrightarrow> labelled req c)" for w' evs
  proof (rule wp_mono [OF Cons.IH])
    show "named (w_env w')" unfolding w'(1) by (rule named_relabel [OF Cons.prems(3)])
    have env: "relabel_all xs (w_env w') = relabel_all (x # xs) (w_env w)"
      using n(1) by (auto simp: relabel_all_def w'(1) x split: option.splits)
    have lab: "all_labelled (x # xs) (w_env w) \<longleftrightarrow> filter is_write evs = [] \<and> all_labelled xs (w_env w')"
    proof -
      have "w_env w' m = w_env w m" if "(m, r) \<in> set xs" for m r using n(2) that by (auto simp: w'(1))
      then have "all_labelled xs (w_env w') \<longleftrightarrow> all_labelled xs (w_env w)" by (force simp: all_labelled_def)
      then show ?thesis unfolding w'(3) by (auto simp: all_labelled_def x)
    qed
    fix a w'' assume r: "w_env w'' = relabel_all xs (w_env w') \<and> (\<exists>evs. w_trace w'' = w_trace w' @ evs \<and> (filter is_write evs = [] \<longleftrightarrow> all_labelled xs (w_env w')))"
    then obtain evs' where "w_trace w'' = w_trace w' @ evs'" "filter is_write evs' = [] \<longleftrightarrow> all_labelled xs (w_env w')" by blast
    then show "w_env w'' = relabel_all (x # xs) (w_env w) \<and>
        (\<exists>evs. w_trace w'' = w_trace w @ evs \<and> (filter is_write evs = [] \<longleftrightarrow> all_labelled (x # xs) (w_env w)))"
      using r env lab w'(2) by (intro conjI exI [of _ "evs @ evs'"]) simp_all
  qed (use Cons.prems in \<open>simp_all add: x\<close>)
  show ?case
    unfolding for_each.simps wp_bind wp_return x
  proof (rule wp_mono [OF ensure_crd_wp [OF assms(1)]])
    show "proper req" "named (w_env w)" using Cons.prems by (simp_all add: x)
    fix a :: unit and w' :: "(string \<rightharpoonup> crd, event) world"
    assume "w_env w' = (w_env w)(n := map_option (relabel req) (w_env w n)) \<and> (\<exists>evs. w_trace w' = w_trace w @ evs \<and>
      (filter is_write evs = [] \<longleftrightarrow> (\<forall>c. w_env w n = Some c \<longrightarrow> labelled req c)))"
    then show "wp (for_each (ensure_crd E) xs) (\<lambda>a w''. w_env w'' = relabel_all ((n, req) # xs) (w_env w) \<and>
      (\<exists>evs. w_trace w'' = w_trace w @ evs \<and> (filter is_write evs = [] \<longleftrightarrow> all_labelled ((n, req) # xs) (w_env w)))) w'"
      using rest unfolding x by blast
  qed
qed

lemma crdLabels_proper: "\<forall>(n, req) \<in> set crdLabels. proper req" "distinct (List.map fst crdLabels)"
  by (simp_all add: crdLabels_def proper_def)

text \<open>
  Claim C32. On a store of CRDs, in whatever order the table is visited, every CRD of the table that exists gets the labels of the table, keeps its other labels and everything
  else, and no other CRD is touched; nothing is written exactly when all labels are there already, so a second start writes nothing.
\<close>

theorem ensureCRDContractLabels_labels:
  assumes "crd_store E" "named s" "distinct (List.map fst (order crdLabels))" "set (order crdLabels) = set crdLabels"
    and "run_state (ensureCRDContractLabels E order) (start s) = (err, w)"
  shows "err = None \<and> w_env w = relabel_all crdLabels s \<and> (filter is_write (w_trace w) = [] \<longleftrightarrow> all_labelled crdLabels s) \<and>
    all_labelled crdLabels (w_env w)"
proof -
  have same: "map_of (order crdLabels) = map_of crdLabels"
    using assms(3,4) crdLabels_proper(2) by (simp add: map_of_inject_set)
  have "wp (ensureCRDContractLabels E order) (\<lambda>r w. r = None \<and> w_env w = relabel_all crdLabels s \<and> (filter is_write (w_trace w) = [] \<longleftrightarrow> all_labelled crdLabels s)) (start s)"
    unfolding ensureCRDContractLabels_def wp_simps
    by (rule wp_mono [OF for_each_crd_wp [OF assms(1) _ assms(3)]])
      (use assms(2,4) crdLabels_proper(1) same in \<open>auto simp: relabel_all_def all_labelled_def start_def\<close>)
  then have r: "err = None \<and> w_env w = relabel_all crdLabels s \<and> (filter is_write (w_trace w) = [] \<longleftrightarrow> all_labelled crdLabels s)"
    by (rule wpD [OF _ assms(5)])
  have "all_labelled crdLabels (relabel_all crdLabels s)"
    using crdLabels_proper relabel_labelled(1) by (fastforce simp: all_labelled_def relabel_all_def)
  with r show ?thesis by simp
qed

text \<open>A store with one CRD, without labels.\<close>

definition bare_crd :: crd where
  "bare_crd = \<lparr>crd_meta = empty_meta\<lparr>m_name := ''openshiftassistedconfigs.bootstrap.cluster.x-k8s.io''\<rparr>\<rparr>"

definition crd_env :: "(string \<rightharpoonup> crd) env" where
  "crd_env = nowhere\<lparr>k_get := (\<lambda>c k ns n s. (case s n of None \<Rightarrow> Inl (ApiStatus NotFound) | Some ob \<Rightarrow> Inr (OCRD ob), s)),
     k_update := (\<lambda>c ob s. (Inr ob, case as_crd ob of None \<Rightarrow> s | Some d \<Rightarrow> s(m_name (crd_meta d) \<mapsto> d)))\<rparr>"

theorem ensureCRDContractLabels_labels_witness:
  "\<exists>err w. run_state (ensureCRDContractLabels crd_env rev) (start [m_name (crd_meta bare_crd) \<mapsto> bare_crd]) = (err, w) \<and>
     map_option (\<lambda>c. m_labels (crd_meta c) ''cluster.x-k8s.io/v1beta1'') (w_env w (m_name (crd_meta bare_crd))) = Some (Some ''v1alpha2'')"
proof -
  let ?s = "[m_name (crd_meta bare_crd) \<mapsto> bare_crd]"
  obtain err w where run: "run_state (ensureCRDContractLabels crd_env rev) (start ?s) = (err, w)" by (meson surj_pair)
  have store: "crd_store crd_env" by (simp add: crd_store_def crd_env_def)
  have named: "named ?s" by (simp add: named_def)
  have keys: "distinct (List.map fst (rev crdLabels))" "set (rev crdLabels) = set crdLabels"
    using crdLabels_proper(2) by (simp_all add: rev_map [symmetric])
  from ensureCRDContractLabels_labels [OF store named keys run]
  have "w_env w = relabel_all crdLabels ?s" by simp
  then have "map_option (\<lambda>c. m_labels (crd_meta c) ''cluster.x-k8s.io/v1beta1'') (w_env w (m_name (crd_meta bare_crd))) = Some (Some ''v1alpha2'')"
    by (simp add: relabel_all_def crdLabels_def relabel_def with_crd_labels_def bare_crd_def)
  with run show ?thesis by blast
qed

end
