(* ===== verification/Spec2Isabelle.thy ===== *)
theory Spec2Isabelle
  imports Passes Approval BootstrapConfig ClusterInstall ImageRegistry InstallConfig KubeVirtStep GoldenProgress Recovery Admission Startup
begin

text \<open>
  A model of the Cluster API providers for OpenShift (the control plane and the bootstrap provider of
  \<open>cluster-api-provider-openshift-assisted\<close>), written in Go, with the properties that make it correct.

  \<^bold>\<open>The program.\<close> Two controller managers watch objects in a management cluster. The control plane
  provider (\<open>src/controlplane\<close>) turns an \<open>OpenshiftAssistedControlPlane\<close> into a ClusterDeployment, an
  AgentClusterInstall and a number of machines, keeps the number of machines, retires etcd members of
  machines that go away, and upgrades the workload cluster. The bootstrap provider
  (\<open>src/bootstrap\<close>) turns each \<open>OpenshiftAssistedConfig\<close> into an InfraEnv and a bootstrap secret and
  approves the agents that register. Both talk to the API server of the management cluster, to
  those of workload clusters, to etcd through port forwards and to the registry of release images.

  \<^bold>\<open>How it is modelled.\<close> The world outside the program is a record of functions (\<open>env\<close> in Environment): the
  calls of the Kubernetes client, of etcd, of the registry and of the libraries that are not part of
  the source. Each is a function of its arguments and of an arbitrary state \<open>'s\<close>, so nothing is
  assumed about what the servers answer or how they change. A handler is a program of the state
  monad (\<open>prog\<close> in Prelude) over a world that holds this state and the trace of the calls made so far, with their
  answers (\<open>event\<close>). Errors are values of \<open>goerr\<close>; a function with a Go result \<open>(x, error)\<close> returns a
  sum, one that fills in an object returns the changed object. Properties speak about the
  result and the trace: \<open>logs m R\<close> says that every run of \<open>m\<close> relates its result and the events it adds by \<open>R\<close>,
  \<open>emits P m\<close> that every added event satisfies \<open>P\<close>; both come with rules for each construct, so that a proof about
  a handler follows its text.

  \<^bold>\<open>Conventions.\<close> Names are those of the source where Isabelle allows it. Strings are lists of
  characters and stand for bytes; integers have the width they have in Go (\<open>int32\<close> and \<open>uint64\<close> are words), \<open>int\<close>
  stands for Go's 64 bit numbers where they cannot overflow (sizes of lists). The text of an error keeps the constant
  part of its format string and the wrapped error; \<open>Wrapf\<close> is \<open>%w\<close> and
  keeps the identity of the wrapped error, \<open>Opaquef\<close> is \<open>%v\<close> and loses it. Loops over lists are recursive functions
  or \<open>for_each\<close>; the iteration order of a Go map is either a parameter or irrelevant, and
  proved to be so. Contexts, deadlines (other than as error answers), logging and transition
  times of conditions are not modelled. Unstructured objects are JSON values.

  \<^bold>\<open>Theories and sources.\<close>
  \<^item> Prelude, GoLib: programs, errors, results of reconcilers; the functions of Go's standard library that the source uses on strings and numbers.
  \<^item> Encoding: base64, data URLs (\<open>pkg/ignition/helpers.go\<close>), JSON text, FNV-1a.
  \<^item> ApiTypes: the objects of both API groups and the Kubernetes objects the program reads, cut to the fields it uses.
  \<^item> Environment: the environment, the events, the calls.
  \<^item> Etcd: \<open>controlplane/internal/workloadclient/etcd.go\<close>, all of it.
  \<^item> Conditions: lists of conditions, \<open>setConditionTrue\<close> and \<open>setConditionFalse\<close>; a locale for the objects that carry conditions.
  \<^item> Semver: the vendored parser and order of versions. Images, Release: \<open>pkg/containers\<close>, \<open>controlplane/internal/release\<close>, \<open>controlplane/internal/version\<close>; a locale for image repositories.
  \<^item> Util: \<open>util/util.go\<close>, owners, finalizers, pull secrets. WorkloadClient: the client generator of \<open>workloadclient\<close> with a locale of what it promises.
  \<^item> Upgrade: \<open>controlplane/internal/upgrade/upgrade.go\<close> with a locale of what an upgrader promises.
  \<^item> Machines: collections of machines and failure domains (\<open>util/failuredomains\<close>). UpgradePolicy, EtcdLifecycle, Scaling, ControlPlane: the parts of \<open>openshiftassistedcontrolplane_controller.go\<close>.
  \<^item> KubeVirt: networking, services, DNS forwarding and ignition overrides of \<open>controlplane/internal/kubevirt\<close>.
  \<^item> Passes: whole passes of the control plane controller.
  \<^item> Json, Net: the readers of Go's standard library for JSON, IP addresses, CIDR blocks, URLs and query strings, with what they read back of what the program prints.
  \<^item> Ignition: \<open>pkg/ignition/helpers.go\<close> and \<open>bootstrap/internal/ignition/ignition.go\<close>, units and scripts byte for byte.
  \<^item> AgentController: \<open>bootstrap/internal/controller/agent_controller.go\<close>. Approval: the same controller on a store of objects, where it refines an abstract approval step.
  \<^item> AssistedInstaller: \<open>assistedinstaller\<close>, the InfraEnv of a config, the ignition URL and the HTTP client.
  \<^item> BootstrapConfig: \<open>bootstrap/internal/controller/openshiftassistedconfig_controller.go\<close>, from the owner lookup to the data secret and the deletion.
  \<^item> ClusterInstall: \<open>agentclusterinstall_controller.go\<close>, the kubeconfig of the workload cluster and the status of the control plane.
  \<^item> ImageRegistry: \<open>imageregistry/image_registry.go\<close>, from \<open>registries.conf\<close> to the manifests of a mirror registry.
  \<^item> InstallConfig: the install config override of \<open>clusterdeployment_controller.go\<close>, capabilities and the merge of JSON objects. ClusterDeployment: the rest of that controller, with a locale of what its step for KubeVirt clusters promises.
  \<^item> TenantManifests, CCMManifests, CSIManifests: the manifests of a KubeVirt tenant (\<open>manifests.go\<close>, \<open>dns.go\<close>, \<open>ccm_manifests.go\<close>, \<open>csi_manifests.go\<close> of \<open>controlplane/internal/kubevirt\<close>) byte for byte. BlockScalar: the scanner of literal and folded blocks of the vendored YAML library (\<open>vendor/go.yaml.in/yaml/v2/scannerc.go\<close>), and what it finds in the text that the manifests embed. TenantInstall: the ConfigMaps that carry them and the credentials (\<open>configmap.go\<close>, \<open>credentials.go\<close>, \<open>release_images.go\<close>).
  \<^item> TenantInfra: clients, routes, proxies and the bootstrap node (\<open>infra_client.go\<close>, \<open>route.go\<close>, \<open>mcs_proxy.go\<close>, \<open>dns_proxy.go\<close>, \<open>bootstrap.go\<close>, \<open>validation.go\<close>). GoldenImage: the volume with the operating system (\<open>rhcos_image.go\<close>), with the dates of Go's \<open>time\<close> package in Calendar. GoldenProgress: the same operation against a store of objects, with the machine it implements there.
  \<^item> StructJson, Durations: Go structs as JSON objects by their tags, read over existing values. ConversionTypes, Conversion: the older API versions (\<open>controlplane/api/v1alpha2\<close>, \<open>bootstrap/api/v1alpha1\<close>) and \<open>conversion.go\<close> of both.
  \<^item> Recovery: the recovery of virtual machines that missed their ignition config (\<open>recovery.go\<close>). Platform, Startup: the check for OpenShift and the TLS settings (\<open>internal/openshift\<close>, \<open>internal/tlsconfig\<close>), the watcher that keeps them current (\<open>internal/setup\<close>), and the steps of \<open>main.go\<close> that decide something. Admission: the webhooks of bootstrap configs, and what the patches of both controllers may change.
  \<^item> KubeVirtStep: the KubeVirt step of the ClusterDeployment controller; it interprets the locale of ClusterDeployment and carries the order of a whole pass.

  \<^bold>\<open>What the lemmas show.\<close> Per component the functional behaviour of the operations on every branch; for the
  handlers what they write and when: etcd members and hooks are retired only when it is safe, the number of machines changes by
  one at a time towards the wanted number, objects created by a scale up that fails are deleted again, upgrades
  are pushed only forward, the finalizer goes last, and the object is always patched at the end of a pass.
  For the bootstrap provider: data secrets are announced only when they exist and hold what the assisted service answered,
  InfraEnvs are created once, under the machine that owns the config, and only for machines that may join; an agent is approved
  exactly when no other agent listed for its InfraEnv is (so at most one ever is, where lists are current),
  the ignition texts read back as what they were built from, and the two controllers find each other's objects.
  For the installation: the AgentClusterInstall is written only after what it refers to is in the store, on KubeVirt the generated manifests included (with one exception, a finding), its mutation settles
  and respects a running installation, the override and the mirrors arrive unchanged, and the status of the control plane is truthful.
  The image volume is ready only when an import succeeded, and does get ready when its jobs succeed; what the cooldown of a failed import holds back, and what it does not, is stated. Objects of the older API versions come
  back from the stored version as they were written; what that costs when the stored version is edited is a theorem too.
  Every patch of the controllers is one that the webhooks and the CRDs admit, for every answer of the outside; a client of v1alpha1 is admitted too, and erases what its version does not know. A virtual machine is recovered only when it is
  old enough and not too often. A process ends when its TLS settings are out of date, and otherwise they are current.
  A few theorems pin down behaviour that is surprising; they are recorded as findings of the manifest.

  \<^bold>\<open>Bounds.\<close> Symbolic links in an image are followed to the depth the code fixes, conflicts are retried as
  often as the code does, and every other loop is bounded by its list, so no fuel is needed. The image volume is ready after at most four passes of jobs that succeed, with one more for each job that had failed before. The YAML scanner
  consumes its input in every round of its loops.
  The check for OpenShift polls until it gets an answer and may never return: it is a partial function, with a theorem that says exactly when it does.
  The JSON reader recurses on a counter; \<open>parse_json\<close> starts it with twice the length of the
  text, and \<open>p_value_enough\<close> shows that more never changes the answer.

  \<^bold>\<open>Not modelled.\<close> Of the two \<open>main.go\<close>, the parsing of flags and the construction of the manager with its controllers, webhooks and health checks: calls of
  libraries in a fixed order. Generated code: deep copies, which are the identity where nothing is shared, and the mocks of the tests. Of the YAML library, all but the scanner of blocks: the texts that are read back are printable ASCII, which its reader of bytes passes on unchanged. The registration of API types with
  their scheme, the log levels and the helpers of tests. Of the controllers, the registration of their watches; the functions that map a watched object to requests are modelled.
  Concurrency of passes: each controller runs one pass per object at a time, and a pass is modelled against an environment that may change between any two calls.
\<close>

end
